(* ===== verification/Prelude.thy ===== *)
theory Prelude
  imports Main "HOL-Library.Char_ord" "HOL-Library.List_Lexorder" "HOL-Library.Sublist"
begin

text \<open>
  Shared vocabulary of the development: the parts of Go's \<open>strings\<close> package the code uses,
  over byte strings (a Go string is a sequence of bytes, modelled as a \<open>char list\<close>), the
  generic facts on lists and options that the component theories share, and the lemma
  collections they fill.

  \<^item> \<open>go_strings\<close>: facts on the string functions, declared as they are proved;
  \<^item> \<open>sql_rows\<close>: facts on row selection and row update, used by every theory that models
    a table.
\<close>

named_theorems go_strings
named_theorems sql_rows

section \<open>Byte strings as Go's strings package handles them\<close>

definition HasPrefix :: "string \<Rightarrow> string \<Rightarrow> bool" where
  "HasPrefix s p \<longleftrightarrow> take (length p) s = p"

definition HasSuffix :: "string \<Rightarrow> string \<Rightarrow> bool" where
  "HasSuffix s p \<longleftrightarrow> length p \<le> length s \<and> drop (length s - length p) s = p"

definition TrimPrefix :: "string \<Rightarrow> string \<Rightarrow> string" where
  "TrimPrefix s p = (if HasPrefix s p then drop (length p) s else s)"

definition TrimSuffix :: "string \<Rightarrow> string \<Rightarrow> string" where
  "TrimSuffix s p = (if HasSuffix s p then take (length s - length p) s else s)"

definition CutPrefix :: "string \<Rightarrow> string \<Rightarrow> string \<times> bool" where
  "CutPrefix s p = (if HasPrefix s p then (drop (length p) s, True) else (s, False))"

lemma HasPrefix_iff: "HasPrefix s p \<longleftrightarrow> (\<exists>r. s = p @ r)"
  unfolding HasPrefix_def by (metis append_eq_conv_conj append_take_drop_id)

text \<open>\<open>Index\<close>: the offset of the first occurrence of the separator, if any.\<close>

fun Index :: "string \<Rightarrow> string \<Rightarrow> nat option" where
  "Index [] p = (if p = [] then Some 0 else None)"
| "Index (x # xs) p =
     (if HasPrefix (x # xs) p then Some 0 else map_option Suc (Index xs p))"

definition Contains :: "string \<Rightarrow> string \<Rightarrow> bool" where
  "Contains s p \<longleftrightarrow> Index s p \<noteq> None"

text \<open>\<open>strings.Cut\<close>: the text before and after the first separator, and whether it was found.\<close>

definition Cut :: "string \<Rightarrow> string \<Rightarrow> string \<times> string \<times> bool" where
  "Cut s sep =
     (case Index s sep of
        Some i \<Rightarrow> (take i s, drop (i + length sep) s, True)
      | None \<Rightarrow> (s, [], False))"

text \<open>\<open>strings.Split\<close> on a one-byte separator: \<open>n\<close> separators give \<open>n + 1\<close> parts.\<close>

fun SplitOn :: "char \<Rightarrow> string \<Rightarrow> string list" where
  "SplitOn c [] = [[]]"
| "SplitOn c (x # xs) =
     (if x = c then [] # SplitOn c xs
      else case SplitOn c xs of [] \<Rightarrow> [[x]] | p # ps \<Rightarrow> (x # p) # ps)"

fun Join :: "string list \<Rightarrow> string \<Rightarrow> string" where
  "Join [] sep = []"
| "Join [x] sep = x"
| "Join (x # y # xs) sep = x @ sep @ Join (y # xs) sep"

definition ContainsAny :: "string \<Rightarrow> string \<Rightarrow> bool" where
  "ContainsAny s cs \<longleftrightarrow> (\<exists>c \<in> set s. c \<in> set cs)"

text \<open>
  \<open>strings.TrimSpace\<close> removes the runes \<open>unicode.IsSpace\<close> accepts from both ends; these are
  their UTF-8 encodings.
\<close>

definition space_runes :: "string list" where
  "space_runes =
     [[CHR 0x09], [CHR 0x0A], [CHR 0x0B], [CHR 0x0C], [CHR 0x0D], [CHR 0x20],
      [CHR 0xC2, CHR 0x85], [CHR 0xC2, CHR 0xA0], [CHR 0xE1, CHR 0x9A, CHR 0x80],
      [CHR 0xE2, CHR 0x80, CHR 0x80], [CHR 0xE2, CHR 0x80, CHR 0x81], [CHR 0xE2, CHR 0x80, CHR 0x82],
      [CHR 0xE2, CHR 0x80, CHR 0x83], [CHR 0xE2, CHR 0x80, CHR 0x84], [CHR 0xE2, CHR 0x80, CHR 0x85],
      [CHR 0xE2, CHR 0x80, CHR 0x86], [CHR 0xE2, CHR 0x80, CHR 0x87], [CHR 0xE2, CHR 0x80, CHR 0x88],
      [CHR 0xE2, CHR 0x80, CHR 0x89], [CHR 0xE2, CHR 0x80, CHR 0x8A], [CHR 0xE2, CHR 0x80, CHR 0xA8],
      [CHR 0xE2, CHR 0x80, CHR 0xA9], [CHR 0xE2, CHR 0x80, CHR 0xAF], [CHR 0xE2, CHR 0x81, CHR 0x9F],
      [CHR 0xE3, CHR 0x80, CHR 0x80]]"

text \<open>Drop leading runes of a set until none is left; every rune of the set is a non-empty string.\<close>

function drop_runes :: "string list \<Rightarrow> string \<Rightarrow> string" where
  "drop_runes rs s =
     (case find (\<lambda>r. r \<noteq> [] \<and> HasPrefix s r) rs of
        None \<Rightarrow> s
      | Some r \<Rightarrow> drop_runes rs (drop (length r) s))"
  by pat_completeness auto
termination
  by (relation "measure (\<lambda>(rs, s). length s)")
     (auto simp: find_Some_iff HasPrefix_iff)

declare drop_runes.simps [simp del]

definition TrimSpace :: "string \<Rightarrow> string" where
  "TrimSpace s = rev (drop_runes (map rev space_runes) (rev (drop_runes space_runes s)))"

definition Trim :: "string \<Rightarrow> string \<Rightarrow> string" where
  "Trim s cs = rev (dropWhile (\<lambda>c. c \<in> set cs) (rev (dropWhile (\<lambda>c. c \<in> set cs) s)))"

text \<open>\<open>strings.ToLower\<close> on ASCII bytes; bytes above 0x7F are left alone.\<close>

definition lower_char :: "char \<Rightarrow> char" where
  "lower_char c =
     (let n = (of_char c :: nat) in if 65 \<le> n \<and> n \<le> 90 then char_of (n + 32) else c)"

definition ToLower :: "string \<Rightarrow> string" where
  "ToLower s = map lower_char s"

definition EqualFold :: "string \<Rightarrow> string \<Rightarrow> bool" where
  "EqualFold a b \<longleftrightarrow> ToLower a = ToLower b"

subsection \<open>Facts on the string functions\<close>

lemma HasPrefix_append [simp, go_strings]: "HasPrefix (p @ r) p"
  by (auto simp: HasPrefix_iff)

lemma HasPrefix_Nil [simp, go_strings]: "HasPrefix s []"
  by (simp add: HasPrefix_def)

lemma TrimPrefix_append [simp, go_strings]: "TrimPrefix (p @ r) p = r"
  by (simp add: TrimPrefix_def)

lemma CutPrefix_append [simp, go_strings]: "CutPrefix (p @ r) p = (r, True)"
  by (simp add: CutPrefix_def)

lemma CutPrefix_True [go_strings]: "CutPrefix s p = (r, True) \<longleftrightarrow> s = p @ r"
  by (auto simp: CutPrefix_def HasPrefix_def) (metis append_take_drop_id)

lemma HasSuffix_append [simp, go_strings]: "HasSuffix (r @ p) p"
  by (simp add: HasSuffix_def)

lemma Index_Some:
  "Index s p = Some i \<Longrightarrow> s = take i s @ p @ drop (i + length p) s"
proof (induction s arbitrary: i)
  case Nil
  then show ?case by (simp split: if_splits)
next
  case (Cons x xs)
  show ?case
  proof (cases "HasPrefix (x # xs) p")
    case True
    with Cons.prems have "i = 0" by simp
    moreover from True obtain r where "x # xs = p @ r" by (auto simp: HasPrefix_iff)
    ultimately show ?thesis by simp
  next
    case False
    with Cons.prems obtain j where "Index xs p = Some j" "i = Suc j" by auto
    with Cons.IH show ?thesis by fastforce
  qed
qed

lemma Cut_True: "Cut s sep = (a, b, True) \<Longrightarrow> s = a @ sep @ b"
  by (auto simp: Cut_def split: option.splits dest: Index_Some)

lemma Index_single:
  "Index s [c] = (if c \<in> set s then Some (length (takeWhile (\<lambda>x. x \<noteq> c) s)) else None)"
  by (induction s) (auto simp: HasPrefix_def)

lemma Cut_single:
  "Cut s [c] =
     (if c \<in> set s
      then (takeWhile (\<lambda>x. x \<noteq> c) s, drop (Suc (length (takeWhile (\<lambda>x. x \<noteq> c) s))) s, True)
      else (s, [], False))"
  by (simp add: Cut_def Index_single takeWhile_eq_take [symmetric])

lemma Cut_single_append [go_strings]:
  "c \<notin> set a \<Longrightarrow> Cut (a @ c # b) [c] = (a, b, True)"
proof -
  assume c: "c \<notin> set a"
  then have "takeWhile (\<lambda>x. x \<noteq> c) (a @ c # b) = a"
    by (induction a) auto
  then show ?thesis by (simp add: Cut_single)
qed

lemma SplitOn_not_Nil [simp]: "SplitOn c s \<noteq> []"
  by (induction s) (auto split: list.splits)

lemma Join_SplitOn: "Join (SplitOn c s) [c] = s"
proof (induction s)
  case (Cons x xs)
  obtain p ps where "SplitOn c xs = p # ps"
    by (cases "SplitOn c xs") auto
  with Cons show ?case by (cases ps) auto
qed simp

lemma SplitOn_no_sep: "p \<in> set (SplitOn c s) \<Longrightarrow> c \<notin> set p"
  by (induction s arbitrary: p) (auto split: list.splits if_splits)

section \<open>Rows of a table\<close>

text \<open>
  A table is the list of its rows. \<open>UPDATE t SET f WHERE P\<close> is \<open>update_where P f\<close>;
  \<open>RowsAffected\<close> and \<open>count(*)\<close> are \<open>count_where P\<close>; a lookup by a key is \<open>find\<close>.
\<close>

definition update_where :: "('a \<Rightarrow> bool) \<Rightarrow> ('a \<Rightarrow> 'a) \<Rightarrow> 'a list \<Rightarrow> 'a list" where
  "update_where P f rows = map (\<lambda>r. if P r then f r else r) rows"

definition count_where :: "('a \<Rightarrow> bool) \<Rightarrow> 'a list \<Rightarrow> nat" where
  "count_where P rows = length (filter P rows)"

lemma update_where_Nil [simp]: "update_where P f [] = []"
  by (simp add: update_where_def)

lemma update_where_Cons [simp]:
  "update_where P f (r # rs) = (if P r then f r else r) # update_where P f rs"
  by (simp add: update_where_def)

lemma update_where_append [simp]:
  "update_where P f (xs @ ys) = update_where P f xs @ update_where P f ys"
  by (simp add: update_where_def)

lemma length_update_where [simp]: "length (update_where P f rows) = length rows"
  by (simp add: update_where_def)

lemma set_update_where:
  "set (update_where P f rows) = {r \<in> set rows. \<not> P r} \<union> f ` {r \<in> set rows. P r}"
  by (auto simp: update_where_def)

lemma in_update_whereE [elim]:
  assumes "r \<in> set (update_where P f rows)"
  obtains (old) "r \<in> set rows" "\<not> P r" | (new) q where "q \<in> set rows" "P q" "r = f q"
  using assms by (auto simp: set_update_where)

lemma map_update_where:
  assumes "\<And>r. r \<in> set rows \<Longrightarrow> P r \<Longrightarrow> k (f r) = k r"
  shows "map k (update_where P f rows) = map k rows"
  using assms by (auto simp: update_where_def)

lemma update_where_none:
  "(\<And>r. r \<in> set rows \<Longrightarrow> \<not> P r) \<Longrightarrow> update_where P f rows = rows"
  by (induction rows) auto

lemma find_update_where:
  "(\<And>r. P (f r) = P r) \<Longrightarrow>
   find P (update_where Q f rows) = map_option (\<lambda>r. if Q r then f r else r) (find P rows)"
  by (induction rows) auto

lemma count_where_Nil [simp]: "count_where P [] = 0"
  by (simp add: count_where_def)

lemma count_where_Cons [simp]:
  "count_where P (r # rs) = (if P r then Suc (count_where P rs) else count_where P rs)"
  by (simp add: count_where_def)

lemma count_where_append [simp]:
  "count_where P (xs @ ys) = count_where P xs + count_where P ys"
  by (simp add: count_where_def)

lemma count_where_0_iff: "count_where P rows = 0 \<longleftrightarrow> (\<forall>r \<in> set rows. \<not> P r)"
  by (auto simp: count_where_def filter_empty_conv)

lemma count_where_pos_iff: "0 < count_where P rows \<longleftrightarrow> (\<exists>r \<in> set rows. P r)"
  using count_where_0_iff [of P rows] by auto

lemma find_SomeD: "find P rows = Some r \<Longrightarrow> r \<in> set rows \<and> P r"
  by (auto simp: find_Some_iff)

lemma find_append: "find P (xs @ ys) = (case find P xs of None \<Rightarrow> find P ys | Some x \<Rightarrow> Some x)"
  by (induction xs) auto

lemma find_filter_other: "(\<And>x. P x \<Longrightarrow> Q x) \<Longrightarrow> find P (filter Q xs) = find P xs"
  by (induction xs) auto

lemma find_NoneD: "find P rows = None \<Longrightarrow> r \<in> set rows \<Longrightarrow> \<not> P r"
  by (auto simp: find_None_iff)

lemma distinct_map_eq:
  "distinct (map k rows) \<Longrightarrow> r \<in> set rows \<Longrightarrow> q \<in> set rows \<Longrightarrow> k r = k q \<Longrightarrow> r = q"
  by (meson distinct_map inj_on_def)

lemma find_unique:
  assumes "distinct (map k rows)" "r \<in> set rows" "P r" "\<And>q. q \<in> set rows \<Longrightarrow> P q \<Longrightarrow> k q = k r"
  shows "find P rows = Some r"
proof (cases "find P rows")
  case None
  with assms(2,3) show ?thesis by (auto simp: find_None_iff)
next
  case (Some q)
  then have "q \<in> set rows" "P q" by (auto dest: find_SomeD)
  with assms have "q = r" by (metis distinct_map_eq)
  with Some show ?thesis by simp
qed

lemma count_where_distinct_le_1:
  assumes "distinct (map k rows)"
  shows "count_where (\<lambda>r. k r = x \<and> Q r) rows \<le> 1"
  using assms
proof (induction rows)
  case (Cons a rows)
  have "k a = x \<Longrightarrow> count_where (\<lambda>r. k r = x \<and> Q r) rows = 0"
    using Cons.prems by (auto simp: count_where_0_iff image_iff)
  with Cons show ?case by auto
qed simp

end
