(* ===== verification/Tx.thy ===== *)
theory Tx
  imports Prelude
begin

text \<open>
  Go functions that talk to PostgreSQL through GORM, as a state and exception monad.

  A \<^emph>\<open>world\<close> holds the tables and an environment the code does not control: which of its
  interactions fail (\<open>fails\<close>), what the server's \<open>clock_timestamp()\<close> answers (\<open>clock\<close>),
  what \<open>crypto/rand\<close> delivers (\<open>entropy\<close>), what \<open>google/uuid\<close> mints (\<open>uuids\<close>) and
  which rows other transactions hold locked (\<open>held\<close>, read by \<open>SKIP LOCKED\<close>). Interactions
  are numbered by \<open>tick\<close>, so every statement of every operation may independently succeed or
  fail, and two readings of the clock may differ in any way. Theorems quantify over all of it.

  A GORM transaction (\<open>db.Transaction\<close>, or a savepoint when nested) is \<open>transaction\<close>: an
  error rolls the tables back. A transaction is one atomic step; the row locks the code takes
  (\<open>FOR UPDATE\<close>, the advisory locks) are what makes that a sound reading of it. GORM's
  automatic stamping of an \<open>updated_at\<close> column the code does not set is not modelled.

  \<open>wp m Q w\<close> says that running \<open>m\<close> in \<open>w\<close> ends in a result and a world satisfying
  \<open>Q\<close>; the \<open>wp\<close> equations compute it by rewriting.
\<close>

named_theorems wp

section \<open>Errors\<close>

text \<open>
  The error values the modelled packages return: the sentinels of \<open>connection/store.go\<close> and
  \<open>pool/store.go\<close>, the \<open>walletStateError\<close> of the sign-in handlers, GORM's
  \<open>ErrRecordNotFound\<close>, a failed statement, a failed read of randomness, a failure of a library
  the code calls, and \<open>errors.New\<close> with its text.
\<close>

datatype err =
    DbFailure
  | RandFailure
  | RecordNotFound
  | ErrConflict
  | ErrExpired
  | ErrInvalidDID
  | ErrCooldown
  | ErrAlreadyClaimed
  | PoolErrConflict
  | ErrEmpty
  | CapacityError int
  | ErrPublicDisabled
  | WalletStateError string
  | LibraryFailure
  | NewError string

section \<open>The monad\<close>

record 't world =
  tabs :: 't
  tick :: nat
  fails :: "nat \<Rightarrow> bool"
  clock :: "nat \<Rightarrow> int"
  entropy :: "nat \<Rightarrow> nat \<Rightarrow> char"
  uuids :: "nat \<Rightarrow> string"
  held :: "nat \<Rightarrow> bool"

type_synonym ('t, 'a) tx = "'t world \<Rightarrow> (err + 'a) \<times> 't world"

definition ret :: "'a \<Rightarrow> ('t, 'a) tx" where
  "ret a w = (Inr a, w)"

definition throw :: "err \<Rightarrow> ('t, 'a) tx" where
  "throw e w = (Inl e, w)"

text \<open>\<open>x, err := m; if err != nil { return err }; f(x)\<close>\<close>

definition bnd :: "('t, 'a) tx \<Rightarrow> ('a \<Rightarrow> ('t, 'b) tx) \<Rightarrow> ('t, 'b) tx" where
  "bnd m f w = (case m w of (Inl e, w') \<Rightarrow> (Inl e, w') | (Inr a, w') \<Rightarrow> f a w')"

text \<open>\<open>x, err := m\<close> with the error inspected rather than returned\<close>

definition attempt :: "('t, 'a) tx \<Rightarrow> ('t, err + 'a) tx" where
  "attempt m w = (case m w of (r, w') \<Rightarrow> (Inr r, w'))"

text \<open>One interaction with the environment: it fails, or yields \<open>f\<close>'s result.\<close>

definition interact :: "err \<Rightarrow> ('t world \<Rightarrow> 'a \<times> 't) \<Rightarrow> ('t, 'a) tx" where
  "interact e f w =
     (if fails w (tick w) then (Inl e, w\<lparr>tick := Suc (tick w)\<rparr>)
      else (Inr (fst (f w)), w\<lparr>tabs := snd (f w), tick := Suc (tick w)\<rparr>))"

definition select :: "('t \<Rightarrow> 'a) \<Rightarrow> ('t, 'a) tx" where
  "select f = interact DbFailure (\<lambda>w. (f (tabs w), tabs w))"

definition exec :: "('t \<Rightarrow> 't) \<Rightarrow> ('t, unit) tx" where
  "exec f = interact DbFailure (\<lambda>w. ((), f (tabs w)))"

text \<open>A statement that also reports how many rows it touched.\<close>

definition exec_count :: "('t \<Rightarrow> nat) \<Rightarrow> ('t \<Rightarrow> 't) \<Rightarrow> ('t, nat) tx" where
  "exec_count n f = interact DbFailure (\<lambda>w. (n (tabs w), f (tabs w)))"

text \<open>
  A statement the schema may refuse: with a unique index or a CHECK violated it fails as a
  whole.
\<close>

definition exec_checked :: "('t \<Rightarrow> bool) \<Rightarrow> ('t \<Rightarrow> 't) \<Rightarrow> ('t, unit) tx" where
  "exec_checked ok f w =
     (if fails w (tick w) \<or> \<not> ok (tabs w) then (Inl DbFailure, w\<lparr>tick := Suc (tick w)\<rparr>)
      else (Inr (), w\<lparr>tabs := f (tabs w), tick := Suc (tick w)\<rparr>))"

text \<open>A statement that reads \<open>clock_timestamp()\<close>, and one that returns rows (\<open>RETURNING\<close>).\<close>

definition returning :: "(int \<Rightarrow> 't \<Rightarrow> 'a \<times> 't) \<Rightarrow> ('t, 'a) tx" where
  "returning f = interact DbFailure (\<lambda>w. f (clock w (tick w)) (tabs w))"

definition select_now :: "(int \<Rightarrow> 't \<Rightarrow> 'a) \<Rightarrow> ('t, 'a) tx" where
  "select_now f = returning (\<lambda>now d. (f now d, d))"

definition Now :: "('t, int) tx" where
  "Now = interact DbFailure (\<lambda>w. (clock w (tick w), tabs w))"

definition rand_read :: "nat \<Rightarrow> ('t, string) tx" where
  "rand_read n = interact RandFailure (\<lambda>w. (map (entropy w (tick w)) [0..<n], tabs w))"

definition new_uuid :: "('t, string) tx" where
  "new_uuid w = (Inr (uuids w (tick w)), w\<lparr>tick := Suc (tick w)\<rparr>)"

definition row_locked :: "nat \<Rightarrow> ('t, bool) tx" where
  "row_locked i w = (Inr (held w i), w)"

text \<open>\<open>First\<close>: the row, or \<open>ErrRecordNotFound\<close>.\<close>

definition first :: "('t \<Rightarrow> 'a option) \<Rightarrow> ('t, 'a) tx" where
  "first f = bnd (select f) (\<lambda>r. case r of None \<Rightarrow> throw RecordNotFound | Some x \<Rightarrow> ret x)"

definition transaction :: "('t, 'a) tx \<Rightarrow> ('t, 'a) tx" where
  "transaction m w =
     (case m w of (Inl e, w') \<Rightarrow> (Inl e, w'\<lparr>tabs := tabs w\<rparr>) | (Inr a, w') \<Rightarrow> (Inr a, w'))"

definition guard :: "bool \<Rightarrow> err \<Rightarrow> ('t, unit) tx" where
  "guard b e = (if b then ret () else throw e)"

fun for_each :: "'x list \<Rightarrow> ('x \<Rightarrow> ('t, unit) tx) \<Rightarrow> ('t, unit) tx" where
  "for_each [] f = ret ()"
| "for_each (x # xs) f = bnd (f x) (\<lambda>_. for_each xs f)"

text \<open>A world in which no statement fails.\<close>

definition quiet :: "'t world \<Rightarrow> bool" where
  "quiet w \<longleftrightarrow> (\<forall>n. \<not> fails w n)"

lemma quiet_updates [simp]:
  "quiet (w\<lparr>tabs := d\<rparr>) = quiet w" "quiet (w\<lparr>tick := n\<rparr>) = quiet w"
  by (simp_all add: quiet_def)

section \<open>Weakest preconditions\<close>

definition wp :: "('t, 'a) tx \<Rightarrow> (err + 'a \<Rightarrow> 't world \<Rightarrow> bool) \<Rightarrow> 't world \<Rightarrow> bool" where
  "wp m Q w = (case m w of (r, w') \<Rightarrow> Q r w')"

lemma wp_iff: "wp m Q w \<longleftrightarrow> (\<forall>r w'. m w = (r, w') \<longrightarrow> Q r w')"
  by (auto simp: wp_def split: prod.splits)

lemma wpI: "(\<And>r w'. m w = (r, w') \<Longrightarrow> Q r w') \<Longrightarrow> wp m Q w"
  by (simp add: wp_iff)

lemma wpD: "wp m Q w \<Longrightarrow> m w = (r, w') \<Longrightarrow> Q r w'"
  by (simp add: wp_iff)

lemma wp_mono: "wp m P w \<Longrightarrow> (\<And>r w'. m w = (r, w') \<Longrightarrow> P r w' \<Longrightarrow> Q r w') \<Longrightarrow> wp m Q w"
  by (simp add: wp_iff)

lemma wp_conj: "wp m (\<lambda>r w'. P r w' \<and> Q r w') w \<longleftrightarrow> wp m P w \<and> wp m Q w"
  by (simp add: wp_iff) blast

lemma wp_ret [wp]: "wp (ret a) Q w \<longleftrightarrow> Q (Inr a) w"
  by (simp add: wp_def ret_def)

lemma wp_throw [wp]: "wp (throw e) Q w \<longleftrightarrow> Q (Inl e) w"
  by (simp add: wp_def throw_def)

lemma wp_bnd [wp]:
  "wp (bnd m f) Q w \<longleftrightarrow>
     wp m (\<lambda>r w'. case r of Inl e \<Rightarrow> Q (Inl e) w' | Inr a \<Rightarrow> wp (f a) Q w') w"
  by (auto simp: wp_def bnd_def split: prod.splits sum.splits)

lemma wp_attempt [wp]: "wp (attempt m) Q w \<longleftrightarrow> wp m (\<lambda>r w'. Q (Inr r) w') w"
  by (simp add: wp_def attempt_def split: prod.splits)

lemma wp_select [wp]:
  "wp (select f) Q w \<longleftrightarrow>
     (if fails w (tick w) then Q (Inl DbFailure) (w\<lparr>tick := Suc (tick w)\<rparr>)
      else Q (Inr (f (tabs w))) (w\<lparr>tick := Suc (tick w)\<rparr>))"
  by (simp add: wp_def select_def interact_def)

lemma wp_exec [wp]:
  "wp (exec f) Q w \<longleftrightarrow>
     (if fails w (tick w) then Q (Inl DbFailure) (w\<lparr>tick := Suc (tick w)\<rparr>)
      else Q (Inr ()) (w\<lparr>tabs := f (tabs w), tick := Suc (tick w)\<rparr>))"
  by (simp add: wp_def exec_def interact_def)

lemma wp_exec_count [wp]:
  "wp (exec_count n f) Q w \<longleftrightarrow>
     (if fails w (tick w) then Q (Inl DbFailure) (w\<lparr>tick := Suc (tick w)\<rparr>)
      else Q (Inr (n (tabs w))) (w\<lparr>tabs := f (tabs w), tick := Suc (tick w)\<rparr>))"
  by (simp add: wp_def exec_count_def interact_def)

lemma wp_exec_checked [wp]:
  "wp (exec_checked ok f) Q w \<longleftrightarrow>
     (if fails w (tick w) \<or> \<not> ok (tabs w) then Q (Inl DbFailure) (w\<lparr>tick := Suc (tick w)\<rparr>)
      else Q (Inr ()) (w\<lparr>tabs := f (tabs w), tick := Suc (tick w)\<rparr>))"
  by (simp add: wp_def exec_checked_def)

lemma wp_returning [wp]:
  "wp (returning f) Q w \<longleftrightarrow>
     (if fails w (tick w) then Q (Inl DbFailure) (w\<lparr>tick := Suc (tick w)\<rparr>)
      else Q (Inr (fst (f (clock w (tick w)) (tabs w))))
             (w\<lparr>tabs := snd (f (clock w (tick w)) (tabs w)), tick := Suc (tick w)\<rparr>))"
  by (simp add: wp_def returning_def interact_def)

lemma wp_select_now [wp]:
  "wp (select_now f) Q w \<longleftrightarrow>
     (if fails w (tick w) then Q (Inl DbFailure) (w\<lparr>tick := Suc (tick w)\<rparr>)
      else Q (Inr (f (clock w (tick w)) (tabs w))) (w\<lparr>tick := Suc (tick w)\<rparr>))"
  by (simp add: select_now_def wp)

lemma wp_Now [wp]:
  "wp Now Q w \<longleftrightarrow>
     (if fails w (tick w) then Q (Inl DbFailure) (w\<lparr>tick := Suc (tick w)\<rparr>)
      else Q (Inr (clock w (tick w))) (w\<lparr>tick := Suc (tick w)\<rparr>))"
  by (simp add: wp_def Now_def interact_def)

lemma wp_rand_read [wp]:
  "wp (rand_read n) Q w \<longleftrightarrow>
     (if fails w (tick w) then Q (Inl RandFailure) (w\<lparr>tick := Suc (tick w)\<rparr>)
      else Q (Inr (map (entropy w (tick w)) [0..<n])) (w\<lparr>tick := Suc (tick w)\<rparr>))"
  by (simp add: wp_def rand_read_def interact_def)

lemma wp_new_uuid [wp]:
  "wp new_uuid Q w \<longleftrightarrow> Q (Inr (uuids w (tick w))) (w\<lparr>tick := Suc (tick w)\<rparr>)"
  by (simp add: wp_def new_uuid_def)

lemma wp_row_locked [wp]: "wp (row_locked i) Q w \<longleftrightarrow> Q (Inr (held w i)) w"
  by (simp add: wp_def row_locked_def)

lemma wp_first [wp]:
  "wp (first f) Q w \<longleftrightarrow>
     (if fails w (tick w) then Q (Inl DbFailure) (w\<lparr>tick := Suc (tick w)\<rparr>)
      else case f (tabs w) of
             None \<Rightarrow> Q (Inl RecordNotFound) (w\<lparr>tick := Suc (tick w)\<rparr>)
           | Some x \<Rightarrow> Q (Inr x) (w\<lparr>tick := Suc (tick w)\<rparr>))"
  by (simp add: first_def wp split: option.splits)

lemma wp_guard [wp]: "wp (guard b e) Q w \<longleftrightarrow> (if b then Q (Inr ()) w else Q (Inl e) w)"
  by (simp add: guard_def wp)

lemma wp_transaction [wp]:
  "wp (transaction m) Q w \<longleftrightarrow>
     wp m (\<lambda>r w'. case r of Inl e \<Rightarrow> Q (Inl e) (w'\<lparr>tabs := tabs w\<rparr>) | Inr a \<Rightarrow> Q (Inr a) w') w"
  by (auto simp: wp_def transaction_def split: prod.splits sum.splits)

lemma wp_if [wp]:
  "wp (if b then m else n) Q w \<longleftrightarrow> (if b then wp m Q w else wp n Q w)"
  by simp

lemma wp_case_option [wp]:
  "wp (case x of None \<Rightarrow> m | Some y \<Rightarrow> f y) Q w \<longleftrightarrow>
     (case x of None \<Rightarrow> wp m Q w | Some y \<Rightarrow> wp (f y) Q w)"
  by (simp split: option.splits)

lemma wp_case_sum [wp]:
  "wp (case x of Inl e \<Rightarrow> f e | Inr y \<Rightarrow> g y) Q w \<longleftrightarrow>
     (case x of Inl e \<Rightarrow> wp (f e) Q w | Inr y \<Rightarrow> wp (g y) Q w)"
  by (simp split: sum.splits)

lemma wp_case_prod [wp]:
  "wp (case x of (a, b) \<Rightarrow> f a b) Q w \<longleftrightarrow> (case x of (a, b) \<Rightarrow> wp (f a b) Q w)"
  by (simp split: prod.splits)

lemma wp_Let [wp]: "wp (Let x f) Q w \<longleftrightarrow> (let y = x in wp (f y) Q w)"
  by simp

text \<open>A loop keeps what one iteration keeps.\<close>

lemma wp_for_each_inv:
  assumes step: "\<And>x w. x \<in> set xs \<Longrightarrow> I (tabs w) \<Longrightarrow> wp (f x) (\<lambda>r w'. I (tabs w')) w"
    and init: "I (tabs w)"
  shows "wp (for_each xs f) (\<lambda>r w'. I (tabs w')) w"
  using assms
proof (induction xs arbitrary: w)
  case Nil
  then show ?case by (simp add: wp)
next
  case (Cons x xs)
  have "wp (f x) (\<lambda>r w'. I (tabs w')) w"
    using Cons.prems by simp
  then show ?case
    unfolding for_each.simps wp_bnd
    by (rule wp_mono) (use Cons in \<open>auto split: sum.splits\<close>)
qed

section \<open>Atomicity\<close>

text \<open>An operation whose body is one transaction changes no row when it returns an error.\<close>

definition atomic :: "('t, 'a) tx \<Rightarrow> bool" where
  "atomic m \<longleftrightarrow> (\<forall>w e w'. m w = (Inl e, w') \<longrightarrow> tabs w' = tabs w)"

lemma atomic_transaction [intro]: "atomic (transaction m)"
  by (auto simp: atomic_def transaction_def split: prod.splits sum.splits)

lemma atomic_throw [intro]: "atomic (throw e)"
  by (simp add: atomic_def throw_def)

lemma atomicD: "atomic m \<Longrightarrow> m w = (Inl e, w') \<Longrightarrow> tabs w' = tabs w"
  by (simp add: atomic_def)

end
