(* ===== verification/Model.thy ===== *)
theory Model
  imports Tx
begin

text \<open>
  The rows of the database (\<open>internal/model\<close>), one record per table and one field per
  column, and the methods the Go types carry. A nullable column is an \<open>option\<close>, a
  timestamp an integer of nanoseconds, a \<open>bigserial\<close> id a natural number. \<open>db\<close> is the
  tuple of the tables and of the id sequences; \<open>blank_session\<close> is the row of Go's zero
  values, used to build concrete rows.
\<close>

section \<open>Users and passkeys\<close>

record user =
  u_ID :: nat
  u_UniqueId :: string
  u_Email :: "string option"
  u_FullstackAccess :: bool
  u_CreatedAt :: int
  u_UpdatedAt :: int

record user_passkey =
  pk_ID :: nat
  pk_UserID :: nat
  pk_CredentialID :: string
  pk_Credential :: string
  pk_Name :: string
  pk_LastUsedAt :: "int option"
  pk_CreatedAt :: int
  pk_UpdatedAt :: int

section \<open>Setup sessions\<close>

record setup_session =
  ss_ID :: nat
  ss_UserID :: nat
  ss_Status :: string
  ss_FailedStage :: string
  ss_Mode :: string
  ss_Domain :: string
  ss_Subdomain :: string
  ss_CFRecordID :: string
  ss_ErrorMsg :: string
  ss_DomainID :: "nat option"
  ss_DomainType :: string
  ss_VtaName :: string
  ss_MediatorDid :: string
  ss_VtaDidUrl :: string
  ss_DidHostingServerURL :: string
  ss_DidHostingControlURL :: string
  ss_ConnectionSource :: string
  ss_ProviderSessionID :: "nat option"
  ss_LoadTestRunID :: "nat option"
  ss_Portable :: bool
  ss_PreRotationCount :: int
  ss_VtaImage :: string
  ss_VtaDid :: string
  ss_VtaDidLog :: string
  ss_AdminDid :: string
  ss_MediatorSubdomain :: string
  ss_DidsSubdomain :: string
  ss_CFRecordMediator :: "string option"
  ss_CFRecordDids :: "string option"
  ss_MediatorImage :: string
  ss_DidsImage :: string
  ss_MediatorAdminDid :: string
  ss_DIDHostingAdminDid :: string
  ss_DIDHostingDid :: string
  ss_MediatorAdminKey :: string
  ss_WebvhAdminKey :: string
  ss_DidsEnrollURL :: string
  ss_DidsEnrollClaimCode :: string
  ss_DidsEnrollUsed :: bool
  ss_VtcSubdomain :: string
  ss_CFRecordVtc :: "string option"
  ss_VtcName :: string
  ss_VtcImage :: string
  ss_TrustRegistryEnabled :: bool
  ss_TrustRegistryImage :: string
  ss_TrustRegistryDid :: string
  ss_TrustRegistryState :: string
  ss_TrustRegistryPhase :: string
  ss_TrustRegistryError :: string
  ss_VtcSetupKeyDid :: string
  ss_VtcDid :: string
  ss_VtcAdminDid :: string
  ss_VtcInstallURL :: string
  ss_VtcClaimCode :: string
  ss_VtcInstallUsed :: bool
  ss_CreatedAt :: int
  ss_UpdatedAt :: int

definition blank_session :: setup_session where
  "blank_session =
    \<lparr>ss_ID = 0,
     ss_UserID = 0,
     ss_Status = [],
     ss_FailedStage = [],
     ss_Mode = [],
     ss_Domain = [],
     ss_Subdomain = [],
     ss_CFRecordID = [],
     ss_ErrorMsg = [],
     ss_DomainID = None,
     ss_DomainType = [],
     ss_VtaName = [],
     ss_MediatorDid = [],
     ss_VtaDidUrl = [],
     ss_DidHostingServerURL = [],
     ss_DidHostingControlURL = [],
     ss_ConnectionSource = [],
     ss_ProviderSessionID = None,
     ss_LoadTestRunID = None,
     ss_Portable = False,
     ss_PreRotationCount = 0,
     ss_VtaImage = [],
     ss_VtaDid = [],
     ss_VtaDidLog = [],
     ss_AdminDid = [],
     ss_MediatorSubdomain = [],
     ss_DidsSubdomain = [],
     ss_CFRecordMediator = None,
     ss_CFRecordDids = None,
     ss_MediatorImage = [],
     ss_DidsImage = [],
     ss_MediatorAdminDid = [],
     ss_DIDHostingAdminDid = [],
     ss_DIDHostingDid = [],
     ss_MediatorAdminKey = [],
     ss_WebvhAdminKey = [],
     ss_DidsEnrollURL = [],
     ss_DidsEnrollClaimCode = [],
     ss_DidsEnrollUsed = False,
     ss_VtcSubdomain = [],
     ss_CFRecordVtc = None,
     ss_VtcName = [],
     ss_VtcImage = [],
     ss_TrustRegistryEnabled = False,
     ss_TrustRegistryImage = [],
     ss_TrustRegistryDid = [],
     ss_TrustRegistryState = [],
     ss_TrustRegistryPhase = [],
     ss_TrustRegistryError = [],
     ss_VtcSetupKeyDid = [],
     ss_VtcDid = [],
     ss_VtcAdminDid = [],
     ss_VtcInstallURL = [],
     ss_VtcClaimCode = [],
     ss_VtcInstallUsed = False,
     ss_CreatedAt = 0,
     ss_UpdatedAt = 0\<rparr>"

section \<open>Mobile connections\<close>

record mobile_connection =
  mc_ID :: string
  mc_SessionID :: nat
  mc_VtaDid :: string
  mc_Operation :: string
  mc_AdminDid :: string
  mc_Status :: string
  mc_ClaimHandle :: "string option"
  mc_ClaimantDigest :: "string option"
  mc_CreatedAt :: int
  mc_ExpiresAt :: int
  mc_ConfirmBy :: "int option"
  mc_ClaimedAt :: "int option"
  mc_ConfirmedAt :: "int option"
  mc_ReleasedAt :: "int option"
  mc_RedeemPollID :: "string option"
  mc_RedeemPollUntil :: "int option"
  mc_ProvisionError :: string
  mc_PublicAccessDigest :: string

section \<open>Pools\<close>

record pool_batch =
  pb_ID :: nat
  pb_CreatedBy :: nat
  pb_Label :: string
  pb_Purpose :: string
  pb_RequestedCount :: int
  pb_VtaImage :: string
  pb_IdempotencyKey :: string
  pb_RequestDigest :: string
  pb_PublicSignupEnabledAt :: "int option"
  pb_CleanupRequestedAt :: "int option"
  pb_CreatedAt :: int

record pool_session =
  ps_SessionID :: nat
  ps_BatchID :: nat

record pool_batch_addition =
  pa_ID :: nat
  pa_BatchID :: nat
  pa_CreatedBy :: nat
  pa_RequestedCount :: int
  pa_IdempotencyKey :: string
  pa_RequestDigest :: string
  pa_CreatedAt :: int

record workload_resource =
  wr_ID :: nat
  wr_SetupSessionID :: nat
  wr_Component :: string
  wr_MemoryRequest :: string
  wr_MemoryLimit :: string
  wr_ApplyError :: string
  wr_CreatedAt :: int
  wr_UpdatedAt :: int

section \<open>Trust task executions and wallet logins\<close>

record trust_task_execution =
  te_DocumentID :: string
  te_DocumentDigest :: string
  te_State :: string
  te_ResponseBytes :: string
  te_RetainUntil :: int
  te_LeaseExpiresAt :: int
  te_CreatedAt :: int
  te_UpdatedAt :: int

record wallet_login_binding =
  wb_ID :: nat
  wb_UserID :: nat
  wb_LoginDID :: string
  wb_SourceSessionID :: nat
  wb_SourceClaimID :: string
  wb_CreatedAt :: int
  wb_RevokedAt :: "int option"

record wallet_login_request =
  wq_RequestID :: string
  wq_State :: string
  wq_StarterDID :: string
  wq_StarterNetworkDigest :: string
  wq_ApproverDID :: "string option"
  wq_Origin :: string
  wq_MatchNumber :: "string option"
  wq_MatchNumberDelivered :: bool
  wq_RequesterBrowser :: string
  wq_RequesterOS :: string
  wq_IdentifiedDID :: "string option"
  wq_BindingID :: "nat option"
  wq_UserID :: "nat option"
  wq_Step1 :: string
  wq_Step2Digest :: "string option"
  wq_GrantDocument :: string
  wq_SessionEndsAt :: "int option"
  wq_WalletSessionID :: "string option"
  wq_RedeemPollID :: "string option"
  wq_RedeemPollUntil :: "int option"
  wq_CreatedAt :: int
  wq_ClaimClosesAt :: int
  wq_DecisionClosesAt :: "int option"
  wq_EndedAt :: "int option"

record wallet_login_session =
  ws_ID :: string
  ws_BindingID :: nat
  ws_UserID :: nat
  ws_ExpiresAt :: int
  ws_CreatedAt :: int
  ws_RevokedAt :: "int option"

section \<open>Upgrades\<close>

record upgrade_batch =
  ub_ID :: nat
  ub_AdminID :: "nat option"
  ub_UserID :: "nat option"
  ub_Concurrency :: int
  ub_Status :: string
  ub_CreatedAt :: int
  ub_UpdatedAt :: int

record upgrade_task =
  ut_ID :: nat
  ut_BatchID :: nat
  ut_SessionID :: nat
  ut_Component :: string
  ut_FromImage :: string
  ut_ToImage :: string
  ut_Status :: string
  ut_ErrorMsg :: string
  ut_CreatedAt :: int
  ut_UpdatedAt :: int

record image_default =
  im_Component :: string
  im_Image :: string
  im_UpdatedAt :: int

section \<open>The database\<close>

record db =
  t_users :: "user list"
  t_passkeys :: "user_passkey list"
  t_sessions :: "setup_session list"
  t_conns :: "mobile_connection list"
  t_batches :: "pool_batch list"
  t_members :: "pool_session list"
  t_additions :: "pool_batch_addition list"
  t_resources :: "workload_resource list"
  t_executions :: "trust_task_execution list"
  t_bindings :: "wallet_login_binding list"
  t_wallet_requests :: "wallet_login_request list"
  t_wallet_sessions :: "wallet_login_session list"
  t_upgrade_batches :: "upgrade_batch list"
  t_upgrade_tasks :: "upgrade_task list"
  t_image_defaults :: "image_default list"
  seq_users :: nat
  seq_sessions :: nat
  seq_batches :: nat
  seq_additions :: nat
  seq_bindings :: nat

type_synonym 'a dbtx = "(db, 'a) tx"

definition empty_db :: db where
  "empty_db =
    \<lparr>t_users = [], t_passkeys = [], t_sessions = [], t_conns = [], t_batches = [],
     t_members = [], t_additions = [], t_resources = [], t_executions = [], t_bindings = [],
     t_wallet_requests = [], t_wallet_sessions = [], t_upgrade_batches = [],
     t_upgrade_tasks = [], t_image_defaults = [], seq_users = 0, seq_sessions = 0,
     seq_batches = 0, seq_additions = 0, seq_bindings = 0\<rparr>"

text \<open>A world whose statements all succeed, with the given tables and clock.\<close>

definition calm_world :: "db \<Rightarrow> (nat \<Rightarrow> int) \<Rightarrow> db world" where
  "calm_world d c =
    \<lparr>tabs = d, tick = 0, fails = (\<lambda>_. False), clock = c,
     entropy = (\<lambda>n i. char_of (n + i)), uuids = (\<lambda>n. replicate n (CHR ''u'')), held = (\<lambda>_. False)\<rparr>"

lemma tabs_calm_world [simp]: "tabs (calm_world d c) = d"
  by (simp add: calm_world_def)

lemma quiet_calm_world [simp]: "quiet (calm_world d c)"
  by (simp add: calm_world_def quiet_def)

section \<open>Constants of the model package\<close>

abbreviation "ModeVtaOnly \<equiv> ''vta_only''"
abbreviation "ModeFullStack \<equiv> ''full_stack''"
abbreviation "ConnectionPlatform \<equiv> ''platform''"
abbreviation "ConnectionInFarm \<equiv> ''in_farm''"
abbreviation "ConnectionExternal \<equiv> ''external''"
abbreviation "DomainManaged \<equiv> ''managed''"
abbreviation "DomainCustom \<equiv> ''custom''"
abbreviation "DomainPlatform \<equiv> ''platform''"
abbreviation "StatusPoolCreating \<equiv> ''pool_creating''"
abbreviation "StatusPoolPublishing \<equiv> ''pool_publishing''"
abbreviation "StatusPoolPrepared \<equiv> ''pool_prepared''"
abbreviation "StatusPoolWaiting \<equiv> ''pool_waiting''"
abbreviation "PoolPurposeAdminStation \<equiv> ''admin_station''"
abbreviation "PoolPurposePublicSignup \<equiv> ''public_signup''"

abbreviation "UpgradeBatchRunning \<equiv> ''running''"
abbreviation "UpgradeBatchPaused \<equiv> ''paused''"
abbreviation "UpgradeBatchCompleted \<equiv> ''completed''"
abbreviation "UpgradeTaskPending \<equiv> ''pending''"
abbreviation "UpgradeTaskRunning \<equiv> ''running''"
abbreviation "UpgradeTaskSucceeded \<equiv> ''succeeded''"
abbreviation "UpgradeTaskFailed \<equiv> ''failed''"
abbreviation "UpgradeTaskSkipped \<equiv> ''skipped''"
abbreviation "UpgradeTaskRollingBack \<equiv> ''rolling_back''"
abbreviation "UpgradeTaskRolledBack \<equiv> ''rolled_back''"
abbreviation "UpgradeTaskRollbackFailed \<equiv> ''rollback_failed''"

definition second :: int where "second = 1000000000"
definition minute :: int where "minute = 60 * second"

lemma second_pos [simp]: "0 < second"
  by (simp add: second_def)

lemma minute_pos [simp]: "0 < minute"
  by (simp add: minute_def)

section \<open>Methods of SetupSession\<close>

definition FQDN :: "setup_session \<Rightarrow> string" where
  "FQDN s = ss_Subdomain s @ ''.'' @ ss_Domain s"

definition PublicURL :: "setup_session \<Rightarrow> string" where
  "PublicURL s = ''https://'' @ FQDN s"

definition MediatorFQDN :: "setup_session \<Rightarrow> string" where
  "MediatorFQDN s = ss_MediatorSubdomain s @ ''.'' @ ss_Domain s"

definition DidsFQDN :: "setup_session \<Rightarrow> string" where
  "DidsFQDN s = ss_DidsSubdomain s @ ''.'' @ ss_Domain s"

definition DidsURL :: "setup_session \<Rightarrow> string" where
  "DidsURL s = ''https://'' @ DidsFQDN s"

definition VtcFQDN :: "setup_session \<Rightarrow> string" where
  "VtcFQDN s = ss_VtcSubdomain s @ ''.'' @ ss_Domain s"

definition IsFullStack :: "setup_session \<Rightarrow> bool" where
  "IsFullStack s \<longleftrightarrow> ss_Mode s = ModeFullStack"

definition IsOrphaned :: "setup_session \<Rightarrow> bool" where
  "IsOrphaned s \<longleftrightarrow> ss_ConnectionSource s = ConnectionInFarm \<and> ss_ProviderSessionID s = None"

definition IsFixedLabel :: "setup_session \<Rightarrow> bool" where
  "IsFixedLabel s \<longleftrightarrow> ss_DomainType s = DomainCustom \<or> ss_DomainType s = DomainPlatform"

definition OwnsDNS :: "setup_session \<Rightarrow> bool" where
  "OwnsDNS s \<longleftrightarrow> ss_DomainType s \<noteq> DomainCustom"

definition CustomDomainID :: "setup_session \<Rightarrow> nat \<times> bool" where
  "CustomDomainID s =
     (case ss_DomainID s of
        None \<Rightarrow> (0, False)
      | Some i \<Rightarrow> if ss_DomainType s \<noteq> DomainCustom then (0, False) else (i, True))"

definition UpgradeImageColumn :: "string \<Rightarrow> string" where
  "UpgradeImageColumn c =
     (if c = ''vta'' then ''vta_image''
      else if c = ''mediator'' then ''mediator_image''
      else if c = ''dids'' then ''dids_image''
      else if c = ''trust-registry'' then ''trust_registry_image''
      else if c = ''vtc'' then ''vtc_image''
      else [])"

definition ComponentImage :: "setup_session \<Rightarrow> string \<Rightarrow> string" where
  "ComponentImage s c =
     (if c = ''vta'' then ss_VtaImage s
      else if c = ''mediator'' then ss_MediatorImage s
      else if c = ''dids'' then ss_DidsImage s
      else if c = ''trust-registry'' then
        (if ss_TrustRegistryState s = ''active'' then ss_TrustRegistryImage s else [])
      else if c = ''vtc'' then ss_VtcImage s
      else [])"

text \<open>
  \<open>FailureStage\<close>: the recorded stage, or for rows that predate the column the stage a known
  error prefix names.
\<close>

definition vta_only_prefixes :: "(string list \<times> string) list" where
  "vta_only_prefixes =
     [([''failed to load resource defaults'', ''failed to identify pool session'',
        ''pool resource profile is missing'', ''failed to create VTA deployment'',
        ''failed to start prebuilt VTA deployment'', ''failed to create VTA service'',
        ''failed to create VTA ingress'', ''VTA deployment did not become ready''], ''deploy_vta''),
      ([''failed to reach DID hosting control API'', ''failed to add VTA DID to hosting ACL'',
        ''failed to create provision job'', ''provision job watch error'',
        ''provision job failed''], ''provisioning''),
      ([''failed to ensure k8s namespace'', ''failed to provision vault access'',
        ''vault not configured'', ''failed to render TOML'',
        ''failed to create k8s resources''], ''dns_provisioned'')]"

definition full_stack_prefixes :: "(string \<times> string) list" where
  "full_stack_prefixes =
     [(''DNS not resolving'', ''dns_wait''),
      (''failed to ensure k8s namespace'', ''env_provision''),
      (''failed to provision vault access'', ''env_provision''),
      (''vault not configured'', ''env_provision''),
      (''failed to provision k8s resources'', ''k8s_provision''),
      (''TLS certificate issuance failed'', ''tls_provision''),
      (''vta setup failed'', ''step_vta_setup''),
      (''mediator setup (phase 1) failed'', ''step_mediator_p1''),
      (''mediator reprovision failed'', ''step_mediator_reprov''),
      (''mediator setup (phase 2) failed'', ''step_mediator_p2''),
      (''dids setup (offline-prepare) failed'', ''step_dids_p1''),
      (''dids provision-integration failed'', ''step_dids_provision''),
      (''dids setup (offline-complete) failed'', ''step_dids_p2''),
      (''dids invite failed'', ''step_dids_invite''),
      (''dids load-did failed'', ''step_dids_load_did''),
      (''granting vtafarm-api access to the DID host failed'', ''step_dids_grant_farm''),
      (''failed to deploy dids daemon'', ''deploy_dids''),
      (''failed to deploy mediator'', ''deploy_mediator''),
      (''vta register-dids failed'', ''step_vta_register_dids''),
      (''import-admin-did failed'', ''step_import_admin_did''),
      (''vtc setup-key generation failed'', ''step_vtc_setup_key''),
      (''vtc acl grant failed'', ''step_vtc_acl_grant''),
      (''failed to deploy vta'', ''deploy_vta''),
      (''vtc setup failed'', ''step_vtc_setup''),
      (''failed to deploy vtc'', ''deploy_vtc'')]"

definition FailureStage :: "setup_session \<Rightarrow> string" where
  "FailureStage s =
     (if ss_Status s \<noteq> ''failed'' then []
      else if ss_FailedStage s \<noteq> [] then ss_FailedStage s
      else if ss_Mode s = ModeVtaOnly then
        (case find (\<lambda>(ps, _). \<exists>p \<in> set ps. HasPrefix (ss_ErrorMsg s) p) vta_only_prefixes of
           Some (_, stage) \<Rightarrow> stage
         | None \<Rightarrow> ''vta_setup_running'')
      else
        (case find (\<lambda>(p, _). HasPrefix (ss_ErrorMsg s) p) full_stack_prefixes of
           Some (_, stage) \<Rightarrow> stage
         | None \<Rightarrow> []))"

section \<open>Facts\<close>

text \<open>Only custom sessions own a domain id, and only they do not own their DNS records.\<close>

lemma CustomDomainID_iff:
  "snd (CustomDomainID s) \<longleftrightarrow> \<not> OwnsDNS s \<and> ss_DomainID s \<noteq> None"
  by (auto simp: CustomDomainID_def OwnsDNS_def split: option.splits)

lemma FailureStage_recorded:
  "ss_FailedStage s \<noteq> [] \<Longrightarrow>
   FailureStage s = (if ss_Status s = ''failed'' then ss_FailedStage s else [])"
  by (simp add: FailureStage_def)

end
