(* ===== verification/Steps.thy ===== *)
theory Steps
  imports Tx
begin

text \<open>
  How an operation may change the tables. \<open>stepping le m\<close> says that \<open>m\<close>, in any world and
  whatever fails, takes the tables along the relation \<open>le\<close>; \<open>steps_from le d m\<close> says it for
  one starting point \<open>d\<close>, so that what an operation has read is still a fact when it writes.
  For a reflexive and transitive \<open>le\<close> both compose along the monad, which the locale
  \<open>table_order\<close> proves once; the component theories interpret it with their abstract step
  relation, or with the preservation of an invariant.
\<close>

definition stepping :: "('t \<Rightarrow> 't \<Rightarrow> bool) \<Rightarrow> ('t, 'a) tx \<Rightarrow> bool" where
  "stepping le m \<longleftrightarrow> (\<forall>w. wp m (\<lambda>_ w'. le (tabs w) (tabs w')) w)"

definition steps_from :: "('t \<Rightarrow> 't \<Rightarrow> bool) \<Rightarrow> 't \<Rightarrow> ('t, 'a) tx \<Rightarrow> bool" where
  "steps_from le d m \<longleftrightarrow> (\<forall>w. tabs w = d \<longrightarrow> wp m (\<lambda>_ w'. le d (tabs w')) w)"

text \<open>An error already in hand, as a computation.\<close>

definition lift_err :: "err + 'a \<Rightarrow> ('t, 'a) tx" where
  "lift_err r = (case r of Inl e \<Rightarrow> throw e | Inr a \<Rightarrow> ret a)"

lemma wp_lift_err [wp]:
  "wp (lift_err x) Q w \<longleftrightarrow> (case x of Inl e \<Rightarrow> Q (Inl e) w | Inr a \<Rightarrow> Q (Inr a) w)"
  by (simp add: lift_err_def wp split: sum.splits)

lemma steppingI: "(\<And>w. wp m (\<lambda>_ w'. le (tabs w) (tabs w')) w) \<Longrightarrow> stepping le m"
  by (simp add: stepping_def)

lemma steppingD: "stepping le m \<Longrightarrow> m w = (r, w') \<Longrightarrow> le (tabs w) (tabs w')"
  unfolding stepping_def by (blast dest: wpD)

lemma steppingI_from: "(\<And>d. steps_from le d m) \<Longrightarrow> stepping le m"
  by (simp add: stepping_def steps_from_def)

lemma from_stepping: "stepping le m \<Longrightarrow> steps_from le d m"
  by (auto simp: stepping_def steps_from_def)

lemma steps_fromD: "steps_from le (tabs w) m \<Longrightarrow> m w = (r, w') \<Longrightarrow> le (tabs w) (tabs w')"
  unfolding steps_from_def by (blast dest: wpD)

lemma stepping_mono: "stepping le m \<Longrightarrow> (\<And>a b. le a b \<Longrightarrow> le' a b) \<Longrightarrow> stepping le' m"
  unfolding stepping_def by (meson wp_mono)

text \<open>A relation of the tables as a whole, for an invariant.\<close>

definition keeps :: "('t \<Rightarrow> bool) \<Rightarrow> 't \<Rightarrow> 't \<Rightarrow> bool" where
  "keeps I d d' \<longleftrightarrow> (I d \<longrightarrow> I d')"

section \<open>Composition\<close>

locale table_order =
  fixes le :: "'t \<Rightarrow> 't \<Rightarrow> bool"
  assumes le_refl: "le d d"
    and le_trans: "le a b \<Longrightarrow> le b c \<Longrightarrow> le a c"
begin

lemma le_wp:
  assumes "le d d1" and m: "steps_from le d1 m" and w: "tabs w = d1"
  shows "wp m (\<lambda>_ w'. le d (tabs w')) w"
proof -
  from m w have "wp m (\<lambda>_ w'. le d1 (tabs w')) w" by (simp add: steps_from_def)
  then show ?thesis by (rule wp_mono) (rule le_trans [OF assms(1)])
qed

lemma from_ret: "steps_from le d (ret a)"
  and from_throw: "steps_from le d (throw e)"
  and from_guard: "steps_from le d (guard b e)"
  and from_read: "steps_from le d (select f)"
  and from_uuid: "steps_from le d new_uuid"
  by (simp_all add: steps_from_def wp le_refl)

lemma from_select: "steps_from le d (g (f d)) \<Longrightarrow> steps_from le d (bnd (select f) g)"
  by (simp add: steps_from_def wp le_refl)

lemma from_first:
  "(\<And>x. f d = Some x \<Longrightarrow> steps_from le d (g x)) \<Longrightarrow> steps_from le d (bnd (first f) g)"
  by (auto simp: steps_from_def wp le_refl split: option.splits)

lemma from_Now: "(\<And>t. steps_from le d (g t)) \<Longrightarrow> steps_from le d (bnd Now g)"
  by (simp add: steps_from_def wp le_refl)

lemma from_locked: "(\<And>b. steps_from le d (g b)) \<Longrightarrow> steps_from le d (bnd (row_locked i) g)"
  by (simp add: steps_from_def wp le_refl)

lemma from_rand: "(\<And>r. length r = n \<Longrightarrow> steps_from le d (g r)) \<Longrightarrow> steps_from le d (bnd (rand_read n) g)"
  by (simp add: steps_from_def wp le_refl)

lemma from_new_uuid: "(\<And>u. steps_from le d (g u)) \<Longrightarrow> steps_from le d (bnd new_uuid g)"
  by (simp add: steps_from_def wp le_refl)

lemma from_lift_err:
  "(\<And>a. x = Inr a \<Longrightarrow> steps_from le d (g a)) \<Longrightarrow> steps_from le d (bnd (lift_err x) g)"
  by (auto simp: steps_from_def wp le_refl split: sum.splits)

lemma from_guarded: "(b \<Longrightarrow> steps_from le d (g ())) \<Longrightarrow> steps_from le d (bnd (guard b e) g)"
  by (auto simp: steps_from_def wp le_refl)

lemma from_if:
  "(b \<Longrightarrow> steps_from le d m) \<Longrightarrow> (\<not> b \<Longrightarrow> steps_from le d n) \<Longrightarrow> steps_from le d (if b then m else n)"
  by simp

lemma from_option:
  "(x = None \<Longrightarrow> steps_from le d m) \<Longrightarrow> (\<And>y. x = Some y \<Longrightarrow> steps_from le d (f y)) \<Longrightarrow>
   steps_from le d (case x of None \<Rightarrow> m | Some y \<Rightarrow> f y)"
  by (cases x) auto

lemma from_exec: "le d (f d) \<Longrightarrow> steps_from le (f d) (g ()) \<Longrightarrow> steps_from le d (bnd (exec f) g)"
  unfolding steps_from_def [of le d] by (auto simp: wp le_refl intro: le_wp)

lemma from_exec_last: "le d (f d) \<Longrightarrow> steps_from le d (exec f)"
  by (auto simp: steps_from_def wp le_refl)

lemma from_exec_count:
  "le d (f d) \<Longrightarrow> steps_from le (f d) (g (n d)) \<Longrightarrow> steps_from le d (bnd (exec_count n f) g)"
  unfolding steps_from_def [of le d] by (auto simp: wp le_refl intro: le_wp)

lemma from_exec_checked:
  "(ok d \<Longrightarrow> le d (f d)) \<Longrightarrow> (ok d \<Longrightarrow> steps_from le (f d) (g ())) \<Longrightarrow>
   steps_from le d (bnd (exec_checked ok f) g)"
  unfolding steps_from_def [of le d] by (auto simp: wp le_refl intro: le_wp)

lemma from_exec_checked_last: "(ok d \<Longrightarrow> le d (f d)) \<Longrightarrow> steps_from le d (exec_checked ok f)"
  by (auto simp: steps_from_def wp le_refl)

lemma from_returning:
  "(\<And>now. le d (snd (f now d))) \<Longrightarrow> (\<And>now. steps_from le (snd (f now d)) (g (fst (f now d)))) \<Longrightarrow>
   steps_from le d (bnd (returning f) g)"
  unfolding steps_from_def [of le d]
proof (intro allI impI)
  fix w :: "'t world"
  let ?now = "clock w (tick w)"
  assume w: "tabs w = d" and "\<And>now. le d (snd (f now d))"
    and "\<And>now. steps_from le (snd (f now d)) (g (fst (f now d)))"
  then have "wp (g (fst (f ?now d))) (\<lambda>_ w'. le d (tabs w'))
      (w\<lparr>tabs := snd (f ?now d), tick := Suc (tick w)\<rparr>)"
    by (intro le_wp [of d "snd (f ?now d)"]) simp_all
  then show "wp (bnd (returning f) g) (\<lambda>_ w'. le d (tabs w')) w"
    by (simp add: wp le_refl w)
qed

lemma from_select_now: "(\<And>now. steps_from le d (g (f now d))) \<Longrightarrow> steps_from le d (bnd (select_now f) g)"
  by (simp add: steps_from_def wp le_refl)

lemma from_transaction: "steps_from le d m \<Longrightarrow> steps_from le d (transaction m)"
  unfolding steps_from_def wp_transaction by (auto elim!: wp_mono simp: le_refl split: sum.splits)

lemmas from_rules = from_ret from_throw from_guard from_read from_uuid from_select from_first from_Now
  from_locked from_rand from_new_uuid from_lift_err from_guarded from_if from_option from_exec
  from_exec_last from_exec_count from_exec_checked from_exec_checked_last from_returning
  from_select_now from_transaction

text \<open>Any computation may be followed by one that steps from everywhere.\<close>

lemma from_then:
  assumes "steps_from le d m" "\<And>a. stepping le (g a)"
  shows "steps_from le d (bnd m g)"
  unfolding steps_from_def
proof (intro allI impI)
  fix w :: "'t world" assume "tabs w = d"
  with assms(1) have "wp m (\<lambda>_ w'. le d (tabs w')) w" by (simp add: steps_from_def)
  then show "wp (bnd m g) (\<lambda>_ w'. le d (tabs w')) w"
    unfolding wp_bnd
    by (rule wp_mono) (auto split: sum.splits intro: le_wp [OF _ from_stepping [OF assms(2)] refl])
qed

lemma stepping_bnd: "stepping le m \<Longrightarrow> (\<And>a. stepping le (g a)) \<Longrightarrow> stepping le (bnd m g)"
  by (rule steppingI_from) (auto intro: from_then from_stepping)

lemma stepping_if:
  "(b \<Longrightarrow> stepping le m) \<Longrightarrow> (\<not> b \<Longrightarrow> stepping le n) \<Longrightarrow> stepping le (if b then m else n)"
  by simp

lemma stepping_option:
  "(x = None \<Longrightarrow> stepping le m) \<Longrightarrow> (\<And>y. x = Some y \<Longrightarrow> stepping le (f y)) \<Longrightarrow>
   stepping le (case x of None \<Rightarrow> m | Some y \<Rightarrow> f y)"
  by (cases x) auto

lemma stepping_transaction: "stepping le m \<Longrightarrow> stepping le (transaction m)"
  by (rule steppingI_from) (rule from_transaction [OF from_stepping])

lemma stepping_exec: "(\<And>d. le d (f d)) \<Longrightarrow> stepping le (exec f)"
  by (simp add: stepping_def wp le_refl)

lemma stepping_exec_count: "(\<And>d. le d (f d)) \<Longrightarrow> stepping le (exec_count n f)"
  by (simp add: stepping_def wp le_refl)

lemma stepping_exec_checked: "(\<And>d. ok d \<Longrightarrow> le d (f d)) \<Longrightarrow> stepping le (exec_checked ok f)"
  by (simp add: stepping_def wp le_refl)

lemma stepping_returning: "(\<And>now d. le d (snd (f now d))) \<Longrightarrow> stepping le (returning f)"
  by (simp add: stepping_def wp le_refl)

lemma stepping_sum:
  "(\<And>e. x = Inl e \<Longrightarrow> stepping le (f e)) \<Longrightarrow> (\<And>a. x = Inr a \<Longrightarrow> stepping le (g a)) \<Longrightarrow>
   stepping le (case x of Inl e \<Rightarrow> f e | Inr a \<Rightarrow> g a)"
  by (cases x) auto

lemma stepping_attempt: "stepping le m \<Longrightarrow> stepping le (attempt m)"
  by (simp add: stepping_def wp)

lemma stepping_for_each: "(\<And>x. stepping le (f x)) \<Longrightarrow> stepping le (for_each xs f)"
proof (induction xs)
  case Nil
  then show ?case by (simp add: stepping_def wp le_refl)
next
  case (Cons x xs)
  then show ?case unfolding for_each.simps by (intro stepping_bnd) auto
qed

lemma stepping_basic [simp, intro]:
  "stepping le (ret a)" "stepping le (throw e)" "stepping le (select g)" "stepping le Now"
  "stepping le (rand_read n)" "stepping le new_uuid" "stepping le (row_locked i)" "stepping le (first h)"
  "stepping le (guard b e)" "stepping le (lift_err x)" "stepping le (select_now k)"
  by (auto simp: stepping_def wp le_refl split: option.splits sum.splits)

lemmas stepping_rules = stepping_basic stepping_bnd stepping_if stepping_option stepping_transaction
  stepping_exec stepping_exec_count stepping_exec_checked stepping_returning stepping_sum
  stepping_attempt stepping_for_each

end

lemma keeps_order: "table_order (keeps I)"
  by unfold_locales (auto simp: keeps_def)

section \<open>What a successful run has done\<close>

text \<open>
  \<open>yields d m Q\<close>: started on the tables \<open>d\<close>, every run of \<open>m\<close> that returns a value returns
  one satisfying \<open>Q\<close>, with the tables it leaves; runs that return an error are not constrained.
  One rule per construct, all by introduction.
\<close>

definition yields :: "'t \<Rightarrow> ('t, 'a) tx \<Rightarrow> ('a \<Rightarrow> 't \<Rightarrow> bool) \<Rightarrow> bool" where
  "yields d m Q \<longleftrightarrow>
     (\<forall>w. tabs w = d \<longrightarrow> wp m (\<lambda>r w'. case r of Inl _ \<Rightarrow> True | Inr a \<Rightarrow> Q a (tabs w')) w)"

lemma yieldsD: "yields (tabs w) m Q \<Longrightarrow> m w = (Inr a, w') \<Longrightarrow> Q a (tabs w')"
  unfolding yields_def using wpD [where w = w and r = "Inr a" and m = m] by fastforce

lemma yields_mono: "yields d m P \<Longrightarrow> (\<And>a d'. P a d' \<Longrightarrow> Q a d') \<Longrightarrow> yields d m Q"
  unfolding yields_def by (auto elim!: wp_mono split: sum.splits)

lemma y_ret: "Q a d \<Longrightarrow> yields d (ret a) Q"
  and y_throw: "yields d (throw e) Q"
  and y_read: "Q (f d) d \<Longrightarrow> yields d (select f) Q"
  and y_read_first: "(\<And>x. h d = Some x \<Longrightarrow> Q x d) \<Longrightarrow> yields d (first h) Q"
  and y_exec_last: "P () (k d) \<Longrightarrow> yields d (exec k) P"
  and y_checked_last: "(ok d \<Longrightarrow> P () (k d)) \<Longrightarrow> yields d (exec_checked ok k) P"
  and y_guard: "(b \<Longrightarrow> P () d) \<Longrightarrow> yields d (guard b e) P"
  and y_lift: "(\<And>a. x = Inr a \<Longrightarrow> Q a d) \<Longrightarrow> yields d (lift_err x) Q"
  by (auto simp: yields_def wp split: option.splits sum.splits)

lemma y_bnd:
  fixes d :: 't
  assumes "yields d (m :: ('t, 'a) tx) P" "\<And>a d'. P a d' \<Longrightarrow> yields d' (g a) Q"
  shows "yields d (bnd m g) Q"
  unfolding yields_def wp_bnd
proof (intro allI impI)
  fix w :: "'t world" assume "tabs w = d"
  with assms(1) have "wp m (\<lambda>r w'. case r of Inl _ \<Rightarrow> True | Inr a \<Rightarrow> P a (tabs w')) w"
    by (simp add: yields_def)
  then show "wp m (\<lambda>r w'. case r of Inl e \<Rightarrow> (case Inl e of Inl _ \<Rightarrow> True | Inr a \<Rightarrow> Q a (tabs w'))
      | Inr a \<Rightarrow> wp (g a) (\<lambda>r w'. case r of Inl _ \<Rightarrow> True | Inr a \<Rightarrow> Q a (tabs w')) w') w"
  proof (rule wp_mono)
    fix r :: "err + 'a" and w1 :: "'t world"
    assume "case r of Inl _ \<Rightarrow> True | Inr a \<Rightarrow> P a (tabs w1)"
    then show "case r of Inl e \<Rightarrow> (case Inl e of Inl _ \<Rightarrow> True | Inr a \<Rightarrow> Q a (tabs w1))
        | Inr a \<Rightarrow> wp (g a) (\<lambda>r w'. case r of Inl _ \<Rightarrow> True | Inr a \<Rightarrow> Q a (tabs w')) w1"
      by (cases r) (use assms(2) in \<open>simp_all add: yields_def\<close>)
  qed
qed

lemma y_select: "yields d (g (f d)) Q \<Longrightarrow> yields d (bnd (select f) g) Q"
  and y_first: "(\<And>x. h d = Some x \<Longrightarrow> yields d (g' x) Q) \<Longrightarrow> yields d (bnd (first h) g') Q"
  and y_Now: "(\<And>t. yields d (gt t) Q) \<Longrightarrow> yields d (bnd Now gt) Q"
  and y_locked: "(\<And>b. yields d (gb b) Q) \<Longrightarrow> yields d (bnd (row_locked i) gb) Q"
  and y_rand: "(\<And>r. length r = n \<Longrightarrow> yields d (gr r) Q) \<Longrightarrow> yields d (bnd (rand_read n) gr) Q"
  and y_uuid: "(\<And>u. yields d (gr u) Q) \<Longrightarrow> yields d (bnd new_uuid gr) Q"
  and y_lift_err: "(\<And>a. x = Inr a \<Longrightarrow> yields d (gl a) Q) \<Longrightarrow> yields d (bnd (lift_err x) gl) Q"
  and y_guarded: "(b \<Longrightarrow> yields d (gu ()) Q) \<Longrightarrow> yields d (bnd (guard b e) gu) Q"
  and y_exec: "yields (k d) (gu ()) Q \<Longrightarrow> yields d (bnd (exec k) gu) Q"
  and y_exec_count: "yields (k d) (gn (c d)) Q \<Longrightarrow> yields d (bnd (exec_count c k) gn) Q"
  and y_exec_checked: "(ok d \<Longrightarrow> yields (k d) (gu ()) Q) \<Longrightarrow> yields d (bnd (exec_checked ok k) gu) Q"
  by (auto simp: yields_def wp split: option.splits sum.splits)

lemma y_returning: "(\<And>now. yields (snd (r now d)) (g (fst (r now d))) Q) \<Longrightarrow> yields d (bnd (returning r) g) Q"
  by (auto simp: yields_def wp)

lemma y_select_now: "(\<And>now. yields d (g (f now d)) Q) \<Longrightarrow> yields d (bnd (select_now f) g) Q"
  by (auto simp: yields_def wp)

lemma y_sum:
  "(\<And>e. x = Inl e \<Longrightarrow> yields d (f e) Q) \<Longrightarrow> (\<And>a. x = Inr a \<Longrightarrow> yields d (g a) Q) \<Longrightarrow>
   yields d (case x of Inl e \<Rightarrow> f e | Inr a \<Rightarrow> g a) Q"
  by (cases x) auto

text \<open>\<open>attempt\<close>: the error path is followed too, with what an operation does when it fails.\<close>

lemma y_attempt:
  fixes d :: 't
  assumes "\<And>w. tabs w = d \<Longrightarrow> wp m (\<lambda>r w'. yields (tabs w') (g r) Q) w"
  shows "yields d (bnd (attempt m) g) Q"
  unfolding yields_def
proof (intro allI impI)
  fix w :: "'t world" assume "tabs w = d"
  then have "wp m (\<lambda>r w'. yields (tabs w') (g r) Q) w" by (rule assms)
  then show "wp (bnd (attempt m) g) (\<lambda>r w'. case r of Inl _ \<Rightarrow> True | Inr a \<Rightarrow> Q a (tabs w')) w"
    unfolding wp_bnd wp_attempt sum.case by (rule wp_mono) (simp add: yields_def)
qed

lemma y_first_known: "h d = Some x \<Longrightarrow> yields d (g x) Q \<Longrightarrow> yields d (bnd (first h) g) Q"
  by (rule y_first) auto

lemma y_if: "(b \<Longrightarrow> yields d m Q) \<Longrightarrow> (\<not> b \<Longrightarrow> yields d n Q) \<Longrightarrow> yields d (if b then m else n) Q"
  by simp

lemma y_option:
  "(x = None \<Longrightarrow> yields d m Q) \<Longrightarrow> (\<And>y. x = Some y \<Longrightarrow> yields d (f y) Q) \<Longrightarrow>
   yields d (case x of None \<Rightarrow> m | Some y \<Rightarrow> f y) Q"
  by (cases x) auto

lemma y_transaction: "yields d m Q \<Longrightarrow> yields d (transaction m) Q"
  unfolding yields_def wp_transaction by (auto elim!: wp_mono split: sum.splits)

lemmas y_rules = y_ret y_throw y_read y_read_first y_exec_last y_checked_last y_guard y_lift y_select
  y_first y_Now y_locked y_rand y_uuid y_lift_err y_guarded y_exec y_exec_count y_exec_checked
  y_returning y_select_now y_if y_option y_transaction

section \<open>Reads\<close>

text \<open>An operation that only reads leaves the tables as they are, on every path.\<close>

interpretation unchanged: table_order "\<lambda>a b. b = a"
  by unfold_locales auto

lemma y_attempt_read:
  fixes d :: 't
  assumes read: "stepping (\<lambda>a b. b = a) m" and g: "\<And>r. yields d (g r) Q"
  shows "yields d (bnd (attempt m) g) Q"
proof (rule y_attempt)
  fix w :: "'t world" assume "tabs w = d"
  with read have "wp m (\<lambda>_ w'. tabs w' = d) w" by (auto simp: stepping_def)
  then show "wp m (\<lambda>r w'. yields (tabs w') (g r) Q) w"
    by (rule wp_mono) (use g in simp)
qed

text \<open>An atomic operation that fails has left the tables alone, so its caller may go on.\<close>

lemma y_attempt_atomic:
  fixes d :: 't
  assumes "atomic m" and m: "yields d m P" and err: "\<And>e. yields d (g (Inl e)) Q"
    and ok: "\<And>a d'. P a d' \<Longrightarrow> yields d' (g (Inr a)) Q"
  shows "yields d (bnd (attempt m) g) Q"
proof (rule y_attempt)
  fix w :: "'t world" assume w: "tabs w = d"
  show "wp m (\<lambda>r w'. yields (tabs w') (g r) Q) w"
  proof (rule wpI)
    fix r w' assume run: "m w = (r, w')"
    show "yields (tabs w') (g r) Q"
    proof (cases r)
      case (Inl e)
      with run assms(1) w have "tabs w' = d" by (auto dest: atomicD)
      with Inl err show ?thesis by simp
    next
      case (Inr a)
      with run m w show ?thesis using ok yieldsD [of w m P a w'] by auto
    qed
  qed
qed

lemma y_fails: "yields d (bnd m (\<lambda>_. throw e)) Q"
  by (auto simp: yields_def wp_iff bnd_def throw_def split: sum.splits prod.splits)

lemma y_stepping:
  assumes "yields d m P" "stepping le m"
  shows "yields d m (\<lambda>a d'. P a d' \<and> le d d')"
  using assms unfolding yields_def stepping_def wp_iff by (fastforce split: sum.splits)

end
