(* ===== verification/Leases.thy ===== *)
theory Leases
  imports Prelude
begin

text \<open>
  Leases on rows, the contract three components share: the redeem polls of
  \<open>connection/store.go\<close> and of \<open>walletauth/store.go\<close>, and the execution leases of
  \<open>trusttask/replay.go\<close>. A row is free for a key at a time, taking it until a deadline makes it
  busy for every earlier time, and taking keeps the row's key. Among rows with distinct keys,
  whoever took the one free row excludes everyone else until the deadline.
\<close>

locale row_lease =
  fixes key :: "'r \<Rightarrow> 'k"
    and free :: "'k \<Rightarrow> int \<Rightarrow> 'r \<Rightarrow> bool"
    and hold :: "'h \<Rightarrow> int \<Rightarrow> 'r \<Rightarrow> 'r"
  assumes free_key: "free k t r \<Longrightarrow> key r = k"
    and hold_key: "key (hold h u r) = key r"
    and hold_busy: "t < u \<Longrightarrow> \<not> free k t (hold h u r)"
begin

lemma held_excludes:
  assumes distinct: "distinct (map key rows)" and taken: "0 < count_where (free k now) rows" and t: "t < u"
    and r: "r \<in> set (update_where (free k now) (hold h u) rows)"
  shows "\<not> free k t r"
  using r
proof (cases rule: in_update_whereE)
  case old
  from taken obtain q where q: "q \<in> set rows" "free k now q" by (auto simp: count_where_pos_iff)
  show ?thesis
  proof
    assume "free k t r"
    with q old have "r = q" using distinct free_key by (metis distinct_map_eq)
    with q old show False by simp
  qed
next
  case (new q)
  with t show ?thesis by (simp add: hold_busy)
qed

lemma held_count:
  assumes "distinct (map key rows)" "0 < count_where (free k now) rows" "t < u"
  shows "count_where (free k t) (update_where (free k now) (hold h u) rows) = 0"
  using held_excludes [OF assms] by (auto simp: count_where_0_iff)

lemma held_distinct: "distinct (map key rows) \<Longrightarrow> distinct (map key (update_where P (hold h u) rows))"
  by (subst map_update_where) (simp_all add: hold_key)

lemma free_at_most_one: "distinct (map key rows) \<Longrightarrow> count_where (free k t) rows \<le> 1"
proof -
  assume "distinct (map key rows)"
  then have "count_where (\<lambda>r. key r = k \<and> free k t r) rows \<le> 1" by (rule count_where_distinct_le_1)
  moreover have "(\<lambda>r. key r = k \<and> free k t r) = free k t" using free_key by blast
  ultimately show ?thesis by simp
qed

end

end
