(* ===== verification/Sha256.thy ===== *)
theory Sha256
  imports Prelude "HOL-Library.Word"
begin

unbundle bit_operations_syntax

text \<open>
  SHA-256 (\<open>crypto/sha256\<close>, FIPS 180-4) on byte strings, and hexadecimal text. Executable;
  the theorems of the development use only the length of the digest.
\<close>

type_synonym u32 = "32 word"

definition rotr :: "nat \<Rightarrow> u32 \<Rightarrow> u32" where
  "rotr n x = (drop_bit n x) OR (push_bit (32 - n) x)"

definition K256 :: "u32 list" where
  "K256 =
    [0x428a2f98, 0x71374491, 0xb5c0fbcf, 0xe9b5dba5, 0x3956c25b, 0x59f111f1, 0x923f82a4, 0xab1c5ed5,
     0xd807aa98, 0x12835b01, 0x243185be, 0x550c7dc3, 0x72be5d74, 0x80deb1fe, 0x9bdc06a7, 0xc19bf174,
     0xe49b69c1, 0xefbe4786, 0x0fc19dc6, 0x240ca1cc, 0x2de92c6f, 0x4a7484aa, 0x5cb0a9dc, 0x76f988da,
     0x983e5152, 0xa831c66d, 0xb00327c8, 0xbf597fc7, 0xc6e00bf3, 0xd5a79147, 0x06ca6351, 0x14292967,
     0x27b70a85, 0x2e1b2138, 0x4d2c6dfc, 0x53380d13, 0x650a7354, 0x766a0abb, 0x81c2c92e, 0x92722c85,
     0xa2bfe8a1, 0xa81a664b, 0xc24b8b70, 0xc76c51a3, 0xd192e819, 0xd6990624, 0xf40e3585, 0x106aa070,
     0x19a4c116, 0x1e376c08, 0x2748774c, 0x34b0bcb5, 0x391c0cb3, 0x4ed8aa4a, 0x5b9cca4f, 0x682e6ff3,
     0x748f82ee, 0x78a5636f, 0x84c87814, 0x8cc70208, 0x90befffa, 0xa4506ceb, 0xbef9a3f7, 0xc67178f2]"

definition H256 :: "u32 list" where
  "H256 = [0x6a09e667, 0xbb67ae85, 0x3c6ef372, 0xa54ff53a, 0x510e527f, 0x9b05688c, 0x1f83d9ab, 0x5be0cd19]"

definition be_bytes :: "nat \<Rightarrow> nat \<Rightarrow> string" where
  "be_bytes n x = map (\<lambda>i. char_of (x div 256 ^ (n - 1 - i))) [0..<n]"

definition pad :: "string \<Rightarrow> string" where
  "pad m = m @ [CHR 0x80] @ replicate ((119 - length m mod 64) mod 64) (CHR 0x00) @ be_bytes 8 (8 * length m)"

fun words :: "string \<Rightarrow> u32 list" where
  "words (a # b # c # d # rest) =
     word_of_nat (of_char a * 16777216 + of_char b * 65536 + of_char c * 256 + of_char d) # words rest"
| "words _ = []"

fun extend :: "nat \<Rightarrow> u32 list \<Rightarrow> u32 list" where
  "extend 0 ws = ws"
| "extend (Suc n) ws =
     (let i = length ws; a = ws ! (i - 15); b = ws ! (i - 2);
          s0 = rotr 7 a XOR rotr 18 a XOR drop_bit 3 a;
          s1 = rotr 17 b XOR rotr 19 b XOR drop_bit 10 b
      in extend n (ws @ [ws ! (i - 16) + s0 + ws ! (i - 7) + s1]))"

fun sha_round :: "u32 list \<Rightarrow> u32 \<times> u32 \<Rightarrow> u32 list" where
  "sha_round [a, b, c, d, e, f, g, h] (k, w) =
     (let s1 = rotr 6 e XOR rotr 11 e XOR rotr 25 e;
          ch = (e AND f) XOR ((NOT e) AND g);
          t1 = h + s1 + ch + k + w;
          s0 = rotr 2 a XOR rotr 13 a XOR rotr 22 a;
          maj = (a AND b) XOR (a AND c) XOR (b AND c)
      in [t1 + s0 + maj, a, b, c, d + t1, e, f, g])"
| "sha_round st _ = st"

definition compress :: "u32 list \<Rightarrow> u32 list \<Rightarrow> u32 list" where
  "compress st block = map2 (+) st (foldl sha_round st (zip K256 (extend 48 block)))"

function blocks :: "u32 list \<Rightarrow> u32 list list" where
  "blocks ws = (if length ws < 16 then [] else take 16 ws # blocks (drop 16 ws))"
  by pat_completeness auto
termination
  by (relation "measure length") auto

declare blocks.simps [simp del]

definition sha256 :: "string \<Rightarrow> string" where
  "sha256 m = concat (map (\<lambda>x. be_bytes 4 (unat x)) (foldl compress H256 (blocks (words (pad m)))))"

definition hex_digits :: string where
  "hex_digits = ''0123456789abcdef''"

definition hex :: "string \<Rightarrow> string" where
  "hex s = concat (map (\<lambda>c. [hex_digits ! (of_char c div 16), hex_digits ! (of_char c mod 16)]) s)"

section \<open>Lengths\<close>

lemma length_be_bytes [simp]: "length (be_bytes n x) = n"
  by (simp add: be_bytes_def)

lemma length_sha_round: "length st = 8 \<Longrightarrow> length (sha_round st kw) = 8"
  by (cases "(st, kw)" rule: sha_round.cases) (auto simp: Let_def)

lemma length_rounds: "length st = 8 \<Longrightarrow> length (foldl sha_round st kws) = 8"
  by (induction kws arbitrary: st) (simp_all add: length_sha_round)

lemma length_compress: "length st = 8 \<Longrightarrow> length (compress st block) = 8"
  by (simp add: compress_def length_rounds)

lemma length_fold_compress: "length st = 8 \<Longrightarrow> length (foldl compress st bs) = 8"
  by (induction bs arbitrary: st) (simp_all add: length_compress)

lemma length_concat_map_const: "(\<And>x. length (f x) = n) \<Longrightarrow> length (concat (map f xs)) = n * length xs"
  by (induction xs) simp_all

lemma length_sha256 [simp]: "length (sha256 m) = 32"
  by (simp add: sha256_def length_concat_map_const length_fold_compress H256_def)

lemma length_hex [simp]: "length (hex s) = 2 * length s"
  by (simp add: hex_def length_concat_map_const)

lemma set_hex: "set (hex s) \<subseteq> set hex_digits"
proof -
  have "of_char c div 16 < (16 :: nat)" "of_char c mod 16 < (16 :: nat)" for c :: char
    using nat_of_char_less_256 [of c] by (simp_all add: div_less_iff_less_mult)
  moreover have "length hex_digits = 16" by (simp add: hex_digits_def)
  ultimately show ?thesis by (auto simp: hex_def)
qed

end
