(* ===== verification/Base58.thy ===== *)
theory Base58
  imports Prelude
begin

text \<open>
  Base58btc, the encoding under every \<open>did:key\<close>, multikey, multihash and proof value
  (\<open>internal/didresolver/didkey.go\<close>, and its second copy in \<open>internal/didkey/didkey.go\<close>).
  A byte slice is a \<open>char list\<close>; \<open>math/big\<close> integers are \<open>int\<close>. The theory first
  proves positional notation over any base, then that the encoder and the decoder are inverse
  to each other.
\<close>

section \<open>Positional notation\<close>

text \<open>\<open>val b\<close> reads big-endian digits; \<open>digits b n\<close> lists the digits of \<open>n\<close>, the lowest first.\<close>

definition val :: "int \<Rightarrow> int list \<Rightarrow> int" where
  "val b ds = foldl (\<lambda>a d. a * b + d) 0 ds"

function digits :: "int \<Rightarrow> int \<Rightarrow> int list" where
  "digits b n = (if 0 < n \<and> 1 < b then n mod b # digits b (n div b) else [])"
  by pat_completeness auto
termination
  by (relation "measure (\<lambda>(b, n). nat n)") (auto simp: int_div_less_self)

declare digits.simps [simp del]

lemma val_Nil [simp]: "val b [] = 0"
  by (simp add: val_def)

lemma val_snoc [simp]: "val b (ds @ [d]) = val b ds * b + d"
  by (simp add: val_def)

lemma val_Cons0 [simp]: "val b (0 # ds) = val b ds"
  by (simp add: val_def)

lemma val_replicate0 [simp]: "val b (replicate k 0 @ ds) = val b ds"
  by (induction k) auto

lemma val_single [simp]: "val b [d] = d"
  by (simp add: val_def)

lemma val_nonneg: "0 \<le> b \<Longrightarrow> (\<And>d. d \<in> set ds \<Longrightarrow> 0 \<le> d) \<Longrightarrow> 0 \<le> val b ds"
  by (induction ds rule: rev_induct) auto

lemma val_pos:
  assumes "1 < b" "ds \<noteq> []" "0 < hd ds" "\<And>d. d \<in> set ds \<Longrightarrow> 0 \<le> d"
  shows "0 < val b ds"
  using assms
proof (induction ds rule: rev_induct)
  case (snoc d ds)
  show ?case
  proof (cases ds)
    case Nil
    with snoc.prems show ?thesis by simp
  next
    case (Cons x xs)
    with snoc have "0 < val b ds" by auto
    with snoc.prems show ?thesis by (simp add: add_pos_nonneg)
  qed
qed simp

lemma digits_range: "1 < b \<Longrightarrow> d \<in> set (digits b n) \<Longrightarrow> 0 \<le> d \<and> d < b"
proof (induction b n rule: digits.induct)
  case (1 b n)
  then show ?case by (subst (asm) digits.simps [of b n]) (auto split: if_splits)
qed

lemma val_rev_digits: "1 < b \<Longrightarrow> 0 \<le> n \<Longrightarrow> val b (rev (digits b n)) = n"
proof (induction b n rule: digits.induct)
  case (1 b n)
  show ?case
  proof (cases "0 < n")
    case True
    with "1" have "val b (rev (digits b (n div b))) = n div b"
      by (simp add: pos_imp_zdiv_nonneg_iff)
    with True "1.prems" show ?thesis
      by (subst digits.simps) simp
  next
    case False
    with "1.prems" show ?thesis by (simp add: digits.simps)
  qed
qed

lemma digits_val:
  assumes "1 < b" "\<And>d. d \<in> set ds \<Longrightarrow> 0 \<le> d \<and> d < b" "ds \<noteq> [] \<Longrightarrow> hd ds \<noteq> 0"
  shows "digits b (val b ds) = rev ds"
  using assms
proof (induction ds rule: rev_induct)
  case Nil
  then show ?case by (simp add: digits.simps)
next
  case (snoc d ds)
  have d: "0 \<le> d" "d < b" using snoc.prems by auto
  have "hd (ds @ [d]) \<in> set (ds @ [d])" by (cases ds) auto
  with snoc.prems have "0 < hd (ds @ [d])" by force
  then have pos: "0 < val b (ds @ [d])"
    using snoc.prems by (intro val_pos) auto
  have "(val b ds * b + d) div b = val b ds" and "(val b ds * b + d) mod b = d"
    using d by auto
  moreover have "digits b (val b ds) = rev ds"
    using snoc.prems by (intro snoc.IH) (auto simp: hd_append split: if_splits)
  ultimately show ?case
    using pos snoc.prems(1) by (subst digits.simps) simp
qed

lemma digits_0 [simp]: "digits b 0 = []"
  by (simp add: digits.simps)

lemma last_digits: "1 < b \<Longrightarrow> digits b n \<noteq> [] \<Longrightarrow> last (digits b n) \<noteq> 0"
proof (induction b n rule: digits.induct)
  case (1 b n)
  then have n: "0 < n" by (auto simp: digits.simps split: if_splits)
  show ?case
  proof (cases "digits b (n div b) = []")
    case True
    then have "n div b = 0"
      using n "1.prems"(1) by (subst (asm) digits.simps)
        (auto simp: pos_imp_zdiv_nonneg_iff split: if_splits intro: antisym)
    then have "n mod b = n"
      using n "1.prems"(1) by (metis add_0 div_mult_mod_eq mult_zero_left)
    with True n "1.prems"(1) show ?thesis
      by (subst digits.simps) simp
  next
    case False
    with "1" n show ?thesis by (subst digits.simps) simp
  qed
qed

lemma hd_rev_digits: "1 < b \<Longrightarrow> digits b n \<noteq> [] \<Longrightarrow> hd (rev (digits b n)) \<noteq> 0"
  by (simp add: hd_rev last_digits)

section \<open>Bytes and big integers\<close>

definition byte_val :: "char \<Rightarrow> int" where
  "byte_val c = int (of_char c)"

definition byte_of :: "int \<Rightarrow> char" where
  "byte_of n = char_of (nat n)"

text \<open>\<open>SetBytes\<close> and \<open>Bytes\<close> of \<open>math/big\<close>: big-endian, without leading zero bytes.\<close>

definition SetBytes :: "string \<Rightarrow> int" where
  "SetBytes bs = val 256 (map byte_val bs)"

definition Bytes :: "int \<Rightarrow> string" where
  "Bytes n = map byte_of (rev (digits 256 n))"

lemma byte_val_range [simp]: "0 \<le> byte_val c" "byte_val c < 256"
  using nat_of_char_less_256 [of c] by (simp_all add: byte_val_def)

lemma byte_of_val [simp]: "byte_of (byte_val c) = c"
  by (simp add: byte_of_def byte_val_def)

lemma byte_val_of: "0 \<le> n \<Longrightarrow> n < 256 \<Longrightarrow> byte_val (byte_of n) = n"
  by (simp add: byte_of_def byte_val_def of_char_of)

lemma byte_val_inj: "byte_val c = byte_val d \<longleftrightarrow> c = d"
  by (metis byte_of_val)

lemma byte_val_0_iff [simp]: "byte_val c = 0 \<longleftrightarrow> c = CHR 0x00"
  using byte_val_inj [of c "CHR 0x00"] by (simp add: byte_val_def)

lemma SetBytes_nonneg [simp]: "0 \<le> SetBytes bs"
  unfolding SetBytes_def by (rule val_nonneg) auto

lemma byte_val_zero [simp]: "byte_val (CHR 0x00) = 0"
  by simp

lemma SetBytes_zeros [simp]: "SetBytes (replicate k (CHR 0x00) @ bs) = SetBytes bs"
  unfolding SetBytes_def map_append map_replicate byte_val_zero by simp

lemma Bytes_SetBytes:
  assumes "bs \<noteq> [] \<Longrightarrow> hd bs \<noteq> CHR 0x00"
  shows "Bytes (SetBytes bs) = bs"
proof -
  have "digits 256 (val 256 (map byte_val bs)) = rev (map byte_val bs)"
    using assms by (intro digits_val) (auto simp: hd_map)
  then show ?thesis by (simp add: Bytes_def SetBytes_def comp_def)
qed

lemma SetBytes_Bytes: "0 \<le> n \<Longrightarrow> SetBytes (Bytes n) = n"
proof -
  assume n: "0 \<le> n"
  have "map byte_val (Bytes n) = rev (digits 256 n)"
    unfolding Bytes_def map_map
    by (rule map_idI) (use digits_range [of 256 _ n] in \<open>auto intro!: byte_val_of\<close>)
  with n show ?thesis by (simp add: SetBytes_def val_rev_digits)
qed

lemma Bytes_hd: "Bytes n \<noteq> [] \<Longrightarrow> hd (Bytes n) \<noteq> CHR 0x00"
proof
  assume ne: "Bytes n \<noteq> []" and hd: "hd (Bytes n) = CHR 0x00"
  let ?d = "hd (rev (digits 256 n))"
  from ne have d: "digits 256 n \<noteq> []" by (auto simp: Bytes_def)
  then have "?d \<in> set (digits 256 n)" by (metis hd_in_set rev_is_Nil_conv set_rev)
  then have "0 \<le> ?d" "?d < 256" using digits_range [of 256 ?d n] by auto
  moreover have "byte_of ?d = CHR 0x00"
    using hd d by (simp add: Bytes_def hd_map)
  ultimately have "?d = 0" by (metis byte_val_0_iff byte_val_of)
  with d show False using hd_rev_digits [of 256 n] by simp
qed

section \<open>The code\<close>

definition base58BTCAlphabet :: string where
  "base58BTCAlphabet = ''123456789ABCDEFGHJKLMNPQRSTUVWXYZabcdefghijkmnopqrstuvwxyz''"

text \<open>
  The encoder's loops: \<open>b58_loop\<close> divides the number down and appends one character per
  remainder; the leading zero bytes of the value then append one \<open>1\<close> each, and the swap loop
  reverses the slice.
\<close>

function b58_loop :: "int \<Rightarrow> string \<Rightarrow> string" where
  "b58_loop number encoded =
     (if 0 < number
      then b58_loop (number div 58) (encoded @ [base58BTCAlphabet ! nat (number mod 58)])
      else encoded)"
  by pat_completeness auto
termination
  by (relation "measure (\<lambda>(n, _). nat n)") (auto simp: int_div_less_self)

declare b58_loop.simps [simp del]

fun zero_loop :: "string \<Rightarrow> string \<Rightarrow> string" where
  "zero_loop [] encoded = encoded"
| "zero_loop (b # bs) encoded =
     (if b \<noteq> CHR 0x00 then encoded else zero_loop bs (encoded @ [base58BTCAlphabet ! 0]))"

definition EncodeBase58BTC :: "string \<Rightarrow> string" where
  "EncodeBase58BTC v = rev (zero_loop v (b58_loop (SetBytes v) []))"

text \<open>
  The decoder: the index table of the alphabet (\<open>-1\<close> marks a byte outside it), the loop over
  the characters, and one zero byte put in front per leading \<open>1\<close>.
\<close>

definition alphabetIndexes :: "char \<Rightarrow> int" where
  "alphabetIndexes c =
     (case Index base58BTCAlphabet [c] of Some i \<Rightarrow> int i | None \<Rightarrow> -1)"

fun decode_loop :: "nat \<Rightarrow> string \<Rightarrow> int \<Rightarrow> nat + int" where
  "decode_loop i [] number = Inr number"
| "decode_loop i (c # cs) number =
     (if alphabetIndexes c < 0 then Inl i
      else decode_loop (Suc i) cs (number * 58 + alphabetIndexes c))"

fun ones_loop :: "string \<Rightarrow> string \<Rightarrow> string" where
  "ones_loop [] decoded = decoded"
| "ones_loop (c # cs) decoded =
     (if c = base58BTCAlphabet ! 0 then ones_loop cs (CHR 0x00 # decoded) else decoded)"

datatype base58_error = EmptyBase58 | InvalidBase58Char nat

definition DecodeBase58BTC :: "string \<Rightarrow> base58_error + string" where
  "DecodeBase58BTC v =
     (if v = [] then Inl EmptyBase58
      else case decode_loop 0 v 0 of
             Inl i \<Rightarrow> Inl (InvalidBase58Char i)
           | Inr number \<Rightarrow> Inr (ones_loop v (Bytes number)))"

section \<open>Encoder and decoder are inverse\<close>

definition char58 :: "int \<Rightarrow> char" where
  "char58 d = base58BTCAlphabet ! nat d"

lemma length_alphabet [simp]: "length base58BTCAlphabet = 58"
  by (simp add: base58BTCAlphabet_def)

lemma distinct_alphabet: "distinct base58BTCAlphabet"
  by (simp add: base58BTCAlphabet_def)

lemma alphabet_0 [simp]: "base58BTCAlphabet ! 0 = CHR ''1''"
  by (simp add: base58BTCAlphabet_def)

lemma alphabetIndexes_nonneg_iff: "0 \<le> alphabetIndexes c \<longleftrightarrow> c \<in> set base58BTCAlphabet"
  by (auto simp: alphabetIndexes_def Index_single)

lemma takeWhile_neq_less: "c \<in> set xs \<Longrightarrow> length (takeWhile (\<lambda>x. x \<noteq> c) xs) < length xs"
  by (induction xs) auto

lemma nth_takeWhile_neq: "c \<in> set xs \<Longrightarrow> xs ! length (takeWhile (\<lambda>x. x \<noteq> c) xs) = c"
  by (induction xs) auto

lemma alphabetIndexes_less: "alphabetIndexes c < 58"
proof (cases "c \<in> set base58BTCAlphabet")
  case True
  then have "length (takeWhile (\<lambda>x. x \<noteq> c) base58BTCAlphabet) < length base58BTCAlphabet"
    by (rule takeWhile_neq_less)
  with True show ?thesis by (simp add: alphabetIndexes_def Index_single)
qed (simp add: alphabetIndexes_def Index_single)

lemma char58_alphabetIndexes:
  assumes "c \<in> set base58BTCAlphabet"
  shows "char58 (alphabetIndexes c) = c"
  using assms nth_takeWhile_neq [of c base58BTCAlphabet]
  by (simp add: char58_def alphabetIndexes_def Index_single)

lemma char58_in_alphabet: "0 \<le> d \<Longrightarrow> d < 58 \<Longrightarrow> char58 d \<in> set base58BTCAlphabet"
  by (simp add: char58_def)

lemma alphabetIndexes_char58: "0 \<le> d \<Longrightarrow> d < 58 \<Longrightarrow> alphabetIndexes (char58 d) = d"
proof -
  assume d: "0 \<le> d" "d < 58"
  let ?c = "char58 d"
  have c: "?c \<in> set base58BTCAlphabet" using d by (rule char58_in_alphabet)
  have "base58BTCAlphabet ! nat (alphabetIndexes ?c) = base58BTCAlphabet ! nat d"
    using char58_alphabetIndexes [OF c] by (simp add: char58_def)
  moreover have "nat (alphabetIndexes ?c) < 58" "nat d < 58"
    using alphabetIndexes_less [of ?c] d by auto
  ultimately have "nat (alphabetIndexes ?c) = nat d"
    by (simp add: nth_eq_iff_index_eq [OF distinct_alphabet])
  with d c alphabetIndexes_nonneg_iff [of ?c] show ?thesis by auto
qed

lemma alphabetIndexes_0_iff: "alphabetIndexes c = 0 \<longleftrightarrow> c = CHR ''1''"
proof
  assume "alphabetIndexes c = 0"
  then show "c = CHR ''1''"
    using char58_alphabetIndexes [of c] alphabetIndexes_nonneg_iff [of c] by (simp add: char58_def)
next
  assume "c = CHR ''1''"
  then show "alphabetIndexes c = 0"
    using alphabetIndexes_char58 [of 0] by (simp add: char58_def)
qed

text \<open>The loops as positional notation.\<close>

lemma b58_loop_eq: "b58_loop n acc = acc @ map char58 (digits 58 n)"
proof (induction n acc rule: b58_loop.induct)
  case (1 n acc)
  then show ?case
    by (subst b58_loop.simps, subst digits.simps) (simp add: char58_def)
qed

lemma zero_loop_eq:
  "zero_loop v acc = acc @ replicate (length (takeWhile (\<lambda>b. b = CHR 0x00) v)) (CHR ''1'')"
  by (induction v arbitrary: acc) (auto simp: replicate_append_same [symmetric])

lemma EncodeBase58BTC_eq:
  "EncodeBase58BTC v =
     replicate (length (takeWhile (\<lambda>b. b = CHR 0x00) v)) (CHR ''1'') @
     map char58 (rev (digits 58 (SetBytes v)))"
  by (simp add: EncodeBase58BTC_def zero_loop_eq b58_loop_eq rev_map)

lemma decode_loop_eq:
  "decode_loop i cs n =
     (if set cs \<subseteq> set base58BTCAlphabet
      then Inr (foldl (\<lambda>a d. a * 58 + d) n (map alphabetIndexes cs))
      else Inl (i + length (takeWhile (\<lambda>c. c \<in> set base58BTCAlphabet) cs)))"
  by (induction cs arbitrary: i n)
     (auto simp: alphabetIndexes_nonneg_iff [symmetric] not_le)

lemma ones_loop_eq:
  "ones_loop cs acc = replicate (length (takeWhile (\<lambda>c. c = CHR ''1'') cs)) (CHR 0x00) @ acc"
  by (induction cs arbitrary: acc) (auto simp: replicate_append_same)

lemma DecodeBase58BTC_eq:
  "DecodeBase58BTC v =
     (if v = [] then Inl EmptyBase58
      else if set v \<subseteq> set base58BTCAlphabet
      then Inr (replicate (length (takeWhile (\<lambda>c. c = CHR ''1'') v)) (CHR 0x00) @
                Bytes (val 58 (map alphabetIndexes v)))
      else Inl (InvalidBase58Char (length (takeWhile (\<lambda>c. c \<in> set base58BTCAlphabet) v))))"
  by (simp add: DecodeBase58BTC_def decode_loop_eq ones_loop_eq val_def)

text \<open>A string is its run of a leading character followed by a rest that does not start with it.\<close>

lemma leading_split:
  fixes x :: 'a and xs :: "'a list"
  defines "k \<equiv> length (takeWhile (\<lambda>y. y = x) xs)"
  defines "r \<equiv> dropWhile (\<lambda>y. y = x) xs"
  shows "xs = replicate k x @ r" and "r \<noteq> [] \<Longrightarrow> hd r \<noteq> x"
proof -
  have "takeWhile (\<lambda>y. y = x) xs = replicate k x"
    unfolding k_def by (induction xs) auto
  then show "xs = replicate k x @ r"
    unfolding r_def by (metis takeWhile_dropWhile_id)
  show "r \<noteq> [] \<Longrightarrow> hd r \<noteq> x"
    unfolding r_def using hd_dropWhile [of "\<lambda>y. y = x" xs] by blast
qed

lemma takeWhile_replicate_eq:
  assumes "r \<noteq> [] \<Longrightarrow> hd r \<noteq> x"
  shows "takeWhile (\<lambda>y. y = x) (replicate k x @ r) = replicate k x"
proof -
  have "takeWhile (\<lambda>y. y = x) r = []" using assms by (cases r) auto
  then show ?thesis by (induction k) auto
qed

lemma decode_encode:
  assumes "v \<noteq> []"
  shows "DecodeBase58BTC (EncodeBase58BTC v) = Inr v"
proof -
  define k where "k = length (takeWhile (\<lambda>b. b = CHR 0x00) v)"
  define r where "r = dropWhile (\<lambda>b. b = CHR 0x00) v"
  note k = k_def and v = leading_split(1) [where xs = v and x = "CHR 0x00", folded k_def r_def]
    and r = leading_split(2) [where xs = v and x = "CHR 0x00", folded r_def]
  let ?ds = "rev (digits 58 (SetBytes r))"
  have ds: "\<And>d. d \<in> set ?ds \<Longrightarrow> 0 \<le> d \<and> d < 58" using digits_range [of 58] by auto
  have enc: "EncodeBase58BTC v = replicate k (CHR ''1'') @ map char58 ?ds"
    unfolding EncodeBase58BTC_eq k [symmetric] using v by simp
  have hd1: "map char58 ?ds \<noteq> [] \<Longrightarrow> hd (map char58 ?ds) \<noteq> CHR ''1''"
  proof
    assume ne: "map char58 ?ds \<noteq> []" and "hd (map char58 ?ds) = CHR ''1''"
    then have "alphabetIndexes (char58 (hd ?ds)) = 0"
      by (simp add: hd_map alphabetIndexes_0_iff)
    moreover have "hd ?ds \<in> set ?ds" using ne by (metis hd_in_set map_is_Nil_conv)
    ultimately have "hd ?ds = 0" using ds [of "hd ?ds"] alphabetIndexes_char58 by auto
    with ne show False using hd_rev_digits [of 58] by simp
  qed
  have idx: "map alphabetIndexes (map char58 ?ds) = ?ds"
    unfolding map_map using ds by (intro map_idI) (simp add: alphabetIndexes_char58)
  have one: "alphabetIndexes (CHR ''1'') = 0" by (simp add: alphabetIndexes_0_iff)
  have "set (EncodeBase58BTC v) \<subseteq> set base58BTCAlphabet"
    using ds by (auto simp: enc char58_in_alphabet base58BTCAlphabet_def [symmetric])
       (simp add: base58BTCAlphabet_def)
  moreover have "EncodeBase58BTC v \<noteq> []"
  proof
    assume "EncodeBase58BTC v = []"
    then have "k = 0" "digits 58 (SetBytes r) = []" by (auto simp: enc)
    then have "SetBytes r = 0"
      by (metis SetBytes_nonneg one_less_numeral_iff rev.simps(1) semiring_norm(76) val_Nil val_rev_digits)
    with r have "r = []" using Bytes_SetBytes [of r] by (simp add: Bytes_def)
    with v \<open>k = 0\<close> assms show False by simp
  qed
  moreover have "length (takeWhile (\<lambda>c. c = CHR ''1'') (EncodeBase58BTC v)) = k"
    unfolding enc using takeWhile_replicate_eq [OF hd1, of k] by simp
  moreover have "val 58 (map alphabetIndexes (EncodeBase58BTC v)) = SetBytes r"
    unfolding enc map_append map_replicate one idx val_replicate0
    by (simp add: val_rev_digits)
  ultimately show ?thesis
    using v r by (simp add: DecodeBase58BTC_eq Bytes_SetBytes)
qed

lemma encode_decode:
  assumes "DecodeBase58BTC s = Inr v"
  shows "EncodeBase58BTC v = s"
proof -
  from assms have al: "set s \<subseteq> set base58BTCAlphabet"
    by (auto simp: DecodeBase58BTC_eq split: if_splits)
  define k where "k = length (takeWhile (\<lambda>c. c = CHR ''1'') s)"
  define r where "r = dropWhile (\<lambda>c. c = CHR ''1'') s"
  note k = k_def and s = leading_split(1) [where xs = s and x = "CHR ''1''", folded k_def r_def]
    and r = leading_split(2) [where xs = s and x = "CHR ''1''", folded r_def]
  let ?n = "val 58 (map alphabetIndexes r)"
  have rng: "\<And>d. d \<in> set (map alphabetIndexes r) \<Longrightarrow> 0 \<le> d \<and> d < 58"
    using al s alphabetIndexes_less by (auto simp: alphabetIndexes_nonneg_iff)
  then have n: "0 \<le> ?n" by (intro val_nonneg) auto
  have one: "alphabetIndexes (CHR ''1'') = 0" by (simp add: alphabetIndexes_0_iff)
  have "val 58 (map alphabetIndexes s) = ?n"
    by (simp only: s map_append map_replicate one val_replicate0)
  with assms al k have v: "v = replicate k (CHR 0x00) @ Bytes ?n"
    by (auto simp: DecodeBase58BTC_eq split: if_splits)
  have "length (takeWhile (\<lambda>b. b = CHR 0x00) v) = k"
    unfolding v using takeWhile_replicate_eq [OF Bytes_hd, of ?n k] by simp
  moreover have "SetBytes v = ?n" using n by (simp add: v SetBytes_Bytes)
  moreover have "digits 58 ?n = rev (map alphabetIndexes r)"
    using rng r by (intro digits_val) (auto simp: hd_map alphabetIndexes_0_iff)
  moreover have "map char58 (map alphabetIndexes r) = r"
    unfolding map_map using al s by (intro map_idI) (auto intro: char58_alphabetIndexes)
  ultimately show ?thesis
    unfolding EncodeBase58BTC_eq by (simp add: s)
qed

end
