(* ===== verification/Json.thy ===== *)
theory Json
  imports Prelude
begin

text \<open>
  What the code uses of \<open>encoding/json\<close> and \<open>encoding/base64\<close>. A parsed JSON value is a
  \<open>json\<close>; a number keeps its literal text, as \<open>json.RawMessage\<close> does, and an object keeps
  its members in document order. The lexer itself (text to value) is a parameter of the
  operations that start from text.

  \<open>json.Unmarshal\<close> into a variable is modelled per destination type. It takes the value the
  variable already holds, because a JSON \<open>null\<close> leaves the variable unchanged and reports no
  error, and it answers \<open>None\<close> where \<open>Unmarshal\<close> returns an error.
\<close>

datatype json =
    JNull
  | JBool bool
  | JNum string
  | JStr string
  | JArr "json list"
  | JObj "(string \<times> json) list"

fun um_string :: "string \<Rightarrow> json \<Rightarrow> string option" where
  "um_string cur JNull = Some cur"
| "um_string cur (JStr s) = Some s"
| "um_string cur _ = None"

fun um_bool :: "bool \<Rightarrow> json \<Rightarrow> bool option" where
  "um_bool cur JNull = Some cur"
| "um_bool cur (JBool b) = Some b"
| "um_bool cur _ = None"

text \<open>
  Into a slice: element \<open>i\<close> is decoded over the slot the slice already has there, which
  matters when a member is repeated; a new slot starts from the zero value.
\<close>

fun um_elems :: "('a \<Rightarrow> json \<Rightarrow> 'a option) \<Rightarrow> 'a \<Rightarrow> 'a list \<Rightarrow> json list \<Rightarrow> 'a list option" where
  "um_elems dec zero old [] = Some []"
| "um_elems dec zero old (j # js) =
     (case dec (case old of [] \<Rightarrow> zero | o1 # _ \<Rightarrow> o1) j of
        None \<Rightarrow> None
      | Some s \<Rightarrow> map_option ((#) s) (um_elems dec zero (tl old) js))"

fun um_slice :: "('a \<Rightarrow> json \<Rightarrow> 'a option) \<Rightarrow> 'a \<Rightarrow> 'a list \<Rightarrow> json \<Rightarrow> 'a list option" where
  "um_slice dec zero cur JNull = Some []"
| "um_slice dec zero cur (JArr js) = um_elems dec zero cur js"
| "um_slice dec zero cur _ = None"

definition um_strings :: "string list \<Rightarrow> json \<Rightarrow> string list option" where
  "um_strings = um_slice um_string []"

text \<open>Into \<open>[]json.RawMessage\<close> and into \<open>map[string]json.RawMessage\<close>.\<close>

fun um_raws :: "json \<Rightarrow> json list option" where
  "um_raws JNull = Some []"
| "um_raws (JArr js) = Some js"
| "um_raws _ = None"

fun um_map :: "json \<Rightarrow> (string \<times> json) list option" where
  "um_map JNull = Some []"
| "um_map (JObj kvs) = Some kvs"
| "um_map _ = None"

definition is_digit :: "char \<Rightarrow> bool" where
  "is_digit c \<longleftrightarrow> 48 \<le> (of_char c :: nat) \<and> of_char c \<le> (57 :: nat)"

definition digit_val :: "char \<Rightarrow> int" where
  "digit_val c = int (of_char c) - 48"

text \<open>\<open>strconv.ParseUint(s, 10, bits)\<close>: \<open>None\<close> for a syntax or range error.\<close>

definition ParseUint :: "nat \<Rightarrow> string \<Rightarrow> int option" where
  "ParseUint bits s =
     (if s = [] \<or> \<not> list_all is_digit s then None
      else let n = foldl (\<lambda>a c. a * 10 + digit_val c) 0 s
           in if n < 2 ^ bits then Some n else None)"

text \<open>\<open>strconv.FormatUint(n, 10)\<close>\<close>

function FormatUint :: "int \<Rightarrow> string" where
  "FormatUint n =
     (if n < 10 then [char_of (nat n + 48)]
      else FormatUint (n div 10) @ [char_of (nat (n mod 10) + 48)])"
  by pat_completeness auto
termination
  by (relation "measure nat") auto

declare FormatUint.simps [simp del]

fun um_uint :: "nat \<Rightarrow> json \<Rightarrow> int option" where
  "um_uint bits JNull = Some 0"
| "um_uint bits (JNum s) = ParseUint bits s"
| "um_uint bits _ = None"

text \<open>The member of a map, as an \<open>ok\<close> lookup.\<close>

definition member :: "(string \<times> json) list \<Rightarrow> string \<Rightarrow> json option" where
  "member kvs k = map_of (rev kvs) k"

text \<open>
  A field of a struct: the decoder matches member names case-insensitively, and a later member
  overwrites an earlier one. \<open>dec\<close> decodes one member over the value so far.
\<close>

fun struct_field :: "('a \<Rightarrow> json \<Rightarrow> 'a option) \<Rightarrow> string \<Rightarrow> 'a \<Rightarrow> (string \<times> json) list \<Rightarrow> 'a option" where
  "struct_field dec name cur [] = Some cur"
| "struct_field dec name cur ((k, v) # kvs) =
     (if EqualFold k name then
        (case dec cur v of None \<Rightarrow> None | Some cur' \<Rightarrow> struct_field dec name cur' kvs)
      else struct_field dec name cur kvs)"

text \<open>A whole object into a struct: \<open>null\<close> is no error, anything but an object is one.\<close>

fun um_struct :: "((string \<times> json) list \<Rightarrow> 'a option) \<Rightarrow> 'a \<Rightarrow> json \<Rightarrow> 'a option" where
  "um_struct f zero JNull = Some zero"
| "um_struct f zero (JObj kvs) = f kvs"
| "um_struct f zero _ = None"

section \<open>base64 and base32\<close>

definition b64url_alphabet :: string where
  "b64url_alphabet = ''ABCDEFGHIJKLMNOPQRSTUVWXYZabcdefghijklmnopqrstuvwxyz0123456789-_''"

definition b32_alphabet :: string where
  "b32_alphabet = ''ABCDEFGHIJKLMNOPQRSTUVWXYZ234567''"

text \<open>The bits of a byte string, the highest of each byte first.\<close>

definition byte_bits :: "char \<Rightarrow> bool list" where
  "byte_bits c = (case c of Char b0 b1 b2 b3 b4 b5 b6 b7 \<Rightarrow> [b7, b6, b5, b4, b3, b2, b1, b0])"

definition bits_of :: "string \<Rightarrow> bool list" where
  "bits_of s = concat (map byte_bits s)"

definition bits_val :: "bool list \<Rightarrow> nat" where
  "bits_val bs = foldl (\<lambda>a b. 2 * a + (if b then 1 else 0)) 0 bs"

text \<open>Groups of \<open>n\<close> bits, the last one padded with zero bits (\<open>NoPadding\<close> encodings).\<close>

function groups :: "nat \<Rightarrow> bool list \<Rightarrow> bool list list" where
  "groups n bs =
     (if bs = [] \<or> n = 0 then []
      else take n (bs @ replicate n False) # groups n (drop n bs))"
  by pat_completeness auto
termination
  by (relation "measure (\<lambda>(n, bs). length bs)") auto

declare groups.simps [simp del]

definition encode_bits :: "nat \<Rightarrow> string \<Rightarrow> string \<Rightarrow> string" where
  "encode_bits n alphabet s = map (\<lambda>g. alphabet ! bits_val g) (groups n (bits_of s))"

definition RawURLEncode :: "string \<Rightarrow> string" where
  "RawURLEncode s = encode_bits 6 b64url_alphabet s"

definition Base32NoPad :: "string \<Rightarrow> string" where
  "Base32NoPad s = encode_bits 5 b32_alphabet s"

text \<open>
  \<open>base64.RawURLEncoding.Strict().DecodeString\<close>: carriage returns and line feeds are skipped,
  every other character is in the alphabet, the length is not 1 modulo 4, and the bits after
  the last whole byte are zero.
\<close>

definition sextet :: "char \<Rightarrow> bool list option" where
  "sextet c =
     (case Index b64url_alphabet [c] of
        None \<Rightarrow> None
      | Some i \<Rightarrow> Some (map (\<lambda>k. odd (i div 2 ^ k)) [5, 4, 3, 2, 1, 0]))"

fun sextets :: "string \<Rightarrow> bool list option" where
  "sextets [] = Some []"
| "sextets (c # cs) =
     (case sextet c of
        None \<Rightarrow> None
      | Some g \<Rightarrow> map_option ((@) g) (sextets cs))"

definition byte_of_bits :: "bool list \<Rightarrow> char" where
  "byte_of_bits bs = char_of (bits_val bs)"

function octets :: "bool list \<Rightarrow> string" where
  "octets bs = (if length bs < 8 then [] else byte_of_bits (take 8 bs) # octets (drop 8 bs))"
  by pat_completeness auto
termination
  by (relation "measure length") auto

declare octets.simps [simp del]

definition RawURLDecodeStrict :: "string \<Rightarrow> string option" where
  "RawURLDecodeStrict s =
     (let t = filter (\<lambda>c. c \<noteq> CHR 0x0A \<and> c \<noteq> CHR 0x0D) s in
      if length t mod 4 = 1 then None
      else case sextets t of
             None \<Rightarrow> None
           | Some bs \<Rightarrow>
               if list_all Not (drop (8 * (length bs div 8)) bs) then Some (octets bs) else None)"

subsection \<open>Lengths and alphabets of the encodings\<close>

lemma length_byte_bits [simp]: "length (byte_bits c) = 8"
  by (simp add: byte_bits_def split: char.splits)

lemma length_bits_of [simp]: "length (bits_of s) = 8 * length s"
  by (induction s) (simp_all add: bits_of_def)

lemma groups_Nil [simp]: "groups n [] = []"
  by (simp add: groups.simps)

lemma groups_step:
  "0 < n \<Longrightarrow> bs \<noteq> [] \<Longrightarrow> groups n bs = take n (bs @ replicate n False) # groups n (drop n bs)"
  by (subst groups.simps) simp

lemma ceil_div_step:
  assumes "0 < (n :: nat)" "0 < m"
  shows "(m + n - 1) div n = Suc ((m - n + n - 1) div n)"
proof (cases "n \<le> m")
  case True
  then have "m + n - 1 = (m - n + n - 1) + n" using assms by simp
  then have "(m + n - 1) div n = ((m - n + n - 1) + n) div n" by (rule arg_cong)
  also have "\<dots> = (m - n + n - 1) div n + 1" using assms by (subst div_add_self2) auto
  finally show ?thesis by simp
next
  case False
  then have "m + n - 1 = (m - 1) + n" using assms by simp
  then have "(m + n - 1) div n = ((m - 1) + n) div n" by (rule arg_cong)
  also have "\<dots> = (m - 1) div n + 1" using assms by (subst div_add_self2) auto
  finally show ?thesis using False assms by simp
qed

lemma length_groups:
  assumes "0 < n"
  shows "length (groups n bs) = (length bs + n - 1) div n"
proof (induction bs rule: length_induct)
  case (1 bs)
  show ?case
  proof (cases "bs = []")
    case True
    with assms show ?thesis by simp
  next
    case False
    then have "length (drop n bs) < length bs" using assms by simp
    with 1 have "length (groups n (drop n bs)) = (length (drop n bs) + n - 1) div n" by blast
    moreover have "0 < length bs" using False by simp
    ultimately show ?thesis
      using ceil_div_step [OF assms, of "length bs"] False assms
      by (simp add: groups_step)
  qed
qed

lemma groups_length: "g \<in> set (groups n bs) \<Longrightarrow> length g = n"
proof (induction n bs rule: groups.induct)
  case (1 n bs)
  then show ?case by (subst (asm) groups.simps) (auto split: if_splits)
qed

lemma bits_val_less: "bits_val bs < 2 ^ length bs"
proof (induction bs rule: rev_induct)
  case (snoc b bs)
  then show ?case by (cases b) (auto simp: bits_val_def)
qed (simp add: bits_val_def)

lemma encode_bits_alphabet:
  assumes "2 ^ n \<le> length alphabet"
  shows "set (encode_bits n alphabet s) \<subseteq> set alphabet"
proof
  fix c
  assume "c \<in> set (encode_bits n alphabet s)"
  then obtain g where g: "g \<in> set (groups n (bits_of s))" and c: "c = alphabet ! bits_val g"
    by (auto simp: encode_bits_def)
  have "bits_val g < 2 ^ n" using bits_val_less [of g] groups_length [OF g] by simp
  with assms c show "c \<in> set alphabet" by simp
qed

lemma length_RawURLEncode: "length (RawURLEncode s) = (8 * length s + 5) div 6"
  by (simp add: RawURLEncode_def encode_bits_def length_groups)

lemma length_Base32NoPad: "length (Base32NoPad s) = (8 * length s + 4) div 5"
  by (simp add: Base32NoPad_def encode_bits_def length_groups)

lemma RawURLEncode_alphabet: "set (RawURLEncode s) \<subseteq> set b64url_alphabet"
  unfolding RawURLEncode_def by (rule encode_bits_alphabet) (simp add: b64url_alphabet_def)

end
