(* ===== verification/DidResolver.thy ===== *)
theory DidResolver
  imports Base58 Json "HOL-Library.Monad_Syntax"
begin

text \<open>
  DID resolution without the network: \<open>internal/didkey/didkey.go\<close> (building a did:key),
  \<open>internal/didresolver/didkey.go\<close> (reading one) and \<open>internal/didresolver/resolver.go\<close>
  (selecting a verification key of a DID document, dispatching on the method).

  A public key is a byte string; Go's \<open>(value, error)\<close> is \<open>string + 'a\<close>, an error being its
  message (the part after a \<open>%w\<close> is dropped). \<open>rand.Reader\<close> and the key generation of
  \<open>Generate\<close> are not modelled. The JSON lexer is the parameter \<open>lexer\<close>.
\<close>

section \<open>did:key\<close>

definition PublicKeySize :: nat where
  "PublicKeySize = 32"

text \<open>\<open>didkey.base58Encode\<close>, the package's own copy of the encoder loops\<close>

definition base58Encode :: "string \<Rightarrow> string" where
  "base58Encode v = rev (zero_loop v (b58_loop (SetBytes v) []))"

definition FromPublicKey :: "string \<Rightarrow> string + string" where
  "FromPublicKey publicKey =
     (if length publicKey \<noteq> PublicKeySize then Inl ''ed25519 public key must be 32 bytes''
      else let prefixed = [CHR 0xED, CHR 0x01] @ publicKey
           in Inr (''did:key:z'' @ base58Encode prefixed))"

fun base58_message :: "base58_error \<Rightarrow> string" where
  "base58_message EmptyBase58 = ''empty base58btc value''"
| "base58_message (InvalidBase58Char i) =
     ''invalid base58btc character at offset '' @ FormatUint (int i)"

definition decodeEd25519Multikey :: "string \<Rightarrow> string + string" where
  "decodeEd25519Multikey multibase =
     (if length multibase < 2 \<or> multibase ! 0 \<noteq> CHR ''z''
      then Inl ''key is not base58btc multibase''
      else case DecodeBase58BTC (tl multibase) of
        Inl e \<Rightarrow> Inl (base58_message e)
      | Inr decoded \<Rightarrow>
          if EncodeBase58BTC decoded \<noteq> tl multibase then Inl ''key is not canonical base58btc''
          else if length decoded \<noteq> 2 + PublicKeySize \<or> decoded ! 0 \<noteq> CHR 0xED \<or> decoded ! 1 \<noteq> CHR 0x01
          then Inl ''key is not a 32-byte Ed25519 multikey''
          else Inr (drop 2 decoded))"

definition ed25519KeyFromDIDKey :: "string \<Rightarrow> string + (string \<times> string)" where
  "ed25519KeyFromDIDKey did =
     (case CutPrefix did ''did:key:'' of (multibase, ok) \<Rightarrow>
        if \<not> ok \<or> multibase = [] then Inl ''DID is not a did:key''
        else case decodeEd25519Multikey multibase of
          Inl e \<Rightarrow> Inl e
        | Inr key \<Rightarrow> Inr (key, multibase))"

type_synonym resolver = "string \<Rightarrow> string \<Rightarrow> string + string"

definition DIDKeyResolver :: resolver where
  "DIDKeyResolver did kid =
     (case ed25519KeyFromDIDKey did of
        Inl e \<Rightarrow> Inl e
      | Inr (key, multibase) \<Rightarrow>
          if kid \<noteq> did @ ''#'' @ multibase
          then Inl ''kid is not the canonical did:key authentication method''
          else Inr key)"

text \<open>\<open>MethodResolver.ResolveAuthenticationKey\<close>; a resolver left out is a nil interface\<close>

definition MethodResolver :: "resolver option \<Rightarrow> resolver option \<Rightarrow> resolver" where
  "MethodResolver webvh peer did kid =
     (if HasPrefix did ''did:key:'' then DIDKeyResolver did kid
      else if HasPrefix did ''did:webvh:'' \<and> webvh \<noteq> None then the webvh did kid
      else if HasPrefix did ''did:peer:'' \<and> peer \<noteq> None then the peer did kid
      else Inl ''unsupported DID method'')"

section \<open>DID documents\<close>

record verificationMethod =
  vm_ID :: string
  vm_Type :: string
  vm_Controller :: string
  vm_PublicKeyMultibase :: string
  vm_PublicKeyJWK :: "json option"

record didDocument =
  dd_ID :: string
  dd_VerificationMethod :: "verificationMethod list"
  dd_Authentication :: "json list"
  dd_AssertionMethod :: "json list"

definition no_method :: verificationMethod where
  "no_method = \<lparr>vm_ID = [], vm_Type = [], vm_Controller = [], vm_PublicKeyMultibase = [],
     vm_PublicKeyJWK = None\<rparr>"

definition no_document :: didDocument where
  "no_document = \<lparr>dd_ID = [], dd_VerificationMethod = [], dd_Authentication = [],
     dd_AssertionMethod = []\<rparr>"

text \<open>A \<open>*json.RawMessage\<close>: null makes the pointer nil, anything else is kept raw.\<close>

definition um_raw_ptr :: "json option \<Rightarrow> json \<Rightarrow> json option option" where
  "um_raw_ptr cur j = (case j of JNull \<Rightarrow> Some None | _ \<Rightarrow> Some (Some j))"

definition um_method :: "verificationMethod \<Rightarrow> json \<Rightarrow> verificationMethod option" where
  "um_method cur = um_struct (\<lambda>kvs. do {
     i \<leftarrow> struct_field um_string ''id'' (vm_ID cur) kvs;
     t \<leftarrow> struct_field um_string ''type'' (vm_Type cur) kvs;
     c \<leftarrow> struct_field um_string ''controller'' (vm_Controller cur) kvs;
     m \<leftarrow> struct_field um_string ''publicKeyMultibase'' (vm_PublicKeyMultibase cur) kvs;
     k \<leftarrow> struct_field um_raw_ptr ''publicKeyJwk'' (vm_PublicKeyJWK cur) kvs;
     Some \<lparr>vm_ID = i, vm_Type = t, vm_Controller = c, vm_PublicKeyMultibase = m,
           vm_PublicKeyJWK = k\<rparr> }) cur"

definition um_document :: "json \<Rightarrow> didDocument option" where
  "um_document = um_struct (\<lambda>kvs. do {
     i \<leftarrow> struct_field um_string ''id'' [] kvs;
     v \<leftarrow> struct_field (um_slice um_method no_method) ''verificationMethod'' [] kvs;
     a \<leftarrow> struct_field (\<lambda>_. um_raws) ''authentication'' [] kvs;
     s \<leftarrow> struct_field (\<lambda>_. um_raws) ''assertionMethod'' [] kvs;
     Some \<lparr>dd_ID = i, dd_VerificationMethod = v, dd_Authentication = a,
           dd_AssertionMethod = s\<rparr> }) no_document"

definition absoluteVerificationMethodID :: "string \<Rightarrow> string \<Rightarrow> string" where
  "absoluteVerificationMethodID i did = (if HasPrefix i ''#'' then did @ i else i)"

definition decodeCanonicalBase64URL :: "string \<Rightarrow> string option" where
  "decodeCanonicalBase64URL v =
     (case RawURLDecodeStrict v of
        None \<Rightarrow> None
      | Some decoded \<Rightarrow> if RawURLEncode decoded \<noteq> v then None else Some decoded)"

record jwk =
  jwk_KeyType :: string
  jwk_Curve :: string
  jwk_X :: string
  jwk_D :: string

definition um_jwk :: "json \<Rightarrow> jwk option" where
  "um_jwk = um_struct (\<lambda>kvs. do {
     t \<leftarrow> struct_field um_string ''kty'' [] kvs;
     c \<leftarrow> struct_field um_string ''crv'' [] kvs;
     x \<leftarrow> struct_field um_string ''x'' [] kvs;
     d \<leftarrow> struct_field um_string ''d'' [] kvs;
     Some \<lparr>jwk_KeyType = t, jwk_Curve = c, jwk_X = x, jwk_D = d\<rparr> })
     \<lparr>jwk_KeyType = [], jwk_Curve = [], jwk_X = [], jwk_D = []\<rparr>"

definition ed25519KeyFromVerificationMethod :: "verificationMethod \<Rightarrow> string \<Rightarrow> string + string" where
  "ed25519KeyFromVerificationMethod m did =
     (if vm_Controller m \<noteq> did then Inl ''verification method controller does not match DID''
      else let hasMultibase = vm_PublicKeyMultibase m \<noteq> []; hasJWK = vm_PublicKeyJWK m \<noteq> None in
      if hasMultibase = hasJWK
      then Inl ''verification method must contain exactly one supported key representation''
      else if hasMultibase then
        (if vm_Type m \<noteq> ''Multikey'' \<and> vm_Type m \<noteq> ''Ed25519VerificationKey2020''
         then Inl ''verification method type is not compatible with an Ed25519 multikey''
         else decodeEd25519Multikey (vm_PublicKeyMultibase m))
      else if vm_Type m \<noteq> ''JsonWebKey2020'' then Inl ''verification method type is not JsonWebKey2020''
      else case um_jwk (the (vm_PublicKeyJWK m)) of
        None \<Rightarrow> Inl ''decode public key JWK''
      | Some k \<Rightarrow>
          if jwk_KeyType k \<noteq> ''OKP'' \<or> jwk_Curve k \<noteq> ''Ed25519'' \<or> jwk_X k = [] \<or> jwk_D k \<noteq> []
          then Inl ''JWK is not an Ed25519 public key''
          else case decodeCanonicalBase64URL (jwk_X k) of
            None \<Rightarrow> Inl ''JWK x is not a canonical 32-byte Ed25519 key''
          | Some decoded \<Rightarrow>
              if length decoded \<noteq> PublicKeySize
              then Inl ''JWK x is not a canonical 32-byte Ed25519 key''
              else Inr decoded)"

text \<open>The two loops of \<open>relationshipKeyFromDocument\<close>.\<close>

fun declare_methods ::
  "string \<Rightarrow> verificationMethod list \<Rightarrow> (string \<rightharpoonup> verificationMethod)
     \<Rightarrow> string + (string \<rightharpoonup> verificationMethod)" where
  "declare_methods did [] declared = Inr declared"
| "declare_methods did (m # ms) declared =
     (let i = absoluteVerificationMethodID (vm_ID m) did in
      if i = [] then Inl ''verification method has no id''
      else if declared i \<noteq> None then Inl ''DID document has duplicate verification method ids''
      else declare_methods did ms (declared(i \<mapsto> m\<lparr>vm_ID := i\<rparr>)))"

fun select_relationship ::
  "string \<Rightarrow> string \<Rightarrow> string \<Rightarrow> (string \<rightharpoonup> verificationMethod) \<Rightarrow> json list \<Rightarrow> string + string" where
  "select_relationship did kid name declared [] =
     Inl (''kid is not an '' @ name @ '' verification method'')"
| "select_relationship did kid name declared (raw # raws) =
     (case um_string [] raw of
        Some ref \<Rightarrow>
          if absoluteVerificationMethodID ref did \<noteq> kid
          then select_relationship did kid name declared raws
          else (case declared kid of
                  None \<Rightarrow> Inl (name @ '' references an undeclared verification method'')
                | Some m \<Rightarrow> ed25519KeyFromVerificationMethod m did)
      | None \<Rightarrow>
          (case um_method no_method raw of
             None \<Rightarrow> Inl (name @ '' entry is neither a reference nor a verification method'')
           | Some embedded \<Rightarrow>
               let i = absoluteVerificationMethodID (vm_ID embedded) did in
               if i = kid then ed25519KeyFromVerificationMethod (embedded\<lparr>vm_ID := i\<rparr>) did
               else select_relationship did kid name declared raws))"

definition relationshipKeyFromDocument ::
  "didDocument \<Rightarrow> string \<Rightarrow> string \<Rightarrow> json list \<Rightarrow> string \<Rightarrow> string + string" where
  "relationshipKeyFromDocument parsed did kid relationship name =
     (if dd_ID parsed \<noteq> did then Inl ''resolved DID document id does not match DID''
      else case declare_methods did (dd_VerificationMethod parsed) (\<lambda>_. None) of
        Inl e \<Rightarrow> Inl e
      | Inr declared \<Rightarrow> select_relationship did kid name declared relationship)"

definition AuthenticationKeyFromDocument :: "(string \<Rightarrow> json option) \<Rightarrow> string \<Rightarrow> resolver" where
  "AuthenticationKeyFromDocument lexer document did kid =
     (case Option.bind (lexer document) um_document of
        None \<Rightarrow> Inl ''decode DID document''
      | Some parsed \<Rightarrow>
          relationshipKeyFromDocument parsed did kid (dd_Authentication parsed) ''authentication'')"

definition AssertionMethodKeyFromDocument :: "(string \<Rightarrow> json option) \<Rightarrow> string \<Rightarrow> resolver" where
  "AssertionMethodKeyFromDocument lexer document did kid =
     (case Option.bind (lexer document) um_document of
        None \<Rightarrow> Inl ''decode DID document''
      | Some parsed \<Rightarrow>
          relationshipKeyFromDocument parsed did kid (dd_AssertionMethod parsed) ''assertionMethod'')"

section \<open>did:key identifiers and keys correspond\<close>

lemma base58Encode_eq: "base58Encode = EncodeBase58BTC"
  by (rule ext) (simp add: base58Encode_def EncodeBase58BTC_def)

text \<open>A multikey decodes to a key exactly when it is the key's own encoding.\<close>

lemma decodeEd25519Multikey_Inr:
  "decodeEd25519Multikey mb = Inr k \<longleftrightarrow>
     length k = PublicKeySize \<and> mb = ''z'' @ EncodeBase58BTC ([CHR 0xED, CHR 0x01] @ k)"
proof
  assume "decodeEd25519Multikey mb = Inr k"
  then obtain d where mb: "mb = ''z'' @ tl mb" and d: "DecodeBase58BTC (tl mb) = Inr d"
    and "length d = 2 + PublicKeySize \<and> d ! 0 = CHR 0xED \<and> d ! 1 = CHR 0x01" "k = drop 2 d"
    by (cases mb) (auto simp: decodeEd25519Multikey_def split: if_splits sum.splits)
  then have "length k = PublicKeySize \<and> d = [CHR 0xED, CHR 0x01] @ k"
    by (cases d; cases "tl d") auto
  with mb encode_decode [OF d] show "length k = PublicKeySize \<and> mb = ''z'' @ EncodeBase58BTC ([CHR 0xED, CHR 0x01] @ k)"
    by simp
next
  assume r: "length k = PublicKeySize \<and> mb = ''z'' @ EncodeBase58BTC ([CHR 0xED, CHR 0x01] @ k)"
  have "EncodeBase58BTC ([CHR 0xED, CHR 0x01] @ k) \<noteq> []"
    using decode_encode [of "[CHR 0xED, CHR 0x01] @ k"]
    by (auto simp: DecodeBase58BTC_def split: if_splits)
  then have "\<not> length mb < 2" using r by (cases "EncodeBase58BTC ([CHR 0xED, CHR 0x01] @ k)") auto
  with r decode_encode [of "[CHR 0xED, CHR 0x01] @ k"]
  show "decodeEd25519Multikey mb = Inr k"
    by (simp add: decodeEd25519Multikey_def)
qed

lemma ed25519KeyFromDIDKey_split:
  "ed25519KeyFromDIDKey did = Inr (k, mb) \<longleftrightarrow>
     did = ''did:key:'' @ mb \<and> decodeEd25519Multikey mb = Inr k"
proof -
  have "decodeEd25519Multikey [] \<noteq> Inr k" by (simp add: decodeEd25519Multikey_def)
  then show ?thesis
    by (auto simp: ed25519KeyFromDIDKey_def CutPrefix_def HasPrefix_iff split: if_splits sum.splits)
qed

lemma ed25519KeyFromDIDKey_Inr:
  "ed25519KeyFromDIDKey did = Inr (k, mb) \<longleftrightarrow>
     FromPublicKey k = Inr did \<and> mb = drop 8 did"
  unfolding ed25519KeyFromDIDKey_split decodeEd25519Multikey_Inr
  by (auto simp: FromPublicKey_def base58Encode_eq)

lemma FromPublicKey_inj: "FromPublicKey k = Inr did \<Longrightarrow> FromPublicKey k' = Inr did \<Longrightarrow> k = k'"
  using ed25519KeyFromDIDKey_Inr [of did k "drop 8 did"] ed25519KeyFromDIDKey_Inr [of did k' "drop 8 did"]
  by simp

lemma DIDKeyResolver_Inr:
  "DIDKeyResolver did kid = Inr k \<longleftrightarrow>
     FromPublicKey k = Inr did \<and> kid = did @ ''#'' @ drop 8 did"
proof
  assume "DIDKeyResolver did kid = Inr k"
  then show "FromPublicKey k = Inr did \<and> kid = did @ ''#'' @ drop 8 did"
    by (auto simp: DIDKeyResolver_def ed25519KeyFromDIDKey_Inr split: sum.splits if_splits)
next
  assume r: "FromPublicKey k = Inr did \<and> kid = did @ ''#'' @ drop 8 did"
  then have "ed25519KeyFromDIDKey did = Inr (k, drop 8 did)"
    by (simp add: ed25519KeyFromDIDKey_Inr)
  with r show "DIDKeyResolver did kid = Inr k"
    by (simp add: DIDKeyResolver_def)
qed

section \<open>Selecting a key of a document\<close>

text \<open>
  What a selected key means. A method is usable for a DID when the DID controls it and it
  carries exactly one public key, of a supported encoding; a JWK with a private part is never
  usable.
\<close>

definition usable_method :: "string \<Rightarrow> verificationMethod \<Rightarrow> string \<Rightarrow> bool" where
  "usable_method did m k \<longleftrightarrow>
     vm_Controller m = did \<and> length k = PublicKeySize \<and>
     (vm_PublicKeyJWK m = None \<and> vm_Type m \<in> {''Multikey'', ''Ed25519VerificationKey2020''} \<and>
        vm_PublicKeyMultibase m = ''z'' @ EncodeBase58BTC ([CHR 0xED, CHR 0x01] @ k)
      \<or> vm_PublicKeyMultibase m = [] \<and> vm_Type m = ''JsonWebKey2020'' \<and>
        (\<exists>raw j. vm_PublicKeyJWK m = Some raw \<and> um_jwk raw = Some j \<and> jwk_KeyType j = ''OKP'' \<and>
           jwk_Curve j = ''Ed25519'' \<and> jwk_X j = RawURLEncode k \<and> jwk_D j = []))"

text \<open>A declared method of the document, and one embedded in a relationship.\<close>

definition declares :: "didDocument \<Rightarrow> string \<Rightarrow> verificationMethod \<Rightarrow> bool" where
  "declares doc kid m \<longleftrightarrow>
     (\<exists>m0 \<in> set (dd_VerificationMethod doc).
        absoluteVerificationMethodID (vm_ID m0) (dd_ID doc) = kid \<and> m = m0\<lparr>vm_ID := kid\<rparr>)"

definition lists_key :: "didDocument \<Rightarrow> json list \<Rightarrow> string \<Rightarrow> verificationMethod \<Rightarrow> bool" where
  "lists_key doc rel kid m \<longleftrightarrow>
     (\<exists>raw \<in> set rel.
        (\<exists>ref. um_string [] raw = Some ref \<and> absoluteVerificationMethodID ref (dd_ID doc) = kid \<and>
           declares doc kid m)
      \<or> (\<exists>e. um_method no_method raw = Some e \<and>
           absoluteVerificationMethodID (vm_ID e) (dd_ID doc) = kid \<and> m = e\<lparr>vm_ID := kid\<rparr>))"

lemma decodeCanonicalBase64URL_Some:
  "decodeCanonicalBase64URL v = Some d \<Longrightarrow> v = RawURLEncode d"
  by (auto simp: decodeCanonicalBase64URL_def split: option.splits if_splits)

lemma ed25519KeyFromVerificationMethod_Inr:
  "ed25519KeyFromVerificationMethod m did = Inr k \<Longrightarrow> usable_method did m k"
  by (auto simp: ed25519KeyFromVerificationMethod_def usable_method_def Let_def decodeEd25519Multikey_Inr
      dest!: decodeCanonicalBase64URL_Some split: if_splits option.splits)

text \<open>The map the first loop builds holds exactly the declared methods, under distinct ids.\<close>

lemma declare_methods_Inr:
  assumes "declare_methods did ms declared = Inr d"
  shows "d i = Some m \<longleftrightarrow> declared i = Some m \<or>
           (\<exists>m0 \<in> set ms. absoluteVerificationMethodID (vm_ID m0) did = i \<and> m = m0\<lparr>vm_ID := i\<rparr>)"
    and "distinct (map (\<lambda>m. absoluteVerificationMethodID (vm_ID m) did) ms)"
    and "\<forall>m \<in> set ms. declared (absoluteVerificationMethodID (vm_ID m) did) = None"
    and "\<forall>m \<in> set ms. absoluteVerificationMethodID (vm_ID m) did \<noteq> []"
  using assms
proof (induction ms arbitrary: declared)
  case Nil
  { case 1 then show ?case by simp }
  { case 2 then show ?case by simp }
  { case 3 then show ?case by simp }
  { case 4 then show ?case by simp }
next
  case (Cons a ms)
  let ?a = "absoluteVerificationMethodID (vm_ID a) did"
  { case 1 then show ?case using Cons.IH(1) Cons.IH(3)
      by (fastforce simp: Let_def split: if_splits) }
  { case 2 then show ?case using Cons.IH(2) Cons.IH(3)
      by (fastforce simp: Let_def split: if_splits) }
  { case 3 then show ?case using Cons.IH(3)
      by (fastforce simp: Let_def split: if_splits) }
  { case 4 then show ?case using Cons.IH(4)
      by (fastforce simp: Let_def split: if_splits) }
qed

lemma lists_key_intros:
  "lists_key doc raws kid m \<Longrightarrow> lists_key doc (raw # raws) kid m"
  "um_string [] raw = Some ref \<Longrightarrow> absoluteVerificationMethodID ref (dd_ID doc) = kid \<Longrightarrow>
     declares doc kid m \<Longrightarrow> lists_key doc (raw # raws) kid m"
  "um_method no_method raw = Some e \<Longrightarrow> absoluteVerificationMethodID (vm_ID e) (dd_ID doc) = kid \<Longrightarrow>
     lists_key doc (raw # raws) kid (e\<lparr>vm_ID := kid\<rparr>)"
  by (auto simp: lists_key_def)

lemma select_relationship_Inr:
  assumes "select_relationship did kid name declared rel = Inr k"
    and decl: "\<And>m. declared kid = Some m \<Longrightarrow> declares doc kid m" and did: "dd_ID doc = did"
  shows "\<exists>m. lists_key doc rel kid m \<and> usable_method did m k"
  using assms(1)
proof (induction rel)
  case Nil
  then show ?case by simp
next
  case (Cons raw raws)
  show ?case
  proof (cases "select_relationship did kid name declared raws = Inr k")
    case True
    with Cons.IH show ?thesis by (blast intro: lists_key_intros(1))
  next
    case False
    show ?thesis
    proof (cases "um_string [] raw")
      case None
      with Cons.prems False obtain e where e: "um_method no_method raw = Some e"
        and i: "absoluteVerificationMethodID (vm_ID e) did = kid"
        and k: "ed25519KeyFromVerificationMethod (e\<lparr>vm_ID := kid\<rparr>) did = Inr k"
        by (auto simp: Let_def split: option.splits if_splits)
      from e i have "lists_key doc (raw # raws) kid (e\<lparr>vm_ID := kid\<rparr>)"
        by (intro lists_key_intros(3)) (simp_all add: did)
      with ed25519KeyFromVerificationMethod_Inr [OF k] show ?thesis by blast
    next
      case (Some r)
      with Cons.prems False obtain m where i: "absoluteVerificationMethodID r did = kid"
        and m: "declared kid = Some m" and k: "ed25519KeyFromVerificationMethod m did = Inr k"
        by (auto split: option.splits if_splits)
      from Some i m have "lists_key doc (raw # raws) kid m"
        by (intro lists_key_intros(2) [OF Some]) (simp_all add: did decl)
      with ed25519KeyFromVerificationMethod_Inr [OF k] show ?thesis by blast
    qed
  qed
qed

lemma relationshipKeyFromDocument_Inr:
  assumes "relationshipKeyFromDocument doc did kid rel name = Inr k"
  shows "dd_ID doc = did \<and>
         distinct (map (\<lambda>m. absoluteVerificationMethodID (vm_ID m) did) (dd_VerificationMethod doc)) \<and>
         (\<exists>m. lists_key doc rel kid m \<and> usable_method did m k)"
proof -
  from assms obtain d where i: "dd_ID doc = did"
    and d: "declare_methods did (dd_VerificationMethod doc) (\<lambda>_. None) = Inr d"
    and s: "select_relationship did kid name d rel = Inr k"
    by (auto simp: relationshipKeyFromDocument_def split: if_splits sum.splits)
  have "\<And>m. d kid = Some m \<Longrightarrow> declares doc kid m"
    using declare_methods_Inr(1) [OF d] i by (auto simp: declares_def)
  with s i declare_methods_Inr(2) [OF d] show ?thesis
    by (auto dest: select_relationship_Inr)
qed

section \<open>Properties\<close>

text \<open>
  C7. A did:key identifier and its Ed25519 key determine each other: every 32-byte key (and
  nothing else) has an identifier, the resolver accepts an identifier with a key id exactly
  when the identifier is the one \<open>FromPublicKey\<close> builds for the key it returns and the key id
  is the canonical one. In particular no second spelling of a key is ever accepted.
\<close>

theorem did_key_canonical:
  "(DIDKeyResolver did kid = Inr k \<longleftrightarrow>
      FromPublicKey k = Inr did \<and> kid = did @ ''#'' @ drop 8 did)
   \<and> ((\<exists>did. FromPublicKey k = Inr did) \<longleftrightarrow> length k = PublicKeySize)"
  using DIDKeyResolver_Inr by (auto simp: FromPublicKey_def)

text \<open>
  C8. A key selected from a DID document for authentication is authorised by it: the document
  is the DID's own, its declared method ids are distinct, the key id is listed under
  \<open>authentication\<close> (by reference to a declared method, or embedded), and that method is
  controlled by the DID and carries exactly this 32-byte public key in one supported encoding,
  a JWK having no private part.
\<close>

theorem authentication_key_authorised:
  assumes "AuthenticationKeyFromDocument lexer document did kid = Inr k"
  shows "\<exists>doc m. Option.bind (lexer document) um_document = Some doc \<and> dd_ID doc = did \<and>
           distinct (map (\<lambda>m. absoluteVerificationMethodID (vm_ID m) did) (dd_VerificationMethod doc)) \<and>
           lists_key doc (dd_Authentication doc) kid m \<and> usable_method did m k"
  using assms by (auto simp: AuthenticationKeyFromDocument_def split: option.splits
      dest: relationshipKeyFromDocument_Inr)

definition sample_document :: json where
  "sample_document =
     JObj [(''id'', JStr ''did:webvh:x''),
           (''verificationMethod'', JArr [JObj
             [(''id'', JStr ''#k''), (''type'', JStr ''JsonWebKey2020''),
              (''controller'', JStr ''did:webvh:x''),
              (''publicKeyJwk'', JObj [(''kty'', JStr ''OKP''), (''crv'', JStr ''Ed25519''),
                 (''x'', JStr (replicate 43 (CHR ''A'')))])]]),
           (''authentication'', JArr [JStr ''#k''])]"

lemma sample_document_key:
  "AuthenticationKeyFromDocument (\<lambda>_. Some sample_document) [] ''did:webvh:x'' ''did:webvh:x#k''
     = Inr (replicate 32 (CHR 0x00))"
  by code_simp

theorem authentication_key_authorised_witness:
  "\<exists>doc m. Option.bind (Some sample_document) um_document = Some doc \<and> dd_ID doc = ''did:webvh:x'' \<and>
     distinct (map (\<lambda>m. absoluteVerificationMethodID (vm_ID m) ''did:webvh:x'') (dd_VerificationMethod doc)) \<and>
     lists_key doc (dd_Authentication doc) ''did:webvh:x#k'' m \<and>
     usable_method ''did:webvh:x'' m (replicate 32 (CHR 0x00))"
  using authentication_key_authorised [OF sample_document_key] .

end
