(* ===== verification/Connection.thy ===== *)
theory Connection
  imports Model Steps Leases Sha256 DidResolver
begin

text \<open>
  \<open>internal/connection/store.go\<close>: the reservation a wallet makes by scanning a QR code, from
  the open handle through claim, confirmation and provisioning to release, one definition per
  function. A function that runs a transaction is the whole transaction.

  The unique indexes of \<open>migrations/000041\<close> (id, claim handle, one active request per
  session) guard the insert. \<open>Current\<close> orders by \<open>created_at DESC, id DESC\<close>.
\<close>

section \<open>Constants\<close>

definition QRLifetime :: int where
  "QRLifetime = 5 * minute"

definition ConfirmationLifetime :: int where
  "ConfirmationLifetime = 5 * minute"

definition ChangeCooldown :: int where
  "ChangeCooldown = 5 * second"

abbreviation "OperationProvisionVTA \<equiv> ''provision_vta''"
abbreviation "OperationGrantACL \<equiv> ''grant_acl''"

section \<open>Administrator DIDs\<close>

definition ValidateAdminDID :: "string \<Rightarrow> err + string" where
  "ValidateAdminDID v =
     (let did = TrimSpace v in
      if length did > 128 \<or> \<not> HasPrefix did ''did:key:z'' then Inl ErrInvalidDID
      else case DIDKeyResolver did (did @ ''#'' @ TrimPrefix did ''did:key:'') of
        Inl _ \<Rightarrow> Inl ErrInvalidDID
      | Inr _ \<Rightarrow> Inr did)"

definition ClaimCheck :: "string \<Rightarrow> string" where
  "ClaimCheck did = take 6 (Base32NoPad (sha256 did))"

definition ClaimantDigest :: "string \<Rightarrow> string" where
  "ClaimantDigest did = hex (sha256 did)"

section \<open>Statements\<close>

definition update_conns ::
  "(mobile_connection \<Rightarrow> bool) \<Rightarrow> (mobile_connection \<Rightarrow> mobile_connection) \<Rightarrow> db \<Rightarrow> db" where
  "update_conns P f d = d\<lparr>t_conns := update_where P f (t_conns d)\<rparr>"

definition update_sessions ::
  "(setup_session \<Rightarrow> bool) \<Rightarrow> (setup_session \<Rightarrow> setup_session) \<Rightarrow> db \<Rightarrow> db" where
  "update_sessions P f d = d\<lparr>t_sessions := update_where P f (t_sessions d)\<rparr>"

lemma tables_update [simp]:
  "t_conns (update_conns P f d) = update_where P f (t_conns d)"
  "t_sessions (update_conns P f d) = t_sessions d"
  "t_executions (update_conns P f d) = t_executions d"
  "t_bindings (update_conns P f d) = t_bindings d"
  "t_conns (update_sessions Q g d) = t_conns d"
  "t_sessions (update_sessions Q g d) = update_where Q g (t_sessions d)"
  "update_conns P f (update_sessions Q g d) = update_sessions Q g (update_conns P f d)"
  by (simp_all add: update_conns_def update_sessions_def)

abbreviation has_id :: "string \<Rightarrow> mobile_connection \<Rightarrow> bool" where
  "has_id i r \<equiv> mc_ID r = i"

definition set_status :: "string \<Rightarrow> mobile_connection \<Rightarrow> mobile_connection" where
  "set_status st r = r\<lparr>mc_Status := st\<rparr>"

definition clear_status :: "string \<Rightarrow> mobile_connection \<Rightarrow> mobile_connection" where
  "clear_status st r = r\<lparr>mc_Status := st, mc_AdminDid := []\<rparr>"

definition find_session :: "nat \<Rightarrow> db \<Rightarrow> setup_session option" where
  "find_session i d = find (\<lambda>s. ss_ID s = i) (t_sessions d)"

definition find_conn :: "string \<Rightarrow> db \<Rightarrow> mobile_connection option" where
  "find_conn i d = find (has_id i) (t_conns d)"

definition find_handle :: "string \<Rightarrow> db \<Rightarrow> mobile_connection option" where
  "find_handle h d = find (\<lambda>r. mc_ClaimHandle r = Some h) (t_conns d)"

definition lockSession :: "nat \<Rightarrow> setup_session dbtx" where
  "lockSession i = first (find_session i)"

text \<open>\<open>ORDER BY created_at DESC, id DESC LIMIT 1\<close>\<close>

definition newer :: "mobile_connection \<Rightarrow> mobile_connection \<Rightarrow> bool" where
  "newer a b \<longleftrightarrow> mc_CreatedAt b < mc_CreatedAt a \<or> mc_CreatedAt b = mc_CreatedAt a \<and> mc_ID b < mc_ID a"

fun newest :: "mobile_connection list \<Rightarrow> mobile_connection option" where
  "newest [] = None"
| "newest (r # rs) =
     (case newest rs of None \<Rightarrow> Some r | Some q \<Rightarrow> if newer q r then Some q else Some r)"

definition Current :: "nat \<Rightarrow> mobile_connection option dbtx" where
  "Current sessionID = select (\<lambda>d. newest (filter (\<lambda>r. mc_SessionID r = sessionID) (t_conns d)))"

definition active_statuses :: "string list" where
  "active_statuses = [''open'', ''claimed'', ''confirmed'', ''provisioning'']"

definition active :: "mobile_connection \<Rightarrow> bool" where
  "active r \<longleftrightarrow> mc_Status r \<in> set active_statuses"

text \<open>The unique indexes an insert has to satisfy.\<close>

definition insert_allowed :: "mobile_connection \<Rightarrow> db \<Rightarrow> bool" where
  "insert_allowed r d \<longleftrightarrow>
     (\<forall>q \<in> set (t_conns d). mc_ID q \<noteq> mc_ID r \<and>
        (mc_ClaimHandle q = None \<or> mc_ClaimHandle q \<noteq> mc_ClaimHandle r) \<and>
        \<not> (active q \<and> active r \<and> mc_SessionID q = mc_SessionID r))"

definition create_conn :: "mobile_connection \<Rightarrow> unit dbtx" where
  "create_conn r = exec_checked (insert_allowed r) (\<lambda>d. d\<lparr>t_conns := t_conns d @ [r]\<rparr>)"

section \<open>Redeem polls\<close>

definition poll_free :: "string \<Rightarrow> int \<Rightarrow> mobile_connection \<Rightarrow> bool" where
  "poll_free requestID now r \<longleftrightarrow>
     mc_ID r = requestID \<and> mc_Status r \<in> {''claimed'', ''confirmed'', ''provisioning''} \<and>
     (case mc_RedeemPollUntil r of None \<Rightarrow> True | Some u \<Rightarrow> u \<le> now)"

definition hold_poll :: "string \<Rightarrow> int \<Rightarrow> mobile_connection \<Rightarrow> mobile_connection" where
  "hold_poll pollID deadline r = r\<lparr>mc_RedeemPollID := Some pollID, mc_RedeemPollUntil := Some deadline\<rparr>"

interpretation poll: row_lease mc_ID poll_free hold_poll
  by unfold_locales (auto simp: poll_free_def hold_poll_def)

definition AcquireRedeemPoll :: "string \<Rightarrow> string \<Rightarrow> int \<Rightarrow> bool dbtx" where
  "AcquireRedeemPoll requestID pollID lease =
     (if requestID = [] \<or> pollID = [] \<or> lease \<le> 0 then throw (NewError ''invalid redeem poll lease'')
      else bnd Now (\<lambda>now.
           bnd (exec_count (\<lambda>d. count_where (poll_free requestID now) (t_conns d))
                  (update_conns (poll_free requestID now) (hold_poll pollID (now + lease))))
               (\<lambda>n. ret (n = 1))))"

definition ReleaseRedeemPoll :: "string \<Rightarrow> string \<Rightarrow> unit dbtx" where
  "ReleaseRedeemPoll requestID pollID =
     exec (update_conns (\<lambda>r. mc_ID r = requestID \<and> mc_RedeemPollID r = Some pollID)
             (\<lambda>r. r\<lparr>mc_RedeemPollID := None, mc_RedeemPollUntil := None\<rparr>))"

definition newHandle :: "string dbtx" where
  "newHandle = bnd (rand_read 16) (\<lambda>raw. ret (RawURLEncode raw))"

section \<open>Creating, refreshing and cancelling a reservation\<close>

definition Ready :: "setup_session \<Rightarrow> bool" where
  "Ready s \<longleftrightarrow>
     (if IsFullStack s then ss_Status s = ''awaiting_admin_did''
      else ss_Status s = ''vta_setup_complete'' \<or> ss_Status s = StatusPoolWaiting)"

definition operationFor :: "setup_session \<Rightarrow> string \<Rightarrow> err + string" where
  "operationFor s vtaDID =
     (if Ready s \<and> ss_AdminDid s = [] \<and> ss_VtaDid s = vtaDID then Inr OperationProvisionVTA
      else if ss_Status s = ''running'' \<and> ss_VtaDid s = vtaDID then Inr OperationGrantACL
      else Inl ErrConflict)"

definition final_statuses :: "string list" where
  "final_statuses = [''released'', ''rejected'', ''lapsed'', ''cancelled'', ''expired'', ''failed'']"

definition finalStatus :: "string \<Rightarrow> bool" where
  "finalStatus st \<longleftrightarrow> st \<in> set final_statuses"

definition new_conn :: "string \<Rightarrow> nat \<Rightarrow> string \<Rightarrow> string \<Rightarrow> string \<Rightarrow> int \<Rightarrow> mobile_connection" where
  "new_conn i sessionID vtaDid operation handle now =
     \<lparr>mc_ID = i, mc_SessionID = sessionID, mc_VtaDid = vtaDid, mc_Operation = operation,
      mc_AdminDid = [], mc_Status = ''open'', mc_ClaimHandle = Some handle,
      mc_ClaimantDigest = None, mc_CreatedAt = now, mc_ExpiresAt = now + QRLifetime,
      mc_ConfirmBy = None, mc_ClaimedAt = None, mc_ConfirmedAt = None, mc_ReleasedAt = None,
      mc_RedeemPollID = None, mc_RedeemPollUntil = None, mc_ProvisionError = [],
      mc_PublicAccessDigest = []\<rparr>"

text \<open>The tail of \<open>change\<close>: mint a handle and insert the open request.\<close>

definition open_request :: "nat \<Rightarrow> setup_session \<Rightarrow> string \<Rightarrow> int \<Rightarrow> mobile_connection dbtx" where
  "open_request sessionID s operation now =
     bnd newHandle (\<lambda>handle.
     bnd new_uuid (\<lambda>i.
     let result = new_conn i sessionID (ss_VtaDid s) operation handle now in
     bnd (create_conn result) (\<lambda>_. ret result)))"

definition change :: "nat \<Rightarrow> string \<Rightarrow> string \<Rightarrow> bool \<Rightarrow> mobile_connection dbtx" where
  "change sessionID action expectedID pooled =
     transaction (
       bnd (lockSession sessionID) (\<lambda>s.
       bnd Now (\<lambda>now.
       bnd (Current sessionID) (\<lambda>cur.
       if expectedID \<noteq> [] \<and> (case cur of None \<Rightarrow> True | Some c \<Rightarrow> mc_ID c \<noteq> expectedID)
       then throw ErrConflict
       else if action = ''cancel'' then
         (case cur of
            None \<Rightarrow> throw ErrConflict
          | Some c \<Rightarrow>
              if mc_Status c \<noteq> ''open'' then throw ErrConflict
              else bnd (exec (update_conns (has_id (mc_ID c)) (clear_status ''lapsed'')))
                     (\<lambda>_. ret (set_status ''lapsed'' c)))
       else
         bnd (lift_err (operationFor s (ss_VtaDid s))) (\<lambda>operation.
         let isPool = ss_Status s = StatusPoolWaiting in
         if isPool \<noteq> pooled \<or> isPool \<and> operation \<noteq> OperationProvisionVTA then throw ErrConflict
         else case cur of
           None \<Rightarrow> open_request sessionID s operation now
         | Some c \<Rightarrow>
             if mc_Status c \<in> {''claimed'', ''confirmed'', ''provisioning''} then throw ErrConflict
             else if mc_Status c = ''open'' then
               (if now < mc_ExpiresAt c \<and> action = ''create'' then ret c
                else if now - mc_CreatedAt c < ChangeCooldown then throw ErrCooldown
                else bnd (exec (update_conns (has_id (mc_ID c)) (set_status ''lapsed'')))
                       (\<lambda>_. open_request sessionID s operation now))
             else if \<not> finalStatus (mc_Status c) then throw ErrConflict
             else if now - mc_CreatedAt c < ChangeCooldown then throw ErrCooldown
             else open_request sessionID s operation now)))))"

definition Change :: "nat \<Rightarrow> string \<Rightarrow> string \<Rightarrow> mobile_connection dbtx" where
  "Change sessionID action expectedID = change sessionID action expectedID False"

definition ChangePool :: "nat \<Rightarrow> mobile_connection dbtx" where
  "ChangePool sessionID = change sessionID ''create'' [] True"

section \<open>Claiming\<close>

definition beginProvision :: "setup_session \<Rightarrow> string \<Rightarrow> int \<Rightarrow> unit dbtx" where
  "beginProvision s did now =
     (let status = if IsFullStack s then ''step_import_admin_did'' else ''provisioning'' in
      exec (update_sessions (\<lambda>t. ss_ID t = ss_ID s)
        (\<lambda>t. t\<lparr>ss_AdminDid := did, ss_Status := status, ss_UpdatedAt := now\<rparr>)))"

definition claim_row :: "string \<Rightarrow> string \<Rightarrow> int \<Rightarrow> mobile_connection \<Rightarrow> mobile_connection" where
  "claim_row operation did now r =
     r\<lparr>mc_Status := ''claimed'', mc_Operation := operation, mc_AdminDid := did,
       mc_ClaimantDigest := Some (ClaimantDigest did), mc_ClaimedAt := Some now,
       mc_ConfirmBy := Some (now + ConfirmationLifetime), mc_ConfirmedAt := None\<rparr>"

text \<open>The reply of a claim is recorded only on an execution that is still active.\<close>

definition record_reply :: "string \<Rightarrow> string \<Rightarrow> int \<Rightarrow> unit dbtx" where
  "record_reply documentID response now =
     (let hit = (\<lambda>e. te_DocumentID e = documentID \<and> te_State e = ''executing'') in
      bnd (exec_count (\<lambda>d. count_where hit (t_executions d))
             (\<lambda>d. d\<lparr>t_executions := update_where hit
                (\<lambda>e. e\<lparr>te_State := ''completed'', te_ResponseBytes := response, te_UpdatedAt := now\<rparr>)
                (t_executions d)\<rparr>))
        (\<lambda>n. guard (n = 1) (NewError ''claim replay execution is not active'')))"

definition claim :: "string \<Rightarrow> string \<Rightarrow> string \<Rightarrow> string \<Rightarrow> mobile_connection dbtx" where
  "claim handle v documentID response =
     bnd (lift_err (ValidateAdminDID v)) (\<lambda>did.
     transaction (
       bnd (first (find_handle handle)) (\<lambda>candidate.
       bnd (lockSession (mc_SessionID candidate)) (\<lambda>s.
       bnd (first (find_handle handle)) (\<lambda>result.
       bnd Now (\<lambda>now.
       if mc_Status result \<noteq> ''open'' then
         (if mc_Status result \<in> {''claimed'', ''confirmed'', ''provisioning'', ''released''}
          then throw ErrAlreadyClaimed else throw ErrExpired)
       else if \<not> now < mc_ExpiresAt result then
         bnd (exec (update_conns (has_id (mc_ID result)) (set_status ''lapsed'')))
           (\<lambda>_. throw ErrExpired)
       else
         bnd (lift_err (operationFor s (mc_VtaDid result))) (\<lambda>operation.
         bnd (exec (update_conns (has_id (mc_ID result)) (claim_row operation did now))) (\<lambda>_.
         bnd (if documentID \<noteq> [] then record_reply documentID response now else ret ()) (\<lambda>_.
         ret (result\<lparr>mc_Status := ''claimed'', mc_Operation := operation, mc_AdminDid := did,
                mc_ClaimantDigest := Some (ClaimantDigest did), mc_ClaimedAt := Some now,
                mc_ConfirmBy := Some (now + ConfirmationLifetime)\<rparr>)))))))))) "

definition Claim :: "string \<Rightarrow> string \<Rightarrow> mobile_connection dbtx" where
  "Claim handle v = claim handle v [] []"

definition ClaimAndRecord :: "string \<Rightarrow> string \<Rightarrow> string \<Rightarrow> string \<Rightarrow> mobile_connection dbtx" where
  "ClaimAndRecord handle v documentID response =
     (if documentID = [] \<or> response = [] then throw (NewError ''claim replay response is required'')
      else claim handle v documentID response)"

section \<open>Confirming and rejecting\<close>

definition find_request :: "nat \<Rightarrow> string \<Rightarrow> db \<Rightarrow> mobile_connection option" where
  "find_request sessionID requestID d =
     find (\<lambda>r. mc_ID r = requestID \<and> mc_SessionID r = sessionID) (t_conns d)"

definition Confirm :: "nat \<Rightarrow> string \<Rightarrow> mobile_connection dbtx" where
  "Confirm sessionID requestID =
     transaction (
       bnd (lockSession sessionID) (\<lambda>_.
       bnd (first (find_request sessionID requestID)) (\<lambda>result.
       bnd Now (\<lambda>now.
       if mc_Status result \<noteq> ''claimed'' \<or>
          (case mc_ConfirmBy result of None \<Rightarrow> True | Some t \<Rightarrow> \<not> now < t)
       then bnd (if mc_Status result = ''claimed''
                 then exec (update_conns (has_id (mc_ID result)) (clear_status ''lapsed''))
                 else ret ())
              (\<lambda>_. throw ErrExpired)
       else
         bnd (exec (update_conns (has_id (mc_ID result))
                (\<lambda>r. r\<lparr>mc_Status := ''confirmed'', mc_ConfirmedAt := Some now\<rparr>))) (\<lambda>_.
         ret (result\<lparr>mc_Status := ''confirmed'', mc_ConfirmedAt := Some now\<rparr>))))))"

definition Reject :: "nat \<Rightarrow> string \<Rightarrow> mobile_connection dbtx" where
  "Reject sessionID requestID =
     transaction (
       bnd (lockSession sessionID) (\<lambda>_.
       bnd (first (find_request sessionID requestID)) (\<lambda>result.
       if mc_Status result \<noteq> ''claimed'' then throw ErrConflict
       else bnd Now (\<lambda>now.
         if (case mc_ConfirmBy result of None \<Rightarrow> True | Some t \<Rightarrow> \<not> now < t)
         then bnd (exec (update_conns (has_id (mc_ID result)) (clear_status ''lapsed'')))
                (\<lambda>_. throw ErrExpired)
         else bnd (exec (update_conns (has_id (mc_ID result)) (clear_status ''rejected'')))
                (\<lambda>_. ret (clear_status ''rejected'' result))))))"

section \<open>Provisioning and release\<close>

text \<open>The \<open>switch result.Operation\<close> of \<open>StartProvisioning\<close>.\<close>

definition provision_switch :: "setup_session \<Rightarrow> mobile_connection \<Rightarrow> int \<Rightarrow> unit dbtx" where
  "provision_switch s result now =
     (if mc_Operation result = OperationProvisionVTA then
        (if ss_Status s = StatusPoolWaiting \<and> mc_ConfirmedAt result = None
         then throw ErrConflict
         else beginProvision s (mc_AdminDid result) now)
      else if mc_Operation result = OperationGrantACL then
        (if ss_Status s \<noteq> ''running'' \<or> ss_VtaDid s \<noteq> mc_VtaDid result
         then throw ErrConflict else ret ())
      else throw ErrConflict)"

definition StartProvisioning :: "string \<Rightarrow> mobile_connection dbtx" where
  "StartProvisioning requestID =
     transaction (
       bnd (first (find_conn requestID)) (\<lambda>candidate.
       bnd (lockSession (mc_SessionID candidate)) (\<lambda>s.
       bnd (first (find_conn requestID)) (\<lambda>result.
       if mc_Status result = ''provisioning'' \<or> mc_Status result = ''released'' then ret result
       else if mc_Status result \<noteq> ''confirmed'' then throw ErrConflict
       else bnd Now (\<lambda>now.
         bnd (provision_switch s result now) (\<lambda>_.
         bnd (exec (update_conns (has_id (mc_ID result)) (set_status ''provisioning'')))
           (\<lambda>_. ret (set_status ''provisioning'' result))))))))"

text \<open>
  \<open>INSERT ... ON CONFLICT DO NOTHING\<close> of a wallet binding: unique on the user and DID, and on
  the source claim. The table's CHECK on the DID's form is satisfied by every Ed25519 did:key.
\<close>

definition insert_binding :: "nat \<Rightarrow> string \<Rightarrow> nat \<Rightarrow> string \<Rightarrow> int \<Rightarrow> db \<Rightarrow> db" where
  "insert_binding userID did sessionID claimID now d =
     (if \<exists>b \<in> set (t_bindings d). (wb_UserID b = userID \<and> wb_LoginDID b = did) \<or> wb_SourceClaimID b = claimID
      then d
      else d\<lparr>t_bindings := t_bindings d @
               [\<lparr>wb_ID = Suc (seq_bindings d), wb_UserID = userID, wb_LoginDID = did,
                 wb_SourceSessionID = sessionID, wb_SourceClaimID = claimID,
                 wb_CreatedAt = now, wb_RevokedAt = None\<rparr>],
             seq_bindings := Suc (seq_bindings d)\<rparr>)"

definition MarkReleased :: "string \<Rightarrow> unit dbtx" where
  "MarkReleased requestID =
     transaction (
       bnd (first (find_conn requestID)) (\<lambda>r.
       if mc_Status r = ''released'' then ret ()
       else if mc_Status r \<noteq> ''provisioning'' then throw ErrConflict
       else bnd Now (\<lambda>now.
         bnd (exec (update_conns (has_id (mc_ID r))
                (\<lambda>q. q\<lparr>mc_Status := ''released'', mc_ReleasedAt := Some now\<rparr>))) (\<lambda>_.
         if (mc_Operation r \<noteq> OperationProvisionVTA \<and> mc_Operation r \<noteq> OperationGrantACL) \<or>
            mc_AdminDid r = [] \<or> mc_ClaimantDigest r \<noteq> Some (ClaimantDigest (mc_AdminDid r))
         then ret ()
         else bnd (first (find_session (mc_SessionID r))) (\<lambda>session.
           exec (insert_binding (ss_UserID session) (mc_AdminDid r) (ss_ID session) (mc_ID r) now))))))"

definition MarkFailed :: "string \<Rightarrow> string \<Rightarrow> unit dbtx" where
  "MarkFailed requestID reason =
     exec (update_conns
       (\<lambda>r. mc_ID r = requestID \<and> mc_Operation r = OperationGrantACL \<and>
            mc_Status r \<in> {''confirmed'', ''provisioning''})
       (\<lambda>r. r\<lparr>mc_Status := ''failed'', mc_ProvisionError := reason\<rparr>))"

section \<open>Reconciliation, the manual path and stopping\<close>

text \<open>\<open>Model(r).Where("status = ?", st).Updates(...)\<close>, then \<open>r\<close> follows when a row was hit.\<close>

definition lapse_if :: "mobile_connection \<Rightarrow> string \<Rightarrow> (mobile_connection \<Rightarrow> mobile_connection)
    \<Rightarrow> mobile_connection dbtx" where
  "lapse_if r st f =
     (let hit = (\<lambda>q. mc_ID q = mc_ID r \<and> mc_Status q = st) in
      bnd (exec_count (\<lambda>d. count_where hit (t_conns d)) (update_conns hit f))
        (\<lambda>n. ret (if n = 1 then f r else r)))"

definition reconcile_row :: "mobile_connection \<Rightarrow> setup_session \<Rightarrow> mobile_connection dbtx" where
  "reconcile_row r0 s =
     bnd Now (\<lambda>now.
     bnd (if mc_Status r0 = ''open'' \<and> \<not> now < mc_ExpiresAt r0
          then lapse_if r0 ''open'' (set_status ''lapsed'') else ret r0) (\<lambda>r1.
     bnd (if mc_Status r1 = ''claimed'' \<and>
             (case mc_ConfirmBy r1 of None \<Rightarrow> False | Some t \<Rightarrow> \<not> now < t)
          then lapse_if r1 ''claimed'' (clear_status ''lapsed'') else ret r1) (\<lambda>r2.
     if mc_Status r2 = ''provisioning'' \<and> mc_Operation r2 = OperationProvisionVTA \<and>
        ss_Status s = ''running'' \<and> ss_AdminDid s = mc_AdminDid r2 \<and> ss_VtaDid s = mc_VtaDid r2
     then bnd (MarkReleased (mc_ID r2))
            (\<lambda>_. ret (r2\<lparr>mc_Status := ''released'', mc_ReleasedAt := Some now\<rparr>))
     else ret r2)))"

definition Reconcile :: "mobile_connection option \<Rightarrow> setup_session \<Rightarrow> mobile_connection option dbtx" where
  "Reconcile r s =
     (case r of None \<Rightarrow> ret None | Some r0 \<Rightarrow> bnd (reconcile_row r0 s) (\<lambda>r'. ret (Some r')))"

definition ResumableProvisionStatus :: "string \<Rightarrow> bool" where
  "ResumableProvisionStatus st \<longleftrightarrow>
     st \<in> {''provisioning'', ''step_import_admin_did'', ''deploy_vta'', ''step_vtc_setup_key'',
           ''step_vtc_acl_grant'', ''step_vtc_setup'', ''deploy_vtc''}"

definition lapse_open :: "nat \<Rightarrow> unit dbtx" where
  "lapse_open sessionID =
     exec (update_conns (\<lambda>r. mc_SessionID r = sessionID \<and> mc_Status r = ''open'') (set_status ''lapsed''))"

definition AcceptManual :: "nat \<Rightarrow> string \<Rightarrow> bool \<Rightarrow> unit dbtx" where
  "AcceptManual sessionID v resume =
     bnd (lift_err (ValidateAdminDID v)) (\<lambda>did.
     transaction (
       bnd (lockSession sessionID) (\<lambda>s.
       if ss_Status s = StatusPoolWaiting then throw ErrConflict
       else bnd (Current sessionID) (\<lambda>cur.
       if (case cur of None \<Rightarrow> False
           | Some c \<Rightarrow> mc_Status c \<in> {''claimed'', ''confirmed'', ''provisioning''})
       then throw ErrConflict
       else if ss_AdminDid s \<noteq> [] then
         (if ss_AdminDid s = did \<and> resume \<and> ResumableProvisionStatus (ss_Status s) then ret ()
          else throw ErrConflict)
       else if \<not> Ready s then throw ErrConflict
       else bnd Now (\<lambda>now.
            bnd (beginProvision s did now) (\<lambda>_. lapse_open (ss_ID s)))))))"

definition CancelPending :: "nat \<Rightarrow> unit dbtx" where
  "CancelPending sessionID =
     transaction (bnd (lockSession sessionID) (\<lambda>_. lapse_open sessionID))"

definition Stop :: "nat \<Rightarrow> unit dbtx" where
  "Stop sessionID =
     transaction (
       bnd (lockSession sessionID) (\<lambda>s.
       bnd (exec (update_sessions (\<lambda>t. ss_ID t = ss_ID s) (\<lambda>t. t\<lparr>ss_Status := ''deleting''\<rparr>))) (\<lambda>_.
       bnd (exec (update_conns (\<lambda>r. mc_SessionID r = sessionID \<and> mc_Status r \<in> {''open'', ''claimed''})
              (clear_status ''lapsed''))) (\<lambda>_.
       exec (update_conns (\<lambda>r. mc_SessionID r = sessionID \<and> mc_Status r \<in> {''confirmed'', ''provisioning''})
              (clear_status ''cancelled''))))))"

end
