(* ===== verification/ConnectionSteps.thy ===== *)
theory ConnectionSteps
  imports Connection
begin

text \<open>
  The abstract machine behind \<open>internal/connection/store.go\<close>: the legal transitions of one
  request (\<open>row_step\<close>), of the table (\<open>conns_step\<close>: some rows step, or one open request is
  added), and the proof that every operation of \<open>Connection\<close> only ever makes such steps,
  whatever fails on the way. Invariants are then proved once, on the abstract steps.
\<close>

section \<open>The abstract steps\<close>

inductive row_step :: "mobile_connection \<Rightarrow> mobile_connection \<Rightarrow> bool" where
  Lapse: "mc_Status r = ''open'' \<Longrightarrow> row_step r (set_status ''lapsed'' r)"
| Lapse_clear: "mc_Status r = ''open'' \<or> mc_Status r = ''claimed'' \<Longrightarrow> row_step r (clear_status ''lapsed'' r)"
| Claimed: "mc_Status r = ''open'' \<Longrightarrow> now < mc_ExpiresAt r \<Longrightarrow> ValidateAdminDID v = Inr did \<Longrightarrow>
    operation = OperationProvisionVTA \<or> operation = OperationGrantACL \<Longrightarrow>
    row_step r (claim_row operation did now r)"
| Confirmed: "mc_Status r = ''claimed'' \<Longrightarrow> mc_ConfirmBy r = Some t \<Longrightarrow> now < t \<Longrightarrow>
    row_step r (r\<lparr>mc_Status := ''confirmed'', mc_ConfirmedAt := Some now\<rparr>)"
| Rejected: "mc_Status r = ''claimed'' \<Longrightarrow> row_step r (clear_status ''rejected'' r)"
| Provisioning: "mc_Status r = ''confirmed'' \<Longrightarrow> row_step r (set_status ''provisioning'' r)"
| Released: "mc_Status r = ''provisioning'' \<Longrightarrow>
    row_step r (r\<lparr>mc_Status := ''released'', mc_ReleasedAt := Some now\<rparr>)"
| Failed: "mc_Status r = ''confirmed'' \<or> mc_Status r = ''provisioning'' \<Longrightarrow> mc_Operation r = OperationGrantACL \<Longrightarrow>
    row_step r (r\<lparr>mc_Status := ''failed'', mc_ProvisionError := reason\<rparr>)"
| Cancelled: "mc_Status r = ''confirmed'' \<or> mc_Status r = ''provisioning'' \<Longrightarrow>
    row_step r (clear_status ''cancelled'' r)"
| Poll: "mc_Status r = ''claimed'' \<or> mc_Status r = ''confirmed'' \<or> mc_Status r = ''provisioning'' \<Longrightarrow>
    row_step r (r\<lparr>mc_RedeemPollID := Some p, mc_RedeemPollUntil := Some u\<rparr>)"
| Unpoll: "row_step r (r\<lparr>mc_RedeemPollID := None, mc_RedeemPollUntil := None\<rparr>)"
| Retried: "row_step r (r\<lparr>mc_ProvisionError := []\<rparr>)"
| Digest: "row_step r (r\<lparr>mc_PublicAccessDigest := digest\<rparr>)"

inductive_cases row_stepE: "row_step r r'"

inductive conns_step :: "mobile_connection list \<Rightarrow> mobile_connection list \<Rightarrow> bool" where
  Rows: "(\<And>r. r \<in> set cs \<Longrightarrow> P r \<Longrightarrow> row_step r (f r)) \<Longrightarrow> conns_step cs (update_where P f cs)"
| Open: "(\<And>q. q \<in> set cs \<Longrightarrow> mc_ID q \<noteq> i \<and> mc_ClaimHandle q \<noteq> Some (RawURLEncode raw) \<and>
             (mc_SessionID q = s \<longrightarrow> \<not> active q \<and> mc_CreatedAt q < now)) \<Longrightarrow>
         length raw = 16 \<Longrightarrow> operation = OperationProvisionVTA \<or> operation = OperationGrantACL \<Longrightarrow>
         conns_step cs (cs @ [new_conn i s vta operation (RawURLEncode raw) now])"

inductive_cases conns_stepE: "conns_step cs cs'"

abbreviation conns_steps :: "mobile_connection list \<Rightarrow> mobile_connection list \<Rightarrow> bool" where
  "conns_steps \<equiv> conns_step\<^sup>*\<^sup>*"

definition unique_ids :: "mobile_connection list \<Rightarrow> bool" where
  "unique_ids cs \<longleftrightarrow> distinct (map mc_ID cs)"

section \<open>Facts on rows and on the newest row\<close>

lemma row_step_id: "row_step r r' \<Longrightarrow> mc_ID r' = mc_ID r \<and> mc_SessionID r' = mc_SessionID r \<and>
    mc_CreatedAt r' = mc_CreatedAt r \<and> mc_ClaimHandle r' = mc_ClaimHandle r \<and> mc_VtaDid r' = mc_VtaDid r"
  by (auto elim!: row_stepE simp: set_status_def clear_status_def claim_row_def)

lemma unique_ids_update:
  assumes "unique_ids cs" "\<And>r. r \<in> set cs \<Longrightarrow> P r \<Longrightarrow> row_step r (f r)"
  shows "unique_ids (update_where P f cs)"
  unfolding unique_ids_def
  by (subst map_update_where) (use assms row_step_id in \<open>auto simp: unique_ids_def\<close>)

lemma conns_step_unique: "conns_step cs cs' \<Longrightarrow> unique_ids cs \<Longrightarrow> unique_ids cs'"
  by (erule conns_stepE) (auto intro: unique_ids_update, auto simp: unique_ids_def new_conn_def)

lemma conns_steps_unique: "conns_steps cs cs' \<Longrightarrow> unique_ids cs \<Longrightarrow> unique_ids cs'"
  by (induction rule: rtranclp_induct) (auto intro: conns_step_unique)

lemma step_one:
  assumes "unique_ids cs" "c \<in> set cs" "row_step c (f c)"
  shows "conns_step cs (update_where (has_id (mc_ID c)) f cs)"
proof (rule Rows)
  fix r assume "r \<in> set cs" "mc_ID r = mc_ID c"
  with assms(1,2) have "r = c" by (auto simp: unique_ids_def dest: distinct_map_eq)
  with assms(3) show "row_step r (f r)" by simp
qed

lemma newest_Some: "newest cs = Some c \<Longrightarrow> c \<in> set cs \<and> (\<forall>q \<in> set cs. mc_CreatedAt q \<le> mc_CreatedAt c)"
proof (induction cs arbitrary: c)
  case (Cons a cs)
  show ?case
  proof (cases "newest cs")
    case None
    then have "cs = []" by (cases cs) (auto split: option.splits if_splits)
    with Cons.prems show ?thesis by simp
  next
    case (Some q)
    with Cons.IH Cons.prems show ?thesis by (fastforce simp: newer_def split: if_splits)
  qed
qed simp

lemma newest_None: "newest cs = None \<longleftrightarrow> cs = []"
  by (cases cs) (auto split: option.splits if_splits)

section \<open>Every operation makes abstract steps only\<close>

definition evolves :: "db \<Rightarrow> db \<Rightarrow> bool" where
  "evolves d d' \<longleftrightarrow> (unique_ids (t_conns d) \<longrightarrow> conns_steps (t_conns d) (t_conns d'))"

lemma evolves_refl [simp, intro]: "evolves d d"
  by (simp add: evolves_def)

lemma evolves_trans: "evolves d d' \<Longrightarrow> evolves d' d'' \<Longrightarrow> evolves d d''"
  unfolding evolves_def by (meson conns_steps_unique rtranclp_trans)

lemma evolves_same [intro]: "t_conns d' = t_conns d \<Longrightarrow> evolves d d'"
  by (simp add: evolves_def)

lemma evolves_rows:
  "(\<And>r. r \<in> set (t_conns d) \<Longrightarrow> P r \<Longrightarrow> row_step r (f r)) \<Longrightarrow> evolves d (update_conns P f d)"
  by (auto simp: evolves_def update_conns_def intro: r_into_rtranclp Rows)

lemma evolves_one:
  "c \<in> set (t_conns d) \<Longrightarrow> row_step c (f c) \<Longrightarrow> evolves d (update_conns (has_id (mc_ID c)) f d)"
  by (auto simp: evolves_def update_conns_def intro: r_into_rtranclp step_one)

lemma evolves_other_tables [simp]:
  "evolves d (d'\<lparr>t_sessions := a\<rparr>) = evolves d d'" "evolves d (d'\<lparr>t_executions := b\<rparr>) = evolves d d'"
  "evolves d (d'\<lparr>t_bindings := c\<rparr>) = evolves d d'" "evolves d (d'\<lparr>seq_bindings := n\<rparr>) = evolves d d'"
  "evolves d (update_sessions P f d') = evolves d d'"
  "evolves d (insert_binding u did s i now d') = evolves d d'"
  by (simp_all add: evolves_def update_sessions_def insert_binding_def)

interpretation conns: table_order evolves
  by unfold_locales (auto intro: evolves_trans)

lemmas op_simps = wp find_session_def find_conn_def find_handle_def
  find_request_def lockSession_def Current_def

lemma stepping_AcquireRedeemPoll: "stepping evolves (AcquireRedeemPoll i p l)"
  unfolding AcquireRedeemPoll_def
  by (auto intro!: conns.stepping_bnd conns.stepping_exec_count evolves_rows row_step.Poll simp: poll_free_def hold_poll_def)

lemma stepping_ReleaseRedeemPoll: "stepping evolves (ReleaseRedeemPoll i p)"
  unfolding ReleaseRedeemPoll_def
  by (auto intro!: conns.stepping_exec evolves_rows row_step.Unpoll)

lemma stepping_MarkFailed: "stepping evolves (MarkFailed i reason)"
  unfolding MarkFailed_def by (auto intro!: conns.stepping_exec evolves_rows row_step.Failed)

lemma stepping_lapse_open: "stepping evolves (lapse_open i)"
  unfolding lapse_open_def by (auto intro!: conns.stepping_exec evolves_rows row_step.Lapse)

lemma stepping_beginProvision: "stepping evolves (beginProvision s did now)"
  by (auto simp: beginProvision_def Let_def update_sessions_def intro!: conns.stepping_exec)

lemma stepping_CancelPending: "stepping evolves (CancelPending i)"
  unfolding CancelPending_def lockSession_def
  by (intro conns.stepping_rules stepping_lapse_open)

lemma stepping_Stop: "stepping evolves (Stop i)"
  unfolding Stop_def lockSession_def
  by (intro conns.stepping_bnd conns.stepping_transaction conns.stepping_exec conns.stepping_basic)
     (auto intro!: evolves_rows row_step.Lapse_clear row_step.Cancelled)

lemma stepping_AcceptManual: "stepping evolves (AcceptManual i v b)"
  unfolding AcceptManual_def lockSession_def Current_def
  by (intro conns.stepping_bnd conns.stepping_transaction conns.stepping_if stepping_lapse_open stepping_beginProvision
      conns.stepping_basic)

text \<open>
  The remaining operations update a row they have just read; \<open>evolves_one\<close> needs what they read.
\<close>

lemma stepping_claim: "stepping evolves (claim h v documentID response)"
proof (rule steppingI)
  fix w
  show "wp (claim h v documentID response) (\<lambda>_ w'. evolves (tabs w) (tabs w')) w"
    unfolding claim_def record_reply_def
    by (auto simp: op_simps Let_def operationFor_def split: option.splits sum.splits
        dest!: find_SomeD intro!: evolves_one row_step.intros)
qed

lemma stepping_Confirm: "stepping evolves (Confirm i requestID)"
proof (rule steppingI)
  fix w
  show "wp (Confirm i requestID) (\<lambda>_ w'. evolves (tabs w) (tabs w')) w"
    unfolding Confirm_def
    by (auto simp: op_simps split: option.splits dest!: find_SomeD intro!: evolves_one row_step.Confirmed)
qed

lemma stepping_Reject: "stepping evolves (Reject i requestID)"
proof (rule steppingI)
  fix w
  show "wp (Reject i requestID) (\<lambda>_ w'. evolves (tabs w) (tabs w')) w"
    unfolding Reject_def
    by (auto simp: op_simps split: option.splits dest!: find_SomeD intro!: evolves_one row_step.Rejected)
qed

lemma stepping_StartProvisioning: "stepping evolves (StartProvisioning requestID)"
proof (rule steppingI)
  fix w
  show "wp (StartProvisioning requestID) (\<lambda>_ w'. evolves (tabs w) (tabs w')) w"
    unfolding StartProvisioning_def provision_switch_def beginProvision_def
    by (auto simp: op_simps Let_def split: option.splits dest!: find_SomeD
        intro!: evolves_one row_step.Provisioning)
qed

lemma stepping_MarkReleased: "stepping evolves (MarkReleased requestID)"
proof (rule steppingI)
  fix w
  show "wp (MarkReleased requestID) (\<lambda>_ w'. evolves (tabs w) (tabs w')) w"
    unfolding MarkReleased_def
    by (auto simp: op_simps split: option.splits dest!: find_SomeD
        intro!: evolves_one row_step.Released)
qed

lemma stepping_lapse_if:
  "(\<And>q. mc_Status q = st \<Longrightarrow> row_step q (f q)) \<Longrightarrow> stepping evolves (lapse_if r st f)"
  by (auto simp: lapse_if_def Let_def intro!: conns.stepping_bnd conns.stepping_exec_count evolves_rows)

lemma stepping_Reconcile: "stepping evolves (Reconcile r s)"
  unfolding Reconcile_def reconcile_row_def
  by (intro conns.stepping_bnd conns.stepping_option conns.stepping_if stepping_lapse_if stepping_MarkReleased conns.stepping_basic)
     (auto intro: row_step.intros)

lemma new_conn_simps [simp]:
  "mc_ID (new_conn i s v operation h now) = i" "mc_SessionID (new_conn i s v operation h now) = s"
  "mc_ClaimHandle (new_conn i s v operation h now) = Some h"
  "mc_Status (new_conn i s v operation h now) = ''open''"
  "mc_CreatedAt (new_conn i s v operation h now) = now"
  "active (new_conn i s v operation h now)"
  by (simp_all add: new_conn_def active_def active_statuses_def)

lemma open_request_from:
  assumes created: "\<And>q. q \<in> set (t_conns d) \<Longrightarrow> mc_SessionID q = i \<Longrightarrow> mc_CreatedAt q < now"
    and operation: "operation = OperationProvisionVTA \<or> operation = OperationGrantACL"
  shows "steps_from evolves d (open_request i s operation now)"
proof -
  have "evolves d (d\<lparr>t_conns := t_conns d @ [new_conn u i vta operation (RawURLEncode raw) now]\<rparr>)"
    if "insert_allowed (new_conn u i vta operation (RawURLEncode raw) now) d" and "length raw = 16" for u vta raw
  proof -
    have "conns_step (t_conns d) (t_conns d @ [new_conn u i vta operation (RawURLEncode raw) now])"
      by (rule conns_step.Open) (use that created operation in \<open>auto simp: insert_allowed_def\<close>)
    then show ?thesis by (auto simp: evolves_def)
  qed
  then show ?thesis
    unfolding open_request_def newHandle_def create_conn_def Let_def steps_from_def
    by (simp add: wp)
qed

lemma operationFor_Inr:
  "operationFor s v = Inr operation \<Longrightarrow> operation = OperationProvisionVTA \<or> operation = OperationGrantACL"
  by (auto simp: operationFor_def split: if_splits)

text \<open>A replaced request is at least five seconds old, so the new one is strictly newer than all.\<close>

lemma newest_cooldown:
  assumes "newest (filter (\<lambda>r. mc_SessionID r = i) cs) = Some c" "\<not> now - mc_CreatedAt c < ChangeCooldown"
    and "q \<in> set cs" "mc_SessionID q = i"
  shows "mc_CreatedAt q < now"
proof -
  have "mc_CreatedAt q \<le> mc_CreatedAt c" using newest_Some [OF assms(1)] assms(3,4) by simp
  with assms(2) show ?thesis using second_pos unfolding ChangeCooldown_def by linarith
qed

lemma newest_cooldown_update:
  assumes "newest (filter (\<lambda>r. mc_SessionID r = i) cs) = Some c" "\<not> now - mc_CreatedAt c < ChangeCooldown"
    and "q \<in> set (update_where P (set_status st) cs)" "mc_SessionID q = i"
  shows "mc_CreatedAt q < now"
  using assms(3,4) newest_cooldown [OF assms(1,2)] by (auto simp: set_status_def)

lemma stepping_change: "stepping evolves (change i action expectedID pooled)"
proof -
  have lapse: "evolves d (update_conns (has_id (mc_ID c)) f d)"
    if "newest (filter (\<lambda>r. mc_SessionID r = i) (t_conns d)) = Some c" "row_step c (f c)" for d c f
    using newest_Some [OF that(1)] that(2) by (intro evolves_one) auto
  show ?thesis
    unfolding change_def lockSession_def Current_def Let_def
    by (intro steppingI_from conns.from_rules open_request_from lapse)
       (auto simp: newest_None filter_empty_conv set_status_def [symmetric] dest: newest_cooldown newest_cooldown_update operationFor_Inr
          intro: row_step.intros)
qed

section \<open>The calls of the store\<close>

datatype conn_call =
    CallAcquire string string int
  | CallRelease string string
  | CallChange nat string string
  | CallChangePool nat
  | CallClaim string string
  | CallClaimAndRecord string string string string
  | CallConfirm nat string
  | CallReject nat string
  | CallStart string
  | CallMarkReleased string
  | CallMarkFailed string string
  | CallReconcile "mobile_connection option" setup_session
  | CallAcceptManual nat string bool
  | CallCancelPending nat
  | CallStop nat

definition discard :: "'a dbtx \<Rightarrow> unit dbtx" where
  "discard m = bnd m (\<lambda>_. ret ())"

fun run_call :: "conn_call \<Rightarrow> unit dbtx" where
  "run_call (CallAcquire r p l) = discard (AcquireRedeemPoll r p l)"
| "run_call (CallRelease r p) = ReleaseRedeemPoll r p"
| "run_call (CallChange i a e) = discard (Change i a e)"
| "run_call (CallChangePool i) = discard (ChangePool i)"
| "run_call (CallClaim h v) = discard (Claim h v)"
| "run_call (CallClaimAndRecord h v d b) = discard (ClaimAndRecord h v d b)"
| "run_call (CallConfirm i r) = discard (Confirm i r)"
| "run_call (CallReject i r) = discard (Reject i r)"
| "run_call (CallStart r) = discard (StartProvisioning r)"
| "run_call (CallMarkReleased r) = MarkReleased r"
| "run_call (CallMarkFailed r e) = MarkFailed r e"
| "run_call (CallReconcile r s) = discard (Reconcile r s)"
| "run_call (CallAcceptManual i v b) = AcceptManual i v b"
| "run_call (CallCancelPending i) = CancelPending i"
| "run_call (CallStop i) = Stop i"

lemma stepping_discard: "stepping evolves m \<Longrightarrow> stepping evolves (discard m)"
  by (simp add: discard_def conns.stepping_bnd)

lemmas stepping_calls = stepping_AcquireRedeemPoll stepping_ReleaseRedeemPoll stepping_change
  stepping_claim stepping_Confirm stepping_Reject stepping_StartProvisioning stepping_MarkReleased
  stepping_MarkFailed stepping_Reconcile stepping_AcceptManual stepping_CancelPending stepping_Stop

lemma stepping_run_call: "stepping evolves (run_call c)"
  by (cases c) (auto intro!: stepping_discard stepping_calls
      simp: Change_def ChangePool_def Claim_def ClaimAndRecord_def)

section \<open>Well-formed tables\<close>

text \<open>The CHECK constraints of \<open>migrations/000041\<close> on one row.\<close>

definition all_statuses :: "string list" where
  "all_statuses = active_statuses @ final_statuses"

definition schema_ok :: "mobile_connection \<Rightarrow> bool" where
  "schema_ok r \<longleftrightarrow>
     mc_Status r \<in> set all_statuses \<and>
     mc_Operation r \<in> {[], OperationProvisionVTA, OperationGrantACL} \<and>
     (mc_Status r = ''claimed'' \<longrightarrow> mc_ClaimedAt r \<noteq> None \<and> mc_ConfirmBy r \<noteq> None) \<and>
     (mc_Status r = ''confirmed'' \<longrightarrow> mc_ConfirmedAt r \<noteq> None) \<and>
     (mc_Status r = ''released'' \<longrightarrow> mc_ReleasedAt r \<noteq> None) \<and>
     (mc_RedeemPollID r = None \<longleftrightarrow> mc_RedeemPollUntil r = None) \<and>
     (\<forall>h. mc_ClaimHandle r = Some h \<longrightarrow> length h = 22 \<and> set h \<subseteq> set b64url_alphabet) \<and>
     (\<forall>h. mc_ClaimantDigest r = Some h \<longrightarrow> length h = 64 \<and> set h \<subseteq> set hex_digits)"

text \<open>
  What the code relies on beyond the schema: a request that has left \<open>open\<close> towards release
  names a validated administrator, carries that administrator's digest and an operation, and
  nothing is provisioned that the owner has not confirmed.
\<close>

definition bound_ok :: "mobile_connection \<Rightarrow> bool" where
  "bound_ok r \<longleftrightarrow>
     (mc_Status r \<in> {''claimed'', ''confirmed'', ''provisioning''} \<longrightarrow>
        mc_ClaimantDigest r = Some (ClaimantDigest (mc_AdminDid r)) \<and>
        (\<exists>v. ValidateAdminDID v = Inr (mc_AdminDid r)) \<and>
        mc_Operation r \<in> {OperationProvisionVTA, OperationGrantACL}) \<and>
     (mc_Status r \<in> {''confirmed'', ''provisioning''} \<longrightarrow> mc_ConfirmedAt r \<noteq> None)"

definition newest_active :: "mobile_connection list \<Rightarrow> bool" where
  "newest_active cs \<longleftrightarrow>
     (\<forall>r \<in> set cs. \<forall>q \<in> set cs. active r \<and> q \<noteq> r \<and> mc_SessionID q = mc_SessionID r \<longrightarrow>
        \<not> active q \<and> mc_CreatedAt q < mc_CreatedAt r)"

definition unique_handles :: "mobile_connection list \<Rightarrow> bool" where
  "unique_handles cs \<longleftrightarrow>
     (\<forall>r \<in> set cs. \<forall>q \<in> set cs. mc_ClaimHandle r \<noteq> None \<and> mc_ClaimHandle q = mc_ClaimHandle r \<longrightarrow> q = r)"

definition conns_ok :: "mobile_connection list \<Rightarrow> bool" where
  "conns_ok cs \<longleftrightarrow> unique_ids cs \<and> unique_handles cs \<and> newest_active cs \<and>
     (\<forall>r \<in> set cs. schema_ok r \<and> bound_ok r)"

lemmas status_simps = set_status_def clear_status_def claim_row_def active_def active_statuses_def
  final_statuses_def all_statuses_def

lemma length_ClaimantDigest: "length (ClaimantDigest did) = 64 \<and> set (ClaimantDigest did) \<subseteq> set hex_digits"
  by (simp add: ClaimantDigest_def set_hex)

lemma row_step_schema: "row_step r r' \<Longrightarrow> schema_ok r \<Longrightarrow> schema_ok r'"
  by (erule row_stepE; (elim disjE)?; simp add: schema_ok_def status_simps length_ClaimantDigest)

lemma row_step_bound: "row_step r r' \<Longrightarrow> bound_ok r \<Longrightarrow> bound_ok r'"
  by (erule row_stepE; (elim disjE)?; simp add: bound_ok_def status_simps; blast?)

lemma row_step_active: "row_step r r' \<Longrightarrow> active r' \<Longrightarrow> active r"
  by (auto elim!: row_stepE simp: status_simps)

lemma new_conn_ok:
  assumes "length raw = 16" "operation = OperationProvisionVTA \<or> operation = OperationGrantACL"
  shows "schema_ok (new_conn i s v operation (RawURLEncode raw) now)"
    and "bound_ok (new_conn i s v operation (RawURLEncode raw) now)"
  using assms RawURLEncode_alphabet [of raw]
  by (auto simp: schema_ok_def bound_ok_def new_conn_def status_simps length_RawURLEncode)

text \<open>A step of rows relates the rows before and after one to one.\<close>

lemma in_rows_step:
  assumes "\<And>r. r \<in> set cs \<Longrightarrow> P r \<Longrightarrow> row_step r (f r)" "r' \<in> set (update_where P f cs)"
  obtains r where "r \<in> set cs" "r' = (if P r then f r else r)" "r' = r \<or> row_step r r'"
  using assms by (force simp: set_update_where)

lemma newest_active_rows:
  assumes step: "\<And>r. r \<in> set cs \<Longrightarrow> P r \<Longrightarrow> row_step r (f r)" and ok: "newest_active cs"
  shows "newest_active (update_where P f cs)"
  unfolding newest_active_def
proof (intro ballI impI)
  fix r' q'
  assume r': "r' \<in> set (update_where P f cs)" and q': "q' \<in> set (update_where P f cs)"
    and act: "active r' \<and> q' \<noteq> r' \<and> mc_SessionID q' = mc_SessionID r'"
  obtain r where r: "r \<in> set cs" "r' = (if P r then f r else r)" "r' = r \<or> row_step r r'"
    using step r' by (rule in_rows_step)
  obtain q where q: "q \<in> set cs" "q' = (if P q then f q else q)" "q' = q \<or> row_step q q'"
    using step q' by (rule in_rows_step)
  have "q \<noteq> r" using act r(2) q(2) by auto
  moreover have "active r" using act r(3) row_step_active by blast
  moreover have "mc_SessionID q = mc_SessionID r" "mc_CreatedAt r' = mc_CreatedAt r"
    "mc_CreatedAt q' = mc_CreatedAt q"
    using act r(3) q(3) row_step_id by metis+
  ultimately show "\<not> active q' \<and> mc_CreatedAt q' < mc_CreatedAt r'"
    using ok r(1) q(1,3) row_step_active unfolding newest_active_def by metis
qed

lemma newest_active_append:
  assumes ok: "newest_active cs"
    and new: "\<And>q. q \<in> set cs \<Longrightarrow> mc_SessionID q = mc_SessionID r \<Longrightarrow> \<not> active q \<and> mc_CreatedAt q < mc_CreatedAt r"
  shows "newest_active (cs @ [r])"
  unfolding newest_active_def
proof (intro ballI impI)
  fix a b
  assume "a \<in> set (cs @ [r])" "b \<in> set (cs @ [r])"
    and act: "active a \<and> b \<noteq> a \<and> mc_SessionID b = mc_SessionID a"
  then consider "a \<in> set cs" "b \<in> set cs" | "a = r" "b \<in> set cs" | "a \<in> set cs" "b = r" by auto
  then show "\<not> active b \<and> mc_CreatedAt b < mc_CreatedAt a"
  proof cases
    case 1
    with act ok show ?thesis unfolding newest_active_def by blast
  next
    case 2
    with act new [of b] show ?thesis by metis
  next
    case 3
    with act new [of a] show ?thesis by metis
  qed
qed

lemma unique_handles_rows:
  assumes step: "\<And>r. r \<in> set cs \<Longrightarrow> P r \<Longrightarrow> row_step r (f r)" and ok: "unique_handles cs"
  shows "unique_handles (update_where P f cs)"
  unfolding unique_handles_def
proof (intro ballI impI)
  fix r' q'
  assume r': "r' \<in> set (update_where P f cs)" and q': "q' \<in> set (update_where P f cs)"
    and h: "mc_ClaimHandle r' \<noteq> None \<and> mc_ClaimHandle q' = mc_ClaimHandle r'"
  obtain r where r: "r \<in> set cs" "r' = (if P r then f r else r)" "r' = r \<or> row_step r r'"
    using step r' by (rule in_rows_step)
  obtain q where q: "q \<in> set cs" "q' = (if P q then f q else q)" "q' = q \<or> row_step q q'"
    using step q' by (rule in_rows_step)
  have "mc_ClaimHandle r' = mc_ClaimHandle r" "mc_ClaimHandle q' = mc_ClaimHandle q"
    using r(3) q(3) row_step_id by metis+
  with ok h r(1) q(1) have "q = r" unfolding unique_handles_def by metis
  with r(2) q(2) show "q' = r'" by simp
qed

lemma conns_step_ok: "conns_step cs cs' \<Longrightarrow> conns_ok cs \<Longrightarrow> conns_ok cs'"
proof (erule conns_stepE)
  fix P f
  assume ok: "conns_ok cs" and cs': "cs' = update_where P f cs"
    and step: "\<And>r. r \<in> set cs \<Longrightarrow> P r \<Longrightarrow> row_step r (f r)"
  have "schema_ok r' \<and> bound_ok r'" if r': "r' \<in> set (update_where P f cs)" for r'
  proof -
    obtain r where "r \<in> set cs" "r' = (if P r then f r else r)" "r' = r \<or> row_step r r'"
      using step r' by (rule in_rows_step)
    with ok show ?thesis using row_step_schema row_step_bound unfolding conns_ok_def by metis
  qed
  moreover have "unique_ids (update_where P f cs)" "unique_handles (update_where P f cs)"
    "newest_active (update_where P f cs)"
    using ok step unique_ids_update unique_handles_rows newest_active_rows
    by (auto simp: conns_ok_def)
  ultimately show "conns_ok cs'" unfolding conns_ok_def cs' by blast
next
  fix i raw s now operation vta
  let ?r = "new_conn i s vta operation (RawURLEncode raw) now"
  assume ok: "conns_ok cs" and cs': "cs' = cs @ [?r]"
    and fresh: "\<And>q. q \<in> set cs \<Longrightarrow> mc_ID q \<noteq> i \<and> mc_ClaimHandle q \<noteq> Some (RawURLEncode raw) \<and>
             (mc_SessionID q = s \<longrightarrow> \<not> active q \<and> mc_CreatedAt q < now)"
    and new: "length raw = 16" "operation = OperationProvisionVTA \<or> operation = OperationGrantACL"
  have "unique_ids cs'" using ok fresh by (auto simp: cs' conns_ok_def unique_ids_def)
  moreover have "unique_handles cs'"
    using ok fresh by (fastforce simp: cs' conns_ok_def unique_handles_def)
  moreover have "newest_active cs'"
    unfolding cs' by (rule newest_active_append) (use ok fresh in \<open>simp_all add: conns_ok_def\<close>)
  moreover have "schema_ok r \<and> bound_ok r" if "r \<in> set cs'" for r
    using that ok new_conn_ok [OF new, of i s vta now] unfolding conns_ok_def cs' by auto
  ultimately show "conns_ok cs'" unfolding conns_ok_def by blast
qed

lemma conns_steps_ok: "conns_steps cs cs' \<Longrightarrow> conns_ok cs \<Longrightarrow> conns_ok cs'"
  by (induction rule: rtranclp_induct) (auto intro: conns_step_ok)

lemma evolves_ok: "evolves d d' \<Longrightarrow> conns_ok (t_conns d) \<Longrightarrow> conns_ok (t_conns d')"
  by (auto simp: evolves_def conns_ok_def dest: conns_steps_ok [unfolded conns_ok_def])

section \<open>What a request can become\<close>

text \<open>
  \<open>becomes r r'\<close>: the same request later. Its identity never changes; once claimed, its digest
  never changes and its administrator is the claimant's or has been cleared; a final request
  keeps everything but the poll lease.
\<close>

definition becomes :: "mobile_connection \<Rightarrow> mobile_connection \<Rightarrow> bool" where
  "becomes r r' \<longleftrightarrow>
     mc_ID r' = mc_ID r \<and> mc_SessionID r' = mc_SessionID r \<and> mc_VtaDid r' = mc_VtaDid r \<and>
     mc_ClaimHandle r' = mc_ClaimHandle r \<and> mc_CreatedAt r' = mc_CreatedAt r \<and>
     mc_ExpiresAt r' = mc_ExpiresAt r \<and>
     (mc_Status r \<noteq> ''open'' \<longrightarrow>
        mc_ClaimantDigest r' = mc_ClaimantDigest r \<and> mc_Operation r' = mc_Operation r \<and>
        (mc_AdminDid r' = mc_AdminDid r \<or> mc_AdminDid r' = []) \<and> mc_Status r' \<noteq> ''open'') \<and>
     (\<not> active r \<longrightarrow> mc_Status r' = mc_Status r \<and> mc_AdminDid r' = mc_AdminDid r)"

lemma row_step_becomes: "row_step r r' \<Longrightarrow> becomes r r'"
  by (auto elim!: row_stepE simp: becomes_def status_simps)

lemma becomes_refl: "becomes r r"
  by (simp add: becomes_def)

lemma becomes_trans: "becomes a b \<Longrightarrow> becomes b c \<Longrightarrow> becomes a c"
  by (auto simp: becomes_def active_def active_statuses_def)

lemma conns_step_becomes: "conns_step cs cs' \<Longrightarrow> r \<in> set cs \<Longrightarrow> \<exists>r' \<in> set cs'. becomes r r'"
proof (erule conns_stepE)
  fix P f
  assume r: "r \<in> set cs" and cs': "cs' = update_where P f cs"
    and step: "\<And>r. r \<in> set cs \<Longrightarrow> P r \<Longrightarrow> row_step r (f r)"
  have "(if P r then f r else r) \<in> set cs'" using r by (auto simp: cs' update_where_def)
  moreover have "becomes r (if P r then f r else r)"
    using step [OF r] by (auto intro: row_step_becomes becomes_refl)
  ultimately show ?thesis by blast
qed (auto intro: becomes_refl)

lemma conns_steps_becomes: "conns_steps cs cs' \<Longrightarrow> r \<in> set cs \<Longrightarrow> \<exists>r' \<in> set cs'. becomes r r'"
proof (induction rule: rtranclp_induct)
  case base
  then show ?case using becomes_refl by blast
next
  case (step cs' cs'')
  then obtain r' where "r' \<in> set cs'" "becomes r r'" by blast
  with conns_step_becomes [OF step.hyps(2)] show ?case by (meson becomes_trans)
qed

end
