(* ===== verification/ConnectionProps.thy ===== *)
theory ConnectionProps
  imports ConnectionSteps
begin

text \<open>
  What the reservation store promises: administrator DIDs are canonical, reachable tables are
  well formed, a claim succeeds exactly when it should, failed calls change nothing, leases
  exclude each other, and nothing is provisioned without the owner's confirmation.
\<close>

section \<open>Administrator DIDs\<close>

lemma ValidateAdminDID_Inr:
  "ValidateAdminDID v = Inr did \<longleftrightarrow>
     did = TrimSpace v \<and> length did \<le> 128 \<and> (\<exists>k. FromPublicKey k = Inr did)"
proof -
  have pre: "HasPrefix d ''did:key:z'' \<and> TrimPrefix d ''did:key:'' = drop 8 d" if "FromPublicKey k = Inr d" for d k
    using that by (auto simp: FromPublicKey_def Let_def HasPrefix_def TrimPrefix_def split: if_splits)
  have key: "HasPrefix d ''did:key:z'' \<and> (\<exists>k. DIDKeyResolver d (d @ ''#'' @ TrimPrefix d ''did:key:'') = Inr k)
      \<longleftrightarrow> (\<exists>k. FromPublicKey k = Inr d)" for d
    using pre [of _ d] unfolding DIDKeyResolver_Inr by metis
  let ?d = "TrimSpace v"
  show ?thesis
    unfolding ValidateAdminDID_def Let_def using key [of ?d]
    by (cases "DIDKeyResolver ?d (?d @ ''#'' @ TrimPrefix ?d ''did:key:'')") auto
qed

section \<open>Runs of the store\<close>

text \<open>One call, in any environment; and any change of the other tables in between.\<close>

definition call_step :: "db \<Rightarrow> db \<Rightarrow> bool" where
  "call_step d d' \<longleftrightarrow>
     (\<exists>c w r w'. tabs w = d \<and> run_call c w = (r, w') \<and> tabs w' = d') \<or> t_conns d' = t_conns d"

inductive reachable :: "db \<Rightarrow> bool" where
  Start: "t_conns d = [] \<Longrightarrow> reachable d"
| Call: "reachable (tabs w) \<Longrightarrow> run_call c w = (r, w') \<Longrightarrow> reachable (tabs w')"
| Other: "reachable d \<Longrightarrow> t_conns d' = t_conns d \<Longrightarrow> reachable d'"

lemma call_step_evolves: "call_step d d' \<Longrightarrow> evolves d d'"
  using steppingD [OF stepping_run_call] by (auto simp: call_step_def)

lemma calls_evolve: "call_step\<^sup>*\<^sup>* d d' \<Longrightarrow> evolves d d'"
  by (induction rule: rtranclp_induct) (auto intro: call_step_evolves evolves_trans)

lemma reachable_ok: "reachable d \<Longrightarrow> conns_ok (t_conns d)"
proof (induction rule: reachable.induct)
  case (Start d)
  then show ?case
    by (simp add: conns_ok_def unique_ids_def unique_handles_def newest_active_def)
next
  case (Call w c r w')
  then show ?case using steppingD [OF stepping_run_call] evolves_ok by blast
next
  case (Other d d')
  then show ?case by simp
qed

lemma conns_ok_ids: "conns_ok cs \<Longrightarrow> r \<in> set cs \<Longrightarrow> q \<in> set cs \<Longrightarrow> mc_ID r = mc_ID q \<Longrightarrow> r = q"
  unfolding conns_ok_def unique_ids_def by (metis distinct_map_eq)

section \<open>The current request\<close>

text \<open>With at most one active request, and it the newest, \<open>Current\<close> sees every active one.\<close>

lemma current_not_active:
  assumes ok: "conns_ok cs"
    and cur: "\<And>c. newest (filter (\<lambda>r. mc_SessionID r = i) cs) = Some c \<Longrightarrow> \<not> active c"
    and r: "r \<in> set cs" "mc_SessionID r = i"
  shows "\<not> active r"
proof
  assume act: "active r"
  have "newest (filter (\<lambda>r. mc_SessionID r = i) cs) \<noteq> None"
    using r by (auto simp: newest_None filter_empty_conv)
  then obtain c where c: "newest (filter (\<lambda>r. mc_SessionID r = i) cs) = Some c" by blast
  then have "c \<in> set cs" "mc_SessionID c = i" "mc_CreatedAt r \<le> mc_CreatedAt c"
    using newest_Some [OF c] r by auto
  with ok act r cur [OF c] show False
    unfolding conns_ok_def newest_active_def by (metis not_less)
qed

lemma current_active:
  assumes ok: "conns_ok cs" and c: "newest (filter (\<lambda>r. mc_SessionID r = i) cs) = Some c"
    and r: "r \<in> set cs" "mc_SessionID r = i" "active r"
  shows "r = c"
proof (rule ccontr)
  assume "r \<noteq> c"
  moreover have "c \<in> set cs" "mc_SessionID c = i" "mc_CreatedAt r \<le> mc_CreatedAt c"
    using newest_Some [OF c] r by auto
  ultimately show False
    using ok r unfolding conns_ok_def newest_active_def by (metis not_less)
qed

section \<open>What successful calls have done\<close>

lemma wp_InrD: "m w = (Inr a, w') \<Longrightarrow> wp m (\<lambda>r w'. case r of Inl _ \<Rightarrow> True | Inr a \<Rightarrow> Q a w') w \<Longrightarrow> Q a w'"
  by (auto dest: wpD)

lemma claim_success:
  assumes "Claim h v w = (Inr r, w')"
  shows "\<exists>did c s operation now.
     ValidateAdminDID v = Inr did \<and> find_handle h (tabs w) = Some c \<and>
     find_session (mc_SessionID c) (tabs w) = Some s \<and> mc_Status c = ''open'' \<and>
     now < mc_ExpiresAt c \<and> operationFor s (mc_VtaDid c) = Inr operation \<and>
     tabs w' = update_conns (has_id (mc_ID c)) (claim_row operation did now) (tabs w)"
  using assms
proof (rule wp_InrD)
qed (auto simp: Claim_def claim_def wp Let_def lockSession_def split: option.splits sum.splits)

section \<open>Properties\<close>

text \<open>
  \<open>ValidateAdminDID\<close> accepts a value exactly when, trimmed, it is at most 128 bytes and is
  the did:key of some Ed25519 key, and then returns the trimmed value; every other value is
  refused with \<open>ErrInvalidDID\<close>.
\<close>

theorem ValidateAdminDID_spec:
  "ValidateAdminDID v =
     (if length (TrimSpace v) \<le> 128 \<and> (\<exists>k. FromPublicKey k = Inr (TrimSpace v))
      then Inr (TrimSpace v) else Inl ErrInvalidDID)"
proof (cases "ValidateAdminDID v")
  case (Inl e)
  then have "e = ErrInvalidDID"
    by (auto simp: ValidateAdminDID_def Let_def split: if_splits sum.splits)
  with Inl show ?thesis using ValidateAdminDID_Inr [of v "TrimSpace v"] by auto
next
  case (Inr did)
  then show ?thesis using ValidateAdminDID_Inr [of v did] by auto
qed

text \<open>
  C1. Every table of requests the store's calls can produce, whatever statements fail and
  however the clock reads, satisfies the schema's CHECK constraints and indexes and the code's
  own invariant: ids and handles are unique, at most one request per session is active and it is
  the newest one, a claimed, confirmed or provisioning request names a validated administrator
  with that administrator's digest, and none is provisioning without a confirmation time.
\<close>

theorem reachable_tables_ok:
  assumes "reachable d"
  shows "conns_ok (t_conns d)"
  using assms by (rule reachable_ok)

definition sample_session :: setup_session where
  "sample_session = blank_session\<lparr>ss_ID := 7, ss_UserID := 3, ss_Mode := ModeVtaOnly,
     ss_Status := ''vta_setup_complete'', ss_VtaDid := ''did:webvh:vta''\<rparr>"

definition sample_db :: db where
  "sample_db = empty_db\<lparr>t_sessions := [sample_session]\<rparr>"

definition sample_world :: "db world" where
  "sample_world = calm_world sample_db (\<lambda>n. int n)"

text \<open>The tables after one reservation has been opened for the sample session.\<close>

definition opened_db :: db where
  "opened_db = tabs (snd (run_call (CallChange 7 ''create'' []) sample_world))"

lemma opened_row: "map mc_Status (t_conns opened_db) = [''open'']"
  by code_simp

lemma reachable_run: "reachable (tabs w) \<Longrightarrow> reachable (tabs (snd (run_call c w)))"
  by (cases "run_call c w") (auto intro: reachable.Call)

lemma opened_reachable: "reachable opened_db"
  unfolding opened_db_def
  by (rule reachable_run, rule reachable.Start) (simp add: sample_world_def sample_db_def empty_db_def)

theorem reachable_tables_ok_witness:
  "conns_ok (t_conns opened_db) \<and> map mc_Status (t_conns opened_db) = [''open'']"
  using reachable_tables_ok [OF opened_reachable] opened_row by simp

text \<open>
  C3. A claim succeeds exactly when the value is a valid administrator DID, the handle names an
  open request whose deadline has not passed, and its session can take the operation; then it
  writes exactly that row: claimed, with the operation, the DID, its digest and the confirmation
  deadline. Every other outcome is an error.
\<close>

theorem claim_exactly_when:
  assumes "quiet w"
  shows "(case Claim h v w of
            (Inr r, w') \<Rightarrow>
              (\<exists>did c s operation. ValidateAdminDID v = Inr did \<and> find_handle h (tabs w) = Some c \<and>
                 find_session (mc_SessionID c) (tabs w) = Some s \<and> mc_Status c = ''open'' \<and>
                 clock w (tick w + 3) < mc_ExpiresAt c \<and> operationFor s (mc_VtaDid c) = Inr operation \<and>
                 tabs w' = update_conns (has_id (mc_ID c)) (claim_row operation did (clock w (tick w + 3))) (tabs w))
          | (Inl e, w') \<Rightarrow>
              \<not> (\<exists>did c s operation. ValidateAdminDID v = Inr did \<and> find_handle h (tabs w) = Some c \<and>
                 find_session (mc_SessionID c) (tabs w) = Some s \<and> mc_Status c = ''open'' \<and>
                 clock w (tick w + 3) < mc_ExpiresAt c \<and> operationFor s (mc_VtaDid c) = Inr operation))"
proof -
  let ?P = "\<lambda>did c s operation. ValidateAdminDID v = Inr did \<and> find_handle h (tabs w) = Some c \<and>
     find_session (mc_SessionID c) (tabs w) = Some s \<and> mc_Status c = ''open'' \<and>
     clock w (tick w + 3) < mc_ExpiresAt c \<and> operationFor s (mc_VtaDid c) = Inr operation"
  have "wp (Claim h v) (\<lambda>r w'. case r of
      Inr _ \<Rightarrow> \<exists>did c s operation. ?P did c s operation \<and>
        tabs w' = update_conns (has_id (mc_ID c)) (claim_row operation did (clock w (tick w + 3))) (tabs w)
    | Inl _ \<Rightarrow> \<not> (\<exists>did c s operation. ?P did c s operation)) w"
    using assms unfolding Claim_def claim_def lockSession_def Let_def
    by (simp add: wp quiet_def numeral_3_eq_3 split: option.splits sum.splits)
  then show ?thesis
    by (cases "Claim h v w") (auto simp: wp_def split: sum.splits)
qed

text \<open>A DID the code accepts, and a claim of the open request with it.\<close>

definition sample_did :: string where
  "sample_did = ''did:key:z6MkeXBLjYiSvqnhFb6D7sHm8yKm4jV45wwBFRaatf1cfZ76''"

lemma sample_did_key: "FromPublicKey (replicate 32 (CHR 0x01)) = Inr sample_did"
  by code_simp

lemma sample_did_trimmed: "TrimSpace sample_did = sample_did \<and> length sample_did \<le> 128"
  by code_simp

lemma sample_did_valid: "ValidateAdminDID sample_did = Inr sample_did"
  using sample_did_key sample_did_trimmed by (auto simp: ValidateAdminDID_Inr)

definition opened_world :: "db world" where
  "opened_world = calm_world opened_db (\<lambda>n. int n)"

definition sample_handle :: string where
  "sample_handle = (case t_conns opened_db of r # _ \<Rightarrow> the (mc_ClaimHandle r) | [] \<Rightarrow> [])"

lemma opened_claimable:
  "\<exists>c. find_handle sample_handle opened_db = Some c \<and> mc_Status c = ''open'' \<and>
     find_session (mc_SessionID c) opened_db = Some sample_session \<and> 3 < mc_ExpiresAt c \<and>
     operationFor sample_session (mc_VtaDid c) = Inr OperationProvisionVTA"
proof -
  have "(case find_handle sample_handle opened_db of None \<Rightarrow> False | Some c \<Rightarrow>
      mc_Status c = ''open'' \<and> mc_SessionID c = 7 \<and> 3 < mc_ExpiresAt c \<and>
      mc_VtaDid c = ''did:webvh:vta'')"
    by code_simp
  moreover have "t_sessions opened_db = [sample_session]" by code_simp
  moreover have "operationFor sample_session ''did:webvh:vta'' = Inr OperationProvisionVTA" by code_simp
  ultimately show ?thesis
    by (auto simp: find_session_def sample_session_def split: option.splits)
qed

theorem claim_exactly_when_witness:
  "\<exists>r w'. Claim sample_handle sample_did opened_world = (Inr r, w')"
proof -
  have "quiet opened_world" "tabs opened_world = opened_db" "clock opened_world (tick opened_world + 3) = 3"
    by (simp_all add: opened_world_def calm_world_def quiet_def)
  then show ?thesis
    using claim_exactly_when [where w = opened_world and h = sample_handle and v = sample_did]
      opened_claimable sample_did_valid
    by (fastforce split: prod.splits sum.splits)
qed






text \<open>
  C4. A request is claimed once: over any sequence of calls, a request that has left \<open>open\<close> keeps
  its id, session, handle, operation and claimant digest, its administrator is unchanged or has
  been cleared, it is never open again, and a final status stays final.
\<close>

theorem claimed_once:
  assumes "call_step\<^sup>*\<^sup>* d d'" and "unique_ids (t_conns d)" and "r \<in> set (t_conns d)"
  shows "\<exists>r' \<in> set (t_conns d'). becomes r r'"
  using calls_evolve [OF assms(1)] assms(2,3) conns_steps_becomes by (auto simp: evolves_def)

theorem claimed_once_witness:
  "\<exists>r \<in> set (t_conns opened_db). \<exists>r' \<in> set (t_conns (tabs (snd (run_call (CallCancelPending 7) opened_world)))).
     becomes r r'"
proof -
  have "call_step opened_db (tabs (snd (run_call (CallCancelPending 7) opened_world)))"
    unfolding call_step_def
    by (cases "run_call (CallCancelPending 7) opened_world")
       (metis opened_world_def snd_conv tabs_calm_world)
  moreover have "unique_ids (t_conns opened_db)" using reachable_ok [OF opened_reachable] by (simp add: conns_ok_def)
  moreover obtain r where "r \<in> set (t_conns opened_db)" using opened_row by (cases "t_conns opened_db") auto
  ultimately show ?thesis using claimed_once [OF r_into_rtranclp] by blast
qed

text \<open>
  A redeem poll is exclusive: while one poller holds the lease of a request, every other
  attempt to take it is refused until the lease has run out, whatever the second poller's clock
  and lease are.
\<close>

theorem redeem_poll_exclusive:
  assumes "unique_ids (t_conns (tabs w))" and "AcquireRedeemPoll i p lease w = (Inr True, w1)"
    and "tabs w2 = tabs w1" and "clock w2 (tick w2) < clock w (tick w) + lease"
  shows "fst (AcquireRedeemPoll i q lease' w2) \<noteq> Inr True \<and>
         tabs (snd (AcquireRedeemPoll i q lease' w2)) = tabs w2"
proof -
  let ?free = "poll_free i (clock w (tick w))" and ?until = "clock w (tick w) + lease"
  from assms(2) have one: "0 < count_where ?free (t_conns (tabs w))"
    and tabs1: "tabs w1 = update_conns ?free (hold_poll p ?until) (tabs w)"
    by (auto simp: AcquireRedeemPoll_def bnd_def Now_def exec_count_def interact_def ret_def throw_def
        split: if_splits)
  have none: "count_where (poll_free i (clock w2 (tick w2))) (t_conns (tabs w2)) = 0"
    using poll.held_count [OF _ one assms(4)] assms(1,3) by (simp add: tabs1 unique_ids_def)
  then have "update_conns (poll_free i (clock w2 (tick w2))) f (tabs w2) = tabs w2" for f
    by (simp add: update_conns_def update_where_none count_where_0_iff)
  with none show ?thesis
    by (simp add: AcquireRedeemPoll_def bnd_def Now_def exec_count_def interact_def ret_def throw_def)
qed

text \<open>A claimed row for the witnesses, written down as the table would hold it.\<close>

definition claimed_row :: mobile_connection where
  "claimed_row = (new_conn ''c1'' 7 ''did:webvh:vta'' OperationProvisionVTA (replicate 22 (CHR ''A'')) 0)
     \<lparr>mc_Status := ''claimed'', mc_AdminDid := sample_did, mc_ClaimedAt := Some 1,
      mc_ConfirmBy := Some (5 * minute), mc_ClaimantDigest := Some (ClaimantDigest sample_did)\<rparr>"

definition claimed_world :: "int \<Rightarrow> db world" where
  "claimed_world now = calm_world (sample_db\<lparr>t_conns := [claimed_row]\<rparr>) (\<lambda>_. now)"

lemma claimed_row_simps [simp]:
  "mc_ID claimed_row = ''c1''" "mc_SessionID claimed_row = 7" "mc_Status claimed_row = ''claimed''"
  "mc_ConfirmBy claimed_row = Some (5 * minute)" "mc_RedeemPollUntil claimed_row = None"
  "mc_Operation claimed_row = OperationProvisionVTA" "mc_AdminDid claimed_row = sample_did"
  by (simp_all add: claimed_row_def new_conn_def)

theorem redeem_poll_exclusive_witness:
  "\<exists>w1. AcquireRedeemPoll ''c1'' ''p'' minute (claimed_world 0) = (Inr True, w1) \<and>
     fst (AcquireRedeemPoll ''c1'' ''q'' minute (w1\<lparr>clock := (\<lambda>_. 5)\<rparr>)) \<noteq> Inr True"
proof -
  obtain w1 where w1: "AcquireRedeemPoll ''c1'' ''p'' minute (claimed_world 0) = (Inr True, w1)"
    by (simp add: AcquireRedeemPoll_def bnd_def Now_def exec_count_def interact_def ret_def
        claimed_world_def calm_world_def minute_def second_def poll_free_def)
  have "fst (AcquireRedeemPoll ''c1'' ''q'' minute (w1\<lparr>clock := (\<lambda>_. 5)\<rparr>)) \<noteq> Inr True"
    by (rule redeem_poll_exclusive [OF _ w1, THEN conjunct1])
       (simp_all add: claimed_world_def calm_world_def unique_ids_def minute_def second_def)
  with w1 show ?thesis by blast
qed

text \<open>
  Opening a QR code leaves the session with exactly one live request. When \<open>change\<close> (not
  cancelling) returns a request, that request is in the table, open, for the session, and no
  other request of the session is open, claimed, confirmed or provisioning.
\<close>

lemma change_yields:
  assumes "action \<noteq> ''cancel''"
  shows "yields d (change i action e pooled)
           (\<lambda>c d'. c \<in> set (t_conns d') \<and> mc_SessionID c = i \<and> mc_Status c = ''open'')"
proof -
  have new: "yields d' (open_request i s operation now)
      (\<lambda>c d'. c \<in> set (t_conns d') \<and> mc_SessionID c = i \<and> mc_Status c = ''open'')" for d' s operation now
    unfolding open_request_def create_conn_def newHandle_def Let_def
    by (intro y_rules y_bnd [where m = "bnd (rand_read 16) g" and P = "\<lambda>_ _. True" for g]) simp_all
  show ?thesis
    unfolding change_def lockSession_def Current_def Let_def
    by (intro y_rules new) (use assms in \<open>auto dest: newest_Some\<close>)
qed

theorem change_opens_one:
  assumes "conns_ok (t_conns (tabs w))" and "action \<noteq> ''cancel''"
    and "change i action e pooled w = (Inr c, w')"
  shows "c \<in> set (t_conns (tabs w')) \<and> mc_SessionID c = i \<and> mc_Status c = ''open'' \<and>
         (\<forall>r \<in> set (t_conns (tabs w')). mc_SessionID r = i \<and> active r \<longrightarrow> r = c)"
proof -
  have c: "c \<in> set (t_conns (tabs w'))" "mc_SessionID c = i" "mc_Status c = ''open''"
    using yieldsD [OF change_yields [OF assms(2)] assms(3)] by auto
  moreover have "active c" using c by (simp add: active_def active_statuses_def)
  moreover have "conns_ok (t_conns (tabs w'))"
    using steppingD [OF stepping_change assms(3)] assms(1) by (rule evolves_ok)
  ultimately show ?thesis unfolding conns_ok_def newest_active_def by metis
qed

theorem change_opens_one_witness:
  "\<exists>c w'. change 7 ''create'' [] False sample_world = (Inr c, w') \<and> mc_Status c = ''open'' \<and>
     (\<forall>r \<in> set (t_conns (tabs w')). mc_SessionID r = 7 \<and> active r \<longrightarrow> r = c)"
proof -
  have "case fst (change 7 ''create'' [] False sample_world) of Inl _ \<Rightarrow> False | Inr _ \<Rightarrow> True"
    by code_simp
  then obtain c w' where c: "change 7 ''create'' [] False sample_world = (Inr c, w')"
    by (cases "change 7 ''create'' [] False sample_world") (auto split: sum.splits)
  moreover have "conns_ok (t_conns (tabs sample_world))"
    by (simp add: sample_world_def sample_db_def empty_db_def conns_ok_def unique_ids_def
        unique_handles_def newest_active_def)
  ultimately show ?thesis using change_opens_one [OF _ _ c] by (intro exI [of _ c] exI [of _ w']) simp
qed

text \<open>
  C2. Nothing is provisioned without the owner's confirmation. When \<open>StartProvisioning\<close> returns
  a request that was not already provisioning or released, the request had been confirmed, at
  a recorded time; if it provisions a VTA, the session's administrator is now the very DID of
  the confirmed request, whose digest was fixed by the claim.
\<close>

theorem provisioning_confirmed:
  assumes "conns_ok (t_conns (tabs w))" and "StartProvisioning i w = (Inr r, w')"
    and "find_conn i (tabs w) = Some c" and "mc_Status c \<notin> {''provisioning'', ''released''}"
  shows "mc_Status c = ''confirmed'' \<and> mc_ConfirmedAt c \<noteq> None \<and>
         mc_ClaimantDigest c = Some (ClaimantDigest (mc_AdminDid c)) \<and>
         (mc_Operation c = OperationProvisionVTA \<longrightarrow>
            (\<forall>s \<in> set (t_sessions (tabs w')). ss_ID s = mc_SessionID c \<longrightarrow> ss_AdminDid s = mc_AdminDid c))"
proof -
  let ?Q = "\<lambda>d'. mc_Operation c = OperationProvisionVTA \<longrightarrow>
    (\<forall>s \<in> set (t_sessions d'). ss_ID s = mc_SessionID c \<longrightarrow> ss_AdminDid s = mc_AdminDid c)"
  have gate: "yields d (provision_switch s c now) (\<lambda>_. ?Q)" if "ss_ID s = mc_SessionID c" for d s now
    unfolding provision_switch_def beginProvision_def Let_def
    by (intro y_rules) (use that in auto)
  have "yields (tabs w) (StartProvisioning i) (\<lambda>_ d'. mc_Status c = ''confirmed'' \<and> ?Q d')"
    unfolding StartProvisioning_def lockSession_def
    by (rule y_transaction, intro y_first_known [where h = "find_conn i" and x = c] y_bnd [OF gate] y_rules)
       (use assms(3,4) in \<open>auto simp: find_session_def dest!: find_SomeD\<close>)
  with assms(2) have "mc_Status c = ''confirmed'' \<and> ?Q (tabs w')"
    by (auto dest: yieldsD)
  moreover have "bound_ok c" using assms(1,3) by (auto simp: find_conn_def conns_ok_def dest!: find_SomeD)
  ultimately show ?thesis by (simp add: bound_ok_def)
qed

definition confirmed_world :: "db world" where
  "confirmed_world = calm_world (sample_db\<lparr>t_conns :=
     [claimed_row\<lparr>mc_Status := ''confirmed'', mc_ConfirmedAt := Some 2\<rparr>]\<rparr>) (\<lambda>_. 9)"

lemma confirmed_ok: "conns_ok (t_conns (tabs confirmed_world))"
proof -
  have h: "set (replicate 22 (CHR ''A'')) \<subseteq> set b64url_alphabet" by (simp add: b64url_alphabet_def)
  show ?thesis
    using h sample_did_valid length_ClaimantDigest [of sample_did]
    by (auto simp: confirmed_world_def conns_ok_def unique_ids_def unique_handles_def newest_active_def
        schema_ok_def bound_ok_def claimed_row_def new_conn_def all_statuses_def active_statuses_def)
qed

lemma confirmed_starts:
  "\<exists>r w'. StartProvisioning ''c1'' confirmed_world = (Inr r, w')"
proof -
  have "\<not> (\<exists>e. fst (StartProvisioning ''c1'' confirmed_world) = Inl e)"
    by (simp add: StartProvisioning_def provision_switch_def beginProvision_def lockSession_def transaction_def
        first_def bnd_def select_def exec_def interact_def ret_def Now_def confirmed_world_def calm_world_def
        find_conn_def find_session_def sample_db_def sample_session_def blank_session_def)
  then show ?thesis by (cases "StartProvisioning ''c1'' confirmed_world"; cases "fst (StartProvisioning ''c1'' confirmed_world)") auto
qed

theorem provisioning_confirmed_witness:
  "\<exists>r w'. StartProvisioning ''c1'' confirmed_world = (Inr r, w') \<and>
     (\<forall>s \<in> set (t_sessions (tabs w')). ss_ID s = 7 \<longrightarrow> ss_AdminDid s = sample_did)"
proof -
  obtain r w' where r: "StartProvisioning ''c1'' confirmed_world = (Inr r, w')"
    using confirmed_starts by blast
  have "find_conn ''c1'' (tabs confirmed_world)
      = Some (claimed_row\<lparr>mc_Status := ''confirmed'', mc_ConfirmedAt := Some 2\<rparr>)"
    by (simp add: confirmed_world_def find_conn_def)
  with r confirmed_ok provisioning_confirmed [OF confirmed_ok r]
  show ?thesis by simp
qed

text \<open>The rows after lapsing a session's open requests, when it has no other active one.\<close>

lemma lapse_open_row:
  "mc_SessionID r = i \<longrightarrow> mc_Status r \<notin> {''claimed'', ''confirmed'', ''provisioning''} \<Longrightarrow>
   mc_SessionID r = i \<longrightarrow>
     \<not> active (if mc_SessionID r = i \<and> mc_Status r = ''open'' then set_status ''lapsed'' r else r)"
  by (simp add: active_def active_statuses_def set_status_def)

lemma lapse_open_rows:
  "\<forall>r \<in> set cs. mc_SessionID r = i \<longrightarrow> mc_Status r \<notin> {''claimed'', ''confirmed'', ''provisioning''} \<Longrightarrow>
   \<forall>r \<in> set (update_where (\<lambda>r. mc_SessionID r = i \<and> mc_Status r = ''open'') (set_status ''lapsed'') cs).
     mc_SessionID r = i \<longrightarrow> \<not> active r"
  unfolding set_update_where using lapse_open_row by fastforce

text \<open>
  Setting the administrator by hand cannot race a wallet: when \<open>AcceptManual\<close> succeeds, no
  request of the session was claimed, confirmed or provisioning, the session's administrator is
  the validated DID, and afterwards no request of the session can still be claimed. The only
  case that writes nothing is the resumption with the administrator already set.
\<close>

theorem manual_excludes_wallet:
  assumes "conns_ok (t_conns (tabs w))" and "AcceptManual i v resume w = (Inr (), w')"
  shows "(\<forall>r \<in> set (t_conns (tabs w)). mc_SessionID r = i \<longrightarrow>
            mc_Status r \<notin> {''claimed'', ''confirmed'', ''provisioning''}) \<and>
         (\<exists>did s. ValidateAdminDID v = Inr did \<and> find_session i (tabs w') = Some s \<and> ss_AdminDid s = did) \<and>
         ((\<forall>r \<in> set (t_conns (tabs w')). mc_SessionID r = i \<longrightarrow> \<not> active r) \<or> tabs w' = tabs w)"
proof -
  have no_wallet: "\<forall>r \<in> set (t_conns (tabs w)). mc_SessionID r = i \<longrightarrow>
      mc_Status r \<notin> {''claimed'', ''confirmed'', ''provisioning''}"
    if "\<not> (case newest (filter (\<lambda>r. mc_SessionID r = i) (t_conns (tabs w))) of None \<Rightarrow> False
           | Some c \<Rightarrow> mc_Status c \<in> {''claimed'', ''confirmed'', ''provisioning''})"
  proof (intro ballI impI notI)
    fix r
    assume r: "r \<in> set (t_conns (tabs w))" "mc_SessionID r = i"
      and st: "mc_Status r \<in> {''claimed'', ''confirmed'', ''provisioning''}"
    then have "active r" by (auto simp: active_def active_statuses_def)
    moreover obtain c where c: "newest (filter (\<lambda>r. mc_SessionID r = i) (t_conns (tabs w))) = Some c"
      using r by (cases "newest (filter (\<lambda>r. mc_SessionID r = i) (t_conns (tabs w)))")
        (auto simp: newest_None filter_empty_conv)
    ultimately have "r = c" using current_active [OF assms(1) c] r by blast
    with c that st show False by simp
  qed
  have "yields (tabs w) (AcceptManual i v resume) (\<lambda>_ d'.
      (\<forall>r \<in> set (t_conns (tabs w)). mc_SessionID r = i \<longrightarrow>
            mc_Status r \<notin> {''claimed'', ''confirmed'', ''provisioning''}) \<and>
      (\<exists>did s. ValidateAdminDID v = Inr did \<and> find_session i d' = Some s \<and> ss_AdminDid s = did) \<and>
      (t_conns d' = update_where (\<lambda>r. mc_SessionID r = i \<and> mc_Status r = ''open'') (set_status ''lapsed'')
         (t_conns (tabs w)) \<or> d' = tabs w))"
    unfolding AcceptManual_def lockSession_def Current_def beginProvision_def lapse_open_def Let_def
    by (intro y_rules conjI no_wallet)
       (auto simp: find_session_def find_update_where dest!: find_SomeD)
  note result = yieldsD [OF this assms(2)]
  note closed = lapse_open_rows [OF result [THEN conjunct1]]
  have "(\<forall>r \<in> set (t_conns (tabs w')). mc_SessionID r = i \<longrightarrow> \<not> active r) \<or> tabs w' = tabs w"
    using result [THEN conjunct2, THEN conjunct2]
  proof (elim disjE)
    assume eq: "t_conns (tabs w') = update_where (\<lambda>r. mc_SessionID r = i \<and> mc_Status r = ''open'')
        (set_status ''lapsed'') (t_conns (tabs w))"
    show ?thesis unfolding eq using closed by (rule disjI1)
  qed (rule disjI2)
  with result show ?thesis by blast
qed

definition free_world :: "db world" where
  "free_world = calm_world (sample_db\<lparr>t_conns := [claimed_row\<lparr>mc_Status := ''lapsed''\<rparr>]\<rparr>) (\<lambda>_. 9)"

lemma free_ok: "conns_ok (t_conns (tabs free_world))"
proof -
  have h: "set (replicate 22 (CHR ''A'')) \<subseteq> set b64url_alphabet" by (simp add: b64url_alphabet_def)
  show ?thesis
    using h length_ClaimantDigest [of sample_did]
    by (auto simp: free_world_def conns_ok_def unique_ids_def unique_handles_def newest_active_def
        schema_ok_def bound_ok_def claimed_row_def new_conn_def all_statuses_def final_statuses_def)
qed

lemma free_accepts: "\<exists>w'. AcceptManual 7 sample_did False free_world = (Inr (), w')"
proof -
  have "fst (AcceptManual 7 sample_did False free_world) = Inr ()"
    by (simp add: AcceptManual_def beginProvision_def lockSession_def Current_def transaction_def lapse_open_def
        first_def bnd_def select_def exec_def interact_def ret_def Now_def free_world_def calm_world_def
        find_session_def sample_db_def sample_session_def blank_session_def lift_err_def sample_did_valid
        Ready_def IsFullStack_def)
  then show ?thesis by (cases "AcceptManual 7 sample_did False free_world") auto
qed

theorem manual_excludes_wallet_witness:
  "\<exists>w'. AcceptManual 7 sample_did False free_world = (Inr (), w') \<and>
     (\<exists>s. find_session 7 (tabs w') = Some s \<and> ss_AdminDid s = sample_did)"
proof -
  obtain w' where w': "AcceptManual 7 sample_did False free_world = (Inr (), w')"
    using free_accepts by blast
  from manual_excludes_wallet [OF free_ok w'] sample_did_valid
  have "\<exists>s. find_session 7 (tabs w') = Some s \<and> ss_AdminDid s = sample_did" by auto
  with w' show ?thesis by blast
qed

text \<open>What \<open>Stop\<close> makes of one row.\<close>

definition stop_row :: "nat \<Rightarrow> mobile_connection \<Rightarrow> mobile_connection" where
  "stop_row i r =
     (if mc_SessionID r \<noteq> i then r
      else if mc_Status r = ''open'' \<or> mc_Status r = ''claimed'' then clear_status ''lapsed'' r
      else if mc_Status r = ''confirmed'' \<or> mc_Status r = ''provisioning'' then clear_status ''cancelled'' r
      else r)"

lemma stop_rows:
  "update_where (\<lambda>r. mc_SessionID r = i \<and> mc_Status r \<in> {''confirmed'', ''provisioning''})
      (clear_status ''cancelled'')
      (update_where (\<lambda>r. mc_SessionID r = i \<and> mc_Status r \<in> {''open'', ''claimed''}) (clear_status ''lapsed'') cs)
   = map (stop_row i) cs"
  unfolding update_where_def map_map
  by (rule map_cong [OF refl]) (simp add: stop_row_def clear_status_def)

lemma stop_row_facts:
  "mc_SessionID (stop_row i r) = mc_SessionID r \<and> (mc_SessionID r = i \<longrightarrow> \<not> active (stop_row i r)) \<and>
   (stop_row i r = r \<or> mc_AdminDid (stop_row i r) = []) \<and> (mc_SessionID r \<noteq> i \<longrightarrow> stop_row i r = r)"
  by (simp add: stop_row_def clear_status_def active_def active_statuses_def)

lemma filter_stop_rows:
  "filter (\<lambda>r. mc_SessionID r \<noteq> i) (map (stop_row i) cs) = filter (\<lambda>r. mc_SessionID r \<noteq> i) cs"
  using stop_row_facts by (induction cs) auto

text \<open>
  Stopping a session ends its requests: after \<open>Stop\<close> the session is deleting, none of its
  requests is active, every request it ended has lost its administrator, and the requests of
  every other session are untouched.
\<close>

theorem stop_ends_requests:
  assumes "Stop i w = (Inr (), w')"
  shows "(\<exists>s. find_session i (tabs w') = Some s \<and> ss_Status s = ''deleting'') \<and>
         (\<forall>r \<in> set (t_conns (tabs w')). mc_SessionID r = i \<longrightarrow> \<not> active r) \<and>
         (\<forall>r \<in> set (t_conns (tabs w')). r \<in> set (t_conns (tabs w)) \<or> mc_AdminDid r = []) \<and>
         filter (\<lambda>r. mc_SessionID r \<noteq> i) (t_conns (tabs w')) =
         filter (\<lambda>r. mc_SessionID r \<noteq> i) (t_conns (tabs w))"
proof -
  have "yields (tabs w) (Stop i) (\<lambda>_ d'. t_conns d' = map (stop_row i) (t_conns (tabs w)) \<and>
      (\<exists>s. find_session i d' = Some s \<and> ss_Status s = ''deleting''))"
    unfolding Stop_def lockSession_def
    by (intro y_rules conjI, simp_all only: tables_update stop_rows)
       (auto simp: find_session_def find_update_where dest!: find_SomeD)
  from yieldsD [OF this assms] have conns: "t_conns (tabs w') = map (stop_row i) (t_conns (tabs w))"
    and session: "\<exists>s. find_session i (tabs w') = Some s \<and> ss_Status s = ''deleting''" by blast+
  have "\<forall>r \<in> set (map (stop_row i) (t_conns (tabs w))). (mc_SessionID r = i \<longrightarrow> \<not> active r) \<and>
      (r \<in> set (t_conns (tabs w)) \<or> mc_AdminDid r = [])"
    using stop_row_facts [of i] by (auto 0 3) metis
  with session show ?thesis unfolding conns filter_stop_rows by blast
qed

theorem stop_ends_requests_witness:
  "\<exists>w'. Stop 7 (claimed_world 3) = (Inr (), w') \<and>
     (\<forall>r \<in> set (t_conns (tabs w')). mc_SessionID r = 7 \<longrightarrow> \<not> active r)"
proof -
  have "fst (Stop 7 (claimed_world 3)) = Inr ()"
    by (simp add: Stop_def lockSession_def transaction_def first_def bnd_def select_def exec_def interact_def
        ret_def claimed_world_def calm_world_def find_session_def sample_db_def sample_session_def
        blank_session_def)
  then obtain w' where w': "Stop 7 (claimed_world 3) = (Inr (), w')"
    by (cases "Stop 7 (claimed_world 3)") auto
  with stop_ends_requests [OF w'] show ?thesis by blast
qed

text \<open>
  Releasing a request is idempotent and binds at most the claimant. When \<open>MarkReleased\<close>
  succeeds the request is released; every wallet binding that is new names this request as its
  source, its administrator as the login DID, and that DID has the digest fixed by the claim;
  bindings stay unique per user and DID and per source request; and calling it again on the
  result changes nothing.
\<close>

definition bindings_ok :: "db \<Rightarrow> bool" where
  "bindings_ok d \<longleftrightarrow> distinct (map (\<lambda>b. (wb_UserID b, wb_LoginDID b)) (t_bindings d)) \<and>
     distinct (map wb_SourceClaimID (t_bindings d))"

lemma insert_binding_ok: "bindings_ok d \<Longrightarrow> bindings_ok (insert_binding u did s i now d)"
  by (auto simp: bindings_ok_def insert_binding_def)

lemma insert_binding_new:
  "b \<in> set (t_bindings (insert_binding u did s i now d)) \<Longrightarrow>
   b \<in> set (t_bindings d) \<or> wb_SourceClaimID b = i \<and> wb_LoginDID b = did \<and> wb_UserID b = u"
  by (auto simp: insert_binding_def split: if_splits)

lemma insert_binding_tables [simp]:
  "t_conns (insert_binding u did s i now d) = t_conns d"
  "t_sessions (insert_binding u did s i now d) = t_sessions d"
  by (simp_all add: insert_binding_def)

theorem release_binds_claimant:
  assumes "MarkReleased i w = (Inr (), w')" and "bindings_ok (tabs w)"
  shows "\<exists>c r. find_conn i (tabs w) = Some c \<and> find_conn i (tabs w') = Some r \<and> mc_Status r = ''released'' \<and>
           bindings_ok (tabs w') \<and>
           (\<forall>b \<in> set (t_bindings (tabs w')). b \<in> set (t_bindings (tabs w)) \<or>
              wb_SourceClaimID b = i \<and> wb_LoginDID b = mc_AdminDid c \<and>
              mc_ClaimantDigest c = Some (ClaimantDigest (wb_LoginDID b))) \<and>
           (\<forall>w2. tabs w2 = tabs w' \<longrightarrow> tabs (snd (MarkReleased i w2)) = tabs w')"
proof -
  let ?R = "\<lambda>d'. \<exists>c r. find_conn i (tabs w) = Some c \<and> find_conn i d' = Some r \<and> mc_Status r = ''released'' \<and>
      bindings_ok d' \<and> (\<forall>b \<in> set (t_bindings d'). b \<in> set (t_bindings (tabs w)) \<or>
        wb_SourceClaimID b = i \<and> wb_LoginDID b = mc_AdminDid c \<and>
        mc_ClaimantDigest c = Some (ClaimantDigest (wb_LoginDID b)))"
  have upd: "find_conn i (update_conns (has_id (mc_ID c)) (\<lambda>q. q\<lparr>mc_Status := ''released'', mc_ReleasedAt := Some t\<rparr>) d)
      = Some (c\<lparr>mc_Status := ''released'', mc_ReleasedAt := Some t\<rparr>)" if "find_conn i d = Some c" for c t d
    using that by (auto simp: find_conn_def find_update_where dest!: find_SomeD)
  have other: "find_conn i (insert_binding u did s j now d) = find_conn i d" for u did s j now d
    by (simp add: find_conn_def)
  have ok: "bindings_ok (update_conns P f d) = bindings_ok d" for P f d
    by (simp add: bindings_ok_def)
  have "yields (tabs w) (MarkReleased i) (\<lambda>_. ?R)"
    unfolding MarkReleased_def
  proof (intro y_rules)
    fix c assume "find_conn i (tabs w) = Some c" "mc_Status c = ''released''"
    with assms(2) show "?R (tabs w)" by blast
  next
    fix c t assume c: "find_conn i (tabs w) = Some c"
    let ?d = "update_conns (has_id (mc_ID c)) (\<lambda>q. q\<lparr>mc_Status := ''released'', mc_ReleasedAt := Some t\<rparr>) (tabs w)"
    show "?R ?d"
      using c upd [OF c] assms(2) ok by (intro exI conjI) auto
    fix s
    assume "\<not> ((mc_Operation c \<noteq> OperationProvisionVTA \<and> mc_Operation c \<noteq> OperationGrantACL) \<or>
       mc_AdminDid c = [] \<or> mc_ClaimantDigest c \<noteq> Some (ClaimantDigest (mc_AdminDid c)))"
    moreover have "mc_ID c = i" using c by (auto simp: find_conn_def dest!: find_SomeD)
    ultimately show "?R (insert_binding (ss_UserID s) (mc_AdminDid c) (ss_ID s) (mc_ID c) t ?d)"
      using c upd [OF c] assms(2) ok insert_binding_ok [of ?d] insert_binding_new [of _ _ _ _ _ _ ?d] other
      by (intro exI conjI) fastforce+
  qed
  note result = yieldsD [OF this assms(1)]
  have "tabs (snd (MarkReleased i w2)) = tabs w'" if "tabs w2 = tabs w'" for w2 :: "db world"
    using that result
    by (auto simp: MarkReleased_def transaction_def first_def bnd_def select_def interact_def ret_def throw_def
        split: option.splits)
  with result show ?thesis by blast
qed

definition provisioning_world :: "db world" where
  "provisioning_world = calm_world (sample_db\<lparr>t_conns := [claimed_row\<lparr>mc_Status := ''provisioning''\<rparr>]\<rparr>) (\<lambda>_. 9)"

lemma provisioning_releases:
  "fst (MarkReleased ''c1'' provisioning_world) = Inr () \<and>
   map wb_LoginDID (t_bindings (tabs (snd (MarkReleased ''c1'' provisioning_world)))) = [sample_did]"
proof -
  have "mc_ClaimantDigest claimed_row = Some (ClaimantDigest sample_did)" "sample_did \<noteq> []"
    by (simp_all add: claimed_row_def sample_did_def)
  then show ?thesis
    by (simp add: MarkReleased_def transaction_def first_def bnd_def select_def exec_def interact_def ret_def
        Now_def provisioning_world_def calm_world_def find_conn_def find_session_def sample_db_def
        sample_session_def blank_session_def insert_binding_def empty_db_def update_conns_def)
qed

theorem release_binds_claimant_witness:
  "\<exists>w'. MarkReleased ''c1'' provisioning_world = (Inr (), w') \<and>
     (\<exists>r. find_conn ''c1'' (tabs w') = Some r \<and> mc_Status r = ''released'') \<and>
     map wb_LoginDID (t_bindings (tabs w')) = [sample_did]"
proof -
  obtain w' where w': "MarkReleased ''c1'' provisioning_world = (Inr (), w')"
    using provisioning_releases by (cases "MarkReleased ''c1'' provisioning_world") auto
  have "bindings_ok (tabs provisioning_world)"
    by (simp add: provisioning_world_def bindings_ok_def sample_db_def empty_db_def)
  from release_binds_claimant [OF w' this] w' provisioning_releases show ?thesis by auto
qed

end
