(* ===== verification/Pool.thy ===== *)
theory Pool
  imports Connection
begin

text \<open>
  \<open>internal/pool/store.go\<close> and \<open>internal/publicid/user.go\<close>: admission of prebuilt VTAs into a
  batch, reservation of a waiting one, confirmation and rejection of its claim, retries and
  cleanup, one definition per function.

  The transaction-wide advisory lock is a statement that can fail; \<open>SKIP LOCKED\<close> asks the
  world which rows are held. \<open>INSERT ... ON CONFLICT DO NOTHING RETURNING\<close> is a function from
  the tables to the inserted rows and the new tables.
\<close>

section \<open>Statements on the pool's tables\<close>

definition pool_lock :: "unit dbtx" where
  "pool_lock = exec (\<lambda>d. d)"

definition update_batches :: "(pool_batch \<Rightarrow> bool) \<Rightarrow> (pool_batch \<Rightarrow> pool_batch) \<Rightarrow> db \<Rightarrow> db" where
  "update_batches P f d = d\<lparr>t_batches := update_where P f (t_batches d)\<rparr>"

definition find_batch :: "nat \<Rightarrow> db \<Rightarrow> pool_batch option" where
  "find_batch i d = find (\<lambda>b. pb_ID b = i) (t_batches d)"

text \<open>\<open>pool_sessions ps JOIN setup_sessions s ON s.id = ps.session_id\<close>\<close>

definition members :: "db \<Rightarrow> (pool_session \<times> setup_session) list" where
  "members d = [(m, s). m \<leftarrow> t_members d, s \<leftarrow> t_sessions d, ss_ID s = ps_SessionID m]"

definition non_running :: "db \<Rightarrow> nat" where
  "non_running d = length (filter (\<lambda>(m, s). ss_Status s \<noteq> ''running'') (members d))"

definition nonRunningSessionCount :: "int dbtx" where
  "nonRunningSessionCount = select (\<lambda>d. int (non_running d))"

definition IsSession :: "nat \<Rightarrow> bool dbtx" where
  "IsSession sessionID =
     bnd (attempt (select (\<lambda>d. count_where (\<lambda>m. ps_SessionID m = sessionID) (t_members d))))
       (\<lambda>r. ret (case r of Inl _ \<Rightarrow> False | Inr n \<Rightarrow> n = 1))"

section \<open>Identifiers\<close>

definition userAlphabet :: string where
  "userAlphabet = ''abcdefghijklmnopqrstuvwxyz0123456789''"

definition NewAccount :: "string dbtx" where
  "NewAccount = bnd (rand_read 8) (\<lambda>random. ret (map (\<lambda>b. userAlphabet ! (of_char b mod 36)) random))"

definition randomName :: "string dbtx" where
  "randomName = bnd (rand_read 6) (\<lambda>v. ret (hex v))"

text \<open>The loop of \<open>generateUniqueIDs\<close>; the first argument bounds the remaining draws.\<close>

fun draw_ids :: "nat \<Rightarrow> nat \<Rightarrow> string dbtx \<Rightarrow> string list \<Rightarrow> string list \<Rightarrow> (string list \<times> string list) dbtx" where
  "draw_ids 0 n new vals generated =
     (if length vals \<noteq> n then throw (NewError ''random identifier source produced too many duplicates'')
      else ret (vals, generated))"
| "draw_ids (Suc k) n new vals generated =
     (if length vals < n then
        bnd new (\<lambda>v. if v \<in> set generated then draw_ids k n new vals generated
                      else draw_ids k n new (vals @ [v]) (v # generated))
      else draw_ids 0 n new vals generated)"

definition generateUniqueIDs :: "nat \<Rightarrow> string list \<Rightarrow> string dbtx \<Rightarrow> (string list \<times> string list) dbtx" where
  "generateUniqueIDs n generated new = draw_ids (n * 20 + 100) n new [] generated"

section \<open>Users\<close>

fun insert_users :: "int \<Rightarrow> string list \<Rightarrow> db \<Rightarrow> user list \<times> db" where
  "insert_users now [] d = ([], d)"
| "insert_users now (n # ns) d =
     (if \<exists>u \<in> set (t_users d). u_UniqueId u = n then insert_users now ns d
      else
        let u = \<lparr>u_ID = Suc (seq_users d), u_UniqueId = n, u_Email = None, u_FullstackAccess = False,
                 u_CreatedAt = now, u_UpdatedAt = now\<rparr>;
            r = insert_users now ns (d\<lparr>t_users := t_users d @ [u], seq_users := Suc (seq_users d)\<rparr>)
        in (u # fst r, snd r))"

fun user_attempts :: "nat \<Rightarrow> nat \<Rightarrow> user list \<Rightarrow> string list \<Rightarrow> user list dbtx" where
  "user_attempts 0 n users generated =
     (if length users \<noteq> n then throw (NewError ''could not allocate user identifiers'')
      else ret (sort_key u_ID users))"
| "user_attempts (Suc k) n users generated =
     (if length users < n then
        bnd (generateUniqueIDs (n - length users) generated NewAccount) (\<lambda>(names, generated').
        bnd (returning (\<lambda>now. insert_users now names)) (\<lambda>inserted.
        user_attempts k n (users @ inserted) generated'))
      else user_attempts 0 n users generated)"

definition createUsers :: "nat \<Rightarrow> user list dbtx" where
  "createUsers n = user_attempts 5 n [] []"

section \<open>Setup sessions\<close>

definition session_candidate :: "setup_session \<Rightarrow> user \<Rightarrow> string \<Rightarrow> setup_session" where
  "session_candidate tmpl u name =
     tmpl\<lparr>ss_ID := 0, ss_UserID := u_ID u, ss_Status := StatusPoolCreating,
           ss_VtaName := name, ss_AdminDid := [], ss_Subdomain := ss_Subdomain tmpl @ name,
           ss_VtaDidUrl := ss_DidHostingServerURL tmpl @ ''/'' @ name @ ''-vta'',
           ss_CreatedAt := 0, ss_UpdatedAt := 0\<rparr>"

text \<open>The unique indexes of \<open>setup_sessions\<close>: the name, the VTC name, the owned domain.\<close>

definition session_clash :: "setup_session \<Rightarrow> setup_session \<Rightarrow> bool" where
  "session_clash r q \<longleftrightarrow>
     ss_VtaName q = ss_VtaName r \<or>
     (ss_DomainType q = DomainManaged \<and> ss_DomainType r = DomainManaged \<and>
        ss_VtcName q \<noteq> [] \<and> ss_VtcName q = ss_VtcName r) \<or>
     (ss_DomainID q \<noteq> None \<and> ss_DomainID q = ss_DomainID r)"

fun insert_sessions :: "int \<Rightarrow> setup_session list \<Rightarrow> db \<Rightarrow> setup_session list \<times> db" where
  "insert_sessions now [] d = ([], d)"
| "insert_sessions now (r # rs) d =
     (if \<exists>q \<in> set (t_sessions d). session_clash r q then insert_sessions now rs d
      else
        let r' = r\<lparr>ss_ID := Suc (seq_sessions d), ss_CreatedAt := now, ss_UpdatedAt := now\<rparr>;
            t = insert_sessions now rs (d\<lparr>t_sessions := t_sessions d @ [r'], seq_sessions := Suc (seq_sessions d)\<rparr>)
        in (r' # fst t, snd t))"

text \<open>The second read: the inserted rows of users still pending, each user once.\<close>

fun take_inserted ::
  "setup_session list \<Rightarrow> setup_session list \<Rightarrow> user list \<Rightarrow> setup_session list \<times> user list" where
  "take_inserted [] sessions pending = (sessions, pending)"
| "take_inserted (r # rs) sessions pending =
     (if \<exists>u \<in> set pending. u_ID u = ss_UserID r
      then take_inserted rs (sessions @ [r]) (filter (\<lambda>u. u_ID u \<noteq> ss_UserID r) pending)
      else take_inserted rs sessions pending)"

fun session_attempts ::
  "nat \<Rightarrow> setup_session \<Rightarrow> user list \<Rightarrow> setup_session list \<Rightarrow> string list \<Rightarrow> setup_session list dbtx" where
  "session_attempts 0 tmpl pending sessions generated =
     (if pending \<noteq> [] then throw (NewError ''could not allocate VTA identifiers'')
      else ret (sort_key ss_ID sessions))"
| "session_attempts (Suc k) tmpl pending sessions generated =
     (if pending = [] then session_attempts 0 tmpl pending sessions generated
      else
        let pendingUsers = sort_key u_ID pending in
        bnd (generateUniqueIDs (length pendingUsers) generated randomName) (\<lambda>(names, generated').
        let candidates = map2 (session_candidate tmpl) pendingUsers names in
        bnd (returning (\<lambda>now. insert_sessions now candidates)) (\<lambda>created.
        if length created = length candidates
        then session_attempts k tmpl [] (sessions @ created) generated'
        else
          bnd (select (\<lambda>d. sort_key ss_ID
                 (filter (\<lambda>s. ss_UserID s \<in> u_ID ` set pendingUsers) (t_sessions d)))) (\<lambda>inserted.
          let (sessions', pending') = take_inserted inserted sessions pending in
          session_attempts k tmpl pending' sessions' generated'))))"

definition createSetupSessions :: "user list \<Rightarrow> setup_session \<Rightarrow> setup_session list dbtx" where
  "createSetupSessions users tmpl = session_attempts 5 tmpl users [] []"

text \<open>
  One statement inserts the memberships and the resource rows; the primary key on the session
  and the unique component per session guard it. One membership per session is inserted, which
  is the count the code compares.
\<close>

definition membership_allowed :: "setup_session list \<Rightarrow> db \<Rightarrow> bool" where
  "membership_allowed sessions d \<longleftrightarrow>
     distinct (map ss_ID sessions) \<and>
     (\<forall>s \<in> set sessions. (\<forall>m \<in> set (t_members d). ps_SessionID m \<noteq> ss_ID s) \<and>
        (\<forall>r \<in> set (t_resources d). \<not> (wr_SetupSessionID r = ss_ID s \<and> wr_Component r = ''vta'')))"

definition add_memberships :: "nat \<Rightarrow> setup_session list \<Rightarrow> string \<Rightarrow> string \<Rightarrow> db \<Rightarrow> db" where
  "add_memberships batchID sessions memoryRequest memoryLimit d =
     d\<lparr>t_members := t_members d @ map (\<lambda>s. \<lparr>ps_SessionID = ss_ID s, ps_BatchID = batchID\<rparr>) sessions,
       t_resources := t_resources d @
         map (\<lambda>(i, s). \<lparr>wr_ID = Suc (length (t_resources d) + i), wr_SetupSessionID = ss_ID s,
                wr_Component = ''vta'', wr_MemoryRequest = memoryRequest, wr_MemoryLimit = memoryLimit,
                wr_ApplyError = [], wr_CreatedAt = 0, wr_UpdatedAt = 0\<rparr>)
             (enumerate 0 sessions)\<rparr>"

definition createPoolMembershipsAndResources ::
  "nat \<Rightarrow> setup_session list \<Rightarrow> string \<Rightarrow> string \<Rightarrow> unit dbtx" where
  "createPoolMembershipsAndResources batchID sessions memoryRequest memoryLimit =
     exec_checked (membership_allowed sessions) (add_memberships batchID sessions memoryRequest memoryLimit)"

section \<open>Admission\<close>

record admission =
  ad_AdminID :: nat
  ad_Key :: string
  ad_Digest :: string
  ad_Label :: string
  ad_Purpose :: string
  ad_Count :: int
  ad_Capacity :: int
  ad_Session :: setup_session
  ad_MemoryRequest :: string
  ad_MemoryLimit :: string

text \<open>A result is the batch, the new sessions and \<open>Created\<close>.\<close>

definition LookupBatch :: "nat \<Rightarrow> string \<Rightarrow> string \<Rightarrow> pool_batch dbtx" where
  "LookupBatch adminID key digest =
     bnd (first (\<lambda>d. find (\<lambda>b. pb_CreatedBy b = adminID \<and> pb_IdempotencyKey b = key) (t_batches d)))
       (\<lambda>batch. if pb_RequestDigest batch \<noteq> digest then throw PoolErrConflict else ret batch)"

definition insert_batch :: "admission \<Rightarrow> int \<Rightarrow> db \<Rightarrow> pool_batch list \<times> db" where
  "insert_batch input now d =
     (if ad_Count input \<le> max (ad_Capacity input - int (non_running d)) 0 \<and>
         \<not> (\<exists>b \<in> set (t_batches d). pb_CreatedBy b = ad_AdminID input \<and> pb_IdempotencyKey b = ad_Key input)
      then
        let b = \<lparr>pb_ID = Suc (seq_batches d), pb_CreatedBy = ad_AdminID input, pb_Label = ad_Label input,
                 pb_Purpose = ad_Purpose input, pb_RequestedCount = ad_Count input,
                 pb_VtaImage = ss_VtaImage (ad_Session input), pb_IdempotencyKey = ad_Key input,
                 pb_RequestDigest = ad_Digest input,
                 pb_PublicSignupEnabledAt =
                   (if ad_Purpose input = PoolPurposePublicSignup then Some now else None),
                 pb_CleanupRequestedAt = None, pb_CreatedAt = now\<rparr>
        in ([b], d\<lparr>t_batches := t_batches d @ [b], seq_batches := Suc (seq_batches d)\<rparr>)
      else ([], d))"

definition admitBatchRow :: "admission \<Rightarrow> (pool_batch \<times> bool) dbtx" where
  "admitBatchRow input =
     bnd (returning (insert_batch input)) (\<lambda>inserted.
     case inserted of
       [b] \<Rightarrow> ret (b, True)
     | _ \<Rightarrow>
         bnd (attempt (LookupBatch (ad_AdminID input) (ad_Key input) (ad_Digest input))) (\<lambda>r.
         case r of
           Inr previous \<Rightarrow> ret (previous, False)
         | Inl e \<Rightarrow>
             if e \<noteq> RecordNotFound then throw e
             else bnd nonRunningSessionCount (\<lambda>reserved.
                  throw (CapacityError (max (ad_Capacity input - reserved) 0)))))"

definition Admit :: "admission \<Rightarrow> (pool_batch \<times> setup_session list \<times> bool) dbtx" where
  "Admit input0 =
     (let input = (if ad_Purpose input0 = [] then input0\<lparr>ad_Purpose := PoolPurposeAdminStation\<rparr> else input0) in
      if ad_Count input < 1 \<or> ad_Key input = [] \<or> length (ad_Key input) > 128 \<or> ss_VtaImage (ad_Session input) = []
      then throw (NewError ''invalid pool admission'')
      else if ad_Purpose input \<noteq> PoolPurposeAdminStation \<and> ad_Purpose input \<noteq> PoolPurposePublicSignup
      then throw (NewError ''invalid pool purpose'')
      else transaction (
        bnd pool_lock (\<lambda>_.
        bnd (admitBatchRow input) (\<lambda>(batch, created).
        if \<not> created then ret (batch, [], False)
        else
          bnd (createUsers (nat (ad_Count input))) (\<lambda>users.
          bnd (createSetupSessions users (ad_Session input)) (\<lambda>sessions.
          bnd (createPoolMembershipsAndResources (pb_ID batch) sessions
                 (ad_MemoryRequest input) (ad_MemoryLimit input)) (\<lambda>_.
          ret (batch, sessions, True))))))))"

record addition =
  dd_AdminID :: nat
  dd_BatchID :: nat
  dd_Key :: string
  dd_Digest :: string
  dd_Count :: int
  dd_Capacity :: int
  dd_Session :: setup_session
  dd_MemoryRequest :: string
  dd_MemoryLimit :: string

definition lookupAddition :: "nat \<Rightarrow> string \<Rightarrow> string \<Rightarrow> nat \<Rightarrow> pool_batch_addition dbtx" where
  "lookupAddition adminID key digest batchID =
     bnd (first (\<lambda>d. find (\<lambda>a. pa_CreatedBy a = adminID \<and> pa_IdempotencyKey a = key) (t_additions d)))
       (\<lambda>a. if pa_RequestDigest a \<noteq> digest \<or> pa_BatchID a \<noteq> batchID then throw PoolErrConflict else ret a)"

definition create_addition :: "addition \<Rightarrow> unit dbtx" where
  "create_addition input =
     exec_checked
       (\<lambda>d. \<forall>a \<in> set (t_additions d). \<not> (pa_CreatedBy a = dd_AdminID input \<and> pa_IdempotencyKey a = dd_Key input))
       (\<lambda>d. d\<lparr>t_additions := t_additions d @
          [\<lparr>pa_ID = Suc (seq_additions d), pa_BatchID = dd_BatchID input, pa_CreatedBy = dd_AdminID input,
            pa_RequestedCount = dd_Count input, pa_IdempotencyKey = dd_Key input,
            pa_RequestDigest = dd_Digest input, pa_CreatedAt = 0\<rparr>],
          seq_additions := Suc (seq_additions d)\<rparr>)"

definition AddInventory :: "addition \<Rightarrow> (pool_batch \<times> setup_session list \<times> bool) dbtx" where
  "AddInventory input =
     (if dd_BatchID input = 0 \<or> dd_Count input < 1 \<or> dd_Key input = [] \<or> length (dd_Key input) > 128 \<or>
         ss_VtaImage (dd_Session input) = []
      then throw (NewError ''invalid pool addition'')
      else transaction (
        bnd pool_lock (\<lambda>_.
        bnd (attempt (lookupAddition (dd_AdminID input) (dd_Key input) (dd_Digest input) (dd_BatchID input))) (\<lambda>r.
        case r of
          Inr _ \<Rightarrow> bnd (first (find_batch (dd_BatchID input))) (\<lambda>batch. ret (batch, [], False))
        | Inl e \<Rightarrow>
            if e \<noteq> RecordNotFound then throw e
            else
              bnd (first (find_batch (dd_BatchID input))) (\<lambda>batch.
              if pb_CleanupRequestedAt batch \<noteq> None then throw PoolErrConflict
              else if pb_VtaImage batch = [] \<or> pb_VtaImage batch \<noteq> ss_VtaImage (dd_Session input)
              then throw PoolErrConflict
              else
                bnd nonRunningSessionCount (\<lambda>reserved.
                if dd_Count input > max (dd_Capacity input - reserved) 0
                then throw (CapacityError (max (dd_Capacity input - reserved) 0))
                else
                  bnd (create_addition input) (\<lambda>_.
                  bnd (createUsers (nat (dd_Count input))) (\<lambda>users.
                  bnd (createSetupSessions users (dd_Session input)) (\<lambda>sessions.
                  bnd (createPoolMembershipsAndResources (pb_ID batch) sessions
                         (dd_MemoryRequest input) (dd_MemoryLimit input)) (\<lambda>_.
                  bnd (exec (update_batches (\<lambda>b. pb_ID b = pb_ID batch)
                         (\<lambda>b. b\<lparr>pb_RequestedCount := pb_RequestedCount b + dd_Count input\<rparr>))) (\<lambda>_.
                  ret (batch\<lparr>pb_RequestedCount := pb_RequestedCount batch + dd_Count input\<rparr>,
                       sessions, True))))))))))))"

end
