(* ===== verification/PoolClaims.thy ===== *)
theory PoolClaims
  imports Pool
begin

text \<open>
  The second half of \<open>internal/pool/store.go\<close>: reserving a waiting VTA for an admin station or
  for public signup, confirming and rejecting its claim, retries and cleanup.
\<close>

section \<open>Reserving\<close>

text \<open>The \<open>NOT EXISTS\<close> of both queries: no live claim on the session.\<close>

definition claim_live :: "int \<Rightarrow> mobile_connection \<Rightarrow> bool" where
  "claim_live now mc \<longleftrightarrow>
     (mc_Status mc = ''open'' \<and> mc_ExpiresAt mc > now) \<or>
     (mc_Status mc = ''claimed'' \<and> (case mc_ConfirmBy mc of None \<Rightarrow> False | Some t \<Rightarrow> t > now)) \<or>
     mc_Status mc \<in> {''confirmed'', ''provisioning''}"

definition unclaimed :: "int \<Rightarrow> db \<Rightarrow> setup_session \<Rightarrow> bool" where
  "unclaimed now d s \<longleftrightarrow> \<not> (\<exists>mc \<in> set (t_conns d). mc_SessionID mc = ss_ID s \<and> claim_live now mc)"

definition waiting :: "setup_session \<Rightarrow> bool" where
  "waiting s \<longleftrightarrow> ss_Status s = StatusPoolWaiting \<and> ss_AdminDid s = []"

definition batch_candidates :: "nat \<Rightarrow> int \<Rightarrow> db \<Rightarrow> setup_session list" where
  "batch_candidates batchID now d =
     sort_key ss_ID [s. (m, s) \<leftarrow> members d, ps_BatchID m = batchID \<and> waiting s \<and> unclaimed now d s]"

text \<open>\<open>FOR UPDATE SKIP LOCKED\<close>: a row another transaction holds is not found.\<close>

definition lock_skipping :: "nat \<Rightarrow> setup_session dbtx" where
  "lock_skipping i =
     bnd (row_locked i) (\<lambda>busy. first (\<lambda>d. if busy then None else find_session i d))"

text \<open>
  The loop over the candidates; \<open>take_it\<close> is what is done with the connection of the first
  candidate that can be had.
\<close>

fun reserve_loop ::
  "(mobile_connection \<Rightarrow> mobile_connection dbtx) \<Rightarrow> setup_session list \<Rightarrow> mobile_connection dbtx" where
  "reserve_loop take_it [] = throw ErrEmpty"
| "reserve_loop take_it (c # cs) =
     bnd (attempt (lock_skipping (ss_ID c))) (\<lambda>q.
     case q of
       Inl e \<Rightarrow> if e = RecordNotFound then reserve_loop take_it cs else throw e
     | Inr session \<Rightarrow>
         if ss_Status session \<noteq> StatusPoolWaiting \<or> ss_AdminDid session \<noteq> []
         then reserve_loop take_it cs
         else
           bnd (attempt (ChangePool (ss_ID session))) (\<lambda>r.
           case r of
             Inl e \<Rightarrow> if e = ErrConflict \<or> e = ErrCooldown then reserve_loop take_it cs else throw e
           | Inr mobile \<Rightarrow> take_it mobile))"

definition Reserve :: "nat \<Rightarrow> mobile_connection dbtx" where
  "Reserve batchID =
     transaction (
       bnd pool_lock (\<lambda>_.
       bnd (select_now (batch_candidates batchID)) (\<lambda>candidates.
       reserve_loop ret candidates)))"

definition public_batch :: "pool_batch \<Rightarrow> bool" where
  "public_batch b \<longleftrightarrow> pb_Purpose b = PoolPurposePublicSignup \<and> pb_PublicSignupEnabledAt b \<noteq> None"

text \<open>\<open>ORDER BY pb.public_signup_enabled_at, pb.id, s.id\<close>, by stable sorts from the last key on.\<close>

definition public_candidates :: "int \<Rightarrow> db \<Rightarrow> setup_session list" where
  "public_candidates now d =
     map snd (sort_key (\<lambda>(b, s). the (pb_PublicSignupEnabledAt b)) (sort_key (\<lambda>(b, s). pb_ID b)
       (sort_key (\<lambda>(b, s). ss_ID s)
         [(b, s). (m, s) \<leftarrow> members d, b \<leftarrow> t_batches d,
            pb_ID b = ps_BatchID m \<and> public_batch b \<and> waiting s \<and> unclaimed now d s])))"

definition set_digest :: "string \<Rightarrow> mobile_connection \<Rightarrow> mobile_connection dbtx" where
  "set_digest accessDigest mobile =
     bnd (exec_checked
            (\<lambda>d. \<forall>q \<in> set (t_conns d). mc_PublicAccessDigest q = accessDigest \<longrightarrow> mc_ID q = mc_ID mobile)
            (update_conns (has_id (mc_ID mobile)) (\<lambda>r. r\<lparr>mc_PublicAccessDigest := accessDigest\<rparr>)))
       (\<lambda>_. ret (mobile\<lparr>mc_PublicAccessDigest := accessDigest\<rparr>))"

definition ReservePublic :: "string \<Rightarrow> (mobile_connection \<times> bool) dbtx" where
  "ReservePublic accessDigest =
     (if length accessDigest \<noteq> 32 then throw (NewError ''invalid public claim capability digest'')
      else transaction (
        bnd pool_lock (\<lambda>_.
        bnd (attempt (first (\<lambda>d. find (\<lambda>r. mc_PublicAccessDigest r = accessDigest) (t_conns d)))) (\<lambda>lookup.
        case lookup of
          Inr existing \<Rightarrow> ret (existing, False)
        | Inl e \<Rightarrow>
            if e \<noteq> RecordNotFound then throw e
            else
              bnd (select (\<lambda>d. count_where public_batch (t_batches d))) (\<lambda>enabled.
              if enabled = 0 then throw ErrPublicDisabled
              else
                bnd (select_now public_candidates) (\<lambda>candidates.
                bnd (reserve_loop (set_digest accessDigest) candidates) (\<lambda>mobile.
                ret (mobile, True))))))))"

definition SetPublicSignup :: "nat \<Rightarrow> bool \<Rightarrow> pool_batch dbtx" where
  "SetPublicSignup batchID enabled =
     transaction (
       bnd pool_lock (\<lambda>_.
       bnd (first (find_batch batchID)) (\<lambda>batch.
       if pb_Purpose batch \<noteq> PoolPurposePublicSignup \<or> pb_CleanupRequestedAt batch \<noteq> None
       then throw PoolErrConflict
       else if enabled then
         (if pb_PublicSignupEnabledAt batch \<noteq> None then ret batch
          else bnd Now (\<lambda>now.
               bnd (exec (update_batches (\<lambda>b. pb_ID b = pb_ID batch) (\<lambda>b. b\<lparr>pb_PublicSignupEnabledAt := Some now\<rparr>)))
                 (\<lambda>_. ret (batch\<lparr>pb_PublicSignupEnabledAt := Some now\<rparr>))))
       else
         bnd (exec (update_batches (\<lambda>b. pb_ID b = pb_ID batch) (\<lambda>b. b\<lparr>pb_PublicSignupEnabledAt := None\<rparr>)))
           (\<lambda>_. ret (batch\<lparr>pb_PublicSignupEnabledAt := None\<rparr>)))))"

section \<open>Confirming and rejecting a claim\<close>

definition PoolConfirm :: "string \<Rightarrow> mobile_connection dbtx" where
  "PoolConfirm requestID =
     transaction (
       bnd pool_lock (\<lambda>_.
       bnd (first (find_conn requestID)) (\<lambda>candidate.
       bnd (IsSession (mc_SessionID candidate)) (\<lambda>is.
       if \<not> is then throw PoolErrConflict
       else
         bnd (attempt (Confirm (mc_SessionID candidate) requestID)) (\<lambda>r.
         case r of
           Inl e \<Rightarrow>
             bnd (attempt (first (find_conn requestID))) (\<lambda>load.
             case load of
               Inr cur \<Rightarrow>
                 if mc_Status cur \<in> {''confirmed'', ''provisioning'', ''released''} then ret cur else throw e
             | Inl _ \<Rightarrow> throw e)
         | Inr confirmed \<Rightarrow> StartProvisioning (mc_ID confirmed))))))"

definition PoolReject :: "string \<Rightarrow> unit dbtx" where
  "PoolReject requestID =
     transaction (
       bnd pool_lock (\<lambda>_.
       bnd (first (find_conn requestID)) (\<lambda>candidate.
       bnd (IsSession (mc_SessionID candidate)) (\<lambda>is.
       if \<not> is then throw PoolErrConflict
       else if mc_Status candidate = ''open'' then
         bnd (Change (mc_SessionID candidate) ''cancel'' requestID) (\<lambda>_. ret ())
       else if mc_Status candidate = ''claimed'' then
         bnd (Reject (mc_SessionID candidate) requestID) (\<lambda>_. ret ())
       else throw PoolErrConflict))))"

section \<open>Retries\<close>

text \<open>\<open>ORDER BY created_at DESC\<close>, then the primary key, \<open>LIMIT 1\<close>\<close>

fun latest :: "mobile_connection list \<Rightarrow> mobile_connection option" where
  "latest [] = None"
| "latest (r # rs) =
     (case latest rs of
        None \<Rightarrow> Some r
      | Some q \<Rightarrow> if mc_CreatedAt r < mc_CreatedAt q \<or> mc_CreatedAt r = mc_CreatedAt q \<and> mc_ID q < mc_ID r
                  then Some q else Some r)"

definition RetryActivation :: "nat \<Rightarrow> unit dbtx" where
  "RetryActivation sessionID =
     transaction (
       bnd pool_lock (\<lambda>_.
       bnd pool_lock (\<lambda>_.
       bnd (IsSession sessionID) (\<lambda>is.
       if \<not> is then throw PoolErrConflict
       else
         bnd (first (find_session sessionID)) (\<lambda>session.
         if ss_Status session \<noteq> ''failed'' \<or> ss_AdminDid session = [] then throw PoolErrConflict
         else
           bnd (attempt (first (\<lambda>d. latest (filter (\<lambda>r. mc_SessionID r = sessionID \<and>
                  mc_Operation r = OperationProvisionVTA \<and> mc_AdminDid r = ss_AdminDid session \<and>
                  mc_ConfirmedAt r \<noteq> None \<and> mc_Status r \<in> {''confirmed'', ''provisioning''}) (t_conns d))))) (\<lambda>q.
           case q of
             Inl e \<Rightarrow> if e = RecordNotFound then throw PoolErrConflict else throw e
           | Inr member_claim \<Rightarrow>
               bnd (exec (update_sessions (\<lambda>s. ss_ID s = ss_ID session)
                      (\<lambda>s. s\<lparr>ss_Status := ''provisioning'', ss_ErrorMsg := [], ss_FailedStage := []\<rparr>))) (\<lambda>_.
               exec (update_conns (has_id (mc_ID member_claim)) (\<lambda>r. r\<lparr>mc_ProvisionError := []\<rparr>)))))))))"

definition RetryBuild :: "nat \<Rightarrow> unit dbtx" where
  "RetryBuild sessionID =
     transaction (
       bnd pool_lock (\<lambda>_.
       bnd pool_lock (\<lambda>_.
       bnd (IsSession sessionID) (\<lambda>is.
       if \<not> is then throw PoolErrConflict
       else
         bnd (first (find_session sessionID)) (\<lambda>session.
         if ss_Status session \<noteq> ''failed'' \<or> ss_AdminDid session \<noteq> [] then throw PoolErrConflict
         else
           bnd (select (\<lambda>d. count_where (\<lambda>r. mc_SessionID r = sessionID \<and> mc_ConfirmedAt r \<noteq> None) (t_conns d)))
             (\<lambda>protected.
           if protected \<noteq> 0 then throw PoolErrConflict
           else exec (update_sessions (\<lambda>s. ss_ID s = ss_ID session)
                  (\<lambda>s. s\<lparr>ss_Status := StatusPoolCreating, ss_ErrorMsg := [], ss_FailedStage := []\<rparr>))))))))"

section \<open>Cleanup\<close>

definition in_ids :: "nat list \<Rightarrow> setup_session \<Rightarrow> bool" where
  "in_ids ids s \<longleftrightarrow> ss_ID s \<in> set ids"

text \<open>A claim that protects its session from cleanup.\<close>

definition protects :: "nat list \<Rightarrow> mobile_connection \<Rightarrow> bool" where
  "protects ids r \<longleftrightarrow> mc_SessionID r \<in> set ids \<and>
     (mc_ConfirmedAt r \<noteq> None \<or>
      mc_Status r \<in> {''open'', ''claimed'', ''confirmed'', ''provisioning'', ''released''})"

definition queueCleanupBulk :: "nat list \<Rightarrow> unit dbtx" where
  "queueCleanupBulk ids =
     bnd (select (\<lambda>d. count_where (\<lambda>m. ps_SessionID m \<in> set ids) (t_members d))) (\<lambda>memberships.
     if memberships \<noteq> length ids then throw PoolErrConflict
     else
       bnd (select (\<lambda>d. sort_key ss_ID (filter (in_ids ids) (t_sessions d)))) (\<lambda>sessions.
       if length sessions \<noteq> length ids then throw PoolErrConflict
       else if \<exists>s \<in> set sessions. ss_AdminDid s \<noteq> [] \<or>
                 (ss_Status s \<noteq> StatusPoolWaiting \<and> ss_Status s \<noteq> ''failed'')
       then throw PoolErrConflict
       else
         let userIDs = map ss_UserID sessions in
         bnd (select (\<lambda>d. sort_key u_ID (filter (\<lambda>u. u_ID u \<in> set userIDs) (t_users d)))) (\<lambda>users.
         if length users \<noteq> length userIDs then throw PoolErrConflict
         else if \<exists>u \<in> set users. u_Email u \<noteq> None \<or> u_FullstackAccess u then throw PoolErrConflict
         else
           bnd (select (\<lambda>d. count_where (\<lambda>p. pk_UserID p \<in> set userIDs) (t_passkeys d))) (\<lambda>passkeys.
           if passkeys \<noteq> 0 then throw PoolErrConflict
           else
             bnd Now (\<lambda>now.
             bnd (exec (update_conns (\<lambda>r. mc_SessionID r \<in> set ids \<and> mc_Status r = ''open'' \<and> mc_ExpiresAt r \<le> now)
                    (set_status ''lapsed''))) (\<lambda>_.
             bnd (exec (update_conns (\<lambda>r. mc_SessionID r \<in> set ids \<and> mc_Status r = ''claimed'' \<and>
                      (case mc_ConfirmBy r of None \<Rightarrow> False | Some t \<Rightarrow> t \<le> now))
                    (clear_status ''lapsed''))) (\<lambda>_.
             bnd (select (\<lambda>d. count_where (protects ids) (t_conns d))) (\<lambda>claims.
             if claims \<noteq> 0 then throw PoolErrConflict
             else
               bnd (exec_count (\<lambda>d. count_where (in_ids ids) (t_sessions d))
                      (update_sessions (in_ids ids) (\<lambda>s. s\<lparr>ss_Status := ''deleting''\<rparr>))) (\<lambda>updated.
               if updated \<noteq> length ids then throw PoolErrConflict else ret ())))))))))"

fun adjacent_equal :: "nat list \<Rightarrow> bool" where
  "adjacent_equal (a # b # xs) \<longleftrightarrow> b = a \<or> adjacent_equal (b # xs)"
| "adjacent_equal _ \<longleftrightarrow> False"

definition QueueCleanup :: "nat list \<Rightarrow> unit dbtx" where
  "QueueCleanup sessionIDs =
     (if length sessionIDs < 1 then throw PoolErrConflict
      else let ids = sort sessionIDs in
        if adjacent_equal ids then throw PoolErrConflict
        else transaction (bnd pool_lock (\<lambda>_. queueCleanupBulk ids)))"

definition delete_batches :: "(db \<Rightarrow> pool_batch \<Rightarrow> bool) \<Rightarrow> db \<Rightarrow> db" where
  "delete_batches P d =
     d\<lparr>t_batches := filter (\<lambda>b. \<not> P d b) (t_batches d),
       t_additions := filter (\<lambda>a. \<not> (\<exists>b \<in> set (t_batches d). P d b \<and> pb_ID b = pa_BatchID a)) (t_additions d)\<rparr>"

definition QueueBatchCleanup :: "nat \<Rightarrow> nat list dbtx" where
  "QueueBatchCleanup batchID =
     transaction (
       bnd pool_lock (\<lambda>_.
       bnd (first (find_batch batchID)) (\<lambda>batch.
       bnd (select (\<lambda>d. sort (map ps_SessionID (filter (\<lambda>m. ps_BatchID m = batchID) (t_members d))))) (\<lambda>sessionIDs.
       if pb_CleanupRequestedAt batch \<noteq> None then ret sessionIDs
       else if sessionIDs = [] then
         bnd (exec (delete_batches (\<lambda>_ b. pb_ID b = pb_ID batch))) (\<lambda>_. ret sessionIDs)
       else
         bnd (queueCleanupBulk sessionIDs) (\<lambda>_.
         bnd (returning (\<lambda>now d. ((), update_batches (\<lambda>b. pb_ID b = pb_ID batch)
                (\<lambda>b. b\<lparr>pb_CleanupRequestedAt := Some now\<rparr>) d))) (\<lambda>_.
         ret sessionIDs))))))"

text \<open>A batch whose cleanup was requested and whose last member is gone.\<close>

definition finished :: "db \<Rightarrow> pool_batch \<Rightarrow> bool" where
  "finished d b \<longleftrightarrow> pb_CleanupRequestedAt b \<noteq> None \<and> \<not> (\<exists>m \<in> set (t_members d). ps_BatchID m = pb_ID b)"

definition FinalizeBatchCleanup :: "nat \<Rightarrow> unit dbtx" where
  "FinalizeBatchCleanup batchID = exec (delete_batches (\<lambda>d b. pb_ID b = batchID \<and> finished d b))"

definition FinalizeEmptyBatchCleanups :: "unit dbtx" where
  "FinalizeEmptyBatchCleanups = exec (delete_batches finished)"

end
