(* ===== verification/PoolSteps.thy ===== *)
theory PoolSteps
  imports PoolClaims ConnectionProps
begin

text \<open>
  Every operation of the pool changes the requests by the abstract steps of \<open>ConnectionSteps\<close>
  only, so the reservation table stays well formed under any interleaving of the store, the
  pool and the workers.
\<close>

lemma evolves_pool_tables [simp]:
  "evolves d (d'\<lparr>t_users := a\<rparr>) = evolves d d'" "evolves d (d'\<lparr>t_batches := b\<rparr>) = evolves d d'"
  "evolves d (d'\<lparr>t_members := c\<rparr>) = evolves d d'" "evolves d (d'\<lparr>t_additions := e\<rparr>) = evolves d d'"
  "evolves d (d'\<lparr>t_resources := r\<rparr>) = evolves d d'" "evolves d (d'\<lparr>seq_users := n\<rparr>) = evolves d d'"
  "evolves d (d'\<lparr>seq_sessions := n\<rparr>) = evolves d d'" "evolves d (d'\<lparr>seq_batches := n\<rparr>) = evolves d d'"
  "evolves d (d'\<lparr>seq_additions := n\<rparr>) = evolves d d'"
  "evolves d (update_batches P f d') = evolves d d'" "evolves d (delete_batches Q d') = evolves d d'"
  "evolves d (add_memberships i ss m l d') = evolves d d'"
  by (simp_all add: evolves_def update_batches_def delete_batches_def add_memberships_def)

lemma evolves_insert_users [simp]: "evolves d (snd (insert_users now ns d')) = evolves d d'"
  by (induction now ns d' rule: insert_users.induct) (simp_all add: Let_def)

lemma evolves_insert_sessions [simp]: "evolves d (snd (insert_sessions now rs d')) = evolves d d'"
  by (induction now rs d' rule: insert_sessions.induct) (simp_all add: Let_def)

lemma evolves_insert_batch [simp]: "evolves d (snd (insert_batch input now d')) = evolves d d'"
  by (simp add: insert_batch_def Let_def)

lemma stepping_case_prod:
  "(\<And>a b. stepping le (f a b)) \<Longrightarrow> stepping le (case x of (a, b) \<Rightarrow> f a b)"
  by (cases x) simp

lemma stepping_pool_lock [simp, intro]: "stepping evolves pool_lock"
  by (simp add: pool_lock_def conns.stepping_exec)

lemma stepping_IsSession [simp, intro]: "stepping evolves (IsSession i)"
  unfolding IsSession_def by (intro conns.stepping_rules)

lemma stepping_NewAccount: "stepping evolves NewAccount"
  and stepping_randomName: "stepping evolves randomName"
  unfolding NewAccount_def randomName_def by (intro conns.stepping_rules)+

lemma stepping_draw_ids:
  "stepping evolves new \<Longrightarrow> stepping evolves (draw_ids k n new vals generated)"
  by (induction k n new vals generated rule: draw_ids.induct)
     (auto intro!: conns.stepping_rules)

lemma stepping_generate: "stepping evolves new \<Longrightarrow> stepping evolves (generateUniqueIDs n g new)"
  by (simp add: generateUniqueIDs_def stepping_draw_ids)

lemma stepping_user_attempts: "stepping evolves (user_attempts k n users g)"
  by (induction k arbitrary: users g)
     (auto intro!: conns.stepping_rules stepping_case_prod stepping_generate stepping_NewAccount)

lemma stepping_session_attempts: "stepping evolves (session_attempts k tmpl pending sessions g)"
  by (induction k arbitrary: pending sessions g)
     (auto intro!: conns.stepping_rules stepping_case_prod stepping_generate stepping_randomName simp: Let_def)

lemma stepping_Admit: "stepping evolves (Admit input)"
  unfolding Admit_def admitBatchRow_def LookupBatch_def nonRunningSessionCount_def createUsers_def
    createSetupSessions_def createPoolMembershipsAndResources_def Let_def
  by (intro conns.stepping_rules stepping_case_prod stepping_user_attempts stepping_session_attempts
      stepping_pool_lock)
     (auto split: list.splits intro!: conns.stepping_rules)

lemma stepping_AddInventory: "stepping evolves (AddInventory input)"
  unfolding AddInventory_def lookupAddition_def nonRunningSessionCount_def createUsers_def create_addition_def
    createSetupSessions_def createPoolMembershipsAndResources_def
  by (intro conns.stepping_rules stepping_case_prod stepping_user_attempts stepping_session_attempts
      stepping_pool_lock) auto

lemma stepping_ChangePool: "stepping evolves (ChangePool i)"
  unfolding ChangePool_def by (rule stepping_change)

lemma stepping_reserve_loop:
  "(\<And>c. stepping evolves (take_it c)) \<Longrightarrow> stepping evolves (reserve_loop take_it cs)"
  by (induction cs) (auto simp: lock_skipping_def intro!: conns.stepping_rules stepping_ChangePool)

lemma stepping_set_digest: "stepping evolves (set_digest a c)"
  unfolding set_digest_def
  by (intro conns.stepping_rules) (auto intro!: evolves_rows row_step.Digest)

lemma stepping_Reserve: "stepping evolves (Reserve i)"
  unfolding Reserve_def
  by (intro conns.stepping_rules stepping_reserve_loop stepping_pool_lock)

lemma stepping_ReservePublic: "stepping evolves (ReservePublic a)"
  unfolding ReservePublic_def
  by (intro conns.stepping_rules stepping_reserve_loop stepping_pool_lock stepping_set_digest)

lemma stepping_SetPublicSignup: "stepping evolves (SetPublicSignup i b)"
  unfolding SetPublicSignup_def by (intro conns.stepping_rules stepping_pool_lock) auto

lemma stepping_PoolConfirm: "stepping evolves (PoolConfirm r)"
  unfolding PoolConfirm_def
  by (intro conns.stepping_rules stepping_pool_lock stepping_IsSession stepping_Confirm stepping_StartProvisioning)

lemma stepping_PoolReject: "stepping evolves (PoolReject r)"
  unfolding PoolReject_def Change_def
  by (intro conns.stepping_rules stepping_pool_lock stepping_IsSession stepping_change stepping_Reject)

lemma stepping_RetryActivation: "stepping evolves (RetryActivation i)"
  unfolding RetryActivation_def
  by (intro conns.stepping_rules stepping_pool_lock stepping_IsSession)
     (auto intro!: evolves_rows row_step.Retried)

lemma stepping_RetryBuild: "stepping evolves (RetryBuild i)"
  unfolding RetryBuild_def by (intro conns.stepping_rules stepping_pool_lock stepping_IsSession) auto

lemma stepping_queueCleanupBulk: "stepping evolves (queueCleanupBulk ids)"
  unfolding queueCleanupBulk_def Let_def
  by (intro conns.stepping_rules) (auto intro!: evolves_rows row_step.Lapse row_step.Lapse_clear)

lemma stepping_QueueCleanup: "stepping evolves (QueueCleanup ids)"
  unfolding QueueCleanup_def Let_def
  by (intro conns.stepping_rules stepping_pool_lock stepping_queueCleanupBulk)

lemma stepping_QueueBatchCleanup: "stepping evolves (QueueBatchCleanup i)"
  unfolding QueueBatchCleanup_def
  by (intro conns.stepping_rules stepping_pool_lock stepping_queueCleanupBulk) auto

lemma stepping_Finalize: "stepping evolves (FinalizeBatchCleanup i)" "stepping evolves FinalizeEmptyBatchCleanups"
  unfolding FinalizeBatchCleanup_def FinalizeEmptyBatchCleanups_def by (intro conns.stepping_rules, simp)+

section \<open>The calls of the pool\<close>

datatype pool_call =
    CallAdmit admission
  | CallAddInventory addition
  | CallReserve nat
  | CallReservePublic string
  | CallSetPublicSignup nat bool
  | CallPoolConfirm string
  | CallPoolReject string
  | CallRetryActivation nat
  | CallRetryBuild nat
  | CallQueueCleanup "nat list"
  | CallQueueBatchCleanup nat
  | CallFinalize nat
  | CallFinalizeEmpty

fun run_pool :: "pool_call \<Rightarrow> unit dbtx" where
  "run_pool (CallAdmit a) = discard (Admit a)"
| "run_pool (CallAddInventory a) = discard (AddInventory a)"
| "run_pool (CallReserve i) = discard (Reserve i)"
| "run_pool (CallReservePublic a) = discard (ReservePublic a)"
| "run_pool (CallSetPublicSignup i b) = discard (SetPublicSignup i b)"
| "run_pool (CallPoolConfirm r) = discard (PoolConfirm r)"
| "run_pool (CallPoolReject r) = PoolReject r"
| "run_pool (CallRetryActivation i) = RetryActivation i"
| "run_pool (CallRetryBuild i) = RetryBuild i"
| "run_pool (CallQueueCleanup is) = QueueCleanup is"
| "run_pool (CallQueueBatchCleanup i) = discard (QueueBatchCleanup i)"
| "run_pool (CallFinalize i) = FinalizeBatchCleanup i"
| "run_pool CallFinalizeEmpty = FinalizeEmptyBatchCleanups"

lemma stepping_run_pool: "stepping evolves (run_pool c)"
  by (cases c) (auto intro!: stepping_discard stepping_Admit stepping_AddInventory stepping_Reserve
      stepping_ReservePublic stepping_SetPublicSignup stepping_PoolConfirm stepping_PoolReject
      stepping_RetryActivation stepping_RetryBuild stepping_QueueCleanup stepping_QueueBatchCleanup
      stepping_Finalize)

end
