(* ===== verification/PoolAdmission.thy ===== *)
theory PoolAdmission
  imports PoolSteps "HOL-Library.Multiset"
begin

text \<open>
  What an admission creates: exactly the requested number of users, sessions and memberships,
  whatever identifiers collide and however often the insert loops retry.
\<close>

section \<open>Identifiers drawn\<close>

lemma draw_ids_yields:
  assumes "\<And>d. yields d new (\<lambda>_ d'. d' = d)"
  shows "yields d (draw_ids k n new vals generated) (\<lambda>r d'. d' = d \<and> length (fst r) = n)"
  using assms
proof (induction k n new vals generated rule: draw_ids.induct)
  case (1 n new vals generated)
  show ?case by (auto intro!: y_rules)
next
  case (2 k n new vals generated)
  show ?case
  proof (cases "length vals < n")
    case True
    have "yields d (bnd new (\<lambda>v. if v \<in> set generated then draw_ids k n new vals generated
        else draw_ids k n new (vals @ [v]) (v # generated))) (\<lambda>r d'. d' = d \<and> length (fst r) = n)"
      by (rule y_bnd [OF 2(4)]) (use 2(1,2) [OF True _ 2(4)] in auto)
    with True show ?thesis by simp
  next
    case False
    with 2(3) [OF False 2(4)] show ?thesis by simp
  qed
qed

lemma new_account_yields: "yields d NewAccount (\<lambda>_ d'. d' = d)"
  and random_name_yields: "yields d randomName (\<lambda>_ d'. d' = d)"
  unfolding NewAccount_def randomName_def by (auto intro!: y_rules)

lemma generate_yields:
  assumes "\<And>d. yields d new (\<lambda>_ d'. d' = d)"
  shows "yields d (generateUniqueIDs n g new) (\<lambda>r d'. d' = d \<and> length (fst r) = n)"
  unfolding generateUniqueIDs_def by (rule draw_ids_yields [OF assms])

section \<open>Fresh identifiers\<close>

definition ids_ok :: "db \<Rightarrow> bool" where
  "ids_ok d \<longleftrightarrow>
     (\<forall>u \<in> set (t_users d). u_ID u \<le> seq_users d) \<and>
     (\<forall>s \<in> set (t_sessions d). ss_ID s \<le> seq_sessions d \<and> ss_UserID s \<le> seq_users d) \<and>
     (\<forall>m \<in> set (t_members d). ps_SessionID m \<le> seq_sessions d) \<and>
     distinct (map u_ID (t_users d)) \<and> distinct (map ss_ID (t_sessions d)) \<and>
     distinct (map ps_SessionID (t_members d))"

text \<open>\<open>added_users d us d'\<close>: \<open>d'\<close> is \<open>d\<close> with the fresh users \<open>us\<close> appended.\<close>

definition added_users :: "db \<Rightarrow> user list \<Rightarrow> db \<Rightarrow> bool" where
  "added_users d us d' \<longleftrightarrow>
     t_users d' = t_users d @ us \<and> distinct (map u_ID us) \<and> seq_users d \<le> seq_users d' \<and>
     (\<forall>u \<in> set us. seq_users d < u_ID u \<and> u_ID u \<le> seq_users d') \<and>
     t_sessions d' = t_sessions d \<and> t_members d' = t_members d \<and> t_batches d' = t_batches d \<and>
     seq_sessions d' = seq_sessions d"

lemma added_users_refl: "added_users d [] d"
  by (simp add: added_users_def)

lemma added_users_trans: "added_users d us d1 \<Longrightarrow> added_users d1 vs d2 \<Longrightarrow> added_users d (us @ vs) d2"
  unfolding added_users_def by (fastforce dest: in_set_takeD)

lemma insert_users_added: "added_users d (fst (insert_users now ns d)) (snd (insert_users now ns d))"
proof (induction now ns d rule: insert_users.induct)
  case (2 now n ns d)
  show ?case
  proof (cases "\<exists>u \<in> set (t_users d). u_UniqueId u = n")
    case True
    with 2 show ?thesis by simp
  next
    case False
    let ?u = "\<lparr>u_ID = Suc (seq_users d), u_UniqueId = n, u_Email = None, u_FullstackAccess = False,
                 u_CreatedAt = now, u_UpdatedAt = now\<rparr>"
    let ?d = "d\<lparr>t_users := t_users d @ [?u], seq_users := Suc (seq_users d)\<rparr>"
    have "added_users d [?u] ?d" by (simp add: added_users_def)
    moreover have "added_users ?d (fst (insert_users now ns ?d)) (snd (insert_users now ns ?d))"
      using 2(2) [OF False refl] by simp
    ultimately have "added_users d ([?u] @ fst (insert_users now ns ?d)) (snd (insert_users now ns ?d))"
      by (rule added_users_trans)
    with False show ?thesis by (simp add: Let_def)
  qed
qed (simp add: added_users_refl)

lemma user_attempts_yields:
  assumes "added_users d0 users d"
  shows "yields d (user_attempts k n users g)
           (\<lambda>us d'. length us = n \<and> (\<exists>vs. added_users d0 vs d' \<and> us = sort_key u_ID vs))"
  using assms
proof (induction k arbitrary: users g d)
  case 0
  then show ?case by (auto intro!: y_rules)
next
  case (Suc k)
  show ?case
  proof (cases "length users < n")
    case True
    have "yields d (generateUniqueIDs (n - length users) g NewAccount) (\<lambda>r d'. d' = d \<and> True)"
      by (rule yields_mono [OF generate_yields [OF new_account_yields]]) simp
    then show ?thesis
      unfolding user_attempts.simps if_P [OF True]
      by (rule y_bnd)
         (auto intro!: y_returning Suc.IH added_users_trans [OF Suc.prems insert_users_added])
  next
    case False
    with Suc.prems show ?thesis by (auto intro!: y_rules)
  qed
qed

section \<open>Sessions\<close>

definition added_sessions :: "db \<Rightarrow> setup_session list \<Rightarrow> db \<Rightarrow> bool" where
  "added_sessions d ss d' \<longleftrightarrow>
     t_sessions d' = t_sessions d @ ss \<and> distinct (map ss_ID ss) \<and> seq_sessions d \<le> seq_sessions d' \<and>
     (\<forall>s \<in> set ss. seq_sessions d < ss_ID s \<and> ss_ID s \<le> seq_sessions d' \<and> ss_Status s = StatusPoolCreating \<and>
        ss_AdminDid s = []) \<and>
     t_users d' = t_users d \<and> t_members d' = t_members d \<and> t_batches d' = t_batches d \<and>
     seq_users d' = seq_users d"

lemma added_sessions_refl: "added_sessions d [] d"
  by (simp add: added_sessions_def)

lemma added_sessions_trans:
  "added_sessions d ss d1 \<Longrightarrow> added_sessions d1 ts d2 \<Longrightarrow> added_sessions d (ss @ ts) d2"
  unfolding added_sessions_def by fastforce

lemma insert_sessions_added:
  assumes "\<And>r. r \<in> set rs \<Longrightarrow> ss_Status r = StatusPoolCreating \<and> ss_AdminDid r = []"
  shows "added_sessions d (fst (insert_sessions now rs d)) (snd (insert_sessions now rs d)) \<and>
         subseq (map ss_UserID (fst (insert_sessions now rs d))) (map ss_UserID rs)"
  using assms
proof (induction now rs d rule: insert_sessions.induct)
  case (2 now r rs d)
  show ?case
  proof (cases "\<exists>q \<in> set (t_sessions d). session_clash r q")
    case True
    with 2 show ?thesis by (auto intro: list_emb_Cons)
  next
    case False
    let ?r = "r\<lparr>ss_ID := Suc (seq_sessions d), ss_CreatedAt := now, ss_UpdatedAt := now\<rparr>"
    let ?d = "d\<lparr>t_sessions := t_sessions d @ [?r], seq_sessions := Suc (seq_sessions d)\<rparr>"
    have one: "added_sessions d [?r] ?d" using 2(3) by (simp add: added_sessions_def)
    have rest: "added_sessions ?d (fst (insert_sessions now rs ?d)) (snd (insert_sessions now rs ?d)) \<and>
        subseq (map ss_UserID (fst (insert_sessions now rs ?d))) (map ss_UserID rs)"
      using 2(2) [OF False refl] 2(3) by simp
    have "added_sessions d ([?r] @ fst (insert_sessions now rs ?d)) (snd (insert_sessions now rs ?d))"
      using one rest by (blast intro: added_sessions_trans)
    with False rest show ?thesis by (simp add: Let_def)
  qed
qed (simp add: added_sessions_refl)

lemma take_inserted_all:
  assumes "distinct (map ss_UserID rs)" "ss_UserID ` set rs \<subseteq> u_ID ` set pending"
  shows "take_inserted rs sessions pending =
           (sessions @ rs, filter (\<lambda>u. u_ID u \<notin> ss_UserID ` set rs) pending)"
  using assms
proof (induction rs arbitrary: sessions pending)
  case (Cons r rs)
  let ?p = "filter (\<lambda>u. u_ID u \<noteq> ss_UserID r) pending"
  have hit: "\<exists>u \<in> set pending. u_ID u = ss_UserID r" using Cons.prems by auto
  have "ss_UserID ` set rs \<subseteq> u_ID ` set ?p"
  proof
    fix i assume i: "i \<in> ss_UserID ` set rs"
    have "ss_UserID r \<notin> ss_UserID ` set rs" using Cons.prems(1) by simp
    with i have "i \<noteq> ss_UserID r" by blast
    moreover have "i \<in> u_ID ` set pending" using i Cons.prems(2) by auto
    ultimately have "i \<in> u_ID ` set pending" "i \<noteq> ss_UserID r" by blast+
    then show "i \<in> u_ID ` set ?p" by auto
  qed
  moreover have "distinct (map ss_UserID rs)" using Cons.prems(1) by simp
  ultimately have "take_inserted (r # rs) sessions pending =
      ((sessions @ [r]) @ rs, filter (\<lambda>u. u_ID u \<notin> ss_UserID ` set rs) ?p)"
    unfolding take_inserted.simps if_P [OF hit] by (intro Cons.IH)
  moreover have "filter (\<lambda>u. u_ID u \<notin> ss_UserID ` set rs) ?p =
      filter (\<lambda>u. u_ID u \<notin> ss_UserID ` set (r # rs)) pending"
    unfolding filter_filter by (rule filter_cong) auto
  ultimately show ?case by simp
qed simp

lemma candidate_users:
  "length names = length us \<Longrightarrow> map ss_UserID (map2 (session_candidate tmpl) us names) = map u_ID us"
  by (induction us names rule: list_induct2') (auto simp: session_candidate_def)

text \<open>
  The state of the insertion loop: the rows added so far and the users still pending are
  together one row or place per user.
\<close>

definition placed :: "db \<Rightarrow> nat multiset \<Rightarrow> setup_session list \<Rightarrow> user list \<Rightarrow> db \<Rightarrow> bool" where
  "placed d0 U sessions pending d \<longleftrightarrow>
     (\<exists>news. added_sessions d0 news d \<and> mset sessions = mset news \<and>
        mset (map ss_UserID news) + mset (map u_ID pending) = U)"

lemma mset_split_pending:
  assumes "distinct (map u_ID pending)" "distinct (map ss_UserID rs)"
    "ss_UserID ` set rs \<subseteq> u_ID ` set pending"
  shows "mset (map ss_UserID rs) + mset (map u_ID (filter (\<lambda>u. u_ID u \<notin> ss_UserID ` set rs) pending))
       = mset (map u_ID pending)"
proof -
  let ?q = "filter (\<lambda>u. u_ID u \<notin> ss_UserID ` set rs) pending"
  have "distinct (map u_ID ?q)" using assms(1) by (rule distinct_map_filter)
  moreover have "set (map ss_UserID rs) \<inter> set (map u_ID ?q) = {}" by auto (metis imageI)
  ultimately have d: "distinct (map ss_UserID rs @ map u_ID ?q)" using assms(2) by simp
  have "set (map u_ID ?q) = u_ID ` set pending - ss_UserID ` set rs"
    by auto
  then have "set (map ss_UserID rs @ map u_ID ?q) = set (map u_ID pending)"
    using assms(3) by auto
  then have "mset (map ss_UserID rs @ map u_ID ?q) = mset (map u_ID pending)"
    using assms(1) d set_eq_iff_mset_eq_distinct by blast
  then show ?thesis by simp
qed

lemma distinct_of_mset_sum:
  assumes "distinct us" "mset xs + mset ys = mset us"
  shows "distinct xs" "distinct ys" "set xs \<inter> set ys = {}" "set xs \<union> set ys = set us"
proof -
  have m: "mset (xs @ ys) = mset us" using assms(2) by simp
  then have "distinct (xs @ ys)" using assms(1) mset_eq_imp_distinct_iff by blast
  then show "distinct xs" "distinct ys" "set xs \<inter> set ys = {}" by auto
  show "set xs \<union> set ys = set us" using mset_eq_setD [OF m] by simp
qed

text \<open>One round of the loop, the rows inserted being read back when some were refused.\<close>

lemma session_round:
  assumes placed: "placed d0 (mset us) sessions pending d" and us: "distinct us"
    and none: "\<forall>s \<in> set (t_sessions d0). ss_UserID s \<notin> set us"
    and added: "added_sessions d created d1"
    and sub: "subseq (map ss_UserID created) (map u_ID (sort_key u_ID pending))"
  shows "let inserted = sort_key ss_ID
               (filter (\<lambda>s. ss_UserID s \<in> u_ID ` set (sort_key u_ID pending)) (t_sessions d1))
         in placed d0 (mset us) (fst (take_inserted inserted sessions pending))
              (snd (take_inserted inserted sessions pending)) d1"
    and "length created = length pending \<Longrightarrow> placed d0 (mset us) (sessions @ created) [] d1"
proof -
  from placed obtain news where news: "added_sessions d0 news d" "mset sessions = mset news"
    and split: "mset (map ss_UserID news) + mset (map u_ID pending) = mset us"
    by (auto simp: placed_def)
  note parts = distinct_of_mset_sum [OF us split]
  have all: "added_sessions d0 (news @ created) d1" using news(1) added by (rule added_sessions_trans)
  have dp: "distinct (map u_ID (sort_key u_ID pending))"
    using parts(2) by (metis distinct_map distinct_sort set_sort)
  have dc: "distinct (map ss_UserID created)" using sub dp by (auto simp: subseq_conv_nths distinct_nthsI)
  have cp: "ss_UserID ` set created \<subseteq> u_ID ` set pending"
    using sub by (force simp: subseq_conv_nths dest!: arg_cong [where f = set] in_set_nthsD)
  have "filter (\<lambda>s. ss_UserID s \<in> u_ID ` set pending) (t_sessions d1) = created"
  proof -
    have "t_sessions d1 = t_sessions d0 @ news @ created" using all by (simp add: added_sessions_def)
    moreover have "filter (\<lambda>s. ss_UserID s \<in> u_ID ` set pending) (t_sessions d0) = []"
      using none parts(4) by (auto simp: filter_empty_conv)
    moreover have "filter (\<lambda>s. ss_UserID s \<in> u_ID ` set pending) news = []"
      using parts(3) by (auto simp: filter_empty_conv)
    moreover have "filter (\<lambda>s. ss_UserID s \<in> u_ID ` set pending) created = created"
      using cp by (auto simp: filter_id_conv)
    ultimately show ?thesis by simp
  qed
  moreover have "distinct (map ss_UserID (sort_key ss_ID created))"
    using dc by (metis distinct_map distinct_sort set_sort)
  ultimately show "let inserted = sort_key ss_ID
               (filter (\<lambda>s. ss_UserID s \<in> u_ID ` set (sort_key u_ID pending)) (t_sessions d1))
         in placed d0 (mset us) (fst (take_inserted inserted sessions pending))
              (snd (take_inserted inserted sessions pending)) d1"
    using take_inserted_all [of "sort_key ss_ID created" pending sessions] cp all news(2) split
      mset_split_pending [OF parts(2) dc cp]
    by (auto simp: placed_def Let_def ac_simps intro!: exI [of _ "news @ created"])
  assume "length created = length pending"
  then have "map ss_UserID created = map u_ID (sort_key u_ID pending)"
    using sub by (intro subseq_same_length) simp_all
  then have "mset (map ss_UserID created) = mset (map u_ID pending)"
    by (metis mset_map mset_sort)
  with all news(2) split show "placed d0 (mset us) (sessions @ created) [] d1"
    by (auto simp: placed_def intro!: exI [of _ "news @ created"])
qed

lemma session_attempts_yields:
  assumes "placed d0 (mset us) sessions pending d" and us: "distinct us"
    and none: "\<forall>s \<in> set (t_sessions d0). ss_UserID s \<notin> set us"
  shows "yields d (session_attempts k tmpl pending sessions g)
           (\<lambda>ss d'. \<exists>news. added_sessions d0 news d' \<and> mset ss = mset news \<and> mset (map ss_UserID news) = mset us)"
  using assms(1)
proof (induction k arbitrary: sessions pending g d)
  case 0
  then show ?case by (auto intro!: y_rules simp: placed_def)
next
  case (Suc k)
  show ?case
  proof (cases "pending = []")
    case True
    with Suc.prems show ?thesis by (auto intro!: y_rules simp: placed_def)
  next
    case False
    let ?pu = "sort_key u_ID pending"
    have round: "yields d1 (if length created = length (map2 (session_candidate tmpl) ?pu names)
        then session_attempts k tmpl [] (sessions @ created) g'
        else bnd (select (\<lambda>d. sort_key ss_ID
                 (filter (\<lambda>s. ss_UserID s \<in> u_ID ` set ?pu) (t_sessions d)))) (\<lambda>inserted.
          case take_inserted inserted sessions pending of (sessions', pending') \<Rightarrow>
          session_attempts k tmpl pending' sessions' g'))
        (\<lambda>ss d'. \<exists>news. added_sessions d0 news d' \<and> mset ss = mset news \<and> mset (map ss_UserID news) = mset us)"
      if names: "length names = length ?pu"
        and created: "created = fst (insert_sessions now (map2 (session_candidate tmpl) ?pu names) d)"
        and d1: "d1 = snd (insert_sessions now (map2 (session_candidate tmpl) ?pu names) d)"
      for created d1 now names g'
    proof -
      have cand: "ss_Status r = StatusPoolCreating \<and> ss_AdminDid r = []"
        if "r \<in> set (map2 (session_candidate tmpl) ?pu names)" for r
        using that by (auto simp: session_candidate_def)
      have both: "added_sessions d created d1 \<and> subseq (map ss_UserID created) (map u_ID ?pu)"
        unfolding created d1 candidate_users [OF names, where tmpl = tmpl, symmetric]
        by (rule insert_sessions_added) (rule cand)
      note added = both [THEN conjunct1] and sub = both [THEN conjunct2]
      note next_round = session_round [OF Suc.prems us none added sub]
      show ?thesis
      proof (rule y_if)
        assume "length created = length (map2 (session_candidate tmpl) ?pu names)"
        with names next_round(2) show "yields d1 (session_attempts k tmpl [] (sessions @ created) g')
          (\<lambda>ss d'. \<exists>news. added_sessions d0 news d' \<and> mset ss = mset news \<and> mset (map ss_UserID news) = mset us)"
          by (intro Suc.IH) simp
      next
        show "yields d1 (bnd (select (\<lambda>d. sort_key ss_ID
                 (filter (\<lambda>s. ss_UserID s \<in> u_ID ` set ?pu) (t_sessions d)))) (\<lambda>inserted.
          case take_inserted inserted sessions pending of (sessions', pending') \<Rightarrow>
          session_attempts k tmpl pending' sessions' g'))
          (\<lambda>ss d'. \<exists>news. added_sessions d0 news d' \<and> mset ss = mset news \<and> mset (map ss_UserID news) = mset us)"
          unfolding case_prod_beta by (intro y_select Suc.IH next_round(1) [unfolded Let_def])
      qed
    qed
    show ?thesis
      unfolding session_attempts.simps if_not_P [OF False] Let_def
    proof (rule y_bnd [OF generate_yields [OF random_name_yields]])
      fix r :: "string list \<times> string list" and d'
      assume r: "d' = d \<and> length (fst r) = length ?pu"
      show "yields d' (case r of (names, g') \<Rightarrow>
          bnd (returning (\<lambda>now. insert_sessions now (map2 (session_candidate tmpl) ?pu names))) (\<lambda>created.
          if length created = length (map2 (session_candidate tmpl) ?pu names)
          then session_attempts k tmpl [] (sessions @ created) g'
          else bnd (select (\<lambda>d. sort_key ss_ID
                 (filter (\<lambda>s. ss_UserID s \<in> u_ID ` set ?pu) (t_sessions d)))) (\<lambda>inserted.
            case take_inserted inserted sessions pending of (sessions', pending') \<Rightarrow>
            session_attempts k tmpl pending' sessions' g')))
          (\<lambda>ss d'. \<exists>news. added_sessions d0 news d' \<and> mset ss = mset news \<and> mset (map ss_UserID news) = mset us)"
        using r by (cases r) (simp only: case_prod_conv fst_conv, intro y_returning round, simp_all only:)
    qed
  qed
qed

section \<open>Admission as a whole\<close>

text \<open>The non-running members counted membership by membership.\<close>

definition idle_of :: "db \<Rightarrow> pool_session \<Rightarrow> nat" where
  "idle_of d m = length (filter (\<lambda>s. ss_ID s = ps_SessionID m \<and> ss_Status s \<noteq> ''running'') (t_sessions d))"

lemma non_running_sum: "non_running d = sum_list (map (idle_of d) (t_members d))"
proof -
  have "length (filter (\<lambda>(m, s). ss_Status s \<noteq> ''running'') [(m, s). m \<leftarrow> ms, s \<leftarrow> t_sessions d, ss_ID s = ps_SessionID m])
      = sum_list (map (idle_of d) ms)" for ms
  proof (induction ms)
    case (Cons m ms)
    have "length (filter (\<lambda>(m, s). ss_Status s \<noteq> ''running'') (concat (map (\<lambda>s. if ss_ID s = ps_SessionID m then [(m, s)] else []) ss)))
        = length (filter (\<lambda>s. ss_ID s = ps_SessionID m \<and> ss_Status s \<noteq> ''running'') ss)" for ss
      by (induction ss) auto
    with Cons show ?case by (simp add: idle_of_def)
  qed simp
  then show ?thesis by (simp add: non_running_def members_def)
qed

lemma idle_of_new:
  assumes "distinct (map ss_ID ss)" "s \<in> set ss" "ss_Status s \<noteq> ''running''"
    "\<forall>t \<in> set old. ss_ID t \<noteq> ss_ID s" "t_sessions d = old @ ss"
  shows "idle_of d \<lparr>ps_SessionID = ss_ID s, ps_BatchID = b\<rparr> = 1"
proof -
  have "filter (\<lambda>t. ss_ID t = ss_ID s \<and> ss_Status t \<noteq> ''running'') old = []"
    using assms(4) by (auto simp: filter_empty_conv)
  moreover have "filter (\<lambda>t. ss_ID t = ss_ID s \<and> ss_Status t \<noteq> ''running'') ss = [s]"
    using assms(1,2,3)
  proof (induction ss)
    case (Cons a ss)
    show ?case
    proof (cases "a = s")
      case True
      then have "ss_ID s \<notin> ss_ID ` set ss" using Cons.prems(1) by simp
      then have "\<forall>t \<in> set ss. ss_ID t \<noteq> ss_ID s" by (metis imageI)
      with True Cons.prems(3) show ?thesis by (auto simp: filter_empty_conv)
    next
      case False
      with Cons.prems have "ss_ID a \<noteq> ss_ID s" by force
      with False Cons show ?thesis by auto
    qed
  qed simp
  ultimately show ?thesis using assms(5) by (simp add: idle_of_def)
qed

text \<open>Adding the memberships of freshly added sessions raises the count by their number.\<close>

lemma non_running_added:
  assumes ok: "ids_ok d0" and added: "added_sessions d0 news d1" and ss: "mset ss = mset news"
  shows "non_running (add_memberships b ss mr ml d1) = non_running d0 + length ss"
proof -
  let ?d = "add_memberships b ss mr ml d1"
  have s: "t_sessions ?d = t_sessions d0 @ news" and m: "t_members ?d = t_members d0 @
      map (\<lambda>s. \<lparr>ps_SessionID = ss_ID s, ps_BatchID = b\<rparr>) ss"
    using added by (simp_all add: added_sessions_def add_memberships_def)
  have old: "idle_of ?d m = idle_of d0 m" if "m \<in> set (t_members d0)" for m
  proof -
    have "\<forall>s \<in> set news. ss_ID s \<noteq> ps_SessionID m"
      using that ok added by (force simp: ids_ok_def added_sessions_def)
    then have "filter (\<lambda>s. ss_ID s = ps_SessionID m \<and> ss_Status s \<noteq> ''running'') news = []"
      by (auto simp: filter_empty_conv)
    then show ?thesis by (simp add: idle_of_def s)
  qed
  have new: "idle_of ?d \<lparr>ps_SessionID = ss_ID t, ps_BatchID = b\<rparr> = 1" if "t \<in> set ss" for t
  proof (rule idle_of_new [OF _ _ _ _ s])
    show "distinct (map ss_ID news)" using added by (simp add: added_sessions_def)
    show "t \<in> set news" using that ss by (metis mset_eq_setD)
    then show "ss_Status t \<noteq> ''running''" using added by (auto simp: added_sessions_def)
    show "\<forall>u \<in> set (t_sessions d0). ss_ID u \<noteq> ss_ID t"
      using \<open>t \<in> set news\<close> ok added by (force simp: ids_ok_def added_sessions_def)
  qed
  have "sum_list (map (idle_of ?d) (t_members d0)) = sum_list (map (idle_of d0) (t_members d0))"
    using old by (intro arg_cong [where f = sum_list] map_cong) auto
  moreover have "map (idle_of ?d) (map (\<lambda>s. \<lparr>ps_SessionID = ss_ID s, ps_BatchID = b\<rparr>) ss) = replicate (length ss) 1"
    using new by (intro replicate_eqI) auto
  ultimately show ?thesis
    by (simp add: non_running_sum m sum_list_replicate del: map_map)
qed

definition same_people :: "db \<Rightarrow> db \<Rightarrow> bool" where
  "same_people d d' \<longleftrightarrow> t_users d' = t_users d \<and> t_sessions d' = t_sessions d \<and> t_members d' = t_members d \<and>
     seq_users d' = seq_users d \<and> seq_sessions d' = seq_sessions d"

lemma same_people_facts:
  assumes "same_people d d'"
  shows "non_running d' = non_running d" "ids_ok d' = ids_ok d"
  using assms by (auto simp: same_people_def non_running_def members_def ids_ok_def)


text \<open>The chain both admissions share: users, their sessions, and the memberships.\<close>

definition filled :: "db \<Rightarrow> nat \<Rightarrow> nat \<Rightarrow> setup_session list \<Rightarrow> db \<Rightarrow> bool" where
  "filled d n batchID ss d' \<longleftrightarrow>
     length ss = n \<and> distinct (map ss_UserID ss) \<and> non_running d' = non_running d + n \<and> ids_ok d' \<and>
     t_batches d' = t_batches d \<and>
     (\<forall>s \<in> set ss. s \<in> set (t_sessions d') \<and> ss_Status s = StatusPoolCreating \<and>
        (\<exists>m \<in> set (t_members d'). ps_SessionID m = ss_ID s \<and> ps_BatchID m = batchID))"

lemma fill_yields:
  assumes ok: "ids_ok d" and that: "\<And>ss d'. filled d n b ss d' \<Longrightarrow> yields d' (k ss) Q"
  shows "yields d (bnd (createUsers n) (\<lambda>users. bnd (createSetupSessions users tmpl) (\<lambda>sessions.
           bnd (createPoolMembershipsAndResources b sessions mr ml) (\<lambda>_. k sessions)))) Q"
  unfolding createUsers_def createSetupSessions_def createPoolMembershipsAndResources_def
proof (rule y_bnd [OF user_attempts_yields [OF added_users_refl]])
  fix users d1
  assume "length users = n \<and> (\<exists>vs. added_users d vs d1 \<and> users = sort_key u_ID vs)"
  then obtain vs where n: "length users = n" and vs: "added_users d vs d1" "users = sort_key u_ID vs" by blast
  have dist: "distinct (map u_ID users)"
    using vs by (metis added_users_def distinct_map distinct_sort set_sort)
  have none: "\<forall>s \<in> set (t_sessions d1). ss_UserID s \<notin> set (map u_ID users)"
    using vs ok by (force simp: added_users_def ids_ok_def)
  have ok1: "ids_ok d1"
    using ok vs(1) by (fastforce simp: ids_ok_def added_users_def)
  have nr: "non_running d1 = non_running d"
    using vs(1) by (simp add: added_users_def non_running_def members_def)
  show "yields d1 (bnd (session_attempts 5 tmpl users [] []) (\<lambda>sessions.
      bnd (exec_checked (membership_allowed sessions) (add_memberships b sessions mr ml)) (\<lambda>_. k sessions))) Q"
  proof (rule y_bnd [OF session_attempts_yields [where us = "map u_ID users", OF _ dist none]])
    show "placed d1 (mset (map u_ID users)) [] users d1"
      by (auto simp: placed_def intro!: exI [of _ "[]"] added_sessions_refl)
    fix ss d2
    assume "\<exists>news. added_sessions d1 news d2 \<and> mset ss = mset news \<and>
        mset (map ss_UserID news) = mset (map u_ID users)"
    then obtain news where news: "added_sessions d1 news d2" "mset ss = mset news"
      and us: "mset (map ss_UserID news) = mset (map u_ID users)" by blast
    show "yields d2 (bnd (exec_checked (membership_allowed ss) (add_memberships b ss mr ml)) (\<lambda>_. k ss)) Q"
    proof (intro y_exec_checked that)
      assume allowed: "membership_allowed ss d2"
      have set: "set ss = set news" using news(2) by (rule mset_eq_setD)
      have "length ss = n"
        using news(2) us n by (metis length_map size_mset)
      moreover have "distinct (map ss_UserID ss)"
        using us dist news(2) by (metis mset_eq_imp_distinct_iff mset_map)
      moreover have "non_running (add_memberships b ss mr ml d2) = non_running d + length ss"
        using non_running_added [OF ok1 news] nr by simp
      moreover have "ids_ok (add_memberships b ss mr ml d2)"
      proof -
        have a: "t_sessions d2 = t_sessions d1 @ news" "distinct (map ss_ID news)" "seq_sessions d1 \<le> seq_sessions d2"
          "\<forall>s \<in> set news. seq_sessions d1 < ss_ID s \<and> ss_ID s \<le> seq_sessions d2"
          "t_users d2 = t_users d1" "t_members d2 = t_members d1" "seq_users d2 = seq_users d1"
          using news(1) by (simp_all add: added_sessions_def)
        have "\<forall>s \<in> set news. ss_UserID s \<le> seq_users d1"
        proof
          fix s assume "s \<in> set news"
          then have "ss_UserID s \<in> set (map u_ID users)" using mset_eq_setD [OF us] by auto
          then show "ss_UserID s \<le> seq_users d1" using vs by (auto simp: added_users_def)
        qed
        moreover have "distinct (map ss_ID ss)"
          using allowed by (simp add: membership_allowed_def)
        moreover have "ss_ID ` set (t_sessions d1) \<inter> ss_ID ` set news = {}"
          "ps_SessionID ` set (t_members d1) \<inter> ss_ID ` set ss = {}"
          using a(4) ok1 set by (fastforce simp: ids_ok_def)+
        ultimately show ?thesis
          using ok1 a set by (auto simp: ids_ok_def add_memberships_def comp_def image_image)
      qed
      moreover have "t_batches (add_memberships b ss mr ml d2) = t_batches d"
        using news(1) vs(1) by (simp add: added_sessions_def added_users_def add_memberships_def)
      ultimately show "filled d n b ss (add_memberships b ss mr ml d2)"
        using news(1) set unfolding filled_def
        by (auto simp: added_sessions_def add_memberships_def intro!: bexI [of _ "\<lparr>ps_SessionID = _, ps_BatchID = b\<rparr>"])
    qed
  qed
qed





lemma AddInventory_yields:
  assumes ok: "ids_ok d"
  shows "yields d (AddInventory input) (\<lambda>(b, ss, created) d'. created \<longrightarrow>
           int (length ss) = dd_Count input \<and> int (non_running d') = int (non_running d) + dd_Count input \<and>
           int (non_running d') \<le> dd_Capacity input \<and> ids_ok d')"
    (is "yields d _ ?Q")
proof -
  have read: "stepping (\<lambda>a b. b = a) (lookupAddition a k g i)" for a k g i
    unfolding lookupAddition_def by (intro unchanged.stepping_rules)
  have fill: "yields d1 (bnd (createUsers (nat (dd_Count input))) (\<lambda>users.
      bnd (createSetupSessions users (dd_Session input)) (\<lambda>sessions.
      bnd (createPoolMembershipsAndResources (pb_ID batch) sessions (dd_MemoryRequest input) (dd_MemoryLimit input)) (\<lambda>_.
      bnd (exec (update_batches (\<lambda>b. pb_ID b = pb_ID batch)
             (\<lambda>b. b\<lparr>pb_RequestedCount := pb_RequestedCount b + dd_Count input\<rparr>))) (\<lambda>_.
      ret (batch\<lparr>pb_RequestedCount := pb_RequestedCount batch + dd_Count input\<rparr>, sessions, True)))))) ?Q"
    if people: "same_people d d1" and cap: "\<not> max (dd_Capacity input - int (non_running d)) 0 < dd_Count input"
      and pos: "\<not> dd_Count input < 1" for d1 batch
  proof (rule fill_yields, use people ok same_people_facts in blast, rule y_exec, rule y_ret, clarify)
    fix ss d'
    assume f: "filled d1 (nat (dd_Count input)) (pb_ID batch) ss d'"
    let ?d = "update_batches (\<lambda>b. pb_ID b = pb_ID batch)
        (\<lambda>b. b\<lparr>pb_RequestedCount := pb_RequestedCount b + dd_Count input\<rparr>) d'"
    have "non_running ?d = non_running d'" "ids_ok ?d = ids_ok d'"
      by (auto simp: non_running_def members_def ids_ok_def update_batches_def)
    with f same_people_facts [OF people] cap pos
    show "int (length ss) = dd_Count input \<and> int (non_running ?d) = int (non_running d) + dd_Count input \<and>
        int (non_running ?d) \<le> dd_Capacity input \<and> ids_ok ?d"
      by (auto simp: filled_def max_def split: if_splits)
  qed
  show ?thesis
    unfolding AddInventory_def pool_lock_def create_addition_def nonRunningSessionCount_def
    by (intro y_if y_throw y_transaction y_exec y_attempt_read read y_sum y_first y_ret y_select
        y_exec_checked fill)
       (auto simp: same_people_def)
qed

section \<open>Properties\<close>


definition sample_admission :: admission where
  "sample_admission = \<lparr>ad_AdminID = 1, ad_Key = ''k'', ad_Digest = ''d'', ad_Label = ''l'', ad_Purpose = [],
     ad_Count = 2, ad_Capacity = 2, ad_Session = blank_session\<lparr>ss_VtaImage := ''img'', ss_Subdomain := ''vta-''\<rparr>,
     ad_MemoryRequest = ''32Mi'', ad_MemoryLimit = ''64Mi''\<rparr>"

definition empty_world :: "db world" where
  "empty_world = calm_world empty_db (\<lambda>n. int n)"




text \<open>
  Admission is idempotent under its key: with a batch of the same administrator and key
  already there, \<open>Admit\<close> never changes a row; it returns that batch when the request digest
  matches, and a conflict when it does not.
\<close>

theorem admission_idempotent:
  assumes "find (\<lambda>b. pb_CreatedBy b = ad_AdminID input \<and> pb_IdempotencyKey b = ad_Key input)
             (t_batches (tabs w)) = Some b"
  shows "tabs (snd (Admit input w)) = tabs w \<and>
         (\<forall>r. fst (Admit input w) = Inr r \<longrightarrow> r = (b, [], False) \<and> pb_RequestDigest b = ad_Digest input)"
proof -
  have exists: "\<exists>b \<in> set (t_batches (tabs w)). pb_CreatedBy b = ad_AdminID input \<and> pb_IdempotencyKey b = ad_Key input"
    using assms by (auto dest: find_SomeD)
  have none: "insert_batch i now (tabs w) = ([], tabs w)"
    if "ad_AdminID i = ad_AdminID input" "ad_Key i = ad_Key input" for i now
    using exists that by (simp add: insert_batch_def)
  have "wp (Admit input) (\<lambda>r w'. tabs w' = tabs w \<and>
      (\<forall>x. r = Inr x \<longrightarrow> x = (b, [], False) \<and> pb_RequestDigest b = ad_Digest input)) w"
    using assms
    by (simp add: Admit_def Let_def pool_lock_def admitBatchRow_def none LookupBatch_def wp split: sum.splits)
  then show ?thesis by (cases "Admit input w") (auto simp: wp_def)
qed

text \<open>The same request again, on the tables it has left.\<close>

definition admitted_db :: db where
  "admitted_db = tabs (snd (Admit sample_admission empty_world))"

lemma admitted_batch:
  "case find (\<lambda>b. pb_CreatedBy b = ad_AdminID sample_admission \<and> pb_IdempotencyKey b = ad_Key sample_admission)
     (t_batches admitted_db) of None \<Rightarrow> False | Some b \<Rightarrow> pb_ID b = 1"
  by code_simp

theorem admission_idempotent_witness:
  "tabs (snd (Admit sample_admission (calm_world admitted_db (\<lambda>n. int n)))) = admitted_db"
proof -
  obtain b where b: "find (\<lambda>b. pb_CreatedBy b = ad_AdminID sample_admission \<and>
      pb_IdempotencyKey b = ad_Key sample_admission) (t_batches admitted_db) = Some b"
    using admitted_batch by (auto split: option.splits)
  show ?thesis
    using admission_idempotent [where w = "calm_world admitted_db (\<lambda>n. int n)" and input = sample_admission] b by simp
qed

text \<open>
  An addition to a batch creates exactly the requested number of sessions and keeps the
  non-running inventory within capacity, like an admission.
\<close>

theorem addition_creates_exactly:
  assumes "ids_ok (tabs w)" and "AddInventory input w = (Inr (b, ss, True), w')"
  shows "int (length ss) = dd_Count input \<and>
         int (non_running (tabs w')) = int (non_running (tabs w)) + dd_Count input \<and>
         int (non_running (tabs w')) \<le> dd_Capacity input \<and> ids_ok (tabs w')"
  using yieldsD [OF AddInventory_yields [OF assms(1)] assms(2)] by simp

definition sample_addition :: addition where
  "sample_addition = \<lparr>dd_AdminID = 1, dd_BatchID = 1, dd_Key = ''a'', dd_Digest = ''d'', dd_Count = 1,
     dd_Capacity = 3, dd_Session = blank_session\<lparr>ss_VtaImage := ''img'', ss_Subdomain := ''vta-''\<rparr>,
     dd_MemoryRequest = ''32Mi'', dd_MemoryLimit = ''64Mi''\<rparr>"

definition fresh_batch :: pool_batch where
  "fresh_batch = \<lparr>pb_ID = 1, pb_CreatedBy = 1, pb_Label = ''l'', pb_Purpose = PoolPurposeAdminStation,
     pb_RequestedCount = 1, pb_VtaImage = ''img'', pb_IdempotencyKey = ''k'', pb_RequestDigest = ''d'',
     pb_PublicSignupEnabledAt = None, pb_CleanupRequestedAt = None, pb_CreatedAt = 0\<rparr>"

definition batch_world :: "db world" where
  "batch_world = calm_world (empty_db\<lparr>t_batches := [fresh_batch], seq_batches := 1\<rparr>) (\<lambda>n. int n)"

lemma sample_added:
  "case fst (AddInventory sample_addition batch_world) of Inl _ \<Rightarrow> False | Inr (b, ss, created) \<Rightarrow> created"
  by code_simp

theorem addition_creates_exactly_witness:
  "\<exists>b ss w'. AddInventory sample_addition batch_world = (Inr (b, ss, True), w') \<and> length ss = 1"
proof -
  obtain b ss w' where r: "AddInventory sample_addition batch_world = (Inr (b, ss, True), w')"
    using sample_added by (cases "AddInventory sample_addition batch_world") (auto split: sum.splits)
  have "ids_ok (tabs batch_world)" by (simp add: batch_world_def empty_db_def ids_ok_def)
  from addition_creates_exactly [OF this r] r show ?thesis by (auto simp: sample_addition_def)
qed

end
