(* ===== verification/PoolProps.thy ===== *)
theory PoolProps
  imports PoolAdmission
begin

text \<open>
  What the pool promises about its claims: a reservation is a fresh open request on a waiting
  member of the batch, a confirmed claim survives every cleanup, and a retry never passes a
  member to another owner.
\<close>

section \<open>Reservation\<close>

text \<open>Only the requests change.\<close>

definition conns_only :: "db \<Rightarrow> db \<Rightarrow> bool" where
  "conns_only d d' \<longleftrightarrow> d' = d\<lparr>t_conns := t_conns d'\<rparr>"

interpretation requests: table_order conns_only
proof
  show "conns_only a b \<Longrightarrow> conns_only b c \<Longrightarrow> conns_only a c" for a b c
  proof -
    assume a: "conns_only a b" and b: "conns_only b c"
    from a obtain x where "b = a\<lparr>t_conns := x\<rparr>" by (auto simp: conns_only_def)
    moreover from b obtain y where "c = b\<lparr>t_conns := y\<rparr>" by (auto simp: conns_only_def)
    ultimately show "conns_only a c" by (simp add: conns_only_def)
  qed
qed (simp add: conns_only_def)

lemma conns_only_update [simp, intro]:
  "conns_only d (d\<lparr>t_conns := x\<rparr>)" "conns_only d (update_conns P f d)"
  by (simp_all add: conns_only_def update_conns_def)

lemma conns_only_tables:
  assumes "conns_only d d'"
  shows "t_sessions d' = t_sessions d" "t_members d' = t_members d" "t_batches d' = t_batches d"
    "find_session i d' = find_session i d"
proof -
  from assms obtain x where "d' = d\<lparr>t_conns := x\<rparr>" by (auto simp: conns_only_def)
  then show "t_sessions d' = t_sessions d" "t_members d' = t_members d" "t_batches d' = t_batches d"
    "find_session i d' = find_session i d" by (simp_all add: find_session_def)
qed

lemma change_conns_only: "stepping conns_only (change i action e pooled)"
  unfolding change_def lockSession_def Current_def open_request_def newHandle_def create_conn_def Let_def
  by (intro requests.stepping_rules) auto

text \<open>A request just opened for one of the candidates.\<close>

definition reserved :: "db \<Rightarrow> setup_session list \<Rightarrow> mobile_connection \<Rightarrow> db \<Rightarrow> bool" where
  "reserved d cs c d' \<longleftrightarrow>
     c \<in> set (t_conns d') \<and> mc_Status c = ''open'' \<and> conns_only d d' \<and> mc_SessionID c \<in> ss_ID ` set cs \<and>
     (\<exists>s. find_session (mc_SessionID c) d = Some s \<and> waiting s)"

lemma reserve_loop_yields:
  assumes "\<And>c d'. reserved d all c d' \<Longrightarrow> yields d' (take_it c) Q" and "set cs \<subseteq> set all"
  shows "yields d (reserve_loop take_it cs) Q"
  using assms(2)
proof (induction cs)
  case Nil
  then show ?case by (simp add: y_throw)
next
  case (Cons s cs)
  have skip: "stepping (\<lambda>a b. b = a) (lock_skipping i)" for i
    unfolding lock_skipping_def by (intro unchanged.stepping_rules)
  have found: "yields d (lock_skipping i) (\<lambda>x d'. d' = d \<and> find_session i d = Some x)" for i
    unfolding lock_skipping_def by (intro y_locked y_read_first) (simp split: if_splits)
  have atomic: "atomic (ChangePool i)" for i
    unfolding ChangePool_def change_def by (rule atomic_transaction)
  have atomic_skip: "atomic (lock_skipping i)" for i
    using steppingD [OF skip] by (auto simp: atomic_def)
  have change: "yields d (ChangePool (ss_ID x)) (\<lambda>c d'. c \<in> set (t_conns d') \<and> mc_SessionID c = ss_ID x \<and>
      mc_Status c = ''open'' \<and> conns_only d d')" for x
    unfolding ChangePool_def
    by (rule yields_mono [OF y_stepping [OF change_yields change_conns_only]]) auto
  from Cons have rest: "yields d (reserve_loop take_it cs) Q" by simp
  show ?case
    unfolding reserve_loop.simps
  proof (rule y_attempt_atomic [OF atomic_skip found])
    fix e show "yields d (case Inl e of Inl e \<Rightarrow> if e = RecordNotFound then reserve_loop take_it cs else throw e
        | Inr session \<Rightarrow> if ss_Status session \<noteq> StatusPoolWaiting \<or> ss_AdminDid session \<noteq> []
            then reserve_loop take_it cs
            else bnd (attempt (ChangePool (ss_ID session)))
              (\<lambda>r. case r of Inl e \<Rightarrow> if e = ErrConflict \<or> e = ErrCooldown then reserve_loop take_it cs else throw e
                 | Inr mobile \<Rightarrow> take_it mobile)) Q"
      using rest by (simp add: y_throw)
  next
    fix x d' assume x: "d' = d \<and> find_session (ss_ID s) d = Some x"
    then have x_id: "ss_ID x = ss_ID s" by (auto simp: find_session_def dest: find_SomeD)
    have "yields d (bnd (attempt (ChangePool (ss_ID x)))
        (\<lambda>r. case r of Inl e \<Rightarrow> if e = ErrConflict \<or> e = ErrCooldown then reserve_loop take_it cs else throw e
           | Inr mobile \<Rightarrow> take_it mobile)) Q" if "waiting x"
    proof (rule y_attempt_atomic [OF atomic change])
      fix c d1
      assume "c \<in> set (t_conns d1) \<and> mc_SessionID c = ss_ID x \<and> mc_Status c = ''open'' \<and> conns_only d d1"
      with x x_id that Cons.prems have "reserved d all c d1" by (auto simp: reserved_def)
      then show "yields d1 (case Inr c of Inl e \<Rightarrow> if e = ErrConflict \<or> e = ErrCooldown
          then reserve_loop take_it cs else throw e | Inr mobile \<Rightarrow> take_it mobile) Q"
        using assms(1) by simp
    qed (use rest in \<open>simp add: y_throw\<close>)
    with x rest show "yields d' (case Inr x of Inl e \<Rightarrow> if e = RecordNotFound then reserve_loop take_it cs else throw e
        | Inr session \<Rightarrow> if ss_Status session \<noteq> StatusPoolWaiting \<or> ss_AdminDid session \<noteq> []
            then reserve_loop take_it cs
            else bnd (attempt (ChangePool (ss_ID session)))
              (\<lambda>r. case r of Inl e \<Rightarrow> if e = ErrConflict \<or> e = ErrCooldown then reserve_loop take_it cs else throw e
                 | Inr mobile \<Rightarrow> take_it mobile)) Q"
      by (auto simp: waiting_def intro!: y_if)
  qed
qed

lemma Reserve_yields:
  "yields d (Reserve batchID) (\<lambda>c d'. \<exists>cs. reserved d cs c d' \<and>
     (\<forall>s \<in> set cs. \<exists>m \<in> set (t_members d). ps_SessionID m = ss_ID s \<and> ps_BatchID m = batchID))"
  unfolding Reserve_def pool_lock_def
proof (intro y_transaction y_exec y_select_now)
  fix now
  let ?cs = "batch_candidates batchID now d"
  have "\<forall>s \<in> set ?cs. \<exists>m \<in> set (t_members d). ps_SessionID m = ss_ID s \<and> ps_BatchID m = batchID"
    by (auto simp: batch_candidates_def members_def)
  then show "yields d (reserve_loop ret ?cs) (\<lambda>c d'. \<exists>cs. reserved d cs c d' \<and>
     (\<forall>s \<in> set cs. \<exists>m \<in> set (t_members d). ps_SessionID m = ss_ID s \<and> ps_BatchID m = batchID))"
    by (intro reserve_loop_yields [where all = ?cs]) (auto intro!: y_ret)
qed

section \<open>Cleanup\<close>

text \<open>What \<open>queueCleanupBulk\<close> has checked and done when it returns.\<close>

definition cleaned :: "db \<Rightarrow> nat list \<Rightarrow> db \<Rightarrow> bool" where
  "cleaned d ids d' \<longleftrightarrow>
     length (filter (in_ids ids) (t_sessions d)) = length ids \<and>
     (\<forall>s \<in> set (t_sessions d). ss_ID s \<in> set ids \<longrightarrow> ss_AdminDid s = [] \<and> ss_Status s \<in> {StatusPoolWaiting, ''failed''} \<and>
        (\<forall>u \<in> set (t_users d). u_ID u = ss_UserID s \<longrightarrow> u_Email u = None \<and> \<not> u_FullstackAccess u) \<and>
        (\<forall>p \<in> set (t_passkeys d). pk_UserID p \<noteq> ss_UserID s)) \<and>
     t_sessions d' = update_where (in_ids ids) (\<lambda>s. s\<lparr>ss_Status := ''deleting''\<rparr>) (t_sessions d) \<and>
     (\<forall>r \<in> set (t_conns d'). \<not> protects ids r) \<and>
     (\<forall>r \<in> set (t_conns d). mc_SessionID r \<in> set ids \<longrightarrow> mc_ConfirmedAt r = None \<and> mc_Status r \<noteq> ''released'')"

lemma kept_in_update:
  assumes "r \<in> set cs"
  shows "\<exists>q \<in> set (update_where P f cs). (\<not> P r \<longrightarrow> q = r) \<and> (P r \<longrightarrow> q = f r)"
proof (cases "P r")
  case True
  with assms have "f r \<in> set (update_where P f cs)" by (auto simp: set_update_where)
  with True show ?thesis by blast
next
  case False
  with assms have "r \<in> set (update_where P f cs)" by (auto simp: set_update_where)
  with False show ?thesis by blast
qed

lemma status_fields [simp]:
  "mc_SessionID (set_status st r) = mc_SessionID r" "mc_ConfirmedAt (set_status st r) = mc_ConfirmedAt r"
  "mc_SessionID (clear_status st r) = mc_SessionID r" "mc_ConfirmedAt (clear_status st r) = mc_ConfirmedAt r"
  by (simp_all add: set_status_def clear_status_def)

text \<open>Lapsing what is open and overdue leaves every confirmation and every released row.\<close>

lemma lapse_keeps_confirmation:
  assumes r: "r \<in> set cs" and Q: "Q r \<Longrightarrow> mc_Status r = ''open''" and P: "P r \<Longrightarrow> mc_Status r = ''claimed''"
  shows "\<exists>q \<in> set (update_where P (clear_status ''lapsed'') (update_where Q (set_status ''lapsed'') cs)).
     mc_SessionID q = mc_SessionID r \<and> mc_ConfirmedAt q = mc_ConfirmedAt r \<and>
     (mc_Status r = ''released'' \<longrightarrow> q = r)"
proof -
  from kept_in_update [OF r, of Q "set_status ''lapsed''"]
  obtain q where q: "q \<in> set (update_where Q (set_status ''lapsed'') cs)" "\<not> Q r \<longrightarrow> q = r"
    "Q r \<longrightarrow> q = set_status ''lapsed'' r" by blast
  from kept_in_update [OF q(1), of P "clear_status ''lapsed''"]
  obtain p where p: "p \<in> set (update_where P (clear_status ''lapsed'') (update_where Q (set_status ''lapsed'') cs))"
    "\<not> P q \<longrightarrow> p = q" "P q \<longrightarrow> p = clear_status ''lapsed'' q" by blast
  have "mc_SessionID q = mc_SessionID r \<and> mc_ConfirmedAt q = mc_ConfirmedAt r"
    using q(2,3) by (cases "Q r") simp_all
  moreover have "mc_SessionID p = mc_SessionID q \<and> mc_ConfirmedAt p = mc_ConfirmedAt q"
    using p(2,3) by (cases "P q") simp_all
  moreover have "p = r" if "mc_Status r = ''released''"
  proof -
    from Q that have "\<not> Q r" by auto
    with q have "q = r" by simp
    moreover from P that have "\<not> P r" by auto
    ultimately show ?thesis using p by simp
  qed
  ultimately show ?thesis using p(1) by auto
qed

lemma queueCleanupBulk_yields:
  "yields d (queueCleanupBulk ids) (\<lambda>_ d'. cleaned d ids d')"
  unfolding queueCleanupBulk_def Let_def
proof (intro y_select y_if y_throw y_Now y_exec y_exec_count y_ret)
  fix now
  let ?Q = "\<lambda>r. mc_SessionID r \<in> set ids \<and> mc_Status r = ''open'' \<and> mc_ExpiresAt r \<le> now"
  let ?P = "\<lambda>r. mc_SessionID r \<in> set ids \<and> mc_Status r = ''claimed'' \<and>
      (case mc_ConfirmBy r of None \<Rightarrow> False | Some t \<Rightarrow> t \<le> now)"
  let ?d2 = "update_conns ?P (clear_status ''lapsed'') (update_conns ?Q (set_status ''lapsed'') d)"
  let ?d3 = "update_sessions (in_ids ids) (\<lambda>s. s\<lparr>ss_Status := ''deleting''\<rparr>) ?d2"
  let ?ss = "sort_key ss_ID (filter (in_ids ids) (t_sessions d))"
  assume len: "\<not> length ?ss \<noteq> length ids"
    and ses: "\<not> (\<exists>s \<in> set ?ss. ss_AdminDid s \<noteq> [] \<or> ss_Status s \<noteq> StatusPoolWaiting \<and> ss_Status s \<noteq> ''failed'')"
    and usr: "\<not> (\<exists>u \<in> set (sort_key u_ID (filter (\<lambda>u. u_ID u \<in> set (map ss_UserID ?ss)) (t_users d))).
        u_Email u \<noteq> None \<or> u_FullstackAccess u)"
    and pks: "\<not> count_where (\<lambda>p. pk_UserID p \<in> set (map ss_UserID ?ss)) (t_passkeys d) \<noteq> 0"
    and prot: "\<not> count_where (protects ids) (t_conns ?d2) \<noteq> 0"
  have none: "\<forall>r \<in> set (t_conns ?d2). \<not> protects ids r" using prot by (auto simp: count_where_0_iff)
  have "mc_ConfirmedAt r = None \<and> mc_Status r \<noteq> ''released''"
    if r: "r \<in> set (t_conns d)" "mc_SessionID r \<in> set ids" for r
  proof -
    have t: "t_conns ?d2 = update_where ?P (clear_status ''lapsed'') (update_where ?Q (set_status ''lapsed'') (t_conns d))"
      by simp
    have "\<exists>q \<in> set (t_conns ?d2). mc_SessionID q = mc_SessionID r \<and> mc_ConfirmedAt q = mc_ConfirmedAt r \<and>
        (mc_Status r = ''released'' \<longrightarrow> q = r)"
      unfolding t by (rule lapse_keeps_confirmation [OF r(1)]) blast+
    then obtain q where q: "q \<in> set (t_conns ?d2)" "mc_SessionID q = mc_SessionID r"
      "mc_ConfirmedAt q = mc_ConfirmedAt r" "mc_Status r = ''released'' \<longrightarrow> q = r" by blast
    have unprotected: "\<not> protects ids q" by (rule bspec [OF none q(1)])
    with q(2,3) r(2) have "mc_ConfirmedAt r = None" by (simp add: protects_def)
    moreover have "mc_Status r \<noteq> ''released''"
    proof
      assume rel: "mc_Status r = ''released''"
      with q(4) unprotected r(2) show False by (simp add: protects_def)
    qed
    ultimately show ?thesis by blast
  qed
  moreover have "\<forall>r \<in> set (t_conns ?d3). \<not> protects ids r" using none by simp
  moreover have "\<forall>s \<in> set (t_sessions d). ss_ID s \<in> set ids \<longrightarrow> ss_AdminDid s = [] \<and>
      ss_Status s \<in> {StatusPoolWaiting, ''failed''} \<and>
      (\<forall>u \<in> set (t_users d). u_ID u = ss_UserID s \<longrightarrow> u_Email u = None \<and> \<not> u_FullstackAccess u) \<and>
      (\<forall>p \<in> set (t_passkeys d). pk_UserID p \<noteq> ss_UserID s)"
    using ses usr pks by (auto simp: in_ids_def count_where_0_iff)
  ultimately show "cleaned d ids ?d3"
    using len unfolding cleaned_def by simp
qed

section \<open>Confirming and retrying\<close>

lemma IsSession_yields:
  "yields d (IsSession i) (\<lambda>b d'. d' = d \<and> (b \<longrightarrow> (\<exists>m \<in> set (t_members d). ps_SessionID m = i)))"
proof -
  have "\<exists>m \<in> set (t_members d). ps_SessionID m = i"
    if "count_where (\<lambda>m. ps_SessionID m = i) (t_members d) = 1"
    using that count_where_pos_iff [of "\<lambda>m. ps_SessionID m = i" "t_members d"] by simp
  then show ?thesis
    by (auto simp: yields_def IsSession_def wp split: sum.splits)
qed

lemma Confirm_yields:
  "yields d (Confirm i requestID) (\<lambda>c d'. mc_ID c = requestID \<and> mc_Status c = ''confirmed'' \<and>
     mc_ConfirmedAt c \<noteq> None \<and>
     (\<exists>r. find_request i requestID d = Some r \<and> mc_Status r = ''claimed'' \<and> mc_ConfirmBy r \<noteq> None))"
  unfolding Confirm_def lockSession_def
  by (intro y_transaction y_first y_Now y_if y_fails y_exec y_ret)
     (auto simp: find_request_def dest: find_SomeD split: option.splits)

lemma StartProvisioning_yields:
  "yields d (StartProvisioning requestID) (\<lambda>c _. mc_ID c = requestID \<and> mc_Status c \<in> {''provisioning'', ''released''})"
  unfolding StartProvisioning_def lockSession_def
  by (intro y_transaction y_first y_Now y_if y_ret y_throw y_bnd [of _ "provision_switch _ _ _" "\<lambda>_ _. True"] y_exec)
     (auto simp: find_conn_def set_status_def yields_def wp_iff dest: find_SomeD split: sum.splits)

text \<open>What a successful \<open>pool.Confirm\<close> answers.\<close>

definition confirmed_claim :: "db \<Rightarrow> string \<Rightarrow> mobile_connection \<Rightarrow> bool" where
  "confirmed_claim d requestID c \<longleftrightarrow>
     mc_ID c = requestID \<and> mc_Status c \<in> {''confirmed'', ''provisioning'', ''released''} \<and>
     (\<exists>r. find_conn requestID d = Some r \<and> (\<exists>m \<in> set (t_members d). ps_SessionID m = mc_SessionID r) \<and>
        (mc_Status r = ''claimed'' \<and> mc_ConfirmBy r \<noteq> None \<or> c = r))"

lemma PoolConfirm_yields: "yields d (PoolConfirm requestID) (\<lambda>c _. confirmed_claim d requestID c)"
  unfolding PoolConfirm_def pool_lock_def
proof (intro y_transaction y_exec y_first)
  fix r
  assume r: "find_conn requestID d = Some r"
  let ?tail = "\<lambda>x. case x of
      Inl e \<Rightarrow> bnd (attempt (first (find_conn requestID))) (\<lambda>load.
        case load of Inr cur \<Rightarrow> if mc_Status cur \<in> {''confirmed'', ''provisioning'', ''released''} then ret cur else throw e
        | Inl _ \<Rightarrow> throw e)
    | Inr confirmed \<Rightarrow> StartProvisioning (mc_ID confirmed)"
  have "yields d (bnd (attempt (Confirm (mc_SessionID r) requestID)) ?tail) (\<lambda>c _. confirmed_claim d requestID c)"
    if member: "\<exists>m \<in> set (t_members d). ps_SessionID m = mc_SessionID r"
  proof (rule y_attempt_atomic [OF _ Confirm_yields])
    show "atomic (Confirm (mc_SessionID r) requestID)" unfolding Confirm_def by (rule atomic_transaction)
  next
    fix e
    have "atomic (first (find_conn requestID) :: mobile_connection dbtx)"
      by (auto simp: atomic_def first_def bnd_def select_def interact_def throw_def ret_def
          split: if_splits option.splits)
    then show "yields d (?tail (Inl e)) (\<lambda>c _. confirmed_claim d requestID c)"
      unfolding sum.case
    proof (rule y_attempt_atomic)
      show "yields d (first (find_conn requestID)) (\<lambda>c d'. c = r)"
        using r by (intro y_read_first) simp
    qed (use r member in \<open>auto simp: confirmed_claim_def find_conn_def dest: find_SomeD intro!: y_throw y_if y_ret\<close>)
  next
    fix c d'
    assume c: "mc_ID c = requestID \<and> mc_Status c = ''confirmed'' \<and> mc_ConfirmedAt c \<noteq> None \<and>
      (\<exists>r'. find_request (mc_SessionID r) requestID d = Some r' \<and> mc_Status r' = ''claimed'' \<and> mc_ConfirmBy r' \<noteq> None)"
    show "yields d' (?tail (Inr c)) (\<lambda>c _. confirmed_claim d requestID c)"
      unfolding sum.case
    proof (rule yields_mono [OF StartProvisioning_yields])
      fix c' :: mobile_connection and d2
      assume c': "mc_ID c' = mc_ID c \<and> mc_Status c' \<in> {''provisioning'', ''released''}"
      from r have "find_request (mc_SessionID r) requestID d = Some r"
        unfolding find_conn_def find_request_def
        by (auto simp: find_Some_iff)
      with c c' r member show "confirmed_claim d requestID c'" by (auto simp: confirmed_claim_def)
    qed
  qed
  then show "yields d (bnd (IsSession (mc_SessionID r))
      (\<lambda>is. if \<not> is then throw PoolErrConflict else bnd (attempt (Confirm (mc_SessionID r) requestID)) ?tail))
      (\<lambda>c _. confirmed_claim d requestID c)"
    by (intro y_bnd [OF IsSession_yields] y_if y_throw) auto
qed

lemma RetryBuild_yields:
  "yields d (RetryBuild i) (\<lambda>_ d'. \<exists>s. find_session i d = Some s \<and> ss_Status s = ''failed'' \<and> ss_AdminDid s = [] \<and>
     (\<forall>r \<in> set (t_conns d). mc_SessionID r = i \<longrightarrow> mc_ConfirmedAt r = None) \<and> t_conns d' = t_conns d \<and>
     find_session i d' = Some (s\<lparr>ss_Status := StatusPoolCreating, ss_ErrorMsg := [], ss_FailedStage := []\<rparr>))"
  unfolding RetryBuild_def pool_lock_def
proof (intro y_transaction y_exec, rule y_bnd [OF IsSession_yields], elim conjE, hypsubst,
    intro y_if y_throw y_first y_select y_exec_last)
  fix s
  assume s: "find_session i d = Some s" "\<not> (ss_Status s \<noteq> ''failed'' \<or> ss_AdminDid s \<noteq> [])"
    "\<not> count_where (\<lambda>r. mc_SessionID r = i \<and> mc_ConfirmedAt r \<noteq> None) (t_conns d) \<noteq> 0"
  let ?f = "\<lambda>s :: setup_session. s\<lparr>ss_Status := StatusPoolCreating, ss_ErrorMsg := [], ss_FailedStage := []\<rparr>"
  have "ss_ID s = i" using s(1) by (auto simp: find_session_def dest: find_SomeD)
  then have "find_session i (update_sessions (\<lambda>t. ss_ID t = ss_ID s) ?f d) = Some (?f s)"
    using s(1) unfolding find_session_def by (simp add: find_update_where)
  with s show "\<exists>t. find_session i d = Some t \<and> ss_Status t = ''failed'' \<and> ss_AdminDid t = [] \<and>
     (\<forall>r \<in> set (t_conns d). mc_SessionID r = i \<longrightarrow> mc_ConfirmedAt r = None) \<and>
     t_conns (update_sessions (\<lambda>t. ss_ID t = ss_ID s) ?f d) = t_conns d \<and>
     find_session i (update_sessions (\<lambda>t. ss_ID t = ss_ID s) ?f d) = Some (?f t)"
    by (auto simp: count_where_0_iff)
qed

section \<open>Properties\<close>

text \<open>
  A reservation hands out a VTA nobody else holds. When \<open>Reserve\<close> returns a request, it is
  open and in the table, its session is a waiting member of the batch without administrator, no
  other request of that session is open, claimed, confirmed or provisioning, and the sessions
  and memberships are unchanged.
\<close>

theorem reserve_opens:
  assumes "conns_ok (t_conns (tabs w))" and "Reserve batchID w = (Inr c, w')"
  shows "c \<in> set (t_conns (tabs w')) \<and> mc_Status c = ''open'' \<and>
         (\<exists>s. find_session (mc_SessionID c) (tabs w) = Some s \<and> waiting s \<and>
            (\<exists>m \<in> set (t_members (tabs w)). ps_SessionID m = ss_ID s \<and> ps_BatchID m = batchID)) \<and>
         (\<forall>r \<in> set (t_conns (tabs w')). mc_SessionID r = mc_SessionID c \<and> active r \<longrightarrow> r = c) \<and>
         t_sessions (tabs w') = t_sessions (tabs w) \<and> t_members (tabs w') = t_members (tabs w)"
proof -
  obtain cs where cs: "reserved (tabs w) cs c (tabs w')"
    "\<forall>s \<in> set cs. \<exists>m \<in> set (t_members (tabs w)). ps_SessionID m = ss_ID s \<and> ps_BatchID m = batchID"
    using yieldsD [OF Reserve_yields assms(2)] by blast
  then have c: "c \<in> set (t_conns (tabs w'))" "mc_Status c = ''open''" "conns_only (tabs w) (tabs w')"
    by (auto simp: reserved_def)
  obtain s where s: "find_session (mc_SessionID c) (tabs w) = Some s" "waiting s" "mc_SessionID c \<in> ss_ID ` set cs"
    using cs(1) by (auto simp: reserved_def)
  then have "ss_ID s = mc_SessionID c" by (auto simp: find_session_def dest: find_SomeD)
  with s(3) cs(2) have "\<exists>m \<in> set (t_members (tabs w)). ps_SessionID m = ss_ID s \<and> ps_BatchID m = batchID" by auto
  moreover have "active c" using c by (simp add: active_def active_statuses_def)
  moreover have "conns_ok (t_conns (tabs w'))"
    using steppingD [OF stepping_Reserve assms(2)] assms(1) by (rule evolves_ok)
  ultimately show ?thesis
    using c s conns_only_tables [OF c(3)] unfolding conns_ok_def newest_active_def by metis
qed

text \<open>
  Cleanup never takes a VTA somebody has claimed. When \<open>QueueCleanup\<close> succeeds, every one of
  the sessions existed, had no administrator and was waiting or failed, its user had no email
  address, no full-stack access and no passkey, none of its requests was ever confirmed or
  released and none is live any more; and exactly these sessions are now \<open>deleting\<close>.
\<close>

theorem cleanup_spares_claims:
  assumes "QueueCleanup ids w = (Inr (), w')"
  shows "cleaned (tabs w) ids (tabs w')"
proof -
  have "yields (tabs w) (QueueCleanup ids) (\<lambda>_ d'. cleaned (tabs w) (sort ids) d')"
    unfolding QueueCleanup_def Let_def pool_lock_def
    by (intro y_if y_throw y_transaction y_exec queueCleanupBulk_yields)
  from yieldsD [OF this assms] have "cleaned (tabs w) (sort ids) (tabs w')" .
  moreover have "in_ids (sort ids) = in_ids ids" "protects (sort ids) = protects ids"
    by (auto simp: in_ids_def protects_def fun_eq_iff)
  ultimately show ?thesis by (simp add: cleaned_def)
qed

text \<open>
  \<open>pool.Confirm\<close> answers with a confirmed claim of a pool member only: the request it returns
  is the one asked for, of a session in a pool, confirmed, provisioning or released, and it had
  been claimed with a confirmation deadline unless it was in that state before the call.
\<close>

theorem pool_confirm_claimed:
  assumes "PoolConfirm requestID w = (Inr c, w')"
  shows "confirmed_claim (tabs w) requestID c"
  using yieldsD [OF PoolConfirm_yields assms] .

text \<open>
  A rebuild is only for a member nobody owns: when \<open>RetryBuild\<close> succeeds the session had
  failed, without an administrator and without a request that was ever confirmed; it is then
  \<open>pool_creating\<close> with the error cleared, and no request has changed.
\<close>

theorem rebuild_unowned:
  assumes "RetryBuild i w = (Inr (), w')"
  shows "\<exists>s. find_session i (tabs w) = Some s \<and> ss_Status s = ''failed'' \<and> ss_AdminDid s = [] \<and>
     (\<forall>r \<in> set (t_conns (tabs w)). mc_SessionID r = i \<longrightarrow> mc_ConfirmedAt r = None) \<and>
     t_conns (tabs w') = t_conns (tabs w) \<and>
     find_session i (tabs w') = Some (s\<lparr>ss_Status := StatusPoolCreating, ss_ErrorMsg := [], ss_FailedStage := []\<rparr>)"
  using yieldsD [OF RetryBuild_yields assms] .

section \<open>Concrete runs\<close>

definition pool_member :: "string \<Rightarrow> setup_session" where
  "pool_member st = blank_session\<lparr>ss_ID := 7, ss_UserID := 3, ss_Mode := ModeVtaOnly,
     ss_Status := st, ss_VtaDid := ''did:webvh:vta''\<rparr>"

definition pool_world :: "string \<Rightarrow> mobile_connection list \<Rightarrow> db world" where
  "pool_world st cs = calm_world (empty_db\<lparr>t_sessions := [pool_member st], t_conns := cs,
     t_members := [\<lparr>ps_SessionID = 7, ps_BatchID = 1\<rparr>], t_batches := [fresh_batch],
     t_users := [\<lparr>u_ID = 3, u_UniqueId = ''p'', u_Email = None, u_FullstackAccess = False,
                  u_CreatedAt = 0, u_UpdatedAt = 0\<rparr>]\<rparr>) (\<lambda>n. int n)"

definition succeeds :: "(err + 'a) \<times> 'w \<Rightarrow> bool" where
  "succeeds x \<longleftrightarrow> (case fst x of Inl _ \<Rightarrow> False | Inr _ \<Rightarrow> True)"

lemma succeedsE: "succeeds (m w) \<Longrightarrow> (\<And>a w'. m w = (Inr a, w') \<Longrightarrow> P) \<Longrightarrow> P"
  by (cases "m w") (auto simp: succeeds_def split: sum.splits)

lemma pool_runs:
  "succeeds (Reserve 1 (pool_world StatusPoolWaiting []))"
  "succeeds (QueueCleanup [7] (pool_world StatusPoolWaiting []))"
  "succeeds (RetryBuild 7 (pool_world ''failed'' []))"
  by code_simp+

theorem reserve_opens_witness:
  "\<exists>c w'. Reserve 1 (pool_world StatusPoolWaiting []) = (Inr c, w') \<and> mc_Status c = ''open'' \<and>
     mc_SessionID c = 7"
proof -
  obtain c w' where c: "Reserve 1 (pool_world StatusPoolWaiting []) = (Inr c, w')"
    using pool_runs(1) by (rule succeedsE)
  have "conns_ok (t_conns (tabs (pool_world StatusPoolWaiting [])))"
    by (simp add: pool_world_def conns_ok_def unique_ids_def unique_handles_def newest_active_def)
  from reserve_opens [OF this c] c show ?thesis
    by (auto simp: pool_world_def find_session_def pool_member_def split: if_splits)
qed

theorem cleanup_spares_claims_witness:
  "\<exists>w'. QueueCleanup [7] (pool_world StatusPoolWaiting []) = (Inr (), w') \<and>
     map ss_Status (t_sessions (tabs w')) = [''deleting'']"
proof -
  obtain a w' where "QueueCleanup [7] (pool_world StatusPoolWaiting []) = (Inr a, w')"
    using pool_runs(2) by (rule succeedsE)
  then have r: "QueueCleanup [7] (pool_world StatusPoolWaiting []) = (Inr (), w')" by simp
  from cleanup_spares_claims [OF r] r show ?thesis
    by (auto simp: cleaned_def pool_world_def pool_member_def in_ids_def)
qed

text \<open>A confirmed claim answered again without the code touching it.\<close>

definition confirmed_row :: mobile_connection where
  "confirmed_row = (new_conn ''c1'' 7 ''did:webvh:vta'' OperationProvisionVTA ''h'' 0)
     \<lparr>mc_Status := ''confirmed'', mc_ConfirmedAt := Some 2\<rparr>"

theorem pool_confirm_claimed_witness:
  "\<exists>c w'. PoolConfirm ''c1'' (pool_world StatusPoolWaiting [confirmed_row]) = (Inr c, w') \<and>
     mc_Status c \<in> {''confirmed'', ''provisioning'', ''released''}"
proof -
  have "succeeds (PoolConfirm ''c1'' (pool_world StatusPoolWaiting [confirmed_row]))"
    by code_simp
  then obtain c w' where c: "PoolConfirm ''c1'' (pool_world StatusPoolWaiting [confirmed_row]) = (Inr c, w')"
    by (rule succeedsE)
  with pool_confirm_claimed [OF c] show ?thesis unfolding confirmed_claim_def by blast
qed

theorem rebuild_unowned_witness:
  "\<exists>w'. RetryBuild 7 (pool_world ''failed'' []) = (Inr (), w') \<and>
     (\<exists>s. find_session 7 (tabs w') = Some s \<and> ss_Status s = StatusPoolCreating)"
proof -
  obtain a w' where "RetryBuild 7 (pool_world ''failed'' []) = (Inr a, w')"
    using pool_runs(3) by (rule succeedsE)
  then have r: "RetryBuild 7 (pool_world ''failed'' []) = (Inr (), w')" by simp
  from rebuild_unowned [OF r] r show ?thesis by (auto intro!: exI [of _ w'])
qed

end
