(* ===== verification/Replay.thy ===== *)
theory Replay
  imports PoolProps
begin

text \<open>
  \<open>internal/trusttask/replay.go\<close>: the guard that makes a trust task document run at most once
  while its execution is leased, answers a repeated document with the recorded reply, and
  forgets a document when its retention ends. The receiver is configured (neither nil); the
  execution lease is the argument \<open>execLease\<close>, and the readings of \<open>time.Now()\<close> are the
  arguments \<open>now\<close>. The verdict is the record of the trust-tasks library the code fills in.

  The abstract guard is a map from document ids to executions; \<open>claim_step\<close> says what a claim
  does to one entry of it.
\<close>

section \<open>Verdicts\<close>

datatype verdict_kind = VerdictFresh | VerdictConflict | VerdictDuplicate

record replay_verdict =
  rv_Kind :: verdict_kind
  rv_InFlight :: bool
  rv_PriorResponse :: string

definition defaultExecutionLease :: int where
  "defaultExecutionLease = 30 * second"

definition verdict :: "verdict_kind \<Rightarrow> replay_verdict" where
  "verdict k = \<lparr>rv_Kind = k, rv_InFlight = False, rv_PriorResponse = []\<rparr>"

section \<open>The guard\<close>

definition find_execution :: "string \<Rightarrow> db \<Rightarrow> trust_task_execution option" where
  "find_execution i d = find (\<lambda>e. te_DocumentID e = i) (t_executions d)"

definition update_executions ::
  "(trust_task_execution \<Rightarrow> bool) \<Rightarrow> (trust_task_execution \<Rightarrow> trust_task_execution) \<Rightarrow> db \<Rightarrow> db" where
  "update_executions P f d = d\<lparr>t_executions := update_where P f (t_executions d)\<rparr>"

definition new_execution :: "int \<Rightarrow> string \<Rightarrow> string \<Rightarrow> int \<Rightarrow> int \<Rightarrow> trust_task_execution" where
  "new_execution execLease i digest retainUntil now =
     \<lparr>te_DocumentID = i, te_DocumentDigest = digest, te_State = ''executing'',
      te_ResponseBytes = [], te_RetainUntil = retainUntil, te_LeaseExpiresAt = now + execLease,
      te_CreatedAt = now, te_UpdatedAt = now\<rparr>"

definition restart :: "int \<Rightarrow> string \<Rightarrow> int \<Rightarrow> int \<Rightarrow> trust_task_execution \<Rightarrow> trust_task_execution" where
  "restart execLease digest retainUntil now e =
     e\<lparr>te_DocumentDigest := digest, te_State := ''executing'', te_ResponseBytes := [],
       te_RetainUntil := retainUntil, te_LeaseExpiresAt := now + execLease,
       te_CreatedAt := now, te_UpdatedAt := now\<rparr>"

definition extend_lease :: "int \<Rightarrow> int \<Rightarrow> trust_task_execution \<Rightarrow> trust_task_execution" where
  "extend_lease execLease now e = e\<lparr>te_LeaseExpiresAt := now + execLease, te_UpdatedAt := now\<rparr>"

text \<open>\<open>INSERT ... ON CONFLICT DO NOTHING\<close> on the primary key.\<close>

definition insert_execution :: "trust_task_execution \<Rightarrow> db \<Rightarrow> db" where
  "insert_execution e d =
     (if find_execution (te_DocumentID e) d = None then d\<lparr>t_executions := t_executions d @ [e]\<rparr> else d)"

definition ReplayClaim :: "int \<Rightarrow> string \<Rightarrow> string \<Rightarrow> int \<Rightarrow> int \<Rightarrow> replay_verdict dbtx" where
  "ReplayClaim execLease i digest retainUntil now =
     (if execLease \<le> 0 then throw (NewError ''trust task replay guard is not configured'')
      else transaction (
        bnd (exec_count (\<lambda>d. if find_execution i d = None then 1 else 0)
               (insert_execution (new_execution execLease i digest retainUntil now))) (\<lambda>n.
        if n = 1 then ret (verdict VerdictFresh)
        else
          bnd (first (find_execution i)) (\<lambda>existing.
          if \<not> now < te_RetainUntil existing then
            bnd (exec (update_executions (\<lambda>e. te_DocumentID e = te_DocumentID existing)
                   (restart execLease digest retainUntil now))) (\<lambda>_. ret (verdict VerdictFresh))
          else if te_DocumentDigest existing \<noteq> digest then ret (verdict VerdictConflict)
          else if te_State existing = ''executing'' \<and> \<not> now < te_LeaseExpiresAt existing then
            bnd (exec (update_executions (\<lambda>e. te_DocumentID e = te_DocumentID existing)
                   (extend_lease execLease now))) (\<lambda>_. ret (verdict VerdictFresh))
          else ret \<lparr>rv_Kind = VerdictDuplicate, rv_InFlight = (te_State existing = ''executing''),
                     rv_PriorResponse = te_ResponseBytes existing\<rparr>))))"



section \<open>The abstract guard\<close>

definition claim_step ::
  "int \<Rightarrow> string \<Rightarrow> string \<Rightarrow> int \<Rightarrow> int \<Rightarrow> trust_task_execution option
     \<Rightarrow> replay_verdict \<times> trust_task_execution" where
  "claim_step execLease i digest retainUntil now r =
     (case r of
        None \<Rightarrow> (verdict VerdictFresh, new_execution execLease i digest retainUntil now)
      | Some e \<Rightarrow>
          if te_RetainUntil e \<le> now then (verdict VerdictFresh, restart execLease digest retainUntil now e)
          else if te_DocumentDigest e \<noteq> digest then (verdict VerdictConflict, e)
          else if te_State e = ''executing'' \<and> te_LeaseExpiresAt e \<le> now
          then (verdict VerdictFresh, extend_lease execLease now e)
          else (\<lparr>rv_Kind = VerdictDuplicate, rv_InFlight = (te_State e = ''executing''),
                  rv_PriorResponse = te_ResponseBytes e\<rparr>, e))"

definition executions :: "db \<Rightarrow> string \<Rightarrow> trust_task_execution option" where
  "executions d = (\<lambda>i. find_execution i d)"

definition executions_ok :: "db \<Rightarrow> bool" where
  "executions_ok d \<longleftrightarrow> distinct (map te_DocumentID (t_executions d))"

lemma execution_id [simp]:
  "te_DocumentID (restart l g r n e) = te_DocumentID e"
  "te_DocumentID (extend_lease l n e) = te_DocumentID e"
  "te_DocumentID (new_execution l i g r n) = i"
  by (simp_all add: restart_def extend_lease_def new_execution_def)

lemma find_execution_id: "find_execution i d = Some e \<Longrightarrow> te_DocumentID e = i"
  by (auto simp: find_execution_def dest: find_SomeD)

lemma executions_insert:
  "find_execution (te_DocumentID e) d = None \<Longrightarrow>
   executions (insert_execution e d) = (executions d)(te_DocumentID e \<mapsto> e)"
  by (auto simp: executions_def insert_execution_def find_execution_def find_append fun_eq_iff split: option.splits)

lemma executions_update:
  assumes "find_execution i d = Some e" "\<And>e. te_DocumentID (f e) = te_DocumentID e"
  shows "executions (update_executions (\<lambda>e. te_DocumentID e = i) f d) = (executions d)(i \<mapsto> f e)"
proof
  fix j
  have "find_execution j (update_executions (\<lambda>e. te_DocumentID e = i) f d)
      = map_option (\<lambda>r. if te_DocumentID r = i then f r else r) (find_execution j d)"
    unfolding find_execution_def update_executions_def by (simp add: find_update_where assms(2))
  then show "executions (update_executions (\<lambda>e. te_DocumentID e = i) f d) j = ((executions d)(i \<mapsto> f e)) j"
    using assms(1) by (cases "find_execution j d") (auto simp: executions_def dest: find_execution_id)
qed

lemma executions_same: "find_execution i d = Some e \<Longrightarrow> (executions d)(i \<mapsto> e) = executions d"
  by (auto simp: executions_def)

section \<open>Refinement\<close>

lemma ReplayClaim_wp:
  assumes "0 < execLease"
  shows "wp (ReplayClaim execLease i digest retainUntil now)
    (\<lambda>r w'. case r of Inl e \<Rightarrow> e = DbFailure
       | Inr v \<Rightarrow> v = fst (claim_step execLease i digest retainUntil now (executions (tabs w) i)) \<and>
           executions (tabs w') = (executions (tabs w))
             (i \<mapsto> snd (claim_step execLease i digest retainUntil now (executions (tabs w) i)))) w"
proof (cases "find_execution i (tabs w)")
  case None
  with assms show ?thesis
    by (simp add: ReplayClaim_def wp claim_step_def executions_def [of "tabs w"]
        executions_insert [of "new_execution execLease i digest retainUntil now", simplified])
next
  case (Some e)
  then have i: "te_DocumentID e = i" by (rule find_execution_id)
  have ins: "insert_execution (new_execution execLease i digest retainUntil now) (tabs w) = tabs w"
    using Some by (simp add: insert_execution_def)
  have ex: "executions (tabs w) i = Some e" using Some by (simp add: executions_def)
  show ?thesis
    using assms Some i
    by (auto simp: ReplayClaim_def wp claim_step_def ins ex executions_same executions_update [OF Some])
qed

section \<open>An execution that is running or done\<close>

text \<open>\<open>settled T i d\<close>: until \<open>T\<close>, document \<open>i\<close> has an execution that is leased or completed.\<close>

definition settled :: "int \<Rightarrow> string \<Rightarrow> db \<Rightarrow> bool" where
  "settled T i d \<longleftrightarrow>
     (\<exists>e. executions d i = Some e \<and> T \<le> te_RetainUntil e \<and> (te_State e = ''executing'' \<longrightarrow> T \<le> te_LeaseExpiresAt e))"

interpretation settled: table_order "keeps (settled T i)" for T i
  by (rule keeps_order)


lemma ReplayClaim_Inr:
  assumes "ReplayClaim L i g r now w = (Inr v, w')"
  shows "v = fst (claim_step L i g r now (executions (tabs w) i))"
    and "executions (tabs w') = (executions (tabs w))(i \<mapsto> snd (claim_step L i g r now (executions (tabs w) i)))"
    and "0 < L"
proof -
  show pos: "0 < L" using assms by (auto simp: ReplayClaim_def throw_def split: if_splits)
  from wpD [OF ReplayClaim_wp [OF pos] assms]
  show "v = fst (claim_step L i g r now (executions (tabs w) i))"
    and "executions (tabs w') = (executions (tabs w))(i \<mapsto> snd (claim_step L i g r now (executions (tabs w) i)))"
    by simp_all
qed






lemma settled_other_tables [simp]:
  "settled T i (update_conns P f d) = settled T i d" "settled T i (update_sessions Q g d) = settled T i d"
  by (simp_all add: settled_def executions_def find_execution_def update_conns_def update_sessions_def)







section \<open>Properties\<close>



lemma record_reply_yields:
  assumes "executions_ok d"
  shows "yields d (record_reply i response now) (\<lambda>_ d'. \<exists>e. find_execution i d = Some e \<and>
     find_execution i d' = Some (e\<lparr>te_State := ''completed'', te_ResponseBytes := response, te_UpdatedAt := now\<rparr>))"
  unfolding record_reply_def Let_def
proof (intro y_exec_count y_guard)
  let ?hit = "\<lambda>e. te_DocumentID e = i \<and> te_State e = ''executing''"
  let ?f = "\<lambda>e :: trust_task_execution. e\<lparr>te_State := ''completed'', te_ResponseBytes := response, te_UpdatedAt := now\<rparr>"
  assume "count_where ?hit (t_executions d) = 1"
  then obtain e where e: "e \<in> set (t_executions d)" "?hit e"
    using count_where_pos_iff [of ?hit "t_executions d"] by auto
  have "find_execution i d = Some e"
    unfolding find_execution_def
    by (rule find_unique [of te_DocumentID]) (use assms e in \<open>auto simp: executions_ok_def\<close>)
  moreover have "find (\<lambda>e. te_DocumentID e = i) (update_where ?hit ?f (t_executions d))
      = map_option (\<lambda>r. if ?hit r then ?f r else r) (find (\<lambda>e. te_DocumentID e = i) (t_executions d))"
    by (rule find_update_where) simp
  ultimately show "\<exists>e. find_execution i d = Some e \<and>
      find_execution i (d\<lparr>t_executions := update_where ?hit ?f (t_executions d)\<rparr>) = Some (?f e)"
    using e by (auto simp: find_execution_def)
qed

lemma ClaimAndRecord_yields:
  assumes "executions_ok d"
  shows "yields d (ClaimAndRecord h v i response) (\<lambda>_ d'. response \<noteq> [] \<and> (\<exists>e n. find_execution i d = Some e \<and>
     find_execution i d' = Some (e\<lparr>te_State := ''completed'', te_ResponseBytes := response, te_UpdatedAt := n\<rparr>)))"
    (is "yields d _ (\<lambda>_ d'. ?Q d')")
proof -
  have ex: "find_execution i (update_conns P f d) = find_execution i d" "executions_ok (update_conns P f d)" for P f
    using assms by (simp_all add: find_execution_def executions_ok_def)
  have recorded: "yields (update_conns P f d) (record_reply i response now) (\<lambda>_. ?Q)" if "response \<noteq> []" for P f now
    by (rule yields_mono [OF record_reply_yields]) (use ex that in auto)
  have body: "yields (update_conns P f d) (bnd (if i \<noteq> [] then record_reply i response now else ret ()) (\<lambda>_. ret c)) (\<lambda>_. ?Q)"
    if "i \<noteq> [] \<and> response \<noteq> []" for P f now and c :: mobile_connection
    by (rule y_bnd [where P = "\<lambda>_. ?Q"]) (use that recorded in \<open>auto intro: y_ret\<close>)
  show ?thesis
    unfolding ClaimAndRecord_def claim_def lockSession_def Let_def
    by (intro y_if y_throw y_lift_err y_transaction y_first y_Now y_exec body; blast?)
qed

text \<open>
  A repeated document gets the recorded reply: after \<open>ClaimAndRecord\<close> has committed a wallet
  claim with its reply for document \<open>i\<close>, a claim of \<open>i\<close> with the digest it was first claimed with,
  within its retention, is a duplicate that is not in flight and carries exactly that reply.
\<close>

theorem claim_reply_replayed:
  assumes "executions_ok (tabs w)" and "ClaimAndRecord h v i response w = (Inr c, w1)"
    and "executions (tabs w) i = Some e" and "tabs u = tabs w1"
    and "ReplayClaim L i (te_DocumentDigest e) r t u = (Inr vd, u')" and "t < te_RetainUntil e"
  shows "vd = \<lparr>rv_Kind = VerdictDuplicate, rv_InFlight = False, rv_PriorResponse = response\<rparr>"
proof -
  obtain n where "find_execution i (tabs w1) =
      Some (e\<lparr>te_State := ''completed'', te_ResponseBytes := response, te_UpdatedAt := n\<rparr>)"
    using yieldsD [OF ClaimAndRecord_yields [OF assms(1)] assms(2)] assms(3) by (auto simp: executions_def)
  with ReplayClaim_Inr(1) [OF assms(5)] assms(4,6) show ?thesis
    by (simp add: claim_step_def executions_def)
qed

section \<open>Concrete runs\<close>





definition replied_world :: "db world" where
  "replied_world = calm_world (opened_db\<lparr>t_executions := [new_execution 10 ''doc'' ''dg'' 1000 0]\<rparr>) (\<lambda>n. int n)"

lemma replied_claim: "\<exists>c w1. ClaimAndRecord sample_handle sample_did ''doc'' ''ok'' replied_world = (Inr c, w1) \<and>
    fails w1 = (\<lambda>_. False)"
proof -
  have ex: "t_executions (update_conns P f (d\<lparr>t_executions := xs\<rparr>)) = xs" for P f d xs by simp
  have "find_handle sample_handle (opened_db\<lparr>t_executions := xs\<rparr>) = find_handle sample_handle opened_db"
    "find_session k (opened_db\<lparr>t_executions := xs\<rparr>) = find_session k opened_db" for xs k
    by (simp_all add: find_handle_def find_session_def)
  with opened_claimable sample_did_valid ex
  have "wp (ClaimAndRecord sample_handle sample_did ''doc'' ''ok'')
      (\<lambda>r w1. (\<exists>c. r = Inr c) \<and> fails w1 = (\<lambda>_. False)) replied_world"
    unfolding ClaimAndRecord_def claim_def lockSession_def record_reply_def Let_def
    by (auto simp: wp replied_world_def calm_world_def new_execution_def count_where_def)
  then show ?thesis
    by (cases "ClaimAndRecord sample_handle sample_did ''doc'' ''ok'' replied_world") (auto simp: wp_def)
qed

theorem claim_reply_replayed_witness:
  "\<exists>c w1 vd u'. ClaimAndRecord sample_handle sample_did ''doc'' ''ok'' replied_world = (Inr c, w1) \<and>
     ReplayClaim 10 ''doc'' ''dg'' 1000 5 w1 = (Inr vd, u') \<and> rv_PriorResponse vd = ''ok''"
proof -
  obtain c w1 where r: "ClaimAndRecord sample_handle sample_did ''doc'' ''ok'' replied_world = (Inr c, w1)"
    and calm: "fails w1 = (\<lambda>_. False)" using replied_claim by blast
  have ok: "executions_ok (tabs replied_world)" by (simp add: replied_world_def executions_ok_def)
  have e: "executions (tabs replied_world) ''doc'' = Some (new_execution 10 ''doc'' ''dg'' 1000 0)"
    by (simp add: replied_world_def executions_def find_execution_def new_execution_def)
  have "wp (ReplayClaim 10 ''doc'' ''dg'' 1000 5) (\<lambda>x _. \<exists>vd. x = Inr vd) w1"
    using calm by (auto simp: ReplayClaim_def wp insert_execution_def split: option.splits)
  then obtain vd u' where r': "ReplayClaim 10 ''doc'' ''dg'' 1000 5 w1 = (Inr vd, u')"
    by (cases "ReplayClaim 10 ''doc'' ''dg'' 1000 5 w1") (auto simp: wp_def)
  have "vd = \<lparr>rv_Kind = VerdictDuplicate, rv_InFlight = False, rv_PriorResponse = ''ok''\<rparr>"
  proof (rule claim_reply_replayed [OF ok r e refl])
    show "ReplayClaim 10 ''doc'' (te_DocumentDigest (new_execution 10 ''doc'' ''dg'' 1000 0)) 1000 5 w1 = (Inr vd, u')"
      using r' by (simp add: new_execution_def)
    show "5 < te_RetainUntil (new_execution 10 ''doc'' ''dg'' 1000 0)"
      by (simp add: new_execution_def)
  qed
  with r r' show ?thesis by auto
qed

end
