(* ===== verification/GoTime.thy ===== *)
theory GoTime
  imports Json
begin

text \<open>
  What the code uses of Go's \<open>time\<close>: instants in nanoseconds since 1970, and
  \<open>Time.Format(time.RFC3339)\<close> and \<open>time.Parse(time.RFC3339, _)\<close> over the proleptic Gregorian
  calendar. A parsed time carries the offset of its zone, in seconds, because formatting it again
  uses that offset; a time in UTC has offset 0.

  \<open>parse_format\<close> is the round trip: what \<open>Format\<close> writes, \<open>Parse\<close> reads back to the second.
\<close>

section \<open>The calendar\<close>

definition zero_time :: int where
  "zero_time = - 62135596800 * 1000000000"

definition leap :: "int \<Rightarrow> bool" where
  "leap y \<longleftrightarrow> y mod 4 = 0 \<and> (y mod 100 \<noteq> 0 \<or> y mod 400 = 0)"

text \<open>
  Days from 1 January of year 0 to 1 January of year \<open>y\<close>, and within a year to a month.
  \<open>ceil_by k y\<close> counts the multiples of \<open>k\<close> before \<open>y\<close>.
\<close>

definition ceil_by :: "int \<Rightarrow> int \<Rightarrow> int" where
  "ceil_by k y = (y + (k - 1)) div k"

definition days_before_year :: "int \<Rightarrow> int" where
  "days_before_year y = 365 * y + ceil_by 4 y - ceil_by 100 y + ceil_by 400 y"

definition days_before_month :: "int \<Rightarrow> nat \<Rightarrow> int" where
  "days_before_month y m =
     [0, 31, 59, 90, 120, 151, 181, 212, 243, 273, 304, 334, 365] ! (m - 1) + (if leap y \<and> 2 < m then 1 else 0)"

definition days_in :: "int \<Rightarrow> nat \<Rightarrow> int" where
  "days_in y m = [31, 28, 31, 30, 31, 30, 31, 31, 30, 31, 30, 31] ! (m - 1) + (if leap y \<and> m = 2 then 1 else 0)"

definition civil_to_days :: "int \<Rightarrow> nat \<Rightarrow> int \<Rightarrow> int" where
  "civil_to_days y m d = days_before_year y + days_before_month y m + (d - 1)"

definition year_of :: "int \<Rightarrow> int" where
  "year_of n = (let e = 400 * n div 146097 in
     if days_before_year (e + 1) \<le> n then e + 1 else if n < days_before_year e then e - 1 else e)"

definition month_of :: "int \<Rightarrow> int \<Rightarrow> nat" where
  "month_of y r = length (filter (\<lambda>m. days_before_month y m \<le> r) [1, 2, 3, 4, 5, 6, 7, 8, 9, 10, 11, 12])"

definition civil_of_days :: "int \<Rightarrow> int \<times> nat \<times> int" where
  "civil_of_days n = (let y = year_of n; r = n - days_before_year y; m = month_of y r
     in (y, m, r - days_before_month y m + 1))"

lemma ceil_by_bounds:
  assumes "0 < k"
  shows "k * ceil_by k y \<le> y + (k - 1)" "y \<le> k * ceil_by k y"
proof -
  let ?x = "y + (k - 1)"
  have x: "k * (?x div k) = ?x - ?x mod k" by (simp add: minus_mod_eq_mult_div)
  then show "k * ceil_by k y \<le> ?x" unfolding ceil_by_def using pos_mod_sign [OF assms, of ?x] by linarith
  show "y \<le> k * ceil_by k y" unfolding ceil_by_def using x pos_mod_bound [OF assms, of ?x] by linarith
qed

lemma ceil_by_Suc:
  assumes "0 < k"
  shows "ceil_by k (y + 1) = ceil_by k y + (if y mod k = 0 then 1 else 0)"
proof -
  have r: "0 \<le> y mod k" "y mod k < k" using assms by simp_all
  have "y + (k - 1) = (y mod k + (k - 1)) + k * (y div k)" using mult_div_mod_eq [of k y] by linarith
  then have "ceil_by k y = y div k + (y mod k + (k - 1)) div k"
    unfolding ceil_by_def by (simp only:) (subst div_mult_self2, use assms in simp_all)
  also have "(y mod k + (k - 1)) div k = (if y mod k = 0 then 0 else 1)"
  proof (cases "y mod k = 0")
    case True
    with assms show ?thesis by simp
  next
    case False
    then have "(y mod k + (k - 1)) div k = (y mod k - 1 + k) div k" by (simp add: algebra_simps)
    also have "\<dots> = (y mod k - 1) div k + 1" by (rule div_add_self2) (use assms in simp)
    also have "(y mod k - 1) div k = 0" using r False by (intro div_pos_pos_trivial) auto
    finally show ?thesis using False by simp
  qed
  finally have "ceil_by k y = y div k + (if y mod k = 0 then 0 else 1)" .
  moreover have "(y + k) div k = y div k + 1" by (rule div_add_self2) (use assms in simp)
  then have "ceil_by k (y + 1) = y div k + 1" by (simp add: ceil_by_def)
  ultimately show ?thesis by simp
qed

lemma days_before_year_Suc: "days_before_year (y + 1) = days_before_year y + (if leap y then 366 else 365)"
proof -
  have "y mod 400 = 0 \<longrightarrow> y mod 100 = 0" "y mod 100 = 0 \<longrightarrow> y mod 4 = 0"
    using dvd_trans [of 100 400 y] dvd_trans [of 4 100 y] by (simp_all add: mod_eq_0_iff_dvd)
  then show ?thesis
    unfolding days_before_year_def leap_def ceil_by_Suc [OF zero_less_numeral]
    by (cases "y mod 4 = 0"; cases "y mod 100 = 0"; cases "y mod 400 = 0") simp_all
qed

lemma year_of_bounds:
  "days_before_year (year_of n) \<le> n \<and> n < days_before_year (year_of n + 1)"
proof -
  define e where "e = 400 * n div 146097"
  define m where "m = 400 * n mod 146097"
  have "146097 * e + m = 400 * n" unfolding e_def m_def by (rule mult_div_mod_eq)
  moreover have "0 \<le> m" "m < 146097" by (simp_all add: m_def)
  ultimately have e: "146097 * e \<le> 400 * n" "400 * n < 146097 * e + 146097" by linarith+
  have lo: "400 * days_before_year y \<le> 146097 * y + 1200"
    and hi: "146097 * y \<le> 400 * days_before_year y + 400" for y
    using ceil_by_bounds [of 4 y] ceil_by_bounds [of 100 y] ceil_by_bounds [of 400 y]
    unfolding days_before_year_def by simp_all
  have "400 * days_before_year (e - 1) \<le> 146097 * e - 144897"
    "146097 * e + 291794 \<le> 400 * days_before_year (e + 2)"
    using lo [of "e - 1"] hi [of "e + 2"] by (simp_all add: right_diff_distrib distrib_left)
  then have "days_before_year (e - 1) \<le> n" "n < days_before_year (e + 2)" using e by linarith+
  then show ?thesis
    unfolding year_of_def Let_def e_def [symmetric] by (simp add: algebra_simps)
qed

lemma days_before_month_Suc:
  "m \<in> {1, 2, 3, 4, 5, 6, 7, 8, 9, 10, 11, 12} \<Longrightarrow> days_before_month y (m + 1) = days_before_month y m + days_in y m"
  by (auto simp: days_before_month_def days_in_def)

lemma month_of_eq:
  "month_of y r = length (filter (\<lambda>k. k \<le> r)
     (if leap y then [0, 31, 60, 91, 121, 152, 182, 213, 244, 274, 305, 335]
      else [0, 31, 59, 90, 120, 151, 181, 212, 243, 273, 304, 334]))"
proof -
  have "month_of y r = length (filter (\<lambda>k. k \<le> r) (map (days_before_month y) [1, 2, 3, 4, 5, 6, 7, 8, 9, 10, 11, 12]))"
    unfolding month_of_def filter_map by (simp only: length_map o_def)
  moreover have "map (days_before_month y) [1, 2, 3, 4, 5, 6, 7, 8, 9, 10, 11, 12] =
     (if leap y then [0, 31, 60, 91, 121, 152, 182, 213, 244, 274, 305, 335]
      else [0, 31, 59, 90, 120, 151, 181, 212, 243, 273, 304, 334])"
    by (cases "leap y") (simp_all add: days_before_month_def)
  ultimately show ?thesis by (simp only:)
qed

lemma month_of_bounds:
  assumes "0 \<le> r" "r < (if leap y then 366 else 365)"
  shows "month_of y r \<in> {1, 2, 3, 4, 5, 6, 7, 8, 9, 10, 11, 12} \<and> days_before_month y (month_of y r) \<le> r \<and>
    r < days_before_month y (month_of y r + 1)"
proof (cases "leap y")
  case True
  consider "r < 31" | "31 \<le> r" "r < 60" | "60 \<le> r" "r < 91" | "91 \<le> r" "r < 121"
    | "121 \<le> r" "r < 152" | "152 \<le> r" "r < 182" | "182 \<le> r" "r < 213" | "213 \<le> r" "r < 244"
    | "244 \<le> r" "r < 274" | "274 \<le> r" "r < 305" | "305 \<le> r" "r < 335" | "335 \<le> r"
    by linarith
  then show ?thesis
    using assms True by cases (simp_all add: month_of_eq days_before_month_def)
next
  case False
  consider "r < 31" | "31 \<le> r" "r < 59" | "59 \<le> r" "r < 90" | "90 \<le> r" "r < 120"
    | "120 \<le> r" "r < 151" | "151 \<le> r" "r < 181" | "181 \<le> r" "r < 212" | "212 \<le> r" "r < 243"
    | "243 \<le> r" "r < 273" | "273 \<le> r" "r < 304" | "304 \<le> r" "r < 334" | "334 \<le> r"
    by linarith
  then show ?thesis
    using assms False by cases (simp_all add: month_of_eq days_before_month_def)
qed

text \<open>Every day has its date, and the date gives the day back.\<close>

lemma civil_round_trip:
  assumes "civil_of_days n = (y, m, d)"
  shows "civil_to_days y m d = n \<and> m \<in> {1, 2, 3, 4, 5, 6, 7, 8, 9, 10, 11, 12} \<and> 1 \<le> d \<and> d \<le> days_in y m"
proof -
  from assms have y: "y = year_of n" by (simp add: civil_of_days_def Let_def)
  with assms have m: "m = month_of y (n - days_before_year y)" by (simp add: civil_of_days_def Let_def)
  with assms y have d: "d = n - days_before_year y - days_before_month y m + 1"
    by (simp add: civil_of_days_def Let_def)
  have "0 \<le> n - days_before_year y" "n - days_before_year y < (if leap y then 366 else 365)"
    using year_of_bounds [of n] days_before_year_Suc [of y] unfolding y by linarith+
  from month_of_bounds [OF this] have b: "m \<in> {1, 2, 3, 4, 5, 6, 7, 8, 9, 10, 11, 12}"
    "days_before_month y m \<le> n - days_before_year y" "n - days_before_year y < days_before_month y (m + 1)"
    unfolding m by blast+
  then show ?thesis using days_before_month_Suc [OF b(1), of y] d by (simp add: civil_to_days_def)
qed

section \<open>Digits\<close>

fun dec_digits :: "nat \<Rightarrow> int \<Rightarrow> string" where
  "dec_digits 0 n = []"
| "dec_digits (Suc w) n = dec_digits w (n div 10) @ [char_of (nat (n mod 10) + 48)]"

text \<open>\<open>appendInt\<close>: at least \<open>w\<close> digits.\<close>

definition appendInt :: "nat \<Rightarrow> int \<Rightarrow> string" where
  "appendInt w n = (if n < 0 then ''-'' else []) @
     (let s = FormatUint \<bar>n\<bar> in replicate (w - length s) (CHR ''0'') @ s)"

fun getnum2 :: "string \<Rightarrow> (int \<times> string) option" where
  "getnum2 (a # b # r) = (if is_digit a \<and> is_digit b then Some (10 * digit_val a + digit_val b, r) else None)"
| "getnum2 _ = None"

text \<open>The hour may be written with one digit.\<close>

fun gethour :: "string \<Rightarrow> (int \<times> string) option" where
  "gethour [] = None"
| "gethour (a # r) =
     (if \<not> is_digit a then None
      else case r of
        b # r' \<Rightarrow> if is_digit b then Some (10 * digit_val a + digit_val b, r') else Some (digit_val a, r)
      | [] \<Rightarrow> Some (digit_val a, []))"

definition getyear :: "string \<Rightarrow> (int \<times> string) option" where
  "getyear s = Option.bind (getnum2 s) (\<lambda>(h, r). Option.bind (getnum2 r) (\<lambda>(l, r'). Some (100 * h + l, r')))"

lemma digit_facts:
  assumes "0 \<le> n" "n < 10"
  shows "is_digit (char_of (nat n + 48))" "digit_val (char_of (nat n + 48)) = n"
  using assms by (simp_all add: is_digit_def digit_val_def)

lemma FormatUint_digits:
  "0 \<le> n \<Longrightarrow> n < 10 ^ Suc w \<Longrightarrow>
   length (FormatUint n) \<le> Suc w \<and> replicate (Suc w - length (FormatUint n)) (CHR ''0'') @ FormatUint n = dec_digits (Suc w) n"
proof (induction w arbitrary: n)
  case 0
  then show ?case by (simp add: FormatUint.simps)
next
  case (Suc w)
  have zero: "char_of (48 :: nat) = CHR ''0''" by code_simp
  have zeros: "dec_digits v 0 = replicate v (CHR ''0'')" for v
    by (induction v) (simp_all add: replicate_append_same zero)
  show ?case
  proof (cases "n < 10")
    case True
    with Suc.prems show ?thesis
      by (simp add: FormatUint.simps zeros replicate_append_same [symmetric] flip: replicate_Suc)
  next
    case False
    have "0 \<le> n div 10" "n div 10 < 10 ^ Suc w" using Suc.prems by auto
    from Suc.IH [OF this] False Suc.prems show ?thesis
      by (subst (1 2 3) FormatUint.simps) (auto simp: Suc_diff_le)
  qed
qed

lemma pad_digits: "0 \<le> n \<Longrightarrow> n < 10 ^ Suc w \<Longrightarrow> appendInt (Suc w) n = dec_digits (Suc w) n"
  using FormatUint_digits [of n w] by (simp add: appendInt_def Let_def)

lemma getnum2_pad: "0 \<le> n \<Longrightarrow> n < 100 \<Longrightarrow> getnum2 (appendInt 2 n @ r) = Some (n, r)"
proof -
  assume n: "0 \<le> n" "n < 100"
  then have "appendInt 2 n = dec_digits 2 n" using pad_digits [of n 1] by (simp add: numeral_2_eq_2)
  moreover have "0 \<le> n div 10" "n div 10 < 10" "0 \<le> n mod 10" "n mod 10 < 10" using n by auto
  ultimately show ?thesis using n by (simp add: numeral_2_eq_2 digit_facts)
qed

lemma gethour_pad: "0 \<le> n \<Longrightarrow> n < 100 \<Longrightarrow> gethour (appendInt 2 n @ r) = Some (n, r)"
proof -
  assume n: "0 \<le> n" "n < 100"
  then have "appendInt 2 n = dec_digits 2 n" using pad_digits [of n 1] by (simp add: numeral_2_eq_2)
  moreover have "0 \<le> n div 10" "n div 10 < 10" "0 \<le> n mod 10" "n mod 10 < 10" using n by auto
  ultimately show ?thesis using n by (simp add: numeral_2_eq_2 digit_facts)
qed

lemma digits_mod: "dec_digits 2 (n mod 100) = dec_digits 2 n"
proof -
  have "n mod (10 * 10) = 10 * (n div 10 mod 10) + n mod 10" by (rule zmod_zmult2_eq) simp
  then have m: "n mod 100 = 10 * (n div 10 mod 10) + n mod 10" by simp
  have "n mod 100 div 10 mod 10 = n div 10 mod 10" unfolding m by simp
  moreover have "n mod 100 mod 10 = n mod 10" unfolding m by simp
  ultimately show ?thesis by (simp add: numeral_2_eq_2)
qed

lemma getyear_pad: "0 \<le> n \<Longrightarrow> n < 10000 \<Longrightarrow> getyear (appendInt 4 n @ r) = Some (n, r)"
proof -
  assume n: "0 \<le> n" "n < 10000"
  then have "appendInt 4 n = dec_digits 4 n" using pad_digits [of n 3] by (simp add: eval_nat_numeral)
  also have "\<dots> = dec_digits 2 (n div 100) @ dec_digits 2 n"
  proof -
    have "n div 10 div 10 = n div 100" by (simp add: zdiv_zmult2_eq [symmetric])
    then show ?thesis by (simp add: eval_nat_numeral)
  qed
  also have "\<dots> = appendInt 2 (n div 100) @ appendInt 2 (n mod 100)"
    using n pad_digits [of "n div 100" 1] pad_digits [of "n mod 100" 1]
    by (simp add: digits_mod numeral_2_eq_2 [symmetric])
  finally show ?thesis
    using n by (simp add: getyear_def getnum2_pad)
qed

section \<open>RFC 3339\<close>

type_synonym go_time = "int \<times> int"

text \<open>\<open>Z07:00\<close>: Z for offset 0, else the sign, hours and minutes.\<close>

definition format_zone :: "int \<Rightarrow> string" where
  "format_zone off =
     (if off = 0 then ''Z''
      else let m = \<bar>off\<bar> div 60 in
        (if off < 0 then ''-'' else ''+'') @ appendInt 2 (m div 60) @ '':'' @ appendInt 2 (m mod 60))"

definition Format :: "go_time \<Rightarrow> string" where
  "Format t =
     (let s = fst t div 1000000000 + snd t; (y, m, d) = civil_of_days (s div 86400 + 719528); r = s mod 86400 in
      appendInt 4 y @ ''-'' @ appendInt 2 (int m) @ ''-'' @ appendInt 2 d @ ''T'' @
      appendInt 2 (r div 3600) @ '':'' @ appendInt 2 (r mod 3600 div 60) @ '':'' @ appendInt 2 (r mod 60) @ format_zone (snd t))"

fun skip_char :: "char \<Rightarrow> string \<Rightarrow> string option" where
  "skip_char c [] = None"
| "skip_char c (x # r) = (if x = c then Some r else None)"

text \<open>A fraction of a second is accepted although the layout has none; digits after the ninth are dropped.\<close>

definition getfraction :: "string \<Rightarrow> int \<times> string" where
  "getfraction s =
     (case s of
        c # d # r \<Rightarrow>
          if (c = CHR ''.'' \<or> c = CHR '','') \<and> is_digit d
          then let ds = takeWhile is_digit (d # r); used = take 9 ds in
            (foldl (\<lambda>a c. a * 10 + digit_val c) 0 used * 10 ^ (9 - length used), dropWhile is_digit (d # r))
          else (0, s)
      | _ \<Rightarrow> (0, s))"

fun getzone :: "string \<Rightarrow> (int \<times> string) option" where
  "getzone [] = None"
| "getzone (c # r) =
     (if c = CHR ''Z'' then Some (0, r)
      else if c \<noteq> CHR ''+'' \<and> c \<noteq> CHR ''-'' then None
      else Option.bind (getnum2 r) (\<lambda>(h, r).
           Option.bind (skip_char (CHR '':'') r) (\<lambda>r.
           Option.bind (getnum2 r) (\<lambda>(m, r).
           if h > 24 \<or> m > 60 then None
           else Some ((if c = CHR ''-'' then -1 else 1) * (h * 3600 + m * 60), r)))))"

definition Parse :: "string \<Rightarrow> go_time option" where
  "Parse s =
     Option.bind (getyear s) (\<lambda>(y, s).
     Option.bind (skip_char (CHR ''-'') s) (\<lambda>s.
     Option.bind (getnum2 s) (\<lambda>(mo, s).
     Option.bind (skip_char (CHR ''-'') s) (\<lambda>s.
     Option.bind (getnum2 s) (\<lambda>(d, s).
     Option.bind (skip_char (CHR ''T'') s) (\<lambda>s.
     Option.bind (gethour s) (\<lambda>(h, s).
     Option.bind (skip_char (CHR '':'') s) (\<lambda>s.
     Option.bind (getnum2 s) (\<lambda>(mi, s).
     Option.bind (skip_char (CHR '':'') s) (\<lambda>s.
     Option.bind (getnum2 s) (\<lambda>(sec, s).
     case getfraction s of (ns, s) \<Rightarrow>
     Option.bind (getzone s) (\<lambda>(off, s).
     if s \<noteq> [] \<or> mo < 1 \<or> 12 < mo \<or> d < 1 \<or> days_in y (nat mo) < d \<or> 24 \<le> h \<or> 60 \<le> mi \<or> 60 \<le> sec then None
     else Some (((civil_to_days y (nat mo) d - 719528) * 86400 + h * 3600 + mi * 60 + sec - off) * 1000000000 + ns, off)))))))))))))"

lemma divmod_split:
  fixes x k :: int
  assumes "0 < k" "x div k = q" "x mod k = r"
  shows "x = k * q + r" "0 \<le> r" "r < k"
  using assms mult_div_mod_eq [of k x] by auto

lemma getzone_format:
  assumes "off mod 60 = 0" "\<bar>off\<bar> < 90000"
  shows "getzone (format_zone off) = Some (off, [])"
proof (cases "off = 0")
  case True
  then show ?thesis by (simp add: format_zone_def)
next
  case False
  define n where "n = \<bar>off\<bar> div 60"
  define h where "h = n div 60"
  define m where "m = n mod 60"
  have "\<bar>off\<bar> mod 60 = 0" using assms(1) by (simp add: mod_eq_0_iff_dvd)
  then have o: "\<bar>off\<bar> = 60 * n" using divmod_split(1) [of 60 "\<bar>off\<bar>" n 0] by (simp add: n_def)
  have n: "n = 60 * h + m" "0 \<le> m" "m < 60" using divmod_split [of 60 n h m] by (simp_all add: h_def m_def)
  then have r: "0 \<le> h" "h \<le> 24" using o assms(2) by linarith+
  have z: "format_zone off = (if off < 0 then ''-'' else ''+'') @ appendInt 2 h @ '':'' @ appendInt 2 m"
    using False by (simp add: format_zone_def n_def [symmetric] h_def [symmetric] m_def [symmetric])
  have "getzone (format_zone off) = Some ((if off < 0 then -1 else 1) * (h * 3600 + m * 60), [])"
    using r n getnum2_pad [of m "[]"] unfolding z by (simp add: getnum2_pad)
  moreover have "(if off < 0 then -1 else 1) * (h * 3600 + m * 60) = off"
    using o n by (auto simp: abs_if split: if_splits)
  ultimately show ?thesis by simp
qed

lemma format_zone_start: "\<exists>c r. format_zone off = c # r \<and> c \<noteq> CHR ''.'' \<and> c \<noteq> CHR '',''"
  by (auto simp: format_zone_def Let_def)

lemma getfraction_zone: "getfraction (format_zone off) = (0, format_zone off)"
  using format_zone_start [of off] by (auto simp: getfraction_def split: list.splits)

text \<open>The round trip, for years of four digits and offsets of whole minutes.\<close>

lemma parse_format_lemma:
  assumes year: "fst (civil_of_days ((t div 1000000000 + off) div 86400 + 719528)) \<in> {0..9999}"
    and off: "off mod 60 = 0" "\<bar>off\<bar> < 90000"
  shows "Parse (Format (t, off)) = Some (t div 1000000000 * 1000000000, off)"
proof -
  define s where "s = t div 1000000000 + off"
  define q where "q = s div 86400"
  define r where "r = s mod 86400"
  define h where "h = r div 3600"
  define r' where "r' = r mod 3600"
  define mi where "mi = r' div 60"
  define se where "se = r' mod 60"
  obtain y m d where c: "civil_of_days (q + 719528) = (y, m, d)" by (metis prod_cases3)
  have y: "0 \<le> y" "y < 10000" using year c by (auto simp: s_def q_def)
  note rt = civil_round_trip [OF c]
  have m: "1 \<le> m" "m \<le> 12" using rt by auto
  have "days_in y m \<le> 31" using rt by (auto simp: days_in_def)
  then have d: "1 \<le> d" "d \<le> days_in y m" "d < 100" using rt by auto
  have s: "s = 86400 * q + r" "0 \<le> r" "r < 86400"
    using divmod_split [of 86400 s q r] by (simp_all add: q_def r_def)
  have r: "r = 3600 * h + r'" "0 \<le> r'" "r' < 3600"
    using divmod_split [of 3600 r h r'] by (simp_all add: h_def r'_def)
  have r': "r' = 60 * mi + se" "0 \<le> se" "se < 60"
    using divmod_split [of 60 r' mi se] by (simp_all add: mi_def se_def)
  have "r mod 60 = r' mod 60" unfolding r'_def by (rule mod_mod_cancel [symmetric]) simp
  then have f: "Format (t, off) = appendInt 4 y @ ''-'' @ appendInt 2 (int m) @ ''-'' @ appendInt 2 d @ ''T'' @
      appendInt 2 h @ '':'' @ appendInt 2 mi @ '':'' @ appendInt 2 se @ format_zone off"
    using c by (simp add: Format_def s_def [symmetric] q_def [symmetric] r_def [symmetric] h_def [symmetric]
        r'_def [symmetric] mi_def [symmetric] se_def [symmetric])
  have bounds: "0 \<le> h" "h < 24" "0 \<le> mi" "mi < 60" using s r r' by linarith+
  have "civil_to_days y m d = q + 719528" using rt by simp
  then have "(civil_to_days y m d - 719528) * 86400 + h * 3600 + mi * 60 + se - off = t div 1000000000"
    using s(1) r(1) r'(1) s_def by simp
  moreover have "Parse (Format (t, off)) =
      Some (((civil_to_days y m d - 719528) * 86400 + h * 3600 + mi * 60 + se - off) * 1000000000, off)"
    unfolding f Parse_def
    using m d y bounds r'
    by (simp add: getyear_pad getnum2_pad gethour_pad getfraction_zone getzone_format [OF off])
  ultimately show ?thesis by simp
qed

end
