(* ===== verification/WalletAuth.thy ===== *)
theory WalletAuth
  imports Replay GoTime
begin

text \<open>
  Who is signed in: \<open>internal/walletauth/store.go\<close> (the login bindings released claims leave
  behind, their revocation, and the lease on a sign-in request's redeem poll) and
  \<open>internal/middleware/auth.go\<close> (the session token, checked against the wallet sessions).

  The readings of \<open>time.Now()\<close> are the arguments \<open>now\<close>. The JWT library is a parameter: \<open>parse\<close>
  takes the key function, which is told whether the token's method is HMAC, and the token, and
  answers the claims of a valid token; \<open>sign\<close> makes a token.
\<close>

section \<open>The redeem poll of a sign-in request\<close>

definition wallet_poll_free :: "string \<Rightarrow> int \<Rightarrow> wallet_login_request \<Rightarrow> bool" where
  "wallet_poll_free requestID now r \<longleftrightarrow>
     wq_RequestID r = requestID \<and> wq_State r \<in> {''pending'', ''claimed'', ''identified''} \<and>
     (case wq_RedeemPollUntil r of None \<Rightarrow> True | Some u \<Rightarrow> u \<le> now)"

definition wallet_hold_poll :: "string \<Rightarrow> int \<Rightarrow> wallet_login_request \<Rightarrow> wallet_login_request" where
  "wallet_hold_poll pollID deadline r = r\<lparr>wq_RedeemPollID := Some pollID, wq_RedeemPollUntil := Some deadline\<rparr>"

interpretation wallet_poll: row_lease wq_RequestID wallet_poll_free wallet_hold_poll
  by unfold_locales (auto simp: wallet_poll_free_def wallet_hold_poll_def)

definition update_requests ::
  "(wallet_login_request \<Rightarrow> bool) \<Rightarrow> (wallet_login_request \<Rightarrow> wallet_login_request) \<Rightarrow> db \<Rightarrow> db" where
  "update_requests P f d = d\<lparr>t_wallet_requests := update_where P f (t_wallet_requests d)\<rparr>"

definition WalletAcquirePoll :: "string \<Rightarrow> string \<Rightarrow> int \<Rightarrow> int \<Rightarrow> bool dbtx" where
  "WalletAcquirePoll requestID pollID lease now =
     (if requestID = [] \<or> pollID = [] \<or> lease \<le> 0 then throw (NewError ''invalid wallet redeem poll lease'')
      else bnd (exec_count (\<lambda>d. count_where (wallet_poll_free requestID now) (t_wallet_requests d))
                  (update_requests (wallet_poll_free requestID now) (wallet_hold_poll pollID (now + lease))))
               (\<lambda>n. ret (n = 1)))"

definition WalletReleasePoll :: "string \<Rightarrow> string \<Rightarrow> unit dbtx" where
  "WalletReleasePoll requestID pollID =
     exec (update_requests (\<lambda>r. wq_RequestID r = requestID \<and> wq_RedeemPollID r = Some pollID)
             (\<lambda>r. r\<lparr>wq_RedeemPollID := None, wq_RedeemPollUntil := None\<rparr>))"

section \<open>Login bindings\<close>

text \<open>
  The join of released claims and their sessions, in table order (the query gives none). A NULL
  \<open>released_at\<close> scans into Go's zero time.
\<close>

definition released_claims :: "string \<Rightarrow> db \<Rightarrow> (mobile_connection \<times> setup_session) list" where
  "released_claims loginDID d =
     [(mc, s). mc \<leftarrow> t_conns d, s \<leftarrow> t_sessions d,
        ss_ID s = mc_SessionID mc \<and> mc_Status mc = ''released'' \<and>
        mc_Operation mc \<in> {OperationProvisionVTA, OperationGrantACL} \<and> mc_AdminDid mc = loginDID]"

definition materializeReleasedClaims :: "string \<Rightarrow> unit dbtx" where
  "materializeReleasedClaims loginDID =
     bnd (select (released_claims loginDID)) (\<lambda>sources.
     for_each sources (\<lambda>(mc, s).
       if mc_ClaimantDigest mc = None \<or> Some (ClaimantDigest (mc_AdminDid mc)) \<noteq> mc_ClaimantDigest mc then ret ()
       else exec (insert_binding (ss_UserID s) (mc_AdminDid mc) (ss_ID s) (mc_ID mc)
                    (case mc_ReleasedAt mc of None \<Rightarrow> zero_time | Some t \<Rightarrow> t))))"

definition active_bindings :: "string \<Rightarrow> db \<Rightarrow> wallet_login_binding list" where
  "active_bindings loginDID d =
     sort_key wb_ID (filter (\<lambda>b. wb_LoginDID b = loginDID \<and> wb_RevokedAt b = None) (t_bindings d))"

definition ActiveBindings :: "string \<Rightarrow> wallet_login_binding list dbtx" where
  "ActiveBindings loginDID =
     bnd (materializeReleasedClaims loginDID) (\<lambda>_. select (active_bindings loginDID))"

definition update_bindings ::
  "(wallet_login_binding \<Rightarrow> bool) \<Rightarrow> (wallet_login_binding \<Rightarrow> wallet_login_binding) \<Rightarrow> db \<Rightarrow> db" where
  "update_bindings P f d = d\<lparr>t_bindings := update_where P f (t_bindings d)\<rparr>"

definition update_wallet_sessions ::
  "(wallet_login_session \<Rightarrow> bool) \<Rightarrow> (wallet_login_session \<Rightarrow> wallet_login_session) \<Rightarrow> db \<Rightarrow> db" where
  "update_wallet_sessions P f d = d\<lparr>t_wallet_sessions := update_where P f (t_wallet_sessions d)\<rparr>"

definition RevokeBinding :: "nat \<Rightarrow> nat \<Rightarrow> int \<Rightarrow> unit dbtx" where
  "RevokeBinding userID bindingID now =
     transaction (
       bnd (first (\<lambda>d. find (\<lambda>b. wb_ID b = bindingID \<and> wb_UserID b = userID \<and> wb_RevokedAt b = None) (t_bindings d))) (\<lambda>binding.
       bnd (exec (update_bindings (\<lambda>b. wb_ID b = wb_ID binding) (\<lambda>b. b\<lparr>wb_RevokedAt := Some now\<rparr>))) (\<lambda>_.
       exec (update_wallet_sessions (\<lambda>s. ws_BindingID s = wb_ID binding \<and> ws_RevokedAt s = None)
               (\<lambda>s. s\<lparr>ws_RevokedAt := Some now\<rparr>)))))"

section \<open>Session tokens\<close>

record token_claims =
  cl_UserID :: nat
  cl_Role :: string
  cl_WalletSessionID :: string
  cl_ExpiresAt :: int
  cl_IssuedAt :: int

definition generateToken ::
  "(string \<Rightarrow> token_claims \<Rightarrow> err + string) \<Rightarrow> nat \<Rightarrow> string \<Rightarrow> string \<Rightarrow> string \<Rightarrow> int \<Rightarrow> int \<Rightarrow> err + string" where
  "generateToken sign userID role secret walletSessionID expiresAt now =
     sign secret \<lparr>cl_UserID = userID, cl_Role = role, cl_WalletSessionID = walletSessionID,
                  cl_ExpiresAt = expiresAt, cl_IssuedAt = now\<rparr>"

definition GenerateToken ::
  "(string \<Rightarrow> token_claims \<Rightarrow> err + string) \<Rightarrow> nat \<Rightarrow> string \<Rightarrow> string \<Rightarrow> int \<Rightarrow> err + string" where
  "GenerateToken sign userID role secret now =
     generateToken sign userID role secret [] (now + 24 * 60 * minute) now"

definition GenerateWalletToken ::
  "(string \<Rightarrow> token_claims \<Rightarrow> err + string) \<Rightarrow> nat \<Rightarrow> string \<Rightarrow> string \<Rightarrow> int \<Rightarrow> int \<Rightarrow> err + string" where
  "GenerateWalletToken sign userID secret sessionID expiresAt now =
     generateToken sign userID ''user'' secret sessionID expiresAt now"

type_synonym jwt_parser = "(bool \<Rightarrow> string option) \<Rightarrow> string \<Rightarrow> token_claims option"

datatype auth_result = Unauthorized string | Authorized nat string

text \<open>The join of \<open>AuthRequired\<close>: live sessions of the user with a live binding.\<close>

definition live_sessions :: "string \<Rightarrow> nat \<Rightarrow> int \<Rightarrow> db \<Rightarrow> (wallet_login_session \<times> wallet_login_binding) list" where
  "live_sessions sid userID now d =
     [(s, b). s \<leftarrow> t_wallet_sessions d, b \<leftarrow> t_bindings d,
        wb_ID b = ws_BindingID s \<and> ws_ID s = sid \<and> ws_UserID s = userID \<and>
        ws_RevokedAt s = None \<and> wb_RevokedAt b = None \<and> ws_ExpiresAt s > now]"

definition AuthRequired ::
  "jwt_parser \<Rightarrow> string \<Rightarrow> string option \<Rightarrow> string \<Rightarrow> int \<Rightarrow> auth_result dbtx" where
  "AuthRequired parse secret cookie header now =
     (let fromCookie = (case cookie of None \<Rightarrow> [] | Some v \<Rightarrow> v);
          tokenStr = (if fromCookie \<noteq> [] then fromCookie
                      else if HasPrefix header ''Bearer '' then TrimPrefix header ''Bearer '' else []) in
      if tokenStr = [] then ret (Unauthorized ''missing or invalid token'')
      else case parse (\<lambda>isHMAC. if isHMAC then Some secret else None) tokenStr of
        None \<Rightarrow> ret (Unauthorized ''invalid token'')
      | Some claims \<Rightarrow>
          if cl_WalletSessionID claims \<noteq> [] then
            bnd (attempt (select (\<lambda>d. length (live_sessions (cl_WalletSessionID claims) (cl_UserID claims) now d)))) (\<lambda>r.
            case r of
              Inl _ \<Rightarrow> ret (Unauthorized ''wallet session is no longer active'')
            | Inr n \<Rightarrow> if n \<noteq> 1 then ret (Unauthorized ''wallet session is no longer active'')
                       else ret (Authorized (cl_UserID claims) (cl_Role claims)))
          else ret (Authorized (cl_UserID claims) (cl_Role claims)))"

definition RequireRole :: "string \<Rightarrow> string option \<Rightarrow> bool" where
  "RequireRole role contextRole \<longleftrightarrow> contextRole = Some role"

section \<open>A revoked binding stays revoked\<close>

text \<open>Every row of the binding is revoked, and its id will not be given out again.\<close>

definition revoked :: "nat \<Rightarrow> db \<Rightarrow> bool" where
  "revoked i d \<longleftrightarrow> i \<le> seq_bindings d \<and> (\<forall>b \<in> set (t_bindings d). wb_ID b = i \<longrightarrow> wb_RevokedAt b \<noteq> None)"

interpretation revoked: table_order "keeps (revoked i)" for i
  by (rule keeps_order)

definition binding_ids_ok :: "db \<Rightarrow> bool" where
  "binding_ids_ok d \<longleftrightarrow> (\<forall>b \<in> set (t_bindings d). wb_ID b \<le> seq_bindings d)"

lemma revoked_insert_binding [simp]: "revoked i d \<Longrightarrow> revoked i (insert_binding u did s c now d)"
  by (auto simp: revoked_def insert_binding_def)

lemma revoked_not_active: "revoked i d \<Longrightarrow> b \<in> set (active_bindings did d) \<Longrightarrow> wb_ID b \<noteq> i"
  by (auto simp: revoked_def active_bindings_def)

lemma revoked_no_session: "revoked i d \<Longrightarrow> (s, b) \<in> set (live_sessions sid u now d) \<Longrightarrow> ws_BindingID s \<noteq> i"
  by (auto simp: revoked_def live_sessions_def)

lemma revoked_tables [simp]:
  "revoked i (update_requests P f d) = revoked i d" "revoked i (update_wallet_sessions Q g d) = revoked i d"
  "revoked i (update_conns P' f' d) = revoked i d" "revoked i (update_sessions Q' g' d) = revoked i d"
  by (simp_all add: revoked_def update_requests_def update_wallet_sessions_def update_conns_def update_sessions_def)

lemma stepping_materialize: "stepping (keeps (revoked i)) (materializeReleasedClaims did)"
  unfolding materializeReleasedClaims_def
  by (intro revoked.stepping_rules stepping_case_prod) (simp add: keeps_def)

lemma stepping_ActiveBindings: "stepping (keeps (revoked i)) (ActiveBindings did)"
  unfolding ActiveBindings_def by (intro revoked.stepping_rules stepping_materialize)

lemma revoked_update_binding:
  "revoked i d \<Longrightarrow> revoked i (update_bindings P (\<lambda>b. b\<lparr>wb_RevokedAt := Some now\<rparr>) d)"
  by (auto simp: revoked_def update_bindings_def)

lemma stepping_RevokeBinding: "stepping (keeps (revoked i)) (RevokeBinding u b now)"
  unfolding RevokeBinding_def
  by (intro revoked.stepping_rules) (auto simp: keeps_def intro: revoked_update_binding)

lemma RevokeBinding_yields:
  assumes "binding_ids_ok d"
  shows "yields d (RevokeBinding u i now) (\<lambda>_ d'. revoked i d' \<and>
     (\<forall>s \<in> set (t_wallet_sessions d'). ws_BindingID s = i \<longrightarrow> ws_RevokedAt s \<noteq> None))"
  unfolding RevokeBinding_def
proof (intro y_transaction y_first y_exec y_exec_last)
  fix x
  assume "find (\<lambda>b. wb_ID b = i \<and> wb_UserID b = u \<and> wb_RevokedAt b = None) (t_bindings d) = Some x"
  then have x: "x \<in> set (t_bindings d)" "wb_ID x = i" by (auto dest: find_SomeD)
  then show "revoked i (update_wallet_sessions (\<lambda>s. ws_BindingID s = wb_ID x \<and> ws_RevokedAt s = None)
        (\<lambda>s. s\<lparr>ws_RevokedAt := Some now\<rparr>) (update_bindings (\<lambda>b. wb_ID b = wb_ID x) (\<lambda>b. b\<lparr>wb_RevokedAt := Some now\<rparr>) d)) \<and>
      (\<forall>s \<in> set (t_wallet_sessions (update_wallet_sessions (\<lambda>s. ws_BindingID s = wb_ID x \<and> ws_RevokedAt s = None)
        (\<lambda>s. s\<lparr>ws_RevokedAt := Some now\<rparr>) (update_bindings (\<lambda>b. wb_ID b = wb_ID x) (\<lambda>b. b\<lparr>wb_RevokedAt := Some now\<rparr>) d))).
        ws_BindingID s = i \<longrightarrow> ws_RevokedAt s \<noteq> None)"
    using assms by (auto simp: revoked_def binding_ids_ok_def update_bindings_def update_wallet_sessions_def)
qed

end
