(* ===== verification/WalletLogin.thy ===== *)
theory WalletLogin
  imports WalletAuth
begin

text \<open>
  Sign-in with a wallet: the handlers of \<open>internal/handler/trust_task_oob.go\<close> over the table of
  sign-in requests (\<open>pending\<close>, \<open>claimed\<close>, \<open>identified\<close>, \<open>approved\<close>, \<open>consumed\<close>, or ended), and the
  proof check of \<open>internal/trusttask/crypto.go\<close> they call.

  A handler gets the issuer the trust-task library has authenticated and the decoded payload.
  It answers a refusal or a signed reply as a value, because what it wrote before a refusal
  stays written; a Go error is an error of the monad. The library's parts are the fields of
  \<open>oob_env\<close>: signing (which yields the canonical text of the signed document), schema validation,
  the inner proof verifier, the envelope parser, the reply codec and the token signer. Refusal
  texts are left out; a refusal is its code, its retryable flag and its details.
\<close>

section \<open>Reading the process clock and randomness\<close>

definition TimeNow :: "('t, int) tx" where
  "TimeNow w = (Inr (clock w (tick w)), w\<lparr>tick := Suc (tick w)\<rparr>)"

lemma wp_TimeNow [wp]: "wp TimeNow Q w \<longleftrightarrow> Q (Inr (clock w (tick w))) (w\<lparr>tick := Suc (tick w)\<rparr>)"
  by (simp add: wp_def TimeNow_def)

lemma y_TimeNow: "(\<And>t. yields d (g t) Q) \<Longrightarrow> yields d (bnd TimeNow g) Q"
  by (auto simp: yields_def wp)

lemma stepping_TimeNow: "(\<And>d. le d d) \<Longrightarrow> stepping le TimeNow"
  by (simp add: stepping_def wp)

text \<open>\<open>rand.Int\<close>: some number below \<open>n\<close> (at most 256), as the environment chooses.\<close>

definition rand_below :: "nat \<Rightarrow> ('t, nat) tx" where
  "rand_below n = bnd (rand_read 1) (\<lambda>raw. ret (of_char (hd raw) mod n))"

definition randomRequestID :: "string dbtx" where
  "randomRequestID = bnd (rand_read 16) (\<lambda>raw. ret (RawURLEncode raw))"

definition randomMatchNumber :: "string dbtx" where
  "randomMatchNumber =
     bnd (rand_below 100) (\<lambda>v. ret [char_of (48 + v div 10), char_of (48 + v mod 10)])"

definition requesterAgent :: "string \<Rightarrow> string \<times> string" where
  "requesterAgent userAgent =
     (let ua = ToLower userAgent in
      (if Contains ua ''edg/'' then ''Edge'' else if Contains ua ''chrome/'' then ''Chrome''
       else if Contains ua ''firefox/'' then ''Firefox'' else if Contains ua ''safari/'' then ''Safari''
       else ''unknown'',
       if Contains ua ''iphone'' \<or> Contains ua ''ipad'' then ''iOS'' else if Contains ua ''android'' then ''Android''
       else if Contains ua ''mac os'' then ''macOS'' else if Contains ua ''windows'' then ''Windows''
       else if Contains ua ''linux'' then ''Linux'' else ''unknown''))"

definition oobClaimWindow :: int where "oobClaimWindow = 2 * minute"
definition oobDecisionWindow :: int where "oobDecisionWindow = 2 * minute"
definition oobSessionLimit :: int where "oobSessionLimit = 24 * 60 * minute"

section \<open>Documents, replies and refusals\<close>

datatype network = UnknownNetwork | SameNetwork | OtherNetwork

datatype oob_reply =
    RequestReply (rp_RequestID: string) (rp_ClaimClosesAt: string)
  | ClaimReply (rp_RequestID: string) (rp_ServiceDID: string) (rp_ServiceName: string) (rp_Origin: string)
      (rp_DecisionClosesAt: string)
  | ProveReply (rp_RequestID: string) (rp_ServiceDID: string) (rp_ServiceName: string) (rp_Origin: string)
      (rp_DecisionClosesAt: string) (rp_SessionKey: string) (rp_Browser: string) (rp_Os: string)
      (rp_CreatedAt: string) (rp_SameNetwork: network) (rp_IdentifiedAs: string)
  | RespondReply (rp_Approved: bool)
  | RedeemReply (rp_Subject: string) (rp_DisplayName: string) (rp_SessionEndsAt: string) (rp_UserID: nat)
  | CancelReply

record refusal =
  rf_Code :: string
  rf_Retryable :: bool
  rf_Details :: "(string \<times> json) list"

definition refuse :: "string \<Rightarrow> bool \<Rightarrow> (string \<times> json) list \<Rightarrow> (refusal + 'a) dbtx" where
  "refuse code retryable details = ret (Inl \<lparr>rf_Code = code, rf_Retryable = retryable, rf_Details = details\<rparr>)"

text \<open>A document carried in a payload, decoded, with its raw text.\<close>

record 'p carried =
  cd_Raw :: string
  cd_ID :: string
  cd_Type :: string
  cd_Issuer :: "string option"
  cd_Recipient :: "string option"
  cd_IssuedAt :: "string option"
  cd_ExpiresAt :: "string option"
  cd_Payload :: 'p

record identify_payload =
  ip_RequestID :: string
  ip_ApproverKey :: string
  ip_EnteredNumber :: string

record grant_payload =
  gp_RequestID :: string
  gp_ApproverKey :: string
  gp_SessionKey :: string
  gp_Origin :: string
  gp_ContextDigest :: string
  gp_SigningScope :: bool
  gp_SessionEndsAt :: string
  gp_Approve :: bool

record oob_env =
  oe_farmDID :: string
  oe_farmName :: string
  oe_portalOrigin :: string
  oe_jwtSecret :: string
  oe_redeemHold :: int
  oe_sign :: "oob_reply \<Rightarrow> err + string"
  oe_schema :: "string \<Rightarrow> string \<Rightarrow> bool"
  oe_envelope :: "string \<Rightarrow> (string option \<times> (string \<times> string) option) option"
  oe_inner :: "string \<Rightarrow> bool"
  oe_encode :: "oob_reply \<Rightarrow> string"
  oe_decode :: "string \<Rightarrow> (string \<times> string) option"
  oe_token :: "string \<Rightarrow> token_claims \<Rightarrow> err + string"

abbreviation "oobIdentifyType \<equiv> ''auth/oob/identify/0.1''"
abbreviation "oobGrantType \<equiv> ''auth/oob/grant/0.3''"

section \<open>Proofs\<close>

definition VerifyDIDKey ::
  "(string \<Rightarrow> (string option \<times> (string \<times> string) option) option) \<Rightarrow> (string \<Rightarrow> bool) \<Rightarrow> string \<Rightarrow> string \<Rightarrow> string \<Rightarrow> bool" where
  "VerifyDIDKey envelope inner raw issuer purpose =
     (case envelope raw of
        None \<Rightarrow> False
      | Some (envIssuer, proof) \<Rightarrow>
          if envIssuer \<noteq> Some issuer \<or> \<not> HasPrefix issuer ''did:key:z6Mk'' then False
          else case proof of
            None \<Rightarrow> False
          | Some (proofPurpose, verificationMethod) \<Rightarrow>
              if proofPurpose \<noteq> purpose \<or> verificationMethod \<noteq> issuer @ ''#'' @ TrimPrefix issuer ''did:key:'' then False
              else inner raw)"

definition WalletVerify ::
  "(string \<Rightarrow> (string option \<times> (string \<times> string) option) option) \<Rightarrow> (string \<Rightarrow> bool) \<Rightarrow> string \<Rightarrow> bool" where
  "WalletVerify envelope inner raw =
     (case envelope raw of
        Some (Some issuer, Some (proofPurpose, _)) \<Rightarrow>
          if \<not> HasPrefix issuer ''did:key:z6Mk'' \<or> proofPurpose \<noteq> ''authentication'' then False
          else VerifyDIDKey envelope inner raw issuer ''authentication''
      | _ \<Rightarrow> False)"

definition DigestMultibase :: "string \<Rightarrow> string" where
  "DigestMultibase canonical = ''z'' @ EncodeBase58BTC ([CHR 0x12, CHR 0x20] @ sha256 canonical)"

text \<open>\<open>validateCarried\<close>, with its three readings of the clock.\<close>

definition validateCarried :: "oob_env \<Rightarrow> 'p carried \<Rightarrow> string \<Rightarrow> string \<Rightarrow> bool dbtx" where
  "validateCarried env doc expectedType purpose =
     bnd TimeNow (\<lambda>t1. bnd TimeNow (\<lambda>t2. bnd TimeNow (\<lambda>t3. ret (
       case (cd_Issuer doc, cd_IssuedAt doc) of
         (Some issuer, Some issuedAt) \<Rightarrow>
           if cd_Type doc \<noteq> expectedType \<or> cd_Recipient doc \<noteq> Some (oe_farmDID env) \<or> cd_ID doc = [] then False
           else if \<not> oe_schema env expectedType (cd_Raw doc) then False
           else (case Parse issuedAt of
             None \<Rightarrow> False
           | Some (issued, _) \<Rightarrow>
               if issued < t1 - 10 * minute \<or> t2 + minute < issued then False
               else (case cd_ExpiresAt doc of
                 None \<Rightarrow> VerifyDIDKey (oe_envelope env) (oe_inner env) (cd_Raw doc) issuer purpose
               | Some expiresAt \<Rightarrow>
                   (case Parse expiresAt of
                      None \<Rightarrow> False
                    | Some (expires, _) \<Rightarrow>
                        t3 < expires \<and>
                        VerifyDIDKey (oe_envelope env) (oe_inner env) (cd_Raw doc) issuer purpose)))
       | _ \<Rightarrow> False))))"

definition signedOOBResponse :: "oob_env \<Rightarrow> oob_reply \<Rightarrow> (oob_reply \<times> string) dbtx" where
  "signedOOBResponse env payload = bnd (lift_err (oe_sign env payload)) (\<lambda>doc. ret (payload, doc))"

section \<open>The table of sign-in requests\<close>

definition find_login :: "string \<Rightarrow> db \<Rightarrow> wallet_login_request option" where
  "find_login i d = find (\<lambda>r. wq_RequestID r = i) (t_wallet_requests d)"

abbreviation login_is :: "string \<Rightarrow> wallet_login_request \<Rightarrow> bool" where
  "login_is i r \<equiv> wq_RequestID r = i"

definition declineWalletRequest :: "string \<Rightarrow> string \<Rightarrow> unit dbtx" where
  "declineWalletRequest requestID from_state =
     bnd TimeNow (\<lambda>now.
     bnd (attempt (exec (update_requests (\<lambda>r. wq_RequestID r = requestID \<and> wq_State r = from_state)
            (\<lambda>r. r\<lparr>wq_State := ''declined'', wq_EndedAt := Some now\<rparr>)))) (\<lambda>_. ret ()))"

definition new_login :: "string \<Rightarrow> string \<Rightarrow> string \<Rightarrow> string \<Rightarrow> string \<Rightarrow> string \<Rightarrow> int \<Rightarrow> wallet_login_request" where
  "new_login requestID starter net origin browser osName now =
     \<lparr>wq_RequestID = requestID, wq_State = ''pending'', wq_StarterDID = starter,
      wq_StarterNetworkDigest = net, wq_ApproverDID = None, wq_Origin = origin,
      wq_MatchNumber = None, wq_MatchNumberDelivered = False, wq_RequesterBrowser = browser,
      wq_RequesterOS = osName, wq_IdentifiedDID = None, wq_BindingID = None, wq_UserID = None,
      wq_Step1 = [], wq_Step2Digest = None, wq_GrantDocument = [], wq_SessionEndsAt = None,
      wq_WalletSessionID = None, wq_RedeemPollID = None, wq_RedeemPollUntil = None,
      wq_CreatedAt = now, wq_ClaimClosesAt = now + oobClaimWindow, wq_DecisionClosesAt = None,
      wq_EndedAt = None\<rparr>"

section \<open>Starting and claiming a request\<close>

definition oobRequest ::
  "oob_env \<Rightarrow> string option \<Rightarrow> string \<Rightarrow> string \<Rightarrow> string \<Rightarrow> (refusal + oob_reply \<times> string) dbtx" where
  "oobRequest env issuer originHeader clientIP userAgent =
     (if originHeader \<noteq> oe_portalOrigin env then refuse ''permissionDenied'' False []
      else case issuer of
        None \<Rightarrow> refuse ''auth/oob:keyUnsupported'' False []
      | Some starter \<Rightarrow>
          bnd TimeNow (\<lambda>now.
          let net = sha256 clientIP in
          bnd (select (\<lambda>d. count_where (\<lambda>r. wq_StarterNetworkDigest r = net \<and>
                 wq_State r \<in> {''pending'', ''claimed'', ''identified'', ''approved''} \<and> wq_ClaimClosesAt r > now)
                 (t_wallet_requests d))) (\<lambda>open_count.
          if open_count \<ge> 5 then refuse ''auth/oob/request:rateLimited'' True []
          else
            bnd randomRequestID (\<lambda>requestID.
            case requesterAgent userAgent of (browser, osName) \<Rightarrow>
            bnd (exec_checked (\<lambda>d. find_login requestID d = None)
                   (\<lambda>d. d\<lparr>t_wallet_requests := t_wallet_requests d @
                      [new_login requestID starter net (oe_portalOrigin env) browser osName now]\<rparr>)) (\<lambda>_.
            bnd (signedOOBResponse env (RequestReply requestID (Format (now + oobClaimWindow, 0)))) (\<lambda>reply.
            ret (Inr reply)))))))"

definition oobClaim_tx :: "oob_env \<Rightarrow> string \<Rightarrow> string \<Rightarrow> int \<Rightarrow> (oob_reply \<times> string) dbtx" where
  "oobClaim_tx env approver requestID now =
     transaction (
       bnd (first (find_login requestID)) (\<lambda>rec.
       if wq_State rec \<noteq> ''pending'' then throw (WalletStateError ''alreadyClaimed'')
       else if \<not> now < wq_ClaimClosesAt rec then
         bnd (exec (update_requests (login_is (wq_RequestID rec))
                (\<lambda>r. r\<lparr>wq_State := ''expired'', wq_EndedAt := Some now\<rparr>))) (\<lambda>_.
         throw (WalletStateError ''requestExpired''))
       else
         bnd randomMatchNumber (\<lambda>matchNumber.
         let decisionClosesAt = now + oobDecisionWindow;
             payload = ClaimReply (wq_RequestID rec) (oe_farmDID env) (oe_farmName env) (wq_Origin rec)
               (Format (decisionClosesAt, 0)) in
         bnd (signedOOBResponse env payload) (\<lambda>response.
         bnd (exec (update_requests (login_is (wq_RequestID rec))
                (\<lambda>r. r\<lparr>wq_State := ''claimed'', wq_ApproverDID := Some approver,
                       wq_MatchNumber := Some matchNumber, wq_DecisionClosesAt := Some decisionClosesAt,
                       wq_Step1 := oe_encode env payload\<rparr>))) (\<lambda>_.
         ret response)))))"

definition oobClaim ::
  "oob_env \<Rightarrow> string option \<Rightarrow> string option \<Rightarrow> string \<Rightarrow> (refusal + oob_reply \<times> string) dbtx" where
  "oobClaim env issuer parentThread requestID =
     (case issuer of
        None \<Rightarrow> refuse ''malformedRequest'' False []
      | Some approver \<Rightarrow>
          if parentThread \<noteq> Some requestID then refuse ''malformedRequest'' False []
          else
            bnd TimeNow (\<lambda>now.
            bnd (attempt (oobClaim_tx env approver requestID now)) (\<lambda>r.
            case r of
              Inr response \<Rightarrow> ret (Inr response)
            | Inl e \<Rightarrow>
                if e = RecordNotFound then refuse ''auth/oob:requestNotFound'' False []
                else case e of
                  WalletStateError st \<Rightarrow> refuse (''auth/oob/claim:'' @ st) False []
                | _ \<Rightarrow> throw e)))"

section \<open>Proving who approves, and deciding\<close>

definition not_authorized :: "(refusal + 'a) dbtx" where
  "not_authorized = refuse ''auth/oob:notAuthorized'' False []"

definition request_not_found :: "(refusal + 'a) dbtx" where
  "request_not_found = refuse ''auth/oob:requestNotFound'' False []"

definition decline_and :: "string \<Rightarrow> string \<Rightarrow> (refusal + 'a) dbtx \<Rightarrow> (refusal + 'a) dbtx" where
  "decline_and requestID from_state m = bnd (declineWalletRequest requestID from_state) (\<lambda>_. m)"

text \<open>Whether a deadline that may be missing is still ahead.\<close>

definition before_deadline :: "int \<Rightarrow> int option \<Rightarrow> bool" where
  "before_deadline now deadline = (case deadline of None \<Rightarrow> False | Some t \<Rightarrow> now < t)"

definition same_network :: "string \<Rightarrow> string \<Rightarrow> network" where
  "same_network clientIP digest =
     (if digest \<noteq> [] \<and> clientIP \<noteq> [] then (if sha256 clientIP = digest then SameNetwork else OtherNetwork)
      else UnknownNetwork)"

text \<open>The columns \<open>oobProve\<close> writes: with one binding the account is chosen at once.\<close>

definition identify_row ::
  "string \<Rightarrow> string \<Rightarrow> wallet_login_binding list \<Rightarrow> wallet_login_request \<Rightarrow> wallet_login_request" where
  "identify_row identified digest bindings r =
     (let r' = r\<lparr>wq_State := ''identified'', wq_IdentifiedDID := Some identified, wq_Step2Digest := Some digest\<rparr> in
      case bindings of
        [b] \<Rightarrow> r'\<lparr>wq_BindingID := Some (wb_ID b), wq_UserID := Some (wb_UserID b)\<rparr>
      | _ \<Rightarrow> r')"

text \<open>
  The carried document \<open>identify\<close> is an error when it cannot be marshalled, and \<open>None\<close> when it
  cannot be decoded.
\<close>

definition prove_identified ::
  "oob_env \<Rightarrow> string \<Rightarrow> string \<Rightarrow> wallet_login_request \<Rightarrow> string \<Rightarrow> wallet_login_binding list
     \<Rightarrow> (refusal + oob_reply \<times> string) dbtx" where
  "prove_identified env clientIP approver rec identified bindings =
     (case oe_decode env (wq_Step1 rec) of
        None \<Rightarrow> throw LibraryFailure
      | Some (serviceDID, serviceName) \<Rightarrow>
          let payload = ProveReply (wq_RequestID rec) serviceDID serviceName (wq_Origin rec)
                (Format (the (wq_DecisionClosesAt rec), 0)) (wq_StarterDID rec) (wq_RequesterBrowser rec)
                (wq_RequesterOS rec) (Format (wq_CreatedAt rec, 0))
                (same_network clientIP (wq_StarterNetworkDigest rec)) identified;
              hit = (\<lambda>r. wq_RequestID r = wq_RequestID rec \<and> wq_State r = ''claimed'' \<and> wq_ApproverDID r = Some approver) in
          bnd (signedOOBResponse env payload) (\<lambda>response.
          bnd (exec_count (\<lambda>d. count_where hit (t_wallet_requests d))
                 (update_requests hit (identify_row identified (DigestMultibase (snd response)) bindings))) (\<lambda>n.
          if n \<noteq> 1 then refuse ''auth/oob:requestExpired'' False [] else ret (Inr response))))"

definition oobProve ::
  "oob_env \<Rightarrow> string option \<Rightarrow> string \<Rightarrow> err + identify_payload carried option \<Rightarrow> (refusal + oob_reply \<times> string) dbtx" where
  "oobProve env issuer clientIP doc =
     bnd (lift_err doc) (\<lambda>decoded.
     case decoded of None \<Rightarrow> not_authorized
     | Some identify \<Rightarrow> (case cd_Issuer identify of None \<Rightarrow> not_authorized
     | Some identified \<Rightarrow>
         bnd (attempt (first (find_login (ip_RequestID (cd_Payload identify))))) (\<lambda>found.
         case found of Inl _ \<Rightarrow> request_not_found
         | Inr rec \<Rightarrow>
             bnd TimeNow (\<lambda>now.
             if issuer = None \<or> wq_ApproverDID rec \<noteq> issuer \<or> wq_State rec \<noteq> ''claimed'' \<or>
                \<not> before_deadline now (wq_DecisionClosesAt rec)
             then not_authorized
             else
               bnd (validateCarried env identify oobIdentifyType ''authentication'') (\<lambda>valid.
               if \<not> valid \<or> Some (ip_ApproverKey (cd_Payload identify)) \<noteq> issuer \<or>
                  ip_RequestID (cd_Payload identify) \<noteq> wq_RequestID rec
               then decline_and (wq_RequestID rec) ''claimed'' not_authorized
               else
                 bnd (attempt (ActiveBindings identified)) (\<lambda>bound.
                 case bound of Inl _ \<Rightarrow> decline_and (wq_RequestID rec) ''claimed'' not_authorized
                 | Inr bindings \<Rightarrow>
                     if bindings = [] then decline_and (wq_RequestID rec) ''claimed'' not_authorized
                     else if Some (ip_EnteredNumber (cd_Payload identify)) \<noteq> wq_MatchNumber rec
                     then decline_and (wq_RequestID rec) ''claimed'' (refuse ''auth/oob/prove:numberMismatch'' False [])
                     else prove_identified env clientIP (the issuer) rec identified bindings))))))"

text \<open>The bindings that may still carry an approval.\<close>

definition approvable :: "string \<Rightarrow> wallet_login_request \<Rightarrow> wallet_login_binding \<Rightarrow> bool" where
  "approvable loginDID rec b \<longleftrightarrow>
     wb_LoginDID b = loginDID \<and> wb_RevokedAt b = None \<and>
     (case (wq_BindingID rec, wq_UserID rec) of
        (Some i, Some u) \<Rightarrow> wb_ID b = i \<and> wb_UserID b = u
      | _ \<Rightarrow> True)"

definition grant_context_ok :: "string \<Rightarrow> wallet_login_request \<Rightarrow> grant_payload \<Rightarrow> bool" where
  "grant_context_ok approver rec g \<longleftrightarrow>
     gp_RequestID g = wq_RequestID rec \<and> gp_ApproverKey g = approver \<and> gp_SessionKey g = wq_StarterDID rec \<and>
     gp_Origin g = wq_Origin rec \<and> Some (gp_ContextDigest g) = wq_Step2Digest rec \<and> \<not> gp_SigningScope g"

definition decide_row :: "bool \<Rightarrow> string \<Rightarrow> int \<Rightarrow> int \<Rightarrow> wallet_login_request \<Rightarrow> wallet_login_request" where
  "decide_row approve grantRaw sessionEndsAt now r =
     (if approve then r\<lparr>wq_State := ''approved'', wq_GrantDocument := grantRaw, wq_SessionEndsAt := Some sessionEndsAt\<rparr>
      else r\<lparr>wq_State := ''declined'', wq_EndedAt := Some now, wq_GrantDocument := grantRaw\<rparr>)"

definition record_decision ::
  "oob_env \<Rightarrow> wallet_login_request \<Rightarrow> bool \<Rightarrow> string \<Rightarrow> int \<Rightarrow> int \<Rightarrow> (refusal + oob_reply \<times> string) dbtx" where
  "record_decision env rec approve grantRaw sessionEndsAt now =
     (let hit = (\<lambda>r. wq_RequestID r = wq_RequestID rec \<and> wq_State r = ''identified'') in
      bnd (exec_count (\<lambda>d. count_where hit (t_wallet_requests d))
             (update_requests hit (decide_row approve grantRaw sessionEndsAt now))) (\<lambda>n.
      if n \<noteq> 1 then refuse ''auth/oob:alreadyDecided'' False []
      else bnd (signedOOBResponse env (RespondReply approve)) (\<lambda>response. ret (Inr response))))"

definition oobRespond ::
  "oob_env \<Rightarrow> string option \<Rightarrow> err + grant_payload carried option \<Rightarrow> (refusal + oob_reply \<times> string) dbtx" where
  "oobRespond env issuer doc =
     bnd (lift_err doc) (\<lambda>decoded.
     case decoded of None \<Rightarrow> not_authorized
     | Some grant \<Rightarrow> (case cd_Issuer grant of None \<Rightarrow> not_authorized
     | Some grantIssuer \<Rightarrow>
         bnd (attempt (first (find_login (gp_RequestID (cd_Payload grant))))) (\<lambda>found.
         case found of Inl _ \<Rightarrow> request_not_found
         | Inr rec \<Rightarrow>
             bnd TimeNow (\<lambda>now.
             if issuer = None \<or> wq_ApproverDID rec \<noteq> issuer \<or> wq_IdentifiedDID rec \<noteq> Some grantIssuer \<or>
                wq_State rec \<noteq> ''identified'' \<or> \<not> before_deadline now (wq_DecisionClosesAt rec)
             then not_authorized
             else
               bnd (validateCarried env grant oobGrantType ''assertionMethod'') (\<lambda>valid.
               if \<not> valid then decline_and (wq_RequestID rec) ''identified'' not_authorized
               else if \<not> grant_context_ok (the issuer) rec (cd_Payload grant)
               then decline_and (wq_RequestID rec) ''identified'' (refuse ''auth/oob/respond:contextMismatch'' False [])
               else
                 bnd TimeNow (\<lambda>now'.
                 case Parse (gp_SessionEndsAt (cd_Payload grant)) of
                   None \<Rightarrow> decline_and (wq_RequestID rec) ''identified'' not_authorized
                 | Some (sessionEndsAt, _) \<Rightarrow>
                     if \<not> now' < sessionEndsAt then decline_and (wq_RequestID rec) ''identified'' not_authorized
                     else
                       bnd TimeNow (\<lambda>ended.
                       if gp_Approve (cd_Payload grant) then
                         bnd (attempt (select (\<lambda>d. count_where (approvable grantIssuer rec) (t_bindings d)))) (\<lambda>count.
                         if (case count of Inl _ \<Rightarrow> True | Inr n \<Rightarrow> n = 0)
                         then decline_and (wq_RequestID rec) ''identified'' not_authorized
                         else record_decision env rec True (cd_Raw grant) sessionEndsAt ended)
                       else record_decision env rec False (cd_Raw grant) sessionEndsAt ended)))))))"

section \<open>Redeeming\<close>

definition walletRedeemPending :: "string \<Rightarrow> bool" where
  "walletRedeemPending st \<longleftrightarrow> st = ''pending'' \<or> st = ''claimed'' \<or> st = ''identified''"

definition walletAccountChoices :: "string \<Rightarrow> (nat \<times> string) list dbtx" where
  "walletAccountChoices loginDID = select (\<lambda>d.
     [(wb_ID b, u_UniqueId u). b \<leftarrow> sort_key wb_ID (t_bindings d), u \<leftarrow> t_users d,
        u_ID u = wb_UserID b \<and> wb_LoginDID b = loginDID \<and> wb_RevokedAt b = None])"

definition choices_json :: "(nat \<times> string) list \<Rightarrow> json" where
  "choices_json accounts =
     JArr (map (\<lambda>(i, name). JObj [(''bindingId'', JNum (FormatUint (int i))), (''displayName'', JStr name)]) accounts)"

text \<open>
  \<open>walletSelectedBinding\<close>: \<open>None\<close> is its error, \<open>Some None\<close> no selection. A member the struct
  does not have is an error; a raw message holds exactly one value.
\<close>

definition selection_field :: "int \<Rightarrow> json \<Rightarrow> int option" where
  "selection_field cur v = (if v = JNull then Some cur else um_uint 64 v)"

definition walletSelectedBinding :: "(string \<times> json) list option \<Rightarrow> nat option option" where
  "walletSelectedBinding ext =
     (case ext of None \<Rightarrow> Some None
      | Some kvs \<Rightarrow>
          (case member kvs ''com.ic3software.vtafarm'' of None \<Rightarrow> Some None
           | Some raw \<Rightarrow>
               (case um_struct (\<lambda>fields. if list_all (\<lambda>(k, _). EqualFold k ''bindingId'') fields
                                         then struct_field selection_field ''bindingId'' 0 fields else None) 0 raw of
                  None \<Rightarrow> None
                | Some i \<Rightarrow> if i = 0 then None else Some (Some (nat i)))))"

text \<open>\<open>defer\<close>: the cleanup runs on every way out of the function; its error is dropped.\<close>

definition deferred :: "('t, unit) tx \<Rightarrow> ('t, 'a) tx \<Rightarrow> ('t, 'a) tx" where
  "deferred cleanup m = bnd (attempt m) (\<lambda>r. bnd (attempt cleanup) (\<lambda>_. lift_err r))"

type_synonym redeemed = "(err + oob_reply \<times> string) \<times> (string \<times> int)"

definition new_wallet_session :: "string \<Rightarrow> wallet_login_binding \<Rightarrow> int \<Rightarrow> int \<Rightarrow> wallet_login_session" where
  "new_wallet_session sid binding sessionEnd now =
     \<lparr>ws_ID = sid, ws_BindingID = wb_ID binding, ws_UserID = wb_UserID binding, ws_ExpiresAt = sessionEnd,
      ws_CreatedAt = now, ws_RevokedAt = None\<rparr>"

text \<open>The transaction of \<open>redeemApproved\<close>: the session it opens or recovers.\<close>

definition open_session ::
  "wallet_login_request \<Rightarrow> wallet_login_request \<Rightarrow> wallet_login_binding \<Rightarrow> int \<Rightarrow> int \<Rightarrow> wallet_login_session dbtx" where
  "open_session rec current binding limit now =
     (if wq_State current = ''approved'' then
        bnd new_uuid (\<lambda>sid.
        let s = new_wallet_session sid binding limit now in
        bnd (exec_checked (\<lambda>d. sid \<notin> ws_ID ` set (t_wallet_sessions d))
               (\<lambda>d. d\<lparr>t_wallet_sessions := t_wallet_sessions d @ [s]\<rparr>)) (\<lambda>_.
        bnd (exec (update_requests (login_is (wq_RequestID current))
               (\<lambda>r. r\<lparr>wq_State := ''consumed'', wq_EndedAt := Some now, wq_WalletSessionID := Some sid\<rparr>))) (\<lambda>_.
        ret s)))
      else case (if wq_State current = ''consumed'' then wq_WalletSessionID current else None) of
        Some sid \<Rightarrow> first (\<lambda>d. find (\<lambda>s. ws_ID s = sid \<and> ws_RevokedAt s = None \<and> ws_ExpiresAt s > now) (t_wallet_sessions d))
      | None \<Rightarrow> throw (WalletStateError ''alreadyDecided''))"

definition redeem_tx ::
  "oob_env \<Rightarrow> wallet_login_request \<Rightarrow> nat \<Rightarrow> nat \<Rightarrow> string \<Rightarrow> int \<Rightarrow> (user \<times> wallet_login_session \<times> string) dbtx" where
  "redeem_tx env rec bindingID userID identified recordEnd =
     transaction (
       bnd (first (find_login (wq_RequestID rec))) (\<lambda>current.
       bnd (first (\<lambda>d. find (\<lambda>b. wb_ID b = bindingID \<and> wb_UserID b = userID \<and> wb_LoginDID b = identified \<and>
                                wb_RevokedAt b = None) (t_bindings d))) (\<lambda>binding.
       bnd (first (\<lambda>d. find (\<lambda>u. u_ID u = wb_UserID binding) (t_users d))) (\<lambda>user.
       bnd TimeNow (\<lambda>now.
       let limit = min recordEnd (now + oobSessionLimit) in
       if \<not> now < limit then throw (WalletStateError ''requestExpired'')
       else
         bnd (open_session rec current binding limit now) (\<lambda>s.
         bnd TimeNow (\<lambda>issued.
         bnd (lift_err (GenerateWalletToken (oe_token env) (u_ID user) (oe_jwtSecret env) (ws_ID s) (ws_ExpiresAt s) issued))
           (\<lambda>token. ret (user, s, token)))))))))"

definition redeemApproved :: "oob_env \<Rightarrow> wallet_login_request \<Rightarrow> (refusal + redeemed) dbtx" where
  "redeemApproved env rec =
     (case (wq_BindingID rec, wq_UserID rec, wq_IdentifiedDID rec, wq_SessionEndsAt rec) of
        (Some bindingID, Some userID, Some identified, Some recordEnd) \<Rightarrow>
          bnd (attempt (redeem_tx env rec bindingID userID identified recordEnd)) (\<lambda>r.
          case r of Inl _ \<Rightarrow> not_authorized
          | Inr (user, s, token) \<Rightarrow>
              bnd TimeNow (\<lambda>now.
              let maxAge = (ws_ExpiresAt s - now) div second in
              if maxAge < 1 then refuse ''auth/oob:requestExpired'' False []
              else
                bnd (attempt (signedOOBResponse env
                       (RedeemReply identified (u_UniqueId user) (Format (ws_ExpiresAt s, 0)) (u_ID user)))) (\<lambda>signed.
                ret (Inr (signed, (token, maxAge))))))
      | _ \<Rightarrow> not_authorized)"

text \<open>
  What ends one round of the wait of \<open>oobRedeem\<close>: the ticker, the hold's timer, or the caller's
  cancellation, each after the changes other requests have made meanwhile. When the listed
  rounds are used up the timer fires.
\<close>

datatype poll_event = PollTick "db \<Rightarrow> db" | PollTimeout | PollCancelled

definition others :: "(db \<Rightarrow> db) \<Rightarrow> unit dbtx" where
  "others f w = (Inr (), w\<lparr>tabs := f (tabs w)\<rparr>)"

definition login_lapsed :: "int \<Rightarrow> wallet_login_request \<Rightarrow> bool" where
  "login_lapsed now rec \<longleftrightarrow>
     (wq_State rec = ''pending'' \<and> \<not> now < wq_ClaimClosesAt rec) \<or>
     (wq_State rec \<in> {''claimed'', ''identified''} \<and> \<not> before_deadline now (wq_DecisionClosesAt rec))"

text \<open>The request once its deadline has been checked; the error of the write is dropped.\<close>

definition expire_lapsed :: "wallet_login_request \<Rightarrow> int \<Rightarrow> wallet_login_request dbtx" where
  "expire_lapsed rec now =
     (if login_lapsed now rec then
        bnd (attempt (exec (update_requests
               (\<lambda>r. wq_RequestID r = wq_RequestID rec \<and> wq_State r \<in> {''pending'', ''claimed'', ''identified''})
               (\<lambda>r. r\<lparr>wq_State := ''expired'', wq_EndedAt := Some now\<rparr>)))) (\<lambda>_.
        ret (rec\<lparr>wq_State := ''expired''\<rparr>))
      else ret rec)"

fun redeem_wait :: "string \<Rightarrow> string \<Rightarrow> wallet_login_request \<Rightarrow> poll_event list \<Rightarrow> wallet_login_request dbtx" where
  "redeem_wait requestID initialState rec [] = ret rec"
| "redeem_wait requestID initialState rec (PollTimeout # es) = ret rec"
| "redeem_wait requestID initialState rec (PollCancelled # es) = throw (NewError ''context canceled'')"
| "redeem_wait requestID initialState rec (PollTick f # es) =
     bnd (others f) (\<lambda>_.
     bnd (first (find_login requestID)) (\<lambda>rec'.
     bnd TimeNow (\<lambda>now.
     bnd (expire_lapsed rec' now) (\<lambda>rec''.
     if wq_State rec'' \<noteq> initialState \<or> \<not> walletRedeemPending (wq_State rec'') then ret rec''
     else redeem_wait requestID initialState rec'' es))))"

definition deliver_match :: "wallet_login_request \<Rightarrow> (string \<times> json) list dbtx" where
  "deliver_match rec =
     (case wq_MatchNumber rec of
        None \<Rightarrow> ret []
      | Some n \<Rightarrow>
          if wq_MatchNumberDelivered rec then ret [(''matchNumber'', JStr n)]
          else bnd (attempt (exec (update_requests (login_is (wq_RequestID rec)) (\<lambda>r. r\<lparr>wq_MatchNumberDelivered := True\<rparr>))))
                 (\<lambda>_. ret [(''matchNumber'', JStr n)]))"

text \<open>The \<open>switch\<close> that ends \<open>oobRedeem\<close>.\<close>

definition redeem_answer :: "oob_env \<Rightarrow> wallet_login_request \<Rightarrow> (refusal + redeemed) dbtx" where
  "redeem_answer env rec =
     (if wq_State rec \<in> {''pending'', ''claimed'', ''identified''} then
        bnd (deliver_match rec) (\<lambda>match.
        let details = (''state'', JStr (wq_State rec)) # match in
        case (if wq_State rec = ''identified'' \<and> wq_BindingID rec = None then wq_IdentifiedDID rec else None) of
          None \<Rightarrow> refuse ''auth/oob/redeem:pending'' True details
        | Some identified \<Rightarrow>
            bnd (walletAccountChoices identified) (\<lambda>accounts.
            if accounts = [] then not_authorized
            else refuse ''auth/oob/redeem:pending'' True (details @ [(''accounts'', choices_json accounts)])))
      else if wq_State rec \<in> {''declined'', ''cancelled''} then
        refuse ''auth/oob/redeem:declined'' False [(''state'', JStr (wq_State rec))]
      else if wq_State rec = ''expired'' then refuse ''auth/oob:requestExpired'' False []
      else if wq_State rec \<in> {''approved'', ''consumed''} then
        (case (if wq_State rec = ''approved'' \<and> wq_BindingID rec = None then wq_IdentifiedDID rec else None) of
           None \<Rightarrow> redeemApproved env rec
         | Some identified \<Rightarrow>
             bnd (walletAccountChoices identified) (\<lambda>accounts.
             if accounts = [] then not_authorized
             else refuse ''auth/oob/redeem:accountSelectionRequired'' True
                    [(''state'', JStr (wq_State rec)), (''accounts'', choices_json accounts)]))
      else refuse ''auth/oob:alreadyDecided'' False [])"

text \<open>The account selection: the request as the handler goes on with it, or a refusal.\<close>

definition select_account :: "wallet_login_request \<Rightarrow> nat \<Rightarrow> (refusal + wallet_login_request) dbtx" where
  "select_account rec bindingID =
     (if wq_State rec = ''consumed'' \<and> wq_BindingID rec = Some bindingID then ret (Inr rec)
      else case (if wq_State rec \<in> {''identified'', ''approved''} then wq_IdentifiedDID rec else None) of
        None \<Rightarrow> refuse ''auth/oob/redeem:contextMismatch'' False []
      | Some identified \<Rightarrow>
          bnd (attempt (first (\<lambda>d. find (\<lambda>b. wb_ID b = bindingID \<and> wb_LoginDID b = identified \<and> wb_RevokedAt b = None)
                                     (t_bindings d)))) (\<lambda>found.
          case found of Inl _ \<Rightarrow> not_authorized
          | Inr b \<Rightarrow>
              (let hit = (\<lambda>r. wq_RequestID r = wq_RequestID rec \<and> wq_State r \<in> {''identified'', ''approved''});
                   chosen = (\<lambda>r. r\<lparr>wq_BindingID := Some (wb_ID b), wq_UserID := Some (wb_UserID b)\<rparr>) in
               bnd (attempt (exec_count (\<lambda>d. count_where hit (t_wallet_requests d)) (update_requests hit chosen))) (\<lambda>n.
               if n \<noteq> Inr 1 then refuse ''auth/oob:alreadyDecided'' False []
               else ret (Inr (chosen rec))))))"

definition redeem_from :: "oob_env \<Rightarrow> string \<Rightarrow> poll_event list \<Rightarrow> wallet_login_request \<Rightarrow> (refusal + redeemed) dbtx" where
  "redeem_from env pollID events selected =
     bnd TimeNow (\<lambda>now.
     bnd (expire_lapsed selected now) (\<lambda>rec.
     if walletRedeemPending (wq_State rec) \<and> \<not> (wq_State rec = ''identified'' \<and> wq_BindingID rec = None) \<and>
        0 < oe_redeemHold env \<and> (wq_MatchNumber rec = None \<or> wq_MatchNumberDelivered rec)
     then
       bnd TimeNow (\<lambda>t.
       bnd (WalletAcquirePoll (wq_RequestID rec) pollID (oe_redeemHold env + 5 * second) t) (\<lambda>acquired.
       if \<not> acquired then
         bnd (first (find_login (wq_RequestID rec))) (\<lambda>rec'.
         if walletRedeemPending (wq_State rec') then refuse ''unavailable'' True [(''retryAfter'', JNum ''1'')]
         else redeem_answer env rec')
       else
         deferred (WalletReleasePoll (wq_RequestID rec) pollID)
           (bnd (redeem_wait (wq_RequestID rec) (wq_State rec) rec events) (redeem_answer env))))
     else redeem_answer env rec))"

definition oobRedeem ::
  "oob_env \<Rightarrow> string option \<Rightarrow> string \<Rightarrow> (string \<times> json) list option \<Rightarrow> string \<Rightarrow> poll_event list
     \<Rightarrow> (refusal + redeemed) dbtx" where
  "oobRedeem env issuer requestID ext pollID events =
     (case issuer of
        None \<Rightarrow> refuse ''auth/oob:notStarter'' False []
      | Some starter \<Rightarrow>
          bnd (attempt (first (find_login requestID))) (\<lambda>found.
          case found of Inl _ \<Rightarrow> request_not_found
          | Inr rec \<Rightarrow>
              if wq_StarterDID rec \<noteq> starter then refuse ''auth/oob:notStarter'' False []
              else (case walletSelectedBinding ext of
                None \<Rightarrow> refuse ''malformedRequest'' False []
              | Some None \<Rightarrow> redeem_from env pollID events rec
              | Some (Some bindingID) \<Rightarrow>
                  bnd (select_account rec bindingID) (\<lambda>selected.
                  case selected of Inl r \<Rightarrow> ret (Inl r)
                  | Inr rec' \<Rightarrow> redeem_from env pollID events rec'))))"

section \<open>Cancelling\<close>

definition oobCancel :: "oob_env \<Rightarrow> string option \<Rightarrow> string \<Rightarrow> (refusal + oob_reply \<times> string) dbtx" where
  "oobCancel env issuer requestID =
     (case issuer of
        None \<Rightarrow> not_authorized
      | Some caller \<Rightarrow>
          bnd (attempt (first (find_login requestID))) (\<lambda>found.
          case found of Inl _ \<Rightarrow> request_not_found
          | Inr rec \<Rightarrow>
              if wq_StarterDID rec \<noteq> caller \<and> wq_ApproverDID rec \<noteq> Some caller then not_authorized
              else
                let reply = bnd (signedOOBResponse env CancelReply) (\<lambda>response. ret (Inr response));
                    hit = (\<lambda>r. wq_RequestID r = wq_RequestID rec \<and>
                             wq_State r \<in> {''pending'', ''claimed'', ''identified'', ''approved''}) in
                if wq_State rec = ''cancelled'' then reply
                else
                  bnd TimeNow (\<lambda>now.
                  bnd (exec_count (\<lambda>d. count_where hit (t_wallet_requests d))
                         (update_requests hit (\<lambda>r. r\<lparr>wq_State := ''cancelled'', wq_EndedAt := Some now\<rparr>))) (\<lambda>n.
                  if n \<noteq> 1 then refuse ''auth/oob:alreadyDecided'' False [] else reply))))"

end
