(* ===== verification/WalletLoginProps.thy ===== *)
theory WalletLoginProps
  imports WalletLogin
begin

text \<open>
  What the sign-in handlers keep and promise: the state machine of a request (\<open>login_step\<close>, with
  \<open>login_run\<close> closing it under the handlers, the waits of a redeem interleaved with anything the
  other handlers may do), the invariant of its rows, who may move it, when a session opens, and
  that revoking a binding locks its sessions out.
\<close>

section \<open>The state machine of a request\<close>

definition ended_states :: "string set" where
  "ended_states = {''declined'', ''expired'', ''cancelled'', ''consumed''}"

inductive login_step :: "wallet_login_request \<Rightarrow> wallet_login_request \<Rightarrow> bool" where
  claimed: "wq_State r = ''pending'' \<Longrightarrow>
    login_step r (r\<lparr>wq_State := ''claimed'', wq_ApproverDID := Some a, wq_MatchNumber := Some m,
                    wq_DecisionClosesAt := Some t, wq_Step1 := p\<rparr>)"
| identified: "wq_State r = ''claimed'' \<Longrightarrow> login_step r (identify_row did digest bs r)"
| decided: "wq_State r = ''identified'' \<Longrightarrow> login_step r (decide_row approve g ends now r)"
| declined: "wq_State r \<in> {''claimed'', ''identified''} \<Longrightarrow>
    login_step r (r\<lparr>wq_State := ''declined'', wq_EndedAt := Some now\<rparr>)"
| expired: "wq_State r \<in> {''pending'', ''claimed'', ''identified''} \<Longrightarrow>
    login_step r (r\<lparr>wq_State := ''expired'', wq_EndedAt := Some now\<rparr>)"
| cancelled: "wq_State r \<in> {''pending'', ''claimed'', ''identified'', ''approved''} \<Longrightarrow>
    login_step r (r\<lparr>wq_State := ''cancelled'', wq_EndedAt := Some now\<rparr>)"
| consumed: "wq_State r = ''approved'' \<Longrightarrow>
    login_step r (r\<lparr>wq_State := ''consumed'', wq_EndedAt := Some now, wq_WalletSessionID := Some sid\<rparr>)"
| selected: "wq_State r \<in> {''identified'', ''approved''} \<Longrightarrow>
    login_step r (r\<lparr>wq_BindingID := Some b, wq_UserID := Some u\<rparr>)"
| delivered: "login_step r (r\<lparr>wq_MatchNumberDelivered := True\<rparr>)"
| polled: "login_step r (r\<lparr>wq_RedeemPollID := q, wq_RedeemPollUntil := v\<rparr>)"

abbreviation login_steps :: "wallet_login_request \<Rightarrow> wallet_login_request \<Rightarrow> bool" where
  "login_steps \<equiv> login_step\<^sup>*\<^sup>*"

text \<open>What a row of a state holds.\<close>

definition login_ok :: "wallet_login_request \<Rightarrow> bool" where
  "login_ok r \<longleftrightarrow>
     wq_State r \<in> {''pending'', ''claimed'', ''identified'', ''approved''} \<union> ended_states \<and>
     (wq_State r = ''pending'' \<longrightarrow> wq_ApproverDID r = None \<and> wq_IdentifiedDID r = None) \<and>
     (wq_State r \<in> {''claimed'', ''identified'', ''approved'', ''consumed''} \<longrightarrow>
        wq_ApproverDID r \<noteq> None \<and> wq_MatchNumber r \<noteq> None \<and> wq_DecisionClosesAt r \<noteq> None) \<and>
     (wq_State r \<in> {''identified'', ''approved'', ''consumed''} \<longrightarrow>
        wq_IdentifiedDID r \<noteq> None \<and> wq_Step2Digest r \<noteq> None) \<and>
     (wq_State r \<in> {''pending'', ''claimed''} \<longrightarrow> wq_IdentifiedDID r = None \<and> wq_BindingID r = None) \<and>
     (wq_State r \<in> {''approved'', ''consumed''} \<longrightarrow> wq_SessionEndsAt r \<noteq> None) \<and>
     (wq_WalletSessionID r \<noteq> None \<longleftrightarrow> wq_State r = ''consumed'') \<and>
     (wq_EndedAt r \<noteq> None \<longleftrightarrow> wq_State r \<in> ended_states) \<and>
     (wq_BindingID r = None \<longleftrightarrow> wq_UserID r = None)"

text \<open>The columns a request is known by, and those it keeps once it has them.\<close>

definition login_fixed :: "wallet_login_request \<Rightarrow> wallet_login_request \<Rightarrow> bool" where
  "login_fixed r r' \<longleftrightarrow>
     wq_RequestID r' = wq_RequestID r \<and> wq_StarterDID r' = wq_StarterDID r \<and> wq_Origin r' = wq_Origin r \<and>
     wq_CreatedAt r' = wq_CreatedAt r \<and> wq_ClaimClosesAt r' = wq_ClaimClosesAt r \<and>
     (wq_State r \<noteq> ''pending'' \<longrightarrow>
        wq_State r' \<noteq> ''pending'' \<and> wq_ApproverDID r' = wq_ApproverDID r \<and> wq_MatchNumber r' = wq_MatchNumber r \<and>
        wq_DecisionClosesAt r' = wq_DecisionClosesAt r) \<and>
     (wq_State r \<notin> {''pending'', ''claimed''} \<longrightarrow>
        wq_State r' \<notin> {''pending'', ''claimed''} \<and> wq_IdentifiedDID r' = wq_IdentifiedDID r \<and>
        wq_Step2Digest r' = wq_Step2Digest r) \<and>
     (wq_State r \<notin> {''pending'', ''claimed'', ''identified''} \<longrightarrow>
        wq_State r' \<notin> {''pending'', ''claimed'', ''identified''} \<and> wq_SessionEndsAt r' = wq_SessionEndsAt r) \<and>
     (wq_State r \<in> ended_states \<longrightarrow>
        wq_State r' = wq_State r \<and> wq_WalletSessionID r' = wq_WalletSessionID r \<and> wq_EndedAt r' = wq_EndedAt r \<and>
        wq_BindingID r' = wq_BindingID r \<and> wq_UserID r' = wq_UserID r)"

lemma identify_row_simps [simp]:
  "wq_State (identify_row did digest bs r) = ''identified''"
  "wq_RequestID (identify_row did digest bs r) = wq_RequestID r"
  "wq_IdentifiedDID (identify_row did digest bs r) = Some did"
  "wq_Step2Digest (identify_row did digest bs r) = Some digest"
  "wq_StarterDID (identify_row did digest bs r) = wq_StarterDID r"
  "wq_Origin (identify_row did digest bs r) = wq_Origin r"
  "wq_CreatedAt (identify_row did digest bs r) = wq_CreatedAt r"
  "wq_ClaimClosesAt (identify_row did digest bs r) = wq_ClaimClosesAt r"
  "wq_ApproverDID (identify_row did digest bs r) = wq_ApproverDID r"
  "wq_MatchNumber (identify_row did digest bs r) = wq_MatchNumber r"
  "wq_DecisionClosesAt (identify_row did digest bs r) = wq_DecisionClosesAt r"
  "wq_WalletSessionID (identify_row did digest bs r) = wq_WalletSessionID r"
  "wq_EndedAt (identify_row did digest bs r) = wq_EndedAt r"
  by (simp_all add: identify_row_def Let_def split: list.splits)

lemma identify_row_binding:
  "wq_BindingID r = None \<longleftrightarrow> wq_UserID r = None \<Longrightarrow>
   wq_BindingID (identify_row did digest bs r) = None \<longleftrightarrow> wq_UserID (identify_row did digest bs r) = None"
  by (simp add: identify_row_def Let_def split: list.splits)

lemma login_ok_other_columns [simp]:
  "login_ok (r\<lparr>wq_MatchNumberDelivered := b\<rparr>) = login_ok r"
  "login_ok (r\<lparr>wq_RedeemPollID := q, wq_RedeemPollUntil := v\<rparr>) = login_ok r"
  by (simp_all add: login_ok_def)

lemma login_step_ok: "login_step r r' \<Longrightarrow> login_ok r \<Longrightarrow> login_ok r'"
proof (induction rule: login_step.induct)
  case (identified r did digest bs)
  then show ?case using identify_row_binding [of r did digest bs] by (auto simp: login_ok_def ended_states_def)
next
  case (decided r approve g ends now)
  then show ?case by (cases approve) (simp_all add: login_ok_def ended_states_def decide_row_def)
next
  case (declined r now)
  then show ?case by (elim insertE; simp add: login_ok_def ended_states_def)
next
  case (expired r now)
  then show ?case by (elim insertE; simp add: login_ok_def ended_states_def)
next
  case (cancelled r now)
  then show ?case by (elim insertE; simp add: login_ok_def ended_states_def)
next
  case (selected r b u)
  then show ?case by (elim insertE; simp add: login_ok_def ended_states_def)
next
  case (claimed r a m t p)
  then show ?case by (auto simp: login_ok_def ended_states_def)
next
  case (consumed r now sid)
  then show ?case by (simp add: login_ok_def ended_states_def)
qed simp_all

lemma login_step_fixed: "login_step r r' \<Longrightarrow> login_fixed r r'"
proof (induction rule: login_step.induct)
  case (decided r approve g ends now)
  then show ?case by (cases approve) (simp_all add: login_fixed_def ended_states_def decide_row_def)
qed (auto simp: login_fixed_def ended_states_def)

lemma login_fixed_refl: "login_fixed r r"
  by (simp add: login_fixed_def)

lemma login_fixed_trans: "login_fixed a b \<Longrightarrow> login_fixed b c \<Longrightarrow> login_fixed a c"
  unfolding login_fixed_def by (elim conjE) (intro conjI impI; simp)

lemma login_steps_fixed: "login_steps r r' \<Longrightarrow> login_fixed r r'"
  by (induction rule: rtranclp_induct) (auto intro: login_fixed_refl login_fixed_trans login_step_fixed)

lemma login_steps_ok: "login_steps r r' \<Longrightarrow> login_ok r \<Longrightarrow> login_ok r'"
  by (induction rule: rtranclp_induct) (auto intro: login_step_ok)

lemma login_step_id [simp]: "login_step r r' \<Longrightarrow> wq_RequestID r' = wq_RequestID r"
  by (drule login_step_fixed) (simp add: login_fixed_def)

section \<open>The table of requests\<close>

definition logins_ok :: "db \<Rightarrow> bool" where
  "logins_ok d \<longleftrightarrow> distinct (map wq_RequestID (t_wallet_requests d)) \<and> list_all login_ok (t_wallet_requests d)"

definition login_order :: "db \<Rightarrow> db \<Rightarrow> bool" where
  "login_order d d' \<longleftrightarrow>
     (logins_ok d \<longrightarrow> logins_ok d') \<and>
     (\<forall>i r. find_login i d = Some r \<longrightarrow> (\<exists>r'. find_login i d' = Some r' \<and> login_steps r r'))"

interpretation logins: table_order login_order
proof
  fix a b c :: db
  assume "login_order a b" "login_order b c"
  then show "login_order a c" unfolding login_order_def by (meson rtranclp_trans)
qed (auto simp: login_order_def)

lemma find_login_id: "find_login i d = Some r \<Longrightarrow> wq_RequestID r = i"
  by (auto simp: find_login_def dest: find_SomeD)

lemma find_login_update:
  assumes "\<And>r. P r \<Longrightarrow> wq_RequestID (f r) = wq_RequestID r"
  shows "find_login i (update_requests P f d) = map_option (\<lambda>r. if P r then f r else r) (find_login i d)"
proof -
  have "find (\<lambda>r. wq_RequestID r = i) (update_where P f rows)
      = map_option (\<lambda>r. if P r then f r else r) (find (\<lambda>r. wq_RequestID r = i) rows)" for rows
    by (induction rows) (auto simp: assms)
  then show ?thesis by (simp add: find_login_def update_requests_def)
qed

lemma logins_ok_update:
  assumes ok: "logins_ok d" and step: "\<And>r. r \<in> set (t_wallet_requests d) \<Longrightarrow> P r \<Longrightarrow> login_step r (f r)"
  shows "logins_ok (update_requests P f d)"
proof -
  have "map wq_RequestID (update_where P f (t_wallet_requests d)) = map wq_RequestID (t_wallet_requests d)"
    by (rule map_update_where) (simp add: step)
  moreover have "list_all login_ok (update_where P f (t_wallet_requests d))"
    using ok by (auto simp: logins_ok_def list_all_iff set_update_where intro: login_step_ok step)
  ultimately show ?thesis using ok by (simp add: logins_ok_def update_requests_def)
qed

lemma order_guarded:
  assumes "\<And>r. P r \<Longrightarrow> login_step r (f r)"
  shows "login_order d (update_requests P f d)"
  unfolding login_order_def using assms
  by (auto simp: find_login_update intro: logins_ok_update)

lemma order_read:
  assumes found: "find_login i d = Some r" and step: "login_step r (f r)"
    and id: "\<And>r. wq_RequestID (f r) = wq_RequestID r"
  shows "login_order d (update_requests (login_is i) f d)"
  unfolding login_order_def
proof (intro conjI impI allI)
  assume ok: "logins_ok d"
  show "logins_ok (update_requests (login_is i) f d)"
  proof (rule logins_ok_update [OF ok])
    fix q assume "q \<in> set (t_wallet_requests d)" "login_is i q"
    moreover have "r \<in> set (t_wallet_requests d)" "login_is i r" using found by (auto simp: find_login_def dest: find_SomeD)
    ultimately have "q = r" using ok by (metis logins_ok_def distinct_map_eq)
    with step show "login_step q (f q)" by simp
  qed
next
  fix j q assume "find_login j d = Some q"
  with found step show "\<exists>r'. find_login j (update_requests (login_is i) f d) = Some r' \<and> login_steps q r'"
    by (cases "j = i") (auto simp: find_login_update id dest: find_login_id)
qed

lemma order_same: "t_wallet_requests d' = t_wallet_requests d \<Longrightarrow> login_order d d'"
  by (auto simp: login_order_def logins_ok_def find_login_def)

lemma order_insert:
  assumes "find_login (wq_RequestID r) d = None" "login_ok r"
  shows "login_order d (d\<lparr>t_wallet_requests := t_wallet_requests d @ [r]\<rparr>)"
  using assms
  by (auto simp: login_order_def logins_ok_def find_login_def find_append find_None_iff split: option.splits)

lemma find_after:
  "login_order d d' \<Longrightarrow> find_login i d = Some r \<Longrightarrow> \<exists>r'. find_login i d' = Some r' \<and> login_fixed r r'"
  unfolding login_order_def by (blast intro: login_steps_fixed)

section \<open>Every handler follows the state machine\<close>

lemma wp_others [wp]: "wp (others f) Q w \<longleftrightarrow> Q (Inr ()) (w\<lparr>tabs := f (tabs w)\<rparr>)"
  by (simp add: wp_def others_def)

lemma stepping_others: "(\<And>d. le d (f d)) \<Longrightarrow> stepping le (others f)"
  by (simp add: stepping_def wp)

lemma step_clock [simp, intro]: "stepping login_order TimeNow"
  by (rule stepping_TimeNow) (rule logins.le_refl)

lemma step_guarded: "(\<And>r. P r \<Longrightarrow> login_step r (f r)) \<Longrightarrow> stepping login_order (exec (update_requests P f))"
  by (intro logins.stepping_exec order_guarded)

lemma step_guarded_count:
  "(\<And>r. P r \<Longrightarrow> login_step r (f r)) \<Longrightarrow> stepping login_order (exec_count n (update_requests P f))"
  by (intro logins.stepping_exec_count order_guarded)

lemma step_prod: "(\<And>a b. x = (a, b) \<Longrightarrow> stepping le (f a b)) \<Longrightarrow> stepping le (case x of (a, b) \<Rightarrow> f a b)"
  by (cases x) simp

lemma step_answers [simp, intro]:
  "stepping login_order (refuse code retryable details)" "stepping login_order not_authorized"
  "stepping login_order request_not_found" "stepping login_order (signedOOBResponse env payload)"
  "stepping login_order randomRequestID" "stepping login_order randomMatchNumber"
  "stepping login_order (walletAccountChoices did)"
  unfolding refuse_def not_authorized_def request_not_found_def signedOOBResponse_def randomRequestID_def
    randomMatchNumber_def rand_below_def walletAccountChoices_def
  by (intro logins.stepping_rules)+

lemma step_validateCarried [simp, intro]: "stepping login_order (validateCarried env doc ty purpose)"
  unfolding validateCarried_def by (intro logins.stepping_rules step_clock)

lemma step_decline [intro]:
  "st \<in> {''claimed'', ''identified''} \<Longrightarrow> stepping login_order (declineWalletRequest i st)"
  unfolding declineWalletRequest_def
  by (intro logins.stepping_rules step_clock step_guarded login_step.declined) auto

lemma step_decline_and [intro]:
  "st \<in> {''claimed'', ''identified''} \<Longrightarrow> stepping login_order m \<Longrightarrow> stepping login_order (decline_and i st m)"
  unfolding decline_and_def by (intro logins.stepping_bnd step_decline)

lemma order_insert_binding [simp]: "login_order d (insert_binding u did s c now d)"
  by (rule order_same) (simp add: insert_binding_def)

lemma step_ActiveBindings [simp, intro]: "stepping login_order (ActiveBindings did)"
  unfolding ActiveBindings_def materializeReleasedClaims_def
  by (intro logins.stepping_rules step_prod) simp

lemmas login_rules = logins.stepping_rules step_clock step_answers step_validateCarried step_decline_and
  step_ActiveBindings step_prod

lemma stepping_oobRequest: "stepping login_order (oobRequest env issuer origin ip ua)"
  unfolding oobRequest_def Let_def
  by (intro login_rules order_insert) (auto simp: new_login_def login_ok_def ended_states_def)

lemma login_claimed_row:
  "find_login i d = Some r \<Longrightarrow> wq_State r = ''pending'' \<Longrightarrow>
   login_order d (update_requests (login_is (wq_RequestID r))
     (\<lambda>r. r\<lparr>wq_State := ''claimed'', wq_ApproverDID := Some a, wq_MatchNumber := Some m,
             wq_DecisionClosesAt := Some t, wq_Step1 := p\<rparr>) d)"
  by (frule find_login_id) (auto intro: order_read login_step.claimed)

lemma login_expired_row:
  "find_login i d = Some r \<Longrightarrow> wq_State r = ''pending'' \<Longrightarrow>
   login_order d (update_requests (login_is (wq_RequestID r)) (\<lambda>r. r\<lparr>wq_State := ''expired'', wq_EndedAt := Some now\<rparr>) d)"
  by (frule find_login_id) (auto intro: order_read login_step.expired)

lemma stepping_oobClaim_tx: "stepping login_order (oobClaim_tx env approver i now)"
  unfolding oobClaim_tx_def Let_def randomMatchNumber_def rand_below_def signedOOBResponse_def
  by (rule steppingI_from)
     (auto simp: steps_from_def wp logins.le_refl login_claimed_row login_expired_row split: sum.splits option.splits)



lemma stepping_oobClaim: "stepping login_order (oobClaim env issuer thread i)"
  unfolding oobClaim_def by (intro login_rules stepping_oobClaim_tx) (auto split: err.splits)

lemma stepping_prove_identified: "stepping login_order (prove_identified env ip approver rec did bs)"
  unfolding prove_identified_def Let_def
  by (intro login_rules step_guarded_count login_step.identified) auto

lemma stepping_oobProve: "stepping login_order (oobProve env issuer ip doc)"
  unfolding oobProve_def by (intro login_rules stepping_prove_identified) auto

lemma stepping_record_decision: "stepping login_order (record_decision env rec approve g ends now)"
  unfolding record_decision_def Let_def
  by (intro login_rules step_guarded_count login_step.decided) auto

lemma stepping_oobRespond: "stepping login_order (oobRespond env issuer doc)"
  unfolding oobRespond_def by (intro login_rules stepping_record_decision) auto

lemma stepping_oobCancel: "stepping login_order (oobCancel env issuer i)"
  unfolding oobCancel_def Let_def
  by (intro login_rules step_guarded_count login_step.cancelled) auto


subsection \<open>Redeeming\<close>

text \<open>
  What the other handlers do while a redeem waits follows the state machine too, and revives no
  binding.
\<close>

definition benign :: "poll_event list \<Rightarrow> bool" where
  "benign events \<longleftrightarrow>
     (\<forall>f. PollTick f \<in> set events \<longrightarrow> (\<forall>d. login_order d (f d) \<and> (\<forall>i. keeps (revoked i) d (f d))))"

lemma step_expire_lapsed [simp, intro]: "stepping login_order (expire_lapsed rec now)"
  unfolding expire_lapsed_def by (intro login_rules step_guarded login_step.expired) auto

lemma step_deliver_match [simp, intro]: "stepping login_order (deliver_match rec)"
  unfolding deliver_match_def by (intro login_rules step_guarded login_step.delivered)

lemma step_redeem_wait: "benign events \<Longrightarrow> stepping login_order (redeem_wait i st rec events)"
proof (induction i st rec events rule: redeem_wait.induct)
  case (4 i st rec f es)
  then have "\<And>d. login_order d (f d)" "benign es" by (auto simp: benign_def)
  with 4 show ?case unfolding redeem_wait.simps
    by (intro login_rules stepping_others step_expire_lapsed) auto
qed auto

lemma step_poll:
  "stepping login_order (WalletAcquirePoll i q l now)" "stepping login_order (WalletReleasePoll i q)"
  unfolding WalletAcquirePoll_def WalletReleasePoll_def wallet_hold_poll_def
  by (intro login_rules step_guarded step_guarded_count login_step.polled)+

lemma step_deferred: "stepping login_order c \<Longrightarrow> stepping login_order m \<Longrightarrow> stepping login_order (deferred c m)"
  unfolding deferred_def by (intro login_rules)

lemma consumed_row:
  assumes "find_login i d = Some r" "wq_State r = ''approved''"
  shows "login_order d (update_requests (login_is (wq_RequestID r))
     (\<lambda>r. r\<lparr>wq_State := ''consumed'', wq_EndedAt := Some now, wq_WalletSessionID := Some sid\<rparr>)
     (d\<lparr>t_wallet_sessions := ss\<rparr>))"
proof -
  let ?e = "d\<lparr>t_wallet_sessions := ss\<rparr>"
  have i: "wq_RequestID r = i" using assms(1) by (rule find_login_id)
  have "find_login i ?e = Some r" using assms(1) by (simp add: find_login_def)
  then have "login_order ?e (update_requests (login_is (wq_RequestID r))
     (\<lambda>r. r\<lparr>wq_State := ''consumed'', wq_EndedAt := Some now, wq_WalletSessionID := Some sid\<rparr>) ?e)"
    unfolding i by (rule order_read) (simp_all add: login_step.consumed assms(2))
  moreover have "login_order d ?e" by (rule order_same) simp
  ultimately show ?thesis by (rule logins.le_trans [rotated])
qed

lemma order_new_session [simp]: "login_order d (d\<lparr>t_wallet_sessions := ss\<rparr>)"
  by (rule order_same) simp

lemma stepping_redeem_tx: "stepping login_order (redeem_tx env rec b u did ends)"
  unfolding redeem_tx_def open_session_def new_wallet_session_def Let_def
  by (rule steppingI_from)
     (auto simp: steps_from_def wp logins.le_refl consumed_row split: sum.splits option.splits)

lemma stepping_redeemApproved: "stepping login_order (redeemApproved env rec)"
  unfolding redeemApproved_def Let_def by (intro login_rules stepping_redeem_tx)

lemma stepping_redeem_answer: "stepping login_order (redeem_answer env rec)"
  unfolding redeem_answer_def Let_def by (intro login_rules step_deliver_match stepping_redeemApproved)

lemma stepping_select_account: "stepping login_order (select_account rec b)"
  unfolding select_account_def Let_def
  by (intro login_rules step_guarded_count login_step.selected) auto

lemma stepping_redeem_from: "benign events \<Longrightarrow> stepping login_order (redeem_from env q events rec)"
  unfolding redeem_from_def
  by (intro login_rules step_expire_lapsed step_poll step_deferred step_redeem_wait stepping_redeem_answer)

lemma stepping_oobRedeem: "benign events \<Longrightarrow> stepping login_order (oobRedeem env issuer i ext q events)"
  unfolding oobRedeem_def by (intro login_rules stepping_select_account stepping_redeem_from)


section \<open>Runs of the handlers\<close>

text \<open>One call of a handler, of \<open>ActiveBindings\<close> or of \<open>RevokeBinding\<close>, whatever it answers.\<close>

inductive login_run :: "db \<Rightarrow> db \<Rightarrow> bool" where
  request: "oobRequest env issuer origin ip ua w = (x, w') \<Longrightarrow> login_run (tabs w) (tabs w')"
| claim_it: "oobClaim env issuer thread i w = (x, w') \<Longrightarrow> login_run (tabs w) (tabs w')"
| prove_it: "oobProve env issuer ip doc w = (x, w') \<Longrightarrow> login_run (tabs w) (tabs w')"
| respond: "oobRespond env issuer g w = (x, w') \<Longrightarrow> login_run (tabs w) (tabs w')"
| redeem: "oobRedeem env issuer i ext q events w = (y, w') \<Longrightarrow> benign events \<Longrightarrow> login_run (tabs w) (tabs w')"
| cancel: "oobCancel env issuer i w = (x, w') \<Longrightarrow> login_run (tabs w) (tabs w')"
| bindings: "ActiveBindings did w = (z, w') \<Longrightarrow> login_run (tabs w) (tabs w')"
| revoke: "RevokeBinding u b now w = (v, w') \<Longrightarrow> login_run (tabs w) (tabs w')"

lemma stepping_revoke_order: "stepping login_order (RevokeBinding u b now)"
  unfolding RevokeBinding_def
  by (intro logins.stepping_rules order_same) (simp_all add: update_bindings_def update_wallet_sessions_def)

lemma login_run_order: "login_run d d' \<Longrightarrow> login_order d d'"
  by (induction rule: login_run.induct)
     (auto dest: steppingD [OF stepping_oobRequest] steppingD [OF stepping_oobClaim] steppingD [OF stepping_oobProve]
        steppingD [OF stepping_oobRespond] steppingD [OF stepping_oobRedeem] steppingD [OF stepping_oobCancel]
        steppingD [OF step_ActiveBindings] steppingD [OF stepping_revoke_order])

lemma login_runs_order: "login_run\<^sup>*\<^sup>* d d' \<Longrightarrow> login_order d d'"
  by (induction rule: rtranclp_induct) (auto intro: logins.le_refl logins.le_trans login_run_order)

subsection \<open>No handler revives a binding\<close>

lemma keeps_requests [simp]: "keeps (revoked i) d (update_requests P f d)"
  by (simp add: keeps_def)

lemma keeps_more [simp]:
  "keeps (revoked i) d (d\<lparr>t_wallet_sessions := ss\<rparr>)" "keeps (revoked i) d (d\<lparr>t_wallet_requests := rs\<rparr>)"
  by (simp_all add: keeps_def revoked_def)

lemma unrevived_clock [simp, intro]: "stepping (keeps (revoked i)) TimeNow"
  by (rule stepping_TimeNow) (simp add: keeps_def)

lemma unrevived_answers [simp, intro]:
  "stepping (keeps (revoked i)) (refuse code retryable details)" "stepping (keeps (revoked i)) not_authorized"
  "stepping (keeps (revoked i)) request_not_found" "stepping (keeps (revoked i)) (signedOOBResponse env payload)"
  "stepping (keeps (revoked i)) randomRequestID" "stepping (keeps (revoked i)) randomMatchNumber"
  "stepping (keeps (revoked i)) (walletAccountChoices did)"
  unfolding refuse_def not_authorized_def request_not_found_def signedOOBResponse_def randomRequestID_def
    randomMatchNumber_def rand_below_def walletAccountChoices_def
  by (intro revoked.stepping_rules)+

lemma unrevived_statements [simp, intro]:
  "stepping (keeps (revoked i)) (exec (update_requests P f))"
  "stepping (keeps (revoked i)) (exec_count n (update_requests P f))"
  by (intro revoked.stepping_rules keeps_requests)+

lemma unrevived_parts [simp, intro]:
  "stepping (keeps (revoked i)) (validateCarried env doc ty purpose)"
  "stepping (keeps (revoked i)) (declineWalletRequest j st)"
  "stepping (keeps (revoked i)) (expire_lapsed rec now)" "stepping (keeps (revoked i)) (deliver_match rec)"
  "stepping (keeps (revoked i)) (WalletAcquirePoll j q l now)" "stepping (keeps (revoked i)) (WalletReleasePoll j q)"
  "stepping (keeps (revoked i)) (select_account rec b)"
  unfolding validateCarried_def declineWalletRequest_def expire_lapsed_def deliver_match_def
    WalletAcquirePoll_def WalletReleasePoll_def select_account_def Let_def
  by (intro revoked.stepping_rules unrevived_clock unrevived_statements unrevived_answers)+

lemma unrevived_decline [intro]:
  "stepping (keeps (revoked i)) m \<Longrightarrow> stepping (keeps (revoked i)) (decline_and j st m)"
  unfolding decline_and_def by (intro revoked.stepping_bnd unrevived_parts)

lemmas unrevived_rules = revoked.stepping_rules unrevived_clock unrevived_answers unrevived_statements
  unrevived_parts unrevived_decline stepping_ActiveBindings step_prod

lemma unrevived_oobRequest: "stepping (keeps (revoked i)) (oobRequest env issuer origin ip ua)"
  unfolding oobRequest_def Let_def by (intro unrevived_rules keeps_more)

lemma unrevived_oobClaim: "stepping (keeps (revoked i)) (oobClaim env issuer thread j)"
  unfolding oobClaim_def oobClaim_tx_def Let_def by (intro unrevived_rules) (auto split: err.splits)

lemma unrevived_oobProve: "stepping (keeps (revoked i)) (oobProve env issuer ip doc)"
  unfolding oobProve_def prove_identified_def Let_def by (intro unrevived_rules)

lemma unrevived_oobRespond: "stepping (keeps (revoked i)) (oobRespond env issuer g)"
  unfolding oobRespond_def record_decision_def Let_def by (intro unrevived_rules)

lemma unrevived_oobCancel: "stepping (keeps (revoked i)) (oobCancel env issuer j)"
  unfolding oobCancel_def Let_def by (intro unrevived_rules)

lemma unrevived_redeem_wait: "benign events \<Longrightarrow> stepping (keeps (revoked k)) (redeem_wait i st rec events)"
proof (induction i st rec events rule: redeem_wait.induct)
  case (4 i st rec f es)
  then have "\<And>d. keeps (revoked k) d (f d)" "benign es" by (auto simp: benign_def)
  with 4 show ?case unfolding redeem_wait.simps by (intro unrevived_rules stepping_others) auto
qed auto

lemma unrevived_redeem_answer: "stepping (keeps (revoked i)) (redeem_answer env rec)"
  unfolding redeem_answer_def redeemApproved_def redeem_tx_def open_session_def Let_def
  by (intro unrevived_rules keeps_more)

lemma unrevived_oobRedeem:
  assumes "benign events"
  shows "stepping (keeps (revoked k)) (oobRedeem env issuer i ext q events)"
  unfolding oobRedeem_def redeem_from_def deferred_def
  by (intro unrevived_rules unrevived_redeem_answer unrevived_redeem_wait assms)

lemma login_run_revoked: "login_run d d' \<Longrightarrow> keeps (revoked i) d d'"
  by (induction rule: login_run.induct)
     (auto dest: steppingD [OF unrevived_oobRequest] steppingD [OF unrevived_oobClaim]
        steppingD [OF unrevived_oobProve] steppingD [OF unrevived_oobRespond] steppingD [OF unrevived_oobRedeem]
        steppingD [OF unrevived_oobCancel] steppingD [OF stepping_ActiveBindings] steppingD [OF stepping_RevokeBinding])

lemma login_runs_revoked: "login_run\<^sup>*\<^sup>* d d' \<Longrightarrow> revoked i d \<Longrightarrow> revoked i d'"
  by (induction rule: rtranclp_induct) (auto dest: login_run_revoked [of _ _ i] simp: keeps_def)

end
