(* ===== verification/WalletProps.thy ===== *)
theory WalletProps
  imports WalletLoginProps
begin

text \<open>
  The promises of sign-in with a wallet, over the handlers of \<open>WalletLogin\<close> and the sessions of
  \<open>WalletAuth\<close>: who may identify, approve and redeem a request, what a redeem opens, that the
  state machine is followed whatever fails, and that a revoked binding authorises nobody.
\<close>

section \<open>What a handler has granted\<close>

definition granted :: "('a \<Rightarrow> db \<Rightarrow> bool) \<Rightarrow> refusal + 'a \<Rightarrow> db \<Rightarrow> bool" where
  "granted Q x d = (case x of Inl _ \<Rightarrow> True | Inr a \<Rightarrow> Q a d)"

lemma granted_simps [simp]: "granted Q (Inl r) d" "granted Q (Inr a) d = Q a d"
  by (simp_all add: granted_def)

lemma y_top: "yields d m (\<lambda>_ _. True)"
  by (auto simp: yields_def wp_iff split: sum.splits)

lemma y_after: "(\<And>a d'. yields d' (g a) Q) \<Longrightarrow> yields d (bnd m g) Q"
  by (rule y_bnd [OF y_top])

lemma y_refusals [simp, intro]:
  "yields d (refuse code retryable details) (granted Q)" "yields d not_authorized (granted Q)"
  "yields d request_not_found (granted Q)"
  by (simp_all add: refuse_def not_authorized_def request_not_found_def y_ret)

lemma y_decline [intro]: "(\<And>d'. yields d' m (granted Q)) \<Longrightarrow> yields d (decline_and i st m) (granted Q)"
  unfolding decline_and_def by (rule y_after)

lemma y_attempt_first:
  assumes "\<And>x. h d = Some x \<Longrightarrow> yields d (f x) Q" "\<And>e. yields d (m e) Q"
  shows "yields d (bnd (attempt (first h)) (\<lambda>r. case r of Inl e \<Rightarrow> m e | Inr x \<Rightarrow> f x)) Q"
  by (rule y_attempt) (use assms in \<open>auto simp: wp split: option.splits\<close>)

lemma y_attempt_select:
  assumes "yields d (g (Inr (f d))) Q" "\<And>e. yields d (g (Inl e)) Q"
  shows "yields d (bnd (attempt (select f)) g) Q"
  by (rule y_attempt) (use assms in \<open>auto simp: wp\<close>)

lemma y_signed:
  "(\<And>doc. oe_sign env payload = Inr doc \<Longrightarrow> yields d (g (payload, doc)) Q) \<Longrightarrow>
   yields d (bnd (signedOOBResponse env payload) g) Q"
  by (auto simp: signedOOBResponse_def yields_def wp split: sum.splits)

lemma y_option_granted:
  "(\<And>y. x = Some y \<Longrightarrow> yields d (f y) (granted Q)) \<Longrightarrow>
   yields d (case x of None \<Rightarrow> not_authorized | Some y \<Rightarrow> f y) (granted Q)"
  by (cases x) auto

lemma y_prod: "(\<And>a b. x = (a, b) \<Longrightarrow> yields d (f a b) Q) \<Longrightarrow> yields d (case x of (a, b) \<Rightarrow> f a b) Q"
  by (cases x) simp

section \<open>Identifying and approving\<close>

text \<open>A carried document is valid only with a proof by the key it names, for the given purpose.\<close>

definition proven :: "oob_env \<Rightarrow> 'p carried \<Rightarrow> string \<Rightarrow> string \<Rightarrow> bool" where
  "proven env doc ty purpose \<longleftrightarrow>
     cd_Type doc = ty \<and> cd_Recipient doc = Some (oe_farmDID env) \<and> oe_schema env ty (cd_Raw doc) \<and>
     (\<exists>issuer. cd_Issuer doc = Some issuer \<and>
        VerifyDIDKey (oe_envelope env) (oe_inner env) (cd_Raw doc) issuer purpose)"

lemma y_validate:
  assumes "\<And>b. (b \<Longrightarrow> proven env doc ty purpose) \<Longrightarrow> yields d (g b) Q"
  shows "yields d (bnd (validateCarried env doc ty purpose) g) Q"
  unfolding yields_def
proof (intro allI impI)
  fix w :: "db world" assume w: "tabs w = d"
  show "wp (bnd (validateCarried env doc ty purpose) g)
          (\<lambda>r w'. case r of Inl _ \<Rightarrow> True | Inr a \<Rightarrow> Q a (tabs w')) w"
    unfolding wp_bnd validateCarried_def
    apply (simp add: wp)
    apply (rule assms [unfolded yields_def, rule_format])
     apply (auto simp: proven_def w split: option.splits if_splits)
    done
qed

definition same_logins :: "db \<Rightarrow> db \<Rightarrow> bool" where
  "same_logins a b \<longleftrightarrow> t_wallet_requests b = t_wallet_requests a"

interpretation same: table_order same_logins
  by unfold_locales (auto simp: same_logins_def)

lemma y_ActiveBindings:
  assumes "\<And>bs d'. bs = active_bindings did d' \<Longrightarrow> t_wallet_requests d' = t_wallet_requests d \<Longrightarrow> yields d' (f bs) Q"
    and "\<And>e d'. yields d' (m e) Q"
  shows "yields d (bnd (attempt (ActiveBindings did)) (\<lambda>r. case r of Inl e \<Rightarrow> m e | Inr x \<Rightarrow> f x)) Q"
proof (rule y_attempt)
  fix w :: "db world" assume w: "tabs w = d"
  have "stepping same_logins (materializeReleasedClaims did)"
    unfolding materializeReleasedClaims_def
    by (intro same.stepping_rules step_prod) (simp add: insert_binding_def same_logins_def)
  then have "wp (materializeReleasedClaims did) (\<lambda>_ w'. t_wallet_requests (tabs w') = t_wallet_requests d) w"
    using w by (auto simp: stepping_def same_logins_def)
  then show "wp (ActiveBindings did) (\<lambda>r w'. yields (tabs w') (case r of Inl e \<Rightarrow> m e | Inr x \<Rightarrow> f x) Q) w"
    unfolding ActiveBindings_def wp_bnd by (rule wp_mono) (auto simp: wp assms split: sum.splits)
qed


lemma find_count: "0 < count_where P rows \<Longrightarrow> \<exists>r \<in> set rows. P r"
  by (simp add: count_where_pos_iff)

lemma update_found:
  assumes "find_login i d = Some r" "P r" "\<And>r. wq_RequestID (f r) = wq_RequestID r"
  shows "find_login i (update_requests P f d) = Some (f r)"
  using assms by (simp add: find_login_update)

lemma count_found:
  assumes "count_where (\<lambda>r. wq_RequestID r = i \<and> S r) (t_wallet_requests d) = 1" "find_login i d = Some r"
    "distinct (map wq_RequestID (t_wallet_requests d))"
  shows "S r"
proof -
  obtain q where q: "q \<in> set (t_wallet_requests d)" "wq_RequestID q = i" "S q"
    using assms(1) find_count [of "\<lambda>r. wq_RequestID r = i \<and> S r" "t_wallet_requests d"] by auto
  moreover have "r \<in> set (t_wallet_requests d)" "wq_RequestID r = i"
    using assms(2) by (auto simp: find_login_def dest: find_SomeD)
  ultimately show ?thesis using assms(3) by (metis distinct_map_eq)
qed

text \<open>What a successful \<open>oobProve\<close> has established.\<close>

definition identified_as ::
  "oob_env \<Rightarrow> string option \<Rightarrow> db \<Rightarrow> identify_payload carried \<Rightarrow> db \<Rightarrow> bool" where
  "identified_as env issuer d identify d' \<longleftrightarrow>
     (\<exists>rec did. let i = ip_RequestID (cd_Payload identify) in
        cd_Issuer identify = Some did \<and> proven env identify oobIdentifyType ''authentication'' \<and>
        find_login i d = Some rec \<and> wq_State rec = ''claimed'' \<and>
        wq_ApproverDID rec = issuer \<and> issuer = Some (ip_ApproverKey (cd_Payload identify)) \<and>
        wq_MatchNumber rec = Some (ip_EnteredNumber (cd_Payload identify)) \<and>
        (\<exists>b \<in> set (t_bindings d'). wb_LoginDID b = did \<and> wb_RevokedAt b = None) \<and>
        (\<exists>rec'. find_login i d' = Some rec' \<and> wq_State rec' = ''identified'' \<and> wq_IdentifiedDID rec' = Some did))"

lemma identified_asI:
  assumes "cd_Issuer identify = Some did" "proven env identify oobIdentifyType ''authentication''"
    "find_login (ip_RequestID (cd_Payload identify)) d = Some rec" "wq_State rec = ''claimed''"
    "wq_ApproverDID rec = issuer" "issuer = Some (ip_ApproverKey (cd_Payload identify))"
    "wq_MatchNumber rec = Some (ip_EnteredNumber (cd_Payload identify))"
    "b \<in> set (t_bindings d')" "wb_LoginDID b = did" "wb_RevokedAt b = None"
    "find_login (ip_RequestID (cd_Payload identify)) d' = Some rec'" "wq_State rec' = ''identified''"
    "wq_IdentifiedDID rec' = Some did"
  shows "identified_as env issuer d identify d'"
  unfolding identified_as_def Let_def using assms by blast

lemma granted_mono: "granted P x d \<Longrightarrow> (\<And>a. x = Inr a \<Longrightarrow> P a d \<Longrightarrow> Q a d) \<Longrightarrow> granted Q x d"
  by (cases x) auto

lemma update_requests_bindings [simp]: "t_bindings (update_requests P f d) = t_bindings d"
  by (simp add: update_requests_def)

lemma prove_identified_yields:
  assumes rec: "find_login i d = Some rec" "wq_State rec = ''claimed''" "wq_ApproverDID rec = Some approver"
  shows "yields d (prove_identified env ip approver rec did bs)
    (granted (\<lambda>_ d'. t_bindings d' = t_bindings d \<and>
       (\<exists>rec'. find_login i d' = Some rec' \<and> wq_State rec' = ''identified'' \<and> wq_IdentifiedDID rec' = Some did)))"
proof (cases "oe_decode env (wq_Step1 rec)")
  case None
  then show ?thesis by (simp add: prove_identified_def y_throw)
next
  case (Some p)
  have i: "wq_RequestID rec = i" using rec(1) by (rule find_login_id)
  note found = update_found [OF rec(1), where P = "\<lambda>r. wq_RequestID r = i \<and> wq_State r = ''claimed'' \<and> wq_ApproverDID r = Some approver"]
  show ?thesis
    unfolding prove_identified_def Let_def Some option.case i
    by (cases p) (auto intro!: y_signed y_exec_count y_if y_ret simp: found i rec)
qed

lemma active_bindings_live: "b \<in> set (active_bindings did d) \<Longrightarrow> b \<in> set (t_bindings d) \<and> wb_LoginDID b = did \<and> wb_RevokedAt b = None"
  by (auto simp: active_bindings_def)

lemma find_login_same: "t_wallet_requests d' = t_wallet_requests d \<Longrightarrow> find_login i d' = find_login i d"
  by (simp add: find_login_def)

lemma y_oobProve:
  "yields d (oobProve env issuer ip doc) (granted (\<lambda>_ d'. \<exists>identify. doc = Inr (Some identify) \<and> identified_as env issuer d identify d'))"
  unfolding oobProve_def
proof (intro y_lift_err y_option_granted y_attempt_first y_TimeNow y_if y_refusals y_validate y_decline y_ActiveBindings,
       goal_cases)
  case (1 decoded identify identified rec now valid bs d')
  from 1(5) obtain did where issuer: "issuer = Some did" by blast
  have claimed: "wq_State rec = ''claimed''" "wq_ApproverDID rec = Some did" using 1(5) issuer by blast+
  have rec': "find_login (ip_RequestID (cd_Payload identify)) d' = Some rec"
    using 1(4) find_login_same [OF 1(9)] by (rule trans [rotated])
  obtain b where "b \<in> set bs" using 1(10) by (cases bs) auto
  then have b: "b \<in> set (t_bindings d')" "wb_LoginDID b = identified" "wb_RevokedAt b = None"
    unfolding 1(8) by (auto dest: active_bindings_live)
  have key: "Some did = Some (ip_ApproverKey (cd_Payload identify))"
    "wq_MatchNumber rec = Some (ip_EnteredNumber (cd_Payload identify))"
    using 1(7,11) issuer by auto
  have shown: "proven env identify oobIdentifyType ''authentication''" using 1(6,7) by blast
  show ?case
    unfolding issuer option.sel
  proof (rule yields_mono [OF prove_identified_yields [OF rec' claimed]], erule granted_mono, elim conjE exE)
    fix d'' rec''
    assume "t_bindings d'' = t_bindings d'" "find_login (ip_RequestID (cd_Payload identify)) d'' = Some rec''"
      "wq_State rec'' = ''identified''" "wq_IdentifiedDID rec'' = Some identified"
    then have "identified_as env (Some did) d identify d''"
      using 1(3,4) claimed key shown b by (intro identified_asI) simp_all
    with 1(1,2) show "\<exists>identify. doc = Inr (Some identify) \<and> identified_as env (Some did) d identify d''" by auto
  qed
qed


text \<open>What an approving \<open>oobRespond\<close> has established.\<close>

definition approved_as ::
  "oob_env \<Rightarrow> string option \<Rightarrow> db \<Rightarrow> grant_payload carried \<Rightarrow> db \<Rightarrow> bool" where
  "approved_as env issuer d grant d' \<longleftrightarrow>
     (\<exists>rec did approver ends zone. let i = gp_RequestID (cd_Payload grant) in
        cd_Issuer grant = Some did \<and> proven env grant oobGrantType ''assertionMethod'' \<and>
        find_login i d = Some rec \<and> wq_State rec = ''identified'' \<and>
        issuer = Some approver \<and> wq_ApproverDID rec = issuer \<and> wq_IdentifiedDID rec = Some did \<and>
        grant_context_ok approver rec (cd_Payload grant) \<and> gp_Approve (cd_Payload grant) \<and>
        (\<exists>b \<in> set (t_bindings d). approvable did rec b) \<and>
        Parse (gp_SessionEndsAt (cd_Payload grant)) = Some (ends, zone) \<and>
        (\<exists>rec'. find_login i d' = Some rec' \<and> wq_State rec' = ''approved'' \<and> wq_SessionEndsAt rec' = Some ends))"

lemma decide_row_simps [simp]:
  "wq_RequestID (decide_row approve g ends now r) = wq_RequestID r"
  "wq_State (decide_row True g ends now r) = ''approved''"
  "wq_SessionEndsAt (decide_row True g ends now r) = Some ends"
  by (simp_all add: decide_row_def)

lemma record_decision_yields:
  assumes rec: "find_login i d = Some rec" "wq_State rec = ''identified''"
  shows "yields d (record_decision env rec approve g ends now)
    (granted (\<lambda>reply d'. fst reply = RespondReply approve \<and> (approve \<longrightarrow>
       (\<exists>rec'. find_login i d' = Some rec' \<and> wq_State rec' = ''approved'' \<and> wq_SessionEndsAt rec' = Some ends))))"
proof -
  have i: "wq_RequestID rec = i" using rec(1) by (rule find_login_id)
  note found = update_found [OF rec(1), where P = "\<lambda>r. wq_RequestID r = i \<and> wq_State r = ''identified''"]
  show ?thesis
    unfolding record_decision_def Let_def i
    by (intro y_exec_count y_if y_refusals y_signed y_ret) (simp add: found i rec)
qed

lemma y_attempt_count:
  assumes "n d \<noteq> 0 \<Longrightarrow> yields d f Q" "\<And>d'. yields d' m Q"
  shows "yields d (bnd (attempt (select n)) (\<lambda>r. if case r of Inl e \<Rightarrow> True | Inr n \<Rightarrow> n = (0 :: nat) then m else f)) Q"
  by (rule y_attempt) (use assms in \<open>auto simp: wp\<close>)

lemma y_oobRespond:
  "yields d (oobRespond env issuer doc) (granted (\<lambda>reply d'.
     fst reply = RespondReply True \<longrightarrow> (\<exists>grant. doc = Inr (Some grant) \<and> approved_as env issuer d grant d')))"
  unfolding oobRespond_def
proof (intro y_lift_err y_option_granted y_attempt_first y_TimeNow y_if y_refusals y_validate y_decline
         y_attempt_count y_option y_prod, goal_cases)
  case (1 decoded grant did rec now valid now' ends sessionEndsAt zone ended)
  from 1(5) obtain approver where issuer: "issuer = Some approver" by blast
  have row: "wq_State rec = ''identified''" "wq_ApproverDID rec = Some approver" "wq_IdentifiedDID rec = Some did"
    using 1(5) issuer by blast+
  have ctx: "grant_context_ok approver rec (cd_Payload grant)" using 1(8) issuer by simp
  have shown: "proven env grant oobGrantType ''assertionMethod''" using 1(6,7) by blast
  obtain b where b: "b \<in> set (t_bindings d)" "approvable did rec b"
    using 1(13) find_count by (metis not_gr_zero)
  show ?case
  proof (rule yields_mono [OF record_decision_yields [OF 1(4) row(1)]], erule granted_mono, intro impI exI conjI)
    show "doc = Inr (Some grant)" using 1(1,2) by simp
    fix reply d''
    assume "fst reply = RespondReply True \<and> (True \<longrightarrow> (\<exists>rec'. find_login (gp_RequestID (cd_Payload grant)) d'' = Some rec' \<and>
      wq_State rec' = ''approved'' \<and> wq_SessionEndsAt rec' = Some sessionEndsAt))"
    then show "approved_as env issuer d grant d''"
      unfolding approved_as_def Let_def issuer
      using 1(3,4,9,10,12) row ctx shown b by blast
  qed
next
  case (2 decoded grant did rec now valid now' ends sessionEndsAt zone ended)
  then have "wq_State rec = ''identified''" by blast
  from record_decision_yields [OF 2(4) this] show ?case
    by (rule yields_mono) (auto elim: granted_mono)
qed


section \<open>Redeeming\<close>

definition consume :: "wallet_login_request \<Rightarrow> wallet_login_session \<Rightarrow> db \<Rightarrow> db" where
  "consume current s d = update_requests (login_is (wq_RequestID current))
     (\<lambda>r. r\<lparr>wq_State := ''consumed'', wq_EndedAt := Some (ws_CreatedAt s), wq_WalletSessionID := Some (ws_ID s)\<rparr>)
     (d\<lparr>t_wallet_sessions := t_wallet_sessions d @ [s]\<rparr>)"

text \<open>The tables before and after the transaction of a redeem, the session and the token it answers.\<close>

definition redeem_opens ::
  "oob_env \<Rightarrow> wallet_login_request \<Rightarrow> db \<Rightarrow> db \<Rightarrow> wallet_login_session \<Rightarrow> string \<Rightarrow> bool" where
  "redeem_opens env rec d d' s token \<longleftrightarrow>
     (\<exists>current b ends now issued.
        find_login (wq_RequestID rec) d = Some current \<and> b \<in> set (t_bindings d) \<and> wb_RevokedAt b = None \<and>
        wq_BindingID rec = Some (wb_ID b) \<and> wq_UserID rec = Some (wb_UserID b) \<and>
        wq_IdentifiedDID rec = Some (wb_LoginDID b) \<and> wq_SessionEndsAt rec = Some ends \<and>
        GenerateWalletToken (oe_token env) (wb_UserID b) (oe_jwtSecret env) (ws_ID s) (ws_ExpiresAt s) issued = Inr token \<and>
        now < ws_ExpiresAt s \<and> ws_RevokedAt s = None \<and>
        (wq_State current = ''approved'' \<and> ws_ID s \<notin> ws_ID ` set (t_wallet_sessions d) \<and>
           s = new_wallet_session (ws_ID s) b (min ends (now + oobSessionLimit)) now \<and> d' = consume current s d \<or>
         wq_State current = ''consumed'' \<and> wq_WalletSessionID current = Some (ws_ID s) \<and>
           s \<in> set (t_wallet_sessions d) \<and> d' = d))"

lemma new_wallet_session_simps [simp]:
  "ws_ID (new_wallet_session sid b e t) = sid" "ws_ExpiresAt (new_wallet_session sid b e t) = e"
  "ws_RevokedAt (new_wallet_session sid b e t) = None" "ws_BindingID (new_wallet_session sid b e t) = wb_ID b"
  "ws_UserID (new_wallet_session sid b e t) = wb_UserID b" "ws_CreatedAt (new_wallet_session sid b e t) = t"
  by (simp_all add: new_wallet_session_def)

lemma open_session_yields:
  "yields d (open_session rec current b limit now) (\<lambda>s d'.
     wq_State current = ''approved'' \<and> ws_ID s \<notin> ws_ID ` set (t_wallet_sessions d) \<and>
       s = new_wallet_session (ws_ID s) b limit now \<and> d' = consume current s d \<or>
     wq_State current = ''consumed'' \<and> wq_WalletSessionID current = Some (ws_ID s) \<and>
       s \<in> set (t_wallet_sessions d) \<and> ws_RevokedAt s = None \<and> now < ws_ExpiresAt s \<and> d' = d)"
  unfolding open_session_def Let_def
  by (intro y_if y_uuid y_exec_checked y_exec y_ret y_option y_throw y_read_first)
     (auto simp: consume_def dest!: find_SomeD split: if_splits)

lemma redeem_tx_yields:
  assumes "wq_BindingID rec = Some bindingID" "wq_UserID rec = Some userID" "wq_IdentifiedDID rec = Some did"
    "wq_SessionEndsAt rec = Some ends"
  shows "yields d (redeem_tx env rec bindingID userID did ends) (\<lambda>(user, s, token) d'. redeem_opens env rec d d' s token)"
  unfolding redeem_tx_def Let_def
proof (intro y_transaction y_first y_TimeNow y_if y_throw)
  fix current b user now
  assume rows: "find_login (wq_RequestID rec) d = Some current"
    "find (\<lambda>b. wb_ID b = bindingID \<and> wb_UserID b = userID \<and> wb_LoginDID b = did \<and> wb_RevokedAt b = None) (t_bindings d) = Some b"
    "find (\<lambda>u. u_ID u = wb_UserID b) (t_users d) = Some user" and limit: "\<not> \<not> now < min ends (now + oobSessionLimit)"
  from rows(2,3) have b: "b \<in> set (t_bindings d)" "wb_RevokedAt b = None" "bindingID = wb_ID b" "userID = wb_UserID b"
      "did = wb_LoginDID b" "u_ID user = wb_UserID b"
    by (auto dest!: find_SomeD)
  show "yields d (bnd (open_session rec current b (min ends (now + oobSessionLimit)) now)
      (\<lambda>s. bnd TimeNow (\<lambda>issued. bnd (lift_err (GenerateWalletToken (oe_token env) (u_ID user) (oe_jwtSecret env)
             (ws_ID s) (ws_ExpiresAt s) issued)) (\<lambda>token. ret (user, s, token)))))
      (\<lambda>(user, s, token) d'. redeem_opens env rec d d' s token)"
  proof (rule y_bnd [OF open_session_yields], intro y_TimeNow y_lift_err y_ret, unfold prod.case)
    fix s d' issued token
    assume opened: "wq_State current = ''approved'' \<and> ws_ID s \<notin> ws_ID ` set (t_wallet_sessions d) \<and>
        s = new_wallet_session (ws_ID s) b (min ends (now + oobSessionLimit)) now \<and> d' = consume current s d \<or>
      wq_State current = ''consumed'' \<and> wq_WalletSessionID current = Some (ws_ID s) \<and>
        s \<in> set (t_wallet_sessions d) \<and> ws_RevokedAt s = None \<and> now < ws_ExpiresAt s \<and> d' = d"
      and token: "GenerateWalletToken (oe_token env) (u_ID user) (oe_jwtSecret env) (ws_ID s) (ws_ExpiresAt s) issued = Inr token"
    have "now < ws_ExpiresAt s \<and> ws_RevokedAt s = None"
      using opened
    proof (elim disjE conjE)
      assume s: "s = new_wallet_session (ws_ID s) b (min ends (now + oobSessionLimit)) now"
      from arg_cong [OF s, of ws_ExpiresAt] arg_cong [OF s, of ws_RevokedAt] limit show ?thesis by simp
    qed simp
    then show "redeem_opens env rec d d' s token"
      unfolding redeem_opens_def using opened token rows(1) b assms by metis
  qed
qed


lemma redeemApproved_yields:
  "yields d (redeemApproved env rec)
     (granted (\<lambda>(signed, token, maxAge) d'. 0 < maxAge \<and> (\<exists>s. redeem_opens env rec d d' s token)))"
proof (cases "wq_BindingID rec = None \<or> wq_UserID rec = None \<or> wq_IdentifiedDID rec = None \<or> wq_SessionEndsAt rec = None")
  case True
  then show ?thesis unfolding redeemApproved_def by (auto split: option.splits)
next
  case False
  then obtain b u did ends where cols: "wq_BindingID rec = Some b" "wq_UserID rec = Some u"
    "wq_IdentifiedDID rec = Some did" "wq_SessionEndsAt rec = Some ends" by auto
  have signed: "yields d' (bnd (attempt (signedOOBResponse env p)) (\<lambda>signed. ret (Inr (signed, token, age)))) (granted Q)"
    if "\<And>signed. Q (signed, token, age) d'" for d' p token age Q
    using that by (auto simp: signedOOBResponse_def yields_def wp split: sum.splits)
  show ?thesis
    unfolding redeemApproved_def Let_def cols option.case prod.case
    by (rule y_attempt_atomic [OF _ redeem_tx_yields [OF cols]])
       (auto simp: redeem_tx_def intro!: y_TimeNow y_if signed)
qed













lemma find_login_sessions [simp]: "find_login i (d\<lparr>t_wallet_sessions := ss\<rparr>) = find_login i d"
  by (simp add: find_login_def)













section \<open>The promises\<close>

text \<open>
  C11. A sign-in request only moves forward. Over any number of calls of the handlers, of
  \<open>ActiveBindings\<close> and of \<open>RevokeBinding\<close>, in any order, with any statements failing and with
  redeems waiting while others run, the table keeps its invariant (\<open>logins_ok\<close>: distinct ids, and
  in every state the columns that state needs), and every request there was is still there, some
  \<open>login_step\<close>s further: it keeps its starter, its origin and deadline, the approver and number of
  its claim, the DID it was identified with, and once ended its state, session and account.
\<close>

theorem login_state_machine:
  assumes "logins_ok d" "login_run\<^sup>*\<^sup>* d d'"
  shows "logins_ok d' \<and> (\<forall>i r. find_login i d = Some r \<longrightarrow>
     (\<exists>r'. find_login i d' = Some r' \<and> login_steps r r' \<and> login_fixed r r'))"
  using login_runs_order [OF assms(2)] assms(1) unfolding login_order_def
  by (meson login_steps_fixed)

text \<open>
  C12. Only the wallet that claimed a request, entering the number the browser shows, identifies it:
  when \<open>oobProve\<close> succeeds, the request was claimed by the caller, the number entered is its match
  number, the carried document is for this service and proven by the key of the DID it names, that
  DID has a live login binding, and the request is now identified with it.
\<close>

theorem prove_needs_number:
  assumes "oobProve env issuer ip (Inr (Some identify)) w = (Inr (Inr reply), w')"
  shows "identified_as env issuer (tabs w) identify (tabs w')"
  using yieldsD [OF y_oobProve assms] by simp

text \<open>
  C13. A request is approved only by the DID that was identified, through the wallet that claimed it,
  with a proven grant that names this request, this session key, this origin and the digest of the
  context it was shown, while the account it may be bound to is not revoked.
\<close>

theorem approval_binds_context:
  assumes "oobRespond env issuer (Inr (Some grant)) w = (Inr (Inr (RespondReply True, doc)), w')"
  shows "approved_as env issuer (tabs w) grant (tabs w')"
  using yieldsD [OF y_oobRespond assms] by simp

text \<open>
  C14. A redeem opens one session. When \<open>redeemApproved\<close> answers a token, the binding is live and is
  the one of the request's DID and account; a request still approved becomes consumed with one new
  session, which ends no later than the grant allows and within 24 hours; for a request already
  consumed nothing changes and the token is again for its session, which is neither revoked nor over.
\<close>

theorem redeem_opens_one_session:
  assumes "redeemApproved env rec w = (Inr (Inr (answer, token, maxAge)), w')"
  shows "0 < maxAge \<and> (\<exists>s. redeem_opens env rec (tabs w) (tabs w') s token)"
  using yieldsD [OF redeemApproved_yields assms] by simp


lemma AuthRequired_authorizes:
  assumes "AuthRequired parse secret cookie header t w = (Inr (Authorized userID role), w')"
  shows "\<exists>token claims. parse (\<lambda>isHMAC. if isHMAC then Some secret else None) token = Some claims \<and>
     userID = cl_UserID claims \<and> role = cl_Role claims \<and>
     (cl_WalletSessionID claims \<noteq> [] \<longrightarrow>
        length (live_sessions (cl_WalletSessionID claims) (cl_UserID claims) t (tabs w)) = 1)"
proof -
  have "wp (AuthRequired parse secret cookie header t) (\<lambda>r _. r = Inr (Authorized userID role) \<longrightarrow>
      (\<exists>token claims. parse (\<lambda>isHMAC. if isHMAC then Some secret else None) token = Some claims \<and>
         userID = cl_UserID claims \<and> role = cl_Role claims \<and>
         (cl_WalletSessionID claims \<noteq> [] \<longrightarrow>
            length (live_sessions (cl_WalletSessionID claims) (cl_UserID claims) t (tabs w)) = 1))) w"
    unfolding AuthRequired_def Let_def
    by (auto simp: wp split: option.splits)
  from wpD [OF this assms] show ?thesis by simp
qed

text \<open>
  C16. A revoked login stays locked out. After \<open>RevokeBinding\<close> has succeeded, whatever sign-ins,
  redeems and materialisations follow, \<open>AuthRequired\<close> accepts a wallet token only for a session of
  another binding that is itself live.
\<close>

theorem revoked_locked_out:
  assumes "binding_ids_ok (tabs w)" "RevokeBinding u i now w = (Inr (), w1)"
    and "login_run\<^sup>*\<^sup>* (tabs w1) (tabs w2)"
    and "AuthRequired parse secret cookie header t w2 = (Inr (Authorized userID role), w3)"
  shows "\<exists>token claims. parse (\<lambda>isHMAC. if isHMAC then Some secret else None) token = Some claims \<and>
     userID = cl_UserID claims \<and> role = cl_Role claims \<and>
     (cl_WalletSessionID claims \<noteq> [] \<longrightarrow> (\<exists>s \<in> set (t_wallet_sessions (tabs w2)).
        ws_ID s = cl_WalletSessionID claims \<and> ws_UserID s = userID \<and> ws_BindingID s \<noteq> i \<and>
        ws_RevokedAt s = None \<and> t < ws_ExpiresAt s))"
proof -
  have rev: "revoked i (tabs w2)"
    using yieldsD [OF RevokeBinding_yields [OF assms(1)] assms(2)] login_runs_revoked [OF assms(3)] by blast
  from AuthRequired_authorizes [OF assms(4)] obtain token claims where
    claims: "parse (\<lambda>isHMAC. if isHMAC then Some secret else None) token = Some claims" "userID = cl_UserID claims"
      "role = cl_Role claims" and
    one: "cl_WalletSessionID claims \<noteq> [] \<longrightarrow>
        length (live_sessions (cl_WalletSessionID claims) (cl_UserID claims) t (tabs w2)) = 1"
    by blast
  have "\<exists>s \<in> set (t_wallet_sessions (tabs w2)). ws_ID s = cl_WalletSessionID claims \<and> ws_UserID s = userID \<and>
      ws_BindingID s \<noteq> i \<and> ws_RevokedAt s = None \<and> t < ws_ExpiresAt s"
    if wallet: "cl_WalletSessionID claims \<noteq> []"
  proof -
    from one wallet obtain s b where sb: "(s, b) \<in> set (live_sessions (cl_WalletSessionID claims) (cl_UserID claims) t (tabs w2))"
      by (metis One_nat_def length_Suc_conv list.set_intros(1) surj_pair)
    from sb have "s \<in> set (t_wallet_sessions (tabs w2))" "ws_ID s = cl_WalletSessionID claims" "ws_UserID s = userID"
        "ws_RevokedAt s = None" "t < ws_ExpiresAt s"
      by (auto simp: live_sessions_def claims(2))
    with revoked_no_session [OF rev sb] show ?thesis by blast
  qed
  with claims show ?thesis by blast
qed


section \<open>Concrete runs\<close>

definition sample_key :: string where "sample_key = ''did:key:z6MkA''"

definition sample_env :: oob_env where
  "sample_env = \<lparr>oe_farmDID = ''did:web:farm'', oe_farmName = ''Farm'', oe_portalOrigin = ''https://farm'',
     oe_jwtSecret = ''k'', oe_redeemHold = 10 * second, oe_sign = (\<lambda>_. Inr ''d''), oe_schema = (\<lambda>_ _. True),
     oe_envelope = (\<lambda>raw. Some (Some sample_key,
        Some (if raw = ''i'' then ''authentication'' else ''assertionMethod'', sample_key @ ''#z6MkA''))),
     oe_inner = (\<lambda>_. True), oe_encode = (\<lambda>_. []), oe_decode = (\<lambda>_. Some (''did:web:farm'', ''Farm'')),
     oe_token = (\<lambda>_ c. Inr (cl_WalletSessionID c))\<rparr>"

definition sample_login :: wallet_login_request where
  "sample_login = (new_login ''q'' ''did:key:z6MkB'' [] ''https://farm'' ''Edge'' ''iOS'' 0)
     \<lparr>wq_State := ''claimed'', wq_ApproverDID := Some sample_key, wq_MatchNumber := Some ''07'',
      wq_MatchNumberDelivered := True, wq_DecisionClosesAt := Some (5 * minute)\<rparr>"

definition sample_identified :: wallet_login_request where
  "sample_identified = sample_login\<lparr>wq_State := ''identified'', wq_IdentifiedDID := Some sample_key,
      wq_Step2Digest := Some ''zx'', wq_BindingID := Some 3, wq_UserID := Some 4\<rparr>"

definition sample_approved :: wallet_login_request where
  "sample_approved = sample_identified\<lparr>wq_State := ''approved'', wq_SessionEndsAt := Some (60 * minute)\<rparr>"

definition sample_binding :: wallet_login_binding where
  "sample_binding = \<lparr>wb_ID = 3, wb_UserID = 4, wb_LoginDID = sample_key, wb_SourceSessionID = 7,
     wb_SourceClaimID = [], wb_CreatedAt = 0, wb_RevokedAt = None\<rparr>"

definition sample_user :: user where
  "sample_user = \<lparr>u_ID = 4, u_UniqueId = ''u4'', u_Email = None, u_FullstackAccess = False, u_CreatedAt = 0, u_UpdatedAt = 0\<rparr>"

definition wallet_world :: "wallet_login_request \<Rightarrow> db world" where
  "wallet_world r = calm_world (empty_db\<lparr>t_wallet_requests := [r], t_bindings := [sample_binding],
     t_users := [sample_user], seq_bindings := 3\<rparr>) (\<lambda>_. minute)"

definition sample_identify :: "identify_payload carried" where
  "sample_identify = \<lparr>cd_Raw = ''i'', cd_ID = ''1'', cd_Type = oobIdentifyType, cd_Issuer = Some sample_key,
     cd_Recipient = Some ''did:web:farm'', cd_IssuedAt = Some ''1970-01-01T00:01:00Z'', cd_ExpiresAt = None,
     cd_Payload = \<lparr>ip_RequestID = ''q'', ip_ApproverKey = sample_key, ip_EnteredNumber = ''07''\<rparr>\<rparr>"

definition sample_grant :: "grant_payload carried" where
  "sample_grant = \<lparr>cd_Raw = ''g'', cd_ID = ''2'', cd_Type = oobGrantType, cd_Issuer = Some sample_key,
     cd_Recipient = Some ''did:web:farm'', cd_IssuedAt = Some ''1970-01-01T00:01:00Z'', cd_ExpiresAt = None,
     cd_Payload = \<lparr>gp_RequestID = ''q'', gp_ApproverKey = sample_key, gp_SessionKey = ''did:key:z6MkB'',
       gp_Origin = ''https://farm'', gp_ContextDigest = ''zx'', gp_SigningScope = False,
       gp_SessionEndsAt = ''1970-01-01T01:00:00Z'', gp_Approve = True\<rparr>\<rparr>"

definition grants :: "(err + refusal + 'a) \<times> 'w \<Rightarrow> bool" where
  "grants x \<longleftrightarrow> (case fst x of Inr (Inr _) \<Rightarrow> True | _ \<Rightarrow> False)"

lemma grantsE: "grants (m w) \<Longrightarrow> (\<And>a w'. m w = (Inr (Inr a), w') \<Longrightarrow> P) \<Longrightarrow> P"
  by (cases "m w") (auto simp: grants_def split: sum.splits)

lemma sample_issued: "Parse ''1970-01-01T00:01:00Z'' = Some (minute, 0)"
  by code_simp

lemma sample_env_fields:
  "oe_farmDID sample_env = ''did:web:farm''" "oe_schema sample_env a b = True" "oe_sign sample_env p = Inr ''d''"
  "oe_decode sample_env x = Some (''did:web:farm'', ''Farm'')"
  by (simp_all add: sample_env_def)

lemma sample_verified: "VerifyDIDKey (oe_envelope sample_env) (oe_inner sample_env) ''i'' sample_key ''authentication''"
  by code_simp

lemma prove_runs: "grants (oobProve sample_env (Some sample_key) ''ip'' (Inr (Some sample_identify)) (wallet_world sample_login))"
proof -
  note sample = sample_issued sample_verified sample_env_fields sample_identify_def sample_login_def new_login_def sample_binding_def
    wallet_world_def calm_world_def empty_db_def
  have "wp (oobProve sample_env (Some sample_key) ''ip'' (Inr (Some sample_identify)))
      (\<lambda>r _. \<exists>a. r = Inr (Inr a)) (wallet_world sample_login)"
    unfolding oobProve_def validateCarried_def ActiveBindings_def materializeReleasedClaims_def
      prove_identified_def signedOOBResponse_def
    by (simp add: wp sample find_login_def before_deadline_def released_claims_def active_bindings_def
        update_requests_def Let_def minute_def second_def)
  then show ?thesis by (auto simp: wp_def grants_def split: prod.splits)
qed

lemma respond_runs: "grants (oobRespond sample_env (Some sample_key) (Inr (Some sample_grant)) (wallet_world sample_identified))"
  by code_simp

lemma redeem_runs:
  "grants (redeemApproved sample_env sample_approved (wallet_world sample_approved))"
  "grants (oobRedeem sample_env (Some ''did:key:z6MkB'') ''q'' None ''p'' [] (wallet_world sample_approved))"
  by code_simp+


section \<open>Witnesses\<close>

lemma wallet_world_ok: "login_ok r \<Longrightarrow> logins_ok (tabs (wallet_world r))"
  by (simp add: logins_ok_def wallet_world_def)

lemma samples_ok: "login_ok sample_login" "login_ok sample_approved"
  by (simp_all add: login_ok_def ended_states_def sample_approved_def sample_identified_def sample_login_def new_login_def)

lemma wallet_world_login: "find_login ''q'' (tabs (wallet_world sample_login)) = Some sample_login"
  by (simp add: find_login_def wallet_world_def sample_login_def new_login_def)

theorem login_state_machine_witness:
  "\<exists>r'. find_login ''q'' (tabs (snd (oobCancel sample_env (Some sample_key) ''q'' (wallet_world sample_login)))) = Some r' \<and>
     login_steps sample_login r' \<and> login_fixed sample_login r'"
proof -
  let ?w = "wallet_world sample_login"
  have "login_run (tabs ?w) (tabs (snd (oobCancel sample_env (Some sample_key) ''q'' ?w)))"
    by (rule login_run.cancel [where x = "fst (oobCancel sample_env (Some sample_key) ''q'' ?w)"]) simp
  then have "login_run\<^sup>*\<^sup>* (tabs ?w) (tabs (snd (oobCancel sample_env (Some sample_key) ''q'' ?w)))" by blast
  from login_state_machine [OF wallet_world_ok [OF samples_ok(1)] this] wallet_world_login show ?thesis by blast
qed

theorem prove_needs_number_witness:
  "\<exists>reply w'. oobProve sample_env (Some sample_key) ''ip'' (Inr (Some sample_identify)) (wallet_world sample_login) = (Inr (Inr reply), w') \<and>
     identified_as sample_env (Some sample_key) (tabs (wallet_world sample_login)) sample_identify (tabs w')"
  using prove_runs by (rule grantsE) (blast intro: prove_needs_number)

lemma respond_replies:
  "\<exists>doc w'. oobRespond sample_env (Some sample_key) (Inr (Some sample_grant)) (wallet_world sample_identified) =
     (Inr (Inr (RespondReply True, doc)), w')"
proof -
  have "case fst (oobRespond sample_env (Some sample_key) (Inr (Some sample_grant)) (wallet_world sample_identified)) of
      Inr (Inr (RespondReply True, _)) \<Rightarrow> True | _ \<Rightarrow> False"
    by code_simp
  then show ?thesis
    by (cases "oobRespond sample_env (Some sample_key) (Inr (Some sample_grant)) (wallet_world sample_identified)")
       (auto split: sum.splits oob_reply.splits bool.splits)
qed

theorem approval_binds_context_witness:
  "\<exists>doc w'. oobRespond sample_env (Some sample_key) (Inr (Some sample_grant)) (wallet_world sample_identified) =
       (Inr (Inr (RespondReply True, doc)), w') \<and>
     approved_as sample_env (Some sample_key) (tabs (wallet_world sample_identified)) sample_grant (tabs w')"
  using respond_replies by (blast intro: approval_binds_context)

theorem redeem_opens_one_session_witness:
  "\<exists>token (w' :: db world) s. redeem_opens sample_env sample_approved (tabs (wallet_world sample_approved)) (tabs w') s token"
  using redeem_runs(1)
proof (rule grantsE)
  fix a w' assume "redeemApproved sample_env sample_approved (wallet_world sample_approved) = (Inr (Inr a), w')"
  then show ?thesis by (cases a) (blast dest: redeem_opens_one_session)
qed


definition lockout_world :: "db world" where
  "lockout_world = calm_world (empty_db\<lparr>t_bindings := [sample_binding, sample_binding\<lparr>wb_ID := 2\<rparr>],
     t_wallet_sessions := [new_wallet_session ''s'' (sample_binding\<lparr>wb_ID := 2\<rparr>) (60 * minute) 0], seq_bindings := 3\<rparr>)
     (\<lambda>_. minute)"

definition lockout_parse :: jwt_parser where
  "lockout_parse key t = (if key True = None then None
     else Some \<lparr>cl_UserID = 4, cl_Role = ''user'', cl_WalletSessionID = ''s'', cl_ExpiresAt = 60 * minute, cl_IssuedAt = 0\<rparr>)"

lemma lockout_runs:
  "succeeds (RevokeBinding 4 3 minute lockout_world)"
  "fst (AuthRequired lockout_parse ''k'' (Some ''t'') [] minute (snd (RevokeBinding 4 3 minute lockout_world))) =
     Inr (Authorized 4 ''user'')"
  "binding_ids_ok (tabs lockout_world)"
  by code_simp+

theorem revoked_locked_out_witness:
  "\<exists>s \<in> set (t_wallet_sessions (tabs (snd (RevokeBinding 4 3 minute lockout_world)))).
     ws_ID s = ''s'' \<and> ws_BindingID s \<noteq> 3 \<and> ws_RevokedAt s = None"
proof -
  obtain w1 where w1: "RevokeBinding 4 3 minute lockout_world = (Inr (), w1)"
    using lockout_runs(1) by (rule succeedsE) auto
  obtain w3 where "AuthRequired lockout_parse ''k'' (Some ''t'') [] minute w1 = (Inr (Authorized 4 ''user''), w3)"
    using lockout_runs(2) w1 by (metis prod.collapse snd_conv)
  from revoked_locked_out [OF lockout_runs(3) w1 rtranclp.rtrancl_refl this] w1
  show ?thesis by (auto simp: lockout_parse_def split: if_splits)
qed

end
