(* ===== verification/Capacity.thy ===== *)
theory Capacity
  imports Prelude
begin

text \<open>
  \<open>internal/capacity/capacity.go\<close>: how many more sessions of a mode the cluster can schedule,
  by simulating their placement, and what reserving some of them leaves. Go's \<open>int64\<close>
  quantities are integers with the wrap-around of the subtractions written out (\<open>i64\<close>); a Go
  slice that a function mutates is an argument and a result. The costs of a component come from
  Kubernetes quantities, so \<open>planningComponent\<close> takes the parsed ones as arguments.

  The lemmas show that a placement takes exactly what it uses and never overdraws a node or a
  disk, that an estimate is what a reservation grants, and that for a mode of one component the
  greedy simulation is exact.
\<close>

section \<open>Quantities\<close>

definition i64 :: "int \<Rightarrow> int" where
  "i64 x = (x + 2 ^ 63) mod 2 ^ 64 - 2 ^ 63"

definition in64 :: "int \<Rightarrow> bool" where
  "in64 x \<longleftrightarrow> - (2 ^ 63) \<le> x \<and> x < 2 ^ 63"

lemma i64_in64 [simp]: "in64 x \<Longrightarrow> i64 x = x"
  by (simp add: i64_def in64_def)

definition PlanningHeadroom :: "int \<Rightarrow> int \<Rightarrow> int \<Rightarrow> int" where
  "PlanningHeadroom allocatable requested used =
     (if allocatable \<le> 0 then 0 else max (i64 (allocatable - max requested used)) 0)"

record component =
  co_Name :: string
  co_CPUMillis :: int
  co_MemBytes :: int
  co_StorageBytes :: int

record mode =
  mo_Name :: string
  mo_Components :: "component list"

record node_free =
  nf_CPUMillis :: int
  nf_MemBytes :: int

record estimate =
  es_Count :: int
  es_ByCPU :: int
  es_ByMemory :: int
  es_ByStorage :: int
  es_LimitingResource :: string

definition mi :: int where "mi = 2 ^ 20"
definition gi :: int where "gi = 2 ^ 30"

definition planningComponent :: "(string \<Rightarrow> int \<times> int) \<Rightarrow> string \<Rightarrow> int \<Rightarrow> component" where
  "planningComponent requirements name storageBytes =
     \<lparr>co_Name = name, co_CPUMillis = fst (requirements name), co_MemBytes = snd (requirements name),
      co_StorageBytes = storageBytes\<rparr>"

definition VtaOnly :: "(string \<Rightarrow> int \<times> int) \<Rightarrow> mode" where
  "VtaOnly req = \<lparr>mo_Name = ''vta_only'', mo_Components = [planningComponent req ''vta'' (200 * mi)]\<rparr>"

definition FullStack :: "(string \<Rightarrow> int \<times> int) \<Rightarrow> mode" where
  "FullStack req = \<lparr>mo_Name = ''full_stack'', mo_Components =
     [planningComponent req ''dids'' (200 * mi), planningComponent req ''mediator'' gi,
      planningComponent req ''vta'' (200 * mi), planningComponent req ''vtc'' (200 * mi)]\<rparr>"

definition TrustRegistry :: "(string \<Rightarrow> int \<times> int) \<Rightarrow> mode" where
  "TrustRegistry req =
     \<lparr>mo_Name = ''trust_registry'', mo_Components = [planningComponent req ''trust-registry'' (200 * mi)]\<rparr>"

definition FullStackWithRegistry :: "(string \<Rightarrow> int \<times> int) \<Rightarrow> mode" where
  "FullStackWithRegistry req =
     \<lparr>mo_Name = ''full_stack_registry'',
      mo_Components = mo_Components (FullStack req) @ mo_Components (TrustRegistry req)\<rparr>"

definition Modes :: "(string \<Rightarrow> int \<times> int) \<Rightarrow> (string \<Rightarrow> int) \<Rightarrow> mode list" where
  "Modes req memLimit =
     map (\<lambda>m. m\<lparr>mo_Components := map (\<lambda>c. c\<lparr>co_MemBytes := memLimit (co_Name c)\<rparr>) (mo_Components m)\<rparr>)
       [VtaOnly req, FullStack req]"

section \<open>Placement\<close>

text \<open>
  The index of the best element that may be taken, the first of the largest ones: the loop of
  \<open>placePod\<close> and of \<open>placeVolume\<close>.
\<close>

definition better ::
  "(nat \<Rightarrow> 'a \<Rightarrow> bool) \<Rightarrow> ('a \<Rightarrow> int) \<Rightarrow> nat \<Rightarrow> 'a \<Rightarrow> (nat \<times> int) option \<Rightarrow> (nat \<times> int) option" where
  "better fits free i x best =
     (if \<not> fits i x then best
      else case best of
        None \<Rightarrow> Some (i, free x)
      | Some (_, b) \<Rightarrow> if free x > b then Some (i, free x) else best)"

fun best_from ::
  "nat \<Rightarrow> (nat \<Rightarrow> 'a \<Rightarrow> bool) \<Rightarrow> ('a \<Rightarrow> int) \<Rightarrow> (nat \<times> int) option \<Rightarrow> 'a list \<Rightarrow> (nat \<times> int) option" where
  "best_from i fits free best [] = best"
| "best_from i fits free best (x # xs) = best_from (Suc i) fits free (better fits free i x best) xs"

definition pod_fits :: "component \<Rightarrow> node_free \<Rightarrow> bool" where
  "pod_fits c n \<longleftrightarrow> \<not> (nf_CPUMillis n < co_CPUMillis c \<or> nf_MemBytes n < co_MemBytes c)"

definition take_pod :: "component \<Rightarrow> node_free \<Rightarrow> node_free" where
  "take_pod c n = n\<lparr>nf_CPUMillis := i64 (nf_CPUMillis n - co_CPUMillis c),
     nf_MemBytes := i64 (nf_MemBytes n - co_MemBytes c)\<rparr>"

definition placePod :: "node_free list \<Rightarrow> component \<Rightarrow> node_free list option" where
  "placePod nodes c =
     (case best_from 0 (\<lambda>_. pod_fits c) nf_MemBytes None nodes of
        None \<Rightarrow> None
      | Some (best, _) \<Rightarrow> Some (nodes[best := take_pod c (nodes ! best)]))"

fun choose_disks :: "nat \<Rightarrow> int list \<Rightarrow> int \<Rightarrow> nat list \<Rightarrow> nat list option" where
  "choose_disks 0 disks bytes chosen = Some chosen"
| "choose_disks (Suc r) disks bytes chosen =
     (case best_from 0 (\<lambda>i d. \<not> (d < bytes \<or> i \<in> set chosen)) (\<lambda>d. d) None disks of
        None \<Rightarrow> None
      | Some (best, _) \<Rightarrow> choose_disks r disks bytes (chosen @ [best]))"

definition take_disks :: "int \<Rightarrow> nat list \<Rightarrow> int list \<Rightarrow> int list" where
  "take_disks bytes chosen disks = foldl (\<lambda>ds i. ds[i := i64 (ds ! i - bytes)]) disks chosen"

definition placeVolume :: "int list \<Rightarrow> int \<Rightarrow> nat \<Rightarrow> int list option" where
  "placeVolume disks bytes replicas =
     (case choose_disks replicas disks bytes [] of
        None \<Rightarrow> None
      | Some chosen \<Rightarrow> Some (take_disks bytes chosen disks))"

text \<open>
  \<open>placeSession\<close>: what the slices hold afterwards is answered with the outcome, because a
  session that does not fit has already taken some of them.
\<close>

fun place_components ::
  "component list \<Rightarrow> nat \<Rightarrow> bool \<Rightarrow> node_free list \<times> int list \<Rightarrow> bool \<times> node_free list \<times> int list" where
  "place_components [] replicas storageKnown (nodes, disks) = (True, nodes, disks)"
| "place_components (c # cs) replicas storageKnown (nodes, disks) =
     (case placePod nodes c of
        None \<Rightarrow> (False, nodes, disks)
      | Some nodes' \<Rightarrow>
          if storageKnown \<and> co_StorageBytes c > 0 then
            (case placeVolume disks (co_StorageBytes c) replicas of
               None \<Rightarrow> (False, nodes', disks)
             | Some disks' \<Rightarrow> place_components cs replicas storageKnown (nodes', disks'))
          else place_components cs replicas storageKnown (nodes', disks))"

definition placeSession ::
  "mode \<Rightarrow> nat \<Rightarrow> bool \<Rightarrow> node_free list \<times> int list \<Rightarrow> bool \<times> node_free list \<times> int list" where
  "placeSession m replicas storageKnown s = place_components (mo_Components m) replicas storageKnown s"

section \<open>Estimates and reservations\<close>

definition maxSessions :: nat where "maxSessions = 100000"

text \<open>The loop of \<open>simulate\<close>: at most \<open>left\<close> more sessions.\<close>

fun simulate_loop :: "nat \<Rightarrow> mode \<Rightarrow> nat \<Rightarrow> bool \<Rightarrow> node_free list \<times> int list \<Rightarrow> nat" where
  "simulate_loop left m replicas storageKnown s =
     (if left = 0 then 0
      else case placeSession m replicas storageKnown s of
             (False, _) \<Rightarrow> 0
           | (True, s') \<Rightarrow> Suc (simulate_loop (left - 1) m replicas storageKnown s'))"

declare simulate_loop.simps [simp del]

definition simulate :: "mode \<Rightarrow> node_free list \<Rightarrow> int list \<Rightarrow> nat \<Rightarrow> bool \<Rightarrow> nat" where
  "simulate m nodes disks replicas storageKnown = simulate_loop maxSessions m replicas storageKnown (nodes, disks)"

definition resourceOnly :: "mode \<Rightarrow> (component \<Rightarrow> component) \<Rightarrow> mode" where
  "resourceOnly m keep = \<lparr>mo_Name = mo_Name m, mo_Components = map keep (mo_Components m)\<rparr>"

definition cpu_only :: "component \<Rightarrow> component" where
  "cpu_only c = \<lparr>co_Name = co_Name c, co_CPUMillis = co_CPUMillis c, co_MemBytes = 0, co_StorageBytes = 0\<rparr>"

definition mem_only :: "component \<Rightarrow> component" where
  "mem_only c = \<lparr>co_Name = co_Name c, co_CPUMillis = 0, co_MemBytes = co_MemBytes c, co_StorageBytes = 0\<rparr>"

definition storage_only :: "component \<Rightarrow> component" where
  "storage_only c = \<lparr>co_Name = co_Name c, co_CPUMillis = 0, co_MemBytes = 0, co_StorageBytes = co_StorageBytes c\<rparr>"

definition perResourceCounts :: "mode \<Rightarrow> node_free list \<Rightarrow> int list \<Rightarrow> nat \<Rightarrow> bool \<Rightarrow> int \<times> int \<times> int" where
  "perResourceCounts m nodes disks replicas storageKnown =
     (int (simulate (resourceOnly m cpu_only) nodes [] replicas False),
      int (simulate (resourceOnly m mem_only) nodes [] replicas False),
      if storageKnown then int (simulate (resourceOnly m storage_only) nodes disks replicas True) else - 1)"

definition limitingResource :: "int \<Rightarrow> int \<Rightarrow> int \<Rightarrow> string" where
  "limitingResource byCPU byMemory byStorage =
     (let (name, least) = (if byMemory < byCPU then (''memory'', byMemory) else (''cpu'', byCPU)) in
      if byStorage \<ge> 0 \<and> byStorage < least then ''storage'' else name)"

definition EstimateMode :: "mode \<Rightarrow> node_free list \<Rightarrow> int list \<Rightarrow> int \<Rightarrow> bool \<Rightarrow> estimate" where
  "EstimateMode m nodes disks replicas storageKnown =
     (let r = nat (if replicas < 1 then 1 else replicas);
          (byCPU, byMemory, byStorage) = perResourceCounts m nodes disks r storageKnown in
      \<lparr>es_Count = int (simulate m nodes disks r storageKnown), es_ByCPU = byCPU, es_ByMemory = byMemory,
       es_ByStorage = byStorage, es_LimitingResource = limitingResource byCPU byMemory byStorage\<rparr>)"

fun reserve_each ::
  "nat \<Rightarrow> mode \<Rightarrow> nat \<Rightarrow> bool \<Rightarrow> node_free list \<times> int list \<Rightarrow> (node_free list \<times> int list) \<times> bool" where
  "reserve_each 0 m replicas storageKnown s = (s, True)"
| "reserve_each (Suc n) m replicas storageKnown s =
     (case placeSession m replicas storageKnown s of
        (False, s') \<Rightarrow> (s', False)
      | (True, s') \<Rightarrow> reserve_each n m replicas storageKnown s')"

definition ReserveMode ::
  "mode \<Rightarrow> int \<Rightarrow> node_free list \<Rightarrow> int list \<Rightarrow> int \<Rightarrow> bool \<Rightarrow> (node_free list \<times> int list) \<times> bool" where
  "ReserveMode m count nodes disks replicas storageKnown =
     (if count \<le> 0 then ((nodes, disks), True)
      else if count > int maxSessions then ((nodes, disks), False)
      else reserve_each (nat count) m (nat (if replicas < 1 then 1 else replicas)) storageKnown (nodes, disks))"

section \<open>Choosing a node or a disk\<close>

lemma best_from_Some:
  assumes "best_from i fits free best xs = Some (k, b)"
  shows "best = Some (k, b) \<or> (\<exists>j < length xs. k = i + j \<and> fits k (xs ! j) \<and> b = free (xs ! j))"
  using assms
proof (induction xs arbitrary: i best)
  case (Cons x xs)
  have "better fits free i x best = Some (k, b) \<or>
      (\<exists>j < length xs. k = Suc i + j \<and> fits k (xs ! j) \<and> b = free (xs ! j))"
    using Cons.prems by (intro Cons.IH) simp
  then show ?case
  proof
    assume "better fits free i x best = Some (k, b)"
    then have "best = Some (k, b) \<or> k = i + 0 \<and> fits k ((x # xs) ! 0) \<and> b = free ((x # xs) ! 0)"
      by (auto simp: better_def split: if_splits option.splits)
    then show ?thesis by fastforce
  next
    assume "\<exists>j < length xs. k = Suc i + j \<and> fits k (xs ! j) \<and> b = free (xs ! j)"
    then obtain j where "j < length xs" "k = Suc i + j" "fits k (xs ! j)" "b = free (xs ! j)" by blast
    then show ?thesis by (intro disjI2 exI [of _ "Suc j"]) simp
  qed
qed simp

lemma best_from_None:
  "best_from i fits free best xs = None \<longleftrightarrow> best = None \<and> (\<forall>j < length xs. \<not> fits (i + j) (xs ! j))"
proof (induction xs arbitrary: i best)
  case (Cons x xs)
  show ?case unfolding best_from.simps Cons.IH
    by (auto simp: All_less_Suc2 better_def split: option.splits)
qed simp

lemma placePod_Some:
  assumes "placePod nodes c = Some nodes'"
  obtains k where "k < length nodes" "pod_fits c (nodes ! k)" "nodes' = nodes[k := take_pod c (nodes ! k)]"
  using assms by (auto simp: placePod_def split: option.splits dest!: best_from_Some)

lemma placePod_None: "placePod nodes c = None \<longleftrightarrow> (\<forall>n \<in> set nodes. \<not> pod_fits c n)"
proof -
  have "placePod nodes c = None \<longleftrightarrow> best_from 0 (\<lambda>_. pod_fits c) nf_MemBytes None nodes = None"
    by (simp add: placePod_def split: option.splits)
  then show ?thesis by (simp add: best_from_None all_set_conv_all_nth)
qed

lemma choose_disks_Some:
  assumes "choose_disks r disks bytes chosen = Some all"
    and "distinct chosen" "\<forall>i \<in> set chosen. i < length disks \<and> bytes \<le> disks ! i"
  shows "distinct all \<and> (\<forall>i \<in> set all. i < length disks \<and> bytes \<le> disks ! i) \<and> length all = r + length chosen"
  using assms
proof (induction r disks bytes chosen rule: choose_disks.induct)
  case (2 r disks bytes chosen)
  then obtain k b where k: "best_from 0 (\<lambda>i d. \<not> (d < bytes \<or> i \<in> set chosen)) (\<lambda>d. d) None disks = Some (k, b)"
    and rest: "choose_disks r disks bytes (chosen @ [k]) = Some all"
    by (auto split: option.splits)
  from best_from_Some [OF k] have "k < length disks" "bytes \<le> disks ! k" "k \<notin> set chosen" by auto
  with "2.IH" [OF k refl rest] "2.prems" show ?case by auto
qed simp

section \<open>What a placement takes\<close>

definition cpu_left :: "node_free list \<Rightarrow> int" where "cpu_left nodes = sum_list (map nf_CPUMillis nodes)"
definition mem_left :: "node_free list \<Rightarrow> int" where "mem_left nodes = sum_list (map nf_MemBytes nodes)"

definition node_ok :: "node_free \<Rightarrow> bool" where
  "node_ok n \<longleftrightarrow> 0 \<le> nf_CPUMillis n \<and> nf_CPUMillis n < 2 ^ 63 \<and> 0 \<le> nf_MemBytes n \<and> nf_MemBytes n < 2 ^ 63"

definition cost_ok :: "component \<Rightarrow> bool" where
  "cost_ok c \<longleftrightarrow> 0 \<le> co_CPUMillis c \<and> 0 \<le> co_MemBytes c"

definition disk_ok :: "int \<Rightarrow> bool" where "disk_ok d \<longleftrightarrow> 0 \<le> d \<and> d < 2 ^ 63"

lemma sum_list_update:
  "k < length xs \<Longrightarrow> sum_list (xs[k := x]) = sum_list xs + x - (xs ! k :: int)"
  by (induction xs arbitrary: k) (auto split: nat.splits)

lemma take_pod_exact:
  assumes "node_ok n" "cost_ok c" "pod_fits c n"
  shows "nf_CPUMillis (take_pod c n) = nf_CPUMillis n - co_CPUMillis c"
    and "nf_MemBytes (take_pod c n) = nf_MemBytes n - co_MemBytes c"
    and "node_ok (take_pod c n)"
proof -
  have "in64 (nf_CPUMillis n - co_CPUMillis c)" "in64 (nf_MemBytes n - co_MemBytes c)"
    using assms by (auto simp: in64_def node_ok_def cost_ok_def pod_fits_def)
  then show cpu: "nf_CPUMillis (take_pod c n) = nf_CPUMillis n - co_CPUMillis c"
    and mem: "nf_MemBytes (take_pod c n) = nf_MemBytes n - co_MemBytes c"
    by (simp_all add: take_pod_def)
  show "node_ok (take_pod c n)" unfolding node_ok_def cpu mem
    using assms by (auto simp: node_ok_def cost_ok_def pod_fits_def)
qed

lemma placePod_exact:
  assumes placed: "placePod nodes c = Some nodes'" and ok: "list_all node_ok nodes" "cost_ok c"
  shows "list_all node_ok nodes'" "cpu_left nodes' = cpu_left nodes - co_CPUMillis c"
    "mem_left nodes' = mem_left nodes - co_MemBytes c" "length nodes' = length nodes"
proof -
  obtain k where k: "k < length nodes" "pod_fits c (nodes ! k)" "nodes' = nodes[k := take_pod c (nodes ! k)]"
    using placed by (rule placePod_Some)
  have node: "node_ok (nodes ! k)" using ok(1) k(1) by (simp add: list_all_length)
  note exact = take_pod_exact [OF node ok(2) k(2)]
  show "list_all node_ok nodes'"
    using ok(1) exact(3) set_update_subset_insert [of nodes k "take_pod c (nodes ! k)"]
    unfolding k(3) by (auto simp: list_all_iff)
  show "cpu_left nodes' = cpu_left nodes - co_CPUMillis c" "mem_left nodes' = mem_left nodes - co_MemBytes c"
    using k(1) exact(1,2) by (simp_all add: k(3) cpu_left_def mem_left_def map_update sum_list_update)
  show "length nodes' = length nodes" by (simp add: k(3))
qed

lemma take_disks_exact:
  assumes "distinct chosen" "\<forall>i \<in> set chosen. i < length disks \<and> bytes \<le> disks ! i"
    and "list_all disk_ok disks" "0 \<le> bytes"
  shows "list_all disk_ok (take_disks bytes chosen disks) \<and>
     sum_list (take_disks bytes chosen disks) = sum_list disks - int (length chosen) * bytes \<and>
     length (take_disks bytes chosen disks) = length disks"
  using assms
proof (induction chosen arbitrary: disks)
  case (Cons i js)
  let ?d = "disks[i := i64 (disks ! i - bytes)]"
  from Cons.prems have i: "i < length disks" "bytes \<le> disks ! i" by auto
  have "disk_ok (disks ! i)" using Cons.prems(3) i(1) by (simp add: list_all_length)
  then have left: "i64 (disks ! i - bytes) = disks ! i - bytes" and ok: "disk_ok (disks ! i - bytes)"
    using i(2) Cons.prems(4) by (auto simp: disk_ok_def in64_def)
  have "list_all disk_ok ?d"
    using Cons.prems(3) ok set_update_subset_insert [of disks i "i64 (disks ! i - bytes)"]
    by (auto simp: list_all_iff left)
  moreover have "\<forall>j \<in> set js. j < length ?d \<and> bytes \<le> ?d ! j"
    using Cons.prems(1,2) by (auto simp: nth_list_update)
  ultimately have "list_all disk_ok (take_disks bytes js ?d) \<and>
      sum_list (take_disks bytes js ?d) = sum_list ?d - int (length js) * bytes \<and> length (take_disks bytes js ?d) = length ?d"
    using Cons.prems(1,4) by (intro Cons.IH) auto
  moreover have "sum_list ?d = sum_list disks - bytes" using i(1) by (simp add: sum_list_update left)
  ultimately show ?case by (simp add: take_disks_def algebra_simps)
qed (simp add: take_disks_def)

lemma placeVolume_exact:
  assumes "placeVolume disks bytes r = Some disks'" "list_all disk_ok disks" "0 \<le> bytes"
  shows "list_all disk_ok disks'" "sum_list disks' = sum_list disks - int r * bytes" "length disks' = length disks"
proof -
  from assms(1) obtain chosen where c: "choose_disks r disks bytes [] = Some chosen" "disks' = take_disks bytes chosen disks"
    by (auto simp: placeVolume_def split: option.splits)
  from choose_disks_Some [OF c(1)] have "distinct chosen" "\<forall>i \<in> set chosen. i < length disks \<and> bytes \<le> disks ! i"
    "length chosen = r" by auto
  with take_disks_exact [OF this(1,2) assms(2,3)] c(2)
  show "list_all disk_ok disks'" "sum_list disks' = sum_list disks - int r * bytes" "length disks' = length disks"
    by simp_all
qed

section \<open>Sessions\<close>

definition costs :: "(component \<Rightarrow> int) \<Rightarrow> mode \<Rightarrow> int" where
  "costs f m = sum_list (map f (mo_Components m))"

definition storage_cost :: "bool \<Rightarrow> component \<Rightarrow> int" where
  "storage_cost storageKnown c = (if storageKnown \<and> co_StorageBytes c > 0 then co_StorageBytes c else 0)"

text \<open>\<open>taken n m r k s s'\<close>: from \<open>s\<close> to \<open>s'\<close> exactly \<open>n\<close> sessions' worth was taken, nothing overdrawn.\<close>

definition taken ::
  "int \<Rightarrow> component list \<Rightarrow> nat \<Rightarrow> bool \<Rightarrow> node_free list \<times> int list \<Rightarrow> node_free list \<times> int list \<Rightarrow> bool" where
  "taken n cs r k s s' \<longleftrightarrow>
     list_all node_ok (fst s') \<and> list_all disk_ok (snd s') \<and>
     length (fst s') = length (fst s) \<and> length (snd s') = length (snd s) \<and>
     cpu_left (fst s') = cpu_left (fst s) - n * sum_list (map co_CPUMillis cs) \<and>
     mem_left (fst s') = mem_left (fst s) - n * sum_list (map co_MemBytes cs) \<and>
     sum_list (snd s') = sum_list (snd s) - n * int r * sum_list (map (storage_cost k) cs)"

lemma place_components_taken:
  assumes "place_components cs r k s = (True, s')" "list_all cost_ok cs"
    "list_all node_ok (fst s)" "list_all disk_ok (snd s)"
  shows "taken 1 cs r k s s'"
  using assms
proof (induction cs r k s rule: place_components.induct)
  case (1 r k nodes disks)
  then show ?case by (simp add: taken_def)
next
  case (2 c cs r k nodes disks)
  from 2 obtain nodes' where pod: "placePod nodes c = Some nodes'" by (auto split: option.splits)
  have ok: "list_all node_ok nodes" "cost_ok c" "list_all disk_ok disks" using "2.prems" by simp_all
  note pod_exact = placePod_exact [OF pod ok(1,2)]
  show ?case
  proof (cases "k \<and> co_StorageBytes c > 0")
    case True
    with "2.prems" pod obtain disks' where vol: "placeVolume disks (co_StorageBytes c) r = Some disks'"
      by (auto split: option.splits)
    note vol_exact = placeVolume_exact [OF vol ok(3)]
    have "taken 1 cs r k (nodes', disks') s'"
      using "2.prems" pod vol True pod_exact vol_exact by (intro "2.IH"(1)) auto
    with pod_exact vol_exact True show ?thesis by (simp add: taken_def storage_cost_def algebra_simps)
  next
    case False
    have "taken 1 cs r k (nodes', disks) s'"
      using "2.prems" pod False pod_exact ok by (intro "2.IH"(2)) auto
    with pod_exact False show ?thesis by (auto simp add: taken_def storage_cost_def algebra_simps)
  qed
qed

lemma reserve_each_taken:
  assumes "reserve_each n m r k s = (s', True)" "list_all cost_ok (mo_Components m)"
    "list_all node_ok (fst s)" "list_all disk_ok (snd s)"
  shows "taken (int n) (mo_Components m) r k s s'"
  using assms
proof (induction n m r k s rule: reserve_each.induct)
  case (1 m r k s)
  then show ?case by (simp add: taken_def)
next
  case (2 n m r k s)
  then obtain s1 where s1: "placeSession m r k s = (True, s1)" by (auto split: prod.splits bool.splits)
  have first: "taken 1 (mo_Components m) r k s s1"
    using place_components_taken s1 "2.prems" by (simp add: placeSession_def)
  have "taken (int n) (mo_Components m) r k s1 s'"
    using "2.prems" s1 first by (intro "2.IH" [OF s1 [symmetric]]) (auto simp: taken_def)
  with first show ?case by (simp add: taken_def algebra_simps)
qed

lemma reserve_simulate:
  "n \<le> left \<Longrightarrow> snd (reserve_each n m r k s) \<longleftrightarrow> n \<le> simulate_loop left m r k s"
proof (induction n arbitrary: left s)
  case (Suc n)
  then obtain left' where left: "left = Suc left'" "n \<le> left'" by (cases left) auto
  show ?case
    using Suc.IH [OF left(2)] by (subst simulate_loop.simps) (auto simp: left(1) split: prod.splits bool.splits)
qed simp

lemma simulate_loop_le: "simulate_loop left m r k s \<le> left"
proof (induction left arbitrary: s)
  case (Suc left)
  then show ?case by (subst simulate_loop.simps) (auto split: prod.splits bool.splits)
qed (simp add: simulate_loop.simps)

lemma simulate_le: "simulate m nodes disks r k \<le> maxSessions"
  by (simp add: simulate_def simulate_loop_le)


section \<open>Modes of one component\<close>

text \<open>How many pods of a component one node still takes.\<close>

definition node_slots :: "component \<Rightarrow> node_free \<Rightarrow> int" where
  "node_slots c n =
     (if co_CPUMillis c = 0 then nf_MemBytes n div co_MemBytes c
      else if co_MemBytes c = 0 then nf_CPUMillis n div co_CPUMillis c
      else min (nf_CPUMillis n div co_CPUMillis c) (nf_MemBytes n div co_MemBytes c))"

definition total_slots :: "component \<Rightarrow> node_free list \<Rightarrow> int" where
  "total_slots c nodes = sum_list (map (node_slots c) nodes)"

definition costs_some :: "component \<Rightarrow> bool" where
  "costs_some c \<longleftrightarrow> cost_ok c \<and> 0 < co_CPUMillis c + co_MemBytes c"

lemma div_less_one: "0 < (b :: int) \<Longrightarrow> 0 \<le> a \<Longrightarrow> 0 < a div b \<longleftrightarrow> b \<le> a"
  by (simp add: pos_imp_zdiv_pos_iff)

lemma div_minus_one: "0 < (b :: int) \<Longrightarrow> (a - b) div b = a div b - 1"
  using div_add_self2 [of b "a - b"] by simp

lemma slots_fit:
  assumes "node_ok n" "costs_some c"
  shows "pod_fits c n \<longleftrightarrow> 0 < node_slots c n"
proof -
  have "co_CPUMillis c = 0 \<or> 0 < co_CPUMillis c" "co_MemBytes c = 0 \<or> 0 < co_MemBytes c"
    "co_CPUMillis c = 0 \<longrightarrow> 0 < co_MemBytes c" "0 \<le> nf_CPUMillis n" "0 \<le> nf_MemBytes n"
    using assms by (auto simp: costs_some_def cost_ok_def node_ok_def)
  then show ?thesis
    by (auto simp: pod_fits_def node_slots_def div_less_one)
qed

lemma slots_nonneg: "node_ok n \<Longrightarrow> costs_some c \<Longrightarrow> 0 \<le> node_slots c n"
  by (auto simp: node_slots_def node_ok_def costs_some_def cost_ok_def pos_imp_zdiv_nonneg_iff)

lemma slots_take:
  assumes "node_ok n" "costs_some c" "pod_fits c n"
  shows "node_slots c (take_pod c n) = node_slots c n - 1"
proof -
  have c: "cost_ok c" "co_CPUMillis c = 0 \<longrightarrow> 0 < co_MemBytes c" using assms(2) by (auto simp: costs_some_def cost_ok_def)
  note taken = take_pod_exact(1,2) [OF assms(1) c(1) assms(3)]
  from c have pos: "co_CPUMillis c \<noteq> 0 \<Longrightarrow> 0 < co_CPUMillis c" "co_MemBytes c \<noteq> 0 \<Longrightarrow> 0 < co_MemBytes c"
    by (auto simp: cost_ok_def)
  show ?thesis
    unfolding node_slots_def taken using pos c(2) by (auto simp: div_minus_one)
qed

lemma slots_placed:
  assumes "list_all node_ok nodes" "costs_some c" "placePod nodes c = Some nodes'"
  shows "total_slots c nodes' = total_slots c nodes - 1"
proof -
  obtain k where k: "k < length nodes" "pod_fits c (nodes ! k)" "nodes' = nodes[k := take_pod c (nodes ! k)]"
    using assms(3) by (rule placePod_Some)
  have "node_ok (nodes ! k)" using assms(1) k(1) by (simp add: list_all_length)
  from slots_take [OF this assms(2) k(2)] k(1) show ?thesis
    by (simp add: k(3) total_slots_def map_update sum_list_update)
qed

lemma slots_full:
  assumes "list_all node_ok nodes" "costs_some c"
  shows "placePod nodes c = None \<longleftrightarrow> total_slots c nodes = 0" "0 \<le> total_slots c nodes"
proof -
  have nonneg: "\<forall>x \<in> set (map (node_slots c) nodes). 0 \<le> x"
    using assms slots_nonneg by (auto simp: list_all_iff)
  then show "0 \<le> total_slots c nodes" unfolding total_slots_def by (intro sum_list_nonneg) blast
  have "total_slots c nodes = 0 \<longleftrightarrow> (\<forall>x \<in> set (map (node_slots c) nodes). x = 0)"
    unfolding total_slots_def using nonneg by (intro sum_list_nonneg_eq_0_iff) blast
  also have "\<dots> \<longleftrightarrow> (\<forall>n \<in> set nodes. \<not> pod_fits c n)"
    using assms slots_nonneg slots_fit by (fastforce simp: list_all_iff)
  finally show "placePod nodes c = None \<longleftrightarrow> total_slots c nodes = 0" by (simp add: placePod_None)
qed

lemma simulate_one:
  assumes "mo_Components m = [c]" "costs_some c" "list_all node_ok nodes"
  shows "int (simulate_loop left m r False (nodes, disks)) = min (int left) (total_slots c nodes)"
  using assms(3)
proof (induction left arbitrary: nodes)
  case 0
  with slots_full(2) [OF 0 assms(2)] show ?case by (simp add: simulate_loop.simps)
next
  case (Suc left)
  show ?case
  proof (cases "placePod nodes c")
    case None
    then have "total_slots c nodes = 0" using slots_full(1) [OF Suc.prems assms(2)] by simp
    with None show ?thesis by (subst simulate_loop.simps) (simp add: placeSession_def assms(1))
  next
    case (Some nodes')
    have c: "cost_ok c" using assms(2) by (simp add: costs_some_def)
    have ok: "list_all node_ok nodes'" using placePod_exact(1) [OF Some Suc.prems c] .
    have "int (simulate_loop (Suc left) m r False (nodes, disks)) = 1 + int (simulate_loop left m r False (nodes', disks))"
      by (subst simulate_loop.simps) (simp add: placeSession_def assms(1) Some)
    also have "\<dots> = min (int (Suc left)) (total_slots c nodes)"
      using Suc.IH [OF ok] slots_placed [OF Suc.prems assms(2) Some] by simp
    finally show ?thesis .
  qed
qed

section \<open>The properties\<close>

text \<open>
  C17. An estimate is what a reservation grants: \<open>ReserveMode\<close> finds room for a number of sessions
  exactly when the estimate for the same headroom counts at least as many.
\<close>

theorem estimate_is_reservable:
  "snd (ReserveMode m count nodes disks replicas storageKnown) \<longleftrightarrow>
     count \<le> es_Count (EstimateMode m nodes disks replicas storageKnown)"
proof -
  have count: "es_Count (EstimateMode m nodes disks replicas storageKnown) =
      int (simulate m nodes disks (nat (if replicas < 1 then 1 else replicas)) storageKnown)"
    by (simp add: EstimateMode_def Let_def split: prod.splits)
  show ?thesis
    unfolding count ReserveMode_def
    using simulate_le [of m nodes disks "nat (if replicas < 1 then 1 else replicas)" storageKnown]
      reserve_simulate [of "nat count" maxSessions m "nat (if replicas < 1 then 1 else replicas)" storageKnown "(nodes, disks)"]
    by (auto simp: simulate_def nat_le_iff)
qed

text \<open>
  C18. A granted reservation overdraws nothing: with headroom and costs that are not negative, every
  node and disk keeps a headroom that is not negative, and exactly the requested number of sessions
  has been taken from the total CPU, memory and (once per replica) storage.
\<close>

theorem reserve_takes_exactly:
  assumes "ReserveMode m count nodes disks replicas storageKnown = (left, True)" "0 \<le> count"
    and "list_all cost_ok (mo_Components m)" "list_all node_ok nodes" "list_all disk_ok disks"
  shows "taken count (mo_Components m) (nat (max 1 replicas)) storageKnown (nodes, disks) left"
proof (cases "count = 0")
  case True
  with assms show ?thesis by (auto simp: ReserveMode_def taken_def)
next
  case False
  with assms(1,2) have run: "reserve_each (nat count) m (nat (max 1 replicas)) storageKnown (nodes, disks) = (left, True)"
    by (auto simp: ReserveMode_def max_def split: if_splits)
  from reserve_each_taken [OF run assms(3)] assms(2,4,5) show ?thesis by simp
qed

text \<open>
  For a mode of one component, such as \<open>VtaOnly\<close>, the greedy simulation is exact when storage
  does not constrain it: the count is the sum over the nodes of the pods each can hold, up to the
  cap, the CPU and memory figures are the sums of the straight quotients, and neither is below it.
\<close>

theorem one_component_exact:
  assumes "mo_Components m = [c]" "0 < co_CPUMillis c" "0 < co_MemBytes c" "list_all node_ok nodes"
  shows "let e = EstimateMode m nodes disks replicas False;
             cpus = (\<Sum>n\<leftarrow>nodes. nf_CPUMillis n div co_CPUMillis c);
             mems = (\<Sum>n\<leftarrow>nodes. nf_MemBytes n div co_MemBytes c) in
    es_Count e = min (int maxSessions)
      (\<Sum>n\<leftarrow>nodes. min (nf_CPUMillis n div co_CPUMillis c) (nf_MemBytes n div co_MemBytes c)) \<and>
    es_ByCPU e = min (int maxSessions) cpus \<and> es_ByMemory e = min (int maxSessions) mems \<and>
    es_Count e \<le> es_ByCPU e \<and> es_Count e \<le> es_ByMemory e"
proof -
  let ?cpu = "cpu_only c" and ?mem = "mem_only c"
  have some: "costs_some c" "costs_some ?cpu" "costs_some ?mem"
    using assms(2,3) by (auto simp: costs_some_def cost_ok_def cpu_only_def mem_only_def)
  have modes: "mo_Components (resourceOnly m cpu_only) = [?cpu]" "mo_Components (resourceOnly m mem_only) = [?mem]"
    by (simp_all add: resourceOnly_def assms(1))
  have slots: "total_slots c nodes = (\<Sum>n\<leftarrow>nodes. min (nf_CPUMillis n div co_CPUMillis c) (nf_MemBytes n div co_MemBytes c))"
    "total_slots ?cpu nodes = (\<Sum>n\<leftarrow>nodes. nf_CPUMillis n div co_CPUMillis c)"
    "total_slots ?mem nodes = (\<Sum>n\<leftarrow>nodes. nf_MemBytes n div co_MemBytes c)"
    using assms(2,3)
    by (auto simp: total_slots_def node_slots_def cpu_only_def mem_only_def intro!: arg_cong [where f = sum_list])
  have "total_slots c nodes \<le> total_slots ?cpu nodes" "total_slots c nodes \<le> total_slots ?mem nodes"
    unfolding slots by (intro sum_list_mono; simp)+
  moreover note sim = simulate_one [OF assms(1) some(1) assms(4), where left = maxSessions]
    simulate_one [OF modes(1) some(2) assms(4), where left = maxSessions]
    simulate_one [OF modes(2) some(3) assms(4), where left = maxSessions]
  ultimately show ?thesis
    by (simp add: EstimateMode_def perResourceCounts_def Let_def simulate_def sim slots min.coboundedI2)
qed

section \<open>Concrete clusters\<close>

definition sample_component :: "int \<Rightarrow> int \<Rightarrow> component" where
  "sample_component cpu mem = \<lparr>co_Name = ''vta'', co_CPUMillis = cpu, co_MemBytes = mem, co_StorageBytes = 1\<rparr>"

definition sample_mode :: "component list \<Rightarrow> mode" where
  "sample_mode cs = \<lparr>mo_Name = ''sample'', mo_Components = cs\<rparr>"

definition sample_nodes :: "node_free list" where
  "sample_nodes = [\<lparr>nf_CPUMillis = 2, nf_MemBytes = 1\<rparr>, \<lparr>nf_CPUMillis = 1, nf_MemBytes = 2\<rparr>]"

lemma small_i64: "x \<in> {0, 1, 2, 3} \<Longrightarrow> i64 x = x"
  by (auto simp: in64_def)

lemmas placement_defs = EstimateMode_def simulate_def perResourceCounts_def maxSessions_def simulate_loop.simps
  placeSession_def placePod_def placeVolume_def take_disks_def resourceOnly_def cpu_only_def mem_only_def
  storage_only_def pod_fits_def take_pod_def limitingResource_def small_i64 better_def ReserveMode_def
  sample_component_def sample_mode_def sample_nodes_def

text \<open>
  With several components the figures per resource need not agree with the count: here one session
  of two components fits, and the memory figure, named as the limiting one, says none does.
\<close>

theorem resource_figures_disagree:
  "EstimateMode (sample_mode [sample_component 2 1, sample_component 1 2]) sample_nodes [] 1 False =
     \<lparr>es_Count = 1, es_ByCPU = 1, es_ByMemory = 0, es_ByStorage = - 1, es_LimitingResource = ''memory''\<rparr>"
  by (simp add: placement_defs)

text \<open>Nor is the count bounded by fragmentation per resource: two nodes, one out of memory, one out of CPU.\<close>

theorem resource_figures_overstate:
  "EstimateMode (sample_mode [sample_component 1 1]) [\<lparr>nf_CPUMillis = 1, nf_MemBytes = 0\<rparr>, \<lparr>nf_CPUMillis = 0, nf_MemBytes = 1\<rparr>] [] 1 False =
     \<lparr>es_Count = 0, es_ByCPU = 1, es_ByMemory = 1, es_ByStorage = - 1, es_LimitingResource = ''cpu''\<rparr>"
  by (simp add: placement_defs)

theorem reserve_takes_exactly_witness:
  "taken 1 [sample_component 2 1] 1 True (sample_nodes, [1]) ([\<lparr>nf_CPUMillis = 0, nf_MemBytes = 0\<rparr>, \<lparr>nf_CPUMillis = 1, nf_MemBytes = 2\<rparr>], [0])"
proof -
  have "ReserveMode (sample_mode [sample_component 2 1]) 1 sample_nodes [1] 1 True =
      (([\<lparr>nf_CPUMillis = 0, nf_MemBytes = 0\<rparr>, \<lparr>nf_CPUMillis = 1, nf_MemBytes = 2\<rparr>], [0]), True)"
    by (simp add: placement_defs)
  from reserve_takes_exactly [OF this] show ?thesis
    by (simp add: sample_mode_def sample_component_def cost_ok_def node_ok_def disk_ok_def sample_nodes_def)
qed

theorem one_component_exact_witness:
  "es_Count (EstimateMode (sample_mode [sample_component 1 1]) sample_nodes [] 1 False) = 2"
  using one_component_exact [of "sample_mode [sample_component 1 1]" "sample_component 1 1" sample_nodes "[]" 1]
  by (simp add: sample_mode_def sample_component_def node_ok_def sample_nodes_def maxSessions_def Let_def)

end
