(* ===== verification/WebVH.thy ===== *)
theory WebVH
  imports DidResolver GoTime Sha256
begin

text \<open>
  \<open>internal/webvh/log.go\<close>: the validation of a did:webvh history, from the text of the log to the
  DID document it currently names.

  A \<open>map[string]json.RawMessage\<close> is its list of members (the last of a repeated one counts), a
  raw message the value it holds. Parameters, in \<open>webvh_lib\<close>: the JSON lexer, \<open>json.Marshal\<close> of
  such a map, the canonicaliser of the JSON canonicalization library (on text, and whether it
  accepts a nested message), and \<open>ed25519.Verify\<close>. Go's \<open>(value, error)\<close> is \<open>string + 'a\<close>, an error
  being its message without the part after a \<open>%w\<close>; library errors returned as they are become the
  name of the function that failed.
\<close>

section \<open>Data\<close>

record webvh_lib =
  wv_lex :: "string \<Rightarrow> json option"
  wv_marshal :: "(string \<times> json) list \<Rightarrow> string option"
  wv_transform :: "string \<Rightarrow> string option"
  wv_ijson :: "json \<Rightarrow> bool"
  wv_verify :: "string \<Rightarrow> string \<Rightarrow> string \<Rightarrow> bool"

type_synonym raw_map = "(string \<times> json) list"

record data_proof =
  dp_raw :: raw_map
  dp_verificationMethod :: string
  dp_proofValue :: string
  dp_created :: "go_time option"

record log_entry =
  le_raw :: raw_map
  le_versionID :: string
  le_version :: int
  le_versionHash :: string
  le_versionTime :: int
  le_parameters :: raw_map
  le_state :: json
  le_stateID :: string
  le_proof :: data_proof

record parameter_state =
  st_scid :: string
  st_updateKeys :: "string list"
  st_nextKeyHashes :: "string list"
  st_preRotation :: bool
  st_portable :: bool
  st_deactivated :: bool

definition no_parameters :: parameter_state where
  "no_parameters = \<lparr>st_scid = [], st_updateKeys = [], st_nextKeyHashes = [], st_preRotation = False,
     st_portable = False, st_deactivated = False\<rparr>"

definition scidPlaceholder :: string where "scidPlaceholder = ''{SCID}''"

section \<open>Helpers\<close>

definition delete_member :: "string \<Rightarrow> raw_map \<Rightarrow> raw_map" where
  "delete_member k m = filter (\<lambda>(n, _). n \<noteq> k) m"

definition set_member :: "string \<Rightarrow> json \<Rightarrow> raw_map \<Rightarrow> raw_map" where
  "set_member k v m = delete_member k m @ [(k, v)]"

definition requiredJSON :: "raw_map \<Rightarrow> string \<Rightarrow> (json \<Rightarrow> 'a option) \<Rightarrow> 'a option" where
  "requiredJSON object name decode =
     (case member object name of None \<Rightarrow> None | Some raw \<Rightarrow> decode raw)"

definition required_string :: "raw_map \<Rightarrow> string \<Rightarrow> string option" where
  "required_string object name = requiredJSON object name (um_string [])"

definition multihash :: "string \<Rightarrow> string" where
  "multihash text = EncodeBase58BTC ([CHR 0x12, CHR 0x20] @ sha256 text)"

definition canonicalJSON :: "webvh_lib \<Rightarrow> raw_map \<Rightarrow> string option" where
  "canonicalJSON lib m = (case wv_marshal lib m of None \<Rightarrow> None | Some encoded \<Rightarrow> wv_transform lib encoded)"

definition hashJSON :: "webvh_lib \<Rightarrow> raw_map \<Rightarrow> string option" where
  "hashJSON lib m = map_option multihash (canonicalJSON lib m)"

definition hashMultibaseString :: "string \<Rightarrow> string" where
  "hashMultibaseString v = multihash v"

definition parseSHA256Multihash :: "string \<Rightarrow> string option" where
  "parseSHA256Multihash v =
     (case DecodeBase58BTC v of
        Inl _ \<Rightarrow> None
      | Inr decoded \<Rightarrow>
          if EncodeBase58BTC decoded \<noteq> v \<or> length decoded \<noteq> 34 \<or> decoded ! 0 \<noteq> CHR 0x12 \<or> decoded ! 1 \<noteq> CHR 0x20
          then None else Some (drop 2 decoded))"

definition decodeProofValue :: "string \<Rightarrow> string option" where
  "decodeProofValue v =
     (if \<not> HasPrefix v ''z'' then None
      else case DecodeBase58BTC (drop 1 v) of
        Inl _ \<Rightarrow> None
      | Inr decoded \<Rightarrow> if EncodeBase58BTC decoded \<noteq> drop 1 v then None else Some decoded)"

definition decodeUpdateKey :: "string \<Rightarrow> string + string" where
  "decodeUpdateKey v = DIDKeyResolver (''did:key:'' @ v) (''did:key:'' @ v @ ''#'' @ v)"

definition hasDuplicates :: "string list \<Rightarrow> bool" where
  "hasDuplicates vs \<longleftrightarrow> \<not> distinct vs"

definition proofKeyAuthorized :: "string \<Rightarrow> string list \<Rightarrow> bool" where
  "proofKeyAuthorized verificationMethod keys =
     (case Cut verificationMethod ''#'' of (did, fragment, ok) \<Rightarrow>
        if \<not> ok \<or> \<not> HasPrefix did ''did:key:'' \<or> TrimPrefix did ''did:key:'' \<noteq> fragment then False
        else fragment \<in> set keys)"

definition scidFromDID :: "string \<Rightarrow> string + string" where
  "scidFromDID did =
     (case CutPrefix did ''did:webvh:'' of (rest, ok) \<Rightarrow>
        if \<not> ok then Inl ''not a did:webvh DID''
        else case Cut rest '':'' of (scid, _, ok) \<Rightarrow>
          if \<not> ok \<or> scid = [] then Inl ''did:webvh DID has no SCID''
          else if parseSHA256Multihash scid = None then Inl ''did:webvh DID has an invalid SCID''
          else Inr scid)"

definition stateAlsoKnownAs :: "json \<Rightarrow> string \<Rightarrow> bool" where
  "stateAlsoKnownAs state wanted =
     (case um_struct (\<lambda>kvs. struct_field um_strings ''alsoKnownAs'' [] kvs) [] state of
        None \<Rightarrow> False
      | Some names \<Rightarrow> wanted \<in> set names)"

text \<open>\<open>strings.ReplaceAll\<close> of a text that is not empty.\<close>

function ReplaceAll :: "string \<Rightarrow> string \<Rightarrow> string \<Rightarrow> string" where
  "ReplaceAll s old new =
     (if s = [] \<or> old = [] then s
      else if HasPrefix s old then new @ ReplaceAll (drop (length old) s) old new
      else hd s # ReplaceAll (tl s) old new)"
  by pat_completeness auto
termination
  by (relation "measure (\<lambda>(s, old, new). length s)") auto

declare ReplaceAll.simps [simp del]

section \<open>Parsing an entry\<close>

definition time_ok :: "int \<Rightarrow> int \<Rightarrow> string \<Rightarrow> go_time \<Rightarrow> bool" where
  "time_ok now clockSkew text t \<longleftrightarrow> Format t = text \<and> \<not> now + clockSkew < fst t"

definition proof_fields :: "string list" where
  "proof_fields = [''type'', ''cryptosuite'', ''created'', ''verificationMethod'', ''proofPurpose'', ''proofValue'', ''@context'']"

definition parseProof :: "webvh_lib \<Rightarrow> json \<Rightarrow> int \<Rightarrow> int \<Rightarrow> string + data_proof" where
  "parseProof lib data now clockSkew =
     (if \<not> wv_ijson lib data then Inl ''proof is not valid I-JSON''
      else case um_map data of
        None \<Rightarrow> Inl ''json.Unmarshal''
      | Some raw \<Rightarrow>
          if \<not> list_all (\<lambda>(name, _). name \<in> set proof_fields) raw then Inl ''proof contains an unknown field''
          else if required_string raw ''type'' \<noteq> Some ''DataIntegrityProof'' \<or>
                  required_string raw ''cryptosuite'' \<noteq> Some ''eddsa-jcs-2022'' \<or>
                  required_string raw ''proofPurpose'' \<noteq> Some ''assertionMethod''
          then Inl ''proof has an invalid required field''
          else case (required_string raw ''verificationMethod'', required_string raw ''proofValue'') of
            (Some verificationMethod, Some proofValue) \<Rightarrow>
              let p = \<lparr>dp_raw = raw, dp_verificationMethod = verificationMethod, dp_proofValue = proofValue, dp_created = None\<rparr> in
              (case member raw ''created'' of
                 None \<Rightarrow> Inr p
               | Some createdRaw \<Rightarrow>
                   (case um_string [] createdRaw of
                      None \<Rightarrow> Inl ''proof created is invalid''
                    | Some created \<Rightarrow>
                        (case Parse created of
                           None \<Rightarrow> Inl ''proof created is invalid or in the future''
                         | Some t \<Rightarrow>
                             if \<not> time_ok now clockSkew created t then Inl ''proof created is invalid or in the future''
                             else Inr (p\<lparr>dp_created := Some t\<rparr>))))
          | _ \<Rightarrow> Inl ''proof has an invalid required field'')"

text \<open>
  \<open>strconv.ParseUint(s, 10, 32)\<close> with its error dropped: zero for a syntax error, the largest value
  for one out of range.
\<close>

definition ParseUint32_value :: "string \<Rightarrow> int" where
  "ParseUint32_value s =
     (case ParseUint 32 s of
        Some n \<Rightarrow> n
      | None \<Rightarrow> if s \<noteq> [] \<and> list_all is_digit s then 2 ^ 32 - 1 else 0)"

definition entry_fields :: "string list" where
  "entry_fields = [''versionId'', ''versionTime'', ''parameters'', ''state'', ''proof'']"

definition parse_version :: "string \<Rightarrow> string + (int \<times> string)" where
  "parse_version versionID =
     (case Cut versionID ''-'' of (versionNumber, versionHash, ok) \<Rightarrow>
        if \<not> ok \<or> versionHash = [] then Inl ''invalid versionId''
        else let n = ParseUint32_value versionNumber in
          if n = 0 \<or> FormatUint n \<noteq> versionNumber then Inl ''invalid versionId number''
          else Inr (n, versionHash))"

definition parse_versionTime :: "string \<Rightarrow> int \<Rightarrow> int \<Rightarrow> string + int" where
  "parse_versionTime text now clockSkew =
     (case Parse text of
        None \<Rightarrow> Inl ''invalid or future versionTime''
      | Some t \<Rightarrow>
          if fst t = zero_time \<or> \<not> time_ok now clockSkew text t then Inl ''invalid or future versionTime''
          else Inr (fst t))"

definition state_id :: "json \<Rightarrow> string option" where
  "state_id state = um_struct (\<lambda>kvs. struct_field um_string ''id'' [] kvs) [] state"

definition parseLogEntry :: "webvh_lib \<Rightarrow> string \<Rightarrow> int \<Rightarrow> int \<Rightarrow> string + log_entry" where
  "parseLogEntry lib data now clockSkew =
     (if wv_transform lib data = None then Inl ''log entry is not valid I-JSON''
      else case Option.bind (wv_lex lib data) um_map of
        None \<Rightarrow> Inl ''json.Unmarshal''
      | Some raw \<Rightarrow>
          if \<not> list_all (\<lambda>(name, _). name \<in> set entry_fields) raw then Inl ''log entry contains an unknown field''
          else case required_string raw ''versionId'' of
            None \<Rightarrow> Inl ''missing or invalid versionId''
          | Some versionID \<Rightarrow> (case parse_version versionID of
            Inl e \<Rightarrow> Inl e
          | Inr (version, versionHash) \<Rightarrow> (case required_string raw ''versionTime'' of
            None \<Rightarrow> Inl ''missing or invalid versionTime''
          | Some timeText \<Rightarrow> (case parse_versionTime timeText now clockSkew of
            Inl e \<Rightarrow> Inl e
          | Inr versionTime \<Rightarrow> (case requiredJSON raw ''parameters'' um_map of
            None \<Rightarrow> Inl ''missing or invalid parameters''
          | Some parameters \<Rightarrow> (case member raw ''state'' of
            None \<Rightarrow> Inl ''missing or invalid state''
          | Some state \<Rightarrow> (case state_id state of
            None \<Rightarrow> Inl ''DID document has no id''
          | Some stateID \<Rightarrow>
              if stateID = [] then Inl ''DID document has no id''
              else (case requiredJSON raw ''proof'' um_raws of
                Some [p] \<Rightarrow> (case parseProof lib p now clockSkew of
                  Inl e \<Rightarrow> Inl e
                | Inr dp \<Rightarrow> Inr \<lparr>le_raw = raw, le_versionID = versionID, le_version = version,
                    le_versionHash = versionHash, le_versionTime = versionTime, le_parameters = parameters,
                    le_state = state, le_stateID = stateID, le_proof = dp\<rparr>)
              | _ \<Rightarrow> Inl ''log entry must contain exactly one proof''))))))))"


section \<open>Parameters\<close>

text \<open>\<open>if err != nil { return err }\<close>\<close>

definition try_then :: "string + 'a \<Rightarrow> ('a \<Rightarrow> string + 'b) \<Rightarrow> string + 'b" where
  "try_then x f = (case x of Inl e \<Rightarrow> Inl e | Inr a \<Rightarrow> f a)"

definition ensure :: "bool \<Rightarrow> string \<Rightarrow> string + unit" where
  "ensure b e = (if b then Inr () else Inl e)"

definition parameter_names :: "string list" where
  "parameter_names = [''method'', ''scid'', ''updateKeys'', ''portable'', ''nextKeyHashes'', ''witness'', ''watchers'', ''deactivated'', ''ttl'']"

definition apply_method :: "raw_map \<Rightarrow> bool \<Rightarrow> string + unit" where
  "apply_method raw hasPrevious =
     (case member raw ''method'' of
        Some m \<Rightarrow> ensure (um_string [] m = Some ''did:webvh:1.0'') ''unsupported DID method version''
      | None \<Rightarrow> ensure hasPrevious ''genesis entry has no method'')"

definition apply_scid :: "raw_map \<Rightarrow> bool \<Rightarrow> parameter_state \<Rightarrow> string + parameter_state" where
  "apply_scid raw hasPrevious current =
     (case member raw ''scid'' of
        Some v \<Rightarrow>
          (case um_string (st_scid current) v of
             None \<Rightarrow> Inl ''invalid scid parameter''
           | Some scid \<Rightarrow>
               if hasPrevious \<or> scid = [] then Inl ''invalid scid parameter'' else Inr (current\<lparr>st_scid := scid\<rparr>))
      | None \<Rightarrow> if hasPrevious then Inr current else Inl ''genesis entry has no scid'')"

definition apply_nextKeyHashes :: "raw_map \<Rightarrow> parameter_state \<Rightarrow> parameter_state \<Rightarrow> string + parameter_state" where
  "apply_nextKeyHashes raw previous current =
     (case member raw ''nextKeyHashes'' of
        Some v \<Rightarrow>
          (case um_strings (st_nextKeyHashes current) v of
             None \<Rightarrow> Inl ''invalid nextKeyHashes''
           | Some hashes \<Rightarrow>
               if hasDuplicates hashes then Inl ''nextKeyHashes contains duplicates''
               else if \<not> list_all (\<lambda>h. parseSHA256Multihash h \<noteq> None) hashes
               then Inl ''nextKeyHashes contains an invalid SHA-256 multihash''
               else Inr (current\<lparr>st_nextKeyHashes := hashes, st_preRotation := hashes \<noteq> []\<rparr>))
      | None \<Rightarrow>
          if st_preRotation previous then Inl ''nextKeyHashes must be present during pre-rotation'' else Inr current)"

text \<open>The first key that does not decode gives the error.\<close>

fun check_keys :: "string list \<Rightarrow> string + unit" where
  "check_keys [] = Inr ()"
| "check_keys (k # ks) = try_then (decodeUpdateKey k) (\<lambda>_. check_keys ks)"

definition apply_updateKeys :: "raw_map \<Rightarrow> bool \<Rightarrow> parameter_state \<Rightarrow> parameter_state \<Rightarrow> string + parameter_state" where
  "apply_updateKeys raw hasPrevious previous current =
     (case member raw ''updateKeys'' of
        None \<Rightarrow>
          if \<not> hasPrevious \<or> st_preRotation previous then Inl ''updateKeys must be present here'' else Inr current
      | Some v \<Rightarrow>
          (case um_strings [] v of
             None \<Rightarrow> Inl ''invalid updateKeys''
           | Some keys \<Rightarrow>
               if keys = [] then
                 (if \<not> hasPrevious \<or> st_preRotation previous then Inl ''updateKeys cannot be empty here'' else Inr current)
               else if hasDuplicates keys then Inl ''updateKeys contains duplicates''
               else try_then (check_keys keys) (\<lambda>_.
                 if st_preRotation previous \<and>
                    \<not> list_all (\<lambda>k. hashMultibaseString k \<in> set (st_nextKeyHashes previous)) keys
                 then Inl ''updateKey was not pre-committed''
                 else Inr (current\<lparr>st_updateKeys := keys\<rparr>))))"

definition apply_portable :: "raw_map \<Rightarrow> bool \<Rightarrow> parameter_state \<Rightarrow> string + parameter_state" where
  "apply_portable raw hasPrevious current =
     (case member raw ''portable'' of
        None \<Rightarrow> Inr current
      | Some v \<Rightarrow>
          (case um_bool False v of
             None \<Rightarrow> Inl ''portable may only be enabled in genesis''
           | Some portable \<Rightarrow>
               if hasPrevious \<and> portable then Inl ''portable may only be enabled in genesis''
               else Inr (current\<lparr>st_portable := portable\<rparr>)))"

definition check_others :: "raw_map \<Rightarrow> string + unit" where
  "check_others raw =
     try_then (case member raw ''witness'' of
         None \<Rightarrow> Inr ()
       | Some v \<Rightarrow> (case um_map v of
           None \<Rightarrow> Inl ''invalid witness parameter''
         | Some w \<Rightarrow> ensure (w = []) ''witnessed DID logs are not supported'')) (\<lambda>_.
     try_then (case member raw ''watchers'' of
         None \<Rightarrow> Inr ()
       | Some v \<Rightarrow> ensure (um_strings [] v \<noteq> None) ''invalid watchers'') (\<lambda>_.
     case member raw ''ttl'' of
       None \<Rightarrow> Inr ()
     | Some v \<Rightarrow> ensure (um_uint 32 v \<noteq> None) ''invalid ttl''))"

definition apply_deactivated :: "raw_map \<Rightarrow> bool \<Rightarrow> parameter_state \<Rightarrow> string + parameter_state" where
  "apply_deactivated raw hasPrevious current =
     (case member raw ''deactivated'' of
        None \<Rightarrow> Inr current
      | Some v \<Rightarrow>
          (case um_bool False v of
             None \<Rightarrow> Inl ''invalid deactivated parameter''
           | Some deactivated \<Rightarrow>
               if \<not> hasPrevious \<and> deactivated then Inl ''invalid deactivated parameter''
               else Inr (current\<lparr>st_deactivated := deactivated\<rparr>)))"

definition applyParameters :: "raw_map \<Rightarrow> parameter_state \<Rightarrow> bool \<Rightarrow> string + parameter_state" where
  "applyParameters raw previous hasPrevious =
     try_then (ensure (list_all (\<lambda>(name, _). name \<in> set parameter_names) raw) ''unknown DID method parameter'') (\<lambda>_.
     try_then (apply_method raw hasPrevious) (\<lambda>_.
     try_then (apply_scid raw hasPrevious previous) (\<lambda>c1.
     try_then (apply_nextKeyHashes raw previous c1) (\<lambda>c2.
     try_then (apply_updateKeys raw hasPrevious previous c2) (\<lambda>c3.
     try_then (ensure (st_updateKeys c3 \<noteq> []) ''no active update keys'') (\<lambda>_.
     try_then (apply_portable raw hasPrevious c3) (\<lambda>c4.
     try_then (check_others raw) (\<lambda>_. apply_deactivated raw hasPrevious c4))))))))"

section \<open>Verifying an entry\<close>

definition signed_message :: "webvh_lib \<Rightarrow> log_entry \<Rightarrow> string + string" where
  "signed_message lib entry =
     (case canonicalJSON lib (delete_member ''proofValue'' (dp_raw (le_proof entry))) of
        None \<Rightarrow> Inl ''canonicalize proof config''
      | Some proofCanonical \<Rightarrow>
          (case canonicalJSON lib (delete_member ''proof'' (le_raw entry)) of
             None \<Rightarrow> Inl ''canonicalize log entry''
           | Some documentCanonical \<Rightarrow> Inr (sha256 proofCanonical @ sha256 documentCanonical)))"

definition verifyEntryProof :: "webvh_lib \<Rightarrow> log_entry \<Rightarrow> string + unit" where
  "verifyEntryProof lib entry =
     try_then (signed_message lib entry) (\<lambda>message.
     let vm = dp_verificationMethod (le_proof entry) in
     case Cut vm ''#'' of (did, fragment, ok) \<Rightarrow>
       if \<not> ok \<or> \<not> HasPrefix did ''did:key:'' \<or> fragment \<noteq> TrimPrefix did ''did:key:''
       then Inl ''proof verificationMethod is not a canonical did:key''
       else (case DIDKeyResolver did vm of
         Inl _ \<Rightarrow> Inl ''resolve log proof key''
       | Inr publicKey \<Rightarrow>
           (case decodeProofValue (dp_proofValue (le_proof entry)) of
              None \<Rightarrow> Inl ''log proof signature verification failed''
            | Some signature \<Rightarrow>
                ensure (length signature = 64 \<and> wv_verify lib publicKey message signature)
                  ''log proof signature verification failed'')))"

definition parameter_scid :: "log_entry \<Rightarrow> string option" where
  "parameter_scid entry = (case member (le_parameters entry) ''scid'' of None \<Rightarrow> None | Some v \<Rightarrow> um_string [] v)"

definition hashed_document :: "log_entry \<Rightarrow> log_entry option \<Rightarrow> raw_map" where
  "hashed_document entry previous =
     set_member ''versionId''
       (JStr (case previous of
          None \<Rightarrow> (case parameter_scid entry of None \<Rightarrow> [] | Some scid \<Rightarrow> scid)
        | Some p \<Rightarrow> le_versionID p))
       (delete_member ''proof'' (le_raw entry))"

definition verifyEntryHash :: "webvh_lib \<Rightarrow> log_entry \<Rightarrow> log_entry option \<Rightarrow> string + unit" where
  "verifyEntryHash lib entry previous =
     ensure (hashJSON lib (hashed_document entry previous) = Some (le_versionHash entry))
       ''versionId hash does not match log entry''"

definition verifyGenesisSCID :: "webvh_lib \<Rightarrow> log_entry \<Rightarrow> string + unit" where
  "verifyGenesisSCID lib entry =
     (case parameter_scid entry of
        None \<Rightarrow> Inl ''invalid genesis scid''
      | Some scid \<Rightarrow>
          (case wv_marshal lib (set_member ''versionId'' (JStr scidPlaceholder) (delete_member ''proof'' (le_raw entry))) of
             None \<Rightarrow> Inl ''json.Marshal''
           | Some serialized \<Rightarrow>
               (case wv_transform lib (ReplaceAll serialized scid scidPlaceholder) of
                  None \<Rightarrow> Inl ''jsoncanonicalizer.Transform''
                | Some canonical \<Rightarrow>
                    ensure (multihash canonical = scid) ''genesis SCID does not match log entry'')))"

section \<open>The log\<close>

text \<open>The entries of the lines that are not blank; an error names the line.\<close>

fun parse_lines :: "webvh_lib \<Rightarrow> int \<Rightarrow> int \<Rightarrow> nat \<Rightarrow> string list \<Rightarrow> string + log_entry list" where
  "parse_lines lib now clockSkew n [] = Inr []"
| "parse_lines lib now clockSkew n (line # ls) =
     (if TrimSpace line = [] then parse_lines lib now clockSkew (Suc n) ls
      else case parseLogEntry lib line now clockSkew of
        Inl _ \<Rightarrow> Inl (''line '' @ FormatUint (int n + 1))
      | Inr entry \<Rightarrow> try_then (parse_lines lib now clockSkew (Suc n) ls) (\<lambda>es. Inr (entry # es)))"

text \<open>
  One round of the loop of \<open>validateLog\<close>: the entry at an index against the previous one and the
  parameters in force, to the parameters it puts in force.
\<close>

definition check_entry ::
  "webvh_lib \<Rightarrow> string \<Rightarrow> nat \<Rightarrow> log_entry option \<Rightarrow> parameter_state \<Rightarrow> log_entry \<Rightarrow> string + parameter_state" where
  "check_entry lib requestedSCID index previous active entry =
     try_then (ensure (le_version entry = int index + 1) ''versionId sequence is not contiguous'') (\<lambda>_.
     try_then (ensure (scidFromDID (le_stateID entry) = Inr requestedSCID) ''DID document SCID does not match requested DID'') (\<lambda>_.
     try_then (ensure (case previous of None \<Rightarrow> True | Some p \<Rightarrow> le_versionTime p < le_versionTime entry)
       ''versionTime is not strictly increasing'') (\<lambda>_.
     try_then (ensure (\<not> st_deactivated active) ''DID log has entries after deactivation'') (\<lambda>_.
     case applyParameters (le_parameters entry) active (previous \<noteq> None) of
       Inl _ \<Rightarrow> Inl (''version '' @ FormatUint (le_version entry) @ '' parameters'')
     | Inr current \<Rightarrow>
         try_then (ensure (st_scid current = requestedSCID) ''parameters.scid does not match requested DID'') (\<lambda>_.
         let authorizedKeys = (if previous \<noteq> None \<and> \<not> st_preRotation active then st_updateKeys active else st_updateKeys current) in
         try_then (ensure (proofKeyAuthorized (dp_verificationMethod (le_proof entry)) authorizedKeys)
           ''log proof key is not authorized'') (\<lambda>_.
         try_then (verifyEntryProof lib entry) (\<lambda>_.
         try_then (verifyEntryHash lib entry previous) (\<lambda>_.
         try_then (case previous of
             None \<Rightarrow> verifyGenesisSCID lib entry
           | Some p \<Rightarrow>
               ensure (le_stateID entry = le_stateID p \<or>
                       st_portable current \<and> stateAlsoKnownAs (le_state entry) (le_stateID p))
                 ''DID move does not satisfy portability requirements'') (\<lambda>_. Inr current)))))))))"

fun check_entries ::
  "webvh_lib \<Rightarrow> string \<Rightarrow> nat \<Rightarrow> log_entry option \<Rightarrow> parameter_state \<Rightarrow> log_entry list \<Rightarrow> string + parameter_state" where
  "check_entries lib scid index previous active [] = Inr active"
| "check_entries lib scid index previous active (entry # es) =
     try_then (check_entry lib scid index previous active entry) (\<lambda>current.
       check_entries lib scid (Suc index) (Some entry) current es)"

definition validateLog :: "webvh_lib \<Rightarrow> string \<Rightarrow> string \<Rightarrow> int \<Rightarrow> int \<Rightarrow> string + json" where
  "validateLog lib content requestedDID now clockSkew =
     (if content = [] \<or> clockSkew < 0 then Inl ''empty DID log''
      else
        try_then (scidFromDID requestedDID) (\<lambda>requestedSCID.
        try_then (parse_lines lib now clockSkew 0 (SplitOn (CHR 0x0A) content)) (\<lambda>entries.
        try_then (ensure (entries \<noteq> []) ''empty DID log'') (\<lambda>_.
        try_then (check_entries lib requestedSCID 0 None no_parameters entries) (\<lambda>active.
        try_then (ensure (requestedDID \<in> le_stateID ` set entries \<and> le_stateID (last entries) = requestedDID)
          ''requested DID is not the current DID document id'') (\<lambda>_.
        try_then (ensure (\<not> st_deactivated active) ''DID is deactivated'') (\<lambda>_.
        Inr (le_state (last entries)))))))))"

end
