(* ===== verification/WebVHProps.thy ===== *)
theory WebVHProps
  imports WebVH
begin

text \<open>
  What a validated did:webvh history guarantees: every entry is signed by a key the history
  authorised before it, the entries are numbered, dated and chained from the identifier's own
  hash, and the version id of the last one fixes the whole history.
\<close>

section \<open>The loops\<close>

lemma try_then_Inr: "try_then x f = Inr b \<longleftrightarrow> (\<exists>a. x = Inr a \<and> f a = Inr b)"
  by (cases x) (auto simp: try_then_def)

lemma ensure_Inr [simp]: "ensure b e = Inr u \<longleftrightarrow> b"
  by (simp add: ensure_def)

text \<open>What is before the entry at an index.\<close>

definition entry_before :: "log_entry list \<Rightarrow> nat \<Rightarrow> log_entry option" where
  "entry_before es k = (if k = 0 then None else Some (es ! (k - 1)))"

definition state_before :: "parameter_state list \<Rightarrow> nat \<Rightarrow> parameter_state" where
  "state_before ps k = (if k = 0 then no_parameters else ps ! (k - 1))"

lemma check_entries_Inr:
  assumes "check_entries lib scid i prev active es = Inr final"
  shows "\<exists>ps. length ps = length es \<and> final = last (active # ps) \<and>
     (\<forall>k < length es. check_entry lib scid (i + k) (if k = 0 then prev else Some (es ! (k - 1)))
        (if k = 0 then active else ps ! (k - 1)) (es ! k) = Inr (ps ! k))"
  using assms
proof (induction es arbitrary: i prev active)
  case (Cons e es)
  then obtain c where c: "check_entry lib scid i prev active e = Inr c"
    and rest: "check_entries lib scid (Suc i) (Some e) c es = Inr final"
    by (auto simp: try_then_Inr)
  from Cons.IH [OF rest] obtain ps where ps: "length ps = length es" "final = last (c # ps)"
    "\<forall>k < length es. check_entry lib scid (Suc i + k) (if k = 0 then Some e else Some (es ! (k - 1)))
        (if k = 0 then c else ps ! (k - 1)) (es ! k) = Inr (ps ! k)" by blast
  have "check_entry lib scid (i + k) (if k = 0 then prev else Some ((e # es) ! (k - 1)))
      (if k = 0 then active else (c # ps) ! (k - 1)) ((e # es) ! k) = Inr ((c # ps) ! k)"
    if "k < length (e # es)" for k
  proof (cases k)
    case (Suc j)
    with that ps(3) have "check_entry lib scid (Suc i + j) (if j = 0 then Some e else Some (es ! (j - 1)))
        (if j = 0 then c else ps ! (j - 1)) (es ! j) = Inr (ps ! j)" by simp
    then show ?thesis using Suc by (cases j) simp_all
  qed (simp add: c)
  with ps(1,2) show ?case by (intro exI [of _ "c # ps"]) auto
qed simp

text \<open>A validated log, with the parameters in force after each of its entries.\<close>

definition valid_log :: "webvh_lib \<Rightarrow> string \<Rightarrow> int \<Rightarrow> int \<Rightarrow> string \<Rightarrow> log_entry list \<Rightarrow> parameter_state list \<Rightarrow> bool" where
  "valid_log lib content now skew did es ps \<longleftrightarrow>
     parse_lines lib now skew 0 (SplitOn (CHR 0x0A) content) = Inr es \<and> es \<noteq> [] \<and> length ps = length es \<and>
     \<not> st_deactivated (last ps) \<and> le_stateID (last es) = did \<and>
     (\<exists>scid. scidFromDID did = Inr scid \<and>
        (\<forall>k < length es. check_entry lib scid k (entry_before es k) (state_before ps k) (es ! k) = Inr (ps ! k)))"

lemma validateLog_Inr:
  assumes "validateLog lib content did now skew = Inr doc"
  shows "\<exists>es ps. valid_log lib content now skew did es ps \<and> doc = le_state (last es)"
proof -
  from assms obtain scid es active where
    scid: "scidFromDID did = Inr scid" and es: "parse_lines lib now skew 0 (SplitOn (CHR 0x0A) content) = Inr es"
      "es \<noteq> []" and chk: "check_entries lib scid 0 None no_parameters es = Inr active"
    and rest: "le_stateID (last es) = did" "\<not> st_deactivated active" "doc = le_state (last es)"
    by (auto simp: validateLog_def try_then_Inr split: if_splits)
  from check_entries_Inr [OF chk] obtain ps where ps: "length ps = length es" "active = last (no_parameters # ps)"
    "\<forall>k < length es. check_entry lib scid k (entry_before es k) (state_before ps k) (es ! k) = Inr (ps ! k)"
    by (auto simp: entry_before_def state_before_def)
  from ps(1) es(2) have "ps \<noteq> []" by auto
  with ps(2) rest(2) have "\<not> st_deactivated (last ps)" by simp
  with scid es ps rest have "valid_log lib content now skew did es ps" unfolding valid_log_def by blast
  with rest(3) show ?thesis by blast
qed

section \<open>One entry\<close>

lemma check_entry_Inr:
  assumes "check_entry lib scid k previous active e = Inr p"
  shows "le_version e = int k + 1" "scidFromDID (le_stateID e) = Inr scid" "\<not> st_deactivated active"
    "\<And>q. previous = Some q \<Longrightarrow> le_versionTime q < le_versionTime e"
    "applyParameters (le_parameters e) active (previous \<noteq> None) = Inr p" "st_scid p = scid"
    "proofKeyAuthorized (dp_verificationMethod (le_proof e))
       (if previous \<noteq> None \<and> \<not> st_preRotation active then st_updateKeys active else st_updateKeys p)"
    "verifyEntryProof lib e = Inr ()" "hashJSON lib (hashed_document e previous) = Some (le_versionHash e)"
    "previous = None \<Longrightarrow> verifyGenesisSCID lib e = Inr ()"
    "\<And>q. previous = Some q \<Longrightarrow> le_stateID e \<noteq> le_stateID q \<Longrightarrow>
       st_portable p \<and> stateAlsoKnownAs (le_state e) (le_stateID q)"
proof -
  obtain c where c: "applyParameters (le_parameters e) active (previous \<noteq> None) = Inr c"
    using assms by (auto simp: check_entry_def try_then_Inr Let_def split: sum.splits)
  note facts = assms [unfolded check_entry_def c sum.case Let_def try_then_Inr]
  from facts have "c = p" by auto
  note facts = facts [unfolded this]
  from facts show "le_version e = int k + 1" by auto
  from facts show "scidFromDID (le_stateID e) = Inr scid" by auto
  from facts show "\<not> st_deactivated active" by auto
  from facts show "\<And>q. previous = Some q \<Longrightarrow> le_versionTime q < le_versionTime e" by auto
  from c \<open>c = p\<close> show "applyParameters (le_parameters e) active (previous \<noteq> None) = Inr p" by simp
  from facts show "st_scid p = scid" by auto
  from facts show "proofKeyAuthorized (dp_verificationMethod (le_proof e))
       (if previous \<noteq> None \<and> \<not> st_preRotation active then st_updateKeys active else st_updateKeys p)" by auto
  from facts show "verifyEntryProof lib e = Inr ()" by auto
  from facts show "hashJSON lib (hashed_document e previous) = Some (le_versionHash e)"
    by (auto simp: verifyEntryHash_def)
  from facts show "previous = None \<Longrightarrow> verifyGenesisSCID lib e = Inr ()" by auto
  from facts show "\<And>q. previous = Some q \<Longrightarrow> le_stateID e \<noteq> le_stateID q \<Longrightarrow>
       st_portable p \<and> stateAlsoKnownAs (le_state e) (le_stateID q)" by auto
qed


lemma applyParameters_keys:
  assumes "applyParameters raw previous hasPrevious = Inr p"
  shows "st_updateKeys p \<noteq> []"
    and "st_preRotation previous \<Longrightarrow> k \<in> set (st_updateKeys p) \<Longrightarrow>
      hashMultibaseString k \<in> set (st_nextKeyHashes previous)"
proof -
  from assms obtain c2 c3 c4 where
    c3: "apply_updateKeys raw hasPrevious previous c2 = Inr c3" "st_updateKeys c3 \<noteq> []" and
    c4: "apply_portable raw hasPrevious c3 = Inr c4" "apply_deactivated raw hasPrevious c4 = Inr p"
    by (auto simp: applyParameters_def try_then_Inr)
  from c4 have same: "st_updateKeys p = st_updateKeys c3"
    by (auto simp: apply_portable_def apply_deactivated_def split: option.splits if_splits)
  with c3(2) show "st_updateKeys p \<noteq> []" by simp
  show "hashMultibaseString k \<in> set (st_nextKeyHashes previous)"
    if "st_preRotation previous" "k \<in> set (st_updateKeys p)"
    using c3(1) that unfolding same apply_updateKeys_def
    by (auto simp: try_then_Inr list_all_iff split: option.splits if_splits)
qed

text \<open>The entry is signed with the Ed25519 key a multikey names.\<close>

definition signed_by :: "webvh_lib \<Rightarrow> log_entry \<Rightarrow> string \<Rightarrow> bool" where
  "signed_by lib e mk \<longleftrightarrow>
     (\<exists>key message signature.
        DIDKeyResolver (''did:key:'' @ mk) (''did:key:'' @ mk @ ''#'' @ mk) = Inr key \<and>
        signed_message lib e = Inr message \<and>
        decodeProofValue (dp_proofValue (le_proof e)) = Some signature \<and>
        length signature = 64 \<and> wv_verify lib key message signature)"

lemma proof_key:
  assumes "proofKeyAuthorized vm keys"
  shows "\<exists>mk. vm = ''did:key:'' @ mk @ ''#'' @ mk \<and> mk \<in> set keys \<and> Cut vm ''#'' = (''did:key:'' @ mk, mk, True)"
proof -
  obtain did fragment ok where cut: "Cut vm ''#'' = (did, fragment, ok)" by (cases "Cut vm ''#''")
  with assms have ok: "ok" "HasPrefix did ''did:key:''" "TrimPrefix did ''did:key:'' = fragment" "fragment \<in> set keys"
    by (auto simp: proofKeyAuthorized_def split: if_splits)
  from ok(2) obtain r where "did = ''did:key:'' @ r" by (auto simp: HasPrefix_iff)
  with ok(3) have did: "did = ''did:key:'' @ fragment" using TrimPrefix_append [of "''did:key:''" r] by simp
  from cut ok(1) have "Cut vm ''#'' = (did, fragment, True)" by simp
  from Cut_True [OF this] did cut ok show ?thesis by auto
qed

lemma verifyEntryProof_Inr:
  assumes "verifyEntryProof lib e = Inr ()" "proofKeyAuthorized (dp_verificationMethod (le_proof e)) keys"
  shows "\<exists>mk \<in> set keys. signed_by lib e mk"
proof -
  from proof_key [OF assms(2)] obtain mk where mk: "dp_verificationMethod (le_proof e) = ''did:key:'' @ mk @ ''#'' @ mk"
    "mk \<in> set keys" "Cut (dp_verificationMethod (le_proof e)) ''#'' = (''did:key:'' @ mk, mk, True)" by blast
  from assms(1) have "signed_by lib e mk"
    unfolding verifyEntryProof_def signed_by_def try_then_Inr Let_def mk(3) prod.case
    by (auto simp: mk(1) split: if_splits sum.splits option.splits)
  with mk(2) show ?thesis by blast
qed

section \<open>Identity of a history\<close>





text \<open>The canonical text an entry's hash is of.\<close>

definition entry_text :: "webvh_lib \<Rightarrow> log_entry list \<Rightarrow> nat \<Rightarrow> string option" where
  "entry_text lib es k = canonicalJSON lib (hashed_document (es ! k) (entry_before es k))"


lemma parse_lines_entry:
  assumes "parse_lines lib now skew n ls = Inr es" "e \<in> set es"
  shows "\<exists>line. parseLogEntry lib line now skew = Inr e"
  using assms
  by (induction lib now skew n ls arbitrary: es rule: parse_lines.induct)
     (auto simp: try_then_Inr split: if_splits sum.splits)

lemma parseLogEntry_Inr:
  assumes "parseLogEntry lib line now skew = Inr e"
  shows "parse_version (le_versionID e) = Inr (le_version e, le_versionHash e)" "le_versionTime e \<le> now + skew"
  using assms
  by (auto simp: parseLogEntry_def parse_versionTime_def time_ok_def split: if_splits option.splits sum.splits list.splits)

lemma valid_entry:
  assumes "valid_log lib content now skew did es ps" "k < length es"
  shows "parse_version (le_versionID (es ! k)) = Inr (le_version (es ! k), le_versionHash (es ! k))"
    "le_versionTime (es ! k) \<le> now + skew"
    "\<exists>scid. scidFromDID did = Inr scid \<and>
       check_entry lib scid k (entry_before es k) (state_before ps k) (es ! k) = Inr (ps ! k)"
proof -
  from assms have "parse_lines lib now skew 0 (SplitOn (CHR 0x0A) content) = Inr es" "es ! k \<in> set es"
    by (auto simp: valid_log_def)
  from parse_lines_entry [OF this] obtain line where "parseLogEntry lib line now skew = Inr (es ! k)" by blast
  from parseLogEntry_Inr [OF this]
  show "parse_version (le_versionID (es ! k)) = Inr (le_version (es ! k), le_versionHash (es ! k))"
    "le_versionTime (es ! k) \<le> now + skew" .
  from assms show "\<exists>scid. scidFromDID did = Inr scid \<and>
       check_entry lib scid k (entry_before es k) (state_before ps k) (es ! k) = Inr (ps ! k)"
    unfolding valid_log_def by blast
qed

lemma valid_version: "valid_log lib content now skew did es ps \<Longrightarrow> k < length es \<Longrightarrow> le_version (es ! k) = int k + 1"
  using valid_entry(3) check_entry_Inr(1) by blast

lemma valid_hash:
  assumes "valid_log lib content now skew did es ps" "k < length es"
  shows "\<exists>t. entry_text lib es k = Some t \<and> le_versionHash (es ! k) = multihash t"
proof -
  from valid_entry(3) [OF assms] obtain scid where
    "check_entry lib scid k (entry_before es k) (state_before ps k) (es ! k) = Inr (ps ! k)" by blast
  from check_entry_Inr(9) [OF this] show ?thesis by (auto simp: hashJSON_def entry_text_def)
qed



section \<open>The properties\<close>

text \<open>
  C19. A validated history is signed throughout by keys it authorised before: the first entry by one
  of its own update keys, every later entry by an update key the entry before it had put in force,
  or, where that entry announced the hashes of the next keys, by a key that was announced.
\<close>

theorem log_signed_by_authorised:
  assumes "validateLog lib content did now skew = Inr doc"
  shows "\<exists>es ps. valid_log lib content now skew did es ps \<and> doc = le_state (last es) \<and>
    (\<forall>k < length es. \<exists>mk. signed_by lib (es ! k) mk \<and>
       (if k = 0 then mk \<in> set (st_updateKeys (ps ! 0))
        else if st_preRotation (ps ! (k - 1)) then hashMultibaseString mk \<in> set (st_nextKeyHashes (ps ! (k - 1)))
        else mk \<in> set (st_updateKeys (ps ! (k - 1)))))"
proof -
  from validateLog_Inr [OF assms] obtain es ps where v: "valid_log lib content now skew did es ps" "doc = le_state (last es)"
    by blast
  have "\<exists>mk. signed_by lib (es ! k) mk \<and>
       (if k = 0 then mk \<in> set (st_updateKeys (ps ! 0))
        else if st_preRotation (ps ! (k - 1)) then hashMultibaseString mk \<in> set (st_nextKeyHashes (ps ! (k - 1)))
        else mk \<in> set (st_updateKeys (ps ! (k - 1))))" if "k < length es" for k
  proof -
    from valid_entry(3) [OF v(1) that] obtain scid where
      chk: "check_entry lib scid k (entry_before es k) (state_before ps k) (es ! k) = Inr (ps ! k)" by blast
    note facts = check_entry_Inr [OF chk]
    from verifyEntryProof_Inr [OF facts(8,7)] obtain mk where mk: "signed_by lib (es ! k) mk"
      "mk \<in> set (if entry_before es k \<noteq> None \<and> \<not> st_preRotation (state_before ps k)
        then st_updateKeys (state_before ps k) else st_updateKeys (ps ! k))" by blast
    with applyParameters_keys(2) [OF facts(5)] show ?thesis
      by (auto simp: entry_before_def state_before_def split: if_splits)
  qed
  with v show ?thesis by blast
qed

lemma times_increase:
  assumes "valid_log lib content now skew did es ps" "i < j" "j < length es"
  shows "le_versionTime (es ! i) < le_versionTime (es ! j)"
  using assms(2,3)
proof (induction j)
  case (Suc j)
  from valid_entry(3) [OF assms(1) Suc.prems(2)] obtain scid where
    "check_entry lib scid (Suc j) (entry_before es (Suc j)) (state_before ps (Suc j)) (es ! Suc j) = Inr (ps ! Suc j)" by blast
  from check_entry_Inr(4) [OF this] have "le_versionTime (es ! j) < le_versionTime (es ! Suc j)"
    by (simp add: entry_before_def)
  with Suc show ?case by (cases "i = j") auto
qed simp

text \<open>
  C20. A validated history is one chain from its identifier: its entries are numbered from one, dated
  in strictly increasing order and not in the future, each carries the hash of its own content linked
  to the version before it, the first one hashes to the SCID of the DID, no entry but the last could
  have deactivated it, and the document answered is the last one's, whose id is the DID asked for.
\<close>

theorem log_is_chained:
  assumes "validateLog lib content did now skew = Inr doc"
  shows "\<exists>es ps scid. valid_log lib content now skew did es ps \<and> doc = le_state (last es) \<and>
    le_stateID (last es) = did \<and> scidFromDID did = Inr scid \<and> st_scid (ps ! 0) = scid \<and>
    verifyGenesisSCID lib (es ! 0) = Inr () \<and>
    (\<forall>k < length es. le_version (es ! k) = int k + 1 \<and> scidFromDID (le_stateID (es ! k)) = Inr scid \<and>
       le_versionTime (es ! k) \<le> now + skew \<and> \<not> st_deactivated (ps ! k) \<and>
       (\<exists>t. entry_text lib es k = Some t \<and> le_versionHash (es ! k) = multihash t)) \<and>
    (\<forall>i j. i < j \<longrightarrow> j < length es \<longrightarrow> le_versionTime (es ! i) < le_versionTime (es ! j))"
proof -
  from validateLog_Inr [OF assms] obtain es ps where v: "valid_log lib content now skew did es ps" "doc = le_state (last es)"
    by blast
  from v(1) obtain scid where scid: "scidFromDID did = Inr scid" and ne: "es \<noteq> []" "length ps = length es"
      "le_stateID (last es) = did" "\<not> st_deactivated (last ps)"
    and chk: "\<And>k. k < length es \<Longrightarrow> check_entry lib scid k (entry_before es k) (state_before ps k) (es ! k) = Inr (ps ! k)"
    unfolding valid_log_def by blast
  have active: "\<not> st_deactivated (ps ! k)" if "k < length es" for k
  proof (cases "Suc k < length es")
    case True
    from check_entry_Inr(3) [OF chk [OF True]] show ?thesis by (simp add: state_before_def)
  next
    case False
    with that ne have "k = length ps - 1" "ps \<noteq> []" by auto
    with ne(4) show ?thesis by (simp add: last_conv_nth)
  qed
  from ne have pos: "0 < length es" by simp
  note first = check_entry_Inr [OF chk [OF pos]]
  have "verifyGenesisSCID lib (es ! 0) = Inr ()" using first(10) by (simp add: entry_before_def)
  moreover have "\<forall>k < length es. le_version (es ! k) = int k + 1 \<and> scidFromDID (le_stateID (es ! k)) = Inr scid \<and>
       le_versionTime (es ! k) \<le> now + skew \<and> \<not> st_deactivated (ps ! k) \<and>
       (\<exists>t. entry_text lib es k = Some t \<and> le_versionHash (es ! k) = multihash t)"
    using valid_version [OF v(1)] check_entry_Inr(2) [OF chk] valid_entry(2) [OF v(1)] active valid_hash [OF v(1)] by blast
  moreover have "\<forall>i j. i < j \<longrightarrow> j < length es \<longrightarrow> le_versionTime (es ! i) < le_versionTime (es ! j)"
    using times_increase [OF v(1)] by blast
  ultimately show ?thesis using v scid ne(3) first(6) by blast
qed



section \<open>A concrete log\<close>

text \<open>
  A log of one entry. The library's texts are chosen freely: the entry's document is marshalled to
  \<open>d\<close>, its proof configuration to \<open>p\<close>, the document its hash is of to \<open>h\<close>, and the one its SCID is
  of to the empty text; every signature verifies.
\<close>

lemma set_EncodeBase58BTC: "set (EncodeBase58BTC v) \<subseteq> set base58BTCAlphabet"
  unfolding EncodeBase58BTC_eq using digits_range [of 58] char58_in_alphabet
  by (auto simp: base58BTCAlphabet_def)

lemma parse_multihash: "parseSHA256Multihash (multihash t) = Some (sha256 t)"
  by (simp add: parseSHA256Multihash_def multihash_def decode_encode)

lemma not_in_multihash: "c \<notin> set base58BTCAlphabet \<Longrightarrow> c \<notin> set (multihash t)"
  using set_EncodeBase58BTC by (auto simp: multihash_def)

lemma multihash_not_Nil: "multihash t \<noteq> []"
  using parse_multihash [of t] by (auto simp: parseSHA256Multihash_def DecodeBase58BTC_eq)

definition demo_scid :: string where "demo_scid = multihash []"
definition demo_did :: string where "demo_did = ''did:webvh:'' @ demo_scid @ '':h''"
definition demo_key :: string where
  "demo_key = ''z'' @ EncodeBase58BTC ([CHR 0xED, CHR 0x01] @ replicate 32 (CHR 0x01))"
definition demo_vm :: string where "demo_vm = ''did:key:'' @ demo_key @ ''#'' @ demo_key"

definition demo_config :: raw_map where
  "demo_config = [(''type'', JStr ''DataIntegrityProof''), (''cryptosuite'', JStr ''eddsa-jcs-2022''),
     (''proofPurpose'', JStr ''assertionMethod''), (''verificationMethod'', JStr demo_vm)]"

definition demo_proof :: raw_map where
  "demo_proof = demo_config @ [(''proofValue'', JStr (''z'' @ EncodeBase58BTC (replicate 64 (CHR 0x01))))]"

definition demo_body :: raw_map where
  "demo_body = [(''versionTime'', JStr ''2024-01-01T00:00:00Z''),
     (''parameters'', JObj [(''method'', JStr ''did:webvh:1.0''), (''scid'', JStr demo_scid), (''updateKeys'', JArr [JStr demo_key])]),
     (''state'', JObj [(''id'', JStr demo_did)])]"

definition demo_versionID :: string where "demo_versionID = ''1-'' @ multihash ''h''"

definition demo_document :: raw_map where
  "demo_document = (''versionId'', JStr demo_versionID) # demo_body"

definition demo_raw :: raw_map where
  "demo_raw = demo_document @ [(''proof'', JArr [JObj demo_proof])]"

definition demo_lib :: webvh_lib where
  "demo_lib = \<lparr>wv_lex = (\<lambda>_. Some (JObj demo_raw)),
     wv_marshal = (\<lambda>m. if m = demo_document then Some ''d'' else if m = demo_config then Some ''p''
        else if m = demo_body @ [(''versionId'', JStr demo_scid)] then Some ''h''
        else if m = demo_body @ [(''versionId'', JStr scidPlaceholder)] then Some [] else None),
     wv_transform = Some, wv_ijson = (\<lambda>_. True), wv_verify = (\<lambda>_ _ _. True)\<rparr>"

definition demo_now :: int where "demo_now = 1704067200 * 1000000000"

definition demo_entry :: log_entry where
  "demo_entry = \<lparr>le_raw = demo_raw, le_versionID = demo_versionID, le_version = 1, le_versionHash = multihash ''h'',
     le_versionTime = demo_now,
     le_parameters = [(''method'', JStr ''did:webvh:1.0''), (''scid'', JStr demo_scid), (''updateKeys'', JArr [JStr demo_key])],
     le_state = JObj [(''id'', JStr demo_did)], le_stateID = demo_did,
     le_proof = \<lparr>dp_raw = demo_proof, dp_verificationMethod = demo_vm,
       dp_proofValue = ''z'' @ EncodeBase58BTC (replicate 64 (CHR 0x01)), dp_created = None\<rparr>\<rparr>"

definition demo_parameters :: parameter_state where
  "demo_parameters = \<lparr>st_scid = demo_scid, st_updateKeys = [demo_key], st_nextKeyHashes = [], st_preRotation = False,
     st_portable = False, st_deactivated = False\<rparr>"

lemma demo_time: "Parse ''2024-01-01T00:00:00Z'' = Some (demo_now, 0)" "Format (demo_now, 0) = ''2024-01-01T00:00:00Z''"
  "demo_now \<noteq> zero_time"
  by code_simp+

lemma demo_version: "parse_version demo_versionID = Inr (1, multihash ''h'')"
proof -
  have "Cut demo_versionID ''-'' = (''1'', multihash ''h'', True)"
    using Cut_single_append [of "CHR ''-''" "''1''" "multihash ''h''"] by (simp add: demo_versionID_def)
  moreover have "ParseUint32_value ''1'' = 1" "FormatUint 1 = ''1''" by code_simp+
  ultimately show ?thesis by (simp add: parse_version_def multihash_not_Nil)
qed

lemma demo_parsed: "parseLogEntry demo_lib line demo_now 0 = Inr demo_entry"
  by (simp add: parseLogEntry_def demo_lib_def demo_raw_def demo_document_def demo_body_def demo_version demo_time
      entry_fields_def required_string_def requiredJSON_def member_def parse_versionTime_def time_ok_def state_id_def
      EqualFold_def parseProof_def demo_proof_def demo_config_def proof_fields_def demo_entry_def demo_did_def)


lemma demo_scid_chars: "c \<notin> set base58BTCAlphabet \<Longrightarrow> c \<notin> set demo_scid"
  by (simp add: demo_scid_def not_in_multihash)

lemma demo_did_cut: "CutPrefix demo_did ''did:webvh:'' = (demo_scid @ '':h'', True)"
  unfolding demo_did_def by (rule CutPrefix_append)

lemma demo_scid_of: "scidFromDID demo_did = Inr demo_scid"
proof -
  have "Cut (demo_scid @ '':h'') '':'' = (demo_scid, ''h'', True)"
    using Cut_single_append [of "CHR '':''" demo_scid "''h''"] demo_scid_chars by (simp add: base58BTCAlphabet_def)
  then show ?thesis
    unfolding scidFromDID_def demo_did_cut using multihash_not_Nil parse_multihash by (simp add: demo_scid_def)
qed

lemma demo_key_of: "DIDKeyResolver (''did:key:'' @ demo_key) (''did:key:'' @ demo_key @ ''#'' @ demo_key) = Inr (replicate 32 (CHR 0x01))"
  unfolding DIDKeyResolver_Inr by (simp add: FromPublicKey_def PublicKeySize_def base58Encode_eq demo_key_def)

lemma demo_update_key: "decodeUpdateKey demo_key = Inr (replicate 32 (CHR 0x01))"
  unfolding decodeUpdateKey_def by (rule demo_key_of)

lemma demo_key_chars: "CHR ''#'' \<notin> set demo_key"
  using set_EncodeBase58BTC by (auto simp: demo_key_def base58BTCAlphabet_def)

lemma demo_vm_cut: "Cut demo_vm ''#'' = (''did:key:'' @ demo_key, demo_key, True)"
  using Cut_single_append [of "CHR ''#''" "''did:key:'' @ demo_key" demo_key] demo_key_chars by (simp add: demo_vm_def)

lemma demo_parameters_apply: "applyParameters (le_parameters demo_entry) no_parameters False = Inr demo_parameters"
  by (simp add: applyParameters_def try_then_def ensure_def demo_entry_def parameter_names_def apply_method_def member_def
      apply_scid_def no_parameters_def apply_nextKeyHashes_def apply_updateKeys_def um_strings_def hasDuplicates_def
      demo_update_key apply_portable_def check_others_def apply_deactivated_def demo_parameters_def
      demo_scid_def multihash_not_Nil)

lemma demo_maps:
  "delete_member ''proofValue'' demo_proof = demo_config" "delete_member ''proof'' demo_raw = demo_document"
  "set_member ''versionId'' v demo_document = demo_body @ [(''versionId'', v)]"
  by (simp_all add: delete_member_def set_member_def demo_proof_def demo_config_def demo_raw_def demo_document_def demo_body_def)

lemma demo_scid_placeholder: "demo_scid \<noteq> scidPlaceholder"
proof
  assume eq: "demo_scid = scidPlaceholder"
  have "CHR ''{'' \<in> set demo_scid" unfolding eq by (simp add: scidPlaceholder_def)
  moreover have "CHR ''{'' \<notin> set base58BTCAlphabet" by (simp add: base58BTCAlphabet_def)
  ultimately show False using demo_scid_chars by blast
qed

lemma demo_marshal:
  "wv_marshal demo_lib demo_config = Some ''p''" "wv_marshal demo_lib demo_document = Some ''d''"
  "wv_marshal demo_lib (demo_body @ [(''versionId'', JStr demo_scid)]) = Some ''h''"
  "wv_marshal demo_lib (demo_body @ [(''versionId'', JStr scidPlaceholder)]) = Some []"
  using demo_scid_placeholder
  by (simp_all add: demo_lib_def demo_config_def demo_document_def demo_body_def)

lemma demo_library [simp]:
  "wv_transform demo_lib t = Some t" "wv_ijson demo_lib v" "wv_verify demo_lib k t u"
  by (simp_all add: demo_lib_def)

lemma demo_canonical:
  "canonicalJSON demo_lib demo_config = Some ''p''" "canonicalJSON demo_lib demo_document = Some ''d''"
  "canonicalJSON demo_lib (demo_body @ [(''versionId'', JStr demo_scid)]) = Some ''h''"
  by (simp_all add: canonicalJSON_def demo_marshal)

lemma demo_entry_fields [simp]:
  "le_raw demo_entry = demo_raw" "dp_raw (le_proof demo_entry) = demo_proof" "le_version demo_entry = 1"
  "le_versionHash demo_entry = multihash ''h''" "le_stateID demo_entry = demo_did"
  "dp_verificationMethod (le_proof demo_entry) = demo_vm"
  "dp_proofValue (le_proof demo_entry) = ''z'' @ EncodeBase58BTC (replicate 64 (CHR 0x01))"
  by (simp_all add: demo_entry_def)

lemma demo_scid_parameter: "parameter_scid demo_entry = Some demo_scid"
  by (simp add: parameter_scid_def demo_entry_def member_def)

lemma demo_signature: "decodeProofValue (''z'' @ EncodeBase58BTC (replicate 64 (CHR 0x01))) = Some (replicate 64 (CHR 0x01))"
  by (simp add: decodeProofValue_def HasPrefix_def decode_encode)

lemma demo_resolved: "DIDKeyResolver (''did:key:'' @ demo_key) demo_vm = Inr (replicate 32 (CHR 0x01))"
  unfolding demo_vm_def by (rule demo_key_of)

lemma demo_signed: "verifyEntryProof demo_lib demo_entry = Inr ()"
proof -
  have "signed_message demo_lib demo_entry = Inr (sha256 ''p'' @ sha256 ''d'')"
    by (simp add: signed_message_def demo_maps demo_canonical)
  then show ?thesis
    unfolding verifyEntryProof_def Let_def demo_entry_fields demo_vm_cut prod.case demo_resolved demo_signature
    by (simp add: try_then_def ensure_def TrimPrefix_append [of "''did:key:''", simplified] HasPrefix_append [of "''did:key:''", simplified])
qed

lemma demo_checked: "check_entry demo_lib demo_scid 0 None no_parameters demo_entry = Inr demo_parameters"
proof -
  have "verifyEntryHash demo_lib demo_entry None = Inr ()"
    by (simp add: verifyEntryHash_def hashJSON_def hashed_document_def demo_scid_parameter demo_maps demo_canonical)
  moreover have "verifyGenesisSCID demo_lib demo_entry = Inr ()"
    by (simp add: verifyGenesisSCID_def demo_scid_parameter demo_maps demo_marshal ReplaceAll.simps)
       (simp add: demo_scid_def)
  moreover have "proofKeyAuthorized demo_vm [demo_key]"
    unfolding proofKeyAuthorized_def demo_vm_cut
    by (simp add: TrimPrefix_append [of "''did:key:''", simplified] HasPrefix_append [of "''did:key:''", simplified])
  moreover have "st_scid demo_parameters = demo_scid" "st_updateKeys demo_parameters = [demo_key]"
    "\<not> st_deactivated no_parameters"
    by (simp_all add: demo_parameters_def no_parameters_def)
  ultimately show ?thesis
    by (simp add: check_entry_def try_then_def demo_parameters_apply demo_scid_of demo_signed ensure_def)
qed

lemma demo_valid: "validateLog demo_lib ''x'' demo_did demo_now 0 = Inr (JObj [(''id'', JStr demo_did)])"
proof -
  have "TrimSpace ''x'' \<noteq> []" by code_simp
  then have "parse_lines demo_lib demo_now 0 0 (SplitOn (CHR 0x0A) ''x'') = Inr [demo_entry]"
    by (simp add: demo_parsed try_then_def)
  then show ?thesis
    by (simp add: validateLog_def demo_scid_of try_then_def demo_checked ensure_def)
       (simp add: demo_entry_def demo_parameters_def)
qed

theorem log_signed_by_authorised_witness:
  "\<exists>es ps. valid_log demo_lib ''x'' demo_now 0 demo_did es ps \<and> (\<exists>mk \<in> set (st_updateKeys (ps ! 0)). signed_by demo_lib (es ! 0) mk)"
proof -
  from log_signed_by_authorised [OF demo_valid] obtain es ps where v: "valid_log demo_lib ''x'' demo_now 0 demo_did es ps"
    and first: "0 < length es \<longrightarrow> (\<exists>mk. signed_by demo_lib (es ! 0) mk \<and> mk \<in> set (st_updateKeys (ps ! 0)))"
    by force
  from v have "0 < length es" by (simp add: valid_log_def)
  with v first show ?thesis by blast
qed

theorem log_is_chained_witness:
  "\<exists>es ps. valid_log demo_lib ''x'' demo_now 0 demo_did es ps \<and> le_version (es ! 0) = 1 \<and> st_scid (ps ! 0) = demo_scid"
proof -
  from log_is_chained [OF demo_valid] obtain es ps scid where v: "valid_log demo_lib ''x'' demo_now 0 demo_did es ps"
    and scid: "scidFromDID demo_did = Inr scid" "st_scid (ps ! 0) = scid"
    and first: "0 < length es \<longrightarrow> le_version (es ! 0) = int 0 + 1"
    by blast
  from v have "0 < length es" by (simp add: valid_log_def)
  with v scid first demo_scid_of show ?thesis by auto
qed



end
