(* ===== verification/Goroutines.thy ===== *)
theory Goroutines
  imports Steps
begin

text \<open>
  Goroutines that interleave at their statements. A \<open>prog\<close> is a goroutine's remaining code: it
  has returned, or its next action (one statement, one call of a library) moves the world and,
  by what it saw there, selects the rest. Between two actions other goroutines may do anything.
  The type is inductive, so a \<open>prog\<close> has no infinite runs; \<open>within p n\<close> bounds their length.

  \<open>rg R G p d\<close> is rely-guarantee: if the tables are \<open>d\<close> now and everything else changes them
  along \<open>R\<close> only, then every action of \<open>p\<close>, whatever fails, changes them along \<open>G\<close>. The locale
  \<open>rely\<close> gives the rules; the component theories interpret it with their own \<open>R\<close> and \<open>G\<close>.
\<close>

datatype ('t, 'a) prog =
    Return 'a
  | Act "'t world \<Rightarrow> ('t, 'a) prog" "'t world \<Rightarrow> 't world"

primrec pbind :: "('t, 'a) prog \<Rightarrow> ('a \<Rightarrow> ('t, 'b) prog) \<Rightarrow> ('t, 'b) prog" where
  "pbind (Return a) k = k a"
| "pbind (Act p e) k = Act (\<lambda>w. pbind (p w) k) e"

text \<open>\<open>x, err := m; if err != nil { h(err) }; k(x)\<close>, with \<open>m\<close> one atomic action\<close>

definition check :: "('t, 'a) tx \<Rightarrow> (err \<Rightarrow> ('t, 'b) prog) \<Rightarrow> ('a \<Rightarrow> ('t, 'b) prog) \<Rightarrow> ('t, 'b) prog" where
  "check m h k = Act (\<lambda>w. case fst (m w) of Inl e \<Rightarrow> h e | Inr a \<Rightarrow> k a) (\<lambda>w. snd (m w))"

text \<open>A call whose error is dropped.\<close>

definition ignore :: "('t, 'a) tx \<Rightarrow> ('t, 'b) prog \<Rightarrow> ('t, 'b) prog" where
  "ignore m p = check m (\<lambda>_. p) (\<lambda>_. p)"

text \<open>\<open>time.Now\<close>\<close>

definition wall :: "('t, int) tx" where
  "wall w = (Inr (clock w (tick w)), w\<lparr>tick := Suc (tick w)\<rparr>)"

definition at_time :: "(int \<Rightarrow> ('t, 'a) prog) \<Rightarrow> ('t, 'a) prog" where
  "at_time k = check wall (\<lambda>_. k 0) k"

lemma wp_wall [wp]: "wp wall Q w \<longleftrightarrow> Q (Inr (clock w (tick w))) (w\<lparr>tick := Suc (tick w)\<rparr>)"
  by (simp add: wp_def wall_def)

lemma wp_interact [wp]:
  "wp (interact e f) Q w \<longleftrightarrow>
     (if fails w (tick w) then Q (Inl e) (w\<lparr>tick := Suc (tick w)\<rparr>)
      else Q (Inr (fst (f w))) (w\<lparr>tabs := snd (f w), tick := Suc (tick w)\<rparr>))"
  by (simp add: wp_def interact_def)

lemma pbind_check [simp]: "pbind (check m h k) g = check m (\<lambda>e. pbind (h e) g) (\<lambda>a. pbind (k a) g)"
  by (auto simp: check_def split: sum.splits)

lemma pbind_ignore [simp]: "pbind (ignore m p) g = ignore m (pbind p g)"
  by (simp add: ignore_def)

lemma pbind_at_time [simp]: "pbind (at_time k) g = at_time (\<lambda>t. pbind (k t) g)"
  by (simp add: at_time_def)

text \<open>Whether the goroutine's context is done.\<close>

definition ctx_done :: "('t, bool) tx" where
  "ctx_done w = (Inr (fails w (tick w)), w\<lparr>tick := Suc (tick w)\<rparr>)"

text \<open>\<open>for { body; select { ctx.Done, deadline, ticker } }\<close>\<close>

primrec poll_each :: "nat \<Rightarrow> int \<Rightarrow> ('t, 'a option) prog \<Rightarrow> 'a \<Rightarrow> 'a \<Rightarrow> ('t, 'a) prog" where
  "poll_each 0 deadline body stopped expired =
     pbind body (\<lambda>r. case r of Some x \<Rightarrow> Return x | None \<Rightarrow>
       check ctx_done (\<lambda>_. Return stopped) (\<lambda>gone. Return (if gone then stopped else expired)))"
| "poll_each (Suc n) deadline body stopped expired =
     pbind body (\<lambda>r. case r of Some x \<Rightarrow> Return x | None \<Rightarrow>
       check ctx_done (\<lambda>_. Return stopped) (\<lambda>gone.
         if gone then Return stopped
         else at_time (\<lambda>now. if deadline \<le> now then Return expired
                             else poll_each n deadline body stopped expired)))"

section \<open>Length of a run\<close>

primrec within :: "('t, 'a) prog \<Rightarrow> nat \<Rightarrow> bool" where
  "within (Return a) n \<longleftrightarrow> True"
| "within (Act p e) n \<longleftrightarrow> 0 < n \<and> (\<forall>w. within (p w) (n - 1))"

lemma within_mono: "within p m \<Longrightarrow> m \<le> n \<Longrightarrow> within p n"
  by (induction p arbitrary: m n) (auto, metis diff_le_mono rangeI)

lemma within_pbind: "within p m \<Longrightarrow> (\<And>a. within (k a) n) \<Longrightarrow> within (pbind p k) (m + n)"
proof (induction p arbitrary: m)
  case (Return a)
  then have "within (k a) n" by simp
  then show ?case by (auto elim: within_mono)
next
  case (Act p e)
  then have "within (pbind (p w) k) (m - 1 + n)" for w by (intro Act.IH) auto
  with Act.prems(1) show ?case by simp
qed

lemma within_check: "(\<And>e. within (h e) n) \<Longrightarrow> (\<And>a. within (k a) n) \<Longrightarrow> within (check m h k) (Suc n)"
  by (simp add: check_def split: sum.splits)

lemma within_ignore: "within p n \<Longrightarrow> within (ignore m p) (Suc n)"
  by (simp add: ignore_def within_check)

lemma within_at_time: "(\<And>t. within (k t) n) \<Longrightarrow> within (at_time k) (Suc n)"
  by (simp add: at_time_def within_check)

lemma within_poll_Suc:
  "within body m \<Longrightarrow> within (poll_each n deadline body stopped expired) N \<Longrightarrow>
   within (poll_each (Suc n) deadline body stopped expired) (m + Suc (Suc N))"
  unfolding poll_each.simps
  by (rule within_pbind) (auto split: option.split intro!: within_check within_at_time)

lemma within_poll_each:
  assumes "within body m" shows "within (poll_each n deadline body stopped expired) (m + n * (m + 2) + 1)"
proof (induction n)
  case 0
  have "within (pbind body (\<lambda>r. case r of Some x \<Rightarrow> Return x | None \<Rightarrow>
          check ctx_done (\<lambda>_. Return stopped) (\<lambda>gone. Return (if gone then stopped else expired)))) (m + 1)"
    by (rule within_pbind [OF assms]) (auto split: option.split simp: within_check)
  then show ?case by simp
next
  case (Suc n)
  from within_poll_Suc [OF assms Suc] show ?case by (rule within_mono) simp
qed

section \<open>What a goroutine guarantees whatever happens\<close>

primrec always :: "('t \<Rightarrow> 't \<Rightarrow> bool) \<Rightarrow> ('t, 'a) prog \<Rightarrow> bool" where
  "always G (Return a) \<longleftrightarrow> True"
| "always G (Act p e) \<longleftrightarrow> (\<forall>w. G (tabs w) (tabs (e w)) \<and> always G (p w))"

lemma always_check:
  "stepping G m \<Longrightarrow> (\<And>e. always G (h e)) \<Longrightarrow> (\<And>a. always G (k a)) \<Longrightarrow> always G (check m h k)"
  by (auto simp: check_def stepping_def wp_def case_prod_unfold split: sum.splits)

lemma always_ignore: "stepping G m \<Longrightarrow> always G p \<Longrightarrow> always G (ignore m p)"
  by (simp add: ignore_def always_check)

lemma always_pbind: "always G p \<Longrightarrow> (\<And>a. always G (k a)) \<Longrightarrow> always G (pbind p k)"
  by (induction p) auto

lemma always_at_time: "(\<And>t. always (\<lambda>a b. b = a) (k t)) \<Longrightarrow> always (\<lambda>a b. b = a) (at_time k)"
  unfolding at_time_def by (rule always_check) (auto simp: stepping_def wp)

lemma stepping_ctx_done [simp, intro]: "(\<And>a. G a a) \<Longrightarrow> stepping G ctx_done"
  by (simp add: stepping_def wp_def ctx_done_def)

lemma always_poll_each:
  assumes "\<And>a. G a a" and "always G body" shows "always G (poll_each n deadline body stopped expired)"
proof (induction n)
  case 0
  show ?case unfolding poll_each.simps
    by (rule always_pbind [OF assms(2)]) (auto intro!: always_check stepping_ctx_done assms(1) split: option.split)
next
  case (Suc n)
  have wall: "stepping G wall" using assms(1) by (simp add: stepping_def wp)
  show ?case unfolding poll_each.simps at_time_def
    by (rule always_pbind [OF assms(2)])
       (auto intro!: always_check stepping_ctx_done assms(1) Suc wall split: option.split)
qed

lemma always_if: "(b \<Longrightarrow> always G p) \<Longrightarrow> (\<not> b \<Longrightarrow> always G q) \<Longrightarrow> always G (if b then p else q)"
  by simp

section \<open>Rely and guarantee\<close>

primrec rg :: "('t \<Rightarrow> 't \<Rightarrow> bool) \<Rightarrow> ('t \<Rightarrow> 't \<Rightarrow> bool) \<Rightarrow> ('t, 'a) prog \<Rightarrow> ('a \<Rightarrow> 't \<Rightarrow> bool) \<Rightarrow> 't \<Rightarrow> bool" where
  "rg R G (Return a) Q d \<longleftrightarrow> (\<forall>d'. R d d' \<longrightarrow> Q a d')"
| "rg R G (Act p e) Q d \<longleftrightarrow>
     (\<forall>w. R d (tabs w) \<longrightarrow> G (tabs w) (tabs (e w)) \<and> rg R G (p w) Q (tabs (e w)))"

lemma rg_check:
  "rg R G (check m h k) Q d \<longleftrightarrow>
     (\<forall>w. R d (tabs w) \<longrightarrow>
        wp m (\<lambda>r w'. G (tabs w) (tabs w') \<and>
                     (case r of Inl e \<Rightarrow> rg R G (h e) Q (tabs w') | Inr a \<Rightarrow> rg R G (k a) Q (tabs w'))) w)"
  by (auto simp: check_def wp_def case_prod_unfold split: sum.splits)

lemma rg_mono: "rg R G p P d \<Longrightarrow> (\<And>a d. P a d \<Longrightarrow> Q a d) \<Longrightarrow> rg R G p Q d"
  by (induction p arbitrary: d) auto

locale rely =
  fixes R G :: "'t \<Rightarrow> 't \<Rightarrow> bool"
  assumes R_refl: "R d d"
    and R_trans: "R a b \<Longrightarrow> R b c \<Longrightarrow> R a c"
    and G_refl: "G d d"
begin

lemma rg_others: "rg R G p Q d \<Longrightarrow> R d d' \<Longrightarrow> rg R G p Q d'"
  by (cases p) (auto intro: R_trans)

lemma rg_now: "rg R G (Act p e) Q (tabs w) \<Longrightarrow> G (tabs w) (tabs (e w)) \<and> rg R G (p w) Q (tabs (e w))"
  using R_refl by auto

lemma rg_pbind: "rg R G p (\<lambda>a d'. rg R G (k a) Q d') d \<Longrightarrow> rg R G (pbind p k) Q d"
  by (induction p arbitrary: d) (use R_refl in auto)

lemma rg_Return: "(\<And>d'. R d d' \<Longrightarrow> Q a d') \<Longrightarrow> rg R G (Return a) Q d"
  by simp

text \<open>Rules for one statement; each leaves the facts about the tables it has seen.\<close>

lemma rg_first:
  assumes "\<And>d' e. R d d' \<Longrightarrow> rg R G (h e) Q d'"
    and "\<And>d' x. R d d' \<Longrightarrow> f d' = Some x \<Longrightarrow> rg R G (k x) Q d'"
  shows "rg R G (check (first f) h k) Q d"
  using assms by (auto simp: rg_check wp G_refl split: option.splits)

lemma rg_select:
  assumes "\<And>d' e. R d d' \<Longrightarrow> rg R G (h e) Q d'" and "\<And>d'. R d d' \<Longrightarrow> rg R G (k (f d')) Q d'"
  shows "rg R G (check (select f) h k) Q d"
  using assms by (auto simp: rg_check wp G_refl)

lemma rg_exec:
  assumes "\<And>d' e. R d d' \<Longrightarrow> rg R G (h e) Q d'"
    and "\<And>d'. R d d' \<Longrightarrow> G d' (f d') \<and> rg R G (k ()) Q (f d')"
  shows "rg R G (check (exec f) h k) Q d"
  using assms by (auto simp: rg_check wp G_refl)

lemma rg_ignore_exec:
  assumes "\<And>d'. R d d' \<Longrightarrow> rg R G p Q d'" and "\<And>d'. R d d' \<Longrightarrow> G d' (f d') \<and> rg R G p Q (f d')"
  shows "rg R G (ignore (exec f) p) Q d"
  using assms unfolding ignore_def by (intro rg_exec)

lemma rg_interact:
  assumes "\<And>d' e. R d d' \<Longrightarrow> rg R G (h e) Q d'"
    and "\<And>w. R d (tabs w) \<Longrightarrow> G (tabs w) (snd (f w)) \<and> rg R G (k (fst (f w))) Q (snd (f w))"
  shows "rg R G (check (interact e f) h k) Q d"
  using assms by (auto simp: rg_check wp G_refl)

lemma rg_at_time: "(\<And>t d'. R d d' \<Longrightarrow> rg R G (k t) Q d') \<Longrightarrow> rg R G (at_time k) Q d"
  by (auto simp: at_time_def rg_check wp G_refl)

text \<open>A part that only reads keeps whatever others keep.\<close>

lemma rg_reads:
  "always (\<lambda>a b. b = a) p \<Longrightarrow> (\<And>a d'. R d d' \<Longrightarrow> Q a d') \<Longrightarrow> rg R G p Q d"
proof (induction p arbitrary: d)
  case (Act p e)
  show ?case unfolding rg.simps
  proof (intro allI impI conjI)
    fix w :: "'t world" assume w: "R d (tabs w)"
    from Act.prems(1) have same: "tabs (e w) = tabs w" and p: "always (\<lambda>a b. b = a) (p w)" by auto
    from same show "G (tabs w) (tabs (e w))" by (simp add: G_refl)
    show "rg R G (p w) Q (tabs (e w))" unfolding same
      by (rule Act.IH [OF _ p]) (auto intro: Act.prems(2) R_trans [OF w])
  qed
qed simp

lemma rg_if: "(b \<Longrightarrow> rg R G p Q d) \<Longrightarrow> (\<not> b \<Longrightarrow> rg R G q Q d) \<Longrightarrow> rg R G (if b then p else q) Q d"
  by simp

end

end
