(* ===== verification/Cluster.thy ===== *)
theory Cluster
  imports Goroutines Model Json
begin

text \<open>
  The Kubernetes objects the farm reads and writes, with the columns its code uses, the names the
  setup flow gives the Deployments, and the calls of the upgrade runner
  (\<open>internal/k8s/upgrade.go\<close>). \<open>farm\<close> is the database together with the cluster and with what
  the setup flow holds in memory and sends to the DID host; everything in the cluster but what the
  code writes belongs to the environment, the bumping of a changed object's generation included. A \<open>Get\<close>-modify-\<open>Update\<close> under
  \<open>RetryOnConflict\<close> is one interaction: the API server refuses an \<open>Update\<close> of a stale
  \<open>resourceVersion\<close>, so an accepted one is atomic, and running out of retries is its failure.
\<close>

type_synonym string_map = "string \<Rightarrow> string option"

text \<open>\<open>m[key]\<close>, the empty string when the key is missing\<close>

definition lookup_in :: "string_map \<Rightarrow> string \<Rightarrow> string" where
  "lookup_in m key = (case m key of None \<Rightarrow> [] | Some v \<Rightarrow> v)"

record container =
  ct_Name :: string
  ct_Image :: string
  ct_Command :: "string list"
  ct_Args :: "string list"
  ct_WorkingDir :: string
  ct_Env :: "(string \<times> string) list"
  ct_VolumeMounts :: "(string \<times> string) list"

record deployment =
  dp_Labels :: string_map
  dp_Annotations :: string_map
  dp_TemplateLabels :: string_map
  dp_TemplateAnnotations :: string_map
  dp_InitContainers :: "container list"
  dp_Containers :: "container list"
  dp_Claims :: "string list"
  dp_Recreate :: bool
  dp_Replicas :: "int option"
  dp_Generation :: int
  dp_ObservedGeneration :: int
  dp_StatusReplicas :: int
  dp_UpdatedReplicas :: int
  dp_ReadyReplicas :: int

record container_status =
  cs_Name :: string
  cs_Ready :: bool
  cs_Running :: bool
  cs_Waiting :: "(string \<times> string) option"
  cs_Terminated :: "int option"
  cs_LastTerminated :: "int option"
  cs_RestartCount :: int

record pod =
  pd_Name :: string
  pd_Deleting :: bool
  pd_Annotations :: string_map
  pd_Names :: "string list"
  pd_Images :: "string list"
  pd_Statuses :: "container_status list"
  pd_InitStatuses :: "container_status list"

record job =
  jb_Containers :: "container list"
  jb_ServiceAccount :: string
  jb_Claims :: "string list"
  jb_Expires :: bool
  jb_Active :: int
  jb_Succeeded :: int
  jb_Failed :: int
  jb_Conditions :: "(string \<times> bool \<times> string) list"
  jb_Logs :: "string option"

text \<open>
  \<open>k_pods\<close> answers a \<open>List\<close> with the selector of the Deployment of that name, or with that selector;
  \<open>k_names\<close> lists the keys of the Deployments; \<open>dp_Claims\<close> and \<open>jb_Claims\<close> are the volume claims a pod
  mounts; a \<open>job\<close> carries the logs of its latest pod, \<open>jb_Expires\<close> says that the cluster deletes it an
  hour after it finished; \<open>k_configs\<close> holds the
  data of the ConfigMaps. \<open>dh_clients\<close> is the factory's cache of clients, by control URL, and \<open>dh_sent\<close>
  the tasks sent to the DID hosts, newest first. \<open>pg_locks\<close> are the advisory locks held on
  dedicated connections. \<open>acl_snapshots\<close> are the rows of \<open>vta_acl_snapshots\<close>, with \<open>synced_at\<close> and
  \<open>entry_count\<close>, \<open>acl_maintenance\<close> their column \<open>maintenance_started_at\<close>, and \<open>acl_held\<close> the sessions
  each replica of the API holds its in-process maintenance lock for.
\<close>

record acl_entry =
  ae_SessionID :: nat
  ae_Did :: string
  ae_Role :: string
  ae_Label :: string
  ae_Contexts :: string
  ae_AclCreatedAt :: string

datatype hosting_task =
    Registered string string string
  | Granted string string string string

record farm = db +
  seq_upgrade_batches :: nat
  seq_upgrade_tasks :: nat
  k_deployments :: "string \<times> string \<Rightarrow> deployment option"
  k_names :: "(string \<times> string) list"
  k_pods :: "string \<times> string \<Rightarrow> pod list"
  k_jobs :: "string \<times> string \<Rightarrow> job option"
  k_configs :: "string \<times> string \<Rightarrow> (string \<times> string) list option"
  dh_clients :: string_map
  dh_sent :: "hosting_task list"
  pg_locks :: "(nat \<times> nat) list"
  acl_maintenance :: "nat \<Rightarrow> int option"
  acl_snapshots :: "nat \<Rightarrow> (int option \<times> int) option"
  acl_entries :: "acl_entry list"
  acl_held :: "(nat \<times> nat) list"

abbreviation dp_Images :: "deployment \<Rightarrow> string list" where
  "dp_Images d \<equiv> map ct_Image (dp_Containers d)"

definition blank_container :: container where
  "blank_container = \<lparr>ct_Name = [], ct_Image = [], ct_Command = [], ct_Args = [], ct_WorkingDir = [],
     ct_Env = [], ct_VolumeMounts = []\<rparr>"

definition blank_deployment :: deployment where
  "blank_deployment = \<lparr>dp_Labels = (\<lambda>_. None), dp_Annotations = (\<lambda>_. None), dp_TemplateLabels = (\<lambda>_. None),
     dp_TemplateAnnotations = (\<lambda>_. None), dp_InitContainers = [], dp_Containers = [], dp_Claims = [], dp_Recreate = False,
     dp_Replicas = None, dp_Generation = 0, dp_ObservedGeneration = 0, dp_StatusReplicas = 0,
     dp_UpdatedReplicas = 0, dp_ReadyReplicas = 0\<rparr>"

text \<open>A database beside an empty cluster, and the database part of a farm.\<close>

definition farm_of :: "db \<Rightarrow> farm" where
  "farm_of d = db.extend d
     \<lparr>seq_upgrade_batches = 0, seq_upgrade_tasks = 0, k_deployments = (\<lambda>_. None), k_names = [],
      k_pods = (\<lambda>_. []), k_jobs = (\<lambda>_. None), k_configs = (\<lambda>_. None),
      dh_clients = (\<lambda>_. None), dh_sent = [], pg_locks = [], acl_maintenance = (\<lambda>_. None),
      acl_snapshots = (\<lambda>_. None), acl_entries = [], acl_held = []\<rparr>"

abbreviation db_of :: "farm \<Rightarrow> db" where
  "db_of d \<equiv> db.truncate d"

text \<open>An operation of the database alone, run on the farm.\<close>

definition with_tabs :: "'s \<Rightarrow> 't world \<Rightarrow> 's world" where
  "with_tabs d w = \<lparr>tabs = d, tick = tick w, fails = fails w, clock = clock w, entropy = entropy w,
     uuids = uuids w, held = held w\<rparr>"

definition on_db :: "'a dbtx \<Rightarrow> (farm, 'a) tx" where
  "on_db m w =
     (case m (with_tabs (db_of (tabs w)) w) of
        (r, w') \<Rightarrow> (r, with_tabs (db.extend (tabs w') (db.more (tabs w))) w'))"

definition session_row :: "nat \<Rightarrow> 'a db_scheme \<Rightarrow> setup_session option" where
  "session_row i d = find (\<lambda>s. ss_ID s = i) (t_sessions d)"

section \<open>Names\<close>

text \<open>\<open>%d\<close>\<close>

definition FormatInt :: "int \<Rightarrow> string" where
  "FormatInt n = (if n < 0 then ''-'' @ FormatUint (- n) else FormatUint n)"

abbreviation "VtaServiceAccount \<equiv> ''vta''"

definition VtaDeploymentName :: "nat \<Rightarrow> string" where
  "VtaDeploymentName i = ''vta-'' @ FormatUint (int i)"

definition SetupJobName :: "nat \<Rightarrow> string" where
  "SetupJobName i = ''vta-setup-'' @ FormatUint (int i)"

definition VtaPVCName :: "nat \<Rightarrow> string" where
  "VtaPVCName i = ''vta-data-'' @ FormatUint (int i)"

definition ProvisionJobName :: "nat \<Rightarrow> string" where
  "ProvisionJobName i = ''vta-provision-'' @ FormatUint (int i)"

definition VtaACLJobName :: "nat \<Rightarrow> string" where
  "VtaACLJobName i = ''vta-acl-'' @ FormatUint (int i)"

definition FSJobConfigUpdate :: "nat \<Rightarrow> string" where
  "FSJobConfigUpdate i = ''fs-'' @ FormatUint (int i) @ ''-config-update''"

definition FSJobConfigRollback :: "nat \<Rightarrow> string" where
  "FSJobConfigRollback i = ''fs-'' @ FormatUint (int i) @ ''-config-rollback''"

definition FSVtaName :: "nat \<Rightarrow> string" where
  "FSVtaName i = ''fs-'' @ FormatUint (int i) @ ''-vta''"

definition FSMediatorName :: "nat \<Rightarrow> string" where
  "FSMediatorName i = ''fs-'' @ FormatUint (int i) @ ''-mediator''"

definition FSDidsName :: "nat \<Rightarrow> string" where
  "FSDidsName i = ''fs-'' @ FormatUint (int i) @ ''-dids''"

definition FSVtcName :: "nat \<Rightarrow> string" where
  "FSVtcName i = ''fs-'' @ FormatUint (int i) @ ''-vtc''"

definition FSTrustRegistryName :: "nat \<Rightarrow> string" where
  "FSTrustRegistryName i = ''fs-'' @ FormatUint (int i) @ ''-trust-registry''"

definition UserNamespace :: "string \<Rightarrow> string \<Rightarrow> string" where
  "UserNamespace namespacePrefix userID = namespacePrefix @ ''-'' @ userID"

section \<open>Calls\<close>

definition with_image :: "string \<Rightarrow> deployment \<Rightarrow> deployment" where
  "with_image img d = d\<lparr>dp_Recreate := True, dp_Containers := map (\<lambda>c. c\<lparr>ct_Image := img\<rparr>) (dp_Containers d)\<rparr>"

definition SetDeploymentImage :: "string \<Rightarrow> string \<Rightarrow> string \<Rightarrow> (farm, unit) tx" where
  "SetDeploymentImage ns name img =
     bnd (interact LibraryFailure (\<lambda>w.
       (k_deployments (tabs w) (ns, name),
        (tabs w)\<lparr>k_deployments := (k_deployments (tabs w))
           ((ns, name) := map_option (with_image img) (k_deployments (tabs w) (ns, name)))\<rparr>)))
     (\<lambda>r. case r of None \<Rightarrow> throw LibraryFailure | Some _ \<Rightarrow> ret ())"

record rollout_status =
  rs_Ready :: bool
  rs_Reason :: string
  rs_CrashLoopRestarts :: int

text \<open>The body of the loop over a pod's container statuses, without the readiness it also folds.\<close>

definition container_state :: "string \<Rightarrow> container_status \<Rightarrow> rollout_status \<Rightarrow> rollout_status" where
  "container_state pod_name cs st =
     (case cs_Waiting cs of
        None \<Rightarrow> st
      | Some (reason, message) \<Rightarrow>
          if reason = [] \<or> reason = ''ContainerCreating'' then st
          else
            let st1 = (if rs_Reason st = []
                       then st\<lparr>rs_Reason := reason @ (if message \<noteq> [] then '': '' @ message else [])\<rparr>
                       else st)
            in if reason = ''CrashLoopBackOff'' \<and> rs_CrashLoopRestarts st1 < cs_RestartCount cs
               then st1\<lparr>rs_CrashLoopRestarts := cs_RestartCount cs,
                        rs_Reason := ''pod '' @ pod_name @ '' container '' @ cs_Name cs @
                          '': CrashLoopBackOff after '' @ FormatInt (cs_RestartCount cs) @ '' restarts''\<rparr>
               else st1)"

definition pod_counts :: "string \<Rightarrow> pod \<Rightarrow> bool" where
  "pod_counts img p \<longleftrightarrow>
     \<not> pd_Deleting p \<and> pd_Images p \<noteq> [] \<and> (\<forall>i \<in> set (pd_Images p). i = img)"

definition pod_ready :: "pod \<Rightarrow> bool" where
  "pod_ready p \<longleftrightarrow>
     length (pd_Statuses p) = length (pd_Images p) \<and> (\<forall>cs \<in> set (pd_Statuses p). cs_Ready cs)"

fun pods_state :: "string \<Rightarrow> pod list \<Rightarrow> rollout_status \<Rightarrow> int \<Rightarrow> rollout_status \<times> int" where
  "pods_state img [] st readyPods = (st, readyPods)"
| "pods_state img (p # ps) st readyPods =
     (if \<not> pod_counts img p then pods_state img ps st readyPods
      else pods_state img ps (fold (container_state (pd_Name p)) (pd_Statuses p) st)
             (if pod_ready p then readyPods + 1 else readyPods))"

definition rollout_status_of :: "deployment \<Rightarrow> pod list \<Rightarrow> string \<Rightarrow> rollout_status" where
  "rollout_status_of d pods img =
     (let specMatches = (\<forall>i \<in> set (dp_Images d). i = img);
          replicas = (case dp_Replicas d of None \<Rightarrow> 1 | Some n \<Rightarrow> n);
          (st, readyPods) = pods_state img pods \<lparr>rs_Ready = False, rs_Reason = [], rs_CrashLoopRestarts = 0\<rparr> 0
      in if specMatches \<and> dp_Generation d \<le> dp_ObservedGeneration d \<and>
            dp_StatusReplicas d = replicas \<and> dp_UpdatedReplicas d = replicas \<and>
            dp_ReadyReplicas d = replicas \<and> readyPods = replicas
         then st\<lparr>rs_Ready := True\<rparr> else st)"

text \<open>
  \<open>DeploymentRollout\<close> is two calls, \<open>Get\<close> of the Deployment and \<open>List\<close> of its pods, with
  whatever the cluster does in between; an unusable label selector is a failure of the second.
\<close>

definition DeploymentRollout :: "string \<Rightarrow> string \<Rightarrow> string \<Rightarrow> (farm, err + rollout_status) prog" where
  "DeploymentRollout ns name img =
     check (bnd (interact LibraryFailure (\<lambda>w. (k_deployments (tabs w) (ns, name), tabs w)))
              (\<lambda>r. case r of None \<Rightarrow> throw LibraryFailure | Some d \<Rightarrow> ret d))
       (\<lambda>e. Return (Inl e)) (\<lambda>deploy.
     check (interact LibraryFailure (\<lambda>w. (k_pods (tabs w) (ns, name), tabs w)))
       (\<lambda>e. Return (Inl e)) (\<lambda>pods.
     Return (Inr (rollout_status_of deploy pods img))))"

section \<open>Facts\<close>

lemma pods_state_ready: "rs_Ready (fst (pods_state img ps st n)) = rs_Ready st"
proof (induction img ps st n rule: pods_state.induct)
  case (2 img p ps st n)
  have "rs_Ready (fold (container_state (pd_Name p)) css st) = rs_Ready st" for css
    by (induction css arbitrary: st) (auto simp: container_state_def Let_def split: option.splits)
  with 2 show ?case by simp
qed simp

lemma pods_state_count:
  "snd (pods_state img ps st n) = n + int (count_where (\<lambda>p. pod_counts img p \<and> pod_ready p) ps)"
  by (induction img ps st n rule: pods_state.induct) auto

text \<open>Ready means: the spec asks for the image alone, and exactly the wanted number of pods run it and are ready.\<close>

lemma rollout_ready:
  "rs_Ready (rollout_status_of d pods img) \<longleftrightarrow>
     (let replicas = (case dp_Replicas d of None \<Rightarrow> 1 | Some n \<Rightarrow> n) in
      (\<forall>i \<in> set (dp_Images d). i = img) \<and> dp_Generation d \<le> dp_ObservedGeneration d \<and>
      dp_StatusReplicas d = replicas \<and> dp_UpdatedReplicas d = replicas \<and> dp_ReadyReplicas d = replicas \<and>
      int (count_where (\<lambda>p. pod_counts img p \<and> pod_ready p) pods) = replicas)"
  using pods_state_ready [of img pods "\<lparr>rs_Ready = False, rs_Reason = [], rs_CrashLoopRestarts = 0\<rparr>" 0]
    pods_state_count [of img pods "\<lparr>rs_Ready = False, rs_Reason = [], rs_CrashLoopRestarts = 0\<rparr>" 0]
  by (auto simp add: rollout_status_of_def Let_def case_prod_unfold)

end
