(* ===== verification/Upgrade.thy ===== *)
theory Upgrade
  imports Cluster
begin

text \<open>
  Image upgrades: \<open>internal/upgrade/runner.go\<close> and the operations of
  \<open>handler/admin_upgrade.go\<close> and \<open>handler/user_upgrade.go\<close> that change rows.

  \<^item> A goroutine is a \<open>prog\<close> (\<open>runTask\<close>, one per task in flight; one per handler call); every
    statement and every call of the cluster is an action others may interleave with.
  \<^item> The scheduler goroutine of a batch (\<open>run\<close>) is \<open>sched\<close>: where it stands in its body, the rest
    of its snapshot of tasks, and the task goroutines holding its semaphore.
  \<^item> \<open>machine\<close> is one API process: the world, the \<open>active\<close> map, the schedulers and the handler
    calls being served. \<open>mstep\<close> takes one step of one of them, or one of the environment: anything
    the rest of the farm does, and a crash of the process.

  The text of an error and the namespace prefix come from the environment (\<open>upgrade_env\<close>).
\<close>

record upgrade_env =
  namespacePrefix :: string
  Error :: "err \<Rightarrow> string"

definition rolloutTimeout :: int where "rolloutTimeout = 5 * minute"
definition pollInterval :: int where "pollInterval = 5 * second"

section \<open>One task\<close>

definition task_row :: "nat \<Rightarrow> 'a db_scheme \<Rightarrow> upgrade_task option" where
  "task_row i d = find (\<lambda>t. ut_ID t = i) (t_upgrade_tasks d)"

definition batch_row :: "nat \<Rightarrow> 'a db_scheme \<Rightarrow> upgrade_batch option" where
  "batch_row i d = find (\<lambda>b. ub_ID b = i) (t_upgrade_batches d)"

definition deploymentName :: "setup_session \<Rightarrow> string \<Rightarrow> string + string" where
  "deploymentName s c =
     (if c = ''vta'' then Inr (if ss_Mode s = ModeVtaOnly then VtaDeploymentName (ss_ID s) else FSVtaName (ss_ID s))
      else if c = ''mediator'' then Inr (FSMediatorName (ss_ID s))
      else if c = ''dids'' then Inr (FSDidsName (ss_ID s))
      else if c = ''trust-registry'' then Inr (FSTrustRegistryName (ss_ID s))
      else if c = ''vtc'' then Inr (FSVtcName (ss_ID s))
      else Inl (''unknown component \"'' @ c @ ''\"''))"

definition write_task :: "nat \<Rightarrow> string \<Rightarrow> string \<Rightarrow> 'a db_scheme \<Rightarrow> 'a db_scheme" where
  "write_task i status msg d =
     d\<lparr>t_upgrade_tasks := update_where (\<lambda>t. ut_ID t = i) (\<lambda>t. t\<lparr>ut_Status := status, ut_ErrorMsg := msg\<rparr>)
        (t_upgrade_tasks d)\<rparr>"

definition setTask :: "upgrade_task \<Rightarrow> string \<Rightarrow> string \<Rightarrow> (farm, unit) tx" where
  "setTask task status msg = exec (write_task (ut_ID task) status msg)"

text \<open>\<open>UPDATE upgrade_batches SET status = s WHERE id = i AND status = 'running'\<close>\<close>

definition leave_running :: "nat \<Rightarrow> string \<Rightarrow> 'a db_scheme \<Rightarrow> 'a db_scheme" where
  "leave_running i s d =
     d\<lparr>t_upgrade_batches := update_where (\<lambda>b. ub_ID b = i \<and> ub_Status b = UpgradeBatchRunning)
        (\<lambda>b. b\<lparr>ub_Status := s\<rparr>) (t_upgrade_batches d)\<rparr>"

definition failTask :: "upgrade_batch \<Rightarrow> upgrade_task \<Rightarrow> string \<Rightarrow> (farm, unit) prog" where
  "failTask batch task msg =
     ignore (setTask task UpgradeTaskFailed msg)
     (ignore (exec (leave_running (ub_ID batch) UpgradeBatchPaused))
     (Return ()))"

text \<open>The session column of a component; an unknown column is a failing statement.\<close>

definition set_image_column :: "string \<Rightarrow> string \<Rightarrow> setup_session \<Rightarrow> setup_session" where
  "set_image_column column img s =
     (if column = ''vta_image'' then s\<lparr>ss_VtaImage := img\<rparr>
      else if column = ''mediator_image'' then s\<lparr>ss_MediatorImage := img\<rparr>
      else if column = ''dids_image'' then s\<lparr>ss_DidsImage := img\<rparr>
      else if column = ''trust_registry_image'' then s\<lparr>ss_TrustRegistryImage := img\<rparr>
      else if column = ''vtc_image'' then s\<lparr>ss_VtcImage := img\<rparr>
      else s)"

definition record_image :: "nat \<Rightarrow> string \<Rightarrow> string \<Rightarrow> (farm, unit) tx" where
  "record_image sessionID c img =
     exec_checked (\<lambda>_. UpgradeImageColumn c \<noteq> [])
       (\<lambda>d. d\<lparr>t_sessions := update_where (\<lambda>s. ss_ID s = sessionID)
          (set_image_column (UpgradeImageColumn c) img) (t_sessions d)\<rparr>)"

definition upsert_default :: "string \<Rightarrow> string \<Rightarrow> int \<Rightarrow> image_default list \<Rightarrow> image_default list" where
  "upsert_default c img now rows =
     (if \<exists>r \<in> set rows. im_Component r = c
      then update_where (\<lambda>r. im_Component r = c) (\<lambda>r. r\<lparr>im_Image := img, im_UpdatedAt := now\<rparr>) rows
      else rows @ [\<lparr>im_Component = c, im_Image = img, im_UpdatedAt = now\<rparr>])"

definition recordSuccessfulUpgrade :: "setup_session \<Rightarrow> upgrade_task \<Rightarrow> (farm, unit) tx" where
  "recordSuccessfulUpgrade session task =
     transaction
       (bnd (record_image (ss_ID session) (ut_Component task) (ut_ToImage task)) (\<lambda>_.
        if ss_DomainType session \<noteq> DomainPlatform \<or> ut_Component task \<noteq> ''vta'' then ret ()
        else bnd wall (\<lambda>now.
          exec (\<lambda>d. d\<lparr>t_image_defaults := upsert_default ''vta'' (ut_ToImage task) now (t_image_defaults d)\<rparr>))))"

text \<open>
  \<open>waitForRollout\<close>: poll, then wait for the deadline or the next tick. The ticker delivers at most
  \<open>rolloutTimeout / pollInterval\<close> ticks before the deadline, so \<open>ticks\<close> bounds the polls; the
  deadline can also pass earlier, being the caller's too. \<open>None\<close> is Go's \<open>nil\<close> error.
\<close>

definition timed_out :: "string \<Rightarrow> string" where
  "timed_out lastReason = ''timed out waiting for rollout: context deadline exceeded ('' @ lastReason @ '')''"

fun poll_rollout ::
  "upgrade_env \<Rightarrow> nat \<Rightarrow> int \<Rightarrow> string \<Rightarrow> string \<Rightarrow> string \<Rightarrow> string \<Rightarrow> (farm, string option) prog" where
  "poll_rollout env ticks deadline ns name img lastReason =
     pbind (DeploymentRollout ns name img) (\<lambda>r.
       let wait = (\<lambda>reason. case ticks of
             0 \<Rightarrow> Return (Some (timed_out reason))
           | Suc n \<Rightarrow> at_time (\<lambda>now. if deadline \<le> now then Return (Some (timed_out reason))
                                else poll_rollout env n deadline ns name img reason))
       in case r of
            Inl e \<Rightarrow> wait (Error env e)
          | Inr st \<Rightarrow>
              if 3 \<le> rs_CrashLoopRestarts st then Return (Some (''rollout failed: '' @ rs_Reason st))
              else if rs_Ready st then Return None
              else if rs_Reason st \<noteq> [] then wait (rs_Reason st)
              else wait lastReason)"

declare poll_rollout.simps [simp del]

definition waitForRollout ::
  "upgrade_env \<Rightarrow> int \<Rightarrow> string \<Rightarrow> string \<Rightarrow> string \<Rightarrow> (farm, string option) prog" where
  "waitForRollout env parent ns name img =
     at_time (\<lambda>now. poll_rollout env (nat (rolloutTimeout div pollInterval))
                      (min parent (now + rolloutTimeout)) ns name img [])"

text \<open>\<open>rollbackTask\<close>, in three parts: recording the restored image, restoring it, and persisting the direction first.\<close>

definition record_rollback :: "upgrade_env \<Rightarrow> upgrade_task \<Rightarrow> string \<Rightarrow> (farm, unit) prog" where
  "record_rollback env task cause =
     check (record_image (ut_SessionID task) (ut_Component task) (ut_FromImage task)) (\<lambda>e.
       ignore (setTask task UpgradeTaskRollbackFailed
         (cause @ ''; previous image is ready but recording it failed: '' @ Error env e)) (Return ())) (\<lambda>_.
     ignore (setTask task UpgradeTaskRolledBack
       (cause @ ''; rolled back to '' @ ut_FromImage task @ '' and confirmed ready'')) (Return ()))"

definition restore_image :: "upgrade_env \<Rightarrow> upgrade_task \<Rightarrow> string \<Rightarrow> string \<Rightarrow> string \<Rightarrow> int \<Rightarrow> (farm, unit) prog" where
  "restore_image env task ns name cause deadline =
     (if ut_FromImage task = []
      then ignore (setTask task UpgradeTaskRollbackFailed (cause @ ''; rollback failed: previous image is missing'')) (Return ())
      else
      check (SetDeploymentImage ns name (ut_FromImage task)) (\<lambda>e.
        ignore (setTask task UpgradeTaskRollbackFailed (cause @ ''; rollback failed: '' @ Error env e)) (Return ())) (\<lambda>_.
      pbind (waitForRollout env deadline ns name (ut_FromImage task)) (\<lambda>r. case r of
        Some msg \<Rightarrow> ignore (setTask task UpgradeTaskRollbackFailed (cause @ ''; rollback failed: '' @ msg)) (Return ())
      | None \<Rightarrow> record_rollback env task cause)))"

definition rollbackTask ::
  "upgrade_env \<Rightarrow> upgrade_batch \<Rightarrow> upgrade_task \<Rightarrow> string \<Rightarrow> string \<Rightarrow> string \<Rightarrow> (farm, unit) prog" where
  "rollbackTask env batch task ns name cause =
     check (transaction
        (bnd (exec (write_task (ut_ID task) UpgradeTaskRollingBack cause)) (\<lambda>_.
         exec (leave_running (ub_ID batch) UpgradeBatchPaused)))) (\<lambda>_. Return ()) (\<lambda>_.
     at_time (\<lambda>now. restore_image env task ns name cause (now + rolloutTimeout)))"

text \<open>The end of \<open>runTask\<close>, once the target image is ready, and everything after its guards.\<close>

definition confirm_upgrade ::
  "upgrade_env \<Rightarrow> upgrade_batch \<Rightarrow> upgrade_task \<Rightarrow> setup_session \<Rightarrow> string \<Rightarrow> string \<Rightarrow> (farm, unit) prog" where
  "confirm_upgrade env batch task session ns name =
     check (recordSuccessfulUpgrade session task) (\<lambda>e.
       rollbackTask env batch task ns name (''record new image: '' @ Error env e)) (\<lambda>_.
     ignore (setTask task UpgradeTaskSucceeded []) (Return ()))"

definition apply_upgrade ::
  "upgrade_env \<Rightarrow> int \<Rightarrow> upgrade_batch \<Rightarrow> upgrade_task \<Rightarrow> setup_session \<Rightarrow> string \<Rightarrow> string \<Rightarrow> (farm, unit) prog" where
  "apply_upgrade env deadline batch task session ns name =
     check (setTask task UpgradeTaskRunning []) (\<lambda>_. Return ()) (\<lambda>_.
     check (SetDeploymentImage ns name (ut_ToImage task)) (\<lambda>e.
       rollbackTask env batch task ns name (''patch deployment: '' @ Error env e)) (\<lambda>_.
     pbind (waitForRollout env deadline ns name (ut_ToImage task)) (\<lambda>r. case r of
       Some msg \<Rightarrow> rollbackTask env batch task ns name msg
     | None \<Rightarrow> confirm_upgrade env batch task session ns name)))"

text \<open>The guards, with the task and its session loaded.\<close>

definition run_loaded :: "upgrade_env \<Rightarrow> int \<Rightarrow> upgrade_batch \<Rightarrow> upgrade_task \<Rightarrow> setup_session \<Rightarrow> (farm, unit) prog" where
  "run_loaded env deadline batch task session =
     (if ss_TrustRegistryState session = ''enabling''
      then failTask batch task ''Trust Registry enablement is in progress''
      else case deploymentName session (ut_Component task) of
        Inl e \<Rightarrow> failTask batch task e
      | Inr name \<Rightarrow>
          let ns = UserNamespace (namespacePrefix env) (FormatUint (int (ss_UserID session))) in
          if ut_Status task = UpgradeTaskRollingBack
          then rollbackTask env batch task ns name (ut_ErrorMsg task)
          else if ut_Status task \<noteq> UpgradeTaskPending \<and> ut_Status task \<noteq> UpgradeTaskRunning
          then Return ()
          else if ut_FromImage task = []
          then failTask batch task ''previous image is missing; refusing upgrade without a rollback target''
          else apply_upgrade env deadline batch task session ns name)"

definition runTask :: "upgrade_env \<Rightarrow> upgrade_batch \<Rightarrow> nat \<Rightarrow> (farm, unit) prog" where
  "runTask env batch taskID =
     at_time (\<lambda>now.
     check (first (task_row taskID)) (\<lambda>_. Return ()) (\<lambda>task.
     check (first (session_row (ut_SessionID task))) (\<lambda>_.
       ignore (setTask task UpgradeTaskSkipped ''session no longer exists'') (Return ())) (\<lambda>session.
     run_loaded env (now + rolloutTimeout) batch task session)))"

section \<open>The scheduler of a batch\<close>

definition unfinished :: "string \<Rightarrow> bool" where
  "unfinished status \<longleftrightarrow> status \<in> {UpgradeTaskRunning, UpgradeTaskPending, UpgradeTaskRollingBack}"

text \<open>The snapshot: \<open>rolling_back\<close> rows first, then \<open>running\<close> ones, then the rest, each by id.\<close>

definition task_rank :: "upgrade_task \<Rightarrow> nat" where
  "task_rank t = (if ut_Status t = UpgradeTaskRollingBack then 0 else if ut_Status t = UpgradeTaskRunning then 1 else 2)"

definition snapshot :: "nat \<Rightarrow> 'a db_scheme \<Rightarrow> upgrade_task list" where
  "snapshot batchID d =
     (let rows = sort_key ut_ID (filter (\<lambda>t. ut_BatchID t = batchID \<and> unfinished (ut_Status t)) (t_upgrade_tasks d))
      in filter (\<lambda>t. task_rank t = 0) rows @ filter (\<lambda>t. task_rank t = 1) rows @ filter (\<lambda>t. task_rank t = 2) rows)"

definition batchStatus :: "nat \<Rightarrow> (farm, string) tx" where
  "batchStatus batchID = select (\<lambda>d. case batch_row batchID d of None \<Rightarrow> [] | Some b \<Rightarrow> ub_Status b)"

text \<open>The count \<open>finalize\<close> takes before it completes a batch.\<close>

definition remaining :: "nat \<Rightarrow> 'a db_scheme \<Rightarrow> nat" where
  "remaining batchID d = count_where (\<lambda>t. ut_BatchID t = batchID \<and> unfinished (ut_Status t)) (t_upgrade_tasks d)"

datatype sched_pc =
    Load
  | List_tasks upgrade_batch
  | Dispatch upgrade_batch "upgrade_task list"
  | Acquired upgrade_batch upgrade_task "upgrade_task list"
  | Count_rest
  | Complete

record sched =
  sc_batch :: nat
  sc_pc :: sched_pc
  sc_flights :: "(nat \<times> (farm, unit) prog) list"

definition concurrency :: "upgrade_batch \<Rightarrow> nat" where
  "concurrency b = nat (max (ub_Concurrency b) 1)"

text \<open>
  One step of the scheduler goroutine itself; \<open>None\<close> in the first component: it has returned. It
  is blocked while the semaphore is full, and, drained, while task goroutines remain (\<open>wg.Wait\<close>).
\<close>

definition finish :: "farm world \<Rightarrow> (sched option \<times> farm world) option" where
  "finish w = Some (None, w)"

fun sched_step :: "upgrade_env \<Rightarrow> sched \<Rightarrow> farm world \<Rightarrow> (sched option \<times> farm world) option" where
  "sched_step env s w =
     (case sc_pc s of
        Load \<Rightarrow>
          (case first (batch_row (sc_batch s)) w of
             (Inl _, w') \<Rightarrow> finish w'
           | (Inr batch, w') \<Rightarrow> Some (Some (s\<lparr>sc_pc := List_tasks batch\<rparr>), w'))
      | List_tasks batch \<Rightarrow>
          (case select (snapshot (sc_batch s)) w of
             (Inl _, w') \<Rightarrow> finish w'
           | (Inr tasks, w') \<Rightarrow> Some (Some (s\<lparr>sc_pc := Dispatch batch tasks\<rparr>), w'))
      | Dispatch batch [] \<Rightarrow>
          if sc_flights s = [] then Some (Some (s\<lparr>sc_pc := Count_rest\<rparr>), w) else None
      | Dispatch batch (task # rest) \<Rightarrow>
          if length (sc_flights s) < concurrency batch
          then Some (Some (s\<lparr>sc_pc := Acquired batch task rest\<rparr>), w) else None
      | Acquired batch task rest \<Rightarrow>
          let spawn = s\<lparr>sc_pc := Dispatch batch rest,
                        sc_flights := sc_flights s @ [(ut_ID task, runTask env batch (ut_ID task))]\<rparr>;
              release = s\<lparr>sc_pc := Dispatch batch rest\<rparr> in
          if ut_Status task = UpgradeTaskPending then
            (case batchStatus (sc_batch s) w of
               (Inl _, w') \<Rightarrow> Some (Some release, w')
             | (Inr status, w') \<Rightarrow> Some (Some (if status \<noteq> UpgradeBatchRunning then release else spawn), w'))
          else Some (Some spawn, w)
      | Count_rest \<Rightarrow>
          (case select (remaining (sc_batch s)) w of
             (Inl _, w') \<Rightarrow> finish w'
           | (Inr n, w') \<Rightarrow>
               if 0 < n then finish w' else Some (Some (s\<lparr>sc_pc := Complete\<rparr>), w'))
      | Complete \<Rightarrow> finish (snd (exec (leave_running (sc_batch s) UpgradeBatchCompleted) w)))"

declare sched_step.simps [simp del]

end
