(* ===== verification/UpgradeApi.thy ===== *)
theory UpgradeApi
  imports Upgrade
begin

text \<open>
  The handler calls that create, cancel and resume upgrade batches (\<open>handler/admin_upgrade.go\<close>,
  \<open>handler/user_upgrade.go\<close>), the recovery at start-up (\<open>Runner.Resume\<close>), and \<open>machine\<close>, one
  API process in which they, the schedulers and the task goroutines interleave.

  A handler is a \<open>prog\<close> that returns its reply and the batches it asks the runner to start. The
  registries' tag lists are an argument (\<open>tags\<close>): \<open>None\<close> is a client that is not configured.
\<close>

section \<open>Requests\<close>

record component_image =
  ci_Component :: string
  ci_Image :: string

record create_upgrade =
  cr_Components :: "component_image list"
  cr_SessionIDs :: "string list"
  cr_All :: bool
  cr_DryRun :: bool

type_synonym tag_lists = "string \<Rightarrow> (err + string list) option"

record target_item =
  ti_Session :: setup_session
  ti_Component :: string
  ti_Image :: string

record skipped_item =
  sk_SessionID :: string
  sk_Component :: string
  sk_Reason :: string

datatype upgrade_reply =
    Refused nat string
  | NoTargets "skipped_item list"
  | DryRun "target_item list" "skipped_item list"
  | Created nat "target_item list" "skipped_item list"
  | CreatedForSession nat
  | BatchIs nat string

type_synonym handler = "(farm, upgrade_reply \<times> nat list) prog"

definition refused :: "nat \<Rightarrow> string \<Rightarrow> handler" where
  "refused code msg = Return (Refused code msg, [])"

text \<open>``K8s not configured -- upgrades unavailable'', with an em dash in UTF-8\<close>

definition k8s_missing :: string where
  "k8s_missing = ''K8s not configured '' @ [CHR 0xE2, CHR 0x80, CHR 0x94] @ '' upgrades unavailable''"

abbreviation "UpgradeBatchCancelled \<equiv> ''cancelled''"

definition UpgradeComponents :: "string list" where
  "UpgradeComponents = [''vta'', ''mediator'', ''dids'', ''vtc'', ''trust-registry'']"

definition UpgradeComponentModes :: "string \<Rightarrow> string list" where
  "UpgradeComponentModes c =
     (if c = ''vta'' then [ModeVtaOnly, ModeFullStack]
      else if c \<in> {''mediator'', ''dids'', ''vtc'', ''trust-registry''} then [ModeFullStack]
      else [])"

definition registryBusy :: "setup_session \<Rightarrow> bool" where
  "registryBusy s \<longleftrightarrow> ss_TrustRegistryState s = ''enabling''"

text \<open>The request binding's rules for the component list.\<close>

definition binds :: "component_image list \<Rightarrow> bool" where
  "binds cis \<longleftrightarrow> cis \<noteq> [] \<and> (\<forall>ci \<in> set cis. ci_Component ci \<in> set UpgradeComponents \<and> ci_Image ci \<noteq> [])"

fun duplicate_component :: "string list \<Rightarrow> component_image list \<Rightarrow> string option" where
  "duplicate_component seen [] = None"
| "duplicate_component seen (ci # cis) =
     (if ci_Component ci \<in> set seen then Some (ci_Component ci)
      else duplicate_component (ci_Component ci # seen) cis)"

text \<open>Every image must be one its component's registry serves; the first problem is the reply.\<close>

fun check_images :: "upgrade_env \<Rightarrow> tag_lists \<Rightarrow> component_image list \<Rightarrow> upgrade_reply option" where
  "check_images env tags [] = None"
| "check_images env tags (ci # cis) =
     (case tags (ci_Component ci) of
        None \<Rightarrow> Some (Refused 503 (''image source not configured for '' @ ci_Component ci))
      | Some (Inl e) \<Rightarrow> Some (Refused 502 (''failed to fetch '' @ ci_Component ci @ '' images: '' @ Error env e))
      | Some (Inr served) \<Rightarrow>
          if ci_Image ci \<notin> set served
          then Some (Refused 400 (''image not found in '' @ ci_Component ci @ '' registry: '' @ ci_Image ci))
          else check_images env tags cis)"

section \<open>Targets\<close>

text \<open>The component loop of one eligible session; \<open>quietly\<close> is \<open>all=true\<close>, which names no exclusions.\<close>

fun session_targets ::
  "bool \<Rightarrow> setup_session \<Rightarrow> component_image list \<Rightarrow> target_item list \<times> skipped_item list" where
  "session_targets quietly s [] = ([], [])"
| "session_targets quietly s (ci # cis) =
     (let (ts, sk) = session_targets quietly s cis;
          skip = (\<lambda>reason. if quietly then sk
                 else \<lparr>sk_SessionID = ss_VtaName s, sk_Component = ci_Component ci, sk_Reason = reason\<rparr> # sk) in
      if ss_Mode s \<notin> set (UpgradeComponentModes (ci_Component ci)) \<or> ComponentImage s (ci_Component ci) = []
      then (ts, skip (''mode '' @ ss_Mode s @ '' has no '' @ ci_Component ci @ '' component''))
      else if ComponentImage s (ci_Component ci) = ci_Image ci
      then (ts, skip ''already on the target image'')
      else (\<lparr>ti_Session = s, ti_Component = ci_Component ci, ti_Image = ci_Image ci\<rparr> # ts, sk))"

definition active_tasks :: "nat \<Rightarrow> 'a db_scheme \<Rightarrow> nat" where
  "active_tasks sessionID d =
     count_where (\<lambda>t. ut_SessionID t = sessionID \<and> unfinished (ut_Status t)) (t_upgrade_tasks d)"

fun resolve_sessions ::
  "create_upgrade \<Rightarrow> setup_session list \<Rightarrow> target_item list \<Rightarrow> skipped_item list \<Rightarrow>
   (farm, err + target_item list \<times> skipped_item list) prog" where
  "resolve_sessions req [] targets skipped = Return (Inr (targets, skipped))"
| "resolve_sessions req (s # ss) targets skipped =
     (if registryBusy s
      then resolve_sessions req ss targets (skipped @
             [\<lparr>sk_SessionID = ss_VtaName s, sk_Component = [], sk_Reason = ''Trust Registry enablement is in progress''\<rparr>])
      else check (select (active_tasks (ss_ID s))) (\<lambda>e. Return (Inl e)) (\<lambda>active.
        if 0 < active
        then resolve_sessions req ss targets (skipped @
               [\<lparr>sk_SessionID = ss_VtaName s, sk_Component = [], sk_Reason = ''an upgrade or rollback is already in progress''\<rparr>])
        else let (ts, sk) = session_targets (cr_All req) s (cr_Components req)
             in resolve_sessions req ss (targets @ ts) (skipped @ sk)))"

text \<open>The explicitly selected sessions, in the order of the request, and the reasons for the others.\<close>

fun select_sessions :: "setup_session list \<Rightarrow> string list \<Rightarrow> setup_session list \<times> skipped_item list" where
  "select_sessions found [] = ([], [])"
| "select_sessions found (i # is) =
     (let (ss, sk) = select_sessions found is;
          skip = (\<lambda>reason. \<lparr>sk_SessionID = i, sk_Component = [], sk_Reason = reason\<rparr> # sk) in
      case find (\<lambda>s. ss_VtaName s = i) (rev found) of
        None \<Rightarrow> (ss, skip ''session not found'')
      | Some s \<Rightarrow>
          if ss_Status s \<noteq> ''running'' then (ss, skip (''session is '' @ ss_Status s @ '', not running''))
          else (s # ss, sk))"

definition resolveTargets :: "create_upgrade \<Rightarrow> (farm, err + target_item list \<times> skipped_item list) prog" where
  "resolveTargets req =
     (if cr_All req
      then check (select (\<lambda>d. sort_key ss_ID (filter (\<lambda>s. ss_Status s = ''running'') (t_sessions d))))
             (\<lambda>e. Return (Inl e)) (\<lambda>sessions. resolve_sessions req sessions [] [])
      else check (select (\<lambda>d. sort_key ss_ID (filter (\<lambda>s. ss_VtaName s \<in> set (cr_SessionIDs req)) (t_sessions d))))
             (\<lambda>e. Return (Inl e)) (\<lambda>found.
               let (sessions, skipped) = select_sessions found (cr_SessionIDs req)
               in resolve_sessions req sessions [] skipped))"

section \<open>Creating batches\<close>

definition new_task :: "nat \<Rightarrow> int \<Rightarrow> nat \<Rightarrow> target_item \<Rightarrow> upgrade_task" where
  "new_task batchID now i t =
     \<lparr>ut_ID = i, ut_BatchID = batchID, ut_SessionID = ss_ID (ti_Session t), ut_Component = ti_Component t,
      ut_FromImage = ComponentImage (ti_Session t) (ti_Component t), ut_ToImage = ti_Image t,
      ut_Status = UpgradeTaskPending, ut_ErrorMsg = [], ut_CreatedAt = now, ut_UpdatedAt = now\<rparr>"

text \<open>The insert of a batch: the id of the sequence, the column default for the concurrency Go leaves zero.\<close>

definition insert_upgrade_batch :: "nat option \<Rightarrow> nat option \<Rightarrow> int \<Rightarrow> farm \<Rightarrow> nat \<times> farm" where
  "insert_upgrade_batch admin owner now d =
     (let i = Suc (seq_upgrade_batches d) in
      (i, d\<lparr>seq_upgrade_batches := i,
            t_upgrade_batches := t_upgrade_batches d @
              [\<lparr>ub_ID = i, ub_AdminID = admin, ub_UserID = owner, ub_Concurrency = 1,
                ub_Status = UpgradeBatchRunning, ub_CreatedAt = now, ub_UpdatedAt = now\<rparr>]\<rparr>))"

definition insert_upgrade_tasks :: "nat \<Rightarrow> target_item list \<Rightarrow> int \<Rightarrow> farm \<Rightarrow> farm" where
  "insert_upgrade_tasks batchID targets now d =
     d\<lparr>t_upgrade_tasks := t_upgrade_tasks d @
         map2 (new_task batchID now)
           [Suc (seq_upgrade_tasks d) ..< Suc (seq_upgrade_tasks d) + length targets] targets,
       seq_upgrade_tasks := seq_upgrade_tasks d + length targets\<rparr>"

definition create_batch :: "nat option \<Rightarrow> nat option \<Rightarrow> target_item list \<Rightarrow> (farm, nat) tx" where
  "create_batch admin owner targets =
     transaction
       (bnd (returning (\<lambda>now d. insert_upgrade_batch admin owner now d)) (\<lambda>batchID.
        bnd (returning (\<lambda>now d. ((), insert_upgrade_tasks batchID targets now d))) (\<lambda>_.
        ret batchID)))"

definition CreateUpgrade :: "upgrade_env \<Rightarrow> bool \<Rightarrow> tag_lists \<Rightarrow> nat \<Rightarrow> create_upgrade \<Rightarrow> handler" where
  "CreateUpgrade env has_runner tags adminID req =
     (if \<not> binds (cr_Components req) then refused 400 ''binding''
      else if cr_All req = (cr_SessionIDs req \<noteq> [])
      then refused 400 ''provide either session_ids or all=true (not both)''
      else case duplicate_component [] (cr_Components req) of
        Some c \<Rightarrow> refused 400 (''duplicate component '' @ c)
      | None \<Rightarrow>
      if \<not> cr_DryRun req \<and> \<not> has_runner then refused 503 k8s_missing
      else case check_images env tags (cr_Components req) of
        Some reply \<Rightarrow> Return (reply, [])
      | None \<Rightarrow>
      pbind (resolveTargets req) (\<lambda>r. case r of
        Inl _ \<Rightarrow> refused 500 ''could not resolve target sessions''
      | Inr (targets, skipped) \<Rightarrow>
          if cr_DryRun req then Return (DryRun targets skipped, [])
          else if targets = [] then Return (NoTargets skipped, [])
          else check (create_batch (Some adminID) None targets)
                 (\<lambda>_. refused 500 ''could not create upgrade batch'')
                 (\<lambda>batchID. Return (Created batchID targets skipped, [batchID]))))"

section \<open>A user's own session\<close>

definition ownSession :: "string \<Rightarrow> nat \<Rightarrow> farm \<Rightarrow> setup_session option" where
  "ownSession name userID d = find (\<lambda>s. ss_VtaName s = name \<and> ss_UserID s = userID) (t_sessions d)"

fun check_components :: "setup_session \<Rightarrow> string list \<Rightarrow> component_image list \<Rightarrow> string option" where
  "check_components s seen [] = None"
| "check_components s seen (ci # cis) =
     (if ci_Component ci \<in> set seen then Some (''duplicate component '' @ ci_Component ci)
      else if ss_Mode s \<notin> set (UpgradeComponentModes (ci_Component ci)) \<or> ComponentImage s (ci_Component ci) = []
      then Some (''mode '' @ ss_Mode s @ '' has no '' @ ci_Component ci @ '' component'')
      else if ComponentImage s (ci_Component ci) = ci_Image ci
      then Some (ci_Component ci @ '' is already on that image'')
      else check_components s (ci_Component ci # seen) cis)"

text \<open>The caller's paused batches of this session.\<close>

definition paused_own :: "nat \<Rightarrow> nat \<Rightarrow> farm \<Rightarrow> nat list" where
  "paused_own userID sessionID d =
     map ub_ID (filter (\<lambda>b. ub_UserID b = Some userID \<and> ub_Status b = UpgradeBatchPaused \<and>
                  ub_ID b \<in> ut_BatchID ` {t \<in> set (t_upgrade_tasks d). ut_SessionID t = sessionID})
                (t_upgrade_batches d))"

definition cancel_batches :: "(nat \<Rightarrow> bool) \<Rightarrow> 'a db_scheme \<Rightarrow> 'a db_scheme" where
  "cancel_batches P d =
     d\<lparr>t_upgrade_batches := update_where (\<lambda>b. P (ub_ID b)) (\<lambda>b. b\<lparr>ub_Status := UpgradeBatchCancelled\<rparr>)
        (t_upgrade_batches d)\<rparr>"

definition skip_pending :: "(nat \<Rightarrow> bool) \<Rightarrow> string \<Rightarrow> 'a db_scheme \<Rightarrow> 'a db_scheme" where
  "skip_pending P msg d =
     d\<lparr>t_upgrade_tasks := update_where (\<lambda>t. P (ut_BatchID t) \<and> ut_Status t = UpgradeTaskPending)
        (\<lambda>t. t\<lparr>ut_Status := UpgradeTaskSkipped, ut_ErrorMsg := msg\<rparr>) (t_upgrade_tasks d)\<rparr>"

definition supersede :: "nat \<Rightarrow> nat \<Rightarrow> (farm, unit) tx" where
  "supersede userID sessionID =
     transaction
       (bnd (select (paused_own userID sessionID)) (\<lambda>pausedIDs.
        if pausedIDs = [] then ret ()
        else bnd (exec (cancel_batches (\<lambda>i. i \<in> set pausedIDs))) (\<lambda>_.
             exec (skip_pending (\<lambda>i. i \<in> set pausedIDs) ''superseded by a newer upgrade''))))"

definition CreateForSession ::
  "upgrade_env \<Rightarrow> bool \<Rightarrow> tag_lists \<Rightarrow> nat \<Rightarrow> string \<Rightarrow> component_image list \<Rightarrow> handler" where
  "CreateForSession env has_runner tags userID name cis =
     check (first (ownSession name userID)) (\<lambda>_. refused 404 ''session not found'') (\<lambda>session.
     if \<not> binds cis then refused 400 ''binding''
     else if \<not> has_runner then refused 503 k8s_missing
     else if ss_Status session \<noteq> ''running''
     then refused 409 (''session is '' @ ss_Status session @ '', not running'')
     else if registryBusy session then refused 409 ''Trust Registry enablement is in progress''
     else case check_components session [] cis of
       Some msg \<Rightarrow> refused 400 msg
     | None \<Rightarrow>
     case check_images env tags cis of
       Some reply \<Rightarrow> Return (reply, [])
     | None \<Rightarrow>
     check (select (\<lambda>d. count_where (\<lambda>t. ut_SessionID t = ss_ID session \<and> ut_Status t = UpgradeTaskRollingBack) (t_upgrade_tasks d)))
       (\<lambda>_. refused 500 ''could not check rollback status'') (\<lambda>restoring.
     if 0 < restoring then refused 409 ''a rollback for this session is still in progress''
     else
     check (supersede userID (ss_ID session)) (\<lambda>_. refused 500 ''could not create upgrade'') (\<lambda>_.
     check (select (active_tasks (ss_ID session))) (\<lambda>_. refused 500 ''could not create upgrade'') (\<lambda>inFlight.
     if 0 < inFlight then refused 409 ''an upgrade for this session is already in progress''
     else
     check (create_batch None (Some userID)
              (map (\<lambda>ci. \<lparr>ti_Session = session, ti_Component = ci_Component ci, ti_Image = ci_Image ci\<rparr>) cis))
       (\<lambda>_. refused 500 ''could not create upgrade'')
       (\<lambda>batchID. Return (CreatedForSession batchID, [batchID]))))))"

section \<open>Cancelling and resuming\<close>

definition CancelUpgrade :: "nat \<Rightarrow> handler" where
  "CancelUpgrade batchID =
     check (first (batch_row batchID)) (\<lambda>_. refused 404 ''upgrade batch not found'') (\<lambda>batch.
     if ub_Status batch \<noteq> UpgradeBatchRunning \<and> ub_Status batch \<noteq> UpgradeBatchPaused
     then refused 409 (''batch is already '' @ ub_Status batch)
     else check (transaction (bnd (exec (cancel_batches (\<lambda>i. i = batchID))) (\<lambda>_.
                              exec (skip_pending (\<lambda>i. i = batchID) ''batch cancelled''))))
            (\<lambda>_. refused 500 ''could not cancel batch'')
            (\<lambda>_. Return (BatchIs batchID UpgradeBatchCancelled, [])))"

definition reopen_batch :: "nat \<Rightarrow> 'a db_scheme \<Rightarrow> 'a db_scheme" where
  "reopen_batch batchID d =
     d\<lparr>t_upgrade_batches := update_where (\<lambda>b. ub_ID b = batchID) (\<lambda>b. b\<lparr>ub_Status := UpgradeBatchRunning\<rparr>)
        (t_upgrade_batches d)\<rparr>"

definition ResumeUpgrade :: "bool \<Rightarrow> nat \<Rightarrow> handler" where
  "ResumeUpgrade has_runner batchID =
     (if \<not> has_runner then refused 503 k8s_missing
      else
      check (first (batch_row batchID)) (\<lambda>_. refused 404 ''upgrade batch not found'') (\<lambda>batch.
      if ub_Status batch \<noteq> UpgradeBatchPaused
      then refused 409 (''only paused batches can be resumed (batch is '' @ ub_Status batch @ '')'')
      else
      check (select (\<lambda>d. count_where (\<lambda>t. ut_BatchID t = batchID \<and>
               ut_Status t \<in> {UpgradeTaskRunning, UpgradeTaskRollingBack}) (t_upgrade_tasks d)))
        (\<lambda>_. refused 500 ''could not check active tasks'') (\<lambda>active.
      if 0 < active then refused 409 ''wait for the active upgrade or rollback to finish''
      else
      check (exec (reopen_batch batchID)) (\<lambda>_. refused 500 ''could not resume batch'') (\<lambda>_.
      Return (BatchIs batchID UpgradeBatchRunning, [batchID])))))"

text \<open>\<open>Runner.Resume\<close>, called when the process starts.\<close>

definition RunnerResume :: handler where
  "RunnerResume =
     check (select (\<lambda>d. map ub_ID (filter (\<lambda>b. ub_Status b = UpgradeBatchRunning \<or>
              ub_ID b \<in> ut_BatchID ` {t \<in> set (t_upgrade_tasks d). ut_Status t \<in> {UpgradeTaskRunning, UpgradeTaskRollingBack}})
              (t_upgrade_batches d))))
       (\<lambda>_. refused 500 ''resume: query failed'') (\<lambda>ids. Return (BatchIs 0 [], ids))"

section \<open>One API process\<close>

datatype request =
    AskCreate tag_lists nat create_upgrade
  | AskCreateForSession tag_lists nat string "component_image list"
  | AskCancel nat
  | AskResume nat
  | Boot

fun handler_of :: "upgrade_env \<Rightarrow> request \<Rightarrow> handler" where
  "handler_of env (AskCreate tags adminID req) = CreateUpgrade env True tags adminID req"
| "handler_of env (AskCreateForSession tags userID name cis) = CreateForSession env True tags userID name cis"
| "handler_of env (AskCancel i) = CancelUpgrade i"
| "handler_of env (AskResume i) = ResumeUpgrade True i"
| "handler_of env Boot = RunnerResume"

record machine =
  m_world :: "farm world"
  m_active :: "nat list"
  m_scheds :: "sched list"
  m_calls :: "handler list"

text \<open>\<open>Runner.Start\<close>, under its mutex\<close>

definition Start :: "nat \<Rightarrow> machine \<Rightarrow> machine" where
  "Start batchID m =
     (if batchID \<in> set (m_active m) then m
      else m\<lparr>m_active := batchID # m_active m,
             m_scheds := m_scheds m @ [\<lparr>sc_batch = batchID, sc_pc = Load, sc_flights = []\<rparr>]\<rparr>)"

datatype move =
    Sched nat
  | Flight nat nat
  | Ask request
  | Call nat
  | Others farm
  | Crash

text \<open>What the rest of the farm may do to the tables of the runner: delete rows, by cascade.\<close>

definition others_ok :: "farm \<Rightarrow> farm \<Rightarrow> bool" where
  "others_ok d d' \<longleftrightarrow>
     t_upgrade_tasks d' \<in> set (subseqs (t_upgrade_tasks d)) \<and>
     t_upgrade_batches d' \<in> set (subseqs (t_upgrade_batches d)) \<and>
     seq_upgrade_tasks d' = seq_upgrade_tasks d \<and> seq_upgrade_batches d' = seq_upgrade_batches d"

fun mstep :: "upgrade_env \<Rightarrow> move \<Rightarrow> machine \<Rightarrow> machine option" where
  "mstep env (Sched k) m =
     (if k < length (m_scheds m) then
        (case sched_step env (m_scheds m ! k) (m_world m) of
           None \<Rightarrow> None
         | Some (Some s, w) \<Rightarrow> Some (m\<lparr>m_world := w, m_scheds := (m_scheds m)[k := s]\<rparr>)
         | Some (None, w) \<Rightarrow>
             Some (m\<lparr>m_world := w,
                     m_active := filter (\<lambda>b. b \<noteq> sc_batch (m_scheds m ! k)) (m_active m),
                     m_scheds := take k (m_scheds m) @ drop (Suc k) (m_scheds m)\<rparr>))
      else None)"
| "mstep env (Flight k j) m =
     (if k < length (m_scheds m) \<and> j < length (sc_flights (m_scheds m ! k)) then
        (let s = m_scheds m ! k in
         case sc_flights s ! j of
           (i, Return _) \<Rightarrow>
             Some (m\<lparr>m_scheds := (m_scheds m)[k := s\<lparr>sc_flights := take j (sc_flights s) @ drop (Suc j) (sc_flights s)\<rparr>]\<rparr>)
         | (i, Act p e) \<Rightarrow>
             Some (m\<lparr>m_world := e (m_world m),
                     m_scheds := (m_scheds m)[k := s\<lparr>sc_flights := (sc_flights s)[j := (i, p (m_world m))]\<rparr>]\<rparr>))
      else None)"
| "mstep env (Ask r) m = Some (m\<lparr>m_calls := m_calls m @ [handler_of env r]\<rparr>)"
| "mstep env (Call k) m =
     (if k < length (m_calls m) then
        (case m_calls m ! k of
           Return (reply, starts) \<Rightarrow>
             Some (fold Start starts (m\<lparr>m_calls := take k (m_calls m) @ drop (Suc k) (m_calls m)\<rparr>))
         | Act p e \<Rightarrow> Some (m\<lparr>m_world := e (m_world m), m_calls := (m_calls m)[k := p (m_world m)]\<rparr>))
      else None)"
| "mstep env (Others d) m =
     (if others_ok (tabs (m_world m)) d then Some (m\<lparr>m_world := (m_world m)\<lparr>tabs := d\<rparr>\<rparr>) else None)"
| "mstep env Crash m = Some (m\<lparr>m_active := [], m_scheds := [], m_calls := []\<rparr>)"

fun mrun :: "upgrade_env \<Rightarrow> move list \<Rightarrow> machine \<Rightarrow> machine option" where
  "mrun env [] m = Some m"
| "mrun env (a # as) m = (case mstep env a m of None \<Rightarrow> None | Some m' \<Rightarrow> mrun env as m')"

definition fresh :: "machine \<Rightarrow> bool" where
  "fresh m \<longleftrightarrow> m_active m = [] \<and> m_scheds m = [] \<and> m_calls m = [] \<and>
     t_upgrade_batches (tabs (m_world m)) = [] \<and> t_upgrade_tasks (tabs (m_world m)) = []"

inductive reachable :: "upgrade_env \<Rightarrow> machine \<Rightarrow> bool" for env where
  start: "fresh m \<Longrightarrow> reachable env m"
| step: "reachable env m \<Longrightarrow> mstep env a m = Some m' \<Longrightarrow> reachable env m'"

end
