(* ===== verification/UpgradeSteps.thy ===== *)
theory UpgradeSteps
  imports UpgradeApi
begin

text \<open>
  What the goroutines of the upgrade runner do to each other. For the task \<open>i\<close> of a task
  goroutine, \<open>others i\<close> is all that everything else may do to its row (skip it while it is
  pending, delete it) and \<open>guar i\<close> is what the goroutine itself may do: write its own row along
  \<open>task_edge\<close>, pause its batch, and point its own Deployment at the image its row's status allows.
  The guarantee is proved of the code (\<open>runTask_guar\<close>), and a bound of the goroutine's length
  (\<open>runTask_within\<close>); \<open>UpgradeMachine\<close> composes them.
\<close>

section \<open>Rows\<close>

definition task_rows_ok :: "farm \<Rightarrow> bool" where
  "task_rows_ok d \<longleftrightarrow>
     distinct (map ut_ID (t_upgrade_tasks d)) \<and> (\<forall>t \<in> set (t_upgrade_tasks d). ut_ID t \<le> seq_upgrade_tasks d)"

text \<open>The columns no operation changes.\<close>

definition same_task :: "upgrade_task \<Rightarrow> upgrade_task \<Rightarrow> bool" where
  "same_task t t' \<longleftrightarrow>
     ut_ID t' = ut_ID t \<and> ut_BatchID t' = ut_BatchID t \<and> ut_SessionID t' = ut_SessionID t \<and>
     ut_Component t' = ut_Component t \<and> ut_FromImage t' = ut_FromImage t \<and> ut_ToImage t' = ut_ToImage t"

definition row_others :: "upgrade_task option \<Rightarrow> upgrade_task option \<Rightarrow> bool" where
  "row_others r r' \<longleftrightarrow>
     (\<forall>t'. r' = Some t' \<longrightarrow>
        (\<exists>t. r = Some t \<and> same_task t t' \<and>
             (ut_Status t' = ut_Status t \<or> ut_Status t = UpgradeTaskPending \<and> ut_Status t' = UpgradeTaskSkipped)))"

definition others :: "nat \<Rightarrow> farm \<Rightarrow> farm \<Rightarrow> bool" where
  "others i d d' \<longleftrightarrow>
     (task_rows_ok d \<longrightarrow>
        task_rows_ok d' \<and> seq_upgrade_tasks d \<le> seq_upgrade_tasks d' \<and>
        (i \<le> seq_upgrade_tasks d \<longrightarrow> row_others (task_row i d) (task_row i d')))"

text \<open>The statuses a task goroutine takes its row through.\<close>

definition task_edges :: "(string \<times> string) set" where
  "task_edges =
     {(UpgradeTaskPending, UpgradeTaskRunning), (UpgradeTaskPending, UpgradeTaskSkipped),
      (UpgradeTaskPending, UpgradeTaskFailed),
      (UpgradeTaskSkipped, UpgradeTaskRunning), (UpgradeTaskSkipped, UpgradeTaskFailed),
      (UpgradeTaskRunning, UpgradeTaskSucceeded), (UpgradeTaskRunning, UpgradeTaskRollingBack),
      (UpgradeTaskRunning, UpgradeTaskFailed), (UpgradeTaskRunning, UpgradeTaskSkipped),
      (UpgradeTaskRollingBack, UpgradeTaskRolledBack), (UpgradeTaskRollingBack, UpgradeTaskRollbackFailed),
      (UpgradeTaskRollingBack, UpgradeTaskFailed), (UpgradeTaskRollingBack, UpgradeTaskSkipped)}"

definition task_edge :: "string \<Rightarrow> string \<Rightarrow> bool" where
  "task_edge s s' \<longleftrightarrow> s' = s \<or> (s, s') \<in> task_edges"

text \<open>The statuses in which a row can be when a task goroutine loads it.\<close>

definition startable :: "string \<Rightarrow> bool" where
  "startable s \<longleftrightarrow> s \<in> {UpgradeTaskPending, UpgradeTaskRunning, UpgradeTaskRollingBack, UpgradeTaskSkipped}"

text \<open>The image a row's status allows for the Deployment of its session and component.\<close>

definition image_allowed :: "upgrade_task \<Rightarrow> string \<Rightarrow> bool" where
  "image_allowed t img \<longleftrightarrow>
     ut_Status t = UpgradeTaskRunning \<and> img = ut_ToImage t \<or>
     ut_Status t = UpgradeTaskRollingBack \<and> img = ut_FromImage t"

definition own_deployment :: "upgrade_task \<Rightarrow> string \<Rightarrow> bool" where
  "own_deployment t name \<longleftrightarrow> (\<exists>s. ss_ID s = ut_SessionID t \<and> deploymentName s (ut_Component t) = Inr name)"

definition guar :: "nat \<Rightarrow> farm \<Rightarrow> farm \<Rightarrow> bool" where
  "guar i d d' \<longleftrightarrow>
     (task_rows_ok d \<longrightarrow>
        map ut_ID (t_upgrade_tasks d') = map ut_ID (t_upgrade_tasks d) \<and>
        seq_upgrade_tasks d' = seq_upgrade_tasks d \<and> seq_upgrade_batches d' = seq_upgrade_batches d \<and>
        (\<forall>j. j \<noteq> i \<longrightarrow> task_row j d' = task_row j d) \<and>
        (\<forall>t. task_row i d = Some t \<longrightarrow>
           (\<exists>t'. task_row i d' = Some t' \<and> same_task t t' \<and> task_edge (ut_Status t) (ut_Status t')))) \<and>
     (t_upgrade_batches d' = t_upgrade_batches d \<or>
      (\<exists>b. t_upgrade_batches d' = t_upgrade_batches (leave_running b UpgradeBatchPaused d))) \<and>
     (\<forall>ns name. k_deployments d' (ns, name) \<noteq> k_deployments d (ns, name) \<longrightarrow>
        (\<forall>t. task_rows_ok d \<longrightarrow> task_row i d = Some t \<longrightarrow>
           own_deployment t name \<and>
           (\<exists>img. image_allowed t img \<and> k_deployments d' (ns, name) = map_option (with_image img) (k_deployments d (ns, name)))))"

named_theorems rows_simps

lemma task_row_id: "task_row i d = Some t \<Longrightarrow> ut_ID t = i"
  by (auto simp: task_row_def dest: find_SomeD)

lemma task_row_in: "task_row i d = Some t \<Longrightarrow> t \<in> set (t_upgrade_tasks d)"
  by (auto simp: task_row_def dest: find_SomeD)

lemma task_row_of:
  "task_rows_ok d \<Longrightarrow> t \<in> set (t_upgrade_tasks d) \<Longrightarrow> task_row (ut_ID t) d = Some t"
  unfolding task_row_def task_rows_ok_def by (rule find_unique [where k = ut_ID]) auto

lemma row_write [rows_simps]:
  "task_row j (write_task i s msg d) =
     (if j = i then map_option (\<lambda>t. t\<lparr>ut_Status := s, ut_ErrorMsg := msg\<rparr>) (task_row j d) else task_row j d)"
proof (cases "task_row j d")
  case None
  then show ?thesis by (auto simp add: task_row_def write_task_def find_update_where)
next
  case (Some t)
  then show ?thesis using task_row_id [OF Some] by (auto simp add: task_row_def write_task_def find_update_where)
qed

lemma write_task_simps [rows_simps]:
  "map ut_ID (t_upgrade_tasks (write_task i s msg d)) = map ut_ID (t_upgrade_tasks d)"
  "seq_upgrade_tasks (write_task i s msg d) = seq_upgrade_tasks d"
  "seq_upgrade_batches (write_task i s msg d) = seq_upgrade_batches d"
  "t_upgrade_batches (write_task i s msg d) = t_upgrade_batches d"
  "k_deployments (write_task i s msg d) = k_deployments d"
  by (auto simp: write_task_def map_update_where)

lemma leave_running_simps [rows_simps]:
  "t_upgrade_tasks (leave_running b s d) = t_upgrade_tasks d"
  "task_row i (leave_running b s d) = task_row i d"
  "seq_upgrade_tasks (leave_running b s d) = seq_upgrade_tasks d"
  "seq_upgrade_batches (leave_running b s d) = seq_upgrade_batches d"
  "k_deployments (leave_running b s d) = k_deployments d"
  "t_upgrade_batches (leave_running b s (write_task j st msg d)) = t_upgrade_batches (leave_running b s d)"
  by (auto simp: leave_running_def write_task_def task_row_def)

lemma task_rows_ok_ids:
  "map ut_ID (t_upgrade_tasks d') = map ut_ID (t_upgrade_tasks d) \<Longrightarrow>
   seq_upgrade_tasks d \<le> seq_upgrade_tasks d' \<Longrightarrow> task_rows_ok d \<Longrightarrow> task_rows_ok d'"
proof -
  assume ids: "map ut_ID (t_upgrade_tasks d') = map ut_ID (t_upgrade_tasks d)"
    and le: "seq_upgrade_tasks d \<le> seq_upgrade_tasks d'" and ok: "task_rows_ok d"
  have "ut_ID ` set (t_upgrade_tasks d') = ut_ID ` set (t_upgrade_tasks d)"
    using arg_cong [OF ids, of set] by simp
  then have "\<exists>t \<in> set (t_upgrade_tasks d). ut_ID t = ut_ID t'" if "t' \<in> set (t_upgrade_tasks d')" for t'
    using that by (metis image_eqI image_iff)
  with ok le ids show ?thesis unfolding task_rows_ok_def by (metis order_trans)
qed

lemma task_rows_ok_write [rows_simps]: "task_rows_ok d \<Longrightarrow> task_rows_ok (write_task i s msg d)"
  by (rule task_rows_ok_ids [of _ d]) (simp_all add: rows_simps)

section \<open>Order\<close>

lemma same_task_refl [simp]: "same_task t t"
  by (simp add: same_task_def)

lemma same_task_trans: "same_task a b \<Longrightarrow> same_task b c \<Longrightarrow> same_task a c"
  by (simp add: same_task_def)

lemma row_others_refl [simp]: "row_others r r"
  by (auto simp: row_others_def)

lemma row_others_None [simp]: "row_others r None"
  by (simp add: row_others_def)

lemma row_others_trans: "row_others a b \<Longrightarrow> row_others b c \<Longrightarrow> row_others a c"
  unfolding row_others_def by (fastforce intro: same_task_trans)

lemma others_refl: "others i d d"
  by (simp add: others_def)

lemma others_trans: "others i a b \<Longrightarrow> others i b c \<Longrightarrow> others i a c"
  unfolding others_def by (auto intro: row_others_trans order_trans)

lemma guar_refl: "guar i d d"
  by (auto simp: guar_def task_edge_def)

interpretation flight: rely "others i" "guar i" for i
  by unfold_locales (auto intro: others_refl others_trans guar_refl)

text \<open>What is not the task's own row is none of its goroutine's business.\<close>

lemma guar_rows_ok: "guar i d d' \<Longrightarrow> task_rows_ok d \<Longrightarrow> task_rows_ok d'"
  by (auto simp: guar_def intro: task_rows_ok_ids)

lemma row_None_ids:
  fixes d d' :: farm
  shows "map ut_ID (t_upgrade_tasks d') = map ut_ID (t_upgrade_tasks d) \<Longrightarrow> task_row i d' = None \<longleftrightarrow> task_row i d = None"
proof -
  assume ids: "map ut_ID (t_upgrade_tasks d') = map ut_ID (t_upgrade_tasks d)"
  have "task_row i x = None \<longleftrightarrow> i \<notin> ut_ID ` set (t_upgrade_tasks x)" for x :: farm
    by (auto simp: task_row_def find_None_iff)
  with arg_cong [OF ids, of set] show ?thesis by simp
qed

lemma guar_others: "guar i d d' \<Longrightarrow> j \<noteq> i \<or> task_row i d = None \<Longrightarrow> others j d d'"
proof -
  assume g: "guar i d d'" and j: "j \<noteq> i \<or> task_row i d = None"
  show ?thesis unfolding others_def
  proof (intro impI conjI)
    assume ok: "task_rows_ok d"
    with g show "task_rows_ok d'" "seq_upgrade_tasks d \<le> seq_upgrade_tasks d'"
      by (auto simp: guar_def intro: task_rows_ok_ids)
    from g ok have ids: "map ut_ID (t_upgrade_tasks d') = map ut_ID (t_upgrade_tasks d)"
      and other: "\<And>j. j \<noteq> i \<Longrightarrow> task_row j d' = task_row j d" by (auto simp: guar_def)
    show "row_others (task_row j d) (task_row j d')"
      using j other [of j] row_None_ids [OF ids, of i] by (cases "j = i") auto
  qed
qed

section \<open>A task goroutine\<close>

text \<open>
  \<open>at i task S d\<close>: the row of task \<open>i\<close>, if it still exists, is \<open>task\<close> as it was loaded but for a
  status in \<open>S\<close> and a message. Others preserve it when \<open>S\<close> is closed under skipping.
\<close>

definition row_at :: "nat \<Rightarrow> upgrade_task \<Rightarrow> string set \<Rightarrow> farm \<Rightarrow> bool" where
  "row_at i task S d \<longleftrightarrow>
     task_rows_ok d \<and> i \<le> seq_upgrade_tasks d \<and> ut_ID task = i \<and>
     (\<forall>t. task_row i d = Some t \<longrightarrow> same_task task t \<and> ut_Status t \<in> S)"

lemma row_at_others:
  "row_at i task S d \<Longrightarrow> others i d d' \<Longrightarrow> UpgradeTaskPending \<in> S \<longrightarrow> UpgradeTaskSkipped \<in> S \<Longrightarrow> row_at i task S d'"
proof -
  assume at: "row_at i task S d" and oth: "others i d d'" and skip: "UpgradeTaskPending \<in> S \<longrightarrow> UpgradeTaskSkipped \<in> S"
  then have d': "task_rows_ok d'" "i \<le> seq_upgrade_tasks d'" "row_others (task_row i d) (task_row i d')"
    by (auto simp: row_at_def others_def)
  have "same_task task t \<and> ut_Status t \<in> S" if "task_row i d' = Some t" for t
  proof -
    from d'(3) that obtain t0 where "task_row i d = Some t0" "same_task t0 t"
      "ut_Status t = ut_Status t0 \<or> ut_Status t0 = UpgradeTaskPending \<and> ut_Status t = UpgradeTaskSkipped"
      by (auto simp: row_others_def)
    with at skip show ?thesis by (auto simp: row_at_def intro: same_task_trans)
  qed
  with d' at show ?thesis by (simp add: row_at_def)
qed

lemma row_at_write: "row_at i task S d \<Longrightarrow> row_at i task {s} (write_task i s msg d)"
proof -
  assume at: "row_at i task S d"
  have "same_task task t' \<and> ut_Status t' \<in> {s}" if "task_row i (write_task i s msg d) = Some t'" for t'
  proof -
    from that obtain t where "task_row i d = Some t" "t' = t\<lparr>ut_Status := s, ut_ErrorMsg := msg\<rparr>"
      by (auto simp: rows_simps)
    with at show ?thesis by (simp add: row_at_def) (simp add: same_task_def)
  qed
  with at show ?thesis by (simp add: row_at_def rows_simps)
qed

lemma row_at_other_tables:
  "row_at i task S d \<Longrightarrow> t_upgrade_tasks d' = t_upgrade_tasks d \<Longrightarrow>
   seq_upgrade_tasks d' = seq_upgrade_tasks d \<Longrightarrow> row_at i task S d'"
  by (simp add: row_at_def task_rows_ok_def task_row_def)

lemma guar_write:
  assumes "row_at i task S d" "\<And>s'. s' \<in> S \<Longrightarrow> task_edge s' s"
  shows "guar i d (write_task i s msg d)"
proof -
  have "\<exists>t'. task_row i (write_task i s msg d) = Some t' \<and> same_task t t' \<and> task_edge (ut_Status t) (ut_Status t')"
    if "task_row i d = Some t" for t
    using that assms by (simp add: rows_simps row_at_def) (simp add: same_task_def)
  then show ?thesis by (simp add: guar_def rows_simps)
qed

lemma guar_other_tables:
  assumes "t_upgrade_tasks d' = t_upgrade_tasks d" "seq_upgrade_tasks d' = seq_upgrade_tasks d"
    "seq_upgrade_batches d' = seq_upgrade_batches d" "k_deployments d' = k_deployments d"
    "t_upgrade_batches d' = t_upgrade_batches d \<or> (\<exists>b. t_upgrade_batches d' = t_upgrade_batches (leave_running b UpgradeBatchPaused d))"
  shows "guar i d d'"
proof -
  have rows: "task_row j d' = task_row j d" for j using assms(1) by (simp add: task_row_def)
  show ?thesis using assms(1-5) unfolding guar_def rows by (auto simp: task_edge_def)
qed

lemma guar_pause [simp]: "guar i d (leave_running b UpgradeBatchPaused d)"
  by (rule guar_other_tables) (auto simp: rows_simps)

abbreviation flies :: "nat \<Rightarrow> (farm, unit) prog \<Rightarrow> farm \<Rightarrow> bool" where
  "flies i p d \<equiv> rg (others i) (guar i) p (\<lambda>_ _. True) d"

lemma flies_Return: "flies i (Return ()) d"
  by simp

text \<open>The last write of a task goroutine.\<close>

lemma flies_set_last:
  assumes at: "row_at i task S d" and skip: "UpgradeTaskPending \<in> S \<longrightarrow> UpgradeTaskSkipped \<in> S"
    and edge: "\<And>s'. s' \<in> S \<Longrightarrow> task_edge s' s"
  shows "flies i (ignore (setTask task s msg) (Return ())) d"
proof -
  from at have id: "ut_ID task = i" by (simp add: row_at_def)
  show ?thesis unfolding setTask_def id
    by (intro flight.rg_ignore_exec) (auto intro!: guar_write [OF row_at_others [OF at _ skip]] edge)
qed

lemma flies_failTask:
  assumes at: "row_at i task S d" and skip: "UpgradeTaskPending \<in> S \<longrightarrow> UpgradeTaskSkipped \<in> S"
    and edge: "\<And>s'. s' \<in> S \<Longrightarrow> task_edge s' UpgradeTaskFailed"
  shows "flies i (failTask batch task msg) d"
proof -
  have pause: "flies i (ignore (exec (leave_running b UpgradeBatchPaused)) (Return ())) d'" for b d'
    by (intro flight.rg_ignore_exec) auto
  from at have id: "ut_ID task = i" by (simp add: row_at_def)
  show ?thesis unfolding failTask_def setTask_def id
    by (intro flight.rg_ignore_exec) (auto intro!: guar_write [OF row_at_others [OF at _ skip]] edge pause)
qed

text \<open>The waiting only reads, and is bounded.\<close>

lemma rollout_reads: "always (\<lambda>a b. b = a) (DeploymentRollout ns name img)"
  unfolding DeploymentRollout_def by (intro always_check) (auto simp: stepping_def wp split: option.splits)

lemma poll_reads: "always (\<lambda>a b. b = a) (poll_rollout env ticks deadline ns name img reason)"
proof (induction ticks arbitrary: reason)
  case 0
  show ?case by (subst poll_rollout.simps)
    (auto intro!: always_pbind rollout_reads simp: Let_def split: sum.splits)
next
  case (Suc n)
  show ?case by (subst poll_rollout.simps)
    (auto intro!: always_pbind rollout_reads always_at_time Suc simp: Let_def split: sum.splits)
qed

lemma wait_reads: "always (\<lambda>a b. b = a) (waitForRollout env parent ns name img)"
  unfolding waitForRollout_def by (intro always_at_time poll_reads)

lemma flies_wait:
  assumes "\<And>r d'. others i d d' \<Longrightarrow> flies i (k r) d'"
  shows "flies i (pbind (waitForRollout env parent ns name img) k) d"
  by (rule flight.rg_pbind) (rule flight.rg_reads [OF wait_reads], rule assms)

lemma flies_SetDeploymentImage:
  assumes at: "row_at i task S d" and skip: "UpgradeTaskPending \<in> S \<longrightarrow> UpgradeTaskSkipped \<in> S"
    and own: "own_deployment task name"
    and allowed: "\<And>t. same_task task t \<Longrightarrow> ut_Status t \<in> S \<Longrightarrow> image_allowed t img"
    and err: "\<And>e d'. row_at i task S d' \<Longrightarrow> flies i (h e) d'"
    and ok: "\<And>d'. row_at i task S d' \<Longrightarrow> flies i (k ()) d'"
  shows "flies i (check (SetDeploymentImage ns name img) h k) d"
  unfolding rg_check SetDeploymentImage_def
proof (intro allI impI)
  fix w :: "farm world" assume "others i d (tabs w)"
  then have at': "row_at i task S (tabs w)" by (rule row_at_others [OF at _ skip])
  let ?f = "\<lambda>x :: farm. x\<lparr>k_deployments := (k_deployments x)
     ((ns, name) := map_option (with_image img) (k_deployments x (ns, name)))\<rparr>"
  have at2: "row_at i task S (?f (tabs w))"
    by (rule row_at_other_tables [OF at']) simp_all
  have own': "own_deployment t name" if "same_task task t" for t
    using own that by (simp add: own_deployment_def same_task_def)
  have g: "guar i (tabs w) (?f (tabs w))"
    using at' allowed own' by (auto simp: guar_def row_at_def task_row_def task_edge_def)
  show "wp (bnd (interact LibraryFailure (\<lambda>w. (k_deployments (tabs w) (ns, name), ?f (tabs w))))
          (\<lambda>r. case r of None \<Rightarrow> throw LibraryFailure | Some _ \<Rightarrow> ret ()))
        (\<lambda>r w'. guar i (tabs w) (tabs w') \<and> (case r of Inl e \<Rightarrow> flies i (h e) (tabs w') | Inr a \<Rightarrow> flies i (k a) (tabs w'))) w"
    using g guar_refl at' at2 err ok by (auto simp: wp split: option.splits)
qed

lemma flies_record_image:
  assumes at: "row_at i task S d" and skip: "UpgradeTaskPending \<in> S \<longrightarrow> UpgradeTaskSkipped \<in> S"
    and err: "\<And>e d'. row_at i task S d' \<Longrightarrow> flies i (h e) d'"
    and ok: "\<And>d'. row_at i task S d' \<Longrightarrow> flies i (k ()) d'"
  shows "flies i (check (record_image sid c img) h k) d"
  unfolding rg_check record_image_def
proof (intro allI impI)
  fix w :: "farm world" assume "others i d (tabs w)"
  then have at': "row_at i task S (tabs w)" by (rule row_at_others [OF at _ skip])
  let ?d = "(tabs w)\<lparr>t_sessions := update_where (\<lambda>s. ss_ID s = sid)
    (set_image_column (UpgradeImageColumn c) img) (t_sessions (tabs w))\<rparr>"
  have "row_at i task S ?d" by (rule row_at_other_tables [OF at']) simp_all
  moreover have "guar i (tabs w) ?d" by (rule guar_other_tables) simp_all
  ultimately show "wp (exec_checked (\<lambda>_. UpgradeImageColumn c \<noteq> [])
       (\<lambda>d. d\<lparr>t_sessions := update_where (\<lambda>s. ss_ID s = sid) (set_image_column (UpgradeImageColumn c) img) (t_sessions d)\<rparr>))
     (\<lambda>r w'. guar i (tabs w) (tabs w') \<and> (case r of Inl e \<Rightarrow> flies i (h e) (tabs w') | Inr a \<Rightarrow> flies i (k a) (tabs w'))) w"
    using at' guar_refl err ok by (simp add: wp)
qed

lemma flies_record_success:
  assumes at: "row_at i task S d" and skip: "UpgradeTaskPending \<in> S \<longrightarrow> UpgradeTaskSkipped \<in> S"
    and err: "\<And>e d'. row_at i task S d' \<Longrightarrow> flies i (h e) d'"
    and ok: "\<And>d'. row_at i task S d' \<Longrightarrow> flies i (k ()) d'"
  shows "flies i (check (recordSuccessfulUpgrade session t) h k) d"
  unfolding rg_check
proof (intro allI impI)
  fix w :: "farm world" assume "others i d (tabs w)"
  then have at': "row_at i task S (tabs w)" by (rule row_at_others [OF at _ skip])
  define keep where "keep d' \<longleftrightarrow> t_upgrade_tasks d' = t_upgrade_tasks (tabs w) \<and>
     seq_upgrade_tasks d' = seq_upgrade_tasks (tabs w) \<and> seq_upgrade_batches d' = seq_upgrade_batches (tabs w) \<and>
     k_deployments d' = k_deployments (tabs w) \<and> t_upgrade_batches d' = t_upgrade_batches (tabs w)" for d' :: farm
  have "wp (recordSuccessfulUpgrade session t) (\<lambda>r w'. keep (tabs w')) w"
    by (simp add: recordSuccessfulUpgrade_def record_image_def wp keep_def)
  then show "wp (recordSuccessfulUpgrade session t)
     (\<lambda>r w'. guar i (tabs w) (tabs w') \<and> (case r of Inl e \<Rightarrow> flies i (h e) (tabs w') | Inr a \<Rightarrow> flies i (k a) (tabs w'))) w"
  proof (rule wp_mono)
    fix r :: "err + unit" and w' assume "keep (tabs w')"
    then have "guar i (tabs w) (tabs w')" "row_at i task S (tabs w')"
      unfolding keep_def by (auto intro: guar_other_tables row_at_other_tables [OF at'])
    then show "guar i (tabs w) (tabs w') \<and> (case r of Inl e \<Rightarrow> flies i (h e) (tabs w') | Inr a \<Rightarrow> flies i (k a) (tabs w'))"
      using err ok by (cases r) auto
  qed
qed

lemma flies_rollback_last:
  "row_at i task {UpgradeTaskRollingBack} d \<Longrightarrow> s \<in> {UpgradeTaskRollbackFailed, UpgradeTaskRolledBack} \<Longrightarrow>
   flies i (ignore (setTask task s msg) (Return ())) d"
  by (rule flies_set_last) (auto simp: task_edge_def task_edges_def)

lemma flies_restore_image:
  assumes at: "row_at i task {UpgradeTaskRollingBack} d" and own: "own_deployment task name"
  shows "flies i (restore_image env task ns name cause deadline) d"
proof -
  have rec: "flies i (record_rollback env task cause) d'" if "row_at i task {UpgradeTaskRollingBack} d'" for d'
    unfolding record_rollback_def by (rule flies_record_image [OF that]) (simp_all add: flies_rollback_last)
  have wait: "flies i (pbind (waitForRollout env deadline ns name (ut_FromImage task)) (\<lambda>r. case r of
        Some msg \<Rightarrow> ignore (setTask task UpgradeTaskRollbackFailed (cause @ ''; rollback failed: '' @ msg)) (Return ())
      | None \<Rightarrow> record_rollback env task cause)) d'" if "row_at i task {UpgradeTaskRollingBack} d'" for d'
    by (rule flies_wait)
       (use row_at_others [OF that] in \<open>simp add: flies_rollback_last rec split: option.splits\<close>)
  show ?thesis unfolding restore_image_def
    by (intro flight.rg_if flies_SetDeploymentImage [OF at _ own] wait)
       (simp_all add: flies_rollback_last at image_allowed_def same_task_def)
qed

lemma flies_rollbackTask:
  assumes at: "row_at i task S d" and S: "S \<subseteq> {UpgradeTaskRunning, UpgradeTaskRollingBack}"
    and own: "own_deployment task name"
  shows "flies i (rollbackTask env batch task ns name cause) d"
  unfolding rollbackTask_def rg_check
proof (intro allI impI)
  fix w :: "farm world" assume "others i d (tabs w)"
  with at S have at': "row_at i task S (tabs w)" by (auto intro: row_at_others)
  from at have id: "ut_ID task = i" by (simp add: row_at_def)
  let ?d = "leave_running (ub_ID batch) UpgradeBatchPaused (write_task i UpgradeTaskRollingBack cause (tabs w))"
  have at2: "row_at i task {UpgradeTaskRollingBack} ?d"
    by (rule row_at_other_tables [OF row_at_write [OF at']]) (simp_all add: rows_simps)
  have edge: "task_edge s UpgradeTaskRollingBack" if "s \<in> S" for s
    using that S by (auto simp: task_edge_def task_edges_def)
  have "guar i (tabs w) (write_task i UpgradeTaskRollingBack cause (tabs w))"
    by (rule guar_write [OF at' edge])
  then have g: "guar i (tabs w) ?d"
    by (auto simp: guar_def rows_simps)
  have "flies i (at_time (\<lambda>now. restore_image env task ns name cause (now + rolloutTimeout))) ?d"
    by (intro flight.rg_at_time flies_restore_image [OF _ own]) (use row_at_others [OF at2] in simp)
  with g show "wp (transaction (bnd (exec (write_task (ut_ID task) UpgradeTaskRollingBack cause)) (\<lambda>_.
         exec (leave_running (ub_ID batch) UpgradeBatchPaused))))
     (\<lambda>r w'. guar i (tabs w) (tabs w') \<and> (case r of Inl e \<Rightarrow> flies i (Return ()) (tabs w')
        | Inr a \<Rightarrow> flies i (at_time (\<lambda>now. restore_image env task ns name cause (now + rolloutTimeout))) (tabs w'))) w"
    by (simp add: wp guar_refl id)
qed

lemma flies_apply_upgrade:
  assumes at: "row_at i task S d" and S: "S \<subseteq> {UpgradeTaskPending, UpgradeTaskRunning, UpgradeTaskSkipped}"
    and skip: "UpgradeTaskPending \<in> S \<longrightarrow> UpgradeTaskSkipped \<in> S" and own: "own_deployment task name"
  shows "flies i (apply_upgrade env deadline batch task session ns name) d"
proof -
  from at have id: "ut_ID task = i" by (simp add: row_at_def)
  have undo: "flies i (rollbackTask env batch task ns name cause) d'" if "row_at i task {UpgradeTaskRunning} d'" for cause d'
    by (rule flies_rollbackTask [OF that _ own]) simp
  have fin: "flies i (ignore (setTask task UpgradeTaskSucceeded []) (Return ())) d'" if "row_at i task {UpgradeTaskRunning} d'" for d'
    by (rule flies_set_last [OF that]) (auto simp: task_edge_def task_edges_def)
  have conf: "flies i (confirm_upgrade env batch task session ns name) d'" if "row_at i task {UpgradeTaskRunning} d'" for d'
    unfolding confirm_upgrade_def by (rule flies_record_success [OF that]) (simp_all add: undo fin)
  have waits: "flies i (pbind (waitForRollout env deadline ns name (ut_ToImage task)) (\<lambda>r. case r of
       Some msg \<Rightarrow> rollbackTask env batch task ns name msg
     | None \<Rightarrow> confirm_upgrade env batch task session ns name)) d'" if "row_at i task {UpgradeTaskRunning} d'" for d'
    by (rule flies_wait) (use row_at_others [OF that] in \<open>simp add: undo conf split: option.splits\<close>)
  have edge: "task_edge s UpgradeTaskRunning" if "s \<in> S" for s
    using that S by (auto simp: task_edge_def task_edges_def)
  have now: "guar i x (write_task i UpgradeTaskRunning [] x)" "row_at i task {UpgradeTaskRunning} (write_task i UpgradeTaskRunning [] x)"
    if "others i d x" for x
    using guar_write [OF row_at_others [OF at that skip] edge] row_at_write [OF row_at_others [OF at that skip]] by blast+
  show ?thesis unfolding apply_upgrade_def setTask_def id
    by (intro flight.rg_exec flies_Return conjI now flies_SetDeploymentImage [OF now(2) _ own] waits undo)
       (simp_all add: image_allowed_def same_task_def)
qed

text \<open>Every action of a task goroutine started on an unfinished task keeps the guarantee.\<close>

lemma startable_others:
  "row_others (task_row i d) (task_row i d') \<Longrightarrow> (\<And>t. task_row i d = Some t \<Longrightarrow> startable (ut_Status t)) \<Longrightarrow>
   task_row i d' = Some t' \<Longrightarrow> startable (ut_Status t')"
  by (auto simp: row_others_def startable_def)

text \<open>The statuses the row of a loaded task can be in until its goroutine writes it.\<close>

definition since_load :: "upgrade_task \<Rightarrow> string set" where
  "since_load task = (if ut_Status task = UpgradeTaskPending then {UpgradeTaskPending, UpgradeTaskSkipped} else {ut_Status task})"

lemma flies_run_loaded:
  assumes at: "row_at i task (since_load task) d" and st: "startable (ut_Status task)"
    and session: "ss_ID session = ut_SessionID task"
  shows "flies i (run_loaded env deadline batch task session) d"
proof -
  have fail: "flies i (failTask batch task msg) d" for msg
    by (rule flies_failTask [OF at]) (use st in \<open>auto simp: since_load_def startable_def task_edge_def task_edges_def split: if_splits\<close>)
  have own: "own_deployment task name" if "deploymentName session (ut_Component task) = Inr name" for name
    using that session by (auto simp: own_deployment_def)
  show ?thesis
  proof (cases "deploymentName session (ut_Component task)")
    case (Inl e)
    then show ?thesis by (simp add: run_loaded_def fail)
  next
    case (Inr name)
    have "flies i (rollbackTask env batch task ns name (ut_ErrorMsg task)) d" if "ut_Status task = UpgradeTaskRollingBack" for ns
      by (rule flies_rollbackTask [OF at _ own [OF Inr]]) (simp add: that since_load_def)
    moreover have "flies i (apply_upgrade env deadline batch task session ns name) d"
      if "ut_Status task = UpgradeTaskPending \<or> ut_Status task = UpgradeTaskRunning" for ns
      by (rule flies_apply_upgrade [OF at _ _ own [OF Inr]]) (use that in \<open>auto simp: since_load_def\<close>)
    ultimately show ?thesis using Inr by (simp add: run_loaded_def Let_def fail)
  qed
qed

lemma runTask_guar:
  assumes ok: "task_rows_ok d" "i \<le> seq_upgrade_tasks d" and st: "\<And>t. task_row i d = Some t \<Longrightarrow> startable (ut_Status t)"
  shows "flies i (runTask env batch i) d"
  unfolding runTask_def
proof (intro flight.rg_at_time flight.rg_first flies_Return)
  fix now d0 d1 task
  assume "others i d d0" "others i d0 d1" and task: "task_row i d1 = Some task"
  then have "others i d d1" by (blast intro: others_trans)
  with ok have d1: "task_rows_ok d1" "i \<le> seq_upgrade_tasks d1" "row_others (task_row i d) (task_row i d1)"
    by (auto simp: others_def)
  with task st startable_others [of i d d1 task] have st': "startable (ut_Status task)" by blast
  from d1 task task_row_id [OF task] have "row_at i task (since_load task) d1"
    by (simp add: row_at_def since_load_def)
  then have at: "row_at i task (since_load task) d2" if "others i d1 d2" for d2
    by (rule row_at_others [OF _ that]) (simp add: since_load_def)
  show "flies i (ignore (setTask task UpgradeTaskSkipped ''session no longer exists'') (Return ())) d2"
    if "others i d1 d2" for d2
    by (rule flies_set_last [OF at [OF that]])
       (use st' in \<open>auto simp: since_load_def startable_def task_edge_def task_edges_def split: if_splits\<close>)
  show "flies i (run_loaded env (now + rolloutTimeout) batch task session) d2"
    if "others i d1 d2" "session_row (ut_SessionID task) d2 = Some session" for d2 session
    by (rule flies_run_loaded [OF at [OF that(1)] st'])
       (use that(2) in \<open>auto simp: session_row_def dest: find_SomeD\<close>)
qed

section \<open>Length of a task goroutine\<close>

text \<open>An upper bound of the actions of one task goroutine, from the 61 polls of each of its two waits.\<close>

definition task_steps :: nat where "task_steps = 377"

lemma within_rollout: "within (DeploymentRollout ns name img) 2"
  unfolding DeploymentRollout_def numeral_2_eq_2 by (intro within_check) simp_all

lemma within_poll: "within (poll_rollout env ticks deadline ns name img reason) (2 + 3 * ticks)"
proof (induction ticks arbitrary: reason)
  case 0
  show ?case unfolding poll_rollout.simps [of env 0]
    by (rule within_mono [OF within_pbind [OF within_rollout, of _ 0]]) (auto simp: Let_def split: sum.splits)
next
  case (Suc n)
  have "within (at_time (\<lambda>now. if deadline \<le> now then Return (Some (timed_out reason))
      else poll_rollout env n deadline ns name img reason)) (Suc (2 + 3 * n))" for reason
    by (rule within_at_time) (use Suc in simp)
  then show ?case unfolding poll_rollout.simps [of env "Suc n"]
    by (intro within_mono [OF within_pbind [OF within_rollout, of _ "Suc (2 + 3 * n)"]]) (auto simp: Let_def split: sum.splits)
qed

lemma within_wait: "within (waitForRollout env parent ns name img) 183"
proof -
  have ticks: "nat (rolloutTimeout div pollInterval) = 60"
    by (simp add: rolloutTimeout_def pollInterval_def minute_def second_def)
  show ?thesis unfolding waitForRollout_def ticks
    by (rule within_mono [OF within_at_time [OF within_poll]]) simp
qed

lemma within_last: "within (ignore m (Return ())) 1"
  using within_ignore [of "Return ()" 0 m] by simp

lemma within_fail: "within (failTask batch task msg) 2"
  unfolding failTask_def numeral_2_eq_2 by (intro within_ignore) simp

lemma within_record: "within (record_rollback env task cause) 2"
  unfolding record_rollback_def numeral_2_eq_2 by (intro within_check within_last [unfolded One_nat_def])

lemma within_if: "(b \<Longrightarrow> within p n) \<Longrightarrow> (\<not> b \<Longrightarrow> within q n) \<Longrightarrow> within (if b then p else q) n"
  by simp

lemma within_option:
  "within p n \<Longrightarrow> (\<And>y. within (f y) n) \<Longrightarrow> within (case x of None \<Rightarrow> p | Some y \<Rightarrow> f y) n"
  by (cases x) simp_all

lemma within_restore: "within (restore_image env task ns name cause deadline) (Suc (183 + 2))"
  unfolding restore_image_def
  by (intro within_if within_check within_pbind [OF within_wait] within_option within_record within_mono [OF within_last]) simp_all

lemma within_rollback: "within (rollbackTask env batch task ns name cause) 188"
proof -
  have "within (rollbackTask env batch task ns name cause) (Suc (Suc (Suc (183 + 2))))"
    unfolding rollbackTask_def by (intro within_check within_at_time within_restore) simp
  then show ?thesis by simp
qed

lemma within_apply: "within (apply_upgrade env deadline batch task session ns name) 374"
proof -
  have conf: "within (confirm_upgrade env batch task session ns name) (Suc 188)"
    unfolding confirm_upgrade_def
    by (intro within_check within_rollback within_mono [OF within_last]) simp
  have "within (apply_upgrade env deadline batch task session ns name) (Suc (Suc (183 + Suc 188)))"
    unfolding apply_upgrade_def
    by (intro within_check within_pbind [OF within_wait] within_option conf within_mono [OF within_rollback]) simp_all
  then show ?thesis by simp
qed

lemma runTask_within: "within (runTask env batch i) task_steps"
proof -
  have "within (run_loaded env deadline batch task session) 374" for deadline task session
    unfolding run_loaded_def
    by (auto simp: Let_def split: sum.splits intro: within_apply within_mono [OF within_fail] within_mono [OF within_rollback])
  then have "within (runTask env batch i) (Suc (Suc (Suc 374)))"
    unfolding runTask_def by (intro within_at_time within_check) (auto intro: within_mono [OF within_last])
  then show ?thesis by (simp add: task_steps_def)
qed

end
