(* ===== verification/UpgradeCalls.thy ===== *)
theory UpgradeCalls
  imports UpgradeSteps
begin

text \<open>
  What the handler calls of the upgrade API do to the tables: they keep the tables typed, leave
  the images alone and touch the task rows only as \<open>others\<close> allows, whatever fails and whatever
  happens between their statements (\<open>handlers_calm\<close>). Task goroutines keep the tables typed too.
\<close>

section \<open>Tables\<close>

definition task_statuses :: "string set" where
  "task_statuses = {UpgradeTaskPending, UpgradeTaskRunning, UpgradeTaskSucceeded, UpgradeTaskFailed,
     UpgradeTaskSkipped, UpgradeTaskRollingBack, UpgradeTaskRolledBack, UpgradeTaskRollbackFailed}"

definition batch_statuses :: "string set" where
  "batch_statuses = {UpgradeBatchRunning, UpgradeBatchPaused, UpgradeBatchCompleted, UpgradeBatchCancelled}"

definition batch_typed :: "upgrade_batch \<Rightarrow> bool" where
  "batch_typed b \<longleftrightarrow>
     ub_Status b \<in> batch_statuses \<and> ub_Concurrency b = 1 \<and> (ub_AdminID b = None \<longleftrightarrow> ub_UserID b \<noteq> None)"

definition typed :: "farm \<Rightarrow> bool" where
  "typed d \<longleftrightarrow>
     task_rows_ok d \<and> (\<forall>t \<in> set (t_upgrade_tasks d). ut_Status t \<in> task_statuses) \<and>
     distinct (map ub_ID (t_upgrade_batches d)) \<and>
     (\<forall>b \<in> set (t_upgrade_batches d). ub_ID b \<le> seq_upgrade_batches d \<and> batch_typed b)"

text \<open>What a handler call, a scheduler and the rest of the farm do: leave the started tasks and the images alone.\<close>

definition calm :: "farm \<Rightarrow> farm \<Rightarrow> bool" where
  "calm d d' \<longleftrightarrow> (\<forall>i. others i d d') \<and> (typed d \<longrightarrow> typed d') \<and> k_deployments d' = k_deployments d"

interpretation calls: table_order calm
  by unfold_locales (auto simp: calm_def intro: others_refl others_trans)

lemma typed_batches:
  assumes "typed d" "t_upgrade_tasks d' = t_upgrade_tasks d" "seq_upgrade_tasks d' = seq_upgrade_tasks d"
    "seq_upgrade_batches d' = seq_upgrade_batches d"
    "t_upgrade_batches d' = update_where P (\<lambda>b. b\<lparr>ub_Status := s\<rparr>) (t_upgrade_batches d)" "s \<in> batch_statuses"
  shows "typed d'"
  using assms unfolding typed_def task_rows_ok_def
  by (auto simp: map_update_where batch_typed_def)

lemma typed_same:
  assumes "typed d" "t_upgrade_tasks d' = t_upgrade_tasks d" "seq_upgrade_tasks d' = seq_upgrade_tasks d"
    "seq_upgrade_batches d' = seq_upgrade_batches d" "t_upgrade_batches d' = t_upgrade_batches d"
  shows "typed d'"
  using assms by (simp add: typed_def task_rows_ok_def)

lemma others_tables:
  "t_upgrade_tasks d' = t_upgrade_tasks d \<Longrightarrow> seq_upgrade_tasks d' = seq_upgrade_tasks d \<Longrightarrow> others i d d'"
  by (simp add: others_def task_rows_ok_def task_row_def)

lemma calm_batches:
  assumes "t_upgrade_tasks d' = t_upgrade_tasks d" "seq_upgrade_tasks d' = seq_upgrade_tasks d"
    "seq_upgrade_batches d' = seq_upgrade_batches d" "k_deployments d' = k_deployments d"
    "t_upgrade_batches d' = update_where P (\<lambda>b. b\<lparr>ub_Status := s\<rparr>) (t_upgrade_batches d)" "s \<in> batch_statuses"
  shows "calm d d'"
  using assms by (auto simp: calm_def intro: others_tables typed_batches)

lemma calm_cancel: "calm d (cancel_batches P d)"
  by (rule calm_batches [where P = "\<lambda>b. P (ub_ID b)"]) (simp_all add: cancel_batches_def, simp add: batch_statuses_def)

lemma calm_reopen: "calm d (reopen_batch i d)"
  by (rule calm_batches [where P = "\<lambda>b. ub_ID b = i"]) (simp_all add: reopen_batch_def, simp add: batch_statuses_def)

lemma calm_complete: "calm d (leave_running i UpgradeBatchCompleted d)"
  by (rule calm_batches [where P = "\<lambda>b. ub_ID b = i \<and> ub_Status b = UpgradeBatchRunning"])
     (simp_all add: leave_running_def, simp add: batch_statuses_def)

lemma row_skip_pending:
  "task_row i (skip_pending P msg d) =
     map_option (\<lambda>t. if P (ut_BatchID t) \<and> ut_Status t = UpgradeTaskPending
                     then t\<lparr>ut_Status := UpgradeTaskSkipped, ut_ErrorMsg := msg\<rparr> else t) (task_row i d)"
  unfolding task_row_def skip_pending_def by (simp add: find_update_where)

lemma calm_skip: "calm d (skip_pending P msg d)"
proof -
  have ids: "map ut_ID (t_upgrade_tasks (skip_pending P msg d)) = map ut_ID (t_upgrade_tasks d)"
    by (simp add: skip_pending_def map_update_where)
  have same: "seq_upgrade_tasks (skip_pending P msg d) = seq_upgrade_tasks d"
    "seq_upgrade_batches (skip_pending P msg d) = seq_upgrade_batches d"
    "t_upgrade_batches (skip_pending P msg d) = t_upgrade_batches d"
    "k_deployments (skip_pending P msg d) = k_deployments d"
    by (simp_all add: skip_pending_def)
  have rows: "task_rows_ok d \<Longrightarrow> task_rows_ok (skip_pending P msg d)"
    by (rule task_rows_ok_ids [OF ids]) (simp_all add: same)
  have "others i d (skip_pending P msg d)" for i
    using rows by (auto simp: others_def same row_skip_pending row_others_def same_task_def)
  moreover have "typed (skip_pending P msg d)" if "typed d"
    using that rows by (auto simp: typed_def same) (auto simp: skip_pending_def task_statuses_def)
  ultimately show ?thesis by (simp add: calm_def same)
qed

lemma calm_insert_batch:
  "(admin = None \<longleftrightarrow> owner \<noteq> None) \<Longrightarrow> calm d (snd (insert_upgrade_batch admin owner now d))"
  by (auto simp: calm_def insert_upgrade_batch_def Let_def typed_def task_rows_ok_def batch_typed_def
      batch_statuses_def le_Suc_eq intro!: others_tables)

lemma insert_tasks_rows:
  "set (t_upgrade_tasks (insert_upgrade_tasks b ts now d)) \<subseteq>
     set (t_upgrade_tasks d) \<union> {new_task b now i t |i t. seq_upgrade_tasks d < i \<and> i \<le> seq_upgrade_tasks d + length ts}"
proof -
  have "x \<in> {new_task b now i t |i t. seq_upgrade_tasks d < i \<and> i \<le> seq_upgrade_tasks d + length ts}"
    if "x \<in> set (map2 (new_task b now) [Suc (seq_upgrade_tasks d) ..< Suc (seq_upgrade_tasks d) + length ts] ts)" for x
  proof -
    from that obtain i t where "x = new_task b now i t"
      "(i, t) \<in> set (zip [Suc (seq_upgrade_tasks d) ..< Suc (seq_upgrade_tasks d) + length ts] ts)" by auto
    moreover from set_zip_leftD [OF this(2)] have "seq_upgrade_tasks d < i \<and> i \<le> seq_upgrade_tasks d + length ts"
      by (auto simp del: upt_Suc)
    ultimately show ?thesis by blast
  qed
  then show ?thesis by (auto simp: insert_upgrade_tasks_def simp del: upt_Suc set_map)
qed

lemma insert_tasks_ids:
  "map ut_ID (t_upgrade_tasks (insert_upgrade_tasks b ts now d)) =
     map ut_ID (t_upgrade_tasks d) @ [Suc (seq_upgrade_tasks d) ..< Suc (seq_upgrade_tasks d) + length ts]"
proof -
  have "map ut_ID (map2 (new_task b now) is ts) = is" if "length is = length ts" for "is"
    using that by (induction "is" ts rule: list_induct2) (auto simp: new_task_def)
  then show ?thesis by (simp add: insert_upgrade_tasks_def del: upt_Suc)
qed

lemma calm_insert_tasks: "calm d (insert_upgrade_tasks b ts now d)"
proof -
  let ?d = "insert_upgrade_tasks b ts now d"
  have same: "seq_upgrade_tasks ?d = seq_upgrade_tasks d + length ts" "seq_upgrade_batches ?d = seq_upgrade_batches d"
    "t_upgrade_batches ?d = t_upgrade_batches d" "k_deployments ?d = k_deployments d"
    by (simp_all add: insert_upgrade_tasks_def)
  have rows: "task_rows_ok ?d" if "task_rows_ok d"
    unfolding task_rows_ok_def insert_tasks_ids same
    using that insert_tasks_rows [of b ts now d] by (fastforce simp: task_rows_ok_def new_task_def simp del: upt_Suc)
  have old: "task_row i ?d = task_row i d" if "i \<le> seq_upgrade_tasks d" for i
  proof -
    have "find (\<lambda>t. ut_ID t = i) (map2 (new_task b now) [Suc (seq_upgrade_tasks d) ..< Suc (seq_upgrade_tasks d) + length ts] ts) = None"
      using that by (auto simp: find_None_iff in_set_zip new_task_def simp del: upt_Suc)
    then show ?thesis unfolding task_row_def insert_upgrade_tasks_def
      by (simp add: find_append del: upt_Suc split: option.splits)
  qed
  have "others i d ?d" for i
    using rows old by (auto simp: others_def same)
  moreover have "typed ?d" if "typed d"
    using that rows insert_tasks_rows [of b ts now d]
    by (fastforce simp: typed_def same new_task_def task_statuses_def)
  ultimately show ?thesis by (simp add: calm_def same)
qed

lemma calm_create: "(admin = None \<longleftrightarrow> owner \<noteq> None) \<Longrightarrow> stepping calm (create_batch admin owner ts)"
  unfolding create_batch_def
  by (intro calls.stepping_rules) (simp_all add: calm_insert_batch calm_insert_tasks)

lemma calm_supersede: "stepping calm (supersede u s)"
  unfolding supersede_def by (intro calls.stepping_rules calm_cancel calm_skip)

section \<open>Handler calls\<close>

lemma calm_resolve_sessions: "always calm (resolve_sessions req ss ts sk)"
  by (induction ss arbitrary: ts sk)
     (auto intro!: always_check calls.stepping_basic simp: split_def Let_def)

lemma calm_resolveTargets: "always calm (resolveTargets req)"
  unfolding resolveTargets_def
  by (auto intro!: always_check calls.stepping_basic calm_resolve_sessions simp: split_def Let_def)

lemma handlers_calm: "always calm (handler_of env r)"
proof (cases r)
  case (AskCreate tags adminID req)
  then show ?thesis
    by (auto simp: CreateUpgrade_def refused_def split: option.splits sum.splits prod.splits
        intro!: always_pbind calm_resolveTargets always_check calm_create)
next
  case (AskCreateForSession tags userID name cis)
  then show ?thesis
    by (auto simp: CreateForSession_def refused_def split: option.splits
        intro!: always_check calls.stepping_basic calm_create calm_supersede)
next
  case (AskCancel i)
  then show ?thesis
    by (auto simp: CancelUpgrade_def refused_def
        intro!: always_check calls.stepping_rules calm_cancel calm_skip)
next
  case (AskResume i)
  then show ?thesis
    by (auto simp: ResumeUpgrade_def refused_def intro!: always_check calls.stepping_rules calm_reopen)
next
  case Boot
  then show ?thesis
    by (auto simp: RunnerResume_def refused_def intro!: always_check calls.stepping_basic)
qed

lemma guar_typed:
  assumes g: "guar i d d'" and ty: "typed d"
  shows "typed d'"
proof -
  from ty have ok: "task_rows_ok d" by (simp add: typed_def)
  have ok': "task_rows_ok d'" by (rule guar_rows_ok [OF g ok])
  from g ok have ids: "map ut_ID (t_upgrade_tasks d') = map ut_ID (t_upgrade_tasks d)"
    and other: "\<And>j. j \<noteq> i \<Longrightarrow> task_row j d' = task_row j d"
    and own: "\<And>t. task_row i d = Some t \<Longrightarrow> \<exists>t'. task_row i d' = Some t' \<and> same_task t t' \<and> task_edge (ut_Status t) (ut_Status t')"
    by (auto simp: guar_def)
  have batches: "distinct (map ub_ID (t_upgrade_batches d')) \<and>
     (\<forall>b \<in> set (t_upgrade_batches d'). ub_ID b \<le> seq_upgrade_batches d' \<and> batch_typed b)"
  proof -
    from g ok have seq: "seq_upgrade_batches d' = seq_upgrade_batches d"
      and "t_upgrade_batches d' = t_upgrade_batches d \<or>
        (\<exists>b. t_upgrade_batches d' = t_upgrade_batches (leave_running b UpgradeBatchPaused d))" by (auto simp: guar_def)
    then show ?thesis
    proof (elim disjE exE)
      assume "t_upgrade_batches d' = t_upgrade_batches d"
      with ty seq show ?thesis by (simp add: typed_def)
    next
      fix b assume b: "t_upgrade_batches d' = t_upgrade_batches (leave_running b UpgradeBatchPaused d)"
      have "typed (leave_running b UpgradeBatchPaused d)"
        by (rule typed_batches [OF ty, where P = "\<lambda>x. ub_ID x = b \<and> ub_Status x = UpgradeBatchRunning" and s = UpgradeBatchPaused])
           (simp_all add: leave_running_def, simp add: batch_statuses_def)
      with b seq show ?thesis by (simp add: typed_def rows_simps)
    qed
  qed
  have "ut_Status t' \<in> task_statuses" if t': "t' \<in> set (t_upgrade_tasks d')" for t'
  proof -
    have row: "task_row (ut_ID t') d' = Some t'" by (rule task_row_of [OF ok' t'])
    show ?thesis
    proof (cases "ut_ID t' = i")
      case False
      with row other have "task_row (ut_ID t') d = Some t'" by simp
      then show ?thesis using ty task_row_in by (auto simp: typed_def)
    next
      case True
      with row row_None_ids [OF ids, of i] obtain t where t: "task_row i d = Some t" by auto
      with own row True have "task_edge (ut_Status t) (ut_Status t')" by auto
      moreover have "ut_Status t \<in> task_statuses" using t ty task_row_in by (auto simp: typed_def)
      ultimately show ?thesis by (auto simp: task_edge_def task_edges_def task_statuses_def)
    qed
  qed
  with batches show ?thesis using ok' by (simp add: typed_def)
qed

end
