(* ===== verification/UpgradeMachine.thy ===== *)
theory UpgradeMachine
  imports UpgradeCalls
begin

text \<open>
  The upgrade runner as a whole: one API process, any interleaving of schedulers, task
  goroutines, handler calls, the rest of the farm and crashes. \<open>machine_ok\<close> is the invariant of
  every reachable state (\<open>machine_reachable_ok\<close>), \<open>mstep_effect\<close> what one step does to the tables.
\<close>

section \<open>Schedulers\<close>

fun pc_batch :: "sched_pc \<Rightarrow> upgrade_batch option" where
  "pc_batch (List_tasks b) = Some b"
| "pc_batch (Dispatch b ts) = Some b"
| "pc_batch (Acquired b t ts) = Some b"
| "pc_batch pc = None"

fun pc_tasks :: "sched_pc \<Rightarrow> upgrade_task list" where
  "pc_tasks (Dispatch b ts) = ts"
| "pc_tasks (Acquired b t ts) = t # ts"
| "pc_tasks pc = []"

text \<open>Slots of the semaphore in use: the task goroutines, and the slot just acquired.\<close>

definition slots :: "sched \<Rightarrow> nat" where
  "slots s = length (sc_flights s) + (case sc_pc s of Acquired b t ts \<Rightarrow> 1 | _ \<Rightarrow> 0)"

definition sched_ids :: "sched \<Rightarrow> nat list" where
  "sched_ids s = map fst (sc_flights s) @ map ut_ID (pc_tasks (sc_pc s))"

definition waiting_ok :: "farm \<Rightarrow> upgrade_task \<Rightarrow> bool" where
  "waiting_ok d t \<longleftrightarrow> row_at (ut_ID t) t (since_load t) d \<and> unfinished (ut_Status t)"

definition sched_ok :: "farm \<Rightarrow> sched \<Rightarrow> bool" where
  "sched_ok d s \<longleftrightarrow>
     distinct (sched_ids s) \<and>
     (\<forall>i \<in> set (sched_ids s). i \<le> seq_upgrade_tasks d \<and>
        (\<forall>t. task_row i d = Some t \<longrightarrow> ut_BatchID t = sc_batch s)) \<and>
     (\<forall>t \<in> set (pc_tasks (sc_pc s)). waiting_ok d t) \<and>
     (\<forall>(i, p) \<in> set (sc_flights s). flies i p d \<and> within p task_steps) \<and>
     (\<forall>b. pc_batch (sc_pc s) = Some b \<longrightarrow> ub_ID b = sc_batch s \<and> ub_Concurrency b = 1 \<and> slots s \<le> concurrency b) \<and>
     (case sc_pc s of Dispatch _ _ \<Rightarrow> True | Acquired _ _ _ \<Rightarrow> True | _ \<Rightarrow> sc_flights s = [])"

lemma waiting_others: "waiting_ok d t \<Longrightarrow> others (ut_ID t) d d' \<Longrightarrow> waiting_ok d' t"
  unfolding waiting_ok_def using row_at_others [of "ut_ID t" t "since_load t" d d'] by (simp add: since_load_def)

lemma sched_ok_others:
  assumes ok: "sched_ok d s" and rows: "task_rows_ok d" and oth: "\<And>i. i \<in> set (sched_ids s) \<Longrightarrow> others i d d'"
  shows "sched_ok d' s"
proof -
  have ids: "i \<le> seq_upgrade_tasks d' \<and> (\<forall>t. task_row i d' = Some t \<longrightarrow> ut_BatchID t = sc_batch s)"
    if i: "i \<in> set (sched_ids s)" for i
  proof -
    from ok i have "i \<le> seq_upgrade_tasks d" "\<And>t. task_row i d = Some t \<Longrightarrow> ut_BatchID t = sc_batch s"
      by (auto simp: sched_ok_def)
    with oth [OF i] rows show ?thesis by (auto simp: others_def row_others_def same_task_def)
  qed
  have "waiting_ok d' t" if "t \<in> set (pc_tasks (sc_pc s))" for t
    using that ok oth by (auto simp: sched_ok_def sched_ids_def intro: waiting_others)
  moreover have "flies i p d' \<and> within p task_steps" if "(i, p) \<in> set (sc_flights s)" for i p
  proof -
    from that ok have p: "flies i p d" "within p task_steps" by (auto simp: sched_ok_def)
    from that have "i \<in> set (sched_ids s)" by (force simp: sched_ids_def)
    from flight.rg_others [OF p(1) oth [OF this]] p(2) show ?thesis by simp
  qed
  ultimately show ?thesis using ok ids by (auto simp: sched_ok_def)
qed

lemma select_run: "select f w = (r, w') \<Longrightarrow> tabs w' = tabs w \<and> (\<forall>x. r = Inr x \<longrightarrow> x = f (tabs w))"
  by (auto simp: select_def interact_def split: if_splits)

lemma first_run: "first f w = (r, w') \<Longrightarrow> tabs w' = tabs w \<and> (\<forall>x. r = Inr x \<longrightarrow> f (tabs w) = Some x)"
  by (auto simp: first_def bnd_def select_def interact_def throw_def ret_def split: if_splits option.splits)

lemma set_snapshot:
  "set (snapshot b d) = {t \<in> set (t_upgrade_tasks d). ut_BatchID t = b \<and> unfinished (ut_Status t)}"
  by (auto simp: snapshot_def Let_def task_rank_def)

lemma distinct_snapshot: "task_rows_ok d \<Longrightarrow> distinct (map ut_ID (snapshot b d))"
proof -
  assume ok: "task_rows_ok d"
  define rows where "rows = sort_key ut_ID (filter (\<lambda>t. ut_BatchID t = b \<and> unfinished (ut_Status t)) (t_upgrade_tasks d))"
  from ok have "distinct (t_upgrade_tasks d)" "inj_on ut_ID (set (t_upgrade_tasks d))"
    by (auto simp: task_rows_ok_def distinct_map)
  then have inj: "inj_on ut_ID (set rows)" and rows: "distinct rows"
    by (auto simp: rows_def intro: inj_on_subset)
  have "distinct (filter (\<lambda>t. task_rank t = 0) rows @ filter (\<lambda>t. task_rank t = 1) rows @ filter (\<lambda>t. task_rank t = 2) rows)"
    using rows by auto
  moreover have "inj_on ut_ID (set (filter (\<lambda>t. task_rank t = 0) rows @ filter (\<lambda>t. task_rank t = 1) rows @ filter (\<lambda>t. task_rank t = 2) rows))"
    by (rule inj_on_subset [OF inj]) auto
  ultimately show ?thesis unfolding snapshot_def Let_def rows_def [symmetric] by (simp only: distinct_map)
qed

lemma waiting_snapshot: "task_rows_ok d \<Longrightarrow> t \<in> set (snapshot b d) \<Longrightarrow> waiting_ok d t"
  unfolding waiting_ok_def row_at_def
  using task_row_of [of d t]
  by (auto simp: set_snapshot task_rows_ok_def since_load_def)

text \<open>One step of a scheduler goroutine keeps its invariant and is calm.\<close>

lemma sched_step_ok:
  assumes step: "sched_step env s w = Some (s', w')" and ok: "sched_ok (tabs w) s" and ty: "typed (tabs w)"
  shows "calm (tabs w) (tabs w') \<and> (\<forall>s1. s' = Some s1 \<longrightarrow> sc_batch s1 = sc_batch s \<and> sched_ok (tabs w') s1)"
proof (cases "sc_pc s")
  case Load
  obtain r w1 where run: "first (batch_row (sc_batch s)) w = (r, w1)" by (cases "first (batch_row (sc_batch s)) w")
  have idle: "sc_flights s = []" using ok Load by (simp add: sched_ok_def)
  show ?thesis
  proof (cases r)
    case (Inl e)
    with step Load run first_run [OF run] show ?thesis
      by (simp add: sched_step.simps finish_def) (auto intro: calls.le_refl)
  next
    case (Inr b)
    with first_run [OF run] have same: "tabs w1 = tabs w" and b: "batch_row (sc_batch s) (tabs w) = Some b" by auto
    then have "b \<in> set (t_upgrade_batches (tabs w))" "ub_ID b = sc_batch s" by (auto simp: batch_row_def dest: find_SomeD)
    with ty have "ub_ID b = sc_batch s \<and> ub_Concurrency b = 1" by (auto simp: typed_def batch_typed_def)
    with step Load run Inr same idle show ?thesis
      by (simp add: sched_step.simps) (auto simp: sched_ok_def sched_ids_def slots_def intro: calls.le_refl)
  qed
next
  case (List_tasks b)
  obtain r w1 where run: "select (snapshot (sc_batch s)) w = (r, w1)" by (cases "select (snapshot (sc_batch s)) w")
  have idle: "sc_flights s = []" and b: "ub_ID b = sc_batch s \<and> ub_Concurrency b = 1"
    using ok List_tasks by (auto simp: sched_ok_def)
  show ?thesis
  proof (cases r)
    case (Inl e)
    with step List_tasks run select_run [OF run] show ?thesis
      by (simp add: sched_step.simps finish_def) (auto intro: calls.le_refl)
  next
    case (Inr ts)
    with select_run [OF run] have same: "tabs w1 = tabs w" and ts: "ts = snapshot (sc_batch s) (tabs w)" by auto
    from ty have rows: "task_rows_ok (tabs w)" by (simp add: typed_def)
    have "ut_ID x \<le> seq_upgrade_tasks (tabs w)" "task_row (ut_ID x) (tabs w) = Some t \<Longrightarrow> ut_BatchID t = sc_batch s"
      if "x \<in> set (snapshot (sc_batch s) (tabs w))" for x t
      using that rows task_row_of [OF rows] by (auto simp: set_snapshot task_rows_ok_def)
    with step List_tasks run Inr same idle b distinct_snapshot [OF rows] waiting_snapshot [OF rows] show ?thesis
      by (simp add: sched_step.simps) (auto simp: sched_ok_def sched_ids_def slots_def ts intro: calls.le_refl)
  qed
next
  case (Dispatch b ts)
  then show ?thesis
  proof (cases ts)
    case Nil
    with step Dispatch ok show ?thesis
      by (auto simp: sched_step.simps sched_ok_def sched_ids_def intro: calls.le_refl split: if_splits)
  next
    case (Cons t rest)
    let ?s = "s\<lparr>sc_pc := Acquired b t rest\<rparr>"
    from step Dispatch Cons have "w' = w" "s' = Some ?s" "length (sc_flights s) < concurrency b"
      by (auto simp: sched_step.simps split: if_splits)
    moreover have "sched_ids ?s = sched_ids s" by (simp add: sched_ids_def Dispatch Cons)
    ultimately show ?thesis using ok Dispatch Cons by (simp add: calls.le_refl sched_ok_def slots_def)
  qed
next
  case (Acquired b t rest)
  let ?spawn = "s\<lparr>sc_pc := Dispatch b rest, sc_flights := sc_flights s @ [(ut_ID t, runTask env b (ut_ID t))]\<rparr>"
  let ?release = "s\<lparr>sc_pc := Dispatch b rest\<rparr>"
  from ok Acquired have wait: "waiting_ok (tabs w) t" by (simp add: sched_ok_def)
  have "startable (ut_Status x)" if "task_row (ut_ID t) (tabs w) = Some x" for x
    using wait that by (auto simp: waiting_ok_def row_at_def since_load_def startable_def unfinished_def split: if_splits)
  with wait have "flies (ut_ID t) (runTask env b (ut_ID t)) (tabs w)"
    by (intro runTask_guar) (auto simp: waiting_ok_def row_at_def)
  with ok Acquired have both: "sched_ok (tabs w) ?spawn" "sched_ok (tabs w) ?release"
    by (auto simp: sched_ok_def sched_ids_def slots_def runTask_within)
  show ?thesis
  proof (cases "ut_Status t = UpgradeTaskPending")
    case False
    with step Acquired have "w' = w" "s' = Some ?spawn" by (simp_all add: sched_step.simps Let_def)
    with both show ?thesis by (simp add: calls.le_refl)
  next
    case True
    obtain r w1 where run: "batchStatus (sc_batch s) w = (r, w1)" by (cases "batchStatus (sc_batch s) w")
    with True step Acquired have "w' = w1" "s' = Some ?release \<or> s' = Some ?spawn"
      by (auto simp: sched_step.simps Let_def split: sum.splits)
    with both select_run [OF run [unfolded batchStatus_def]] show ?thesis by (auto simp: calls.le_refl)
  qed
next
  case Count_rest
  obtain r w1 where run: "select (remaining (sc_batch s)) w = (r, w1)"
    by (cases "select (remaining (sc_batch s)) w")
  with step Count_rest have "w' = w1" "s' = None \<or> s' = Some (s\<lparr>sc_pc := Complete\<rparr>)"
    by (auto simp: sched_step.simps finish_def split: sum.splits if_splits)
  with ok Count_rest select_run [OF run] show ?thesis
    by (auto simp: sched_ok_def sched_ids_def calls.le_refl)
next
  case Complete
  with step have "s' = None" "w' = snd (exec (leave_running (sc_batch s) UpgradeBatchCompleted) w)"
    by (auto simp: sched_step.simps finish_def)
  then show ?thesis by (simp add: exec_def interact_def calls.le_refl calm_complete)
qed

section \<open>The machine\<close>

definition machine_ok :: "machine \<Rightarrow> bool" where
  "machine_ok m \<longleftrightarrow>
     typed (tabs (m_world m)) \<and>
     distinct (map sc_batch (m_scheds m)) \<and> set (m_active m) = sc_batch ` set (m_scheds m) \<and>
     (\<forall>s \<in> set (m_scheds m). sched_ok (tabs (m_world m)) s) \<and>
     (\<forall>p \<in> set (m_calls m). always calm p)"

lemma sched_ok_calm: "sched_ok d s \<Longrightarrow> typed d \<Longrightarrow> calm d d' \<Longrightarrow> sched_ok d' s"
  by (rule sched_ok_others) (auto simp: typed_def calm_def)

lemma fresh_ok: "fresh m \<Longrightarrow> machine_ok m"
  by (simp add: fresh_def machine_ok_def typed_def task_rows_ok_def)

lemma set_remove_nth: "set (take k xs @ drop (Suc k) xs) \<subseteq> set xs"
  by (auto dest: in_set_takeD in_set_dropD)

lemma subseq_set: "subseq xs ys \<Longrightarrow> set xs \<subseteq> set ys"
  by (induction rule: list_emb.induct) auto

lemma subseq_distinct: "subseq xs ys \<Longrightarrow> distinct ys \<Longrightarrow> distinct xs"
  by (induction rule: list_emb.induct) (auto dest: subseq_set)

lemma others_subseq:
  assumes "others_ok d d'"
  shows "\<forall>i. others i d d'" and "typed d \<Longrightarrow> typed d'"
proof -
  from assms have sub: "subseq (t_upgrade_tasks d') (t_upgrade_tasks d)" "subseq (t_upgrade_batches d') (t_upgrade_batches d)"
    and seq: "seq_upgrade_tasks d' = seq_upgrade_tasks d" "seq_upgrade_batches d' = seq_upgrade_batches d"
    by (auto simp: others_ok_def subseqs_powset)
  have sets: "set (t_upgrade_tasks d') \<subseteq> set (t_upgrade_tasks d)" "set (t_upgrade_batches d') \<subseteq> set (t_upgrade_batches d)"
    using sub by (auto dest: subseq_set)
  have rows: "task_rows_ok d'" if "task_rows_ok d"
    using that sets seq subseq_map [OF sub(1), of ut_ID] by (auto simp: task_rows_ok_def dest: subseq_distinct)
  have "row_others (task_row i d) (task_row i d')" if ok: "task_rows_ok d" for i
  proof (cases "task_row i d'")
    case (Some t)
    then have "t \<in> set (t_upgrade_tasks d)" "ut_ID t = i" using sets task_row_in task_row_id by blast+
    with task_row_of [OF ok] Some show ?thesis by auto
  qed simp
  with rows seq show "\<forall>i. others i d d'" by (simp add: others_def)
  show "typed d'" if "typed d"
    using that rows sets seq subseq_map [OF sub(2), of ub_ID] by (auto simp: typed_def dest: subseq_distinct)
qed

lemma Start_world [simp]: "m_world (Start b m) = m_world m" "m_calls (Start b m) = m_calls m"
  by (simp_all add: Start_def)

lemma Start_ok: "machine_ok m \<Longrightarrow> machine_ok (Start b m)"
  by (auto simp: machine_ok_def Start_def sched_ok_def sched_ids_def)

lemma fold_Start_ok: "machine_ok m \<Longrightarrow> machine_ok (fold Start bs m)"
  by (induction bs arbitrary: m) (auto intro: Start_ok)

lemma distinct_nth: "distinct (map k xs) \<Longrightarrow> i < length xs \<Longrightarrow> j < length xs \<Longrightarrow> k (xs ! i) = k (xs ! j) \<Longrightarrow> i = j"
  by (metis length_map nth_eq_iff_index_eq nth_map)

text \<open>A task goroutine's row is nobody else's, or it is gone.\<close>

lemma flight_alone:
  assumes ok: "machine_ok m" and k: "k < length (m_scheds m)" and n: "n < length (m_scheds m)"
    and i: "i \<in> fst ` set (sc_flights (m_scheds m ! k))" and j: "j \<in> set (sched_ids (m_scheds m ! n))" and ne: "n \<noteq> k"
  shows "j \<noteq> i \<or> task_row i (tabs (m_world m)) = None"
proof (rule ccontr)
  assume "\<not> ?thesis"
  then obtain t where ji: "j = i" and t: "task_row i (tabs (m_world m)) = Some t" by auto
  have "sched_ok (tabs (m_world m)) (m_scheds m ! k)" "sched_ok (tabs (m_world m)) (m_scheds m ! n)"
    using ok k n by (auto simp: machine_ok_def)
  moreover have "i \<in> set (sched_ids (m_scheds m ! k))" using i by (auto simp: sched_ids_def)
  ultimately have "ut_BatchID t = sc_batch (m_scheds m ! k)" "ut_BatchID t = sc_batch (m_scheds m ! n)"
    using t j ji by (auto simp: sched_ok_def)
  then have "n = k" using ok distinct_nth [of sc_batch "m_scheds m" n k] n k by (auto simp: machine_ok_def)
  with ne show False ..
qed

lemma in_remove_nth: "x \<in> set (take k xs @ drop (Suc k) xs) \<Longrightarrow> x \<in> set xs"
  by (rule subsetD [OF set_remove_nth])

lemma set_remove_flight: "sched_ok d s \<Longrightarrow> sched_ok d (s\<lparr>sc_flights := take j (sc_flights s) @ drop (Suc j) (sc_flights s)\<rparr>)"
proof -
  assume ok: "sched_ok d s"
  define f where "f = take j (sc_flights s) @ drop (Suc j) (sc_flights s)"
  have sub: "subseq f (sc_flights s)" unfolding f_def
    using list_emb_append_mono [OF subseq_order.order_refl suffix_imp_subseq [OF suffix_drop [of 1 "drop j (sc_flights s)"]],
      of "take j (sc_flights s)"] by (simp add: drop_drop)
  have len: "length f \<le> length (sc_flights s)" by (simp add: f_def)
  let ?s = "s\<lparr>sc_flights := f\<rparr>"
  from ok have old: "distinct (sched_ids s)"
      "\<forall>i \<in> set (sched_ids s). i \<le> seq_upgrade_tasks d \<and> (\<forall>t. task_row i d = Some t \<longrightarrow> ut_BatchID t = sc_batch s)"
      "\<forall>t \<in> set (pc_tasks (sc_pc s)). waiting_ok d t" "\<forall>x \<in> set (sc_flights s). case x of (i, p) \<Rightarrow> flies i p d \<and> within p task_steps"
      "\<forall>b. pc_batch (sc_pc s) = Some b \<longrightarrow> ub_ID b = sc_batch s \<and> ub_Concurrency b = 1 \<and> slots s \<le> concurrency b"
      "case sc_pc s of Dispatch _ _ \<Rightarrow> True | Acquired _ _ _ \<Rightarrow> True | _ \<Rightarrow> sc_flights s = []"
    by (simp_all add: sched_ok_def)
  have "subseq (sched_ids ?s) (sched_ids s)"
    using list_emb_append_mono [OF subseq_map [OF sub, of fst] subseq_order.order_refl] by (simp add: sched_ids_def)
  then have "distinct (sched_ids ?s)" "set (sched_ids ?s) \<subseteq> set (sched_ids s)"
    using old(1) by (auto dest: subseq_distinct subseq_set)
  moreover from this(2) have rows: "\<forall>i \<in> set (sched_ids ?s). i \<le> seq_upgrade_tasks d \<and> (\<forall>t. task_row i d = Some t \<longrightarrow> ut_BatchID t = sc_batch s)"
    using old(2) by blast
  moreover have "\<forall>x \<in> set f. case x of (i, p) \<Rightarrow> flies i p d \<and> within p task_steps" using old(4) subseq_set [OF sub] by blast
  moreover have "slots ?s \<le> slots s" using len by (simp add: slots_def)
  then have "\<forall>b. pc_batch (sc_pc s) = Some b \<longrightarrow> ub_ID b = sc_batch s \<and> ub_Concurrency b = 1 \<and> slots ?s \<le> concurrency b"
    using old(5) by (meson order_trans)
  moreover have "case sc_pc s of Dispatch _ _ \<Rightarrow> True | Acquired _ _ _ \<Rightarrow> True | _ \<Rightarrow> sc_flights ?s = []"
    using old(6) len by (simp split: sched_pc.splits)
  ultimately have "sched_ok d ?s" using old(3) rows by (simp add: sched_ok_def)
  then show ?thesis by (simp add: f_def)
qed

lemma map_same_update:
  "k < length xs \<Longrightarrow> f y = f (xs ! k) \<Longrightarrow> map f (xs[k := y]) = map f xs"
  by (simp add: map_update) (metis length_map list_update_id nth_map)

lemma map_eq_set: "map f xs = map f ys \<Longrightarrow> f ` set xs = f ` set ys"
  by (metis list.set_map)

lemma flight_own:
  assumes ok: "sched_ok d s" and rows: "task_rows_ok d" and j: "j < length (sc_flights s)"
    and i: "fst (sc_flights s ! j) = i" and g: "guar i d d'" and p: "flies i p d'" "within p task_steps"
  shows "sched_ok d' (s\<lparr>sc_flights := (sc_flights s)[j := (i, p)]\<rparr>)"
proof -
  let ?s = "s\<lparr>sc_flights := (sc_flights s)[j := (i, p)]\<rparr>"
  have same: "map fst ((sc_flights s)[j := (i, p)]) = map fst (sc_flights s)"
    by (rule map_same_update [OF j]) (simp add: i)
  then have ids: "sched_ids ?s = sched_ids s" by (simp add: sched_ids_def)
  have oth: "others x d d'" if "x \<noteq> i" for x by (rule guar_others [OF g]) (simp add: that)
  have dist: "distinct (map fst (sc_flights s) @ map ut_ID (pc_tasks (sc_pc s)))" using ok by (simp add: sched_ok_def sched_ids_def)
  have mem: "i \<in> set (map fst (sc_flights s))" using j i by (metis length_map nth_map nth_mem)
  have "x \<le> seq_upgrade_tasks d' \<and> (\<forall>t. task_row x d' = Some t \<longrightarrow> ut_BatchID t = sc_batch s)"
    if x: "x \<in> set (sched_ids s)" for x
  proof -
    from ok x have old: "x \<le> seq_upgrade_tasks d" "\<And>t. task_row x d = Some t \<Longrightarrow> ut_BatchID t = sc_batch s"
      by (auto simp: sched_ok_def)
    show ?thesis
    proof (cases "x = i")
      case True
      from g rows have seq: "seq_upgrade_tasks d' = seq_upgrade_tasks d"
        and idm: "map ut_ID (t_upgrade_tasks d') = map ut_ID (t_upgrade_tasks d)"
        and row: "\<And>t. task_row i d = Some t \<Longrightarrow> \<exists>t'. task_row i d' = Some t' \<and> same_task t t'" by (auto simp: guar_def)
      have "ut_BatchID t' = sc_batch s" if "task_row i d' = Some t'" for t'
        using that row_None_ids [OF idm, of i] row old(2) True by (fastforce simp: same_task_def)
      with True old(1) seq show ?thesis by simp
    next
      case False
      then have "others x d d'" by (rule oth)
      with rows old show ?thesis by (auto simp: others_def row_others_def same_task_def)
    qed
  qed
  moreover have "waiting_ok d' t" if t: "t \<in> set (pc_tasks (sc_pc s))" for t
  proof -
    from dist mem t have "ut_ID t \<noteq> i" by auto
    with ok t oth show ?thesis by (auto simp: sched_ok_def intro: waiting_others)
  qed
  moreover have "flies x q d' \<and> within q task_steps" if "(x, q) \<in> set ((sc_flights s)[j := (i, p)])" for x q
  proof -
    from that obtain n where n: "n < length (sc_flights s)" "(sc_flights s)[j := (i, p)] ! n = (x, q)"
      by (auto simp: in_set_conv_nth)
    show ?thesis
    proof (cases "n = j")
      case True
      with n p j show ?thesis by simp
    next
      case False
      with n have nth: "sc_flights s ! n = (x, q)" by simp
      from dist have "distinct (map fst (sc_flights s))" by simp
      from distinct_nth [OF this n(1) j] False nth i have "x \<noteq> i" by auto
      moreover from nth n(1) have "(x, q) \<in> set (sc_flights s)" by (metis nth_mem)
      with ok have "flies x q d \<and> within q task_steps" by (auto simp: sched_ok_def)
      ultimately show ?thesis using oth by (blast intro: flight.rg_others)
    qed
  qed
  ultimately show ?thesis using ok ids
    by (auto simp: sched_ok_def slots_def split: sched_pc.splits)
qed

lemma flight_step:
  assumes ok: "machine_ok m" and k: "k < length (m_scheds m)" and j: "j < length (sc_flights (m_scheds m ! k))"
    and pe: "sc_flights (m_scheds m ! k) ! j = (i, Act p e)"
  shows "guar i (tabs (m_world m)) (tabs (e (m_world m)))" "flies i (p (m_world m)) (tabs (e (m_world m)))" "within (p (m_world m)) task_steps"
proof -
  have "sched_ok (tabs (m_world m)) (m_scheds m ! k)" using ok k by (auto simp: machine_ok_def)
  moreover have "(i, Act p e) \<in> set (sc_flights (m_scheds m ! k))" using pe j by (metis nth_mem)
  ultimately have fl: "flies i (Act p e) (tabs (m_world m))" and len: "within (Act p e) task_steps" by (auto simp: sched_ok_def)
  from len have "within (p (m_world m)) (task_steps - 1)" by simp
  then show "within (p (m_world m)) task_steps" by (rule within_mono) simp
  from flight.rg_now [OF fl]
  show "guar i (tabs (m_world m)) (tabs (e (m_world m)))" "flies i (p (m_world m)) (tabs (e (m_world m)))" by auto
qed

lemma mstep_ok: "machine_ok m \<Longrightarrow> mstep env a m = Some m' \<Longrightarrow> machine_ok m'"
proof (cases a)
  case (Sched k)
  assume ok: "machine_ok m" and step: "mstep env a m = Some m'"
  from step Sched have k: "k < length (m_scheds m)" by (auto split: if_splits)
  let ?s = "m_scheds m ! k"
  from step Sched k obtain s' w where run: "sched_step env ?s (m_world m) = Some (s', w)"
    by (auto split: option.splits prod.splits)
  from ok k have s: "sched_ok (tabs (m_world m)) ?s" and ty: "typed (tabs (m_world m))" by (auto simp: machine_ok_def)
  note res = sched_step_ok [OF run s ty]
  then have calm: "calm (tabs (m_world m)) (tabs w)" by simp
  with ty have ty': "typed (tabs w)" by (simp add: calm_def)
  have all: "sched_ok (tabs w) x" if "x \<in> set (m_scheds m)" for x
    using ok that ty calm by (auto simp: machine_ok_def intro: sched_ok_calm)
  show ?thesis
  proof (cases s')
    case (Some s1)
    with run step Sched k have m': "m' = m\<lparr>m_world := w, m_scheds := (m_scheds m)[k := s1]\<rparr>" by simp
    from res Some have s1: "sc_batch s1 = sc_batch ?s" "sched_ok (tabs w) s1" by auto
    have map: "map sc_batch ((m_scheds m)[k := s1]) = map sc_batch (m_scheds m)"
      by (rule map_same_update [OF k s1(1)])
    have "\<forall>x \<in> set ((m_scheds m)[k := s1]). sched_ok (tabs w) x"
      using s1(2) all set_update_subset_insert [of "m_scheds m" k s1] by auto
    with ok m' map map_eq_set [OF map] ty' show ?thesis by (simp add: machine_ok_def)
  next
    case None
    let ?l = "take k (m_scheds m) @ drop (Suc k) (m_scheds m)"
    from None run step Sched k have m': "m' = m\<lparr>m_world := w, m_active := filter (\<lambda>b. b \<noteq> sc_batch ?s) (m_active m), m_scheds := ?l\<rparr>"
      by simp
    have split: "m_scheds m = take k (m_scheds m) @ ?s # drop (Suc k) (m_scheds m)" using k by (simp add: id_take_nth_drop)
    from ok have "distinct (map sc_batch (m_scheds m))" by (simp add: machine_ok_def)
    then have "distinct (map sc_batch (take k (m_scheds m) @ ?s # drop (Suc k) (m_scheds m)))" using split by simp
    then have dist: "distinct (map sc_batch ?l)" "sc_batch ?s \<notin> sc_batch ` set ?l" by auto
    have "set (m_scheds m) = insert ?s (set ?l)" by (subst split) auto
    with ok dist(2) have "set (filter (\<lambda>b. b \<noteq> sc_batch ?s) (m_active m)) = sc_batch ` set ?l"
      by (auto simp: machine_ok_def) (metis UnI1 UnI2 imageI)+
    moreover have "\<forall>x \<in> set ?l. sched_ok (tabs w) x" using all in_remove_nth [of _ k "m_scheds m"] by blast
    ultimately show ?thesis using ok m' dist(1) ty' by (simp add: machine_ok_def del: set_append map_append)
  qed
next
  case (Flight k j)
  assume ok: "machine_ok m" and step: "mstep env a m = Some m'"
  from step Flight have k: "k < length (m_scheds m)" and j: "j < length (sc_flights (m_scheds m ! k))" by (auto split: if_splits)
  let ?s = "m_scheds m ! k"
  from ok k have s: "sched_ok (tabs (m_world m)) ?s" and ty: "typed (tabs (m_world m))" by (auto simp: machine_ok_def)
  obtain i q where q: "sc_flights ?s ! j = (i, q)" by (cases "sc_flights ?s ! j")
  show ?thesis
  proof (cases q)
    case (Return x)
    let ?s1 = "?s\<lparr>sc_flights := take j (sc_flights ?s) @ drop (Suc j) (sc_flights ?s)\<rparr>"
    from Return q step Flight k j have m': "m' = m\<lparr>m_scheds := (m_scheds m)[k := ?s1]\<rparr>" by (simp add: Let_def)
    have map: "map sc_batch ((m_scheds m)[k := ?s1]) = map sc_batch (m_scheds m)"
      by (rule map_same_update [OF k]) simp
    have "\<forall>x \<in> set ((m_scheds m)[k := ?s1]). sched_ok (tabs (m_world m)) x"
      using set_remove_flight [OF s] ok set_update_subset_insert [of "m_scheds m" k ?s1] by (auto simp: machine_ok_def)
    with ok m' map map_eq_set [OF map] show ?thesis by (simp add: machine_ok_def)
  next
    case (Act p e)
    let ?d = "tabs (m_world m)" and ?d' = "tabs (e (m_world m))"
    let ?s1 = "?s\<lparr>sc_flights := (sc_flights ?s)[j := (i, p (m_world m))]\<rparr>"
    from Act q step Flight k j have m': "m' = m\<lparr>m_world := e (m_world m), m_scheds := (m_scheds m)[k := ?s1]\<rparr>"
      by (simp add: Let_def)
    from Act q have pe: "sc_flights ?s ! j = (i, Act p e)" by simp
    note g = flight_step [OF ok k j pe]
    have i: "i \<in> fst ` set (sc_flights ?s)" using pe j by (metis fst_conv image_eqI nth_mem)
    have rows: "task_rows_ok ?d" using ty by (simp add: typed_def)
    have ty': "typed ?d'" by (rule guar_typed [OF g(1) ty])
    have other: "sched_ok ?d' (m_scheds m ! n)" if "n < length (m_scheds m)" "n \<noteq> k" for n
    proof (rule sched_ok_others [OF _ rows])
      show "sched_ok ?d (m_scheds m ! n)" using ok that by (auto simp: machine_ok_def)
      show "others x ?d ?d'" if "x \<in> set (sched_ids (m_scheds m ! n))" for x
        by (rule guar_others [OF g(1)], rule flight_alone [OF ok k _ i that]) fact+
    qed
    have own: "sched_ok ?d' ?s1"
      using flight_own [OF s rows j _ g] q by simp
    have map: "map sc_batch ((m_scheds m)[k := ?s1]) = map sc_batch (m_scheds m)"
      by (rule map_same_update [OF k]) simp
    have "\<forall>x \<in> set ((m_scheds m)[k := ?s1]). sched_ok ?d' x"
    proof
      fix x assume "x \<in> set ((m_scheds m)[k := ?s1])"
      then obtain n where "n < length (m_scheds m)" "x = (m_scheds m)[k := ?s1] ! n" by (auto simp: in_set_conv_nth)
      with own other k show "sched_ok ?d' x" by (cases "n = k") simp_all
    qed
    with ok m' map map_eq_set [OF map] ty' show ?thesis by (simp add: machine_ok_def)
  qed
next
  case (Ask r)
  assume "machine_ok m" "mstep env a m = Some m'"
  with Ask handlers_calm show ?thesis by (auto simp: machine_ok_def)
next
  case (Call k)
  assume ok: "machine_ok m" and step: "mstep env a m = Some m'"
  from step Call have k: "k < length (m_calls m)" by (auto split: if_splits)
  show ?thesis
  proof (cases "m_calls m ! k")
    case (Return x)
    with step Call k have "m' = fold Start (snd x) (m\<lparr>m_calls := take k (m_calls m) @ drop (Suc k) (m_calls m)\<rparr>)"
      by (simp split: prod.splits)
    moreover have "machine_ok (m\<lparr>m_calls := take k (m_calls m) @ drop (Suc k) (m_calls m)\<rparr>)"
      using ok subsetD [OF set_remove_nth [of k "m_calls m"]] by (simp add: machine_ok_def del: set_append)
    ultimately show ?thesis by (simp add: fold_Start_ok)
  next
    case (Act p e)
    have "m_calls m ! k \<in> set (m_calls m)" using k by simp
    with ok Act have al: "calm (tabs (m_world m)) (tabs (e (m_world m)))" "always calm (p (m_world m))"
      by (auto simp: machine_ok_def)
    from step Call k Act have m': "m' = m\<lparr>m_world := e (m_world m), m_calls := (m_calls m)[k := p (m_world m)]\<rparr>" by simp
    have "\<forall>q \<in> set ((m_calls m)[k := p (m_world m)]). always calm q"
      using ok al set_update_subset_insert [of "m_calls m" k "p (m_world m)"] by (auto simp: machine_ok_def)
    moreover from ok have "typed (tabs (m_world m))" by (simp add: machine_ok_def)
    then have "\<forall>s \<in> set (m_scheds m). sched_ok (tabs (e (m_world m))) s" "typed (tabs (e (m_world m)))"
      using ok sched_ok_calm [OF _ _ al(1)] al(1) by (simp_all add: machine_ok_def, simp add: calm_def)
    ultimately show ?thesis using ok m' by (simp add: machine_ok_def)
  qed
next
  case (Others d)
  assume ok: "machine_ok m" and step: "mstep env a m = Some m'"
  from step Others have d: "others_ok (tabs (m_world m)) d" and m': "m' = m\<lparr>m_world := (m_world m)\<lparr>tabs := d\<rparr>\<rparr>"
    by (auto split: if_splits)
  from ok have ty: "typed (tabs (m_world m))" by (simp add: machine_ok_def)
  have "sched_ok d s" if "s \<in> set (m_scheds m)" for s
  proof (rule sched_ok_others [where d = "tabs (m_world m)"])
    show "sched_ok (tabs (m_world m)) s" using ok that by (simp add: machine_ok_def)
    show "task_rows_ok (tabs (m_world m))" using ty by (simp add: typed_def)
    show "others i (tabs (m_world m)) d" for i using others_subseq(1) [OF d] by blast
  qed
  with ok m' others_subseq(2) [OF d ty] show ?thesis by (simp add: machine_ok_def)
next
  case Crash
  assume "machine_ok m" "mstep env a m = Some m'"
  with Crash show ?thesis by (auto simp: machine_ok_def)
qed

theorem machine_reachable_ok: "reachable env m \<Longrightarrow> machine_ok m"
  by (induction rule: reachable.induct) (auto intro: fresh_ok mstep_ok)

text \<open>What a step does: a task goroutine keeps its guarantee, everything else only what \<open>others\<close> allows.\<close>

lemma mstep_effect:
  assumes ok: "machine_ok m" and step: "mstep env a m = Some m'"
  shows "(\<exists>k j. a = Flight k j \<and> k < length (m_scheds m) \<and> j < length (sc_flights (m_scheds m ! k)) \<and>
            guar (fst (sc_flights (m_scheds m ! k) ! j)) (tabs (m_world m)) (tabs (m_world m'))) \<or>
         (\<forall>i. others i (tabs (m_world m)) (tabs (m_world m'))) \<and>
         ((\<forall>d. a \<noteq> Others d) \<longrightarrow> k_deployments (tabs (m_world m')) = k_deployments (tabs (m_world m)))"
proof (cases a)
  case (Sched k)
  with step have k: "k < length (m_scheds m)" by (auto split: if_splits)
  with step Sched obtain s' w where run: "sched_step env (m_scheds m ! k) (m_world m) = Some (s', w)"
    and m': "m_world m' = w" by (auto split: option.splits prod.splits)
  from ok k have "sched_ok (tabs (m_world m)) (m_scheds m ! k)" "typed (tabs (m_world m))" by (auto simp: machine_ok_def)
  from sched_step_ok [OF run this] m' show ?thesis by (simp add: calm_def)
next
  case (Flight k j)
  with step have k: "k < length (m_scheds m)" and j: "j < length (sc_flights (m_scheds m ! k))" by (auto split: if_splits)
  obtain i q where q: "sc_flights (m_scheds m ! k) ! j = (i, q)" by (cases "sc_flights (m_scheds m ! k) ! j")
  show ?thesis
  proof (cases q)
    case (Return x)
    with step Flight k j q have "m_world m' = m_world m" by (auto simp: Let_def)
    then show ?thesis by (simp add: others_refl)
  next
    case (Act p e)
    with q flight_step(1) [OF ok k j] have g: "guar i (tabs (m_world m)) (tabs (e (m_world m)))" by simp
    from step Flight k j q Act have "m_world m' = e (m_world m)" by (auto simp: Let_def)
    with g Flight k j q show ?thesis by auto
  qed
next
  case (Call k)
  with step have k: "k < length (m_calls m)" by (auto split: if_splits)
  have world: "m_world (fold Start bs x) = m_world x" for bs x by (induction bs arbitrary: x) simp_all
  show ?thesis
  proof (cases "m_calls m ! k")
    case (Return x)
    with step Call k have "m_world m' = m_world m" by (auto simp: world split: prod.splits)
    then show ?thesis by (simp add: others_refl)
  next
    case (Act p e)
    have "m_calls m ! k \<in> set (m_calls m)" using k by simp
    with ok Act have "calm (tabs (m_world m)) (tabs (e (m_world m)))" by (auto simp: machine_ok_def)
    moreover from step Call k Act have "m_world m' = e (m_world m)" by auto
    ultimately show ?thesis by (simp add: calm_def)
  qed
next
  case (Others d)
  with step have "others_ok (tabs (m_world m)) d" "m_world m' = (m_world m)\<lparr>tabs := d\<rparr>" by (auto split: if_splits)
  with others_subseq(1) Others show ?thesis by simp
qed (use step in \<open>auto simp: others_refl\<close>)

lemma mrun_reachable: "reachable env m \<Longrightarrow> mrun env as m = Some m' \<Longrightarrow> reachable env m'"
  by (induction as arbitrary: m) (auto split: option.splits intro: reachable.step)

end
