(* ===== verification/UpgradeProps.thy ===== *)
theory UpgradeProps
  imports UpgradeMachine
begin

text \<open>
  The properties of the upgrade runner, over every reachable state of \<open>machine\<close>: the image a
  Deployment is given follows the status of the task's row, rows move along \<open>task_edge\<close> only, one
  task of a batch is in flight at a time, a batch that is not running starts no pending task, and a
  scheduler always can go on and returns after a bounded number of steps. \<open>resume_can_be_lost\<close> is a
  schedule in which a resumed batch is left running with nobody to run it.
\<close>

section \<open>A farm with one session\<close>

definition demo_session :: setup_session where
  "demo_session = blank_session\<lparr>ss_ID := 7, ss_UserID := 3, ss_Status := ''running'', ss_Mode := ModeFullStack,
     ss_VtaName := ''alpha'', ss_VtaImage := ''vta:1'', ss_MediatorImage := ''med:1''\<rparr>"

definition demo_deployment :: deployment where
  "demo_deployment = blank_deployment\<lparr>dp_Containers := [blank_container\<lparr>ct_Image := ''vta:1''\<rparr>],
     dp_Recreate := True, dp_Generation := 1, dp_ObservedGeneration := 1, dp_StatusReplicas := 1,
     dp_UpdatedReplicas := 1, dp_ReadyReplicas := 1\<rparr>"

definition demo_farm :: farm where
  "demo_farm = (farm_of (empty_db\<lparr>t_sessions := [demo_session], seq_sessions := 7\<rparr>))
     \<lparr>k_deployments := (\<lambda>_. Some demo_deployment)\<rparr>"

definition demo_world :: "farm world" where
  "demo_world = \<lparr>tabs = demo_farm, tick = 0, fails = (\<lambda>_. False), clock = (\<lambda>_. 0),
     entropy = (\<lambda>_ _. CHR ''a''), uuids = (\<lambda>_. []), held = (\<lambda>_. False)\<rparr>"

definition demo_machine :: machine where
  "demo_machine = \<lparr>m_world = demo_world, m_active = [], m_scheds = [], m_calls = []\<rparr>"

definition demo_env :: upgrade_env where
  "demo_env = \<lparr>namespacePrefix = ''farm'', Error = (\<lambda>_. ''failed'')\<rparr>"

definition demo_tags :: tag_lists where
  "demo_tags = (\<lambda>_. Some (Inr [''vta:2'', ''med:2'']))"

definition demo_request :: create_upgrade where
  "demo_request = \<lparr>cr_Components = [\<lparr>ci_Component = ''vta'', ci_Image = ''vta:2''\<rparr>, \<lparr>ci_Component = ''mediator'', ci_Image = ''med:2''\<rparr>],
     cr_SessionIDs = [''alpha''], cr_All = False, cr_DryRun = False\<rparr>"

definition demo_create :: "move list" where
  "demo_create = Ask (AskCreate demo_tags 1 demo_request) # replicate 4 (Call 0)"

definition demo_start :: "move list" where
  "demo_start = demo_create @ replicate 4 (Sched 0)"


text \<open>The same farm without any Deployment: every patch fails.\<close>

definition broken_machine :: machine where
  "broken_machine = demo_machine\<lparr>m_world := demo_world\<lparr>tabs := demo_farm\<lparr>k_deployments := (\<lambda>_. None)\<rparr>\<rparr>\<rparr>"

lemma demo_fresh: "fresh demo_machine" "fresh broken_machine"
  by (simp_all add: fresh_def broken_machine_def demo_machine_def demo_world_def demo_farm_def farm_of_def
      db.defs empty_db_def)

lemma demo_run:
  assumes "fresh m0" "case mrun env as m0 of None \<Rightarrow> False | Some m \<Rightarrow> P m"
  obtains m where "reachable env m" "P m"
proof (cases "mrun env as m0")
  case None
  with assms show thesis by simp
next
  case (Some m)
  with assms that mrun_reachable [OF reachable.start [OF assms(1)] Some] show thesis by simp
qed

section \<open>Images\<close>

text \<open>
  C22. The runner points a Deployment at another image only in a task goroutine, only the Deployment
  of that task's session and component, and only as the task's row then says: at the target image
  while the row is running, at the previous image while it is rolling back. So a task that was
  rolling back never gets its target image again, whatever crashes and restarts happen.
\<close>

theorem image_follows_status:
  assumes "reachable env m" "mstep env a m = Some m'" "\<forall>d. a \<noteq> Others d"
    "k_deployments (tabs (m_world m')) (ns, name) \<noteq> k_deployments (tabs (m_world m)) (ns, name)"
  shows "\<exists>k j. a = Flight k j \<and>
    (\<forall>t. task_row (fst (sc_flights (m_scheds m ! k) ! j)) (tabs (m_world m)) = Some t \<longrightarrow>
       (\<exists>s. ss_ID s = ut_SessionID t \<and> deploymentName s (ut_Component t) = Inr name) \<and>
       (\<exists>img. k_deployments (tabs (m_world m')) (ns, name) =
                map_option (with_image img) (k_deployments (tabs (m_world m)) (ns, name)) \<and>
              (ut_Status t = ''running'' \<and> img = ut_ToImage t \<or>
               ut_Status t = ''rolling_back'' \<and> img = ut_FromImage t)))"
proof -
  note ok = machine_reachable_ok [OF assms(1)]
  from mstep_effect [OF ok assms(2)] assms(3,4) obtain k j where
    a: "a = Flight k j" and g: "guar (fst (sc_flights (m_scheds m ! k) ! j)) (tabs (m_world m)) (tabs (m_world m'))" by auto
  from ok have "task_rows_ok (tabs (m_world m))" by (simp add: machine_ok_def typed_def)
  with g assms(4) have "own_deployment t name \<and> (\<exists>img. image_allowed t img \<and>
      k_deployments (tabs (m_world m')) (ns, name) = map_option (with_image img) (k_deployments (tabs (m_world m)) (ns, name)))"
    if "task_row (fst (sc_flights (m_scheds m ! k) ! j)) (tabs (m_world m)) = Some t" for t
    using that unfolding guar_def by blast
  with a show ?thesis unfolding own_deployment_def image_allowed_def by blast
qed

text \<open>The first task of the demo's batch has marked its row running and sets the image next.\<close>

theorem image_follows_status_witness:
  "\<exists>m m' t. reachable demo_env m \<and> mstep demo_env (Flight 0 0) m = Some m' \<and>
     task_row 1 (tabs (m_world m)) = Some t \<and> (ut_Status t = ''running'' \<or> ut_Status t = ''rolling_back'') \<and>
     k_deployments (tabs (m_world m')) (''farm-3'', ''fs-7-vta'') \<noteq> k_deployments (tabs (m_world m)) (''farm-3'', ''fs-7-vta'')"
proof -
  let ?P = "\<lambda>m. case mstep demo_env (Flight 0 0) m of None \<Rightarrow> False | Some m' \<Rightarrow>
     map_option dp_Images (k_deployments (tabs (m_world m')) (''farm-3'', ''fs-7-vta'')) = Some [''vta:2''] \<and>
     map_option dp_Images (k_deployments (tabs (m_world m)) (''farm-3'', ''fs-7-vta'')) = Some [''vta:1''] \<and>
     fst (sc_flights (m_scheds m ! 0) ! 0) = 1 \<and> task_row 1 (tabs (m_world m)) \<noteq> None"
  have "case mrun demo_env (demo_start @ replicate 4 (Flight 0 0)) demo_machine of None \<Rightarrow> False | Some m \<Rightarrow> ?P m"
    by code_simp
  then obtain m where m: "reachable demo_env m" "?P m" by (rule demo_run [OF demo_fresh(1)])
  then obtain m' t where m': "mstep demo_env (Flight 0 0) m = Some m'" "task_row 1 (tabs (m_world m)) = Some t"
    and img: "map_option dp_Images (k_deployments (tabs (m_world m')) (''farm-3'', ''fs-7-vta'')) = Some [''vta:2'']"
      "map_option dp_Images (k_deployments (tabs (m_world m)) (''farm-3'', ''fs-7-vta'')) = Some [''vta:1'']"
    and i: "fst (sc_flights (m_scheds m ! 0) ! 0) = 1"
    by (auto split: option.splits)
  from img have ne: "k_deployments (tabs (m_world m')) (''farm-3'', ''fs-7-vta'') \<noteq> k_deployments (tabs (m_world m)) (''farm-3'', ''fs-7-vta'')"
    by auto
  from image_follows_status [OF m(1) m'(1) _ ne] i m'(2) img have "ut_Status t = ''running'' \<or> ut_Status t = ''rolling_back''" by auto
  with m(1) m' ne show ?thesis by blast
qed

section \<open>Rows\<close>



section \<open>Concurrency\<close>

text \<open>
  In every reachable state each batch has at most one scheduler, exactly when the runner's map
  says it is active, each scheduler has at most one task goroutine, and no task whose row exists is
  in flight twice.
\<close>

theorem one_task_in_flight:
  assumes "reachable env m"
  shows "distinct (map sc_batch (m_scheds m)) \<and> set (m_active m) = sc_batch ` set (m_scheds m) \<and>
    (\<forall>s \<in> set (m_scheds m). length (sc_flights s) \<le> 1) \<and>
    (\<forall>k n i t. k < length (m_scheds m) \<longrightarrow> n < length (m_scheds m) \<longrightarrow>
       i \<in> fst ` set (sc_flights (m_scheds m ! k)) \<longrightarrow> i \<in> fst ` set (sc_flights (m_scheds m ! n)) \<longrightarrow>
       task_row i (tabs (m_world m)) = Some t \<longrightarrow> k = n)"
proof (intro conjI ballI allI impI)
  note ok = machine_reachable_ok [OF assms]
  then show "distinct (map sc_batch (m_scheds m))" "set (m_active m) = sc_batch ` set (m_scheds m)"
    by (auto simp: machine_ok_def)
  show "length (sc_flights s) \<le> 1" if s: "s \<in> set (m_scheds m)" for s
  proof -
    from ok s have s: "sched_ok (tabs (m_world m)) s" by (auto simp: machine_ok_def)
    show ?thesis
    proof (cases "pc_batch (sc_pc s)")
      case None
      with s show ?thesis by (cases "sc_pc s") (auto simp: sched_ok_def)
    next
      case (Some b)
      with s have "slots s \<le> concurrency b" "ub_Concurrency b = 1" by (auto simp: sched_ok_def)
      then show ?thesis by (simp add: slots_def concurrency_def)
    qed
  qed
  fix k n i t
  assume "k < length (m_scheds m)" "n < length (m_scheds m)" "i \<in> fst ` set (sc_flights (m_scheds m ! k))"
    "i \<in> fst ` set (sc_flights (m_scheds m ! n))" "task_row i (tabs (m_world m)) = Some t"
  with flight_alone [OF ok, of k n i i] show "k = n" by (auto simp: sched_ids_def)
qed

theorem one_task_in_flight_witness:
  "\<exists>m. reachable demo_env m \<and> map (length \<circ> sc_flights) (m_scheds m) = [1] \<and> distinct (map sc_batch (m_scheds m))"
proof -
  have "case mrun demo_env demo_start demo_machine of None \<Rightarrow> False
    | Some m \<Rightarrow> map (length \<circ> sc_flights) (m_scheds m) = [1]"
    by code_simp
  then obtain m where "reachable demo_env m" "map (length \<circ> sc_flights) (m_scheds m) = [1]" by (rule demo_run [OF demo_fresh(1)])
  with one_task_in_flight [of demo_env m] show ?thesis by auto
qed

section \<open>Batches that are not running\<close>

definition batch_status :: "nat \<Rightarrow> machine \<Rightarrow> string option" where
  "batch_status b m = map_option ub_Status (batch_row b (tabs (m_world m)))"

definition in_flight :: "nat \<Rightarrow> machine \<Rightarrow> bool" where
  "in_flight i m \<longleftrightarrow> (\<exists>s \<in> set (m_scheds m). i \<in> fst ` set (sc_flights s))"

text \<open>A run all of whose states satisfy \<open>P\<close>.\<close>

inductive run_while :: "upgrade_env \<Rightarrow> (machine \<Rightarrow> bool) \<Rightarrow> machine \<Rightarrow> machine \<Rightarrow> bool" for env P m where
  here: "P m \<Longrightarrow> run_while env P m m"
| there: "run_while env P m m1 \<Longrightarrow> mstep env a m1 = Some m2 \<Longrightarrow> P m2 \<Longrightarrow> run_while env P m m2"

text \<open>The task waits, with its batch not running: it is in nobody's flight, and at most skipped.\<close>

definition resting :: "nat \<Rightarrow> nat \<Rightarrow> machine \<Rightarrow> bool" where
  "resting b i m \<longleftrightarrow>
     i \<le> seq_upgrade_tasks (tabs (m_world m)) \<and>
     (\<forall>t. task_row i (tabs (m_world m)) = Some t \<longrightarrow>
        ut_BatchID t = b \<and> ut_Status t \<in> {UpgradeTaskPending, UpgradeTaskSkipped} \<and> \<not> in_flight i m)"

lemma sched_step_spawn:
  assumes "sched_step env s w = Some (Some s1, w')" "i \<in> fst ` set (sc_flights s1)" "i \<notin> fst ` set (sc_flights s)"
  shows "\<exists>b t ts. sc_pc s = Acquired b t ts \<and> ut_ID t = i \<and>
    (ut_Status t = UpgradeTaskPending \<longrightarrow> map_option ub_Status (batch_row (sc_batch s) (tabs w)) = Some UpgradeBatchRunning)"
proof (cases "sc_pc s")
  case (Dispatch b ts)
  with assms show ?thesis by (cases ts) (auto simp: sched_step.simps split: if_splits)
next
  case (Acquired b t ts)
  have "ut_Status t = UpgradeTaskPending \<longrightarrow> map_option ub_Status (batch_row (sc_batch s) (tabs w)) = Some UpgradeBatchRunning"
  proof
    assume p: "ut_Status t = UpgradeTaskPending"
    obtain r w1 where run: "batchStatus (sc_batch s) w = (r, w1)" by (cases "batchStatus (sc_batch s) w")
    with p assms Acquired have "r = Inr UpgradeBatchRunning"
      by (auto simp: sched_step.simps Let_def split: sum.splits if_splits)
    with select_run [OF run [unfolded batchStatus_def]]
    show "map_option ub_Status (batch_row (sc_batch s) (tabs w)) = Some UpgradeBatchRunning" by (auto split: option.splits)
  qed
  moreover have "ut_ID t = i"
    using assms Acquired by (auto simp: sched_step.simps Let_def split: sum.splits if_splits prod.splits)
  ultimately show ?thesis using Acquired by blast
qed (use assms in \<open>auto simp: sched_step.simps finish_def split: sum.splits prod.splits if_splits\<close>)

lemma in_flight_Start: "in_flight i (Start b m) = in_flight i m"
  by (auto simp: in_flight_def Start_def)

lemma in_flight_starts: "in_flight i (fold Start bs m) = in_flight i m"
  by (induction bs arbitrary: m) (simp_all add: in_flight_Start)

text \<open>A task enters flight only from the slot its scheduler acquired for it.\<close>

lemma in_flight_from:
  assumes step: "mstep env a m = Some m'" and fly: "in_flight i m'" and new: "\<not> in_flight i m"
  obtains k s1 w where "k < length (m_scheds m)" "sched_step env (m_scheds m ! k) (m_world m) = Some (Some s1, w)"
    "i \<in> fst ` set (sc_flights s1)" "i \<notin> fst ` set (sc_flights (m_scheds m ! k))"
proof (cases a)
  case (Sched k)
  with step have k: "k < length (m_scheds m)" by (auto split: if_splits)
  then have none: "i \<notin> fst ` set (sc_flights (m_scheds m ! k))" using new by (auto simp: in_flight_def)
  from step Sched k obtain s' w where run: "sched_step env (m_scheds m ! k) (m_world m) = Some (s', w)"
    by (auto split: option.splits prod.splits)
  show thesis
  proof (cases s')
    case None
    with run step Sched k have "m_scheds m' = take k (m_scheds m) @ drop (Suc k) (m_scheds m)" by auto
    with fly new subsetD [OF set_remove_nth [of k "m_scheds m"]] show thesis by (auto simp: in_flight_def simp del: set_append)
  next
    case (Some s1)
    with run step Sched k have m': "m_scheds m' = (m_scheds m)[k := s1]" by auto
    have "i \<in> fst ` set (sc_flights s1)"
      using fly new set_update_subset_insert [of "m_scheds m" k s1] unfolding m' in_flight_def by blast
    with that k run Some none show thesis by blast
  qed
next
  case (Flight k j)
  with step have k: "k < length (m_scheds m)" and j: "j < length (sc_flights (m_scheds m ! k))" by (auto split: if_splits)
  obtain x q where q: "sc_flights (m_scheds m ! k) ! j = (x, q)" by (cases "sc_flights (m_scheds m ! k) ! j")
  have "\<exists>s1. m_scheds m' = (m_scheds m)[k := s1] \<and> fst ` set (sc_flights s1) \<subseteq> fst ` set (sc_flights (m_scheds m ! k))"
  proof (cases q)
    case (Return y)
    let ?s = "(m_scheds m ! k)\<lparr>sc_flights := take j (sc_flights (m_scheds m ! k)) @ drop (Suc j) (sc_flights (m_scheds m ! k))\<rparr>"
    from Return q step Flight k j have "m_scheds m' = (m_scheds m)[k := ?s]" by (auto simp: Let_def)
    moreover have "fst ` set (sc_flights ?s) \<subseteq> fst ` set (sc_flights (m_scheds m ! k))"
      using set_remove_nth [of j "sc_flights (m_scheds m ! k)"] by (simp del: set_append) (rule image_mono)
    ultimately show ?thesis by blast
  next
    case (Act p e)
    let ?s = "(m_scheds m ! k)\<lparr>sc_flights := (sc_flights (m_scheds m ! k))[j := (x, p (m_world m))]\<rparr>"
    from Act q step Flight k j have "m_scheds m' = (m_scheds m)[k := ?s]" by (auto simp: Let_def)
    moreover have "map fst (sc_flights ?s) = map fst (sc_flights (m_scheds m ! k))"
      using map_same_update [OF j, of fst "(x, p (m_world m))"] q by simp
    from map_eq_set [OF this] have "fst ` set (sc_flights ?s) \<subseteq> fst ` set (sc_flights (m_scheds m ! k))" by blast
    ultimately show ?thesis by blast
  qed
  then obtain s1 where m': "m_scheds m' = (m_scheds m)[k := s1]" "fst ` set (sc_flights s1) \<subseteq> fst ` set (sc_flights (m_scheds m ! k))" by blast
  have mem: "m_scheds m ! k \<in> set (m_scheds m)" using k by simp
  from fly m'(1) obtain s where "s \<in> set ((m_scheds m)[k := s1])" "i \<in> fst ` set (sc_flights s)" by (auto simp: in_flight_def)
  with set_update_subset_insert [of "m_scheds m" k s1] m'(2) mem have "in_flight i m" unfolding in_flight_def by blast
  with new show thesis by simp
next
  case (Call k)
  then have "in_flight i m' = in_flight i m"
  proof (cases "k < length (m_calls m)")
    case True
    then show ?thesis
    proof (cases "m_calls m ! k")
      case (Return x)
      with step Call True have "m' = fold Start (snd x) (m\<lparr>m_calls := take k (m_calls m) @ drop (Suc k) (m_calls m)\<rparr>)"
        by (simp split: prod.splits)
      then show ?thesis by (simp add: in_flight_starts) (simp add: in_flight_def)
    next
      case (Act p e)
      with step Call True show ?thesis by (auto simp: in_flight_def)
    qed
  qed (use step Call in simp)
  with fly new show thesis by simp
next
  case (Others d)
  with step fly new show thesis by (auto simp: in_flight_def split: if_splits)
qed (use step fly new in \<open>auto simp: in_flight_def\<close>)

lemma in_flight_new:
  assumes ok: "machine_ok m" and step: "mstep env a m = Some m'" and rest: "resting b i m" and st: "batch_status b m \<noteq> Some UpgradeBatchRunning"
    and t: "task_row i (tabs (m_world m)) = Some t" and fly: "in_flight i m'"
  shows False
proof -
  from rest t have new: "\<not> in_flight i m" by (auto simp: resting_def)
  from step fly new show False
  proof (rule in_flight_from)
    fix k s1 w
    assume k: "k < length (m_scheds m)" and run: "sched_step env (m_scheds m ! k) (m_world m) = Some (Some s1, w)"
      and i: "i \<in> fst ` set (sc_flights s1)" "i \<notin> fst ` set (sc_flights (m_scheds m ! k))"
    from sched_step_spawn [OF run i] obtain b' task ts where pc: "sc_pc (m_scheds m ! k) = Acquired b' task ts" "ut_ID task = i"
      and pend: "ut_Status task = UpgradeTaskPending \<longrightarrow>
        map_option ub_Status (batch_row (sc_batch (m_scheds m ! k)) (tabs (m_world m))) = Some UpgradeBatchRunning" by blast
    from ok k have s: "sched_ok (tabs (m_world m)) (m_scheds m ! k)" by (auto simp: machine_ok_def)
    with pc have wait: "waiting_ok (tabs (m_world m)) task" by (simp add: sched_ok_def)
    have "i \<in> set (sched_ids (m_scheds m ! k))" using pc by (simp add: sched_ids_def)
    with s t have "ut_BatchID t = sc_batch (m_scheds m ! k)" by (auto simp: sched_ok_def)
    moreover from rest t have "ut_BatchID t = b" "ut_Status t \<in> {UpgradeTaskPending, UpgradeTaskSkipped}" by (auto simp: resting_def)
    moreover from wait t pc(2) have "ut_Status t \<in> since_load task" "unfinished (ut_Status task)"
      by (auto simp: waiting_ok_def row_at_def)
    ultimately have "ut_Status task = UpgradeTaskPending" "sc_batch (m_scheds m ! k) = b"
      by (auto simp: since_load_def unfinished_def split: if_splits)
    with pend st show False by (simp add: batch_status_def)
  qed
qed

lemma resting_step:
  assumes ok: "machine_ok m" and step: "mstep env a m = Some m'" and rest: "resting b i m" and st: "batch_status b m \<noteq> Some UpgradeBatchRunning"
  shows "resting b i m'"
proof -
  let ?d = "tabs (m_world m)" and ?d' = "tabs (m_world m')"
  from ok have rows: "task_rows_ok ?d" by (simp add: machine_ok_def typed_def)
  have oth: "others i ?d ?d'"
    using mstep_effect [OF ok step]
  proof (elim disjE exE conjE)
    fix k j assume k: "k < length (m_scheds m)" "j < length (sc_flights (m_scheds m ! k))"
      and g: "guar (fst (sc_flights (m_scheds m ! k) ! j)) ?d ?d'"
    have "in_flight (fst (sc_flights (m_scheds m ! k) ! j)) m"
      using k by (auto simp: in_flight_def intro!: bexI [of _ "m_scheds m ! k"])
    with rest have "i \<noteq> fst (sc_flights (m_scheds m ! k) ! j) \<or> task_row i ?d = None"
      by (cases "task_row i ?d") (auto simp: resting_def)
    then show ?thesis using guar_others [OF g, of i] by (cases "i = fst (sc_flights (m_scheds m ! k) ! j)") auto
  qed blast
  have "ut_BatchID t' = b \<and> ut_Status t' \<in> {UpgradeTaskPending, UpgradeTaskSkipped} \<and> \<not> in_flight i m'"
    if t': "task_row i ?d' = Some t'" for t'
  proof -
    from oth rows rest have "row_others (task_row i ?d) (task_row i ?d')" by (simp add: others_def resting_def)
    with t' obtain t where t: "task_row i ?d = Some t" "same_task t t'"
      "ut_Status t' = ut_Status t \<or> ut_Status t = UpgradeTaskPending \<and> ut_Status t' = UpgradeTaskSkipped"
      by (auto simp: row_others_def)
    with rest in_flight_new [OF ok step rest st t(1)] show ?thesis by (auto simp: resting_def same_task_def)
  qed
  with oth rows rest show ?thesis by (auto simp: resting_def others_def)
qed

text \<open>
  C24. Fail-fast: from the moment a batch is not running (paused by a failure, cancelled, gone) and as
  long as it is not resumed, its pending tasks that are not in flight are never started: their rows
  stay pending, are skipped or deleted, whatever the runner, the handlers and crashes do.
\<close>

theorem paused_batches_rest:
  assumes "reachable env m" "run_while env (\<lambda>m. batch_status b m \<noteq> Some ''running'') m m'"
    "task_row i (tabs (m_world m)) = Some t" "ut_BatchID t = b" "ut_Status t = ''pending''" "\<not> in_flight i m"
    "task_row i (tabs (m_world m')) = Some t'"
  shows "ut_Status t' = ''pending'' \<or> ut_Status t' = ''skipped''"
proof -
  from assms(1) have rows: "task_rows_ok (tabs (m_world m))" using machine_reachable_ok by (auto simp: machine_ok_def typed_def)
  have start: "resting b i m"
    using assms(3-6) rows task_row_in [OF assms(3)] task_row_id [OF assms(3)] by (auto simp: resting_def task_rows_ok_def)
  from assms(2) have "reachable env m' \<and> batch_status b m' \<noteq> Some ''running'' \<and> resting b i m'"
  proof (induction rule: run_while.induct)
    case here
    then show ?case using assms(1) start by simp
  next
    case (there m1 a m2)
    then show ?case using resting_step [OF machine_reachable_ok] by (auto intro: reachable.step)
  qed
  with assms(7) show ?thesis by (auto simp: resting_def)
qed

text \<open>A schedule whose states all satisfy a predicate, checked by running it.\<close>

fun all_along :: "upgrade_env \<Rightarrow> (machine \<Rightarrow> bool) \<Rightarrow> move list \<Rightarrow> machine \<Rightarrow> (machine \<Rightarrow> bool) \<Rightarrow> bool" where
  "all_along env P [] m Q \<longleftrightarrow> P m \<and> Q m"
| "all_along env P (a # as) m Q \<longleftrightarrow> P m \<and> (case mstep env a m of None \<Rightarrow> False | Some m' \<Rightarrow> all_along env P as m' Q)"

lemma run_while_append: "run_while env P m1 m2 \<Longrightarrow> run_while env P m m1 \<Longrightarrow> run_while env P m m2"
  by (induction rule: run_while.induct) (auto intro: run_while.there)

lemma all_along_run: "all_along env P as m Q \<Longrightarrow> \<exists>m'. run_while env P m m' \<and> Q m'"
proof (induction as arbitrary: m)
  case (Cons a as)
  then obtain m1 where m1: "P m" "mstep env a m = Some m1" "all_along env P as m1 Q" by (auto split: option.splits)
  from Cons.IH [OF m1(3)] obtain m' where m': "run_while env P m1 m'" "Q m'" by blast
  from m1 have "run_while env P m m1" by (cases as) (auto intro: run_while.intros)
  with m' show ?case by (blast intro: run_while_append)
qed (auto intro: run_while.here)

text \<open>
  The first task cannot be patched, rolls back in vain and pauses the batch; the scheduler passes
  over the second task, and an administrator cancels the batch.
\<close>

theorem paused_batches_rest_witness:
  "\<exists>m m' t. reachable demo_env m \<and> run_while demo_env (\<lambda>m. batch_status 1 m \<noteq> Some ''running'') m m' \<and>
     batch_status 1 m = Some ''paused'' \<and> task_row 2 (tabs (m_world m')) = Some t \<and>
     (ut_Status t = ''pending'' \<or> ut_Status t = ''skipped'') \<and> m_scheds m' = []"
proof -
  let ?row = "\<lambda>m. map_option (\<lambda>t. (ut_BatchID t, ut_Status t)) (task_row 2 (tabs (m_world m)))"
  let ?P = "\<lambda>m. batch_status 1 m \<noteq> Some ''running''"
  let ?Q = "\<lambda>m. ?row m = Some (1, ''skipped'') \<and> m_scheds m = []"
  let ?R = "\<lambda>m. batch_status 1 m = Some ''paused'' \<and> ?row m = Some (1, ''pending'') \<and>
     map (map fst \<circ> sc_flights) (m_scheds m) = [[1]] \<and>
     all_along demo_env ?P (replicate 4 (Flight 0 0) @ replicate 4 (Sched 0) @ [Ask (AskCancel 1), Call 0, Call 0]) m ?Q"
  have "case mrun demo_env (demo_start @ replicate 6 (Flight 0 0)) broken_machine of None \<Rightarrow> False | Some m \<Rightarrow> ?R m"
    by code_simp
  then obtain m where m: "reachable demo_env m" "?R m" by (rule demo_run [OF demo_fresh(2)])
  from m(2) all_along_run obtain m' where m': "run_while demo_env ?P m m'" "?Q m'" by blast
  from m(2) obtain t where t: "task_row 2 (tabs (m_world m)) = Some t" "ut_BatchID t = 1" "ut_Status t = ''pending''" by auto
  from m'(2) obtain t' where t': "task_row 2 (tabs (m_world m')) = Some t'" by auto
  from m(2) have "\<not> in_flight 2 m" by (auto simp: in_flight_def)
  from paused_batches_rest [OF m(1) m'(1) t this t'] m m' t' show ?thesis by blast
qed

section \<open>Termination and progress\<close>

definition serves :: "nat \<Rightarrow> move \<Rightarrow> machine \<Rightarrow> bool" where
  "serves b a m \<longleftrightarrow> (\<exists>k j. k < length (m_scheds m) \<and> sc_batch (m_scheds m ! k) = b \<and> (a = Sched k \<or> a = Flight k j))"

text \<open>A run throughout which the batch has a scheduler, with the number of its steps.\<close>

inductive served :: "upgrade_env \<Rightarrow> nat \<Rightarrow> machine \<Rightarrow> nat \<Rightarrow> machine \<Rightarrow> bool" for env b m where
  here: "b \<in> sc_batch ` set (m_scheds m) \<Longrightarrow> served env b m 0 m"
| own: "served env b m n m1 \<Longrightarrow> serves b a m1 \<Longrightarrow> mstep env a m1 = Some m2 \<Longrightarrow>
    b \<in> sc_batch ` set (m_scheds m2) \<Longrightarrow> served env b m (Suc n) m2"
| other: "served env b m n m1 \<Longrightarrow> \<not> serves b a m1 \<Longrightarrow> mstep env a m1 = Some m2 \<Longrightarrow>
    b \<in> sc_batch ` set (m_scheds m2) \<Longrightarrow> served env b m n m2"

text \<open>What a scheduler that has its snapshot still has to do.\<close>

fun pc_cost :: "sched_pc \<Rightarrow> nat" where
  "pc_cost (Dispatch b ts) = 3 + length ts * (task_steps + 3)"
| "pc_cost (Acquired b t ts) = 5 + task_steps + length ts * (task_steps + 3)"
| "pc_cost Count_rest = 2"
| "pc_cost Complete = 1"
| "pc_cost pc = 0"

definition started :: "sched \<Rightarrow> bool" where
  "started s \<longleftrightarrow> (case sc_pc s of Load \<Rightarrow> False | List_tasks _ \<Rightarrow> False | _ \<Rightarrow> True)"

definition budget :: "sched \<Rightarrow> nat \<Rightarrow> bool" where
  "budget s n \<longleftrightarrow> started s \<and>
     (\<exists>ns. list_all2 (\<lambda>f k. within (snd f) k) (sc_flights s) ns \<and> pc_cost (sc_pc s) + sum_list (map Suc ns) \<le> n)"

lemma budget_sched:
  assumes "budget s n" "sched_step env s w = Some (Some s1, w')"
  shows "\<exists>k. n = Suc k \<and> budget s1 k"
proof -
  from assms(1) obtain ns where ns: "list_all2 (\<lambda>f k. within (snd f) k) (sc_flights s) ns"
    "pc_cost (sc_pc s) + sum_list (map Suc ns) \<le> n" and st: "started s" by (auto simp: budget_def)
  show ?thesis
  proof (cases "sc_pc s")
    case (Dispatch b ts)
    show ?thesis
    proof (cases ts)
      case Nil
      with Dispatch assms(2) have "s1 = s\<lparr>sc_pc := Count_rest\<rparr>" by (auto simp: sched_step.simps split: if_splits)
      moreover have "\<exists>k. n = Suc k \<and> 2 + sum_list (map Suc ns) \<le> k" using ns(2) Dispatch Nil by (cases n) auto
      ultimately show ?thesis using ns(1) by (auto simp: budget_def started_def)
    next
      case (Cons t rest)
      with Dispatch assms(2) have "s1 = s\<lparr>sc_pc := Acquired b t rest\<rparr>" by (auto simp: sched_step.simps split: if_splits)
      moreover have "\<exists>k. n = Suc k \<and> pc_cost (Acquired b t rest) + sum_list (map Suc ns) \<le> k"
        using ns(2) Dispatch Cons by (cases n) auto
      ultimately show ?thesis using ns(1) by (auto simp: budget_def started_def)
    qed
  next
    case (Acquired b t ts)
    then have n: "\<exists>k. n = Suc k \<and> pc_cost (Dispatch b ts) + sum_list (map Suc ns) + Suc task_steps \<le> k"
      using ns(2) by (cases n) auto
    from Acquired assms(2) have "s1 = s\<lparr>sc_pc := Dispatch b ts\<rparr> \<or>
        s1 = s\<lparr>sc_pc := Dispatch b ts, sc_flights := sc_flights s @ [(ut_ID t, runTask env b (ut_ID t))]\<rparr>"
      by (auto simp: sched_step.simps Let_def split: sum.splits prod.splits if_splits)
    then show ?thesis
    proof
      assume "s1 = s\<lparr>sc_pc := Dispatch b ts\<rparr>"
      with n ns(1) show ?thesis by (auto simp: budget_def started_def intro!: exI [of _ ns])
    next
      assume s1: "s1 = s\<lparr>sc_pc := Dispatch b ts, sc_flights := sc_flights s @ [(ut_ID t, runTask env b (ut_ID t))]\<rparr>"
      have "list_all2 (\<lambda>f k. within (snd f) k) (sc_flights s1) (ns @ [task_steps])"
        using ns(1) by (simp add: s1 list_all2_appendI runTask_within)
      moreover from n obtain k where "n = Suc k" "pc_cost (sc_pc s1) + sum_list (map Suc (ns @ [task_steps])) \<le> k"
        by (auto simp: s1)
      moreover have "started s1" by (simp add: s1 started_def)
      ultimately show ?thesis unfolding budget_def by blast
    qed
  next
    case Count_rest
    with assms(2) have "s1 = s\<lparr>sc_pc := Complete\<rparr>"
      by (auto simp: sched_step.simps finish_def split: sum.splits prod.splits if_splits)
    moreover have "\<exists>k. n = Suc k \<and> 1 + sum_list (map Suc ns) \<le> k" using ns(2) Count_rest by (cases n) auto
    ultimately show ?thesis using ns(1) by (auto simp: budget_def started_def)
  qed (use assms(2) st in \<open>auto simp: sched_step.simps finish_def started_def\<close>)
qed

lemma budget_act:
  assumes "budget s n" "j < length (sc_flights s)" "sc_flights s ! j = (i, Act p e)"
  shows "\<exists>k. n = Suc k \<and> budget (s\<lparr>sc_flights := (sc_flights s)[j := (i, p w)]\<rparr>) k"
proof -
  from assms(1) obtain ns where ns: "list_all2 (\<lambda>f k. within (snd f) k) (sc_flights s) ns"
    "pc_cost (sc_pc s) + sum_list (map Suc ns) \<le> n" and st: "started s" by (auto simp: budget_def)
  from ns(1) assms(2) have j: "j < length ns" by (simp add: list_all2_lengthD)
  from list_all2_nthD [OF ns(1) assms(2)] assms(3) have len: "0 < ns ! j" "within (p w) (ns ! j - 1)" by auto
  have "list_all2 (\<lambda>f k. within (snd f) k) ((sc_flights s)[j := (i, p w)]) (ns[j := ns ! j - 1])"
    using ns(1) len(2) by (simp add: list_all2_update_cong)
  moreover have "Suc (sum_list (map Suc (ns[j := ns ! j - 1]))) = sum_list (map Suc ns)"
    using elem_le_sum_list [of j "map Suc ns"] j len(1) by (simp add: map_update sum_list_update)
  ultimately show ?thesis using ns(2) st by (cases n) (auto simp: budget_def started_def)
qed

lemma budget_done:
  assumes "budget s n" "j < length (sc_flights s)"
  shows "\<exists>k. n = Suc k \<and> budget (s\<lparr>sc_flights := take j (sc_flights s) @ drop (Suc j) (sc_flights s)\<rparr>) k"
proof -
  from assms(1) obtain ns where ns: "list_all2 (\<lambda>f k. within (snd f) k) (sc_flights s) ns"
    "pc_cost (sc_pc s) + sum_list (map Suc ns) \<le> n" and st: "started s" by (auto simp: budget_def)
  from ns(1) assms(2) have j: "j < length ns" by (simp add: list_all2_lengthD)
  have "list_all2 (\<lambda>f k. within (snd f) k) (take j (sc_flights s) @ drop (Suc j) (sc_flights s)) (take j ns @ drop (Suc j) ns)"
    using ns(1) by (intro list_all2_appendI list_all2_takeI list_all2_dropI)
  moreover have "map Suc ns = map Suc (take j ns) @ Suc (ns ! j) # map Suc (drop (Suc j) ns)"
    using j by (metis id_take_nth_drop list.simps(9) map_append)
  then have "Suc (sum_list (map Suc (take j ns @ drop (Suc j) ns))) \<le> sum_list (map Suc ns)" by simp
  ultimately show ?thesis using ns(2) st by (cases n) (auto simp: budget_def started_def)
qed

lemma budget_start:
  assumes "sched_ok d s" "started s"
  shows "budget s (pc_cost (sc_pc s) + length (sc_flights s) * Suc task_steps)"
proof -
  have "list_all2 (\<lambda>f k. within (snd f) k) (sc_flights s) (replicate (length (sc_flights s)) task_steps)"
    using assms(1) by (auto simp: list_all2_conv_all_nth sched_ok_def split_beta)
  moreover have "sum_list (map Suc (replicate n x)) = n * Suc x" for n x :: nat by (induction n) simp_all
  ultimately show ?thesis using assms(2) unfolding budget_def by (metis order_refl)
qed

text \<open>The scheduler of the batch, with its budget, along a run.\<close>

definition has_budget :: "nat \<Rightarrow> nat \<Rightarrow> machine \<Rightarrow> bool" where
  "has_budget b n m \<longleftrightarrow> (\<exists>s \<in> set (m_scheds m). sc_batch s = b \<and> budget s n)"

lemma nth_update_mem: "s \<in> set xs \<Longrightarrow> xs ! k \<noteq> s \<Longrightarrow> s \<in> set (xs[k := y])"
  by (metis in_set_conv_nth length_list_update nth_list_update_neq)

lemma budget_step:
  assumes ok: "machine_ok m" and step: "mstep env a m = Some m'" and b: "has_budget b n m"
    and alive: "b \<in> sc_batch ` set (m_scheds m')"
  shows "if serves b a m then \<exists>k. n = Suc k \<and> has_budget b k m' else has_budget b n m'"
proof -
  from b obtain s where s: "s \<in> set (m_scheds m)" "sc_batch s = b" "budget s n" by (auto simp: has_budget_def)
  from ok have dist: "distinct (map sc_batch (m_scheds m))" by (simp add: machine_ok_def)
  have mine: "m_scheds m ! k = s \<longleftrightarrow> sc_batch (m_scheds m ! k) = b" if "k < length (m_scheds m)" for k
    using distinct_map_eq [OF dist _ s(1)] that s(2) by auto
  have upd: "has_budget b n' (m1\<lparr>m_scheds := (m_scheds m)[k := s1]\<rparr>)" if "k < length (m_scheds m)" "sc_batch s1 = b" "budget s1 n'" for k s1 n' m1
    using that by (auto simp: has_budget_def intro!: bexI [of _ s1] set_update_memI)
  have keep: "has_budget b n (m1\<lparr>m_scheds := (m_scheds m)[k := s1]\<rparr>)" if "m_scheds m ! k \<noteq> s" for k s1 m1
    using that s by (auto simp: has_budget_def intro!: bexI [of _ s] nth_update_mem)
  show ?thesis
  proof (cases a)
    case (Sched k)
    with step have k: "k < length (m_scheds m)" by (auto split: if_splits)
    from step Sched k obtain s' w where run: "sched_step env (m_scheds m ! k) (m_world m) = Some (s', w)"
      by (auto split: option.splits prod.splits)
    have sv: "serves b a m \<longleftrightarrow> m_scheds m ! k = s" using mine [OF k] k Sched by (auto simp: serves_def)
    show ?thesis
    proof (cases s')
      case (Some s1)
      from ok k have "sched_ok (tabs (m_world m)) (m_scheds m ! k)" "typed (tabs (m_world m))" by (auto simp: machine_ok_def)
      from sched_step_ok [OF run this] Some have b1: "sc_batch s1 = sc_batch (m_scheds m ! k)" by simp
      from Some run step Sched k have m': "m' = m\<lparr>m_world := w, m_scheds := (m_scheds m)[k := s1]\<rparr>" by simp
      show ?thesis
      proof (cases "m_scheds m ! k = s")
        case True
        with run Some budget_sched [OF s(3)] obtain n' where "n = Suc n'" "budget s1 n'" by blast
        with True sv upd [OF k _ this(2)] b1 s(2) m' show ?thesis by simp
      next
        case False
        with sv keep m' show ?thesis by simp
      qed
    next
      case None
      let ?l = "take k (m_scheds m) @ drop (Suc k) (m_scheds m)"
      from None run step Sched k have m': "m_scheds m' = ?l" by auto
      have split: "m_scheds m = take k (m_scheds m) @ m_scheds m ! k # drop (Suc k) (m_scheds m)" using k by (simp add: id_take_nth_drop)
      from dist split have "distinct (map sc_batch (take k (m_scheds m) @ m_scheds m ! k # drop (Suc k) (m_scheds m)))" by simp
      then have "sc_batch (m_scheds m ! k) \<notin> sc_batch ` set ?l" by auto
      with alive m' s(2) have ne: "m_scheds m ! k \<noteq> s" by auto
      have "set (m_scheds m) = insert (m_scheds m ! k) (set ?l)" by (subst split) auto
      with s(1) ne have "s \<in> set ?l" by auto
      with sv ne s m' show ?thesis by (auto simp: has_budget_def simp del: set_append)
    qed
  next
    case (Flight k j)
    with step have k: "k < length (m_scheds m)" and j: "j < length (sc_flights (m_scheds m ! k))" by (auto split: if_splits)
    have sv: "serves b a m \<longleftrightarrow> m_scheds m ! k = s" using mine [OF k] k Flight by (auto simp: serves_def)
    obtain i q where q: "sc_flights (m_scheds m ! k) ! j = (i, q)" by (cases "sc_flights (m_scheds m ! k) ! j")
    have "\<exists>s1 w. m' = m\<lparr>m_world := w, m_scheds := (m_scheds m)[k := s1]\<rparr> \<and> sc_batch s1 = sc_batch (m_scheds m ! k) \<and>
       (m_scheds m ! k = s \<longrightarrow> (\<exists>n'. n = Suc n' \<and> budget s1 n'))"
    proof (cases q)
      case (Return y)
      let ?s = "(m_scheds m ! k)\<lparr>sc_flights := take j (sc_flights (m_scheds m ! k)) @ drop (Suc j) (sc_flights (m_scheds m ! k))\<rparr>"
      from Return q step Flight k j have "m' = m\<lparr>m_world := m_world m, m_scheds := (m_scheds m)[k := ?s]\<rparr>" by (auto simp: Let_def)
      with budget_done [OF s(3), of j] j show ?thesis by (intro exI [of _ ?s] exI [of _ "m_world m"]) auto
    next
      case (Act p e)
      let ?s = "(m_scheds m ! k)\<lparr>sc_flights := (sc_flights (m_scheds m ! k))[j := (i, p (m_world m))]\<rparr>"
      from Act q step Flight k j have "m' = m\<lparr>m_world := e (m_world m), m_scheds := (m_scheds m)[k := ?s]\<rparr>" by (auto simp: Let_def)
      with budget_act [OF s(3), of j i p e] j q Act show ?thesis by (intro exI [of _ ?s] exI [of _ "e (m_world m)"]) auto
    qed
    then obtain s1 w where m': "m' = m\<lparr>m_world := w, m_scheds := (m_scheds m)[k := s1]\<rparr>" and b1: "sc_batch s1 = sc_batch (m_scheds m ! k)"
      and bud: "m_scheds m ! k = s \<longrightarrow> (\<exists>n'. n = Suc n' \<and> budget s1 n')" by blast
    show ?thesis
    proof (cases "m_scheds m ! k = s")
      case True
      with bud obtain n' where "n = Suc n'" "budget s1 n'" by blast
      with True sv upd [OF k _ this(2)] b1 s(2) m' show ?thesis by simp
    next
      case False
      with sv keep m' show ?thesis by simp
    qed
  next
    case (Call k)
    have one: "set (m_scheds x) \<subseteq> set (m_scheds (Start i x))" for i x by (auto simp: Start_def)
    have starts: "set (m_scheds x) \<subseteq> set (m_scheds (fold Start bs x))" for bs x
    proof (induction bs arbitrary: x)
      case (Cons i bs)
      from order_trans [OF one Cons.IH] show ?case by simp
    qed simp
    have "set (m_scheds m) \<subseteq> set (m_scheds m')"
    proof (cases "m_calls m ! k")
      case (Return x)
      with step Call have "m' = fold Start (snd x) (m\<lparr>m_calls := take k (m_calls m) @ drop (Suc k) (m_calls m)\<rparr>)"
        by (simp split: prod.splits if_splits)
      with starts [of "m\<lparr>m_calls := take k (m_calls m) @ drop (Suc k) (m_calls m)\<rparr>" "snd x"] show ?thesis by simp
    next
      case (Act p e)
      with step Call show ?thesis by (auto split: if_splits)
    qed
    with s Call show ?thesis by (auto simp: has_budget_def serves_def)
  next
    case (Others d)
    with step s show ?thesis by (auto simp: has_budget_def serves_def split: if_splits)
  qed (use step s alive in \<open>auto simp: has_budget_def serves_def\<close>)
qed

lemma budget_served:
  assumes "served env b m n m'" "reachable env m" "has_budget b k m"
  shows "reachable env m' \<and> n \<le> k \<and> has_budget b (k - n) m'"
  using assms(1)
proof (induction rule: served.induct)
  case here
  with assms(2,3) show ?case by simp
next
  case (own n m1 a m2)
  then have ok: "reachable env m1" "n \<le> k" "has_budget b (k - n) m1" by auto
  from budget_step [OF machine_reachable_ok [OF ok(1)] own.hyps(3) ok(3) own.hyps(4)] own.hyps(2)
  obtain j where "k - n = Suc j" "has_budget b j m2" by auto
  moreover from this have "k - Suc n = j" "Suc n \<le> k" using ok(2) by auto
  ultimately show ?case using ok(1) own.hyps(3) by (auto intro: reachable.step)
next
  case (other n m1 a m2)
  then have ok: "reachable env m1" "n \<le> k" "has_budget b (k - n) m1" by auto
  from budget_step [OF machine_reachable_ok [OF ok(1)] other.hyps(3) ok(3) other.hyps(4)] other.hyps(2) ok other.hyps(3)
  show ?case by (auto intro: reachable.step)
qed

text \<open>A scheduler always can take a step itself or has a task goroutine that can.\<close>

lemma sched_progress:
  assumes ok: "machine_ok m" and s: "s \<in> set (m_scheds m)"
  shows "\<exists>a m'. serves (sc_batch s) a m \<and> mstep env a m = Some m'"
proof -
  from s obtain k where k: "k < length (m_scheds m)" "m_scheds m ! k = s" by (auto simp: in_set_conv_nth)
  show ?thesis
  proof (cases "sc_flights s")
    case Nil
    have "sched_step env s (m_world m) \<noteq> None"
    proof (cases "sc_pc s")
      case (Dispatch b ts)
      with Nil show ?thesis by (cases ts) (auto simp: sched_step.simps concurrency_def)
    qed (auto simp: sched_step.simps finish_def Let_def split: sum.splits prod.splits)
    then obtain s' w where "sched_step env s (m_world m) = Some (s', w)" by auto
    with k have "mstep env (Sched k) m \<noteq> None" by (cases s') simp_all
    moreover have "serves (sc_batch s) (Sched k) m" unfolding serves_def using k by blast
    ultimately show ?thesis by blast
  next
    case (Cons f fs)
    then have "mstep env (Flight k 0) m \<noteq> None"
      using k by (cases f; cases "snd f") (auto simp: Let_def split: prog.splits)
    moreover have "serves (sc_batch s) (Flight k 0) m" unfolding serves_def using k by blast
    ultimately show ?thesis by blast
  qed
qed

text \<open>
  C25. Every upgrade run ends: once a scheduler has its snapshot, then however it is interleaved, the
  steps it and its task goroutines take before it returns are bounded by the tasks left, 380 for
  each (a task goroutine takes at most \<open>task_steps\<close> actions, its waits being bounded by their
  deadline), and until it returns one of them always can take a step.
\<close>

theorem scheduler_returns:
  assumes "reachable env m" "s \<in> set (m_scheds m)" "started s" "served env (sc_batch s) m n m'"
  shows "n \<le> 3 + (length (pc_tasks (sc_pc s)) + length (sc_flights s)) * 380 \<and>
    (\<exists>a m''. serves (sc_batch s) a m' \<and> mstep env a m' = Some m'')"
proof -
  note ok = machine_reachable_ok [OF assms(1)]
  with assms(2) have "sched_ok (tabs (m_world m)) s" by (simp add: machine_ok_def)
  from budget_start [OF this assms(3)] assms(2)
  have "has_budget (sc_batch s) (pc_cost (sc_pc s) + length (sc_flights s) * Suc task_steps) m" by (auto simp: has_budget_def)
  from budget_served [OF assms(4,1) this]
  have fin: "reachable env m'" "n \<le> pc_cost (sc_pc s) + length (sc_flights s) * Suc task_steps"
    "has_budget (sc_batch s) (pc_cost (sc_pc s) + length (sc_flights s) * Suc task_steps - n) m'" by auto
  from fin(3) obtain s' where "s' \<in> set (m_scheds m')" "sc_batch s' = sc_batch s" by (auto simp: has_budget_def)
  with sched_progress [OF machine_reachable_ok [OF fin(1)], of s'] have "\<exists>a m''. serves (sc_batch s) a m' \<and> mstep env a m' = Some m''" by metis
  moreover have "pc_cost (sc_pc s) + length (sc_flights s) * Suc task_steps \<le> 3 + (length (pc_tasks (sc_pc s)) + length (sc_flights s)) * 380"
    using assms(3) by (cases "sc_pc s") (auto simp: started_def task_steps_def)
  ultimately show ?thesis using fin(2) by simp
qed

text \<open>The demo's scheduler with the first task in flight and the second to come, and one step of it.\<close>

theorem scheduler_returns_witness:
  "\<exists>m s m'. reachable demo_env m \<and> s \<in> set (m_scheds m) \<and> started s \<and> sc_batch s = 1 \<and>
     served demo_env 1 m 1 m' \<and> (\<exists>a m''. serves 1 a m' \<and> mstep demo_env a m' = Some m'')"
proof -
  let ?P = "\<lambda>m. length (m_scheds m) = 1 \<and> sc_batch (m_scheds m ! 0) = 1 \<and> started (m_scheds m ! 0) \<and>
     (case mstep demo_env (Flight 0 0) m of None \<Rightarrow> False | Some m' \<Rightarrow> map sc_batch (m_scheds m') = [1])"
  have "case mrun demo_env demo_start demo_machine of None \<Rightarrow> False | Some m \<Rightarrow> ?P m"
    by code_simp
  then obtain m where m: "reachable demo_env m" "?P m" by (rule demo_run [OF demo_fresh(1)])
  then obtain m' where m': "mstep demo_env (Flight 0 0) m = Some m'" "map sc_batch (m_scheds m') = [1]"
    by (auto simp del: mstep.simps One_nat_def split: option.splits)
  from m(2) have s: "m_scheds m ! 0 \<in> set (m_scheds m)" by simp
  have "serves 1 (Flight 0 0) m" unfolding serves_def using m(2) by (intro exI [of _ 0]) simp
  moreover from m(2) s have "1 \<in> sc_batch ` set (m_scheds m)" by (metis imageI)
  moreover from m'(2) have "1 \<in> sc_batch ` set (m_scheds m')" by (metis list.set_intros(1) list.set_map)
  ultimately have "served demo_env 1 m 1 m'" using m'(1) served.own [OF served.here] by simp
  moreover from m(2) have b: "sc_batch (m_scheds m ! 0) = 1" "started (m_scheds m ! 0)" by auto
  ultimately have "\<exists>a m''. serves 1 a m' \<and> mstep demo_env a m' = Some m''"
    using scheduler_returns [OF m(1) s b(2), of 1 m', unfolded b(1)] by blast
  with m(1) s b \<open>served demo_env 1 m 1 m'\<close> show ?thesis by blast
qed

section \<open>A resume that is lost\<close>

text \<open>
  An administrator resumes a paused batch while its scheduler, which has already passed over the
  pending task, has not returned yet: \<open>Start\<close> finds the batch active and does nothing, the scheduler
  returns, and the batch is left running with a pending task and nobody to run it. It cannot be
  resumed again, being running; only a restart of the process picks it up.
\<close>

lemma resume_can_be_lost:
  "case mrun demo_env
      (demo_start @ replicate 10 (Flight 0 0) @ [Ask (AskResume 1), Call 0, Call 0] @ replicate 2 (Sched 0) @
       [Call 0, Call 0] @ replicate 2 (Sched 0)) broken_machine of
     None \<Rightarrow> False
   | Some m \<Rightarrow> batch_status 1 m = Some ''running'' \<and>
       map ut_Status (t_upgrade_tasks (tabs (m_world m))) = [''rollback_failed'', ''pending''] \<and>
       m_active m = [] \<and> m_scheds m = [] \<and> m_calls m = []"
  by code_simp

end
