(* ===== verification/ParkedVta.thy ===== *)
theory ParkedVta
  imports Cluster Sha256
begin

text \<open>
  The Deployment of a VTA-only session (\<open>internal/k8s/vta_resources.go\<close>) and the jobs that fill
  its volume (\<open>internal/k8s/setup_jobs.go\<close>).

  \<^item> A pool member's Deployment is created parked, without a pod. \<open>parked_update\<close> is what one
    round of \<open>updateParkedVtaDeployment\<close> decides on the Deployment it read: refuse it, leave it,
    or install the activation and start it. \<open>CancelPoolPrewarm\<close> takes an activation back.
  \<^item> A \<open>Get\<close>-modify-\<open>Update\<close> under \<open>RetryOnConflict\<close> is one interaction, as in \<open>Cluster\<close>.
  \<^item> A wait polls at most as often as its ticker fires before its deadline; whether the caller's
    context is done is asked of the environment at each poll.
\<close>

abbreviation "PoolActivationAnnotation \<equiv> ''vtafarm.ic3software.com/pool-activation-id''"
abbreviation "PoolPrewarmAnnotation \<equiv> ''vtafarm.ic3software.com/pool-prewarm-id''"
abbreviation "PoolPrewarmLabel \<equiv> ''vtafarm.ic3software.com/pool-prewarm''"
abbreviation "VtaActivationContainerName \<equiv> ''vta-activate''"
definition activationRestartLimit :: int where "activationRestartLimit = 3"

definition ErrPoolActivationConflict :: err where
  "ErrPoolActivationConflict = NewError ''pooled VTA activation conflicts with the existing Deployment''"

definition activation_conflict :: "string \<Rightarrow> err" where
  "activation_conflict detail =
     NewError (''pooled VTA activation conflicts with the existing Deployment: '' @ detail)"

record activation_spec =
  va_SessionID :: nat
  va_Image :: string
  va_AdminDID :: string
  va_AdminLabel :: string
  va_ControlDID :: string
  va_ActivationID :: string
  va_GateURL :: string

record pool_prewarm =
  pp_Namespace :: string
  pp_SessionID :: nat
  pp_ActivationID :: string

section \<open>The activation command\<close>

definition quoteShellArg :: "string \<Rightarrow> string" where
  "quoteShellArg v =
     [CHR 0x27] @ concat (map (\<lambda>c. if c = CHR 0x27 then [CHR 0x27, CHR 0x5C, CHR 0x27, CHR 0x27] else [c]) v) @ [CHR 0x27]"

text \<open>\<open>hex.DecodeString\<close>, the number of bytes only\<close>

definition hex_bytes :: "string \<Rightarrow> nat option" where
  "hex_bytes v =
     (if (\<forall>c \<in> set v. c \<in> set (hex_digits @ ''ABCDEF'')) \<and> even (length v) then Some (length v div 2) else None)"

text \<open>The part of \<open>url.Parse\<close>'s result the code reads; the parser is a parameter.\<close>

record url =
  ur_Scheme :: string
  ur_Host :: string
  ur_User :: bool
  ur_Path :: string
  ur_RawQuery :: string
  ur_Fragment :: string

definition gate_url_ok :: "(string \<Rightarrow> url option) \<Rightarrow> string \<Rightarrow> bool" where
  "gate_url_ok parse v =
     (case parse v of None \<Rightarrow> False
      | Some u \<Rightarrow> ur_Scheme u = ''https'' \<and> ur_Host u \<noteq> [] \<and> \<not> ur_User u \<and> ur_Fragment u = [])"

definition nl :: string where "nl = [CHR 0x0A]"

definition gate_loop :: "string \<Rightarrow> string" where
  "gate_loop gateURL =
     ''while :; do'' @ nl @
     ''  gate_status=$(curl --silent --output /dev/null --write-out '%{http_code}' --connect-timeout 2 --max-time 5 '' @
       quoteShellArg gateURL @ '' || true)'' @ nl @
     ''  case \"$gate_status\" in'' @ nl @
     ''    200) break ;;'' @ nl @
     ''    202|000) sleep 0.25 ;;'' @ nl @
     ''    410) echo 'VTA activation claim ended before confirmation' >&2; exit 42 ;;'' @ nl @
     ''    *) sleep 1 ;;'' @ nl @
     ''  esac'' @ nl @
     ''done'' @ nl"

definition receipt_lines :: "string \<Rightarrow> string \<Rightarrow> string" where
  "receipt_lines var activationID =
     ''  tmp=\"${'' @ var @ ''}.tmp.$$\"'' @ nl @
     ''  printf '%s'' @ [CHR 0x5C] @ ''n' '' @ quoteShellArg activationID @ '' >\"$tmp\"'' @ nl @
     ''  mv -f \"$tmp\" \"$'' @ var @ ''\"'' @ nl @
     ''fi'' @ nl"

definition import_lines :: "activation_spec \<Rightarrow> string" where
  "import_lines spec =
     ''receipt_dir=.vtafarm/activation/'' @ va_ActivationID spec @ nl @
     ''mkdir -p \"$receipt_dir\"'' @ nl @
     ''admin_receipt=\"$receipt_dir/admin-imported\"'' @ nl @
     ''if [ ! -f \"$admin_receipt\" ]; then'' @ nl @
     ''  if ! vta acl get '' @ quoteShellArg (va_AdminDID spec) @ '' >/dev/null 2>&1; then'' @ nl @
     ''    vta import-did --did '' @ quoteShellArg (va_AdminDID spec) @ '' --role admin'' @
       (if va_AdminLabel spec \<noteq> [] then '' --label '' @ quoteShellArg (va_AdminLabel spec) else []) @ nl @
     ''  fi'' @ nl @
     receipt_lines ''admin_receipt'' (va_ActivationID spec)"

definition control_lines :: "activation_spec \<Rightarrow> string" where
  "control_lines spec =
     ''control_receipt=\"$receipt_dir/control-server-added\"'' @ nl @
     ''if [ ! -f \"$control_receipt\" ]; then'' @ nl @
     ''  vta did-mgmt servers add --id control --did '' @ quoteShellArg (va_ControlDID spec) @
       '' --label 'DID Hosting Control Plane'' @ [CHR 0x27] @ nl @
     receipt_lines ''control_receipt'' (va_ActivationID spec)"

definition vtaActivationCommand :: "(string \<Rightarrow> url option) \<Rightarrow> activation_spec \<Rightarrow> err + string" where
  "vtaActivationCommand parse spec =
     (if hex_bytes (va_ActivationID spec) \<noteq> Some 16
      then Inl (NewError ''activation ID must be 32 hexadecimal characters'')
      else if va_SessionID spec = 0 \<or> va_Image spec = [] \<or> va_AdminDID spec = []
      then Inl (NewError ''activation requires session, image, and administrator DID'')
      else if va_GateURL spec \<noteq> [] \<and> \<not> gate_url_ok parse (va_GateURL spec)
      then Inl (NewError ''activation gate URL must be an absolute HTTPS URL'')
      else Inr (''set -eu'' @ nl @
                (if va_GateURL spec \<noteq> [] then gate_loop (va_GateURL spec) else []) @
                import_lines spec @
                (if va_ControlDID spec \<noteq> [] then control_lines spec else [])))"

section \<open>Activating a parked Deployment\<close>

definition activation_container :: "activation_spec \<Rightarrow> string \<Rightarrow> container" where
  "activation_container spec command =
     \<lparr>ct_Name = VtaActivationContainerName, ct_Image = va_Image spec, ct_Command = [''sh'', ''-c'', command],
      ct_Args = [], ct_WorkingDir = ''/work/vta'', ct_Env = [(''NO_COLOR'', ''1''), (''CLICOLOR'', ''0'')],
      ct_VolumeMounts = [(''data'', ''/work/vta'')]\<rparr>"

definition activationContainersEqual :: "container \<Rightarrow> container \<Rightarrow> bool" where
  "activationContainersEqual left right \<longleftrightarrow>
     ct_Name left = ct_Name right \<and> ct_Image left = ct_Image right \<and>
     ct_Command left = ct_Command right \<and> ct_Args left = ct_Args right \<and>
     ct_WorkingDir left = ct_WorkingDir right \<and> ct_Env left = ct_Env right \<and>
     ct_VolumeMounts left = ct_VolumeMounts right"

definition is_activation :: "container \<Rightarrow> bool" where
  "is_activation c \<longleftrightarrow> ct_Name c = VtaActivationContainerName"

definition vta_template :: "string \<Rightarrow> deployment \<Rightarrow> bool" where
  "vta_template img d \<longleftrightarrow> (case dp_Containers d of [c] \<Rightarrow> ct_Name c = ''vta'' \<and> ct_Image c = img | _ \<Rightarrow> False)"

abbreviation current_id :: "deployment \<Rightarrow> string" where
  "current_id d \<equiv> lookup_in (dp_TemplateAnnotations d) PoolActivationAnnotation"

abbreviation authorized_id :: "deployment \<Rightarrow> string" where
  "authorized_id d \<equiv> lookup_in (dp_Annotations d) PoolActivationAnnotation"

abbreviation prewarm_id :: "deployment \<Rightarrow> string" where
  "prewarm_id d \<equiv> lookup_in (dp_Annotations d) PoolPrewarmAnnotation"

definition install_activation :: "activation_spec \<Rightarrow> string \<Rightarrow> bool \<Rightarrow> deployment \<Rightarrow> deployment" where
  "install_activation spec command authorize d =
     (let d1 = d\<lparr>dp_InitContainers := (if \<exists>c \<in> set (dp_InitContainers d). is_activation c then dp_InitContainers d
                                       else dp_InitContainers d @ [activation_container spec command]),
                dp_TemplateAnnotations := (dp_TemplateAnnotations d)(PoolActivationAnnotation \<mapsto> va_ActivationID spec),
                dp_Replicas := Some 1\<rparr>
      in if authorize
         then d1\<lparr>dp_Annotations := ((dp_Annotations d1)(PoolActivationAnnotation \<mapsto> va_ActivationID spec))
                                      (PoolPrewarmAnnotation := None),
                 dp_Labels := (dp_Labels d1)(PoolPrewarmLabel := None)\<rparr>
         else d1\<lparr>dp_Annotations := (dp_Annotations d1)(PoolPrewarmAnnotation \<mapsto> va_ActivationID spec),
                 dp_Labels := (dp_Labels d1)(PoolPrewarmLabel \<mapsto> ''true'')\<rparr>)"

text \<open>\<open>Inr None\<close>: nothing to update.\<close>

definition parked_update :: "activation_spec \<Rightarrow> string \<Rightarrow> bool \<Rightarrow> deployment \<Rightarrow> err + deployment option" where
  "parked_update spec command authorize d =
     (let currentID = current_id d;
          authorizedID = authorized_id d;
          activation = activation_container spec command;
          found = (\<exists>c \<in> set (dp_InitContainers d). is_activation c);
          replicas = (case dp_Replicas d of None \<Rightarrow> 0 | Some n \<Rightarrow> n)
      in if currentID \<noteq> [] \<and> currentID \<noteq> va_ActivationID spec then Inl ErrPoolActivationConflict
         else if \<not> vta_template (va_Image spec) d
         then Inl (activation_conflict ''parked VTA template is incompatible'')
         else if (\<exists>c \<in> set (dp_InitContainers d). is_activation c \<and>
                   (currentID = [] \<or> \<not> activationContainersEqual c activation) \<and>
                   \<not> (currentID = va_ActivationID spec \<and> authorizedID = va_ActivationID spec))
         then Inl (activation_conflict ''activation init container does not match'')
         else if currentID \<noteq> [] \<and> \<not> found
         then Inl (activation_conflict ''activation annotation has no init container'')
         else if currentID = [] \<and> replicas \<noteq> 0
         then Inl (activation_conflict ''unclaimed Deployment is already running'')
         else if currentID = va_ActivationID spec \<and> found \<and> replicas = 1 \<and>
                 (\<not> authorize \<or> authorizedID = va_ActivationID spec)
         then Inr None
         else if \<not> authorize \<and> authorizedID \<noteq> []
         then Inl (activation_conflict ''activation is already authorized'')
         else Inr (Some (install_activation spec command authorize d)))"

text \<open>One round trip of a Deployment: \<open>f\<close> refuses, leaves or replaces what \<open>Get\<close> returned.\<close>

definition revise :: "string \<times> string \<Rightarrow> (deployment \<Rightarrow> err + deployment option) \<Rightarrow> farm \<Rightarrow> (err + unit) \<times> farm" where
  "revise key f d =
     (case k_deployments d key of
        None \<Rightarrow> (Inl LibraryFailure, d)
      | Some x \<Rightarrow>
          (case f x of
             Inl e \<Rightarrow> (Inl e, d)
           | Inr None \<Rightarrow> (Inr (), d)
           | Inr (Some y) \<Rightarrow> (Inr (), d\<lparr>k_deployments := (k_deployments d)(key \<mapsto> y)\<rparr>)))"

definition revising :: "string \<times> string \<Rightarrow> (deployment \<Rightarrow> err + deployment option) \<Rightarrow> (farm, unit) tx" where
  "revising key f = bnd (interact LibraryFailure (\<lambda>w. revise key f (tabs w))) lift_err"

definition updateParkedVtaDeployment ::
  "(string \<Rightarrow> url option) \<Rightarrow> string \<Rightarrow> activation_spec \<Rightarrow> bool \<Rightarrow> (farm, unit) tx" where
  "updateParkedVtaDeployment parse ns spec authorize =
     bnd (lift_err (vtaActivationCommand parse spec)) (\<lambda>command.
       revising (ns, VtaDeploymentName (va_SessionID spec)) (parked_update spec command authorize))"

definition PrewarmParkedVtaDeployment ::
  "(string \<Rightarrow> url option) \<Rightarrow> string \<Rightarrow> activation_spec \<Rightarrow> (farm, unit) tx" where
  "PrewarmParkedVtaDeployment parse ns spec =
     (if va_GateURL spec = [] then throw (NewError ''pool prewarm requires an activation gate URL'')
      else updateParkedVtaDeployment parse ns spec False)"

definition ActivateParkedVtaDeployment ::
  "(string \<Rightarrow> url option) \<Rightarrow> string \<Rightarrow> activation_spec \<Rightarrow> (farm, unit) tx" where
  "ActivateParkedVtaDeployment parse ns spec = updateParkedVtaDeployment parse ns spec True"

definition PoolActivationAuthorized :: "string \<Rightarrow> nat \<Rightarrow> string \<Rightarrow> (farm, bool) tx" where
  "PoolActivationAuthorized ns sessionID activationID =
     bnd (interact LibraryFailure (\<lambda>w. (k_deployments (tabs w) (ns, VtaDeploymentName sessionID), tabs w)))
       (\<lambda>r. case r of None \<Rightarrow> throw LibraryFailure | Some d \<Rightarrow> ret (authorized_id d = activationID))"

definition cancel_prewarm :: "string \<Rightarrow> deployment \<Rightarrow> err + deployment option" where
  "cancel_prewarm activationID d =
     (if authorized_id d \<noteq> [] then Inr None
      else if prewarm_id d \<noteq> activationID \<or> current_id d \<noteq> activationID then Inr None
      else Inr (Some (d\<lparr>dp_InitContainers := filter (\<lambda>c. \<not> is_activation c) (dp_InitContainers d),
                       dp_TemplateAnnotations := (dp_TemplateAnnotations d)(PoolActivationAnnotation := None),
                       dp_Annotations := (dp_Annotations d)(PoolPrewarmAnnotation := None),
                       dp_Labels := (dp_Labels d)(PoolPrewarmLabel := None),
                       dp_Replicas := Some 0\<rparr>)))"

definition CancelPoolPrewarm :: "string \<Rightarrow> nat \<Rightarrow> string \<Rightarrow> (farm, unit) tx" where
  "CancelPoolPrewarm ns sessionID activationID =
     revising (ns, VtaDeploymentName sessionID) (cancel_prewarm activationID)"

definition prewarm_of :: "string \<Rightarrow> deployment \<Rightarrow> pool_prewarm list" where
  "prewarm_of ns d =
     (if dp_Labels d PoolPrewarmLabel \<noteq> Some ''true'' then []
      else case ParseUint 64 (lookup_in (dp_TemplateLabels d) ''session-id'') of
        None \<Rightarrow> []
      | Some i \<Rightarrow> if i = 0 \<or> prewarm_id d = [] then []
                  else [\<lparr>pp_Namespace = ns, pp_SessionID = nat i, pp_ActivationID = prewarm_id d\<rparr>])"

definition ListPoolPrewarms :: "(farm, pool_prewarm list) tx" where
  "ListPoolPrewarms =
     interact LibraryFailure (\<lambda>w.
       (concat (map (\<lambda>key. case k_deployments (tabs w) key of None \<Rightarrow> [] | Some d \<Rightarrow> prewarm_of (fst key) d)
          (k_names (tabs w))), tabs w))"

section \<open>Waiting\<close>

definition activation_status_error :: "container_status \<Rightarrow> err option" where
  "activation_status_error cs =
     (let reason = (case cs_Waiting cs of None \<Rightarrow> [] | Some (r, _) \<Rightarrow> r);
          terminated = (if cs_Terminated cs = None \<and> reason = ''CrashLoopBackOff'' then cs_LastTerminated cs
                        else cs_Terminated cs)
      in if cs_Name cs \<noteq> VtaActivationContainerName then None
         else if reason \<in> {''CreateContainerConfigError'', ''ErrImagePull'', ''ImagePullBackOff'', ''InvalidImageName''}
         then Some (NewError (''VTA activation init could not start: '' @ reason))
         else case terminated of
           None \<Rightarrow> None
         | Some code \<Rightarrow>
             if code \<noteq> 0 \<and> activationRestartLimit \<le> cs_RestartCount cs
             then Some (NewError (''VTA activation init failed after '' @ FormatInt (cs_RestartCount cs) @
                    '' attempts (exit code '' @ FormatInt code @ '')''))
             else None)"

fun first_error :: "('a \<Rightarrow> err option) \<Rightarrow> 'a list \<Rightarrow> err option" where
  "first_error f [] = None"
| "first_error f (x # xs) = (case f x of Some e \<Rightarrow> Some e | None \<Rightarrow> first_error f xs)"

definition activationPodError :: "pod \<Rightarrow> err option" where
  "activationPodError p = first_error activation_status_error (pd_InitStatuses p)"

abbreviation "ContextDone \<equiv> NewError ''context canceled''"

definition list_pods :: "string \<times> string \<Rightarrow> (farm, pod list) tx" where
  "list_pods key = interact LibraryFailure (\<lambda>w. (k_pods (tabs w) key, tabs w))"

text \<open>What one pod of \<open>WaitForPoolPrewarm\<close>'s list says: \<open>Some None\<close> is \<open>return nil\<close>.\<close>

definition prewarm_pod :: "string \<Rightarrow> pod \<Rightarrow> err option option" where
  "prewarm_pod activationID p =
     (if lookup_in (pd_Annotations p) PoolActivationAnnotation \<noteq> activationID then None
      else if \<exists>cs \<in> set (pd_InitStatuses p). cs_Name cs = VtaActivationContainerName \<and>
                (cs_Running cs \<or> cs_Terminated cs = Some 0) then Some None
      else map_option Some (activationPodError p))"

fun first_some :: "('a \<Rightarrow> 'b option) \<Rightarrow> 'a list \<Rightarrow> 'b option" where
  "first_some f [] = None"
| "first_some f (x # xs) = (case f x of Some y \<Rightarrow> Some y | None \<Rightarrow> first_some f xs)"

definition WaitForPoolPrewarm :: "string \<Rightarrow> nat \<Rightarrow> string \<Rightarrow> int \<Rightarrow> (farm, err option) prog" where
  "WaitForPoolPrewarm ns sessionID activationID timeout =
     at_time (\<lambda>now.
       poll_each (nat (timeout div (second div 2))) (now + timeout)
         (check (list_pods (ns, VtaDeploymentName sessionID)) (\<lambda>_. Return None)
            (\<lambda>pods. Return (first_some (prewarm_pod activationID) pods)))
         (Some ContextDone)
         (Some (NewError (''timeout waiting for pooled VTA '' @ FormatUint (int sessionID) @ '' prewarm gate''))))"

definition WaitForVtaActivation :: "string \<Rightarrow> nat \<Rightarrow> int \<Rightarrow> (farm, err option) prog" where
  "WaitForVtaActivation ns sessionID timeout =
     (let name = VtaDeploymentName sessionID;
          decide = (\<lambda>deployment pods.
            case first_error activationPodError pods of
              Some e \<Rightarrow> Some (Some e)
            | None \<Rightarrow>
                (case deployment of
                   Some d \<Rightarrow> if dp_Generation d \<le> dp_ObservedGeneration d \<and> 0 < dp_ReadyReplicas d then Some None else None
                 | None \<Rightarrow> None))
      in at_time (\<lambda>now.
           poll_each (nat (timeout div second)) (now + timeout)
             (check (interact LibraryFailure (\<lambda>w. (k_deployments (tabs w) (ns, name), tabs w)))
                (\<lambda>_. check (list_pods (ns, name)) (\<lambda>_. Return None) (\<lambda>pods. Return (decide None pods)))
                (\<lambda>d. check (list_pods (ns, name)) (\<lambda>_. Return (decide d [])) (\<lambda>pods. Return (decide d pods))))
             (Some ContextDone)
             (Some (NewError (''timeout waiting for pooled VTA deployment '' @ name @ '' to become ready'')))))"

definition WaitForComponentDeploymentReady :: "string \<Rightarrow> string \<Rightarrow> int \<Rightarrow> (farm, err option) prog" where
  "WaitForComponentDeploymentReady ns name timeout =
     at_time (\<lambda>now.
       poll_each (nat (timeout div (2 * second))) (now + timeout)
         (check (interact LibraryFailure (\<lambda>w. (k_deployments (tabs w) (ns, name), tabs w)))
            (\<lambda>_. Return None)
            (\<lambda>r. case r of
               Some d \<Rightarrow> if 0 < dp_ReadyReplicas d then Return (Some None) else Return None
             | None \<Rightarrow> Return None))
         (Some ContextDone)
         (Some (NewError (''timeout waiting for deployment '' @ name @ '' to become ready''))))"

section \<open>Creating the Deployment and the jobs\<close>

text \<open>\<open>AlreadyExists\<close> is not an error: an object that is there stays as it is.\<close>

definition VtaTuningEnv :: "(string \<times> string) list" where
  "VtaTuningEnv =
     [(''STORAGE_FJALL_BLOCK_CACHE'', ''8388608''), (''STORAGE_FJALL_WRITE_BUFFER'', ''16777216''),
      (''STORAGE_FJALL_MAX_JOURNAL'', ''67108864'')]"

definition vta_labels :: "nat \<Rightarrow> string_map" where
  "vta_labels sessionID = [''app'' \<mapsto> ''vta'', ''session-id'' \<mapsto> FormatUint (int sessionID)]"

definition vta_deployment :: "nat \<Rightarrow> string \<Rightarrow> int \<Rightarrow> deployment" where
  "vta_deployment sessionID img replicas =
     blank_deployment
       \<lparr>dp_Labels := vta_labels sessionID, dp_TemplateLabels := vta_labels sessionID, dp_Replicas := Some replicas,
        dp_Claims := [VtaPVCName sessionID],
        dp_Containers :=
          [\<lparr>ct_Name = ''vta'', ct_Image = img, ct_Command = [''vta''], ct_Args = [], ct_WorkingDir = ''/work/vta'',
            ct_Env = [(''NO_COLOR'', ''1''), (''CLICOLOR'', ''0'')] @ VtaTuningEnv,
            ct_VolumeMounts = [(''data'', ''/work/vta'')]\<rparr>]\<rparr>"

definition createVtaDeployment :: "string \<Rightarrow> nat \<Rightarrow> string \<Rightarrow> int \<Rightarrow> (farm, unit) tx" where
  "createVtaDeployment ns sessionID img replicas =
     interact LibraryFailure (\<lambda>w.
       let key = (ns, VtaDeploymentName sessionID) in
       case k_deployments (tabs w) key of
         Some _ \<Rightarrow> ((), tabs w)
       | None \<Rightarrow> ((), (tabs w)\<lparr>k_deployments := (k_deployments (tabs w))(key \<mapsto> vta_deployment sessionID img replicas),
                               k_names := k_names (tabs w) @ [key]\<rparr>))"

definition CreateVtaDeployment :: "string \<Rightarrow> nat \<Rightarrow> string \<Rightarrow> (farm, unit) tx" where
  "CreateVtaDeployment ns sessionID img = createVtaDeployment ns sessionID img 1"

definition CreateParkedVtaDeployment :: "string \<Rightarrow> nat \<Rightarrow> string \<Rightarrow> (farm, unit) tx" where
  "CreateParkedVtaDeployment ns sessionID img = createVtaDeployment ns sessionID img 0"

definition ScaleComponentDeployment :: "string \<Rightarrow> string \<Rightarrow> int \<Rightarrow> (farm, unit) tx" where
  "ScaleComponentDeployment ns name replicas =
     revising (ns, name) (\<lambda>d. Inr (Some (d\<lparr>dp_Replicas := Some replicas\<rparr>)))"

definition create_job :: "string \<times> string \<Rightarrow> job \<Rightarrow> (farm, unit) tx" where
  "create_job key j =
     interact LibraryFailure (\<lambda>w.
       case k_jobs (tabs w) key of
         Some _ \<Rightarrow> ((), tabs w)
       | None \<Rightarrow> ((), (tabs w)\<lparr>k_jobs := (k_jobs (tabs w))(key \<mapsto> j)\<rparr>))"

text \<open>A call whose effect the model does not keep: objects the farm only creates and deletes.\<close>

definition call_cluster :: "(farm, unit) tx" where
  "call_cluster = interact LibraryFailure (\<lambda>w. ((), tabs w))"

definition new_job :: "bool \<Rightarrow> string list \<Rightarrow> container \<Rightarrow> job" where
  "new_job expires claims c =
    \<lparr>jb_Containers = [c], jb_ServiceAccount = VtaServiceAccount, jb_Claims = claims, jb_Expires = expires, jb_Active = 0,
     jb_Succeeded = 0, jb_Failed = 0, jb_Conditions = [], jb_Logs = None\<rparr>"

definition create_config :: "string \<times> string \<Rightarrow> (string \<times> string) list \<Rightarrow> (farm, unit) tx" where
  "create_config key files =
     interact LibraryFailure (\<lambda>w.
       case k_configs (tabs w) key of
         Some _ \<Rightarrow> ((), tabs w)
       | None \<Rightarrow> ((), (tabs w)\<lparr>k_configs := (k_configs (tabs w))(key \<mapsto> files)\<rparr>))"

definition setup_container :: "string \<Rightarrow> container" where
  "setup_container img =
     \<lparr>ct_Name = ''vta-setup'', ct_Image = img,
      ct_Command = [''sh'', ''-c'', ''vta setup --from /config/vta-setup.toml 2>&1 && echo '---DID_LOG_START---' && cat /work/vta/data/vta/did-logs/VTA-did.jsonl''],
      ct_Args = [], ct_WorkingDir = ''/work/vta'', ct_Env = [],
      ct_VolumeMounts = [(''config'', ''/config''), (''data'', ''/work/vta'')]\<rparr>"

text \<open>The volume claim, the ConfigMap the job mounts, and the job.\<close>

fun call_all :: "(farm, unit) tx list \<Rightarrow> (farm, err option) prog" where
  "call_all [] = Return None"
| "call_all (m # ms) = check m (\<lambda>e. Return (Some e)) (\<lambda>_. call_all ms)"

definition CreateSetupResources :: "string \<Rightarrow> nat \<Rightarrow> string \<Rightarrow> string \<Rightarrow> (farm, err option) prog" where
  "CreateSetupResources ns sessionID toml vtaImage =
     call_all
       [call_cluster,
        create_config (ns, SetupJobName sessionID) [(''vta-setup.toml'', toml)],
        create_job (ns, SetupJobName sessionID) (new_job True [VtaPVCName sessionID] (setup_container vtaImage))]"

definition provision_command :: "string \<Rightarrow> string \<Rightarrow> string \<Rightarrow> string" where
  "provision_command adminDid adminLabel controlDid =
     ''vta import-did --did '' @ quoteShellArg adminDid @ '' --role admin'' @
     (if adminLabel \<noteq> [] then '' --label '' @ quoteShellArg adminLabel else []) @
     (if controlDid \<noteq> []
      then '' && vta did-mgmt servers add --id control --did '' @ quoteShellArg controlDid @
           '' --label 'DID Hosting Control Plane'' @ [CHR 0x27]
      else [])"

definition CreateProvisionJob ::
  "string \<Rightarrow> nat \<Rightarrow> string \<Rightarrow> string \<Rightarrow> string \<Rightarrow> string \<Rightarrow> (farm, unit) tx" where
  "CreateProvisionJob ns sessionID img adminDid adminLabel controlDid =
     create_job (ns, ProvisionJobName sessionID)
       (new_job False [VtaPVCName sessionID] \<lparr>ct_Name = ''vta-provision'', ct_Image = img,
          ct_Command = [''sh'', ''-c'', provision_command adminDid adminLabel controlDid], ct_Args = [],
          ct_WorkingDir = ''/work/vta'', ct_Env = [], ct_VolumeMounts = [(''data'', ''/work/vta'')]\<rparr>)"

definition HasProvisionJob :: "string \<Rightarrow> nat \<Rightarrow> (farm, bool) tx" where
  "HasProvisionJob ns sessionID =
     interact LibraryFailure (\<lambda>w. (k_jobs (tabs w) (ns, ProvisionJobName sessionID) \<noteq> None, tabs w))"

text \<open>The first terminal condition decides; the flag says whether the job succeeded.\<close>

fun job_outcome :: "(string \<times> bool \<times> string) list \<Rightarrow> (bool \<times> string) option" where
  "job_outcome [] = None"
| "job_outcome ((kind, status, message) # cs) =
     (if kind = ''Complete'' \<and> status then Some (True, [])
      else if kind = ''Failed'' \<and> status
      then Some (False, if message = [] then ''job failed without message'' else message)
      else job_outcome cs)"

text \<open>
  \<open>WaitForJob\<close> has no deadline of its own; \<open>polls\<close> is how often the process lives to poll.
\<close>

primrec WaitForJob :: "nat \<Rightarrow> string \<Rightarrow> string \<Rightarrow> (farm, err + (bool \<times> string)) prog" where
  "WaitForJob 0 ns jobName = Return (Inl ContextDone)"
| "WaitForJob (Suc n) ns jobName =
     check (interact LibraryFailure (\<lambda>w. (k_jobs (tabs w) (ns, jobName), tabs w)))
       (\<lambda>e. Return (Inl e))
       (\<lambda>r. case r of None \<Rightarrow> Return (Inl LibraryFailure)
        | Some j \<Rightarrow>
            (case job_outcome (jb_Conditions j) of
               Some outcome \<Rightarrow> Return (Inr outcome)
             | None \<Rightarrow>
                 check ctx_done (\<lambda>_. Return (Inl ContextDone)) (\<lambda>gone.
                   if gone then Return (Inl ContextDone) else WaitForJob n ns jobName)))"

definition JobLogs :: "string \<Rightarrow> string \<Rightarrow> (farm, string) tx" where
  "JobLogs ns jobName =
     bnd (interact LibraryFailure (\<lambda>w. (k_jobs (tabs w) (ns, jobName), tabs w)))
       (\<lambda>r. case r of None \<Rightarrow> throw LibraryFailure
        | Some j \<Rightarrow> (case jb_Logs j of None \<Rightarrow> throw LibraryFailure | Some logs \<Rightarrow> ret logs))"

section \<open>Teardown\<close>

text \<open>Best effort: every deletion is tried, its error dropped.\<close>

definition delete_job :: "string \<times> string \<Rightarrow> (farm, unit) tx" where
  "delete_job key = interact LibraryFailure (\<lambda>w. ((), (tabs w)\<lparr>k_jobs := (k_jobs (tabs w))(key := None)\<rparr>))"

definition delete_config :: "string \<times> string \<Rightarrow> (farm, unit) tx" where
  "delete_config key = interact LibraryFailure (\<lambda>w. ((), (tabs w)\<lparr>k_configs := (k_configs (tabs w))(key := None)\<rparr>))"

definition delete_deployment :: "string \<times> string \<Rightarrow> (farm, unit) tx" where
  "delete_deployment key =
     interact LibraryFailure (\<lambda>w. ((), (tabs w)\<lparr>k_deployments := (k_deployments (tabs w))(key := None),
       k_names := filter (\<lambda>k. k \<noteq> key) (k_names (tabs w))\<rparr>))"

definition DeleteSetupResources :: "string \<Rightarrow> nat \<Rightarrow> (farm, unit) prog" where
  "DeleteSetupResources ns sessionID =
     ignore (delete_job (ns, SetupJobName sessionID))
     (ignore (delete_config (ns, SetupJobName sessionID))
     (Return ()))"

definition DeleteComponentJob :: "string \<Rightarrow> string \<Rightarrow> (farm, 'a) prog \<Rightarrow> (farm, 'a) prog" where
  "DeleteComponentJob ns name p =
     ignore (delete_job (ns, name))
     (ignore (delete_config (ns, name))
     (ignore call_cluster p))"

definition DeleteVtaResources :: "string \<Rightarrow> nat \<Rightarrow> (farm, unit) prog" where
  "DeleteVtaResources ns sessionID =
     ignore (delete_deployment (ns, VtaDeploymentName sessionID))
     (ignore call_cluster
     (ignore call_cluster
     (ignore (delete_job (ns, ProvisionJobName sessionID))
     (ignore (delete_job (ns, VtaACLJobName sessionID))
     (DeleteComponentJob ns (FSJobConfigUpdate sessionID)
     (DeleteComponentJob ns (FSJobConfigRollback sessionID)
     (ignore call_cluster
     (Return ()))))))))"

end
