(* ===== verification/SetupText.thy ===== *)
theory SetupText
  imports ParkedVta
begin

text \<open>
  The texts of the setup flow: host names and DID paths (\<open>internal/setup/subdomain.go\<close>), what is
  read out of the logs of a setup job (\<open>parser.go\<close>), and the configuration the job is given
  (\<open>templates.go\<close>). The JSON lexer is a parameter, as in the other theories.
\<close>

section \<open>Names\<close>

definition maxNameLength :: nat where "maxNameLength = 48"
definition reservedNamePrefix :: string where "reservedNamePrefix = ''vtafarm''"

definition name_char :: "char \<Rightarrow> bool" where
  "name_char c \<longleftrightarrow> c \<in> set ''abcdefghijklmnopqrstuvwxyz0123456789''"

text \<open>\<open>^[a-z0-9]+(-[a-z0-9]+)*$\<close>\<close>

definition namePattern :: "string \<Rightarrow> bool" where
  "namePattern s \<longleftrightarrow> (\<forall>p \<in> set (SplitOn (CHR ''-'') s). p \<noteq> [] \<and> (\<forall>c \<in> set p. name_char c))"

definition ValidateName :: "string \<Rightarrow> string option" where
  "ValidateName name =
     (if maxNameLength < length name then Some (''must be at most '' @ FormatUint (int maxNameLength) @ '' characters'')
      else if HasPrefix name reservedNamePrefix then Some (''names beginning with \"'' @ reservedNamePrefix @ ''\" are reserved'')
      else if \<not> namePattern name
      then Some ''Only lowercase letters, digits, and hyphens are allowed. Consecutive hyphens (--) are not permitted, and names must start and end with a letter or digit''
      else None)"

definition EnvPrefix :: "string \<Rightarrow> string" where
  "EnvPrefix env = (if env = ''development'' then ''dev-'' else [])"

definition componentHost :: "string \<Rightarrow> string \<Rightarrow> string \<Rightarrow> string" where
  "componentHost env component name =
     (if name = [] then EnvPrefix env @ component else EnvPrefix env @ component @ ''-'' @ name)"

definition CNAMETarget :: "string \<Rightarrow> string \<Rightarrow> string" where
  "CNAMETarget env clusterDomain = EnvPrefix env @ ''lb.'' @ clusterDomain"

definition VtaHost :: "string \<Rightarrow> string \<Rightarrow> string" where
  "VtaHost env vtaName = componentHost env ''vta'' vtaName"

definition FullStackHosts :: "string \<Rightarrow> string \<Rightarrow> string \<Rightarrow> string \<times> string \<times> string \<times> string" where
  "FullStackHosts env vtaName vtcName =
     (componentHost env ''vta'' vtaName, componentHost env ''mediator'' vtaName,
      componentHost env ''dids'' vtaName, componentHost env ''vtc'' vtcName)"

definition FixedHosts :: "string \<Rightarrow> string \<times> string \<times> string \<times> string" where
  "FixedHosts env =
     (componentHost env ''vta'' [], componentHost env ''mediator'' [],
      componentHost env ''dids'' [], componentHost env ''vtc'' [])"

definition VtaDidPath :: "string \<Rightarrow> string" where "VtaDidPath vtaName = vtaName @ ''-vta''"
definition MediatorDidPath :: "string \<Rightarrow> string" where "MediatorDidPath vtaName = vtaName @ ''-mediator''"
definition VtcDidPath :: "string \<Rightarrow> string" where "VtcDidPath vtcName = vtcName @ ''-vtc''"

section \<open>What a setup job printed\<close>

text \<open>\<open>\s\<close> of RE2\<close>

definition re_space :: "char \<Rightarrow> bool" where
  "re_space c \<longleftrightarrow> c \<in> {CHR 0x09, CHR 0x0A, CHR 0x0C, CHR 0x0D, CHR '' ''}"

text \<open>\<open>(?i)vta did:\s*(did:\S+)\<close>, at one position and leftmost\<close>

definition match_did :: "string \<Rightarrow> string option" where
  "match_did s =
     (let rest = dropWhile re_space (drop 8 s);
          tail = takeWhile (\<lambda>c. \<not> re_space c) (drop 4 rest)
      in if ToLower (take 8 s) = ''vta did:'' \<and> ToLower (take 4 rest) = ''did:'' \<and> tail \<noteq> []
         then Some (take 4 rest @ tail) else None)"

fun ParseVtaDID :: "string \<Rightarrow> err + string" where
  "ParseVtaDID [] = Inl (NewError ''VTA DID not found in setup output'')"
| "ParseVtaDID (c # s) = (case match_did (c # s) of Some did \<Rightarrow> Inr did | None \<Rightarrow> ParseVtaDID s)"

definition didLogMarker :: string where "didLogMarker = ''---DID_LOG_START---''"
definition MaxVtaDIDLogBytes :: nat where "MaxVtaDIDLogBytes = 1048576"

definition isVtaDidLogEntry :: "(string \<Rightarrow> json option) \<Rightarrow> string \<Rightarrow> bool" where
  "isVtaDidLogEntry parse line =
     (case parse line of None \<Rightarrow> False
      | Some j \<Rightarrow>
          (case um_struct (struct_field um_string ''versionId'' []) [] j of
             None \<Rightarrow> False
           | Some v \<Rightarrow> v \<noteq> []))"

fun log_entries :: "(string \<Rightarrow> bool) \<Rightarrow> bool \<Rightarrow> string list \<Rightarrow> string list option" where
  "log_entries entry started [] = Some []"
| "log_entries entry started (l # ls) =
     (let line = TrimSpace l in
      if line = [] then log_entries entry started ls
      else if \<not> entry line then (if started then None else log_entries entry started ls)
      else map_option ((#) line) (log_entries entry True ls))"

definition normalizeVtaDidLog :: "(string \<Rightarrow> json option) \<Rightarrow> string \<Rightarrow> string" where
  "normalizeVtaDidLog parse output =
     (case log_entries (isVtaDidLogEntry parse) False (SplitOn (CHR 0x0A) output) of
        None \<Rightarrow> []
      | Some entries \<Rightarrow> Join entries nl)"

definition ParseVtaDidLog :: "(string \<Rightarrow> json option) \<Rightarrow> string \<Rightarrow> string" where
  "ParseVtaDidLog parse logs =
     (case Index logs didLogMarker of
        None \<Rightarrow> []
      | Some idx \<Rightarrow> normalizeVtaDidLog parse (drop (idx + length didLogMarker) logs))"

section \<open>The configuration of a setup job\<close>

record vault_secrets =
  vs_Addr :: string
  vs_SecretPath :: string
  vs_KVMount :: string
  vs_K8sRole :: string
  vs_SkipVerify :: bool

definition show_bool :: "bool \<Rightarrow> string" where
  "show_bool b = (if b then ''true'' else ''false'')"

definition quoted :: "string \<Rightarrow> string" where
  "quoted v = ''\"'' @ v @ ''\"''"

definition RenderVtaSetupTOML :: "setup_session \<Rightarrow> vault_secrets \<Rightarrow> string" where
  "RenderVtaSetupTOML s vault =
     ''config_path = \"config.toml\"'' @ nl @
     ''data_dir    = \"data/vta\"'' @ nl @
     ''vta_name    = '' @ quoted (ss_VtaName s) @ nl @
     ''public_url  = '' @ quoted (PublicURL s) @ nl @
     nl @
     ''[services]'' @ nl @
     ''rest    = true'' @ nl @
     ''didcomm = true'' @ nl @
     ''tsp     = true'' @ nl @
     nl @
     ''[server]'' @ nl @
     ''host = \"0.0.0.0\"'' @ nl @
     ''port = 8100'' @ nl @
     ''cors_origins = ['' @ nl @
     ''  \"chrome-extension://dbjgfkjlgfamanmbiihldgncpjeknphl\" # VTA Wallet, pinned key'' @ nl @
     '']'' @ nl @
     nl @
     ''[log]'' @ nl @
     ''level  = \"info\"'' @ nl @
     ''format = \"text\"'' @ nl @
     nl @
     ''[secrets]'' @ nl @
     ''backend     = \"vault\"'' @ nl @
     ''addr        = '' @ quoted (vs_Addr vault) @ nl @
     ''secret_path = '' @ quoted (vs_SecretPath vault) @ nl @
     ''kv_mount    = '' @ quoted (vs_KVMount vault) @ nl @
     ''secret_key  = \"seed\"'' @ nl @
     ''auth_method = \"kubernetes\"'' @ nl @
     ''k8s_role    = '' @ quoted (vs_K8sRole vault) @ nl @
     ''skip_verify = '' @ show_bool (vs_SkipVerify vault) @ nl @
     nl @
     ''[messaging]'' @ nl @
     ''kind = \"existing\"'' @ nl @
     ''did  = '' @ quoted (ss_MediatorDid s) @ nl @
     nl @
     ''[vta_did]'' @ nl @
     ''kind               = \"create_webvh\"'' @ nl @
     ''url                = '' @ quoted (ss_VtaDidUrl s) @ nl @
     ''portable           = '' @ show_bool (ss_Portable s) @ nl @
     ''pre_rotation_count = '' @ FormatInt (ss_PreRotationCount s) @ nl"

text \<open>Paths in the vault (\<open>internal/vault/client.go\<close>).\<close>

definition VtaPrefix :: "nat \<Rightarrow> nat \<Rightarrow> string" where
  "VtaPrefix userID sessionID = ''vta/user-'' @ FormatUint (int userID) @ ''/session-'' @ FormatUint (int sessionID)"

definition SeedPath :: "nat \<Rightarrow> nat \<Rightarrow> string" where
  "SeedPath userID sessionID = VtaPrefix userID sessionID @ ''/master-seed''"

definition UserName :: "nat \<Rightarrow> string" where
  "UserName userID = ''vta-user-'' @ FormatUint (int userID)"

end
