(* ===== verification/SetupFlow.thy ===== *)
theory SetupFlow
  imports SetupText PoolProps
begin

text \<open>
  The setup of a VTA-only session (\<open>internal/setup/orchestrator.go\<close>, \<open>initial_provision.go\<close>) and the
  client factory of the DID hosts (\<open>internal/didhosting/factory.go\<close>).

  \<^item> Every function is a \<open>prog\<close>: each statement and each call of the cluster, of the vault, of a
    DID host is one action, between which everything else goes on.
  \<^item> A \<open>prog\<close> that starts goroutines returns the sessions it kicked.
  \<^item> A call may reach its service and still fail: the reply is an action of its own.
  \<^item> \<open>orch\<close> holds what the \<open>Orchestrator\<close> is built with, the JSON lexer, \<open>url.Parse\<close> and the text
    of errors; \<open>or_polls\<close> is how often a process lives to poll a job.
\<close>

record orch =
  or_namespacePrefix :: string
  or_Error :: "err \<Rightarrow> string"
  or_json :: "string \<Rightarrow> json option"
  or_url :: "string \<Rightarrow> url option"
  or_gateBase :: string
  or_vault :: "(string \<times> string) option"
  or_hosting :: "bool option"
  or_cf :: bool
  or_polls :: nat

definition session_ns :: "orch \<Rightarrow> setup_session \<Rightarrow> string" where
  "session_ns o' s = UserNamespace (or_namespacePrefix o') (FormatUint (int (ss_UserID s)))"

definition em_dash :: string where "em_dash = [CHR 0xE2, CHR 0x80, CHR 0x94]"

section \<open>Rows\<close>

definition update_session :: "nat \<Rightarrow> (setup_session \<Rightarrow> setup_session) \<Rightarrow> 'a db_scheme \<Rightarrow> 'a db_scheme" where
  "update_session i f d = d\<lparr>t_sessions := update_where (\<lambda>s. ss_ID s = i) f (t_sessions d)\<rparr>"

definition isPoolSession :: "nat \<Rightarrow> (farm, bool) tx" where
  "isPoolSession sessionID = select (\<lambda>d. count_where (\<lambda>m. ps_SessionID m = sessionID) (t_members d) = 1)"

definition failed_row :: "string \<Rightarrow> string \<Rightarrow> int \<Rightarrow> setup_session \<Rightarrow> setup_session" where
  "failed_row stage msg now s =
     s\<lparr>ss_FailedStage := (if ss_Status s = ''failed'' then ss_FailedStage s
                         else if stage \<noteq> [] then stage else ss_Status s),
       ss_Status := ''failed'', ss_ErrorMsg := msg, ss_UpdatedAt := now\<rparr>"

definition markFailedAt :: "nat \<Rightarrow> string \<Rightarrow> string \<Rightarrow> (farm, 'a) prog \<Rightarrow> (farm, 'a) prog" where
  "markFailedAt sessionID stage msg p =
     at_time (\<lambda>now. ignore (exec (update_session sessionID (failed_row stage msg now))) p)"

definition markFailed :: "nat \<Rightarrow> string \<Rightarrow> (farm, 'a) prog \<Rightarrow> (farm, 'a) prog" where
  "markFailed sessionID msg p = markFailedAt sessionID [] msg p"

text \<open>\<open>if ctx.Err() != nil { return }\<close>\<close>

definition unless_done :: "(farm, 'a) prog \<Rightarrow> (farm, 'a) prog \<Rightarrow> (farm, 'a) prog" where
  "unless_done stop p = check ctx_done (\<lambda>_. stop) (\<lambda>gone. if gone then stop else p)"

section \<open>Services\<close>

text \<open>A service called for its effect elsewhere: the vault, name resolution, the cluster's small objects.\<close>

definition call_service :: "(farm, unit) tx" where
  "call_service = interact LibraryFailure (\<lambda>w. ((), tabs w))"

text \<open>Namespace, two service accounts, role and role binding.\<close>

definition EnsureUserEnvironment :: "(farm, err option) prog" where
  "EnsureUserEnvironment = call_all [call_cluster, call_cluster, call_cluster, call_cluster, call_cluster]"

definition trim_slashes :: "string \<Rightarrow> string" where
  "trim_slashes s = rev (dropWhile (\<lambda>c. c = CHR ''/'') (rev s))"

definition checkAudience :: "string \<Rightarrow> string \<Rightarrow> string \<Rightarrow> err option" where
  "checkAudience base serverDid expected =
     (if serverDid = expected then None
      else Some (NewError (''DID hosting client for '' @ base @ '' is pinned to service DID \"'' @ serverDid @
             ''\", requested \"'' @ expected @ ''\"'')))"

text \<open>A client is its base URL and the service DID it is pinned to; \<open>New\<close> fails on unusable keys.\<close>

definition HostingFor :: "orch \<Rightarrow> string \<Rightarrow> string \<Rightarrow> (farm, string \<times> string) tx" where
  "HostingFor o' controlURL expected w =
     (let base = trim_slashes controlURL in
      case or_hosting o' of
        None \<Rightarrow> (Inl (NewError ''DID hosting not configured (no client keypair)''), w)
      | Some keys_ok \<Rightarrow>
          if base = [] then (Inl (NewError ''session has no DID hosting control URL''), w)
          else if expected = [] then (Inl (NewError ''session has no DID hosting service DID''), w)
          else case dh_clients (tabs w) base of
            Some did \<Rightarrow>
              (case checkAudience base did expected of Some e \<Rightarrow> (Inl e, w) | None \<Rightarrow> (Inr (base, did), w))
          | None \<Rightarrow>
              if \<not> keys_ok then (Inl LibraryFailure, w)
              else (Inr (base, expected), w\<lparr>tabs := (tabs w)\<lparr>dh_clients := (dh_clients (tabs w))(base \<mapsto> expected)\<rparr>\<rparr>))"

definition send_task :: "hosting_task \<Rightarrow> (farm, err option) prog" where
  "send_task t =
     call_all [interact LibraryFailure (\<lambda>w. ((), (tabs w)\<lparr>dh_sent := t # dh_sent (tabs w)\<rparr>)), call_service]"

definition RegisterDid :: "string \<times> string \<Rightarrow> string \<Rightarrow> string \<Rightarrow> (farm, err option) prog" where
  "RegisterDid dh path didLog = send_task (Registered (fst dh) path didLog)"

definition CreateAcl :: "string \<times> string \<Rightarrow> string \<Rightarrow> string \<Rightarrow> string \<Rightarrow> (farm, err option) prog" where
  "CreateAcl dh did role label = send_task (Granted (fst dh) did role label)"

definition ResolveDID :: "(farm, unit) tx" where
  "ResolveDID = call_service"

section \<open>Publishing the DID of a pool member\<close>

definition published_row :: "string \<Rightarrow> setup_session \<Rightarrow> setup_session" where
  "published_row didLog s =
     s\<lparr>ss_Status := StatusPoolPrepared, ss_ErrorMsg := [], ss_FailedStage := [], ss_VtaDidLog := didLog\<rparr>"

definition mark_published :: "nat \<Rightarrow> string \<Rightarrow> (farm, err option) prog" where
  "mark_published sessionID didLog =
     check (exec (update_session sessionID (\<lambda>s. if ss_Status s \<noteq> ''deleting'' then published_row didLog s else s)))
       (\<lambda>e. Return (Some e)) (\<lambda>_. Return None)"

definition publishPoolDID :: "orch \<Rightarrow> nat \<Rightarrow> (farm, err option) prog" where
  "publishPoolDID o' sessionID =
     check (first (session_row sessionID)) (\<lambda>e. Return (Some e)) (\<lambda>s.
     if or_hosting o' = None \<or> ss_VtaDid s = [] \<or> ss_VtaDidLog s = []
     then Return (Some (NewError ''pool DID publication is not configured or its log is missing''))
     else let didLog = normalizeVtaDidLog (or_json o') (ss_VtaDidLog s) in
     if didLog = [] then Return (Some (NewError ''pool DID log is malformed''))
     else
     check (HostingFor o' (ss_DidHostingControlURL s) (ss_DIDHostingDid s)) (\<lambda>e. Return (Some e)) (\<lambda>dh.
     check ResolveDID
       (\<lambda>_. pbind (RegisterDid dh (VtaDidPath (ss_VtaName s)) didLog) (\<lambda>r. case r of
              Some e \<Rightarrow> Return (Some e)
            | None \<Rightarrow> check ResolveDID (\<lambda>e. Return (Some e)) (\<lambda>_. mark_published sessionID didLog)))
       (\<lambda>_. mark_published sessionID didLog)))"

section \<open>Phase 1: the setup job\<close>

definition queueProvision :: "nat \<Rightarrow> string \<Rightarrow> (farm, nat list) prog" where
  "queueProvision sessionID adminDid =
     check (on_db (AcceptManual sessionID adminDid True)) (\<lambda>_. Return []) (\<lambda>_. Return [sessionID])"

definition setup_status :: "string \<Rightarrow> int \<Rightarrow> setup_session \<Rightarrow> setup_session" where
  "setup_status status now s = s\<lparr>ss_Status := status, ss_UpdatedAt := now\<rparr>"

definition setup_result :: "string \<Rightarrow> string \<Rightarrow> string \<Rightarrow> int \<Rightarrow> setup_session \<Rightarrow> setup_session" where
  "setup_result status vtaDID stored now s =
     s\<lparr>ss_Status := status, ss_VtaDid := vtaDID, ss_VtaDidLog := stored, ss_UpdatedAt := now\<rparr>"

definition url_path :: "orch \<Rightarrow> string \<Rightarrow> string" where
  "url_path o' v = (case or_url o' v of None \<Rightarrow> v | Some u \<Rightarrow> TrimPrefix (ur_Path u) ''/'')"

definition auto_provision :: "nat \<Rightarrow> setup_session \<Rightarrow> (farm, nat list) prog" where
  "auto_provision sessionID session =
     (if ss_AdminDid session \<noteq> [] then queueProvision sessionID (ss_AdminDid session) else Return [])"

definition publish_log :: "orch \<Rightarrow> nat \<Rightarrow> setup_session \<Rightarrow> string \<Rightarrow> (farm, nat list) prog" where
  "publish_log o' sessionID session didLog =
     (if or_hosting o' = None then auto_provision sessionID session
      else if didLog = []
      then markFailedAt sessionID ''vta_setup_running''
             (''VTA setup produced no DID log to publish '' @ em_dash @ '' the agent's DID would never resolve'') (Return [])
      else if ss_VtaDidUrl session = []
      then markFailedAt sessionID ''vta_setup_running''
             (''session has no VTA DID URL '' @ em_dash @ '' cannot publish the agent's DID'') (Return [])
      else
        check (HostingFor o' (ss_DidHostingControlURL session) (ss_DIDHostingDid session))
          (\<lambda>e. markFailedAt sessionID ''vta_setup_running''
             (''cannot reach the DID hosting control API at '' @ ss_DidHostingControlURL session @ '': '' @ or_Error o' e)
             (Return []))
          (\<lambda>dh. pbind (RegisterDid dh (url_path o' (ss_VtaDidUrl session)) didLog) (\<lambda>r. case r of
             Some e \<Rightarrow> unless_done (Return [])
               (markFailedAt sessionID ''vta_setup_running''
                  (''failed to publish the agent's DID to '' @ ss_DidHostingControlURL session @ '': '' @ or_Error o' e)
                  (Return []))
           | None \<Rightarrow> auto_provision sessionID session)))"

definition after_setup :: "orch \<Rightarrow> nat \<Rightarrow> setup_session \<Rightarrow> bool \<Rightarrow> string \<Rightarrow> (farm, nat list) prog" where
  "after_setup o' sessionID session pooled didLog =
     (if pooled
      then pbind (publishPoolDID o' sessionID) (\<lambda>r. case r of
             None \<Rightarrow> Return []
           | Some e \<Rightarrow> unless_done (Return []) (markFailed sessionID (or_Error o' e) (Return [])))
      else if ss_ConnectionSource session = ConnectionExternal then Return []
      else publish_log o' sessionID session didLog)"

definition save_setup ::
  "orch \<Rightarrow> nat \<Rightarrow> setup_session \<Rightarrow> bool \<Rightarrow> string \<Rightarrow> string \<Rightarrow> (farm, nat list) prog" where
  "save_setup o' sessionID session pooled vtaDID didLog =
     (let external = ss_ConnectionSource session = ConnectionExternal;
          (readyStatus, stored) =
            (if pooled then (StatusPoolPublishing, didLog)
             else if external then (''awaiting_did_publication'', didLog)
             else (''vta_setup_complete'', []))
      in if (external \<or> pooled) \<and> (didLog = [] \<or> MaxVtaDIDLogBytes \<le> length didLog)
         then markFailed sessionID ''VTA setup produced no usable DID log for external publication'' (Return [])
         else at_time (\<lambda>now.
           check (exec (update_session sessionID (setup_result readyStatus vtaDID stored now)))
             (\<lambda>e. markFailed sessionID (''failed to save VTA setup result: '' @ or_Error o' e) (Return []))
             (\<lambda>_. after_setup o' sessionID session pooled didLog)))"

definition read_setup :: "orch \<Rightarrow> nat \<Rightarrow> setup_session \<Rightarrow> bool \<Rightarrow> (farm, nat list) prog" where
  "read_setup o' sessionID session pooled =
     check (JobLogs (session_ns o' session) (SetupJobName sessionID))
       (\<lambda>e. markFailed sessionID (''failed to read job logs: '' @ or_Error o' e) (Return []))
       (\<lambda>logs. case ParseVtaDID logs of
          Inl e \<Rightarrow> markFailed sessionID (''job succeeded but VTA DID not found in output: '' @ or_Error o' e) (Return [])
        | Inr vtaDID \<Rightarrow> save_setup o' sessionID session pooled vtaDID (ParseVtaDidLog (or_json o') logs))"

text \<open>The message of a failed job, with its logs when they can be read.\<close>

definition with_job_logs :: "string \<Rightarrow> string \<Rightarrow> string \<Rightarrow> (string \<Rightarrow> (farm, 'a) prog) \<Rightarrow> (farm, 'a) prog" where
  "with_job_logs ns jobName failMsg k =
     check (JobLogs ns jobName) (\<lambda>_. k failMsg)
       (\<lambda>logs. k (if logs \<noteq> [] then failMsg @ nl @ nl @ ''--- Job Logs ---'' @ nl @ logs else failMsg))"

definition await_setup :: "orch \<Rightarrow> nat \<Rightarrow> setup_session \<Rightarrow> bool \<Rightarrow> (farm, nat list) prog" where
  "await_setup o' sessionID session pooled =
     (let ns = session_ns o' session in
      pbind (WaitForJob (or_polls o') ns (SetupJobName sessionID)) (\<lambda>r. case r of
        Inl e \<Rightarrow> unless_done (Return []) (markFailed sessionID (''job watch error: '' @ or_Error o' e) (Return []))
      | Inr (succeeded, failMsg) \<Rightarrow>
          if \<not> succeeded then with_job_logs ns (SetupJobName sessionID) failMsg (\<lambda>msg. markFailed sessionID msg (Return []))
          else read_setup o' sessionID session pooled))"

definition start_setup :: "orch \<Rightarrow> nat \<Rightarrow> setup_session \<Rightarrow> bool \<Rightarrow> string \<times> string \<Rightarrow> (farm, nat list) prog" where
  "start_setup o' sessionID session pooled vault =
     (let toml = RenderVtaSetupTOML session
            \<lparr>vs_Addr = fst vault, vs_SecretPath = SeedPath (ss_UserID session) sessionID, vs_KVMount = snd vault,
             vs_K8sRole = UserName (ss_UserID session), vs_SkipVerify = True\<rparr>
      in pbind (CreateSetupResources (session_ns o' session) sessionID toml (ss_VtaImage session)) (\<lambda>r. case r of
           Some e \<Rightarrow> unless_done (Return [])
             (markFailed sessionID (''failed to create k8s resources: '' @ or_Error o' e) (Return []))
         | None \<Rightarrow>
             at_time (\<lambda>now. ignore (exec (update_session sessionID (setup_status ''vta_setup_running'' now)))
               (await_setup o' sessionID session pooled))))"

definition runSetup :: "orch \<Rightarrow> nat \<Rightarrow> (farm, nat list) prog" where
  "runSetup o' sessionID =
     check (first (session_row sessionID)) (\<lambda>_. Return []) (\<lambda>session.
     check (isPoolSession sessionID) (\<lambda>_. Return []) (\<lambda>pooled.
     pbind EnsureUserEnvironment (\<lambda>r. case r of
       Some e \<Rightarrow> unless_done (Return [])
         (markFailed sessionID (''failed to ensure k8s namespace: '' @ or_Error o' e) (Return []))
     | None \<Rightarrow>
         (case or_vault o' of
            None \<Rightarrow> markFailed sessionID
                      ''vault not configured: set VAULT_ADDR/VAULT_ROLE_ID/VAULT_SECRET_ID'' (Return [])
          | Some vault \<Rightarrow>
              check call_service
                (\<lambda>e. unless_done (Return [])
                   (markFailed sessionID (''failed to provision vault access: '' @ or_Error o' e) (Return [])))
                (\<lambda>_. start_setup o' sessionID session pooled vault)))))"

end
