(* ===== verification/PoolBuild.thy ===== *)
theory PoolBuild
  imports SetupFlow
begin

text \<open>
  The pool worker (\<open>internal/pool/runner.go\<close>) and what it is configured with: the preparation of a
  member (\<open>prepareSession\<close> of \<open>handler/admin_pool.go\<close>) and its build (\<open>BuildPool\<close> of
  \<open>setup/orchestrator.go\<close>). The worker's function fields are arguments of \<open>runOne\<close>; \<open>None\<close> is Go's
  \<open>nil\<close>. A session-level advisory lock is held on its own connection; when releasing it fails the
  connection is dropped, which releases it too.
\<close>

section \<open>Advisory locks\<close>

definition workerLockClass :: nat where "workerLockClass = 565445"
definition provisionLockClass :: nat where "provisionLockClass = 565441"

definition try_lock :: "nat \<Rightarrow> nat \<Rightarrow> (farm, bool) tx" where
  "try_lock class key =
     interact DbFailure (\<lambda>w.
       if (class, key) \<in> set (pg_locks (tabs w)) then (False, tabs w)
       else (True, (tabs w)\<lparr>pg_locks := (class, key) # pg_locks (tabs w)\<rparr>))"

definition unlock :: "nat \<Rightarrow> nat \<Rightarrow> (farm, unit) tx" where
  "unlock class key w =
     (Inr (), w\<lparr>tabs := (tabs w)\<lparr>pg_locks := remove1 (class, key) (pg_locks (tabs w))\<rparr>, tick := Suc (tick w)\<rparr>)"

definition with_lock :: "nat \<Rightarrow> nat \<Rightarrow> (farm, unit) prog \<Rightarrow> (farm, unit) prog" where
  "with_lock class key p =
     check (try_lock class key) (\<lambda>_. Return ()) (\<lambda>locked.
       if \<not> locked then Return ()
       else pbind p (\<lambda>_. ignore (unlock class key) (Return ())))"

section \<open>Preparing a member\<close>

definition ensure_record :: "(farm, string) tx" where
  "ensure_record = interact LibraryFailure (\<lambda>w. (uuids w (tick w), tabs w))"

definition wants_record :: "setup_session \<Rightarrow> bool" where
  "wants_record s \<longleftrightarrow> ss_CFRecordID s = [] \<and> ss_Status s \<noteq> ''deleting''"

definition store_record :: "nat \<Rightarrow> string \<Rightarrow> (farm, nat) tx" where
  "store_record sessionID recordID =
     exec_count (\<lambda>d. count_where (\<lambda>s. ss_ID s = sessionID \<and> wants_record s) (t_sessions d))
       (update_session sessionID (\<lambda>s. if wants_record s then s\<lparr>ss_CFRecordID := recordID\<rparr> else s))"

definition prepareSession :: "orch \<Rightarrow> nat \<Rightarrow> (farm, err option) prog" where
  "prepareSession o' sessionID =
     (if \<not> or_cf o' then Return (Some (NewError ''cloudflare is not configured''))
      else
      check (first (session_row sessionID)) (\<lambda>e. Return (Some e)) (\<lambda>session.
      check (on_db (IsSession sessionID)) (\<lambda>e. Return (Some e)) (\<lambda>member.
      if \<not> member \<or> ss_Status session = ''deleting'' then Return (Some PoolErrConflict)
      else if ss_CFRecordID session \<noteq> [] then Return None
      else
      check ensure_record (\<lambda>e. Return (Some (NewError (''failed to create DNS record: '' @ or_Error o' e)))) (\<lambda>recordID.
      check (store_record sessionID recordID) (\<lambda>e. Return (Some e)) (\<lambda>updated.
      if updated \<noteq> 0 then Return None
      else
      check (first (session_row sessionID)) (\<lambda>e. Return (Some e)) (\<lambda>current.
      if ss_Status current = ''deleting'' then Return (Some PoolErrConflict)
      else if ss_CFRecordID current = []
      then Return (Some (NewError ''DNS record ownership changed during pool preparation''))
      else Return None))))))"

section \<open>Building a member\<close>

definition saved_resources :: "nat \<Rightarrow> farm \<Rightarrow> workload_resource option" where
  "saved_resources sessionID d =
     find (\<lambda>r. wr_SetupSessionID r = sessionID \<and> wr_Component r = ''vta'') (t_resources d)"

text \<open>\<open>resourceprofile.Load\<close> reads the defaults of the resource settings.\<close>

definition load_profiles :: "(farm, unit) tx" where
  "load_profiles = call_service"

definition waiting_row :: "int \<Rightarrow> setup_session \<Rightarrow> setup_session" where
  "waiting_row now s =
     s\<lparr>ss_Status := StatusPoolWaiting, ss_ErrorMsg := [], ss_FailedStage := [], ss_UpdatedAt := now\<rparr>"

definition park :: "orch \<Rightarrow> nat \<Rightarrow> setup_session \<Rightarrow> (farm, err option) prog" where
  "park o' sessionID session =
     (let ns = session_ns o' session in
      check load_profiles (\<lambda>e. Return (Some e)) (\<lambda>_.
      check (first (saved_resources sessionID)) (\<lambda>e. Return (Some e)) (\<lambda>_.
      pbind (call_all [CreateParkedVtaDeployment ns sessionID (ss_VtaImage session), call_cluster, call_cluster])
        (\<lambda>r. case r of Some e \<Rightarrow> Return (Some e)
         | None \<Rightarrow>
             at_time (\<lambda>now. check (exec (update_session sessionID (waiting_row now)))
               (\<lambda>e. Return (Some e)) (\<lambda>_. Return None))))))"

definition BuildPool :: "orch \<Rightarrow> nat \<Rightarrow> (farm, err option) prog" where
  "BuildPool o' sessionID =
     check (first (session_row sessionID)) (\<lambda>e. Return (Some e)) (\<lambda>session.
     check (isPoolSession sessionID) (\<lambda>e. Return (Some e)) (\<lambda>pooled.
     if \<not> pooled \<or> ss_AdminDid session \<noteq> [] \<or> ss_Status session = ''deleting'' then Return (Some ErrConflict)
     else if ss_Status session = StatusPoolWaiting then Return None
     else
     pbind (if ss_VtaDid session = [] then pbind (runSetup o' sessionID) (\<lambda>_. Return None)
            else publishPoolDID o' sessionID) (\<lambda>r. case r of
       Some e \<Rightarrow> Return (Some e)
     | None \<Rightarrow>
         unless_done (Return (Some ContextDone))
           (check (first (session_row sessionID)) (\<lambda>e. Return (Some e)) (\<lambda>s.
            if ss_Status s \<noteq> StatusPoolPrepared
            then Return (Some (NewError (''pool setup did not complete: '' @ ss_ErrorMsg s)))
            else park o' sessionID s)))))"

section \<open>The worker\<close>

definition build_failed_row :: "string \<Rightarrow> setup_session \<Rightarrow> setup_session" where
  "build_failed_row msg s =
     (if ss_Status s \<noteq> ''deleting'' then s\<lparr>ss_Status := ''failed'', ss_ErrorMsg := msg\<rparr> else s)"

definition recordBuildError :: "orch \<Rightarrow> nat \<Rightarrow> err \<Rightarrow> (farm, unit) prog" where
  "recordBuildError o' sessionID e =
     ignore (exec (update_session sessionID (build_failed_row (or_Error o' e)))) (Return ())"

definition recordCleanupError :: "orch \<Rightarrow> nat \<Rightarrow> err \<Rightarrow> (farm, unit) prog" where
  "recordCleanupError o' sessionID e =
     ignore (exec (update_session sessionID
       (\<lambda>s. if ss_Status s = ''deleting'' then s\<lparr>ss_ErrorMsg := or_Error o' e\<rparr> else s))) (Return ())"

type_synonym worker_fun = "nat \<Rightarrow> (farm, err option) prog"

definition work_on ::
  "orch \<Rightarrow> worker_fun option \<Rightarrow> worker_fun option \<Rightarrow> worker_fun option \<Rightarrow> nat \<Rightarrow> (farm, unit) prog" where
  "work_on o' prepare build cleanup sessionID =
     check (first (session_row sessionID)) (\<lambda>_. Return ()) (\<lambda>session.
     if ss_Status session = ''deleting'' then
       (case cleanup of None \<Rightarrow> Return ()
        | Some f \<Rightarrow> pbind (f sessionID) (\<lambda>r. case r of None \<Rightarrow> Return ()
            | Some e \<Rightarrow> unless_done (Return ()) (recordCleanupError o' sessionID e)))
     else if ss_Status session = StatusPoolWaiting \<or> ss_Status session = ''running'' \<or> ss_Status session = ''failed''
     then Return ()
     else (case (prepare, build) of
         (Some p, Some b) \<Rightarrow>
           pbind (p sessionID) (\<lambda>r. case r of
             Some e \<Rightarrow> unless_done (Return ()) (recordBuildError o' sessionID e)
           | None \<Rightarrow>
               pbind (b sessionID) (\<lambda>r. case r of None \<Rightarrow> Return ()
                 | Some e \<Rightarrow> unless_done (Return ()) (recordBuildError o' sessionID e)))
       | _ \<Rightarrow> recordBuildError o' sessionID (NewError ''pool worker is not configured'')))"

definition runOne ::
  "orch \<Rightarrow> worker_fun option \<Rightarrow> worker_fun option \<Rightarrow> worker_fun option \<Rightarrow> nat \<Rightarrow> (farm, unit) prog" where
  "runOne o' prepare build cleanup sessionID =
     with_lock workerLockClass sessionID (work_on o' prepare build cleanup sessionID)"

text \<open>The queue of the workers: a full one drops the session, the reconciliation brings it back.\<close>

definition Kick :: "nat \<Rightarrow> nat list \<Rightarrow> nat list" where
  "Kick sessionID queue = (if length queue < 256 then queue @ [sessionID] else queue)"

definition unfinished_members :: "farm \<Rightarrow> nat list" where
  "unfinished_members d =
     take 500 (sort (map ps_SessionID (filter
       (\<lambda>m. \<exists>s \<in> set (t_sessions d). ss_ID s = ps_SessionID m \<and>
            ss_Status s \<in> {StatusPoolCreating, ''vta_setup_running'', StatusPoolPublishing, StatusPoolPrepared, ''deleting''})
       (t_members d))))"

definition pool_reconcile :: "nat list \<Rightarrow> (farm, nat list) prog" where
  "pool_reconcile queue =
     check (select unfinished_members) (\<lambda>_. Return queue) (\<lambda>ids.
       ignore (on_db FinalizeEmptyBatchCleanups) (Return (fold Kick ids queue)))"

end
