(* ===== verification/Activation.thy ===== *)
theory Activation
  imports PoolBuild
begin

text \<open>
  Provisioning a VTA-only session and activating a pool member: \<open>setup/initial_provision.go\<close>,
  \<open>pool_prewarm.go\<close>, \<open>pool_activation.go\<close>, phase 2 of \<open>orchestrator.go\<close>, and the gate a prewarmed
  pod polls (\<open>handler/pool_activation_gate.go\<close>).

  The goroutines share the database and the cluster and nothing else: the provision worker of a
  session (\<open>runProvisionOperation\<close>, under the session's advisory lock), the prewarm reconciler
  (\<open>reconcilePoolPrewarm\<close>), the two recovery loops' bodies, and the gate's handler. Cancelling a
  goroutine, by a newer kick or by the heartbeat that sees the session deleted, is its context
  being done, which the environment decides.
\<close>

section \<open>Identities\<close>

definition PoolActivationID :: "nat \<Rightarrow> string \<Rightarrow> string" where
  "PoolActivationID sessionID requestID =
     hex (take 16 (sha256 (''pool-activation:v1:'' @ FormatUint (int sessionID) @ '':'' @ requestID)))"

definition poolActivationGateURL :: "orch \<Rightarrow> nat \<Rightarrow> string \<Rightarrow> string" where
  "poolActivationGateURL o' sessionID activationID =
     (if or_gateBase o' = [] then []
      else or_gateBase o' @ ''/'' @ FormatUint (int sessionID) @ ''/'' @ activationID)"

abbreviation "MobileAdminLabel \<equiv> ''mobile integration''"

definition activation_spec_for ::
  "orch \<Rightarrow> setup_session \<Rightarrow> string \<Rightarrow> string \<Rightarrow> string \<Rightarrow> string \<Rightarrow> activation_spec" where
  "activation_spec_for o' session adminDID adminLabel controlDID activationID =
     \<lparr>va_SessionID = ss_ID session, va_Image = ss_VtaImage session, va_AdminDID = adminDID,
      va_AdminLabel = adminLabel, va_ControlDID = controlDID, va_ActivationID = activationID,
      va_GateURL = poolActivationGateURL o' (ss_ID session) activationID\<rparr>"

section \<open>Prewarming\<close>

definition poolPrewarmControlDID :: "orch \<Rightarrow> setup_session \<Rightarrow> (farm, string) tx" where
  "poolPrewarmControlDID o' session =
     (if ss_ConnectionSource session = ConnectionExternal then ret (ss_DIDHostingDid session)
      else if or_hosting o' = None then ret []
      else bnd (HostingFor o' (ss_DidHostingControlURL session) (ss_DIDHostingDid session)) (\<lambda>dh. ret (snd dh)))"

definition start_prewarm :: "orch \<Rightarrow> setup_session \<Rightarrow> mobile_connection \<Rightarrow> (farm, unit) prog" where
  "start_prewarm o' session conn =
     (let ns = session_ns o' session; activationID = PoolActivationID (ss_ID session) (mc_ID conn) in
      if ss_Status session \<noteq> StatusPoolWaiting \<or> ss_AdminDid session \<noteq> [] \<or>
         mc_Operation conn \<noteq> OperationProvisionVTA
      then Return ()
      else if or_gateBase o' = [] then Return ()
      else
      check (poolPrewarmControlDID o' session) (\<lambda>_. Return ()) (\<lambda>controlDID.
      check (PrewarmParkedVtaDeployment (or_url o') ns
               (activation_spec_for o' session (mc_AdminDid conn) MobileAdminLabel controlDID activationID))
        (\<lambda>_. Return ()) (\<lambda>_.
      pbind (WaitForPoolPrewarm ns (ss_ID session) activationID (2 * minute)) (\<lambda>_. Return ()))))"

definition settle_prewarm :: "orch \<Rightarrow> setup_session \<Rightarrow> mobile_connection \<Rightarrow> (farm, unit) prog" where
  "settle_prewarm o' session conn =
     (if mc_Status conn = ''claimed'' then start_prewarm o' session conn
      else if mc_Status conn \<in> {''confirmed'', ''provisioning'', ''released''} then Return ()
      else ignore (CancelPoolPrewarm (session_ns o' session) (ss_ID session)
                     (PoolActivationID (ss_ID session) (mc_ID conn))) (Return ()))"

definition reconcilePoolPrewarm :: "orch \<Rightarrow> nat \<Rightarrow> (farm, unit) prog" where
  "reconcilePoolPrewarm o' sessionID =
     check (first (session_row sessionID)) (\<lambda>_. Return ()) (\<lambda>session.
     check (isPoolSession sessionID) (\<lambda>_. Return ()) (\<lambda>pooled.
     if \<not> pooled then Return ()
     else
     check (on_db (Current sessionID)) (\<lambda>_. Return ()) (\<lambda>current. case current of
       None \<Rightarrow> Return ()
     | Some conn \<Rightarrow>
         if mc_Status conn = ''claimed''
         then check (on_db (Reconcile (Some conn) session)) (\<lambda>_. Return ()) (\<lambda>c. case c of
                None \<Rightarrow> Return () | Some conn' \<Rightarrow> settle_prewarm o' session conn')
         else settle_prewarm o' session conn)))"

text \<open>One round of the recovery loop: the sessions it kicks, in order.\<close>

definition claimed_members :: "farm \<Rightarrow> nat list" where
  "claimed_members d =
     remdups [mc_SessionID r. r \<leftarrow> t_conns d, m \<leftarrow> t_members d, mc_Status r = ''claimed'' \<and> ps_SessionID m = mc_SessionID r]"

definition reconcilePoolPrewarmQueue :: "(farm, nat list) prog" where
  "reconcilePoolPrewarmQueue =
     check (select claimed_members) (\<lambda>_. Return []) (\<lambda>claimed.
     check ListPoolPrewarms (\<lambda>_. Return claimed) (\<lambda>prewarms.
       Return (claimed @ filter (\<lambda>i. i \<notin> set claimed) (map pp_SessionID prewarms))))"

section \<open>Activating a confirmed claim\<close>

definition activation_claim :: "nat \<Rightarrow> string \<Rightarrow> mobile_connection \<Rightarrow> bool" where
  "activation_claim sessionID adminDID r \<longleftrightarrow>
     mc_SessionID r = sessionID \<and> mc_Operation r = OperationProvisionVTA \<and> mc_AdminDid r = adminDID \<and>
     mc_ConfirmedAt r \<noteq> None \<and> mc_Status r \<in> {''confirmed'', ''provisioning'', ''released''}"

definition loadPoolActivation :: "nat \<Rightarrow> string \<Rightarrow> (farm, mobile_connection) tx" where
  "loadPoolActivation sessionID adminDID =
     first (\<lambda>d. latest (filter (activation_claim sessionID adminDID) (t_conns d)))"

definition record_provision_error :: "string \<Rightarrow> string \<Rightarrow> 'a db_scheme \<Rightarrow> 'a db_scheme" where
  "record_provision_error requestID msg d =
     d\<lparr>t_conns := update_where (\<lambda>r. mc_ID r = requestID \<and> mc_Status r \<in> {''confirmed'', ''provisioning''})
        (\<lambda>r. r\<lparr>mc_ProvisionError := msg\<rparr>) (t_conns d)\<rparr>"

definition failPoolActivation :: "nat \<Rightarrow> string \<Rightarrow> string \<Rightarrow> (farm, bool) prog" where
  "failPoolActivation sessionID requestID stage =
     (let safe = ''pooled VTA activation failed during '' @ stage in
      markFailedAt sessionID ''pool_activation'' safe
        (if requestID \<noteq> [] then ignore (exec (record_provision_error requestID safe)) (Return True)
         else Return True))"

definition running_row :: "int \<Rightarrow> setup_session \<Rightarrow> setup_session" where
  "running_row now s =
     s\<lparr>ss_Status := ''running'', ss_ErrorMsg := [], ss_FailedStage := [], ss_UpdatedAt := now\<rparr>"

definition finishVtaOnlyDeployment :: "nat \<Rightarrow> bool \<Rightarrow> (farm, 'a) prog \<Rightarrow> (farm, 'a) prog" where
  "finishVtaOnlyDeployment sessionID pooled p =
     at_time (\<lambda>now. ignore (exec (update_session sessionID (running_row now)))
       (if \<not> pooled then p
        else check (on_db (Current sessionID)) (\<lambda>_. p) (\<lambda>current. case current of
          None \<Rightarrow> p
        | Some c \<Rightarrow> ignore (on_db (MarkReleased (mc_ID c))) p)))"

text \<open>\<open>True\<close>: the session was handled here, for better or worse.\<close>

definition activate_member ::
  "orch \<Rightarrow> setup_session \<Rightarrow> string \<Rightarrow> string \<Rightarrow> string \<Rightarrow> mobile_connection \<Rightarrow> (farm, bool) prog" where
  "activate_member o' session adminDID adminLabel controlDID conn =
     (let ns = session_ns o' session; i = ss_ID session; activationID = PoolActivationID i (mc_ID conn) in
      check (ActivateParkedVtaDeployment (or_url o') ns
               (activation_spec_for o' session adminDID adminLabel controlDID activationID))
        (\<lambda>_. failPoolActivation i (mc_ID conn) ''patch_deployment'') (\<lambda>_.
      pbind (WaitForVtaActivation ns i (2 * minute)) (\<lambda>r. case r of
        Some _ \<Rightarrow> unless_done (Return True) (failPoolActivation i (mc_ID conn) ''wait_for_readiness'')
      | None \<Rightarrow> finishVtaOnlyDeployment i True (Return True))))"

definition runPoolActivation ::
  "orch \<Rightarrow> setup_session \<Rightarrow> string \<Rightarrow> string \<Rightarrow> string \<Rightarrow> (farm, bool) prog" where
  "runPoolActivation o' session adminDID adminLabel controlDID =
     (let i = ss_ID session in
      check (isPoolSession i) (\<lambda>_. failPoolActivation i [] ''identify_pool'') (\<lambda>pooled.
      if \<not> pooled then Return False
      else
      check (HasProvisionJob (session_ns o' session) i) (\<lambda>_. failPoolActivation i [] ''legacy_check'') (\<lambda>legacy.
      if legacy then Return False
      else
      check (loadPoolActivation i adminDID) (\<lambda>_. failPoolActivation i [] ''load_claim'') (\<lambda>conn.
      activate_member o' session adminDID adminLabel controlDID conn))))"

section \<open>Phase 2: provisioning\<close>

definition labelled_claim :: "nat \<Rightarrow> string \<Rightarrow> mobile_connection \<Rightarrow> bool" where
  "labelled_claim sessionID adminDid r \<longleftrightarrow>
     mc_SessionID r = sessionID \<and> mc_Operation r = OperationProvisionVTA \<and> mc_AdminDid r = adminDid \<and>
     mc_Status r \<in> {''accepted'', ''confirmed'', ''provisioning'', ''released''}"

definition provisionAdminLabel :: "nat \<Rightarrow> string \<Rightarrow> string \<Rightarrow> (string \<Rightarrow> (farm, 'a) prog) \<Rightarrow> (farm, 'a) prog" where
  "provisionAdminLabel sessionID adminDid fallback k =
     check (select (\<lambda>d. count_where (labelled_claim sessionID adminDid) (t_conns d))) (\<lambda>_. k fallback)
       (\<lambda>n. k (if 0 < n then MobileAdminLabel else fallback))"

text \<open>Whether the session is pooled, and the error when the deployment failed.\<close>

definition deployVtaOnly :: "orch \<Rightarrow> setup_session \<Rightarrow> (farm, bool \<times> string option) prog" where
  "deployVtaOnly o' session =
     (let i = ss_ID session; ns = session_ns o' session;
          failed = (\<lambda>pooled what e. Return (pooled, Some (what @ '': '' @ or_Error o' e))) in
      check load_profiles (failed False ''failed to load resource defaults'') (\<lambda>_.
      check (isPoolSession i) (failed False ''failed to identify pool session'') (\<lambda>pooled.
      let deploy =
        check (CreateVtaDeployment ns i (ss_VtaImage session)) (failed pooled ''failed to create VTA deployment'') (\<lambda>_.
        pbind (if pooled then call_all [ScaleComponentDeployment ns (VtaDeploymentName i) 1] else Return None) (\<lambda>r. case r of
          Some e \<Rightarrow> failed pooled ''failed to start prebuilt VTA deployment'' e
        | None \<Rightarrow>
            check call_cluster (failed pooled ''failed to create VTA service'') (\<lambda>_.
            check call_cluster (failed pooled ''failed to create VTA ingress'') (\<lambda>_.
            pbind (WaitForComponentDeploymentReady ns (VtaDeploymentName i) (2 * minute)) (\<lambda>r. case r of
              Some e \<Rightarrow> failed pooled ''VTA deployment did not become ready'' e
            | None \<Rightarrow> Return (pooled, None))))))
      in if pooled
         then check (first (saved_resources i)) (failed False ''pool resource profile is missing'') (\<lambda>_. deploy)
         else deploy)))"

definition deploy_and_finish :: "orch \<Rightarrow> setup_session \<Rightarrow> (farm, unit) prog" where
  "deploy_and_finish o' session =
     pbind (deployVtaOnly o' session) (\<lambda>(pooled, r). case r of
       Some msg \<Rightarrow> unless_done (Return ()) (markFailedAt (ss_ID session) ''deploy_vta'' msg (Return ()))
     | None \<Rightarrow> finishVtaOnlyDeployment (ss_ID session) pooled (Return ()))"

definition provision_by_job :: "orch \<Rightarrow> setup_session \<Rightarrow> string \<Rightarrow> string \<Rightarrow> string \<Rightarrow> (farm, unit) prog" where
  "provision_by_job o' session adminDid adminLabel controlDid =
     (let i = ss_ID session; ns = session_ns o' session in
      check (CreateProvisionJob ns i (ss_VtaImage session) adminDid adminLabel controlDid)
        (\<lambda>e. unless_done (Return ()) (markFailed i (''failed to create provision job: '' @ or_Error o' e) (Return ()))) (\<lambda>_.
      pbind (WaitForJob (or_polls o') ns (ProvisionJobName i)) (\<lambda>r. case r of
        Inl e \<Rightarrow> unless_done (Return ()) (markFailed i (''provision job watch error: '' @ or_Error o' e) (Return ()))
      | Inr (succeeded, failMsg) \<Rightarrow>
          if \<not> succeeded
          then with_job_logs ns (ProvisionJobName i) failMsg (\<lambda>msg. markFailed i (''provision job failed: '' @ msg) (Return ()))
          else deploy_and_finish o' session)))"

definition provision_granted :: "orch \<Rightarrow> setup_session \<Rightarrow> string \<Rightarrow> string \<Rightarrow> (farm, unit) prog" where
  "provision_granted o' session adminDid controlDid =
     provisionAdminLabel (ss_ID session) adminDid [] (\<lambda>adminLabel.
     pbind (runPoolActivation o' session adminDid adminLabel controlDid) (\<lambda>handled.
     if handled then Return () else provision_by_job o' session adminDid adminLabel controlDid))"

definition acl_label :: "setup_session \<Rightarrow> string" where
  "acl_label session =
     ''VTA user-'' @ FormatUint (int (ss_UserID session)) @ '' session-'' @ FormatUint (int (ss_ID session))"

definition provisioning_row :: "string \<Rightarrow> int \<Rightarrow> setup_session \<Rightarrow> setup_session" where
  "provisioning_row adminDid now s =
     s\<lparr>ss_Status := ''provisioning'', ss_AdminDid := adminDid, ss_UpdatedAt := now\<rparr>"

definition runProvision :: "orch \<Rightarrow> nat \<Rightarrow> string \<Rightarrow> (farm, unit) prog" where
  "runProvision o' sessionID adminDid =
     check (first (session_row sessionID)) (\<lambda>_. Return ()) (\<lambda>session.
     at_time (\<lambda>now. ignore (exec (update_session sessionID (provisioning_row adminDid now)))
       (if ss_ConnectionSource session = ConnectionExternal
        then provision_granted o' session adminDid (ss_DIDHostingDid session)
        else if or_hosting o' = None then provision_granted o' session adminDid []
        else
        check (HostingFor o' (ss_DidHostingControlURL session) (ss_DIDHostingDid session))
          (\<lambda>e. markFailed sessionID (''failed to reach DID hosting control API: '' @ or_Error o' e) (Return ())) (\<lambda>dh.
        pbind (CreateAcl dh (ss_VtaDid session) ''service'' (acl_label session)) (\<lambda>r. case r of
          Some e \<Rightarrow> unless_done (Return ())
            (markFailed sessionID (''failed to add VTA DID to hosting ACL: '' @ or_Error o' e) (Return ()))
        | None \<Rightarrow> provision_granted o' session adminDid (snd dh))))))"

section \<open>The provision worker\<close>

definition runProvisionOperation ::
  "nat \<Rightarrow> (setup_session \<Rightarrow> string \<Rightarrow> (farm, unit) prog) \<Rightarrow> (farm, unit) prog" where
  "runProvisionOperation sessionID run =
     with_lock provisionLockClass sessionID
       (check (first (session_row sessionID)) (\<lambda>_. Return ()) (\<lambda>s.
        if \<not> ResumableProvisionStatus (ss_Status s) \<or> ss_AdminDid s = [] then Return ()
        else run s (ss_AdminDid s)))"

text \<open>The goroutine \<open>KickProvision\<close> starts; the finishing chain of a full stack is an argument.\<close>

definition provision_worker ::
  "orch \<Rightarrow> (nat \<Rightarrow> string \<Rightarrow> (farm, unit) prog) \<Rightarrow> nat \<Rightarrow> (farm, unit) prog" where
  "provision_worker o' runFullStackFinish sessionID =
     runProvisionOperation sessionID (\<lambda>s did.
       if IsFullStack s then runFullStackFinish (ss_ID s) did else runProvision o' (ss_ID s) did)"

definition provisionStatuses :: "string list" where
  "provisionStatuses = [''provisioning'', ''step_import_admin_did'', ''step_vtc_setup_key'', ''step_vtc_acl_grant'', ''step_vtc_setup'']"

definition provision_queue :: "(farm, nat list) prog" where
  "provision_queue =
     check (select (\<lambda>d. map ss_ID (filter (\<lambda>s. ss_AdminDid s \<noteq> [] \<and> ss_Status s \<in> set provisionStatuses) (t_sessions d))))
       (\<lambda>_. Return []) Return"

text \<open>\<open>Orchestrator.Cancel\<close>; waiting longer than its timeout for the lock is a failure.\<close>

definition clear_maintenance :: "nat \<Rightarrow> (farm, unit) tx" where
  "clear_maintenance sessionID =
     transaction
       (bnd (interact DbFailure (\<lambda>w. ((provisionLockClass, sessionID) \<in> set (pg_locks (tabs w)), tabs w))) (\<lambda>busy.
        if busy then throw DbFailure
        else bnd (first (session_row sessionID)) (\<lambda>session.
          if ss_Status session \<noteq> ''deleting'' \<or> ss_TrustRegistryState session \<noteq> ''enabling'' then ret ()
          else exec (\<lambda>d. d\<lparr>acl_maintenance := (acl_maintenance d)(sessionID := None)\<rparr>))))"

definition CancelSetup :: "nat \<Rightarrow> (farm, err option) prog" where
  "CancelSetup sessionID =
     check (on_db (Stop sessionID)) (\<lambda>e. Return (Some e)) (\<lambda>_.
     check (clear_maintenance sessionID) (\<lambda>e. Return (Some e)) (\<lambda>_. Return None))"

section \<open>The gate of a prewarmed pod\<close>

definition gate_authorized :: "orch \<Rightarrow> setup_session \<Rightarrow> nat \<Rightarrow> string \<Rightarrow> (farm, nat) prog" where
  "gate_authorized o' session sessionID activationID =
     check (PoolActivationAuthorized (session_ns o' session) sessionID activationID) (\<lambda>_. Return 503)
       (\<lambda>authorized. Return (if authorized then 200 else 202))"

definition gate_claim :: "orch \<Rightarrow> setup_session \<Rightarrow> nat \<Rightarrow> string \<Rightarrow> mobile_connection \<Rightarrow> (farm, nat) prog" where
  "gate_claim o' session sessionID activationID conn =
     (if PoolActivationID sessionID (mc_ID conn) \<noteq> activationID then Return 410
      else if mc_Status conn = ''claimed'' then
        check (on_db Now) (\<lambda>_. Return 503) (\<lambda>now.
          if (case mc_ConfirmBy conn of None \<Rightarrow> True | Some t \<Rightarrow> \<not> now < t) then Return 410 else Return 202)
      else if mc_Status conn \<in> {''confirmed'', ''provisioning'', ''released''} then
        (if mc_ConfirmedAt conn = None \<or> mc_AdminDid conn = [] \<or> ss_AdminDid session \<noteq> mc_AdminDid conn
         then Return 202 else gate_authorized o' session sessionID activationID)
      else if mc_Status conn = ''failed'' then Return 202
      else Return 410)"

definition PoolActivationGate :: "orch \<Rightarrow> string \<Rightarrow> string \<Rightarrow> (farm, nat) prog" where
  "PoolActivationGate o' session_param activation_param =
     (let activationID = ToLower (TrimSpace activation_param) in
      case ParseUint 64 session_param of
        None \<Rightarrow> Return 404
      | Some n \<Rightarrow>
          if n \<le> 0 \<or> hex_bytes activationID \<noteq> Some 16 then Return 404
          else let sessionID = nat n in
          check (first (session_row sessionID)) (\<lambda>_. Return 404) (\<lambda>session.
          check (first (\<lambda>d. find (\<lambda>m. ps_SessionID m = sessionID) (t_members d))) (\<lambda>_. Return 404) (\<lambda>_.
          check (on_db (Current sessionID)) (\<lambda>_. Return 503) (\<lambda>current. case current of
            None \<Rightarrow> Return 410
          | Some conn \<Rightarrow> gate_claim o' session sessionID activationID conn))))"

end
