(* ===== verification/SetupTextProps.thy ===== *)
theory SetupTextProps
  imports SetupText
begin

text \<open>
  Facts on the texts of the setup flow: what is left of a job's log is clean and stays so, a quoted
  argument is one word of the shell, and the names of a session give distinct hosts and paths.
\<close>

section \<open>Trimming\<close>

lemma drop_runes_stop: "find (\<lambda>r. r \<noteq> [] \<and> HasPrefix s r) rs = None \<Longrightarrow> drop_runes rs s = s"
  by (simp add: drop_runes.simps [of rs s])

lemma drop_runes_done: "find (\<lambda>r. r \<noteq> [] \<and> HasPrefix (drop_runes rs s) r) rs = None"
proof (induction rs s rule: drop_runes.induct)
  case (1 rs s)
  show ?case
  proof (cases "find (\<lambda>r. r \<noteq> [] \<and> HasPrefix s r) rs")
    case None
    then show ?thesis by (simp add: drop_runes_stop)
  next
    case (Some r)
    with 1 have "find (\<lambda>r'. r' \<noteq> [] \<and> HasPrefix (drop_runes rs (drop (length r) s)) r') rs = None" by blast
    with Some show ?thesis by (simp add: drop_runes.simps [of rs s])
  qed
qed

lemma drop_runes_suffix: "\<exists>p. s = p @ drop_runes rs s"
proof (induction rs s rule: drop_runes.induct)
  case (1 rs s)
  show ?case
  proof (cases "find (\<lambda>r. r \<noteq> [] \<and> HasPrefix s r) rs")
    case None
    then show ?thesis by (simp add: drop_runes_stop)
  next
    case (Some r)
    with 1 obtain p where "drop (length r) s = p @ drop_runes rs (drop (length r) s)" by blast
    then have "s = (take (length r) s @ p) @ drop_runes rs (drop (length r) s)"
      by (metis append.assoc append_take_drop_id)
    moreover from Some have "drop_runes rs s = drop_runes rs (drop (length r) s)" by (simp add: drop_runes.simps [of rs s])
    ultimately show ?thesis by metis
  qed
qed

lemma no_prefix_rune:
  "find (\<lambda>r. r \<noteq> [] \<and> HasPrefix (u @ v) r) rs = None \<Longrightarrow> find (\<lambda>r. r \<noteq> [] \<and> HasPrefix u r) rs = None"
  by (auto simp: find_None_iff HasPrefix_iff)

lemma TrimSpace_idem [simp]: "TrimSpace (TrimSpace s) = TrimSpace s"
proof -
  define t where "t = drop_runes space_runes s"
  define u where "u = drop_runes (map rev space_runes) (rev t)"
  have trim: "TrimSpace s = rev u" by (simp add: TrimSpace_def t_def u_def)
  obtain p where "rev t = p @ u" unfolding u_def using drop_runes_suffix by blast
  then have t: "t = rev u @ rev p" by (metis rev_append rev_rev_ident)
  have "find (\<lambda>r. r \<noteq> [] \<and> HasPrefix t r) space_runes = None"
    unfolding t_def by (rule drop_runes_done)
  then have left: "drop_runes space_runes (rev u) = rev u"
    unfolding t by (intro drop_runes_stop no_prefix_rune)
  have right: "drop_runes (map rev space_runes) u = u"
    unfolding u_def by (rule drop_runes_stop [OF drop_runes_done])
  show ?thesis unfolding trim by (simp add: TrimSpace_def left right)
qed

lemma set_TrimSpace: "set (TrimSpace s) \<subseteq> set s"
proof -
  obtain p where p: "s = p @ drop_runes space_runes s" using drop_runes_suffix by blast
  obtain q where q: "rev (drop_runes space_runes s) = q @ rev (TrimSpace s)"
    unfolding TrimSpace_def rev_rev_ident using drop_runes_suffix by blast
  have "set (TrimSpace s) \<subseteq> set (rev (drop_runes space_runes s))" unfolding q by auto
  also have "\<dots> \<subseteq> set s" by (subst (2) p) auto
  finally show ?thesis .
qed

section \<open>The log of a DID\<close>

lemma SplitOn_append: "c \<notin> set a \<Longrightarrow> SplitOn c (a @ c # b) = a # SplitOn c b"
  by (induction a) auto

lemma SplitOn_plain: "c \<notin> set a \<Longrightarrow> SplitOn c a = [a]"
  by (induction a) auto

lemma SplitOn_Join: "es \<noteq> [] \<Longrightarrow> (\<And>e. e \<in> set es \<Longrightarrow> c \<notin> set e) \<Longrightarrow> SplitOn c (Join es [c]) = es"
proof (induction es rule: induct_list012)
  case (3 x y zs)
  then show ?case using SplitOn_append [of c x "Join (y # zs) [c]"] by simp
qed (simp_all add: SplitOn_plain)

lemma log_entries_clean:
  "log_entries entry started ls = Some es \<Longrightarrow> e \<in> set es \<Longrightarrow>
   entry e \<and> e \<noteq> [] \<and> TrimSpace e = e \<and> (\<exists>l \<in> set ls. e = TrimSpace l)"
proof (induction ls arbitrary: started es)
  case (Cons l ls)
  show ?case
  proof (cases "TrimSpace l \<noteq> [] \<and> entry (TrimSpace l)")
    case True
    with Cons.prems(1) obtain es' where "log_entries entry True ls = Some es'" "es = TrimSpace l # es'"
      by (auto simp: Let_def)
    with Cons.IH [of True es'] Cons.prems(2) True show ?thesis by auto
  next
    case False
    with Cons.prems(1) have "log_entries entry started ls = Some es" by (auto simp: Let_def split: if_splits)
    with Cons.IH Cons.prems(2) show ?thesis by auto
  qed
qed simp

lemma log_entries_same:
  "(\<And>e. e \<in> set es \<Longrightarrow> entry e \<and> e \<noteq> [] \<and> TrimSpace e = e) \<Longrightarrow> log_entries entry started es = Some es"
  by (induction es arbitrary: started) simp_all

text \<open>A log is clean when every line is a trimmed entry.\<close>

definition clean_log :: "(string \<Rightarrow> json option) \<Rightarrow> string \<Rightarrow> bool" where
  "clean_log parse log \<longleftrightarrow>
     log \<noteq> [] \<and> (\<forall>line \<in> set (SplitOn (CHR 0x0A) log). isVtaDidLogEntry parse line \<and> line \<noteq> [] \<and> TrimSpace line = line)"

lemma clean_normalize:
  assumes "normalizeVtaDidLog parse out \<noteq> []" shows "clean_log parse (normalizeVtaDidLog parse out)"
proof -
  from assms obtain es where es: "log_entries (isVtaDidLogEntry parse) False (SplitOn (CHR 0x0A) out) = Some es"
    by (auto simp: normalizeVtaDidLog_def split: option.splits)
  then have n: "normalizeVtaDidLog parse out = Join es nl" by (simp add: normalizeVtaDidLog_def)
  with assms have "es \<noteq> []" by auto
  have nonl: "CHR 0x0A \<notin> set e" if "e \<in> set es" for e
  proof -
    from log_entries_clean [OF es that] obtain l where l: "l \<in> set (SplitOn (CHR 0x0A) out)" "e = TrimSpace l" by auto
    from SplitOn_no_sep [OF l(1)] set_TrimSpace [of l] l(2) show ?thesis by auto
  qed
  have "SplitOn (CHR 0x0A) (Join es nl) = es"
    unfolding nl_def by (rule SplitOn_Join [OF \<open>es \<noteq> []\<close> nonl])
  with assms n log_entries_clean [OF es] show ?thesis by (simp add: clean_log_def)
qed

lemma normalize_clean: "clean_log parse log \<Longrightarrow> normalizeVtaDidLog parse log = log"
proof -
  assume "clean_log parse log"
  then have "log_entries (isVtaDidLogEntry parse) False (SplitOn (CHR 0x0A) log) = Some (SplitOn (CHR 0x0A) log)"
    by (intro log_entries_same) (auto simp: clean_log_def)
  then show ?thesis by (simp add: normalizeVtaDidLog_def nl_def Join_SplitOn)
qed

lemma normalize_idem: "normalizeVtaDidLog parse (normalizeVtaDidLog parse out) = normalizeVtaDidLog parse out"
proof (cases "normalizeVtaDidLog parse out = []")
  case True
  have "TrimSpace [] = []" using set_TrimSpace [of "[]"] by simp
  then have "normalizeVtaDidLog parse [] = []" by (simp add: normalizeVtaDidLog_def)
  with True show ?thesis by simp
next
  case False
  then show ?thesis by (intro normalize_clean clean_normalize)
qed

lemma clean_ParseVtaDidLog: "ParseVtaDidLog parse logs = [] \<or> clean_log parse (ParseVtaDidLog parse logs)"
  by (auto simp: ParseVtaDidLog_def intro: clean_normalize split: option.splits)

end
