(* ===== verification/Runs.thy ===== *)
theory Runs
  imports Goroutines
begin

text \<open>
  Runs of one goroutine among others. \<open>moves p ws\<close> are the changes \<open>p\<close> makes to the tables when its
  successive actions find the worlds \<open>ws\<close>: what happens between two actions is whatever leads from
  one world to the next, so a theorem about \<open>moves\<close> holds whatever else runs. \<open>result p ws\<close> is what
  \<open>p\<close> returns after them, \<open>alone p w\<close> a run without others.

  \<open>backed see G H p\<close> is a guarantee with a memory: an action may rely on what the goroutine has seen
  (\<open>see\<close>) in the tables at this or an earlier action of its own. The locale \<open>memory\<close> gives its rules.
\<close>

primrec moves :: "('t, 'a) prog \<Rightarrow> 't world list \<Rightarrow> ('t \<times> 't) list" where
  "moves (Return a) ws = []"
| "moves (Act p e) ws = (case ws of [] \<Rightarrow> [] | w # ws' \<Rightarrow> (tabs w, tabs (e w)) # moves (p w) ws')"

primrec result :: "('t, 'a) prog \<Rightarrow> 't world list \<Rightarrow> 'a option" where
  "result (Return a) ws = Some a"
| "result (Act p e) ws = (case ws of [] \<Rightarrow> None | w # ws' \<Rightarrow> result (p w) ws')"

primrec alone :: "('t, 'a) prog \<Rightarrow> 't world \<Rightarrow> 'a \<times> 't world" where
  "alone (Return a) w = (a, w)"
| "alone (Act p e) w = alone (p w) (e w)"

lemma moves_check [simp]:
  "moves (check m h k) (w # ws) =
     (tabs w, tabs (snd (m w))) # moves (case fst (m w) of Inl e \<Rightarrow> h e | Inr a \<Rightarrow> k a) ws"
  by (simp add: check_def)

lemma fst_moves: "m < length (moves p ws) \<Longrightarrow> m < length ws \<and> fst (moves p ws ! m) = tabs (ws ! m)"
proof (induction p arbitrary: m ws)
  case (Act p e)
  from Act.prems obtain w ws' where ws: "ws = w # ws'" by (cases ws) auto
  show ?case
  proof (cases m)
    case (Suc k)
    with Act.prems ws have "k < length (moves (p w) ws')" by simp
    then have "k < length ws' \<and> fst (moves (p w) ws' ! k) = tabs (ws' ! k)" by (rule Act.IH [OF rangeI])
    with ws Suc show ?thesis by simp
  qed (use ws in simp)
qed simp

section \<open>Guarantees along a run\<close>

lemma always_moves: "always G p \<Longrightarrow> (a, b) \<in> set (moves p ws) \<Longrightarrow> G a b"
  by (induction p arbitrary: ws) (auto split: list.splits)

lemma always_mono: "always G p \<Longrightarrow> (\<And>a b. G a b \<Longrightarrow> G' a b) \<Longrightarrow> always G' p"
  by (induction p) auto

lemma within_moves: "within p n \<Longrightarrow> length (moves p ws) \<le> n"
proof (induction p arbitrary: n ws)
  case (Act p e)
  show ?case
  proof (cases ws)
    case (Cons w ws')
    from Act.prems have "0 < n" "within (p w) (n - 1)" by auto
    with Act.IH [of "p w" "n - 1" ws'] Cons show ?thesis by auto
  qed simp
qed simp

lemma rg_moves:
  assumes "rg R G p Q d" and "moves p ws \<noteq> [] \<Longrightarrow> R d (fst (moves p ws ! 0))"
    and "\<And>i. Suc i < length (moves p ws) \<Longrightarrow> R (snd (moves p ws ! i)) (fst (moves p ws ! Suc i))"
    and "(a, b) \<in> set (moves p ws)"
  shows "G a b"
  using assms
proof (induction p arbitrary: d ws)
  case (Act p e)
  then obtain w ws' where ws: "ws = w # ws'" by (cases ws) auto
  from Act.prems(2) ws have start: "R d (tabs w)" by simp
  with Act.prems(1) have now: "G (tabs w) (tabs (e w))" and later: "rg R G (p w) Q (tabs (e w))" by auto
  have first: "moves (p w) ws' \<noteq> [] \<Longrightarrow> R (tabs (e w)) (fst (moves (p w) ws' ! 0))"
    using Act.prems(3) [of 0] ws by simp
  have rest: "R (snd (moves (p w) ws' ! i)) (fst (moves (p w) ws' ! Suc i))" if "Suc i < length (moves (p w) ws')" for i
    using Act.prems(3) [of "Suc i"] ws that by simp
  from Act.prems(4) ws consider "(a, b) = (tabs w, tabs (e w))" | "(a, b) \<in> set (moves (p w) ws')" by auto
  then show ?case using now Act.IH [OF _ later first rest] by cases auto
qed simp

section \<open>Bounds by branches\<close>

lemma within_Return: "within (Return a) 0"
  by simp

lemma within_max: "within p m \<Longrightarrow> within p (max m n)" "within p n \<Longrightarrow> within p (max m n)"
  by (auto elim: within_mono)

lemma within_branch:
  "(\<And>e. within (h e) m) \<Longrightarrow> (\<And>a. within (k a) n) \<Longrightarrow> within (check act h k) (Suc (max m n))"
  by (intro within_check within_max)

lemma within_either: "within p m \<Longrightarrow> within q n \<Longrightarrow> within (if c then p else q) (max m n)"
  by (auto intro: within_max)

lemma within_maybe:
  "within p m \<Longrightarrow> (\<And>x. within (q x) n) \<Longrightarrow> within (case r of None \<Rightarrow> p | Some x \<Rightarrow> q x) (max m n)"
  by (auto intro: within_max split: option.split)

lemma within_sum:
  "(\<And>x. within (p x) m) \<Longrightarrow> (\<And>x. within (q x) n) \<Longrightarrow> within (case r of Inl x \<Rightarrow> p x | Inr x \<Rightarrow> q x) (max m n)"
  by (auto intro: within_max split: sum.split)

lemma within_prod: "(\<And>x y. within (p x y) n) \<Longrightarrow> within (case r of (x, y) \<Rightarrow> p x y) n"
  by (simp split: prod.split)

section \<open>Results\<close>

lemma within_result: "within p n \<Longrightarrow> n \<le> length ws \<Longrightarrow> \<exists>r. result p ws = Some r"
proof (induction p arbitrary: n ws)
  case (Act p e)
  then obtain w ws' where ws: "ws = w # ws'" by (cases ws) auto
  with Act.prems have "within (p w) (n - 1)" "n - 1 \<le> length ws'" by auto
  from Act.IH [OF rangeI this] ws show ?case by simp
qed simp

text \<open>\<open>returns p Q\<close>: whatever \<open>p\<close> returns satisfies \<open>Q\<close>, over the worlds its actions found.\<close>

primrec returns :: "('t, 'a) prog \<Rightarrow> ('t world list \<Rightarrow> 'a \<Rightarrow> bool) \<Rightarrow> bool" where
  "returns (Return a) Q \<longleftrightarrow> (\<forall>ws. Q ws a)"
| "returns (Act p e) Q \<longleftrightarrow> (\<forall>w. returns (p w) (\<lambda>ws. Q (w # ws)))"

lemma returns_result: "returns p Q \<Longrightarrow> result p ws = Some a \<Longrightarrow> Q ws a"
proof (induction p arbitrary: Q ws)
  case (Act p e)
  from Act.prems(2) obtain w ws' where ws: "ws = w # ws'" by (cases ws) auto
  with Act.prems have "returns (p w) (\<lambda>ws. Q (w # ws))" and "result (p w) ws' = Some a" by auto
  then have "(\<lambda>ws. Q (w # ws)) ws' a" by (rule Act.IH [OF rangeI])
  with ws show ?case by simp
qed simp

lemma returns_mono: "returns p P \<Longrightarrow> (\<And>ws a. P ws a \<Longrightarrow> Q ws a) \<Longrightarrow> returns p Q"
proof (induction p arbitrary: P Q)
  case (Act p e)
  show ?case unfolding returns.simps
  proof
    fix w from Act.prems(1) have "returns (p w) (\<lambda>ws. P (w # ws))" by simp
    then show "returns (p w) (\<lambda>ws. Q (w # ws))" by (rule Act.IH [OF rangeI]) (rule Act.prems(2))
  qed
qed simp

lemma returns_check:
  "returns (check m h k) Q \<longleftrightarrow>
     (\<forall>w. case fst (m w) of Inl e \<Rightarrow> returns (h e) (\<lambda>ws. Q (w # ws)) | Inr a \<Rightarrow> returns (k a) (\<lambda>ws. Q (w # ws)))"
  by (auto simp: check_def split: sum.splits)

section \<open>Guarantees with a memory\<close>

primrec backed :: "('t \<Rightarrow> 'r set) \<Rightarrow> ('r set \<Rightarrow> 't \<Rightarrow> 't \<Rightarrow> bool) \<Rightarrow> 'r set \<Rightarrow> ('t, 'a) prog \<Rightarrow> bool" where
  "backed see G H (Return a) \<longleftrightarrow> True"
| "backed see G H (Act p e) \<longleftrightarrow>
     (\<forall>w. G (H \<union> see (tabs w)) (tabs w) (tabs (e w)) \<and> backed see G (H \<union> see (tabs w)) (p w))"

lemma backed_moves:
  assumes "backed see G H p" and "n < length (moves p ws)" and "moves p ws ! n = (a, b)"
  shows "G (H \<union> (\<Union>m \<in> {..n}. see (fst (moves p ws ! m)))) a b"
  using assms
proof (induction p arbitrary: H ws n)
  case (Act p e)
  then obtain w ws' where ws: "ws = w # ws'" by (cases ws) auto
  from Act.prems(1) have now: "G (H \<union> see (tabs w)) (tabs w) (tabs (e w))"
    and later: "backed see G (H \<union> see (tabs w)) (p w)" by auto
  show ?case
  proof (cases n)
    case 0
    with Act.prems(3) ws now show ?thesis by simp
  next
    case (Suc k)
    with Act.prems ws have "G ((H \<union> see (tabs w)) \<union> (\<Union>m \<in> {..k}. see (fst (moves (p w) ws' ! m)))) a b"
      by (intro Act.IH [OF _ later]) auto
    moreover have "(\<Union>m \<in> {..n}. see (fst (moves (Act p e) ws ! m))) =
        see (tabs w) \<union> (\<Union>m \<in> {..k}. see (fst (moves (p w) ws' ! m)))"
      using ws Suc by (simp add: atMost_Suc_eq_insert_0 image_image)
    ultimately show ?thesis by (simp add: Un_assoc)
  qed
qed simp

locale memory =
  fixes see :: "'t \<Rightarrow> 'r set" and G :: "'r set \<Rightarrow> 't \<Rightarrow> 't \<Rightarrow> bool"
  assumes G_more: "G H a b \<Longrightarrow> H \<subseteq> H' \<Longrightarrow> G H' a b"
    and G_same: "G H a a"
begin

lemma backed_more: "backed see G H p \<Longrightarrow> H \<subseteq> H' \<Longrightarrow> backed see G H' p"
proof (induction p arbitrary: H H')
  case (Act p e)
  show ?case unfolding backed.simps
  proof (intro allI conjI)
    fix w :: "'t world"
    have more: "H \<union> see (tabs w) \<subseteq> H' \<union> see (tabs w)" using Act.prems(2) by auto
    from Act.prems(1) have now: "G (H \<union> see (tabs w)) (tabs w) (tabs (e w))"
      and later: "backed see G (H \<union> see (tabs w)) (p w)" by auto
    show "G (H' \<union> see (tabs w)) (tabs w) (tabs (e w))" by (rule G_more [OF now more])
    show "backed see G (H' \<union> see (tabs w)) (p w)" by (rule Act.IH [OF _ later more]) simp
  qed
qed simp

lemma backed_always: "always (G H) p \<Longrightarrow> backed see G H p"
proof (induction p arbitrary: H)
  case (Act p e)
  show ?case unfolding backed.simps
  proof (intro allI conjI)
    fix w :: "'t world"
    from Act.prems have "G H (tabs w) (tabs (e w))" and p: "always (G H) (p w)" by auto
    then show "G (H \<union> see (tabs w)) (tabs w) (tabs (e w))" by (auto intro: G_more)
    have "backed see G H (p w)" by (rule Act.IH [OF _ p]) simp
    then show "backed see G (H \<union> see (tabs w)) (p w)" by (rule backed_more) simp
  qed
qed simp

lemma backed_pbind:
  "backed see G H p \<Longrightarrow> (\<And>a H'. H \<subseteq> H' \<Longrightarrow> backed see G H' (k a)) \<Longrightarrow> backed see G H (pbind p k)"
proof (induction p arbitrary: H)
  case (Act p e)
  show ?case unfolding pbind.simps backed.simps
  proof (intro allI conjI)
    fix w :: "'t world"
    from Act.prems(1) have now: "G (H \<union> see (tabs w)) (tabs w) (tabs (e w))"
      and later: "backed see G (H \<union> see (tabs w)) (p w)" by auto
    from now show "G (H \<union> see (tabs w)) (tabs w) (tabs (e w))" .
    show "backed see G (H \<union> see (tabs w)) (pbind (p w) k)"
      by (rule Act.IH [OF _ later]) (auto intro: Act.prems(2))
  qed
qed simp

lemma backed_check:
  assumes "\<And>w. wp m (\<lambda>r w'. G (H \<union> see (tabs w)) (tabs w) (tabs w')) w"
    and "\<And>e H'. H \<subseteq> H' \<Longrightarrow> backed see G H' (h e)"
    and "\<And>a w w'. m w = (Inr a, w') \<Longrightarrow> backed see G (H \<union> see (tabs w)) (k a)"
  shows "backed see G H (check m h k)"
  unfolding check_def backed.simps
proof (intro allI conjI)
  fix w :: "'t world"
  show "G (H \<union> see (tabs w)) (tabs w) (tabs (snd (m w)))" using assms(1) [of w] by (simp add: wp_def case_prod_unfold)
  show "backed see G (H \<union> see (tabs w)) (case fst (m w) of Inl e \<Rightarrow> h e | Inr a \<Rightarrow> k a)"
    using assms(2) assms(3) [of w] by (cases "m w") (auto split: sum.split)
qed

lemma backed_silent_check:
  assumes "stepping (G {}) m" and "\<And>e H'. H \<subseteq> H' \<Longrightarrow> backed see G H' (h e)"
    and "\<And>a H'. H \<subseteq> H' \<Longrightarrow> backed see G H' (k a)"
  shows "backed see G H (check m h k)"
  by (rule backed_check) (use assms in \<open>auto simp: stepping_def intro: wp_mono G_more\<close>)

lemma backed_if: "(c \<Longrightarrow> backed see G H p) \<Longrightarrow> (\<not> c \<Longrightarrow> backed see G H q) \<Longrightarrow> backed see G H (if c then p else q)"
  by simp

end

end
