(* ===== verification/FlowSteps.thy ===== *)
theory FlowSteps
  imports Activation SetupTextProps Runs
begin

text \<open>
  What the goroutines of the setup flow do to the cluster and to the DID hosts, whatever happens
  around them. \<open>flow\<close> lists every change one of their actions can make to a Deployment or to what a
  DID host is sent, apart from the authorisation of an activation, which only \<open>runPoolActivation\<close>
  does; \<open>always_flow\<close> collects, per function, that it makes no other.
\<close>

definition plain :: "farm \<Rightarrow> farm \<Rightarrow> bool" where
  "plain a b \<longleftrightarrow> k_deployments b = k_deployments a \<and> dh_sent b = dh_sent a"

definition dep_step :: "deployment option \<Rightarrow> deployment \<Rightarrow> bool" where
  "dep_step old new \<longleftrightarrow>
     (case old of
        None \<Rightarrow> \<exists>i img n. new = vta_deployment i img n
      | Some x \<Rightarrow> (\<exists>n. new = x\<lparr>dp_Replicas := Some n\<rparr>) \<or>
                  (\<exists>i. cancel_prewarm i x = Inr (Some new)) \<or>
                  (\<exists>spec command. parked_update spec command False x = Inr (Some new)))"

definition task_ok :: "orch \<Rightarrow> hosting_task \<Rightarrow> bool" where
  "task_ok o' t \<longleftrightarrow> (case t of Registered base path log \<Rightarrow> clean_log (or_json o') log | Granted base did role label \<Rightarrow> role = ''service'')"

definition flow :: "orch \<Rightarrow> farm \<Rightarrow> farm \<Rightarrow> bool" where
  "flow o' a b \<longleftrightarrow>
     plain a b \<or>
     (\<exists>t. task_ok o' t \<and> dh_sent b = t # dh_sent a \<and> k_deployments b = k_deployments a) \<or>
     (\<exists>key new. dep_step (k_deployments a key) new \<and> dh_sent b = dh_sent a \<and>
        k_deployments b = (k_deployments a)(key \<mapsto> new))"

named_theorems flow_steps
named_theorems always_flow

lemma plain_refl [simp]: "plain a a"
  by (simp add: plain_def)

lemma flow_refl [simp]: "flow o' a a"
  by (simp add: flow_def)

lemma plain_flow: "plain a b \<Longrightarrow> flow o' a b"
  by (simp add: flow_def)

lemma flow_dep:
  "dep_step (k_deployments a key) new \<Longrightarrow> dh_sent b = dh_sent a \<Longrightarrow>
   k_deployments b = (k_deployments a)(key \<mapsto> new) \<Longrightarrow> flow o' a b"
  unfolding flow_def by blast

lemma flow_plain: "stepping plain m \<Longrightarrow> stepping (flow o') m"
  by (erule stepping_mono) (rule plain_flow)

section \<open>Single actions\<close>

lemma extend_more [simp]:
  "k_deployments (db.extend x (db.more y)) = k_deployments y" "dh_sent (db.extend x (db.more y)) = dh_sent y"
  by (cases y; simp add: db.extend_def)+

lemma wp_on_db:
  "wp (on_db m) Q w \<longleftrightarrow>
     wp m (\<lambda>r w'. Q r (with_tabs (db.extend (tabs w') (db.more (tabs w))) w')) (with_tabs (db_of (tabs w)) w)"
  by (simp add: wp_def on_db_def split: prod.splits)

lemma plain_on_db [intro]: "stepping plain (on_db m)"
  unfolding stepping_def wp_on_db by (simp add: wp_def case_prod_unfold plain_def with_tabs_def)

lemma wp_ctx_done: "wp ctx_done Q w \<longleftrightarrow> Q (Inr (fails w (tick w))) (w\<lparr>tick := Suc (tick w)\<rparr>)"
  by (simp add: wp_def ctx_done_def)

lemma wp_unlock:
  "wp (unlock c k) Q w \<longleftrightarrow>
     Q (Inr ()) (w\<lparr>tabs := (tabs w)\<lparr>pg_locks := remove1 (c, k) (pg_locks (tabs w))\<rparr>, tick := Suc (tick w)\<rparr>)"
  by (simp add: wp_def unlock_def)

lemma plain_basic [intro, simp]:
  "stepping plain (select f)" "stepping plain (first g)" "stepping plain wall" "stepping plain ctx_done"
  "stepping plain (throw e)" "stepping plain (ret x)"
  by (auto simp: stepping_def wp plain_def wp_ctx_done split: option.splits)

lemma plain_reads: "stepping plain (interact e (\<lambda>w. (f w, tabs w)))"
  by (auto simp: stepping_def wp plain_def)

lemma plain_exec: "(\<And>d. plain d (f d)) \<Longrightarrow> stepping plain (exec f)"
  by (auto simp: stepping_def wp)

lemma plain_update_session [simp]: "plain d (update_session i f d)"
  by (simp add: plain_def update_session_def)

lemma plain_exec_session [intro, simp]: "stepping plain (exec (update_session i f))"
  by (rule plain_exec) simp

lemma plain_store_record [intro]: "stepping plain (store_record i r)"
  by (auto simp: store_record_def stepping_def wp)

lemma plain_provision_error [intro]: "stepping plain (exec (record_provision_error i m))"
  by (rule plain_exec) (simp add: plain_def record_provision_error_def)

lemma plain_calls [intro, simp]:
  "stepping plain call_cluster" "stepping plain call_service" "stepping plain load_profiles"
  "stepping plain ResolveDID" "stepping plain (isPoolSession i)" "stepping plain ensure_record"
  "stepping plain (list_pods key)" "stepping plain (HasProvisionJob ns i)" "stepping plain ListPoolPrewarms"
  by (auto simp: call_cluster_def call_service_def load_profiles_def ResolveDID_def isPoolSession_def
      ensure_record_def list_pods_def HasProvisionJob_def ListPoolPrewarms_def stepping_def wp plain_def)

lemma plain_PoolActivationAuthorized [intro]: "stepping plain (PoolActivationAuthorized ns i a)"
  by (auto simp: PoolActivationAuthorized_def stepping_def wp plain_def split: option.splits)

lemma plain_JobLogs [intro]: "stepping plain (JobLogs ns j)"
  by (auto simp: JobLogs_def stepping_def wp plain_def split: option.splits)

lemma plain_create [intro]: "stepping plain (create_job key j)" "stepping plain (create_config key fs)"
  by (auto simp: create_job_def create_config_def stepping_def wp plain_def split: option.splits)

lemma plain_lock [intro]: "stepping plain (try_lock c k)" "stepping plain (unlock c k)"
  by (auto simp: try_lock_def stepping_def wp wp_unlock plain_def)

lemma plain_HostingFor [intro]: "stepping plain (HostingFor o' u did)"
  by (auto simp: HostingFor_def stepping_def wp_def plain_def Let_def split: option.splits)

lemma plain_loadPoolActivation [intro]: "stepping plain (loadPoolActivation i did)"
  by (simp add: loadPoolActivation_def)

lemma plain_poolPrewarmControlDID [intro]: "stepping plain (poolPrewarmControlDID o' s)"
  unfolding poolPrewarmControlDID_def
  by (auto simp: stepping_def wp HostingFor_def wp_def plain_def Let_def bnd_def ret_def split: option.splits)

lemma plain_clear_maintenance [intro]: "stepping plain (clear_maintenance i)"
  unfolding clear_maintenance_def by (auto simp: stepping_def wp plain_def split: option.splits)

lemmas plain_flow_steps [flow_steps] =
  plain_on_db [THEN flow_plain] plain_basic [THEN flow_plain] plain_reads [THEN flow_plain]
  plain_exec_session [THEN flow_plain] plain_store_record [THEN flow_plain]
  plain_provision_error [THEN flow_plain] plain_calls [THEN flow_plain]
  plain_PoolActivationAuthorized [THEN flow_plain] plain_JobLogs [THEN flow_plain]
  plain_create [THEN flow_plain] plain_lock [THEN flow_plain] plain_HostingFor [THEN flow_plain]
  plain_loadPoolActivation [THEN flow_plain] plain_poolPrewarmControlDID [THEN flow_plain]
  plain_clear_maintenance [THEN flow_plain]

text \<open>The actions that change a Deployment.\<close>

lemma wp_revising:
  "wp (revising key f) Q w \<longleftrightarrow>
     (if fails w (tick w) then Q (Inl LibraryFailure) (w\<lparr>tick := Suc (tick w)\<rparr>)
      else Q (fst (revise key f (tabs w))) (w\<lparr>tabs := snd (revise key f (tabs w)), tick := Suc (tick w)\<rparr>))"
  by (auto simp: revising_def wp split: sum.splits)

lemma revise_cases:
  obtains "snd (revise key f d) = d"
  | x y where "k_deployments d key = Some x" "f x = Inr (Some y)" "fst (revise key f d) = Inr ()"
      "snd (revise key f d) = d\<lparr>k_deployments := (k_deployments d)(key \<mapsto> y)\<rparr>"
proof (cases "k_deployments d key")
  case None
  then show ?thesis by (intro that(1)) (simp add: revise_def)
next
  case (Some x)
  show ?thesis
  proof (cases "\<exists>y. f x = Inr (Some y)")
    case True
    then obtain y where "f x = Inr (Some y)" ..
    with Some show ?thesis by (intro that(2) [of x y]) (simp_all add: revise_def)
  next
    case False
    with Some show ?thesis by (intro that(1)) (auto simp: revise_def split: sum.splits option.splits)
  qed
qed

lemma flow_revise:
  assumes "\<And>x y. k_deployments d key = Some x \<Longrightarrow> f x = Inr (Some y) \<Longrightarrow> dep_step (Some x) y"
  shows "flow o' d (snd (revise key f d))"
proof (cases rule: revise_cases [of key f d])
  case (2 x y)
  with assms have "dep_step (k_deployments d key) y" by simp
  then show ?thesis by (rule flow_dep) (simp_all add: 2(4))
qed simp

lemma flow_revising:
  "(\<And>x y. f x = Inr (Some y) \<Longrightarrow> dep_step (Some x) y) \<Longrightarrow> stepping (flow o') (revising key f)"
  by (auto simp: stepping_def wp_revising intro!: flow_revise)

lemma flow_cancel [flow_steps]: "stepping (flow o') (CancelPoolPrewarm ns i a)"
  unfolding CancelPoolPrewarm_def by (rule flow_revising) (auto simp: dep_step_def)

lemma flow_scale [flow_steps]: "stepping (flow o') (ScaleComponentDeployment ns name n)"
  unfolding ScaleComponentDeployment_def by (rule flow_revising) (auto simp: dep_step_def)

lemma flow_prewarm [flow_steps]: "stepping (flow o') (PrewarmParkedVtaDeployment parse ns spec)"
proof -
  have "stepping (flow o') (revising key (parked_update spec command False))" for key command
    by (rule flow_revising) (auto simp: dep_step_def)
  then show ?thesis
    by (auto simp: PrewarmParkedVtaDeployment_def updateParkedVtaDeployment_def stepping_def wp
        split: sum.splits)
qed

lemma flow_createVta [flow_steps]: "stepping (flow o') (createVtaDeployment ns i img n)"
proof -
  define key where "key = (ns, VtaDeploymentName i)"
  have "flow o' d (d\<lparr>k_deployments := (k_deployments d)(key \<mapsto> vta_deployment i img n), k_names := ks\<rparr>)"
    if "k_deployments d key = None" for d ks
    by (rule flow_dep [of _ key "vta_deployment i img n"]) (use that in \<open>auto simp: dep_step_def\<close>)
  then show ?thesis
    by (auto simp: createVtaDeployment_def stepping_def wp Let_def key_def split: option.splits)
qed

lemma flow_create_dep [flow_steps]:
  "stepping (flow o') (CreateVtaDeployment ns i img)" "stepping (flow o') (CreateParkedVtaDeployment ns i img)"
  by (simp_all add: CreateVtaDeployment_def CreateParkedVtaDeployment_def flow_createVta)

section \<open>Control structure\<close>

lemma always_Return [simp]: "always G (Return a)"
  by simp

lemma flow_at_time: "(\<And>t. always (flow o') (k t)) \<Longrightarrow> always (flow o') (at_time k)"
  unfolding at_time_def by (intro always_check flow_steps)

lemma flow_markFailedAt: "always (flow o') p \<Longrightarrow> always (flow o') (markFailedAt i st m p)"
  unfolding markFailedAt_def by (intro flow_at_time always_ignore flow_steps)

lemma flow_markFailed: "always (flow o') p \<Longrightarrow> always (flow o') (markFailed i m p)"
  unfolding markFailed_def by (rule flow_markFailedAt)

lemma flow_unless_done: "always (flow o') s \<Longrightarrow> always (flow o') p \<Longrightarrow> always (flow o') (unless_done s p)"
  unfolding unless_done_def by (intro always_check always_if flow_steps)

lemma flow_with_job_logs: "(\<And>m. always (flow o') (k m)) \<Longrightarrow> always (flow o') (with_job_logs ns j m k)"
  unfolding with_job_logs_def by (intro always_check flow_steps)

lemma flow_finish: "always (flow o') p \<Longrightarrow> always (flow o') (finishVtaOnlyDeployment i b p)"
  unfolding finishVtaOnlyDeployment_def
  by (intro flow_at_time always_ignore flow_steps always_if always_check)
     (auto split: option.split intro!: always_ignore flow_steps)

lemma flow_label: "(\<And>l. always (flow o') (k l)) \<Longrightarrow> always (flow o') (provisionAdminLabel i a f k)"
  unfolding provisionAdminLabel_def by (intro always_check flow_steps)

lemma flow_call_all: "(\<And>m. m \<in> set ms \<Longrightarrow> stepping (flow o') m) \<Longrightarrow> always (flow o') (call_all ms)"
  by (induction ms) (auto intro!: always_check)

lemma flow_poll: "always (flow o') body \<Longrightarrow> always (flow o') (poll_each n dl body st ex)"
  by (rule always_poll_each) simp_all

lemma flow_with_lock: "always (flow o') p \<Longrightarrow> always (flow o') (with_lock c k p)"
  unfolding with_lock_def by (intro always_check flow_steps always_if always_pbind always_ignore) simp_all

lemmas flow_rules = always_check always_ignore always_pbind flow_at_time flow_markFailedAt flow_markFailed
  flow_unless_done flow_with_job_logs flow_finish flow_label flow_call_all flow_poll flow_with_lock always_if

section \<open>Functions\<close>

lemma flow_WaitForJob [always_flow]: "always (flow o') (WaitForJob n ns j)"
  by (induction n) (auto intro!: flow_rules flow_steps split: option.split)

lemma flow_waits [always_flow]:
  "always (flow o') (WaitForComponentDeploymentReady ns name t)"
  "always (flow o') (WaitForVtaActivation ns i t)"
  "always (flow o') (WaitForPoolPrewarm ns i a t)"
  unfolding WaitForComponentDeploymentReady_def WaitForVtaActivation_def WaitForPoolPrewarm_def Let_def
  by (auto intro!: flow_rules flow_steps split: option.split)

lemma flow_setup_resources [always_flow]: "always (flow o') (CreateSetupResources ns i toml img)"
  unfolding CreateSetupResources_def by (auto intro!: flow_rules flow_steps)

lemma flow_environment [always_flow]: "always (flow o') EnsureUserEnvironment"
  unfolding EnsureUserEnvironment_def by (auto intro!: flow_rules flow_steps)

lemma flow_send: "task_ok o' t \<Longrightarrow> always (flow o') (send_task t)"
  unfolding send_task_def
  by (auto intro!: flow_rules flow_steps) (auto simp: stepping_def wp flow_def plain_def)

lemma flow_CreateAcl [always_flow]: "always (flow o') (CreateAcl dh did ''service'' l)"
  unfolding CreateAcl_def by (rule flow_send) (simp add: task_ok_def)

lemma flow_RegisterDid: "clean_log (or_json o') log \<Longrightarrow> always (flow o') (RegisterDid dh path log)"
  unfolding RegisterDid_def by (rule flow_send) (simp add: task_ok_def)

lemma flow_mark_published [always_flow]: "always (flow o') (mark_published i l)"
  unfolding mark_published_def by (auto intro!: flow_rules flow_steps)

lemma flow_publishPoolDID [always_flow]: "always (flow o') (publishPoolDID o' i)"
  unfolding publishPoolDID_def Let_def
  by (auto intro!: flow_rules flow_steps always_flow flow_RegisterDid clean_normalize split: option.split)

lemma flow_queueProvision [always_flow]: "always (flow o') (queueProvision i did)"
  unfolding queueProvision_def by (auto intro!: flow_rules flow_steps)

lemma flow_publish_log [always_flow]: "l = [] \<or> clean_log (or_json o') l \<Longrightarrow> always (flow o') (publish_log o' i s l)"
  unfolding publish_log_def auto_provision_def
  by (auto intro!: flow_rules flow_steps always_flow flow_RegisterDid split: option.split)

lemma flow_after_setup [always_flow]: "l = [] \<or> clean_log (or_json o') l \<Longrightarrow> always (flow o') (after_setup o' i s b l)"
  unfolding after_setup_def by (auto intro!: flow_rules flow_steps always_flow split: option.split)

lemma flow_save_setup [always_flow]: "l = [] \<or> clean_log (or_json o') l \<Longrightarrow> always (flow o') (save_setup o' i s b v l)"
  unfolding save_setup_def Let_def
  by (auto intro!: flow_rules flow_steps always_flow split: prod.split)

lemma flow_read_setup [always_flow]: "always (flow o') (read_setup o' i s b)"
  unfolding read_setup_def
  by (auto intro!: flow_rules flow_steps flow_save_setup clean_ParseVtaDidLog split: sum.split)

lemma flow_await_setup [always_flow]: "always (flow o') (await_setup o' i s b)"
  unfolding await_setup_def Let_def
  by (auto intro!: flow_rules flow_steps always_flow split: sum.split prod.split)

lemma flow_start_setup [always_flow]: "always (flow o') (start_setup o' i s b v)"
  unfolding start_setup_def Let_def by (auto intro!: flow_rules flow_steps always_flow split: option.split)

lemma flow_runSetup [always_flow]: "always (flow o') (runSetup o' i)"
  unfolding runSetup_def by (auto intro!: flow_rules flow_steps always_flow split: option.split)

lemma flow_prepareSession [always_flow]: "always (flow o') (prepareSession o' i)"
  unfolding prepareSession_def by (auto intro!: flow_rules flow_steps always_flow)

lemma flow_park [always_flow]: "always (flow o') (park o' i s)"
  unfolding park_def Let_def by (auto intro!: flow_rules flow_steps always_flow split: option.split)

lemma flow_BuildPool [always_flow]: "always (flow o') (BuildPool o' i)"
  unfolding BuildPool_def by (auto intro!: flow_rules flow_steps always_flow split: option.split)

lemma flow_reconcilePoolPrewarm [always_flow]: "always (flow o') (reconcilePoolPrewarm o' i)"
  unfolding reconcilePoolPrewarm_def settle_prewarm_def start_prewarm_def Let_def
  by (auto intro!: flow_rules flow_steps always_flow split: option.split)

lemma flow_failPoolActivation [always_flow]: "always (flow o') (failPoolActivation i r st)"
  unfolding failPoolActivation_def Let_def by (auto intro!: flow_rules flow_steps always_flow)

lemma flow_deployVtaOnly [always_flow]: "always (flow o') (deployVtaOnly o' s)"
  unfolding deployVtaOnly_def Let_def
  by (auto intro!: flow_rules flow_steps always_flow split: option.split)

lemma flow_deploy_and_finish [always_flow]: "always (flow o') (deploy_and_finish o' s)"
  unfolding deploy_and_finish_def
  by (auto intro!: flow_rules flow_steps always_flow split: option.split prod.split)

lemma flow_provision_by_job [always_flow]: "always (flow o') (provision_by_job o' s a l c)"
  unfolding provision_by_job_def Let_def CreateProvisionJob_def
  by (auto intro!: flow_rules flow_steps always_flow split: sum.split prod.split)

lemma flow_CancelSetup [always_flow]: "always (flow o') (CancelSetup i)"
  unfolding CancelSetup_def by (auto intro!: flow_rules flow_steps)

lemma flow_gate [always_flow]: "always (flow o') (PoolActivationGate o' sp ap)"
  unfolding PoolActivationGate_def gate_claim_def gate_authorized_def Let_def
  by (auto intro!: flow_rules flow_steps split: option.split)

lemma flow_runOne:
  "(\<And>f i. prepare = Some f \<Longrightarrow> always (flow o') (f i)) \<Longrightarrow> (\<And>f i. build = Some f \<Longrightarrow> always (flow o') (f i)) \<Longrightarrow>
   (\<And>f i. cleanup = Some f \<Longrightarrow> always (flow o') (f i)) \<Longrightarrow> always (flow o') (runOne o' prepare build cleanup i)"
  unfolding runOne_def work_on_def recordBuildError_def recordCleanupError_def
  by (cases prepare; cases build; cases cleanup) (auto intro!: flow_rules flow_steps split: option.split)

end
