(* ===== verification/ActivationProps.thy ===== *)
theory ActivationProps
  imports FlowSteps
begin

text \<open>
  What makes prewarming and activation safe: a pool member's VTA imports an administrator only after
  that administrator's claim was confirmed, an authorised activation is final, and the gate opens
  for nothing else.
\<close>

section \<open>Who authorises\<close>

definition authorises :: "string \<times> string \<Rightarrow> farm \<Rightarrow> farm \<Rightarrow> bool" where
  "authorises key a b \<longleftrightarrow>
     (\<exists>y. k_deployments b key = Some y \<and> authorized_id y \<noteq> [] \<and>
          \<not> (\<exists>x. k_deployments a key = Some x \<and> authorized_id x = authorized_id y))"

lemma annotation_names [simp]:
  "PoolActivationAnnotation \<noteq> PoolPrewarmAnnotation" "PoolPrewarmAnnotation \<noteq> PoolActivationAnnotation"
  by simp_all

lemma lookup_in_simps [simp]:
  "lookup_in (m(k \<mapsto> v)) k = v" "lookup_in (m(k := None)) k = []" "j \<noteq> k \<Longrightarrow> lookup_in (m(k := x)) j = lookup_in m j"
  "lookup_in (\<lambda>_. None) k = []"
  by (simp_all add: lookup_in_def)

lemma parked_update_install:
  assumes "parked_update spec command authorize x = Inr (Some y)"
  shows "y = install_activation spec command authorize x"
    "current_id x \<noteq> [] \<Longrightarrow> current_id x = va_ActivationID spec"
    "\<And>c. c \<in> set (dp_InitContainers x) \<Longrightarrow> is_activation c \<Longrightarrow> authorized_id x \<noteq> va_ActivationID spec \<Longrightarrow>
       current_id x \<noteq> [] \<and> activationContainersEqual c (activation_container spec command)"
    "\<not> authorize \<Longrightarrow> authorized_id x = []"
  using assms by (auto simp: parked_update_def Let_def split: if_splits)

lemma dep_step_authorized:
  assumes "dep_step old new" and "authorized_id new \<noteq> []"
  shows "\<exists>x. old = Some x \<and> authorized_id x = authorized_id new"
proof (cases old)
  case None
  with assms show ?thesis by (auto simp: dep_step_def vta_deployment_def blank_deployment_def)
next
  case (Some x)
  with assms(1) consider n where "new = x\<lparr>dp_Replicas := Some n\<rparr>" | i where "cancel_prewarm i x = Inr (Some new)"
    | spec command where "parked_update spec command False x = Inr (Some new)"
    unfolding dep_step_def by auto
  then show ?thesis
  proof cases
    case 2
    with assms(2) Some show ?thesis by (auto simp: cancel_prewarm_def split: if_splits)
  next
    case (3 spec command)
    from parked_update_install(1) [OF this] Some show ?thesis
      by (auto simp: install_activation_def Let_def)
  qed (use Some in auto)
qed

lemma flow_never_authorises: "flow o' a b \<Longrightarrow> \<not> authorises key a b"
  unfolding flow_def plain_def authorises_def
  by (auto split: if_splits dest: dep_step_authorized)

section \<open>Activation agrees with confirmation\<close>

definition imports_claim :: "orch \<Rightarrow> nat \<Rightarrow> mobile_connection \<Rightarrow> deployment \<Rightarrow> bool" where
  "imports_claim o' i r y \<longleftrightarrow>
     (\<exists>spec command. va_SessionID spec = i \<and> va_AdminDID spec = mc_AdminDid r \<and>
        va_ActivationID spec = PoolActivationID i (mc_ID r) \<and>
        vtaActivationCommand (or_url o') spec = Inr command \<and>
        authorized_id y = va_ActivationID spec \<and> current_id y = va_ActivationID spec \<and> dp_Replicas y = Some 1 \<and>
        (\<exists>c \<in> set (dp_InitContainers y). is_activation c) \<and>
        (\<forall>c \<in> set (dp_InitContainers y). is_activation c \<longrightarrow> ct_Command c = [''sh'', ''-c'', command]))"

definition agreed :: "orch \<Rightarrow> nat \<Rightarrow> string \<Rightarrow> mobile_connection set \<Rightarrow> farm \<Rightarrow> farm \<Rightarrow> bool" where
  "agreed o' i did H a b \<longleftrightarrow>
     (\<forall>key. authorises key a b \<longrightarrow>
        (\<exists>r \<in> H. activation_claim i did r \<and> snd key = VtaDeploymentName i \<and>
           imports_claim o' i r (the (k_deployments b key))))"

definition claims_in :: "farm \<Rightarrow> mobile_connection set" where
  "claims_in d = set (t_conns d)"

lemma authorises_refl [simp]: "\<not> authorises key a a"
  by (auto simp: authorises_def)

interpretation agreement: memory claims_in "agreed o' i did" for o' i did
proof unfold_locales
  fix H H' a b assume "agreed o' i did H a b" and "H \<subseteq> H'"
  then show "agreed o' i did H' a b" unfolding agreed_def by (meson subsetD)
qed (simp add: agreed_def)

lemma flow_agreed: "flow o' a b \<Longrightarrow> agreed o'' i did H a b"
  using flow_never_authorises by (auto simp: agreed_def)

lemma always_agreed: "always (flow o') p \<Longrightarrow> backed claims_in (agreed o'' i did) H p"
  by (rule agreement.backed_always) (auto intro: always_mono flow_agreed)

lemma stepping_agreed: "stepping (flow o') m \<Longrightarrow> stepping (agreed o'' i did {}) m"
  by (auto intro: stepping_mono flow_agreed)

lemma wp_flow_agreed: "stepping (flow o') m \<Longrightarrow> wp m (\<lambda>r w'. agreed o'' i did H (tabs w) (tabs w')) w"
  unfolding stepping_def by (erule allE, erule wp_mono) (rule flow_agreed)

lemma authorised_install:
  assumes upd: "parked_update spec command True x = Inr (Some y)" and cmd: "vtaActivationCommand parse spec = Inr command"
    and new: "authorized_id y \<noteq> authorized_id x"
  shows "authorized_id y = va_ActivationID spec \<and> current_id y = va_ActivationID spec \<and> dp_Replicas y = Some 1 \<and>
    (\<exists>c \<in> set (dp_InitContainers y). is_activation c) \<and>
    (\<forall>c \<in> set (dp_InitContainers y). is_activation c \<longrightarrow> ct_Command c = [''sh'', ''-c'', command])"
proof -
  from parked_update_install(1) [OF upd] have y: "y = install_activation spec command True x" .
  then have ids: "authorized_id y = va_ActivationID spec" "current_id y = va_ActivationID spec" "dp_Replicas y = Some 1"
    by (auto simp: install_activation_def Let_def)
  from new ids have "authorized_id x \<noteq> va_ActivationID spec" by simp
  with parked_update_install(3) [OF upd]
  have same: "ct_Command c = [''sh'', ''-c'', command]" if "c \<in> set (dp_InitContainers x)" "is_activation c" for c
    using that by (auto simp: activationContainersEqual_def activation_container_def)
  have "\<exists>c \<in> set (dp_InitContainers y). is_activation c"
    unfolding y install_activation_def Let_def
    by (auto simp: is_activation_def activation_container_def)
  moreover have "\<forall>c \<in> set (dp_InitContainers y). is_activation c \<longrightarrow> ct_Command c = [''sh'', ''-c'', command]"
    unfolding y install_activation_def Let_def
    by (auto simp: same split: if_splits) (simp_all add: activation_container_def)
  ultimately show ?thesis using ids by blast
qed

lemma revise_authorises:
  assumes "authorises key' d (snd (revise key f d))"
  obtains x y where "key' = key" "k_deployments d key = Some x" "f x = Inr (Some y)"
    "k_deployments (snd (revise key f d)) key = Some y" "authorized_id y \<noteq> authorized_id x"
proof (cases rule: revise_cases [of key f d])
  case 1
  with assms show ?thesis by simp
next
  case (2 x y)
  then have key: "key' = key" using assms by (auto simp: authorises_def split: if_splits)
  with 2 assms have "authorized_id y \<noteq> authorized_id x" by (auto simp: authorises_def)
  with 2 key show ?thesis by (intro that [of x y]) simp_all
qed

lemma agreed_activate:
  assumes r: "r \<in> H" "activation_claim i did r" and s: "ss_ID session = i"
  shows "wp (ActivateParkedVtaDeployment (or_url o') ns
              (activation_spec_for o' session did label control (PoolActivationID i (mc_ID r))))
           (\<lambda>_ w'. agreed o' i did H (tabs w) (tabs w')) w"
proof -
  define spec where "spec = activation_spec_for o' session did label control (PoolActivationID i (mc_ID r))"
  have spec: "va_SessionID spec = i" "va_AdminDID spec = mc_AdminDid r" "va_ActivationID spec = PoolActivationID i (mc_ID r)"
    using s r(2) by (simp_all add: spec_def activation_spec_for_def activation_claim_def)
  have "agreed o' i did H d (snd (revise (ns, VtaDeploymentName i) (parked_update spec command True) d))"
    if cmd: "vtaActivationCommand (or_url o') spec = Inr command" for d command
    unfolding agreed_def
  proof (intro allI impI)
    fix key assume "authorises key d (snd (revise (ns, VtaDeploymentName i) (parked_update spec command True) d))"
    then obtain x y where key: "key = (ns, VtaDeploymentName i)" and upd: "parked_update spec command True x = Inr (Some y)"
      and y: "k_deployments (snd (revise (ns, VtaDeploymentName i) (parked_update spec command True) d)) key = Some y"
      and new: "authorized_id y \<noteq> authorized_id x"
      by (rule revise_authorises) blast
    from authorised_install [OF upd cmd new] cmd spec have "imports_claim o' i r y"
      unfolding imports_claim_def by blast
    with r key y show "\<exists>r \<in> H. activation_claim i did r \<and> snd key = VtaDeploymentName i \<and>
        imports_claim o' i r (the (k_deployments (snd (revise (ns, VtaDeploymentName i) (parked_update spec command True) d)) key))"
      by auto
  qed
  then show ?thesis
    unfolding ActivateParkedVtaDeployment_def updateParkedVtaDeployment_def spec_def [symmetric]
    by (auto simp: wp spec wp_revising lift_err_def agreement.G_same split: sum.splits)
qed

lemma latest_in: "latest rs = Some r \<Longrightarrow> r \<in> set rs"
  by (induction rs arbitrary: r rule: latest.induct) (auto split: option.splits if_splits)

lemma loaded_claim:
  "loadPoolActivation i did w = (Inr r, w') \<Longrightarrow> r \<in> claims_in (tabs w) \<and> activation_claim i did r"
proof -
  assume "loadPoolActivation i did w = (Inr r, w')"
  moreover have "wp (loadPoolActivation i did)
      (\<lambda>q _. \<forall>r. q = Inr r \<longrightarrow> r \<in> claims_in (tabs w) \<and> activation_claim i did r) w"
    unfolding loadPoolActivation_def
    by (auto simp: wp claims_in_def dest!: latest_in split: option.split)
  ultimately show ?thesis by (auto dest: wpD)
qed

lemma backed_activate_member:
  assumes "r \<in> H" "activation_claim i did r" "ss_ID session = i"
  shows "backed claims_in (agreed o' i did) H (activate_member o' session did label control r)"
  unfolding activate_member_def Let_def assms(3)
proof (rule agreement.backed_check)
  fix w :: "farm world"
  show "wp (ActivateParkedVtaDeployment (or_url o') (session_ns o' session)
          (activation_spec_for o' session did label control (PoolActivationID i (mc_ID r))))
        (\<lambda>r w'. agreed o' i did (H \<union> claims_in (tabs w)) (tabs w) (tabs w')) w"
    by (rule agreed_activate) (use assms in auto)
qed (auto intro!: always_agreed [where o' = o'] flow_rules flow_steps always_flow split: option.split)

lemma agreed_fail: "backed claims_in (agreed o' i did) H (failPoolActivation j r st)"
  by (rule always_agreed [where o' = o'], rule always_flow)

lemma agreed_Return: "backed claims_in (agreed o' i did) H (Return x)"
  by simp

lemma agreed_step: "stepping (flow o') m \<Longrightarrow> wp m (\<lambda>r w'. agreed o' i did (H \<union> claims_in (tabs w)) (tabs w) (tabs w')) w"
  by (rule wp_flow_agreed)

lemmas agreement_rules = agreement.backed_pbind agreement.backed_silent_check agreement.backed_if
  agreed_fail agreed_Return

lemma backed_load:
  assumes "ss_ID session = i"
  shows "backed claims_in (agreed o' i did) H
    (check (loadPoolActivation i did) (\<lambda>_. failPoolActivation i [] ''load_claim'')
       (activate_member o' session did label control))"
proof (rule agreement.backed_check)
  fix r and w w' :: "farm world" assume "loadPoolActivation i did w = (Inr r, w')"
  from loaded_claim [OF this]
  show "backed claims_in (agreed o' i did) (H \<union> claims_in (tabs w)) (activate_member o' session did label control r)"
    by (intro backed_activate_member) (use assms in auto)
qed (rule agreed_step, rule flow_steps, rule agreed_fail)

lemma backed_runPoolActivation:
  assumes "ss_ID session = i"
  shows "backed claims_in (agreed o' i did) H (runPoolActivation o' session did label control)"
  unfolding runPoolActivation_def Let_def assms
  by (intro agreement_rules stepping_agreed [where o' = o'] flow_steps backed_load [OF assms])

lemma backed_provision_granted:
  assumes "ss_ID session = i"
  shows "backed claims_in (agreed o' i did) H (provision_granted o' session did control)"
proof -
  have job: "backed claims_in (agreed o' i did) H' (provision_by_job o' session did l control)" for H' l
    by (rule always_agreed [where o' = o'], rule always_flow)
  show ?thesis
    unfolding provision_granted_def provisionAdminLabel_def
    by (intro agreement_rules backed_runPoolActivation assms stepping_agreed [where o' = o'] flow_steps job)
qed

lemma session_row_id: "session_row i d = Some s \<Longrightarrow> ss_ID s = i"
  by (auto simp: session_row_def dest: find_SomeD)

lemma wp_first_row: "first (session_row i) w = (Inr s, w') \<Longrightarrow> ss_ID s = i"
  by (auto simp: first_def bnd_def select_def interact_def ret_def throw_def
      dest: session_row_id split: if_splits option.splits)

lemma backed_runProvision: "backed claims_in (agreed o' i did) H (runProvision o' i did)"
  unfolding runProvision_def
proof (rule agreement.backed_check)
  fix session and w w' :: "farm world" assume "first (session_row i) w = (Inr session, w')"
  then have s: "ss_ID session = i" by (rule wp_first_row)
  have granted: "backed claims_in (agreed o' i did) H' (provision_granted o' session did control)" for H' control
    using s by (rule backed_provision_granted)
  have failed: "backed claims_in (agreed o' i did) H' (markFailed i m (Return ()))" for H' m
    by (rule always_agreed [where o' = o']) (auto intro!: flow_rules)
  have refused: "backed claims_in (agreed o' i did) H' (unless_done (Return ()) (markFailed i m (Return ())))" for H' m
    by (rule always_agreed [where o' = o']) (auto intro!: flow_rules)
  have acl: "backed claims_in (agreed o' i did) H' (CreateAcl dh did' ''service'' l)" for H' dh did' l
    by (rule always_agreed [where o' = o'], rule always_flow)
  have granted_or: "backed claims_in (agreed o' i did) H' (case r of
        Some e \<Rightarrow> unless_done (Return ()) (markFailed i (f e) (Return ()))
      | None \<Rightarrow> provision_granted o' session did control)" for H' r control and f :: "err \<Rightarrow> string"
    by (cases r) (simp_all add: granted refused)
  show "backed claims_in (agreed o' i did) (H \<union> claims_in (tabs w))
          (at_time (\<lambda>now. ignore (exec (update_session i (provisioning_row did now)))
             (if ss_ConnectionSource session = ConnectionExternal
              then provision_granted o' session did (ss_DIDHostingDid session)
              else if or_hosting o' = None then provision_granted o' session did []
              else check (HostingFor o' (ss_DidHostingControlURL session) (ss_DIDHostingDid session))
                (\<lambda>e. markFailed i (''failed to reach DID hosting control API: '' @ or_Error o' e) (Return ())) (\<lambda>dh.
              pbind (CreateAcl dh (ss_VtaDid session) ''service'' (acl_label session)) (\<lambda>r. case r of
                Some e \<Rightarrow> unless_done (Return ())
                  (markFailed i (''failed to add VTA DID to hosting ACL: '' @ or_Error o' e) (Return ()))
              | None \<Rightarrow> provision_granted o' session did (snd dh))))))"
    unfolding at_time_def ignore_def
    by (intro agreement_rules granted failed acl granted_or stepping_agreed [where o' = o'] flow_steps)
qed (rule agreed_step, rule flow_steps, simp)

text \<open>The goroutines of the setup flow, and the handlers beside them, without their results.\<close>

datatype activity =
    Provision nat string
  | Prewarm nat
  | Build nat
  | Setup nat
  | Cancelling nat
  | Gate string string

definition forget :: "('t, 'a) prog \<Rightarrow> ('t, unit) prog" where
  "forget p = pbind p (\<lambda>_. Return ())"

fun code_of :: "orch \<Rightarrow> activity \<Rightarrow> (farm, unit) prog" where
  "code_of o' (Provision i did) = runProvision o' i did"
| "code_of o' (Prewarm i) = reconcilePoolPrewarm o' i"
| "code_of o' (Build i) = runOne o' (Some (prepareSession o')) (Some (BuildPool o')) None i"
| "code_of o' (Setup i) = forget (runSetup o' i)"
| "code_of o' (Cancelling i) = forget (CancelSetup i)"
| "code_of o' (Gate sp ap) = forget (PoolActivationGate o' sp ap)"

lemma flow_code_of: "(\<nexists>i did. act = Provision i did) \<Longrightarrow> always (flow o') (code_of o' act)"
  by (cases act) (auto simp: forget_def intro!: flow_rules flow_runOne always_flow)

text \<open>
  C26. Whatever runs beside it, an action that authorises the activation of a Deployment is the
  provision worker's, for a session and an administrator, and by then that worker has seen a
  claim of exactly this administrator on this session that was confirmed; the Deployment then
  carries the activation id of this claim, runs one pod, and every activation container in it
  runs the command built for this administrator.
\<close>

theorem activation_agrees_with_confirmation:
  assumes "n < length (moves (code_of o' act) ws)" and "moves (code_of o' act) ws ! n = (a, b)"
    and "authorises key a b"
  shows "\<exists>i did. act = Provision i did \<and> snd key = VtaDeploymentName i \<and>
    (\<exists>m \<le> n. \<exists>r \<in> set (t_conns (fst (moves (code_of o' act) ws ! m))).
       activation_claim i did r \<and> imports_claim o' i r (the (k_deployments b key)))"
proof (cases "\<exists>i did. act = Provision i did")
  case False
  then have "always (flow o') (code_of o' act)" by (rule flow_code_of)
  moreover have "(a, b) \<in> set (moves (code_of o' act) ws)" using assms(1,2) nth_mem by fastforce
  ultimately have "flow o' a b" by (rule always_moves)
  with assms(3) flow_never_authorises show ?thesis by blast
next
  case True
  then obtain i did where act: "act = Provision i did" by blast
  then have "backed claims_in (agreed o' i did) {} (code_of o' act)" by (simp add: backed_runProvision)
  from backed_moves [OF this assms(1,2)]
  have "agreed o' i did ({} \<union> (\<Union>m \<in> {..n}. claims_in (fst (moves (code_of o' act) ws ! m)))) a b" .
  with assms(3) obtain r where "r \<in> {} \<union> (\<Union>m \<in> {..n}. claims_in (fst (moves (code_of o' act) ws ! m)))"
    and r: "activation_claim i did r" "snd key = VtaDeploymentName i" "imports_claim o' i r (the (k_deployments b key))"
    unfolding agreed_def by blast
  then obtain m where "m \<le> n" "r \<in> set (t_conns (fst (moves (code_of o' act) ws ! m)))"
    by (auto simp: claims_in_def)
  with act r show ?thesis by blast
qed

section \<open>An authorised activation is final\<close>

definition activated_ok :: "deployment \<Rightarrow> bool" where
  "activated_ok y \<longleftrightarrow>
     (authorized_id y \<noteq> [] \<longrightarrow> current_id y = authorized_id y \<and> (\<exists>c \<in> set (dp_InitContainers y). is_activation c))"

definition still_activated :: "deployment \<Rightarrow> deployment \<Rightarrow> bool" where
  "still_activated x y \<longleftrightarrow>
     authorized_id y = authorized_id x \<and> current_id y = current_id x \<and>
     filter is_activation (dp_InitContainers y) = filter is_activation (dp_InitContainers x)"

definition seals :: "farm \<Rightarrow> farm \<Rightarrow> bool" where
  "seals a b \<longleftrightarrow>
     ((\<forall>key x. k_deployments a key = Some x \<longrightarrow> activated_ok x) \<longrightarrow>
      (\<forall>key y. k_deployments b key = Some y \<longrightarrow> activated_ok y) \<and>
      (\<forall>key x. k_deployments a key = Some x \<and> authorized_id x \<noteq> [] \<longrightarrow>
         (\<exists>y. k_deployments b key = Some y \<and> still_activated x y)))"

lemma activated_install:
  assumes "parked_update spec command authorize x = Inr (Some y)" and "activated_ok x"
  shows "activated_ok y" and "authorized_id x \<noteq> [] \<Longrightarrow> still_activated x y"
proof -
  note y = parked_update_install(1) [OF assms(1)]
  have init: "\<exists>c \<in> set (dp_InitContainers y). is_activation c"
    unfolding y install_activation_def Let_def by (auto simp: is_activation_def activation_container_def)
  have auth: "authorized_id x = []" if "\<not> authorize"
    using parked_update_install(4) [OF assms(1)] that by blast
  show "activated_ok y"
    using init auth unfolding activated_ok_def y
    by (auto simp: install_activation_def Let_def)
  assume x: "authorized_id x \<noteq> []"
  with assms(2) have "current_id x = authorized_id x" "\<exists>c \<in> set (dp_InitContainers x). is_activation c"
    by (auto simp: activated_ok_def)
  with parked_update_install(2) [OF assms(1)] x auth show "still_activated x y"
    unfolding still_activated_def y by (auto simp: install_activation_def Let_def)
qed

lemma activated_step:
  assumes "dep_step old new" and "\<And>x. old = Some x \<Longrightarrow> activated_ok x"
  shows "activated_ok new" and "\<And>x. old = Some x \<Longrightarrow> authorized_id x \<noteq> [] \<Longrightarrow> still_activated x new"
proof -
  have "activated_ok new \<and> (\<forall>x. old = Some x \<longrightarrow> authorized_id x \<noteq> [] \<longrightarrow> still_activated x new)"
  proof (cases old)
    case None
    with assms(1) show ?thesis
      by (auto simp: dep_step_def vta_deployment_def blank_deployment_def activated_ok_def)
  next
    case (Some x)
    with assms have x: "activated_ok x" by simp
    from assms(1) Some consider n where "new = x\<lparr>dp_Replicas := Some n\<rparr>" | i where "cancel_prewarm i x = Inr (Some new)"
      | spec command where "parked_update spec command False x = Inr (Some new)"
      unfolding dep_step_def by auto
    then show ?thesis
    proof cases
      case 1
      with x Some show ?thesis by (auto simp: activated_ok_def still_activated_def)
    next
      case 2
      then have "authorized_id x = []" "authorized_id new = []" by (auto simp: cancel_prewarm_def split: if_splits)
      with Some show ?thesis by (simp add: activated_ok_def)
    next
      case (3 spec command)
      from activated_install [OF 3 x] Some show ?thesis by auto
    qed
  qed
  then show "activated_ok new" "\<And>x. old = Some x \<Longrightarrow> authorized_id x \<noteq> [] \<Longrightarrow> still_activated x new" by auto
qed

lemma still_refl [simp]: "still_activated x x"
  by (simp add: still_activated_def)

lemma seals_refl [simp]: "seals a a"
  by (simp add: seals_def)

lemma seals_same: "k_deployments b = k_deployments a \<Longrightarrow> seals a b"
  by (auto simp: seals_def)

lemma seals_update:
  assumes "k_deployments b = (k_deployments a)(key \<mapsto> new)"
    and "(\<And>x. k_deployments a key = Some x \<Longrightarrow> activated_ok x) \<Longrightarrow> activated_ok new"
    and "\<And>x. (\<And>x. k_deployments a key = Some x \<Longrightarrow> activated_ok x) \<Longrightarrow> k_deployments a key = Some x \<Longrightarrow>
           authorized_id x \<noteq> [] \<Longrightarrow> still_activated x new"
  shows "seals a b"
  using assms by (auto simp: seals_def)

lemma flow_seals: "flow o' a b \<Longrightarrow> seals a b"
  unfolding flow_def plain_def
proof (elim disjE exE conjE)
  fix key new
  assume "dep_step (k_deployments a key) new" and b: "k_deployments b = (k_deployments a)(key \<mapsto> new)"
  from activated_step [OF this(1)] show "seals a b" by (intro seals_update [OF b]) auto
qed (simp_all add: seals_same)

text \<open>What a goroutine does to the cluster at all: the flow's changes, and activating.\<close>

definition deed :: "orch \<Rightarrow> farm \<Rightarrow> farm \<Rightarrow> bool" where
  "deed o' a b \<longleftrightarrow> flow o' a b \<or> (\<exists>key spec command. b = snd (revise key (parked_update spec command True) a))"

lemma deed_step: "stepping (flow o') m \<Longrightarrow> stepping (deed o') m"
  by (erule stepping_mono) (simp add: deed_def)

lemma deed_flow: "always (flow o') p \<Longrightarrow> always (deed o') p"
  by (erule always_mono) (simp add: deed_def)

lemma deed_activate: "stepping (deed o') (ActivateParkedVtaDeployment parse ns spec)"
proof -
  have "deed o' d (snd (revise key (parked_update spec command True) d))" for d key command
    unfolding deed_def by blast
  then show ?thesis
    unfolding ActivateParkedVtaDeployment_def updateParkedVtaDeployment_def stepping_def
    by (auto simp: wp wp_revising lift_err_def deed_def split: sum.splits)
qed

lemmas deed_rules = always_check always_pbind always_if deed_step flow_steps always_Return

lemma deed_runPoolActivation: "always (deed o') (runPoolActivation o' s did l c)"
proof -
  have wait: "always (deed o') (case r of Some _ \<Rightarrow> unless_done (Return True) (failPoolActivation i j st)
        | None \<Rightarrow> finishVtaOnlyDeployment i True (Return True))" for r :: "err option" and i j st
    by (rule deed_flow) (auto split: option.split intro!: flow_rules always_flow)
  have calls: "always (deed o') (failPoolActivation i j st)" "always (deed o') (WaitForVtaActivation ns i t)" for i j st ns t
    by (rule deed_flow, rule always_flow)+
  show ?thesis
    unfolding runPoolActivation_def activate_member_def Let_def
    by (intro deed_rules deed_activate wait calls)
qed

lemma deed_runProvision: "always (deed o') (runProvision o' i did)"
proof -
  have job: "always (deed o') (provision_by_job o' s did l c)" for s l c
    by (rule deed_flow, rule always_flow)
  have granted: "always (deed o') (provision_granted o' s did c)" for s c
    unfolding provision_granted_def provisionAdminLabel_def
    by (intro deed_rules deed_runPoolActivation job)
  have failed: "always (deed o') (markFailed i m (Return ()))" "always (deed o') (unless_done (Return ()) (markFailed i m (Return ())))" for m
    by (rule deed_flow, auto intro!: flow_rules)+
  have acl: "always (deed o') (CreateAcl dh did' ''service'' l)" for dh did' l
    by (rule deed_flow, rule always_flow)
  have answered: "always (deed o') (case r of Some e \<Rightarrow> unless_done (Return ()) (markFailed i (f e) (Return ()))
        | None \<Rightarrow> provision_granted o' s did c)" for r s c and f :: "err \<Rightarrow> string"
    by (cases r) (simp_all add: granted failed)
  show ?thesis
    unfolding runProvision_def at_time_def ignore_def
    by (intro deed_rules granted failed acl answered)
qed

lemma deed_code_of: "always (deed o') (code_of o' act)"
proof (cases "\<exists>i did. act = Provision i did")
  case True
  then show ?thesis by (auto simp: deed_runProvision)
next
  case False
  then show ?thesis by (intro deed_flow flow_code_of)
qed

lemma deed_seals: "deed o' a b \<Longrightarrow> seals a b"
  unfolding deed_def
proof (elim disjE exE)
  fix key spec command assume b: "b = snd (revise key (parked_update spec command True) a)"
  show "seals a b"
  proof (cases rule: revise_cases [of key "parked_update spec command True" a])
    case (2 x y)
    with b show ?thesis by (intro seals_update [of _ a key y]) (auto intro: activated_install)
  qed (simp add: b)
qed (rule flow_seals)

text \<open>
  C27. An authorised activation is final: no action of any of the goroutines, whatever runs beside
  them, takes the authorisation from a Deployment, changes the activation it runs or replaces its
  activation container; and whatever they do, an authorised Deployment runs what it is authorised for.
\<close>

theorem activation_final:
  assumes "(a, b) \<in> set (moves (code_of o' act) ws)"
    and "\<forall>key x. k_deployments a key = Some x \<longrightarrow> activated_ok x"
  shows "(\<forall>key y. k_deployments b key = Some y \<longrightarrow> activated_ok y) \<and>
    (\<forall>key x. k_deployments a key = Some x \<and> authorized_id x \<noteq> [] \<longrightarrow>
       (\<exists>y. k_deployments b key = Some y \<and> still_activated x y))"
  using deed_seals [OF always_moves [OF deed_code_of assms(1)]] assms(2) by (simp add: seals_def)

section \<open>Ways to an activation\<close>

definition parked :: "deployment \<Rightarrow> bool" where
  "parked x \<longleftrightarrow>
     dp_Replicas x = Some 0 \<and> (\<forall>c \<in> set (dp_InitContainers x). \<not> is_activation c) \<and>
     dp_TemplateAnnotations x PoolActivationAnnotation = None \<and> dp_Annotations x PoolActivationAnnotation = None \<and>
     dp_Annotations x PoolPrewarmAnnotation = None \<and> dp_Labels x PoolPrewarmLabel = None"

lemma activation_install_warm:
  "parked x \<Longrightarrow> vta_template (va_Image spec) x \<Longrightarrow> va_ActivationID spec \<noteq> [] \<Longrightarrow>
   parked_update spec command False x = Inr (Some (install_activation spec command False x))"
  by (auto simp: parked_update_def Let_def parked_def lookup_in_def)

text \<open>
  C28. From a parked Deployment a prewarm followed by its cancellation leads back to exactly the
  parked Deployment, activating after the prewarm gives exactly the Deployment that activating at
  once gives, and activating or prewarming again changes nothing.
\<close>

theorem activation_paths_agree:
  assumes "parked x" and "vta_template (va_Image spec) x" and "va_ActivationID spec \<noteq> []"
  shows "\<exists>warm active.
    parked_update spec command False x = Inr (Some warm) \<and>
    parked_update spec command True x = Inr (Some active) \<and>
    cancel_prewarm (va_ActivationID spec) warm = Inr (Some x) \<and>
    parked_update spec command True warm = Inr (Some active) \<and>
    parked_update spec command False warm = Inr None \<and>
    parked_update spec command True active = Inr None \<and>
    cancel_prewarm (va_ActivationID spec) active = Inr None"
proof -
  let ?warm = "install_activation spec command False x"
  let ?active = "install_activation spec command True x"
  from assms(1) have x: "dp_Replicas x = Some 0" "\<forall>c \<in> set (dp_InitContainers x). \<not> is_activation c"
    "dp_TemplateAnnotations x PoolActivationAnnotation = None" "dp_Annotations x PoolActivationAnnotation = None"
    "dp_Annotations x PoolPrewarmAnnotation = None" "dp_Labels x PoolPrewarmLabel = None"
    by (simp_all add: parked_def)
  have act: "is_activation (activation_container spec command)" by (simp add: is_activation_def activation_container_def)
  have none: "(\<exists>c \<in> set (dp_InitContainers x). is_activation c) \<longleftrightarrow> False" using x(2) by blast
  have gone: "filter (\<lambda>c. \<not> is_activation c) (dp_InitContainers x) = dp_InitContainers x"
    using x(2) by (simp add: filter_id_conv)
  have ids: "current_id x = []" "authorized_id x = []" using x by (simp_all add: lookup_in_def)
  have tmpl: "vta_template (va_Image spec) ?warm" "vta_template (va_Image spec) ?active"
    using assms(2) by (simp_all add: vta_template_def install_activation_def Let_def)
  have upd: "m(k \<mapsto> v, k := None) = m" if "m k = None" for m :: string_map and k v
    using that by auto
  have "parked_update spec command False x = Inr (Some ?warm)" "parked_update spec command True x = Inr (Some ?active)"
    using assms(2,3) x none ids by (simp_all add: parked_update_def Let_def)
  moreover have "cancel_prewarm (va_ActivationID spec) ?warm = Inr (Some x)"
    using x none gone ids assms(3) act
    by (cases x) (simp add: cancel_prewarm_def install_activation_def Let_def fun_upd_idem)
  moreover have "parked_update spec command True ?warm = Inr (Some ?active)"
    using x none ids assms(3) act tmpl x(2)
    by (auto simp: parked_update_def install_activation_def Let_def activationContainersEqual_def upd fun_upd_twist)
  moreover have "parked_update spec command False ?warm = Inr None" "parked_update spec command True ?active = Inr None"
    using x none ids assms(3) act tmpl x(2)
    by (auto simp: parked_update_def install_activation_def Let_def activationContainersEqual_def)
  moreover have "cancel_prewarm (va_ActivationID spec) ?active = Inr None"
    using assms(3) by (simp add: cancel_prewarm_def install_activation_def Let_def)
  ultimately show ?thesis by blast
qed

section \<open>The gate\<close>

text \<open>The member's claim the gate answers for, and the Deployment it has asked.\<close>

definition opened_for :: "orch \<Rightarrow> nat \<Rightarrow> string \<Rightarrow> farm world list \<Rightarrow> bool" where
  "opened_for o' i activationID ws \<longleftrightarrow>
     (\<exists>w1 w2 w3 w4 ws' session conn x. ws = w1 # w2 # w3 # w4 # ws' \<and>
        session_row i (tabs w1) = Some session \<and>
        (\<exists>m \<in> set (t_members (tabs w2)). ps_SessionID m = i) \<and>
        newest (filter (\<lambda>r. mc_SessionID r = i) (t_conns (tabs w3))) = Some conn \<and>
        PoolActivationID i (mc_ID conn) = activationID \<and> mc_ConfirmedAt conn \<noteq> None \<and>
        mc_Status conn \<in> {''confirmed'', ''provisioning'', ''released''} \<and>
        mc_AdminDid conn \<noteq> [] \<and> ss_AdminDid session = mc_AdminDid conn \<and>
        k_deployments (tabs w4) (session_ns o' session, VtaDeploymentName i) = Some x \<and> authorized_id x = activationID)"

lemma fst_checks:
  "fst (first f w) = (if fails w (tick w) then Inl DbFailure else case f (tabs w) of None \<Rightarrow> Inl RecordNotFound | Some x \<Rightarrow> Inr x)"
  "fst (on_db (Current i) w) =
     (if fails w (tick w) then Inl DbFailure else Inr (newest (filter (\<lambda>r. mc_SessionID r = i) (t_conns (tabs w)))))"
  "fst (PoolActivationAuthorized ns i a w) =
     (if fails w (tick w) then Inl LibraryFailure else case k_deployments (tabs w) (ns, VtaDeploymentName i) of
        None \<Rightarrow> Inl LibraryFailure | Some d \<Rightarrow> Inr (authorized_id d = a))"
  by (auto simp: first_def bnd_def select_def interact_def ret_def throw_def on_db_def Current_def with_tabs_def
      PoolActivationAuthorized_def db.truncate_def split: option.split)

lemma returns_authorized:
  "returns (gate_authorized o' session i activationID)
     (\<lambda>ws q. q = 200 \<longrightarrow> (\<exists>w4 ws' x. ws = w4 # ws' \<and>
        k_deployments (tabs w4) (session_ns o' session, VtaDeploymentName i) = Some x \<and> authorized_id x = activationID))"
  by (auto simp: gate_authorized_def returns_check fst_checks split: option.split)

lemma returns_gate_claim:
  "returns (gate_claim o' session i activationID conn)
     (\<lambda>ws q. q = 200 \<longrightarrow> PoolActivationID i (mc_ID conn) = activationID \<and> mc_ConfirmedAt conn \<noteq> None \<and>
        mc_Status conn \<in> {''confirmed'', ''provisioning'', ''released''} \<and>
        mc_AdminDid conn \<noteq> [] \<and> ss_AdminDid session = mc_AdminDid conn \<and>
        (\<exists>w4 ws' x. ws = w4 # ws' \<and>
        k_deployments (tabs w4) (session_ns o' session, VtaDeploymentName i) = Some x \<and> authorized_id x = activationID))"
  unfolding gate_claim_def
  by (auto simp: returns_check split: sum.split intro: returns_mono [OF returns_authorized])

text \<open>
  C29. The gate opens (200) only for the activation of the newest request of a pool member, when it
  has seen that request confirmed by the owner, for the administrator the session is provisioned
  with, and the Deployment authorised for exactly this activation.
\<close>

theorem gate_opens:
  assumes "result (PoolActivationGate o' session_param activation_param) ws = Some 200"
  shows "\<exists>n. ParseUint 64 session_param = Some n \<and> 0 < n \<and>
    opened_for o' (nat n) (ToLower (TrimSpace activation_param)) ws"
proof -
  let ?Q = "\<lambda>ws q. q = (200::nat) \<longrightarrow> (\<exists>n. ParseUint 64 session_param = Some n \<and> 0 < n \<and>
    opened_for o' (nat n) (ToLower (TrimSpace activation_param)) ws)"
  have "returns (PoolActivationGate o' session_param activation_param) ?Q"
    unfolding PoolActivationGate_def Let_def
    by (auto simp: returns_check fst_checks opened_for_def split: option.split dest!: find_SomeD
        intro!: returns_mono [OF returns_gate_claim])
  from returns_result [OF this assms] show ?thesis by simp
qed


section \<open>Witnesses\<close>

text \<open>
  Session 7 of the wallet's examples as a pool member: its claim is confirmed, its Deployment
  parked. Every action finds the same world again.
\<close>

definition activation_session :: setup_session where
  "activation_session = sample_session\<lparr>ss_Status := ''provisioning'', ss_ConnectionSource := ConnectionExternal,
     ss_VtaImage := ''vta:1'', ss_AdminDid := sample_did\<rparr>"

definition confirmed_claim :: mobile_connection where
  "confirmed_claim = claimed_row\<lparr>mc_Status := ''provisioning'', mc_ConfirmedAt := Some 2\<rparr>"

definition activation_orch :: orch where
  "activation_orch = \<lparr>or_namespacePrefix = ''p'', or_Error = (\<lambda>_. ''error''), or_json = (\<lambda>_. None), or_url = (\<lambda>_. None),
     or_gateBase = [], or_vault = None, or_hosting = None, or_cf = False, or_polls = 0\<rparr>"

definition demo_activation :: string where
  "demo_activation = PoolActivationID 7 ''c1''"

definition demo_key :: "string \<times> string" where
  "demo_key = (session_ns activation_orch activation_session, VtaDeploymentName 7)"

definition demo_spec :: activation_spec where
  "demo_spec = activation_spec_for activation_orch activation_session sample_did MobileAdminLabel [] demo_activation"

definition activation_farm :: "deployment \<Rightarrow> farm" where
  "activation_farm x = (farm_of (empty_db\<lparr>t_sessions := [activation_session], t_conns := [confirmed_claim],
     t_members := [\<lparr>ps_SessionID = 7, ps_BatchID = 1\<rparr>]\<rparr>))\<lparr>k_deployments := [demo_key \<mapsto> x]\<rparr>"

definition activation_world :: "deployment \<Rightarrow> farm world" where
  "activation_world x = with_tabs (activation_farm x) (calm_world empty_db (\<lambda>_. 9))"

definition parked_demo :: deployment where
  "parked_demo = vta_deployment 7 ''vta:1'' 0"

lemma hex_bytes_PoolActivationID [simp]: "hex_bytes (PoolActivationID i r) = Some 16"
proof -
  have "set (PoolActivationID i r) \<subseteq> set hex_digits" unfolding PoolActivationID_def by (rule set_hex)
  moreover have "length (PoolActivationID i r) = 32" by (simp add: PoolActivationID_def)
  ultimately show ?thesis by (auto simp: hex_bytes_def)
qed

lemma PoolActivationID_nonempty [simp]: "PoolActivationID i r \<noteq> []" "[] \<noteq> PoolActivationID i r"
  using hex_bytes_PoolActivationID [of i r] by (force simp: hex_bytes_def)+

lemma demo_rows [simp]:
  "t_sessions (activation_farm x) = [activation_session]" "t_conns (activation_farm x) = [confirmed_claim]"
  "t_members (activation_farm x) = [\<lparr>ps_SessionID = 7, ps_BatchID = 1\<rparr>]"
  "k_deployments (activation_farm x) = [demo_key \<mapsto> x]" "k_jobs (activation_farm x) key = None"
  by (simp_all add: activation_farm_def farm_of_def db.extend_def)

lemma demo_world [simp]:
  "tabs (activation_world x) = activation_farm x" "fails (activation_world x) = (\<lambda>_. False)"
  "clock (activation_world x) n = 9"
  by (simp_all add: activation_world_def with_tabs_def calm_world_def)

lemma demo_session [simp]:
  "ss_ID activation_session = 7" "ss_ConnectionSource activation_session = ConnectionExternal"
  "ss_AdminDid activation_session = sample_did" "ss_VtaImage activation_session = ''vta:1''"
  by (simp_all add: activation_session_def sample_session_def)

lemma demo_claim [simp]:
  "mc_ID confirmed_claim = ''c1''" "activation_claim 7 sample_did confirmed_claim" "mc_SessionID confirmed_claim = 7"
  "mc_AdminDid confirmed_claim = sample_did" "mc_Status confirmed_claim = ''provisioning''"
  "mc_ConfirmedAt confirmed_claim = Some 2" "labelled_claim 7 sample_did confirmed_claim"
  by (simp_all add: confirmed_claim_def activation_claim_def labelled_claim_def)

lemma demo_activated:
  "\<exists>command. vtaActivationCommand (or_url activation_orch) demo_spec = Inr command \<and>
     parked_update demo_spec command True parked_demo = Inr (Some (install_activation demo_spec command True parked_demo))"
proof -
  have "sample_did \<noteq> []" by (simp add: sample_did_def)
  then obtain command where "vtaActivationCommand (or_url activation_orch) demo_spec = Inr command"
    by (auto simp: vtaActivationCommand_def demo_spec_def activation_spec_for_def poolActivationGateURL_def
        activation_orch_def demo_activation_def)
  moreover have "parked parked_demo" "vta_template (va_Image demo_spec) parked_demo" "va_ActivationID demo_spec \<noteq> []"
    by (simp_all add: parked_demo_def parked_def vta_deployment_def blank_deployment_def vta_labels_def
        vta_template_def demo_spec_def activation_spec_for_def demo_activation_def)
  moreover from this have "current_id parked_demo = []" "authorized_id parked_demo = []"
    "\<not> (\<exists>c \<in> set (dp_InitContainers parked_demo). is_activation c)" "dp_Replicas parked_demo = Some 0"
    by (auto simp: parked_def lookup_in_def)
  ultimately show ?thesis by (auto simp: parked_update_def)
qed

lemma demo_firsts [simp]:
  "first (session_row 7) (activation_world x) =
     (Inr activation_session, (activation_world x)\<lparr>tick := Suc (tick (activation_world x))\<rparr>)"
  "fst (isPoolSession 7 (activation_world x)) = Inr True"
  "fst (HasProvisionJob ns i (activation_world x)) = Inr False"
  "fst (loadPoolActivation 7 sample_did (activation_world x)) = Inr confirmed_claim"
  by (simp_all add: first_def bnd_def select_def interact_def ret_def session_row_def isPoolSession_def
      count_where_def HasProvisionJob_def loadPoolActivation_def)

lemma demo_activate [simp]:
  "snd (ActivateParkedVtaDeployment (or_url activation_orch) (fst demo_key) demo_spec (activation_world parked_demo)) =
     (activation_world parked_demo)\<lparr>
       tabs := (activation_farm parked_demo)\<lparr>k_deployments :=
         [demo_key \<mapsto> install_activation demo_spec (projr (vtaActivationCommand (or_url activation_orch) demo_spec)) True parked_demo]\<rparr>,
       tick := Suc (tick (activation_world parked_demo))\<rparr>"
proof -
  from demo_activated obtain command where c: "vtaActivationCommand (or_url activation_orch) demo_spec = Inr command"
    "parked_update demo_spec command True parked_demo = Inr (Some (install_activation demo_spec command True parked_demo))"
    by blast
  have key: "(fst demo_key, VtaDeploymentName (va_SessionID demo_spec)) = demo_key"
    by (simp add: demo_key_def demo_spec_def activation_spec_for_def)
  have map: "activation_farm parked_demo\<lparr>k_deployments := [demo_key \<mapsto> x, demo_key \<mapsto> y]\<rparr> =
      activation_farm parked_demo\<lparr>k_deployments := [demo_key \<mapsto> y]\<rparr>" for x y by simp
  from c key show ?thesis
    by (simp add: ActivateParkedVtaDeployment_def updateParkedVtaDeployment_def bnd_def lift_err_def ret_def revising_def
        interact_def revise_def)
qed

lemma demo_moves:
  "moves (code_of activation_orch (Provision 7 sample_did)) (replicate 8 (activation_world parked_demo)) ! 7 =
     (activation_farm parked_demo, (activation_farm parked_demo)\<lparr>k_deployments :=
         [demo_key \<mapsto> install_activation demo_spec (projr (vtaActivationCommand (or_url activation_orch) demo_spec)) True parked_demo]\<rparr>) \<and>
   7 < length (moves (code_of activation_orch (Provision 7 sample_did)) (replicate 8 (activation_world parked_demo)))"
proof -
  have eight: "replicate 8 w = [w, w, w, w, w, w, w, w]" for w :: "farm world" by (simp add: numeral_eq_Suc)
  have spec: "activation_spec_for activation_orch activation_session sample_did MobileAdminLabel [] (PoolActivationID 7 ''c1'') = demo_spec"
    "session_ns activation_orch activation_session = fst demo_key"
    by (simp_all add: demo_spec_def demo_activation_def demo_key_def)
  have host: "ss_DIDHostingDid activation_session = []"
    by (simp add: activation_session_def sample_session_def blank_session_def)
  show ?thesis
    unfolding eight
    by (simp add: runProvision_def at_time_def ignore_def provision_granted_def provisionAdminLabel_def
        runPoolActivation_def activate_member_def Let_def spec host wall_def exec_def select_def interact_def
        count_where_def)
qed

theorem activation_agrees_with_confirmation_witness:
  "\<exists>a b. authorises demo_key a b \<and> activation_claim 7 sample_did confirmed_claim \<and>
     imports_claim activation_orch 7 confirmed_claim (the (k_deployments b demo_key))"
proof -
  let ?w = "activation_world parked_demo"
  let ?ms = "moves (code_of activation_orch (Provision 7 sample_did)) (replicate 8 ?w)"
  define b where "b = snd (?ms ! 7)"
  have ab: "?ms ! 7 = (activation_farm parked_demo, b)" "7 < length ?ms" using demo_moves by (simp_all add: b_def)
  have "k_deployments b demo_key =
      Some (install_activation demo_spec (projr (vtaActivationCommand (or_url activation_orch) demo_spec)) True parked_demo)"
    using demo_moves by (simp add: b_def)
  then have new: "authorises demo_key (activation_farm parked_demo) b"
    by (auto simp: authorises_def install_activation_def Let_def demo_spec_def activation_spec_for_def demo_activation_def
        parked_demo_def vta_deployment_def blank_deployment_def)
  from activation_agrees_with_confirmation [OF ab(2,1) new]
  obtain m r where m: "m \<le> 7" and r: "r \<in> set (t_conns (fst (?ms ! m)))"
    and "activation_claim 7 sample_did r" "imports_claim activation_orch 7 r (the (k_deployments b demo_key))"
    by auto
  moreover from m ab(2) have "fst (?ms ! m) = activation_farm parked_demo" by (subst fst_moves [THEN conjunct2]) auto
  with r have "r = confirmed_claim" by simp
  ultimately show ?thesis using new by blast
qed

text \<open>The authorised Deployment, its claim, and a prewarm cancelled too late: nothing changes.\<close>

definition active_demo :: deployment where
  "active_demo = install_activation demo_spec ''command'' True parked_demo"

lemma active_demo_ok: "activated_ok active_demo" "authorized_id active_demo = demo_activation"
  by (auto simp: active_demo_def activated_ok_def install_activation_def Let_def demo_spec_def activation_spec_for_def
      is_activation_def activation_container_def)

theorem activation_final_witness:
  "\<exists>b y. (activation_farm active_demo, b) \<in> set (moves (code_of activation_orch (Provision 7 sample_did))
       (replicate 8 (activation_world active_demo))) \<and>
     k_deployments b demo_key = Some y \<and> authorized_id y = demo_activation"
proof -
  let ?w = "activation_world active_demo"
  let ?ms = "moves (code_of activation_orch (Provision 7 sample_did)) (replicate 8 ?w)"
  obtain b where b: "(activation_farm active_demo, b) \<in> set ?ms"
    by (auto simp: numeral_eq_Suc runProvision_def)
  have "\<forall>key x. k_deployments (activation_farm active_demo) key = Some x \<longrightarrow> activated_ok x"
    using active_demo_ok(1) by (auto split: if_splits)
  from activation_final [OF b this]
  have "\<forall>key x. k_deployments (activation_farm active_demo) key = Some x \<and> authorized_id x \<noteq> [] \<longrightarrow>
      (\<exists>y. k_deployments b key = Some y \<and> still_activated x y)" ..
  from this [rule_format, of demo_key active_demo] obtain y where "k_deployments b demo_key = Some y" "still_activated active_demo y"
    using active_demo_ok(2) by (auto simp: demo_activation_def)
  with b active_demo_ok(2) show ?thesis by (auto simp: still_activated_def)
qed

lemma parked_demo_parked: "parked parked_demo" "vta_template (va_Image demo_spec) parked_demo" "va_ActivationID demo_spec \<noteq> []"
  by (simp_all add: parked_demo_def parked_def vta_deployment_def blank_deployment_def vta_labels_def
      vta_template_def demo_spec_def activation_spec_for_def demo_activation_def)

theorem activation_paths_agree_witness:
  "\<exists>warm. parked_update demo_spec ''command'' False parked_demo = Inr (Some warm) \<and>
     cancel_prewarm demo_activation warm = Inr (Some parked_demo)"
  using activation_paths_agree [OF parked_demo_parked, of "''command''"]
  by (auto simp: demo_spec_def activation_spec_for_def)

lemma hex_runes: "r \<in> set space_runes \<Longrightarrow> r \<noteq> [] \<and> hd r \<notin> set hex_digits \<and> last r \<notin> set hex_digits"
proof -
  have "\<forall>r \<in> set space_runes. r \<noteq> [] \<and> hd r \<notin> set hex_digits \<and> last r \<notin> set hex_digits" by code_simp
  then show "r \<in> set space_runes \<Longrightarrow> r \<noteq> [] \<and> hd r \<notin> set hex_digits \<and> last r \<notin> set hex_digits" by blast
qed

lemma hex_trimmed:
  assumes "set s \<subseteq> set hex_digits" shows "TrimSpace s = s"
proof -
  have keep: "drop_runes rs t = t"
    if *: "set t \<subseteq> set hex_digits" "\<And>r. r \<in> set rs \<Longrightarrow> r \<noteq> [] \<and> hd r \<notin> set hex_digits" for rs t
  proof (rule drop_runes_stop)
    have "\<not> HasPrefix t r" if "r \<in> set rs" for r
    proof
      assume "HasPrefix t r"
      then have "set r \<subseteq> set t" by (auto simp: HasPrefix_iff)
      moreover have "hd r \<in> set r" using *(2) [OF that] by simp
      ultimately show False using that * by blast
    qed
    then show "find (\<lambda>r. r \<noteq> [] \<and> HasPrefix t r) rs = None" by (auto simp: find_None_iff)
  qed
  have "drop_runes space_runes s = s" by (rule keep [OF assms]) (use hex_runes in auto)
  moreover have "drop_runes (map rev space_runes) (rev s) = rev s"
    by (rule keep) (use assms hex_runes in \<open>auto simp: hd_rev\<close>)
  ultimately show ?thesis by (simp add: TrimSpace_def)
qed

lemma hex_lower: "set s \<subseteq> set hex_digits \<Longrightarrow> ToLower s = s"
proof -
  have "\<forall>c \<in> set hex_digits. lower_char c = c" by code_simp
  then show "set s \<subseteq> set hex_digits \<Longrightarrow> ToLower s = s" unfolding ToLower_def by (intro map_idI) auto
qed

theorem gate_opens_witness:
  "\<exists>n. ParseUint 64 ''7'' = Some n \<and> 0 < n \<and>
     opened_for activation_orch (nat n) (ToLower (TrimSpace demo_activation)) (replicate 4 (activation_world active_demo))"
proof (rule gate_opens)
  have hex: "set demo_activation \<subseteq> set hex_digits"
    unfolding demo_activation_def PoolActivationID_def by (rule set_hex)
  have seven: "ParseUint 64 ''7'' = Some 7" by code_simp
  have did: "sample_did \<noteq> []" by (simp add: sample_did_def)
  have key: "(session_ns activation_orch activation_session, VtaDeploymentName 7) = demo_key" by (simp add: demo_key_def)
  have four: "replicate 4 w = [w, w, w, w]" for w :: "farm world" by (simp add: numeral_eq_Suc)
  have bytes: "hex_bytes demo_activation = Some 16" "PoolActivationID 7 ''c1'' = demo_activation"
    by (simp_all add: demo_activation_def)
  show "result (PoolActivationGate activation_orch ''7'' demo_activation) (replicate 4 (activation_world active_demo)) = Some 200"
    unfolding four
    using did active_demo_ok(2)
    by (simp add: PoolActivationGate_def hex_trimmed [OF hex] hex_lower [OF hex] seven Let_def bytes
        check_def fst_checks session_row_def gate_claim_def gate_authorized_def key)
qed

end
