(* ===== verification/SetupProps.thy ===== *)
theory SetupProps
  imports ActivationProps
begin

text \<open>
  Properties of the setup flow: what is handed to a shell, what is published, how long its
  goroutines run, and the names it gives.
\<close>

section \<open>Arguments of a shell command\<close>

text \<open>
  The reading of a command line by a POSIX shell, as far as these commands use it: blanks part
  words, a backslash and single quotes keep characters, \<open>&&\<close> parts commands.
\<close>

datatype token = Word string | AndIf

definition word_of :: "string option \<Rightarrow> string" where
  "word_of w = (case w of None \<Rightarrow> [] | Some v \<Rightarrow> v)"

definition emit :: "string option \<Rightarrow> token list" where
  "emit w = (case w of None \<Rightarrow> [] | Some v \<Rightarrow> [Word v])"

definition plain_char :: "char \<Rightarrow> bool" where
  "plain_char c \<longleftrightarrow> c \<in> set ''abcdefghijklmnopqrstuvwxyzABCDEFGHIJKLMNOPQRSTUVWXYZ0123456789-_./:=''"

fun sh_lex :: "bool \<Rightarrow> string option \<Rightarrow> string \<Rightarrow> token list option" where
  "sh_lex True w [] = None"
| "sh_lex False w [] = Some (emit w)"
| "sh_lex True w (c # s) =
     (if c = CHR 0x27 then sh_lex False (Some (word_of w)) s else sh_lex True (Some (word_of w @ [c])) s)"
| "sh_lex False w (c # s) =
     (if c = CHR 0x27 then sh_lex True (Some (word_of w)) s
      else if c = CHR 0x20 then map_option ((@) (emit w)) (sh_lex False None s)
      else if c = CHR 0x5C then (case s of [] \<Rightarrow> None | d # s' \<Rightarrow> sh_lex False (Some (word_of w @ [d])) s')
      else if c = CHR 0x26 then
        (case s of d # s' \<Rightarrow> if d = CHR 0x26 then map_option ((@) (emit w @ [AndIf])) (sh_lex False None s') else None
         | [] \<Rightarrow> None)
      else if plain_char c then sh_lex False (Some (word_of w @ [c])) s
      else None)"

lemma word_of_simps [simp]: "word_of (Some v) = v" "word_of None = []" "emit (Some v) = [Word v]" "emit None = []"
  by (simp_all add: word_of_def emit_def)

lemma sh_lex_quoted:
  "sh_lex True (Some u) (concat (map (\<lambda>c. if c = CHR 0x27 then [CHR 0x27, CHR 0x5C, CHR 0x27, CHR 0x27] else [c]) v) @ CHR 0x27 # s) =
     sh_lex False (Some (u @ v)) s"
  by (induction v arbitrary: u) simp_all

lemma sh_lex_quoteShellArg: "sh_lex False w (quoteShellArg v @ s) = sh_lex False (Some (word_of w @ v)) s"
  using sh_lex_quoted [of "word_of w" v s] by (simp add: quoteShellArg_def)

lemma sh_lex_plain:
  "(\<And>c. c \<in> set v \<Longrightarrow> plain_char c) \<Longrightarrow> v \<noteq> [] \<Longrightarrow>
   sh_lex False w (v @ s) = sh_lex False (Some (word_of w @ v)) s"
proof (induction v arbitrary: w)
  case (Cons c v)
  have c: "plain_char c" "c \<noteq> CHR 0x27" "c \<noteq> CHR 0x20" "c \<noteq> CHR 0x5C" "c \<noteq> CHR 0x26"
    using Cons.prems(1) [of c] by (auto simp: plain_char_def)
  then have "sh_lex False w ((c # v) @ s) = sh_lex False (Some (word_of w @ [c])) (v @ s)" by simp
  with Cons show ?case by (cases "v = []") auto
qed simp

lemma sh_lex_blank: "sh_lex False w (CHR 0x20 # s) = map_option ((@) (emit w)) (sh_lex False None s)"
  by simp

lemma sh_lex_and: "sh_lex False w (''&&'' @ s) = map_option ((@) (emit w @ [AndIf])) (sh_lex False None s)"
  by simp

text \<open>
  C30. Whatever the administrator's DID, its label and the hosting DID contain, the shell of a
  provision job reads its command as exactly one \<open>import-did\<close> with these arguments and, where
  there is a hosting DID, one \<open>servers add\<close> after it.
\<close>

theorem provision_command_words:
  "sh_lex False None (provision_command adminDid adminLabel controlDid) =
     Some (map Word [''vta'', ''import-did'', ''--did'', adminDid, ''--role'', ''admin''] @
           (if adminLabel \<noteq> [] then map Word [''--label'', adminLabel] else []) @
           (if controlDid \<noteq> []
            then AndIf # map Word [''vta'', ''did-mgmt'', ''servers'', ''add'', ''--id'', ''control'', ''--did'', controlDid,
                                   ''--label'', ''DID Hosting Control Plane'']
            else []))"
proof -
  have import: "sh_lex False None (''vta import-did --did '' @ s) =
      map_option (\<lambda>t. map Word [''vta'', ''import-did'', ''--did''] @ t) (sh_lex False None s)" for s
    by (simp add: plain_char_def option.map_comp o_def)
  have role: "sh_lex False (Some v) ('' --role admin'' @ s) =
      map_option (\<lambda>t. map Word [v, ''--role''] @ t) (sh_lex False (Some ''admin'') s)" for v s
    by (simp add: plain_char_def option.map_comp o_def)
  have label: "sh_lex False (Some v) ('' --label '' @ s) =
      map_option (\<lambda>t. map Word [v, ''--label''] @ t) (sh_lex False None s)" for v s
    by (simp add: plain_char_def option.map_comp o_def)
  have "add": "sh_lex False (Some v) ('' && vta did-mgmt servers add --id control --did '' @ s) =
      map_option (\<lambda>t. [Word v, AndIf] @ map Word [''vta'', ''did-mgmt'', ''servers'', ''add'', ''--id'', ''control'', ''--did''] @ t)
        (sh_lex False None s)" for v s
    by (simp add: plain_char_def option.map_comp o_def)
  have plane: "sh_lex False (Some v) ('' --label 'DID Hosting Control Plane'' @ [CHR 0x27]) =
      Some (map Word [v, ''--label'', ''DID Hosting Control Plane''])" for v
    by (simp add: plain_char_def option.map_comp o_def)
  have last: "sh_lex False w (quoteShellArg v) = Some [Word (word_of w @ v)]" for w v
    using sh_lex_quoteShellArg [of w v "[]"] by simp
  show ?thesis
    unfolding provision_command_def
    by (simp del: sh_lex.simps append_Cons add: import role label "add" plane last sh_lex_quoteShellArg sh_lex.simps(2))
qed

section \<open>What is published\<close>

definition published :: "orch \<Rightarrow> farm \<Rightarrow> farm \<Rightarrow> bool" where
  "published o' a b \<longleftrightarrow>
     (\<forall>base path log. Registered base path log \<in> set (dh_sent b) - set (dh_sent a) \<longrightarrow> clean_log (or_json o') log)"

lemma deed_published: "deed o' a b \<Longrightarrow> published o' a b"
  unfolding deed_def
proof (elim disjE exE)
  assume "flow o' a b" then show "published o' a b"
    by (auto simp: flow_def plain_def published_def task_ok_def)
next
  fix key spec command assume b: "b = snd (revise key (parked_update spec command True) a)"
  show "published o' a b"
    by (cases rule: revise_cases [of key "parked_update spec command True" a]) (simp_all add: b published_def)
qed

text \<open>
  Whatever a setup job prints and whatever happens meanwhile, the setup flow registers only
  clean logs at a DID host: every line is an entry with a version id, without anything around it.
\<close>

theorem published_logs_clean:
  assumes "(a, b) \<in> set (moves (code_of o' act) ws)"
    and "Registered base path log \<in> set (dh_sent b) - set (dh_sent a)"
  shows "clean_log (or_json o') log \<and> normalizeVtaDidLog (or_json o') log = log"
proof -
  have "published o' a b"
    by (rule deed_published) (rule always_moves [OF deed_code_of assms(1)])
  with assms(2) have "clean_log (or_json o') log" by (auto simp: published_def)
  then show ?thesis by (simp add: normalize_clean)
qed

section \<open>Names\<close>

text \<open>A label of a host name, RFC 1123.\<close>

definition dns_label :: "string \<Rightarrow> bool" where
  "dns_label s \<longleftrightarrow> s \<noteq> [] \<and> length s \<le> 63 \<and> (\<forall>c \<in> set s. name_char c \<or> c = CHR ''-'') \<and>
     name_char (hd s) \<and> name_char (last s)"

abbreviation components :: "string set" where
  "components \<equiv> {''vta'', ''mediator'', ''dids'', ''vtc''}"

lemma SplitOn_chars: "x \<in> set s \<Longrightarrow> x = c \<or> (\<exists>p \<in> set (SplitOn c s). x \<in> set p)"
  by (induction s) (auto split: list.splits if_splits)

lemma Join_ends:
  "ps \<noteq> [] \<Longrightarrow> (\<And>p. p \<in> set ps \<Longrightarrow> p \<noteq> []) \<Longrightarrow>
   Join ps sep \<noteq> [] \<and> hd (Join ps sep) = hd (hd ps) \<and> last (Join ps sep) = last (last ps)"
  by (induction ps sep rule: Join.induct) auto

lemma valid_name:
  assumes "ValidateName name = None"
  shows "name \<noteq> []" "length name \<le> 48" "\<forall>c \<in> set name. name_char c \<or> c = CHR ''-''"
    "name_char (hd name)" "name_char (last name)"
proof -
  from assms have pattern: "\<And>p. p \<in> set (SplitOn (CHR ''-'') name) \<Longrightarrow> p \<noteq> [] \<and> (\<forall>c \<in> set p. name_char c)"
    and len: "length name \<le> 48"
    by (auto simp: ValidateName_def namePattern_def maxNameLength_def split: if_splits)
  show "length name \<le> 48" by (rule len)
  show some: "name \<noteq> []" using pattern [of "[]"] by auto
  show "\<forall>c \<in> set name. name_char c \<or> c = CHR ''-''" using SplitOn_chars pattern by blast
  from Join_ends [of "SplitOn (CHR ''-'') name" "''-''"] pattern
  have ends: "hd name = hd (hd (SplitOn (CHR ''-'') name))" "last name = last (last (SplitOn (CHR ''-'') name))"
    by (simp_all add: Join_SplitOn)
  from pattern [of "hd (SplitOn (CHR ''-'') name)"] show "name_char (hd name)" unfolding ends by simp
  from pattern [of "last (SplitOn (CHR ''-'') name)"] show "name_char (last name)" unfolding ends by simp
qed

lemma componentHost_label:
  assumes "ValidateName name = None" and "component \<in> components"
  shows "dns_label (componentHost env component name)"
proof -
  note name = valid_name [OF assms(1)]
  have c: "component \<noteq> []" "length component \<le> 8" "\<forall>c \<in> set component. name_char c" "name_char (hd component)"
    using assms(2) by (auto simp: name_char_def)
  have p: "length (EnvPrefix env) \<le> 4" "\<forall>c \<in> set (EnvPrefix env). name_char c \<or> c = CHR ''-''"
    "EnvPrefix env \<noteq> [] \<longrightarrow> name_char (hd (EnvPrefix env))"
    by (auto simp: EnvPrefix_def name_char_def)
  show ?thesis
    using name c p unfolding dns_label_def componentHost_def
    by (cases "EnvPrefix env") (auto simp: hd_append)
qed

lemma component_first:
  "a @ CHR ''-'' # x = b @ CHR ''-'' # y \<Longrightarrow> CHR ''-'' \<notin> set a \<Longrightarrow> CHR ''-'' \<notin> set b \<Longrightarrow> a = b \<and> x = y"
  by (induction a arbitrary: b) (case_tac [!] b, auto)

lemma componentHost_inj:
  assumes "c \<in> components" "c' \<in> components" "componentHost env c x = componentHost env c' y"
  shows "c = c' \<and> x = y"
proof -
  have nodash: "CHR ''-'' \<notin> set c" "CHR ''-'' \<notin> set c'" using assms(1,2) by auto
  from assms(3) have eq: "(if x = [] then c else c @ CHR ''-'' # x) = (if y = [] then c' else c' @ CHR ''-'' # y)"
    by (simp add: componentHost_def split: if_splits)
  consider "x = []" "y = []" | "x \<noteq> []" "y = []" | "x = []" "y \<noteq> []" | "x \<noteq> []" "y \<noteq> []" by blast
  then show ?thesis
  proof cases
    case 2
    with eq have "CHR ''-'' \<in> set c'" by (metis in_set_conv_decomp)
    with nodash show ?thesis by simp
  next
    case 3
    with eq have "CHR ''-'' \<in> set c" by (metis in_set_conv_decomp)
    with nodash show ?thesis by simp
  next
    case 4
    with eq have "c @ CHR ''-'' # x = c' @ CHR ''-'' # y" by simp
    from component_first [OF this nodash] show ?thesis .
  qed (use eq in simp)
qed

text \<open>
  Names that \<open>ValidateName\<close> accepts give each component a host label DNS accepts, and no two
  labels of an environment coincide unless they are of the same component and name, the fixed
  hosts included; nor do the paths under which the components' DIDs are published.
\<close>

theorem names_are_distinct_labels:
  assumes "ValidateName x = None" and "y \<noteq> [] \<longrightarrow> ValidateName y = None"
  shows "(\<forall>c \<in> components. dns_label (componentHost env c x)) \<and>
    (\<forall>c \<in> components. \<forall>c' \<in> components. componentHost env c x = componentHost env c' y \<longrightarrow> c = c' \<and> x = y) \<and>
    (\<forall>p \<in> {VtaDidPath, MediatorDidPath, VtcDidPath}. \<forall>q \<in> {VtaDidPath, MediatorDidPath, VtcDidPath}.
       p x = q y \<longrightarrow> p = q \<and> x = y)"
proof (intro conjI ballI impI)
  fix c assume "c \<in> components" then show "dns_label (componentHost env c x)"
    using assms(1) componentHost_label by blast
next
  fix c c' assume "c \<in> components" "c' \<in> components" "componentHost env c x = componentHost env c' y"
  from componentHost_inj [OF this] show "c = c'" "x = y" by auto
next
  fix p q assume pq: "p \<in> {VtaDidPath, MediatorDidPath, VtcDidPath}" "q \<in> {VtaDidPath, MediatorDidPath, VtcDidPath}"
    and eq: "p x = q y"
  have path: "\<exists>u. CHR ''-'' \<notin> set u \<and> (\<forall>z. p z = z @ CHR ''-'' # u)"
    if "p \<in> {VtaDidPath, MediatorDidPath, VtcDidPath}" for p
  proof -
    have "VtaDidPath z = z @ CHR ''-'' # ''vta''" "MediatorDidPath z = z @ CHR ''-'' # ''mediator''"
      "VtcDidPath z = z @ CHR ''-'' # ''vtc''" for z
      by (simp_all add: VtaDidPath_def MediatorDidPath_def VtcDidPath_def)
    moreover have "CHR ''-'' \<notin> set ''vta''" "CHR ''-'' \<notin> set ''mediator''" "CHR ''-'' \<notin> set ''vtc''" by simp_all
    moreover from that consider "p = VtaDidPath" | "p = MediatorDidPath" | "p = VtcDidPath" by blast
    ultimately show ?thesis by cases metis+
  qed
  from path [OF pq(1)] obtain u where u: "CHR ''-'' \<notin> set u" "\<And>z. p z = z @ CHR ''-'' # u" by blast
  from path [OF pq(2)] obtain v where v: "CHR ''-'' \<notin> set v" "\<And>z. q z = z @ CHR ''-'' # v" by blast
  from eq u(2) v(2) have "rev (x @ CHR ''-'' # u) = rev (y @ CHR ''-'' # v)" by simp
  then have "rev u @ CHR ''-'' # rev x = rev v @ CHR ''-'' # rev y" by simp
  from component_first [OF this] u(1) v(1) have same: "u = v" "x = y" by simp_all
  from same(1) u(2) v(2) show "p = q" by (intro ext) simp
  from same(2) show "x = y" .
qed

section \<open>How long a goroutine runs\<close>

lemma within_call_all: "within (call_all ms) (length ms)"
proof (induction ms)
  case (Cons m ms)
  then show ?case by (auto intro!: within_check)
qed simp

lemma within_markFailedAt: "within p n \<Longrightarrow> within (markFailedAt i st m p) (n + 2)"
  unfolding markFailedAt_def by (auto intro!: within_at_time within_ignore)

lemma within_markFailed: "within p n \<Longrightarrow> within (markFailed i m p) (n + 2)"
  unfolding markFailed_def by (rule within_markFailedAt)

lemma within_unless_done: "within s m \<Longrightarrow> within p n \<Longrightarrow> within (unless_done s p) (Suc (max m n))"
  unfolding unless_done_def by (auto intro!: within_check intro: within_max)

lemma within_with_job_logs: "(\<And>m. within (k m) n) \<Longrightarrow> within (with_job_logs ns j m k) (Suc n)"
  unfolding with_job_logs_def by (auto intro!: within_check)

lemma within_label: "(\<And>l. within (k l) n) \<Longrightarrow> within (provisionAdminLabel i a f k) (Suc n)"
  unfolding provisionAdminLabel_def by (intro within_check)

lemma within_send: "within (RegisterDid dh p l) 2" "within (CreateAcl dh d r l) 2"
  unfolding RegisterDid_def CreateAcl_def send_task_def by (rule within_mono, rule within_call_all, simp)+

lemma within_WaitForJob: "within (WaitForJob n ns j) (2 * n)"
proof (induction n)
  case (Suc n)
  have "within (WaitForJob n ns j) (2 * n)" by (rule Suc)
  then show ?case
    by (auto intro!: within_check split: option.split elim: within_mono)
qed simp

named_theorems within_flow

lemmas within_rules = within_at_time within_ignore within_call_all within_markFailedAt within_markFailed
  within_unless_done within_with_job_logs within_label within_send within_WaitForJob
  within_Return within_prod within_maybe within_sum within_either within_branch within_pbind

lemma within_finish: "within p n \<Longrightarrow> within (finishVtaOnlyDeployment i b p) (n + 4)"
  unfolding finishVtaOnlyDeployment_def
  by (rule within_mono, (rule within_rules | assumption)+, simp)

lemma within_with_lock: "within p n \<Longrightarrow> within (with_lock c k p) (n + 2)"
  unfolding with_lock_def by (rule within_mono, (rule within_rules | assumption)+, simp)

lemma within_waits [within_flow]:
  "within (WaitForComponentDeploymentReady ns name (2 * minute)) 200"
  "within (WaitForVtaActivation ns i (2 * minute)) 700"
  "within (WaitForPoolPrewarm ns i a (2 * minute)) 750"
  unfolding WaitForComponentDeploymentReady_def WaitForVtaActivation_def WaitForPoolPrewarm_def Let_def
  by (rule within_mono, (rule within_poll_each within_rules)+, simp add: minute_def second_def)+

lemma within_setup [within_flow]:
  "within (CreateSetupResources ns i toml img) 3" "within EnsureUserEnvironment 5" "within (mark_published i l) 1"
  "within (queueProvision i did) 1"
  unfolding CreateSetupResources_def EnsureUserEnvironment_def mark_published_def queueProvision_def
  by (rule within_mono, (rule within_rules)+, simp)+

lemma within_publish [within_flow]:
  "within (publishPoolDID o' i) 7" "within (publish_log o' i s l) 10"
  unfolding publishPoolDID_def publish_log_def auto_provision_def Let_def
  by (rule within_mono, (rule within_flow within_rules)+, simp)+

lemma within_after_setup [within_flow]: "within (after_setup o' i s b l) 20"
  unfolding after_setup_def by (rule within_mono, (rule within_flow within_rules)+, simp)

lemma within_save_setup [within_flow]: "within (save_setup o' i s b v l) 30"
  unfolding save_setup_def Let_def by (rule within_mono, (rule within_flow within_rules)+, simp)

lemma within_read_setup [within_flow]: "within (read_setup o' i s b) 40"
  unfolding read_setup_def by (rule within_mono, (rule within_flow within_rules)+, simp)

lemma within_await_setup [within_flow]: "within (await_setup o' i s b) (50 + 2 * or_polls o')"
  unfolding await_setup_def Let_def by (rule within_mono, (rule within_flow within_rules)+, simp)

lemma within_start_setup [within_flow]: "within (start_setup o' i s b v) (60 + 2 * or_polls o')"
  unfolding start_setup_def Let_def by (rule within_mono, (rule within_flow within_rules)+, simp)

lemma within_runSetup [within_flow]: "within (runSetup o' i) (80 + 2 * or_polls o')"
  unfolding runSetup_def by (rule within_mono, (rule within_flow within_rules)+, simp)

lemma within_prepareSession [within_flow]: "within (prepareSession o' i) 10"
  unfolding prepareSession_def by (rule within_mono, (rule within_flow within_rules)+, simp)

lemma within_park [within_flow]: "within (park o' i s) 10"
  unfolding park_def Let_def by (rule within_mono, (rule within_flow within_rules)+, simp)

lemma within_BuildPool [within_flow]: "within (BuildPool o' i) (110 + 2 * or_polls o')"
  unfolding BuildPool_def by (rule within_mono, (rule within_flow within_rules)+, simp)

lemma within_prewarm [within_flow]: "within (reconcilePoolPrewarm o' i) 770"
  unfolding reconcilePoolPrewarm_def settle_prewarm_def start_prewarm_def Let_def
  by (rule within_mono, (rule within_flow within_rules)+, simp)

lemma within_failPoolActivation [within_flow]: "within (failPoolActivation i r st) 3"
  unfolding failPoolActivation_def Let_def by (rule within_mono, (rule within_flow within_rules)+, simp)

lemma within_runPoolActivation [within_flow]: "within (runPoolActivation o' s did l c) 720"
  unfolding runPoolActivation_def activate_member_def Let_def
  by (rule within_mono, (rule within_flow within_finish within_rules)+, simp)

lemma within_deployVtaOnly [within_flow]: "within (deployVtaOnly o' s) 220"
  unfolding deployVtaOnly_def Let_def by (rule within_mono, (rule within_flow within_rules)+, simp)

lemma within_deploy_and_finish [within_flow]: "within (deploy_and_finish o' s) 240"
  unfolding deploy_and_finish_def by (rule within_mono, (rule within_flow within_finish within_rules)+, simp)

lemma within_provision_by_job [within_flow]: "within (provision_by_job o' s did l c) (250 + 2 * or_polls o')"
  unfolding provision_by_job_def Let_def by (rule within_mono, (rule within_flow within_rules)+, simp)

lemma within_runProvision [within_flow]: "within (runProvision o' i did) (1000 + 2 * or_polls o')"
  unfolding runProvision_def provision_granted_def by (rule within_mono, (rule within_flow within_rules)+, simp)

lemma within_runOne [within_flow]: "within (runOne o' (Some (prepareSession o')) (Some (BuildPool o')) None i) (150 + 2 * or_polls o')"
  unfolding runOne_def work_on_def recordBuildError_def recordCleanupError_def option.case prod.case
  by (rule within_mono, (rule within_with_lock within_flow within_rules)+, simp)

lemma within_CancelSetup [within_flow]: "within (CancelSetup i) 2"
  unfolding CancelSetup_def by (rule within_mono, (rule within_flow within_rules)+, simp)

lemma within_gate [within_flow]: "within (PoolActivationGate o' sp ap) 4"
  unfolding PoolActivationGate_def gate_claim_def gate_authorized_def Let_def
  by (rule within_mono, (rule within_flow within_rules)+, simp)

text \<open>
  Every goroutine of the setup flow returns, whatever it sees and whatever fails: after at most
  1000 actions of its own and two more for each poll of a job its process lives to make.
\<close>

theorem setup_goroutines_return:
  assumes "1000 + 2 * or_polls o' \<le> length ws"
  shows "\<exists>r. result (code_of o' act) ws = Some r"
proof -
  have "within (code_of o' act) (1000 + 2 * or_polls o')"
  proof (cases act)
    case (Provision i did)
    then show ?thesis by (simp add: within_runProvision)
  qed (simp only: code_of.simps forget_def, rule within_mono, (rule within_flow within_rules)+, simp)+
  then show ?thesis using assms by (rule within_result)
qed

section \<open>Witnesses\<close>

lemma names_are_distinct_labels_demo: "ValidateName ''acme-1'' = None" "ValidateName ''acme'' = None"
  by code_simp+

theorem names_are_distinct_labels_witness:
  "dns_label (componentHost ''development'' ''mediator'' ''acme-1'') \<and>
   componentHost ''production'' ''vta'' ''acme-1'' \<noteq> componentHost ''production'' ''vta'' ''acme''"
proof
  show "dns_label (componentHost ''development'' ''mediator'' ''acme-1'')"
    using names_are_distinct_labels [OF names_are_distinct_labels_demo(1), of "[]", THEN conjunct1] by blast
  have "\<forall>c \<in> components. \<forall>c' \<in> components.
      componentHost ''production'' c ''acme-1'' = componentHost ''production'' c' ''acme'' \<longrightarrow> c = c' \<and> ''acme-1'' = ''acme''"
    using names_are_distinct_labels [OF names_are_distinct_labels_demo(1), of "''acme''", THEN conjunct2, THEN conjunct1]
      names_are_distinct_labels_demo(2) by blast
  then show "componentHost ''production'' ''vta'' ''acme-1'' \<noteq> componentHost ''production'' ''vta'' ''acme''" by blast
qed

theorem setup_goroutines_return_witness:
  "\<exists>r. result (code_of activation_orch (Build 7)) (replicate 1000 (activation_world parked_demo)) = Some r"
  by (rule setup_goroutines_return) (simp add: activation_orch_def)

text \<open>
  A pool member whose DID is not published yet: the build finds it unresolvable and registers its log.
\<close>

definition publishing_orch :: orch where
  "publishing_orch = activation_orch\<lparr>or_json := (\<lambda>_. Some (JObj [(''versionId'', JStr ''1-a'')])),
     or_hosting := Some True, or_cf := True\<rparr>"

definition publishing_session :: setup_session where
  "publishing_session = activation_session\<lparr>ss_Status := StatusPoolPublishing, ss_AdminDid := [],
     ss_VtaDid := ''did:webvh:x'', ss_VtaDidLog := ''entry'', ss_CFRecordID := ''r'',
     ss_DidHostingControlURL := ''https://h/'', ss_DIDHostingDid := ''did:web:h''\<rparr>"

definition member_world :: "setup_session \<Rightarrow> bool \<Rightarrow> farm world" where
  "member_world s failing = with_tabs (farm_of (empty_db\<lparr>t_sessions := [s],
     t_members := [\<lparr>ps_SessionID = 7, ps_BatchID = 1\<rparr>]\<rparr>)) ((calm_world empty_db (\<lambda>_. 9))\<lparr>fails := (\<lambda>_. failing)\<rparr>)"

abbreviation publishing_world :: "bool \<Rightarrow> farm world" where
  "publishing_world \<equiv> member_world publishing_session"

definition publishing_worlds :: "farm world list" where
  "publishing_worlds = map publishing_world [False, False, False, False, False, False, False, False, True, False]"

lemma member_rows [simp]:
  "t_sessions (tabs (member_world s b)) = [s]"
  "t_members (tabs (member_world s b)) = [\<lparr>ps_SessionID = 7, ps_BatchID = 1\<rparr>]"
  "fails (member_world s b) n = b" "pg_locks (tabs (member_world s b)) = []"
  "dh_clients (tabs (member_world s b)) u = None" "dh_sent (tabs (member_world s b)) = []"
  by (simp_all add: member_world_def with_tabs_def calm_world_def farm_of_def db.extend_def)

lemma publishing_session [simp]:
  "ss_ID publishing_session = 7" "ss_Status publishing_session = StatusPoolPublishing" "ss_AdminDid publishing_session = []"
  "ss_VtaDid publishing_session = ''did:webvh:x''" "ss_VtaDidLog publishing_session = ''entry''"
  "ss_CFRecordID publishing_session = ''r''" "ss_DidHostingControlURL publishing_session = ''https://h/''"
  "ss_DIDHostingDid publishing_session = ''did:web:h''"
  by (simp_all add: publishing_session_def activation_session_def sample_session_def)

lemma publishing_log: "normalizeVtaDidLog (or_json publishing_orch) ''entry'' = ''entry''"
  unfolding publishing_orch_def activation_orch_def by code_simp

lemma member_reads [simp]:
  "fst (try_lock c k (member_world s False)) = Inr True"
  "ss_ID s = 7 \<Longrightarrow> fst (first (session_row 7) (member_world s False)) = Inr s"
  "fst (isPoolSession 7 (member_world s False)) = Inr True"
  "fst (on_db (IsSession 7) (member_world s False)) = Inr True"
  "fst (ctx_done (member_world s False)) = Inr False"
  by (simp_all add: try_lock_def first_def bnd_def select_def interact_def ret_def session_row_def isPoolSession_def
      count_where_def on_db_def IsSession_def with_tabs_def db.truncate_def attempt_def ctx_done_def)

lemma publishing_reads [simp]:
  "fst (HostingFor publishing_orch ''https://h/'' ''did:web:h'' (publishing_world False)) = Inr (''https://h'', ''did:web:h'')"
  "fst (ResolveDID (publishing_world True)) = Inl LibraryFailure"
  by (simp_all add: interact_def HostingFor_def trim_slashes_def publishing_orch_def activation_orch_def
      ResolveDID_def call_service_def Let_def)

lemma publishing_moves:
  "moves (code_of publishing_orch (Build 7)) publishing_worlds ! 9 =
     (tabs (publishing_world False), (tabs (publishing_world False))\<lparr>dh_sent := [Registered ''https://h'' (VtaDidPath (ss_VtaName publishing_session)) ''entry'']\<rparr>) \<and>
   9 < length (moves (code_of publishing_orch (Build 7)) publishing_worlds)"
proof -
  have orch: "or_cf publishing_orch" "or_hosting publishing_orch = Some True" by (simp_all add: publishing_orch_def)
  show ?thesis
    unfolding publishing_worlds_def
    by (simp add: runOne_def with_lock_def work_on_def prepareSession_def BuildPool_def publishPoolDID_def
        RegisterDid_def send_task_def publishing_log orch Let_def interact_def)
qed

theorem published_logs_clean_witness:
  "clean_log (or_json publishing_orch) ''entry''"
proof -
  let ?ms = "moves (code_of publishing_orch (Build 7)) publishing_worlds"
  from publishing_moves nth_mem [of 9 ?ms]
  have "(tabs (publishing_world False), (tabs (publishing_world False))\<lparr>dh_sent := [Registered ''https://h''
      (VtaDidPath (ss_VtaName publishing_session)) ''entry'']\<rparr>) \<in> set ?ms" by simp
  from published_logs_clean [OF this, of "''https://h''" "VtaDidPath (ss_VtaName publishing_session)" "''entry''"]
  show ?thesis by simp
qed

section \<open>Two races\<close>

text \<open>
  A pool member that is claimed and confirmed while an entry for it is still queued at the pool
  worker: the worker's build refuses the member, and the refusal marks the session failed while its
  provisioning runs.
\<close>

definition provisioning_session :: setup_session where
  "provisioning_session = publishing_session\<lparr>ss_Status := ''provisioning'', ss_AdminDid := sample_did\<rparr>"

lemma stale_queue_entry_fails_session:
  "t_sessions (snd (moves (code_of publishing_orch (Build 7)) (replicate 8 (member_world provisioning_session False)) ! 7)) =
     [provisioning_session\<lparr>ss_Status := ''failed'', ss_ErrorMsg := ''error''\<rparr>]"
proof -
  have s: "ss_ID provisioning_session = 7" "ss_Status provisioning_session = ''provisioning''"
    "ss_AdminDid provisioning_session = sample_did" "sample_did \<noteq> []" "ss_CFRecordID provisioning_session = ''r''"
    by (simp_all add: provisioning_session_def sample_did_def)
  have orch: "or_cf publishing_orch" "or_Error publishing_orch e = ''error''" for e
    by (simp_all add: publishing_orch_def activation_orch_def)
  have eight: "replicate 8 w = [w, w, w, w, w, w, w, w]" for w :: "farm world" by (simp add: numeral_eq_Suc)
  show ?thesis
    unfolding eight
    by (simp add: runOne_def with_lock_def work_on_def prepareSession_def BuildPool_def s orch unless_done_def
        recordBuildError_def ignore_def exec_def interact_def update_session_def update_where_def build_failed_row_def)
qed

text \<open>
  A prewarm for a claim that has lapsed, when the owner opens the next request before it is
  cancelled: the cancellation names the new request's activation and leaves the old one, so the
  activation of the new claim is refused.
\<close>

lemma leftover_prewarm_blocks_next_claim:
  assumes "parked x" and "vta_template (va_Image old) x" and "va_ActivationID old \<noteq> []"
    and "va_ActivationID new \<noteq> va_ActivationID old"
  shows "\<exists>warm. parked_update old command False x = Inr (Some warm) \<and>
    cancel_prewarm (va_ActivationID new) warm = Inr None \<and>
    parked_update new command' True warm = Inl ErrPoolActivationConflict"
proof -
  from activation_install_warm [OF assms(1-3)] show ?thesis
    using assms(3,4)
    by (auto simp: cancel_prewarm_def parked_update_def [of new] install_activation_def Let_def)
qed

end
