(* ===== verification/Regex.thy ===== *)
theory Regex
  imports Prelude
begin

text \<open>
  Go's \<open>regexp\<close> as the repository uses it: leftmost-first matching, at most one capture group per
  expression. A \<open>spot\<close> is the byte before the position, the rest of the text and what the group
  captured; \<open>spots r\<close> lists the ends of the matches of \<open>r\<close> from a spot, the preferred one first,
  which is the order in which Go prefers them. An iteration that consumes nothing ends a star.
\<close>

type_synonym spot = "char option \<times> string \<times> string option"

datatype re =
    Cls "char \<Rightarrow> bool"
  | Cat "re list"
  | Alt "re list"
  | Star re
  | Lazy re
  | Cap re
  | Bol
  | Eol
  | Eot

definition newline :: char where "newline = CHR 0x0A"

definition consume :: "(char \<Rightarrow> bool) \<Rightarrow> spot \<Rightarrow> spot list" where
  "consume P = (\<lambda>(p, s, c). case s of [] \<Rightarrow> [] | x # xs \<Rightarrow> if P x then [(Some x, xs, c)] else [])"

definition rest_of :: "spot \<Rightarrow> string" where
  "rest_of st = fst (snd st)"

fun greedy :: "(spot \<Rightarrow> spot list) \<Rightarrow> nat \<Rightarrow> spot \<Rightarrow> spot list" where
  "greedy f 0 st = [st]"
| "greedy f (Suc n) st =
     concat (map (greedy f n) (filter (\<lambda>st'. length (rest_of st') < length (rest_of st)) (f st))) @ [st]"

fun reluctant :: "(spot \<Rightarrow> spot list) \<Rightarrow> nat \<Rightarrow> spot \<Rightarrow> spot list" where
  "reluctant f 0 st = [st]"
| "reluctant f (Suc n) st =
     st # concat (map (reluctant f n) (filter (\<lambda>st'. length (rest_of st') < length (rest_of st)) (f st)))"

definition captured :: "spot \<Rightarrow> spot \<Rightarrow> spot" where
  "captured = (\<lambda>(p, s, c) (p', s', c'). (p', s', Some (take (length s - length s') s)))"

definition chain_spots :: "(spot \<Rightarrow> spot list) list \<Rightarrow> spot \<Rightarrow> spot list" where
  "chain_spots fs st = fold (\<lambda>f sts. concat (map f sts)) fs [st]"

definition either_spots :: "(spot \<Rightarrow> spot list) list \<Rightarrow> spot \<Rightarrow> spot list" where
  "either_spots fs st = concat (map (\<lambda>f. f st) fs)"

primrec spots :: "re \<Rightarrow> spot \<Rightarrow> spot list" where
  "spots (Cls P) = consume P"
| "spots (Cat rs) = chain_spots (map spots rs)"
| "spots (Alt rs) = either_spots (map spots rs)"
| "spots (Star r) = (\<lambda>st. greedy (spots r) (length (rest_of st)) st)"
| "spots (Lazy r) = (\<lambda>st. reluctant (spots r) (length (rest_of st)) st)"
| "spots (Cap r) = (\<lambda>st. map (captured st) (spots r st))"
| "spots Bol = (\<lambda>(p, s, c). if p = None \<or> p = Some newline then [(p, s, c)] else [])"
| "spots Eol = (\<lambda>(p, s, c). if s = [] \<or> hd s = newline then [(p, s, c)] else [])"
| "spots Eot = (\<lambda>(p, s, c). if s = [] then [(p, s, c)] else [])"

section \<open>Abbreviated expressions\<close>

definition lit :: "string \<Rightarrow> re" where
  "lit s = Cat (map (\<lambda>x. Cls (\<lambda>c. c = x)) s)"

text \<open>\<open>(?i)\<close>: the letters s and k also fold the long s and the Kelvin sign.\<close>

definition ichar :: "char \<Rightarrow> re" where
  "ichar x =
     (let same = Cls (\<lambda>c. lower_char c = lower_char x) in
      if lower_char x = CHR ''s'' then Alt [same, lit [CHR 0xC5, CHR 0xBF]]
      else if lower_char x = CHR ''k'' then Alt [same, lit [CHR 0xE2, CHR 0x84, CHR 0xAA]]
      else same)"

definition ilit :: "string \<Rightarrow> re" where
  "ilit s = Cat (map ichar s)"

definition one_of :: "string \<Rightarrow> re" where
  "one_of cs = Cls (\<lambda>c. c \<in> set cs)"

definition none_of :: "string \<Rightarrow> re" where
  "none_of cs = Cls (\<lambda>c. c \<notin> set cs)"

definition Plus :: "re \<Rightarrow> re" where
  "Plus r = Cat [r, Star r]"

definition AtLeast :: "nat \<Rightarrow> re \<Rightarrow> re" where
  "AtLeast n r = Cat (replicate n r @ [Star r])"

definition Opt :: "re \<Rightarrow> re" where
  "Opt r = Alt [r, Cat []]"

text \<open>\<open>\s\<close>, \<open>\S\<close> and \<open>.\<close>\<close>

definition re_white :: string where
  "re_white = [CHR 0x09, CHR 0x0A, CHR 0x0C, CHR 0x0D, CHR '' '']"

definition spc :: re where "spc = one_of re_white"
definition nonspc :: re where "nonspc = none_of re_white"
definition dot :: re where "dot = none_of [newline]"
definition anything :: re where "anything = none_of []"

section \<open>Searching\<close>

text \<open>
  The leftmost match: where it starts, where it ends and what it captured, for a text with the
  byte before it.
\<close>

fun search :: "re \<Rightarrow> char option \<Rightarrow> string \<Rightarrow> nat \<Rightarrow> (nat \<times> nat \<times> string option) option" where
  "search r p s n =
     (case spots r (p, s, None) of
        (_, s', c) # _ \<Rightarrow> Some (n, n + (length s - length s'), c)
      | [] \<Rightarrow> (case s of [] \<Rightarrow> None | x # xs \<Rightarrow> search r (Some x) xs (Suc n)))"

declare search.simps [simp del]

definition FindStringSubmatch :: "re \<Rightarrow> string \<Rightarrow> string option" where
  "FindStringSubmatch r s = (case search r None s 0 of Some (_, _, Some m) \<Rightarrow> Some m | _ \<Rightarrow> None)"

definition FindStringIndex :: "re \<Rightarrow> string \<Rightarrow> (nat \<times> nat) option" where
  "FindStringIndex r s = map_option (\<lambda>(i, j, _). (i, j)) (search r None s 0)"

definition MatchString :: "re \<Rightarrow> string \<Rightarrow> bool" where
  "MatchString r s \<longleftrightarrow> search r None s 0 \<noteq> None"

text \<open>\<open>ReplaceAllString\<close> with a text that holds no \<open>$\<close>; after a match the search goes on behind it.\<close>

function replace_from :: "re \<Rightarrow> string \<Rightarrow> char option \<Rightarrow> string \<Rightarrow> string" where
  "replace_from r new p s =
     (case spots r (p, s, None) of
        (p', s', _) # _ \<Rightarrow>
          (if length s' < length s then new @ replace_from r new p' s'
           else (case s of [] \<Rightarrow> new | x # xs \<Rightarrow> new @ x # replace_from r new (Some x) xs))
      | [] \<Rightarrow> (case s of [] \<Rightarrow> [] | x # xs \<Rightarrow> x # replace_from r new (Some x) xs))"
  by pat_completeness auto
termination by (relation "measure (\<lambda>(r, new, p, s). length s)") auto

declare replace_from.simps [simp del]

definition ReplaceAllString :: "re \<Rightarrow> string \<Rightarrow> string \<Rightarrow> string" where
  "ReplaceAllString r s new = replace_from r new None s"

end
