(* ===== verification/StackText.thy ===== *)
theory StackText
  imports SetupFlow Regex
begin

text \<open>
  The texts of a full-stack setup: what its jobs print and how it is read
  (\<open>setup/parser_fullstack.go\<close>, \<open>parser_vtc.go\<close>), the recipes the jobs are given
  (\<open>templates_fullstack.go\<close>, \<open>templates_vtc.go\<close>), and the names of its objects
  (\<open>k8s/fullstack_names.go\<close>, \<open>vault/client.go\<close>).
\<close>

section \<open>What the jobs print\<close>

definition stripANSI :: "string \<Rightarrow> string" where
  "stripANSI s =
     ReplaceAllString
       (Cat [lit [CHR 0x1B, CHR ''[''], Star (one_of ''0123456789;''),
             Cls (\<lambda>c. lower_char c \<in> set ''abcdefghijklmnopqrstuvwxyz'')]) s []"

definition parse_with :: "re \<Rightarrow> string \<Rightarrow> string \<Rightarrow> err + string" where
  "parse_with r missing output =
     (case FindStringSubmatch r output of Some m \<Rightarrow> Inr m | None \<Rightarrow> Inl (NewError missing))"

definition did_token :: re where
  "did_token = Cap (Cat [lit ''did:'', Plus nonspc])"

definition mediatorDIDRe :: re where
  "mediatorDIDRe = Cat [ilit ''mediator:'', Star spc, Cap (Cat [ilit ''did:'', Plus nonspc])]"

definition ParseMediatorDID :: "string \<Rightarrow> err + string" where
  "ParseMediatorDID = parse_with mediatorDIDRe ''mediator DID not found in setup output''"

definition ParseDigest :: "string \<Rightarrow> err + string" where
  "ParseDigest =
     parse_with (Cat [lit ''SHA-256 digest:'', Plus spc, Cap (Plus nonspc)]) ''SHA-256 digest not found in output''"

definition ParseMediatorAdminDID :: "string \<Rightarrow> err + string" where
  "ParseMediatorAdminDID =
     parse_with (Cat [lit ''Admin DID:'', Plus spc, did_token]) ''mediator admin DID not found in output''"

definition ParseMediatorAdminKey :: "string \<Rightarrow> err + string" where
  "ParseMediatorAdminKey =
     parse_with (Cat [lit ''Private key (multibase):'', Plus spc, Cap (Plus nonspc)])
       ''mediator admin private key not found in output''"

definition ParseWebvhAdminDID :: "string \<Rightarrow> err + string" where
  "ParseWebvhAdminDID =
     parse_with (Cat [lit ''Generated admin did:key:'', Plus spc, did_token]) ''webvh admin DID not found in output''"

definition ParseWebvhAdminKey :: "string \<Rightarrow> err + string" where
  "ParseWebvhAdminKey =
     parse_with (Cat [lit ''Private key (save now, not re-shown):'', Plus spc, Cap (Plus nonspc)])
       ''webvh admin private key not found in output''"

definition ParseServerDid :: "string \<Rightarrow> err + string" where
  "ParseServerDid =
     parse_with (Cat [lit ''server_did'', Star spc, lit ''='', Star spc, lit ''\"'', Cap (Plus (none_of ''\"'')), lit ''\"''])
       ''server_did not found in config.toml artifact''"

text \<open>
  \<open>(?i)[A-Z0-9-]\<close> also folds the long s and the Kelvin sign into the class.
\<close>

definition claim_char :: re where
  "claim_char =
     Alt [Cls (\<lambda>c. lower_char c \<in> set ''abcdefghijklmnopqrstuvwxyz0123456789-''),
          lit [CHR 0xC5, CHR 0xBF], lit [CHR 0xE2, CHR 0x84, CHR 0xAA]]"

definition blanks :: re where
  "blanks = Star (one_of [CHR '' '', CHR 0x09])"

definition didsEnrollURLRe :: re where
  "didsEnrollURLRe = Cap (Cat [lit ''http'', Opt (lit ''s''), lit ''://'', Plus nonspc, lit ''/enroll'', Star nonspc])"

definition didsEnrollClaimRe :: re where
  "didsEnrollClaimRe =
     Cat [Bol, blanks, ilit ''Claim code:'', blanks, Opt (Cat [Opt (lit [CHR 0x0D]), lit [CHR 0x0A], blanks]),
          Cap (Plus claim_char), blanks, Eol]"

definition ParseDidsEnrollInvite :: "string \<Rightarrow> err + string \<times> string" where
  "ParseDidsEnrollInvite output =
     (case FindStringSubmatch didsEnrollURLRe output of
        None \<Rightarrow> Inl (NewError ''dids enrollment URL not found in output'')
      | Some url \<Rightarrow>
          (case FindStringSubmatch didsEnrollClaimRe output of
             None \<Rightarrow> Inl (NewError ''dids enrollment claim code not found in output'')
           | Some code \<Rightarrow> Inr (url, TrimSpace code)))"

definition artifactMarkerLineRe :: re where
  "artifactMarkerLineRe = Cat [Bol, lit ''---ARTIFACT:'', Lazy dot, lit ''---'', Star spc, Eol]"

definition ParseArtifact :: "string \<Rightarrow> string \<Rightarrow> string" where
  "ParseArtifact logs marker =
     (case Cut logs (''---ARTIFACT:'' @ marker @ ''---'') of
        (_, rest, found) \<Rightarrow>
          if \<not> found then []
          else TrimSpace (case FindStringIndex artifactMarkerLineRe rest of None \<Rightarrow> rest | Some (i, _) \<Rightarrow> take i rest))"

definition ParseVtcSetupKeyDid :: "string \<Rightarrow> err + string" where
  "ParseVtcSetupKeyDid output =
     (case FindStringSubmatch (Cat [lit ''Setup DID (ephemeral):'', Plus spc, did_token]) output of
        Some m \<Rightarrow> Inr (TrimSpace m)
      | None \<Rightarrow> Inl (NewError ''setup DID not found in setup --setup-key-out output''))"

record vtc_outcome =
  vo_VtcDid :: string
  vo_AdminDid :: string
  vo_InstallURL :: string
  vo_ClaimCode :: string

definition key_line :: "string \<Rightarrow> re" where
  "key_line name = Cat [Bol, lit (name @ ''=''), Cap (Plus dot), Eol]"

definition vtc_field :: "string \<Rightarrow> string \<Rightarrow> err + string" where
  "vtc_field logs name =
     (case FindStringSubmatch (key_line name) logs of
        None \<Rightarrow> Inl (NewError (name @ '' not found in vtc setup output''))
      | Some m \<Rightarrow> Inr (TrimSpace m))"

definition ParseVtcSetupOutput :: "string \<Rightarrow> err + vtc_outcome" where
  "ParseVtcSetupOutput logs =
     (case vtc_field logs ''vtc_did'' of Inl e \<Rightarrow> Inl e | Inr vtcDid \<Rightarrow>
     (case vtc_field logs ''admin_did'' of Inl e \<Rightarrow> Inl e | Inr adminDid \<Rightarrow>
     (case vtc_field logs ''install_url'' of Inl e \<Rightarrow> Inl e | Inr installURL \<Rightarrow>
     (case vtc_field logs ''claim_code'' of Inl e \<Rightarrow> Inl e | Inr claimCode \<Rightarrow>
        Inr \<lparr>vo_VtcDid = vtcDid, vo_AdminDid = adminDid, vo_InstallURL = installURL, vo_ClaimCode = claimCode\<rparr>))))"

definition ParseVtcInviteOutput :: "string \<Rightarrow> err + string \<times> string" where
  "ParseVtcInviteOutput logs =
     (case FindStringSubmatch (Cat [lit ''Install URL (one-shot):'', Plus spc, Cap (Plus nonspc)]) logs of
        None \<Rightarrow> Inl (NewError ''install URL not found in vtc admin invite output'')
      | Some url \<Rightarrow>
          (case FindStringSubmatch
                  (Cat [lit ''Claim code'', Star (none_of [CHR '':'', CHR 0x0A]), lit '':'', Plus spc, Cap (Plus nonspc)]) logs of
             None \<Rightarrow> Inl (NewError ''claim code not found in vtc admin invite output'')
           | Some code \<Rightarrow> Inr (TrimSpace url, TrimSpace code)))"

section \<open>Recipes\<close>

text \<open>\<open>%q\<close>; bytes above 0x7F are left alone, as those of a printable rune.\<close>

definition quote_byte :: "char \<Rightarrow> string" where
  "quote_byte c =
     (let n = (of_char c :: nat); bs = CHR 0x5C in
      if c = CHR 0x22 \<or> c = bs then [bs, c]
      else if n = 7 then [bs, CHR ''a''] else if n = 8 then [bs, CHR ''b''] else if n = 9 then [bs, CHR ''t'']
      else if n = 10 then [bs, CHR ''n''] else if n = 11 then [bs, CHR ''v''] else if n = 12 then [bs, CHR ''f'']
      else if n = 13 then [bs, CHR ''r'']
      else if n < 32 \<or> n = 127 then bs # CHR ''x'' # hex [c]
      else [c])"

definition QuoteGo :: "string \<Rightarrow> string" where
  "QuoteGo s = ''\"'' @ concat (map quote_byte s) @ ''\"''"

definition RenderFullStackVtaSetupTOML :: "setup_session \<Rightarrow> vault_secrets \<Rightarrow> string" where
  "RenderFullStackVtaSetupTOML s vault =
     ''config_path = \"config.toml\"'' @ nl @
     ''data_dir    = \"data/vta\"'' @ nl @
     ''vta_name    = \"'' @ ss_VtaName s @ ''\"'' @ nl @
     ''public_url  = \"'' @ PublicURL s @ ''\"'' @ nl @
     nl @
     ''[services]'' @ nl @
     ''rest    = true'' @ nl @
     ''didcomm = true'' @ nl @
     ''tsp     = true'' @ nl @
     nl @
     ''[server]'' @ nl @
     ''host = \"0.0.0.0\"'' @ nl @
     ''port = 8100'' @ nl @
     nl @
     ''[log]'' @ nl @
     ''level  = \"info\"'' @ nl @
     ''format = \"text\"'' @ nl @
     nl @
     ''[secrets]'' @ nl @
     ''backend     = \"vault\"'' @ nl @
     ''addr        = \"'' @ vs_Addr vault @ ''\"'' @ nl @
     ''secret_path = \"'' @ vs_SecretPath vault @ ''\"'' @ nl @
     ''kv_mount    = \"'' @ vs_KVMount vault @ ''\"'' @ nl @
     ''secret_key  = \"seed\"'' @ nl @
     ''auth_method = \"kubernetes\"'' @ nl @
     ''k8s_role    = \"'' @ vs_K8sRole vault @ ''\"'' @ nl @
     ''skip_verify = '' @ show_bool (vs_SkipVerify vault) @ nl @
     nl @
     ''[messaging]'' @ nl @
     ''kind      = \"create_mediator\"'' @ nl @
     ''context   = \"mediator\"'' @ nl @
     ''url       = \"'' @ ''https://'' @ MediatorFQDN s @ ''/mediator/v1'' @ ''\"'' @ nl @
     ''webvh_url = \"'' @ ''https://'' @ DidsFQDN s @ ''/'' @ MediatorDidPath (ss_VtaName s) @ ''\"'' @ nl @
     nl @
     ''[vta_did]'' @ nl @
     ''kind               = \"create_webvh\"'' @ nl @
     ''url                = \"'' @ ''https://'' @ DidsFQDN s @ ''/'' @ VtaDidPath (ss_VtaName s) @ ''\"'' @ nl @
     ''portable           = '' @ show_bool (ss_Portable s) @ nl @
     ''pre_rotation_count = '' @ FormatInt (ss_PreRotationCount s) @ nl"

text \<open>For the mediator \<open>vs_Addr\<close> is the host and port, \<open>vs_SecretPath\<close> the prefix.\<close>

definition RenderMediatorRecipeTOML :: "vault_secrets \<Rightarrow> string" where
  "RenderMediatorRecipeTOML vault =
     ''[deployment]'' @ nl @
     ''type      = \"server\"'' @ nl @
     ''protocols = [\"didcomm\", \"tsp\"]'' @ nl @
     ''use_vta   = true'' @ nl @
     ''vta_mode  = \"sealed-export\"'' @ nl @
     nl @
     ''[vta]'' @ nl @
     ''context = \"mediator\"'' @ nl @
     nl @
     ''[secrets]'' @ nl @
     ''storage = \"vault://'' @ vs_Addr vault @ ''/'' @ vs_KVMount vault @ ''/'' @ vs_SecretPath vault @ ''?auth=kubernetes&role='' @ vs_K8sRole vault @ (if vs_SkipVerify vault then ''&insecure=1'' else []) @ ''\"'' @ nl @
     nl @
     ''[security]'' @ nl @
     ''ssl          = \"none\"'' @ nl @
     ''admin        = \"generate\"'' @ nl @
     ''jwt_mode     = \"generate\"'' @ nl @
     ''network_mode = \"open\"'' @ nl @
     ''cors         = \"any\"'' @ nl @
     nl @
     ''[database]'' @ nl @
     ''url = \"redis://127.0.0.1/\"'' @ nl @
     nl @
     ''[storage]'' @ nl @
     ''backend  = \"fjall\"'' @ nl @
     ''data_dir = \"./data/mediator\"'' @ nl @
     nl @
     ''[output]'' @ nl @
     ''config_path    = \"conf/mediator.toml\"'' @ nl @
     ''listen_address = \"0.0.0.0:7037\"'' @ nl"

abbreviation "WebvhPhasePrepare \<equiv> ''offline-prepare''"
abbreviation "WebvhPhaseComplete \<equiv> ''offline-complete''"

definition RenderWebvhRecipeTOML :: "setup_session \<Rightarrow> string \<Rightarrow> string \<Rightarrow> vault_secrets \<Rightarrow> err + string" where
  "RenderWebvhRecipeTOML s phase digest vault =
     (if phase \<noteq> WebvhPhasePrepare \<and> phase \<noteq> WebvhPhaseComplete
      then Inl (NewError (''render webvh recipe: invalid phase '' @ QuoteGo phase))
      else Inr (
     ''[deployment]'' @ nl @
     ''service  = \"daemon\"'' @ nl @
     ''vta_mode = \"'' @ phase @ ''\"'' @ nl @
     nl @
     ''[output]'' @ nl @
     ''config_path = \"config.toml\"'' @ nl @
     nl @
     ''[server]'' @ nl @
     ''host       = \"0.0.0.0\"'' @ nl @
     ''port       = 8534'' @ nl @
     ''log_level  = \"info\"'' @ nl @
     ''log_format = \"text\"'' @ nl @
     ''data_dir   = \"data/daemon\"'' @ nl @
     nl @
     ''[identity]'' @ nl @
     ''public_url   = \"'' @ ''https://'' @ DidsFQDN s @ ''\"'' @ nl @
     ''mediator_did = \"'' @ ss_MediatorDid s @ ''\"'' @ nl @
     ''transport    = \"both\"'' @ nl @
     nl @
     ''[vta]'' @ nl @
     (if phase = WebvhPhasePrepare then ''request_path  = \"bootstrap-request.json\"''
      else ''bundle_path   = \"bundle.armor\"'' @ nl @ ''expect_digest = \"'' @ digest @ ''\"'') @ nl @
     nl @
     ''[daemon]'' @ nl @
     ''enable_control = true'' @ nl @
     ''enable_server  = true'' @ nl @
     ''enable_witness = true'' @ nl @
     ''enable_watcher = false'' @ nl @
     nl @
     ''[secrets]                              # identical mechanism to the VTA/mediator '' @ em_dash @ '' kubernetes auth'' @ nl @
     ''backend           = \"vault\"'' @ nl @
     ''vault_addr        = \"'' @ vs_Addr vault @ ''\"'' @ nl @
     ''vault_kv_mount    = \"'' @ vs_KVMount vault @ ''\"'' @ nl @
     ''vault_secret_path = \"'' @ vs_SecretPath vault @ ''\"'' @ nl @
     ''vault_auth_method = \"kubernetes\"'' @ nl @
     ''vault_k8s_role    = \"'' @ vs_K8sRole vault @ ''\"'' @ nl @
     ''vault_skip_verify = '' @ show_bool (vs_SkipVerify vault) @ nl @
     nl @
     ''[admin]'' @ nl @
     ''mode = \"generate\"'' @ nl @
     nl @
     ''[reprovision]'' @ nl @
     ''force = false'' @ nl))"

definition RenderVtcSetupTOML :: "setup_session \<Rightarrow> vault_secrets \<Rightarrow> string" where
  "RenderVtcSetupTOML s vault =
     ''config_path    = \"config.toml\"'' @ nl @
     ''base_url       = \"'' @ ''https://'' @ VtcFQDN s @ ''\"'' @ nl @
     ''vta_did        = \"'' @ ss_VtaDid s @ ''\"'' @ nl @
     ''context        = \"'' @ ss_VtcName s @ ''\"'' @ nl @
     ''setup_key_file = \"setup-key.json\"'' @ nl @
     ''single_admin_mode = true'' @ nl @
     (if ss_TrustRegistryDid s \<noteq> [] then ''registry_did = '' @ QuoteGo (ss_TrustRegistryDid s) @ nl else []) @ nl @
     nl @
     ''[webvh]'' @ nl @
     ''server_id = \"dids\"'' @ nl @
     ''path      = \"'' @ VtcDidPath (ss_VtcName s) @ ''\"'' @ nl @
     nl @
     ''[messaging]'' @ nl @
     ''mediator_did = \"'' @ ss_MediatorDid s @ ''\"'' @ nl @
     ''mediator_url = \"'' @ ''https://'' @ MediatorFQDN s @ ''/mediator/v1'' @ ''\"'' @ nl @
     ''transports   = [\"tsp\", \"didcomm\"]'' @ nl @
     nl @
     ''[secrets]'' @ nl @
     ''backend           = \"vault\"'' @ nl @
     ''vault_addr        = \"'' @ vs_Addr vault @ ''\"'' @ nl @
     ''vault_kv_mount    = \"'' @ vs_KVMount vault @ ''\"'' @ nl @
     ''vault_secret_path = \"'' @ vs_SecretPath vault @ ''\"'' @ nl @
     ''vault_secret_key  = \"bundle\"'' @ nl @
     ''vault_auth_method = \"kubernetes\"'' @ nl @
     ''vault_k8s_role    = \"'' @ vs_K8sRole vault @ ''\"'' @ nl @
     ''vault_skip_verify = '' @ show_bool (vs_SkipVerify vault) @ nl"

section \<open>Names\<close>

definition fs_name :: "nat \<Rightarrow> string \<Rightarrow> string" where
  "fs_name i what = ''fs-'' @ FormatUint (int i) @ ''-'' @ what"

definition FSJobVtaSetup :: "nat \<Rightarrow> string" where "FSJobVtaSetup i = fs_name i ''vta-setup''"
definition FSJobMediatorP1 :: "nat \<Rightarrow> string" where "FSJobMediatorP1 i = fs_name i ''mediator-p1''"
definition FSJobMediatorReprov :: "nat \<Rightarrow> string" where "FSJobMediatorReprov i = fs_name i ''mediator-reprov''"
definition FSJobMediatorP2 :: "nat \<Rightarrow> string" where "FSJobMediatorP2 i = fs_name i ''mediator-p2''"
definition FSJobDidsP1 :: "nat \<Rightarrow> string" where "FSJobDidsP1 i = fs_name i ''dids-p1''"
definition FSJobDidsProvision :: "nat \<Rightarrow> string" where "FSJobDidsProvision i = fs_name i ''dids-provision''"
definition FSJobDidsP2 :: "nat \<Rightarrow> string" where "FSJobDidsP2 i = fs_name i ''dids-p2''"
definition FSJobDidsInvite :: "nat \<Rightarrow> string" where "FSJobDidsInvite i = fs_name i ''dids-invite''"
definition FSJobDidsLoadDid :: "nat \<Rightarrow> string" where "FSJobDidsLoadDid i = fs_name i ''dids-load-did''"
definition FSJobDidsGrantFarm :: "nat \<Rightarrow> string" where "FSJobDidsGrantFarm i = fs_name i ''dids-grant-farm''"
definition FSJobVtaRegisterDids :: "nat \<Rightarrow> string" where "FSJobVtaRegisterDids i = fs_name i ''vta-register-dids''"
definition FSJobImportAdminDid :: "nat \<Rightarrow> string" where "FSJobImportAdminDid i = fs_name i ''import-admin-did''"
definition FSJobVtaACL :: "nat \<Rightarrow> string" where "FSJobVtaACL i = fs_name i ''vta-acl''"
definition FSJobVtcSetupKey :: "nat \<Rightarrow> string" where "FSJobVtcSetupKey i = fs_name i ''vtc-setup-key''"
definition FSJobVtcAclGrant :: "nat \<Rightarrow> string" where "FSJobVtcAclGrant i = fs_name i ''vtc-acl-grant''"
definition FSJobVtcSetup :: "nat \<Rightarrow> string" where "FSJobVtcSetup i = fs_name i ''vtc-setup''"
definition FSJobVtcInvite :: "nat \<Rightarrow> string" where "FSJobVtcInvite i = fs_name i ''vtc-invite''"

definition CustomTLSSecret :: "nat \<Rightarrow> string" where
  "CustomTLSSecret domainID = ''custom-'' @ FormatUint (int domainID) @ ''-tls''"

definition RegistryJobName :: "nat \<Rightarrow> string \<Rightarrow> string" where
  "RegistryJobName i phase = fs_name i (''tr-'' @ phase)"

definition registryJobNames :: "nat \<Rightarrow> string list" where
  "registryJobNames i =
     map (RegistryJobName i)
       [''preflight'', ''identity'', ''setup-key'', ''acl-grant'', ''setup'', ''referral'', ''config'', ''restore'']"

definition allFSJobNames :: "nat \<Rightarrow> string list" where
  "allFSJobNames i =
     [FSJobVtaSetup i, FSJobMediatorP1 i, FSJobMediatorReprov i, FSJobMediatorP2 i, FSJobDidsP1 i, FSJobDidsProvision i,
      FSJobDidsP2 i, FSJobDidsInvite i, FSJobDidsLoadDid i, FSJobDidsGrantFarm i, FSJobVtaRegisterDids i,
      FSJobImportAdminDid i, FSJobVtaACL i, FSJobVtcSetupKey i, FSJobVtcAclGrant i, FSJobVtcSetup i, FSJobVtcInvite i,
      FSJobConfigUpdate i, FSJobConfigRollback i] @
     map (fs_name i)
       [''tr-preflight'', ''tr-identity'', ''tr-setup-key'', ''tr-acl-grant'', ''tr-setup'', ''tr-referral'', ''tr-config'', ''tr-restore'']"

definition MediatorPrefix :: "nat \<Rightarrow> nat \<Rightarrow> string" where
  "MediatorPrefix userID sessionID = ''mediator/user-'' @ FormatUint (int userID) @ ''/session-'' @ FormatUint (int sessionID)"

definition DidsPrefix :: "nat \<Rightarrow> nat \<Rightarrow> string" where
  "DidsPrefix userID sessionID = ''dids/user-'' @ FormatUint (int userID) @ ''/session-'' @ FormatUint (int sessionID)"

definition VtcPrefix :: "nat \<Rightarrow> nat \<Rightarrow> string" where
  "VtcPrefix userID sessionID = ''vtc/user-'' @ FormatUint (int userID) @ ''/session-'' @ FormatUint (int sessionID)"

definition TrustRegistryPrefix :: "nat \<Rightarrow> nat \<Rightarrow> string" where
  "TrustRegistryPrefix userID sessionID =
     ''trust-registry/user-'' @ FormatUint (int userID) @ ''/session-'' @ FormatUint (int sessionID)"

text \<open>\<open>vaultHostPort\<close>: the address without its scheme.\<close>

definition vaultHostPort :: "orch \<Rightarrow> string \<Rightarrow> string" where
  "vaultHostPort o' addr =
     (case or_url o' addr of None \<Rightarrow> addr | Some u \<Rightarrow> if ur_Host u \<noteq> [] then ur_Host u else addr)"

section \<open>Facts\<close>

lemma registryJobNames_all: "set (registryJobNames i) \<subseteq> set (allFSJobNames i)"
  by (simp add: registryJobNames_def allFSJobNames_def RegistryJobName_def)

end
