(* ===== verification/Jobs.thy ===== *)
theory Jobs
  imports StackText Activation GoTime
begin

text \<open>
  The objects of a full stack (\<open>internal/k8s/component_jobs.go\<close>, \<open>component_resources.go\<close>,
  \<open>trust_registry.go\<close>, \<open>upgrade.go\<close>).

  \<^item> \<open>component_job\<close> and \<open>component_deployment\<close> are the objects the code creates, with the columns
    \<open>Cluster\<close> keeps: ports, probes and resource quantities are not among them.
  \<^item> \<open>AlreadyExists\<close> is not an error: an object that is there stays as it is.
  \<^item> Volume claims, Services, Ingresses, Secrets and certificates are calls without a modelled effect.
\<close>

section \<open>Jobs\<close>

record pvc_mount =
  pm_Name :: string
  pm_ClaimName :: string
  pm_MountPath :: string

record job_spec =
  cj_Name :: string
  cj_Image :: string
  cj_Command :: "string list"
  cj_WorkingDir :: string
  cj_ServiceAccount :: string
  cj_PVCMounts :: "pvc_mount list"
  cj_ConfigMapName :: string
  cj_ConfigMapKey :: string
  cj_ConfigMapData :: string
  cj_SecretData :: "(string \<times> string) list"
  cj_Env :: "(string \<times> string) list"
  cj_RetainForRecovery :: bool

definition component_job :: "job_spec \<Rightarrow> job" where
  "component_job spec =
     (new_job (\<not> cj_RetainForRecovery spec) (map pm_ClaimName (cj_PVCMounts spec))
       \<lparr>ct_Name = cj_Name spec, ct_Image = cj_Image spec, ct_Command = cj_Command spec, ct_Args = [],
        ct_WorkingDir = cj_WorkingDir spec, ct_Env = cj_Env spec,
        ct_VolumeMounts = map (\<lambda>m. (pm_Name m, pm_MountPath m)) (cj_PVCMounts spec) @
          (if cj_ConfigMapName spec \<noteq> [] then [(''config'', ''/config'')] else []) @
          (if cj_SecretData spec \<noteq> [] then [(''config'', ''/config'')] else [])\<rparr>)
       \<lparr>jb_ServiceAccount := cj_ServiceAccount spec\<rparr>"

definition CreateComponentJob :: "string \<Rightarrow> job_spec \<Rightarrow> (farm, err option) prog" where
  "CreateComponentJob ns spec =
     (if cj_ConfigMapName spec \<noteq> [] \<and> cj_SecretData spec \<noteq> []
      then Return (Some (NewError (''component job '' @ cj_Name spec @ '' cannot use both ConfigMapData and SecretData'')))
      else call_all
        ((if cj_ConfigMapName spec \<noteq> []
          then [create_config (ns, cj_ConfigMapName spec) [(cj_ConfigMapKey spec, cj_ConfigMapData spec)]] else []) @
         (if cj_SecretData spec \<noteq> [] then [call_cluster] else []) @
         [create_job (ns, cj_Name spec) (component_job spec)]))"

definition DeleteAllComponentJobs :: "string \<Rightarrow> nat \<Rightarrow> (farm, unit) prog" where
  "DeleteAllComponentJobs ns sessionID =
     foldr (DeleteComponentJob ns) (allFSJobNames sessionID) (Return ())"

section \<open>Deployments\<close>

record deployment_spec =
  cd_Name :: string
  cd_Image :: string
  cd_Command :: "string list"
  cd_WorkingDir :: string
  cd_PVCMounts :: "pvc_mount list"
  cd_Env :: "(string \<times> string) list"
  cd_Labels :: string_map
  cd_Recreate :: bool

definition component_deployment :: "deployment_spec \<Rightarrow> deployment" where
  "component_deployment spec =
     blank_deployment
       \<lparr>dp_Labels := cd_Labels spec, dp_TemplateLabels := cd_Labels spec, dp_Replicas := Some 1,
        dp_Recreate := cd_Recreate spec, dp_Claims := map pm_ClaimName (cd_PVCMounts spec),
        dp_Containers :=
          [\<lparr>ct_Name = cd_Name spec, ct_Image = cd_Image spec, ct_Command = cd_Command spec, ct_Args = [],
            ct_WorkingDir = cd_WorkingDir spec, ct_Env = cd_Env spec,
            ct_VolumeMounts = map (\<lambda>m. (pm_Name m, pm_MountPath m)) (cd_PVCMounts spec)\<rparr>]\<rparr>"

definition create_deployment :: "string \<times> string \<Rightarrow> deployment \<Rightarrow> (farm, unit) tx" where
  "create_deployment key new =
     interact LibraryFailure (\<lambda>w.
       case k_deployments (tabs w) key of
         Some _ \<Rightarrow> ((), tabs w)
       | None \<Rightarrow> ((), (tabs w)\<lparr>k_deployments := (k_deployments (tabs w))(key \<mapsto> new),
                               k_names := k_names (tabs w) @ [key]\<rparr>))"

definition CreateComponentDeployment :: "string \<Rightarrow> deployment_spec \<Rightarrow> (farm, unit) tx" where
  "CreateComponentDeployment ns spec = create_deployment (ns, cd_Name spec) (component_deployment spec)"

definition DeleteComponentResources :: "string \<Rightarrow> string \<Rightarrow> (farm, unit) prog" where
  "DeleteComponentResources ns name =
     ignore (delete_deployment (ns, name))
     (ignore call_cluster (ignore call_cluster (ignore call_cluster (Return ()))))"

text \<open>\<open>time.RFC3339Nano\<close> in UTC\<close>

definition RFC3339Nano :: "int \<Rightarrow> string" where
  "RFC3339Nano now =
     (let frac = rev (dropWhile (\<lambda>c. c = CHR ''0'') (rev (appendInt 9 (now mod 1000000000)))) in
      butlast (Format (now, 0)) @ (if frac = [] then [] else ''.'' @ frac) @ ''Z'')"

abbreviation "recoveryRestartAnnotation \<equiv> ''vtafarm.ic3software.com/recovery-restarted-at''"

definition with_recovery :: "string \<Rightarrow> int \<Rightarrow> deployment \<Rightarrow> deployment" where
  "with_recovery img now d =
     (with_image img d)\<lparr>dp_TemplateAnnotations := (dp_TemplateAnnotations d)(recoveryRestartAnnotation \<mapsto> RFC3339Nano now)\<rparr>"

definition RecoverDeploymentImage :: "string \<Rightarrow> string \<Rightarrow> string \<Rightarrow> (farm, unit) tx" where
  "RecoverDeploymentImage ns name img =
     interact LibraryFailure (\<lambda>w.
       ((), (tabs w)\<lparr>k_deployments := (k_deployments (tabs w))
          ((ns, name) := map_option (with_recovery img (clock w (tick w))) (k_deployments (tabs w) (ns, name)))\<rparr>))"

section \<open>Waiting\<close>

definition WaitForComponentPodsGone :: "string \<Rightarrow> string \<Rightarrow> int \<Rightarrow> (farm, err option) prog" where
  "WaitForComponentPodsGone ns selector timeout =
     at_time (\<lambda>now.
       poll_each (nat (timeout div (2 * second))) (now + timeout)
         (check (list_pods (ns, selector)) (\<lambda>_. Return None) (\<lambda>pods. Return (if pods = [] then Some None else None)))
         (Some ContextDone)
         (Some (NewError (''timeout waiting for pods (selector '' @ QuoteGo selector @ '') to terminate''))))"

text \<open>The statuses of the first container of the pods that are not being deleted.\<close>

definition main_statuses :: "pod \<Rightarrow> (string \<times> container_status) list" where
  "main_statuses p =
     (case pd_Names p of
        main # _ \<Rightarrow>
          if pd_Deleting p then []
          else map (Pair (pd_Name p)) (filter (\<lambda>cs. cs_Name cs = main) (pd_Statuses p))
      | [] \<Rightarrow> [])"

definition restarted :: "int \<Rightarrow> string \<times> container_status \<Rightarrow> err option" where
  "restarted limit = (\<lambda>(name, cs).
     if limit \<le> cs_RestartCount cs
     then Some (NewError (''pod '' @ name @ '' restarted '' @ FormatInt (cs_RestartCount cs) @
            '' times during configuration startup check''))
     else None)"

definition ready_or_restarts :: "int \<Rightarrow> deployment option \<Rightarrow> pod list option \<Rightarrow> err option option" where
  "ready_or_restarts limit deployment pods =
     (case pods of
        None \<Rightarrow> None
      | Some ps \<Rightarrow>
          (let statuses = concat (map main_statuses ps) in
           case first_error (restarted limit) statuses of
             Some e \<Rightarrow> Some (Some e)
           | None \<Rightarrow>
               (case deployment of
                  Some d \<Rightarrow>
                    if dp_Generation d \<le> dp_ObservedGeneration d \<and> 0 < dp_ReadyReplicas d \<and>
                       (\<exists>st \<in> set statuses. cs_Ready (snd st))
                    then Some None else None
                | None \<Rightarrow> None)))"

definition WaitForComponentDeploymentReadyOrRestarts ::
  "string \<Rightarrow> string \<Rightarrow> string \<Rightarrow> int \<Rightarrow> int \<Rightarrow> (farm, err option) prog" where
  "WaitForComponentDeploymentReadyOrRestarts ns name selector timeout limit =
     (let list = (\<lambda>d. check (list_pods (ns, selector)) (\<lambda>_. Return (ready_or_restarts limit d None))
                        (\<lambda>pods. Return (ready_or_restarts limit d (Some pods)))) in
      at_time (\<lambda>now.
        poll_each (nat (timeout div (2 * second))) (now + timeout)
          (check (interact LibraryFailure (\<lambda>w. (k_deployments (tabs w) (ns, name), tabs w))) (\<lambda>_. list None) list)
          (Some ContextDone)
          (Some (NewError (''timeout waiting for deployment '' @ name @ '' to become ready'')))))"

definition ComponentDeploymentReady :: "string \<Rightarrow> string \<Rightarrow> (farm, bool) tx" where
  "ComponentDeploymentReady ns name =
     bnd (interact LibraryFailure (\<lambda>w. (k_deployments (tabs w) (ns, name), tabs w)))
       (\<lambda>r. case r of None \<Rightarrow> throw LibraryFailure | Some d \<Rightarrow> ret (0 < dp_ReadyReplicas d))"

section \<open>The jobs of a Trust Registry\<close>

definition get_job :: "string \<Rightarrow> string \<Rightarrow> (farm, job option) tx" where
  "get_job ns name = interact LibraryFailure (\<lambda>w. (k_jobs (tabs w) (ns, name), tabs w))"

text \<open>Stop at the first call that fails.\<close>

fun until_error :: "('x \<Rightarrow> (farm, err option) prog) \<Rightarrow> 'x list \<Rightarrow> (farm, err option) prog" where
  "until_error f [] = Return None"
| "until_error f (x # xs) = pbind (f x) (\<lambda>r. case r of Some e \<Rightarrow> Return (Some e) | None \<Rightarrow> until_error f xs)"

definition job_selector :: "string \<Rightarrow> string" where
  "job_selector name = ''job-name='' @ name"

definition PrepareRegistryJob :: "string \<Rightarrow> string \<Rightarrow> bool \<Rightarrow> (farm, err option) prog" where
  "PrepareRegistryJob ns name keepSuccess =
     check (get_job ns name) (\<lambda>e. Return (Some e)) (\<lambda>r. case r of
       None \<Rightarrow> Return None
     | Some j \<Rightarrow>
         if (0 < jb_Failed j \<or> \<not> keepSuccess \<and> 0 < jb_Succeeded j) \<and> jb_Active j = 0
         then DeleteComponentJob ns name (WaitForComponentPodsGone ns (job_selector name) (2 * minute))
         else Return None)"

definition finish_registry_job :: "orch \<Rightarrow> string \<Rightarrow> string \<Rightarrow> (farm, err option) prog" where
  "finish_registry_job o' ns name =
     check (get_job ns name) (\<lambda>e. Return (Some e)) (\<lambda>r. case r of
       None \<Rightarrow> Return None
     | Some j \<Rightarrow>
         if 0 < jb_Succeeded j \<or> 0 < jb_Failed j \<and> jb_Active j = 0 then Return None
         else pbind (WaitForJob (or_polls o') ns name) (\<lambda>r. case r of
           Inr _ \<Rightarrow> Return None
         | Inl e \<Rightarrow>
             DeleteComponentJob ns name
               (pbind (WaitForComponentPodsGone ns (job_selector name) minute) (\<lambda>r. case r of
                  Some stopErr \<Rightarrow> Return (Some (NewError (''registry Job could not stop: '' @ or_Error o' stopErr)))
                | None \<Rightarrow> Return (Some e)))))"

definition FinishRegistryJobs :: "orch \<Rightarrow> string \<Rightarrow> string list \<Rightarrow> (farm, err option) prog" where
  "FinishRegistryJobs o' ns names = until_error (finish_registry_job o' ns) names"

definition job_failed :: "job \<Rightarrow> bool" where
  "job_failed j \<longleftrightarrow> (\<exists>(kind, status, message) \<in> set (jb_Conditions j). kind = ''Failed'' \<and> status)"

text \<open>The poll of a deleted job: gone, and its pods too. An error of a call ends the wait.\<close>

definition job_gone :: "string \<Rightarrow> string \<Rightarrow> (farm, err option option) prog" where
  "job_gone ns name =
     check (get_job ns name) (\<lambda>e. Return (Some (Some e))) (\<lambda>r. case r of
       Some _ \<Rightarrow> Return None
     | None \<Rightarrow> check (list_pods (ns, job_selector name)) (\<lambda>e. Return (Some (Some e)))
         (\<lambda>pods. Return (if pods = [] then Some None else None)))"

definition cleanup_registry_job :: "orch \<Rightarrow> string \<Rightarrow> string \<Rightarrow> (farm, err option) prog" where
  "cleanup_registry_job o' ns name =
     check (get_job ns name) (\<lambda>e. Return (Some e)) (\<lambda>r. case r of
       None \<Rightarrow> Return None
     | Some j \<Rightarrow>
         if \<not> job_failed j \<or> 0 < jb_Active j \<or> 0 < jb_Succeeded j then Return None
         else
         check (delete_job (ns, name))
           (\<lambda>e. Return (Some (NewError (''delete failed registry Job '' @ name @ '': '' @ or_Error o' e)))) (\<lambda>_.
         at_time (\<lambda>now.
         pbind (poll_each 120 (now + minute) (job_gone ns name) (Some ContextDone) (Some ContextDone)) (\<lambda>r. case r of
           Some e \<Rightarrow> Return (Some (NewError (''wait for failed registry Job '' @ name @ '' cleanup: '' @ or_Error o' e)))
         | None \<Rightarrow> call_all [call_cluster, delete_config (ns, name)]))))"

definition CleanupFailedRegistryJobs :: "orch \<Rightarrow> string \<Rightarrow> string list \<Rightarrow> (farm, err option) prog" where
  "CleanupFailedRegistryJobs o' ns names = until_error (cleanup_registry_job o' ns) names"

section \<open>Running a job\<close>

definition fsNoColorEnv :: "(string \<times> string) list" where
  "fsNoColorEnv = [(''NO_COLOR'', ''1''), (''CLICOLOR'', ''0'')]"

definition fsJobLogs :: "string \<Rightarrow> string \<Rightarrow> (farm, string) tx" where
  "fsJobLogs ns jobName = bnd (JobLogs ns jobName) (\<lambda>logs. ret (stripANSI logs))"

definition fsJobFailErr :: "string \<Rightarrow> string \<Rightarrow> string \<Rightarrow> (farm, err + 'a) prog" where
  "fsJobFailErr ns jobName failMsg =
     check (fsJobLogs ns jobName) (\<lambda>_. Return (Inl (NewError failMsg)))
       (\<lambda>logs. Return (Inl (NewError (if logs \<noteq> [] then failMsg @ nl @ nl @ ''--- Job Logs ---'' @ nl @ logs else failMsg))))"

text \<open>
  The part every step of the pipeline shares: create its job, wait for it, and go on when it
  succeeded; \<open>read_job\<close> goes on with what it printed.
\<close>

definition run_job :: "orch \<Rightarrow> string \<Rightarrow> job_spec \<Rightarrow> (farm, err + 'a) prog \<Rightarrow> (farm, err + 'a) prog" where
  "run_job o' ns spec p =
     pbind (CreateComponentJob ns spec) (\<lambda>r. case r of
       Some e \<Rightarrow> Return (Inl (NewError (''create job: '' @ or_Error o' e)))
     | None \<Rightarrow>
         pbind (WaitForJob (or_polls o') ns (cj_Name spec)) (\<lambda>r. case r of
           Inl e \<Rightarrow> Return (Inl e)
         | Inr (succeeded, failMsg) \<Rightarrow>
             if \<not> succeeded then fsJobFailErr ns (cj_Name spec) failMsg else p))"

definition read_job :: "orch \<Rightarrow> string \<Rightarrow> job_spec \<Rightarrow> (string \<Rightarrow> err + 'a) \<Rightarrow> (farm, err + 'a) prog" where
  "read_job o' ns spec parse =
     run_job o' ns spec
       (check (fsJobLogs ns (cj_Name spec)) (\<lambda>e. Return (Inl (NewError (''read job logs: '' @ or_Error o' e))))
          (\<lambda>logs. Return (parse logs)))"

definition deploy_ready :: "string \<Rightarrow> deployment_spec \<Rightarrow> (farm, err option) prog" where
  "deploy_ready ns spec =
     check (CreateComponentDeployment ns spec) (\<lambda>e. Return (Some e))
       (\<lambda>_. WaitForComponentDeploymentReady ns (cd_Name spec) (2 * minute))"

end
