(* ===== verification/Registry.thy ===== *)
theory Registry
  imports Jobs
begin

text \<open>
  Enabling the Trust Registry of a full stack (\<open>setup/trust_registry.go\<close>, \<open>trust_registry_setup.go\<close>,
  \<open>trust_registry_config.go\<close>, \<open>trust_registry_referral.go\<close>).

  \<^item> \<open>registry_env\<close> holds what is outside this repository: the TOML library, the encoding of a JSON
    string, and what the environment answers to a call made at a given tick: a command run in a pod,
    the resolution of a DID, a VTA's DID log, the kind of a refusal.
  \<^item> A JSON document is the value it holds; the map of an object has the last of its members of a
    name. A TOML table lists its keys in order, so that equal tables are equal values.
\<close>

record registry_env =
  re_toml :: "string \<Rightarrow> json option"
  re_toml_marshal :: "json \<Rightarrow> string"
  re_quote :: "string \<Rightarrow> string"
  re_exec :: "nat \<Rightarrow> string"
  re_document :: "nat \<Rightarrow> json"
  re_clientDID :: "nat \<Rightarrow> string"
  re_didlog :: "nat \<Rightarrow> string"
  re_conflict :: "nat \<Rightarrow> bool"
  re_authMount :: string

text \<open>A call of the environment that answers something.\<close>

definition ask :: "(nat \<Rightarrow> 'a) \<Rightarrow> (farm, 'a) tx" where
  "ask reply = interact LibraryFailure (\<lambda>w. (reply (tick w), tabs w))"

text \<open>Go on when there was no error, or with what was returned.\<close>

definition and_then :: "(farm, err option) prog \<Rightarrow> (farm, err option) prog \<Rightarrow> (farm, err option) prog" where
  "and_then p q = pbind p (\<lambda>r. case r of Some e \<Rightarrow> Return (Some e) | None \<Rightarrow> q)"

definition and_with :: "(farm, err + 'a) prog \<Rightarrow> ('a \<Rightarrow> (farm, err option) prog) \<Rightarrow> (farm, err option) prog" where
  "and_with p k = pbind p (\<lambda>r. case r of Inl e \<Rightarrow> Return (Some e) | Inr a \<Rightarrow> k a)"

definition try_call :: "(farm, 'a) tx \<Rightarrow> ('a \<Rightarrow> (farm, err option) prog) \<Rightarrow> (farm, err option) prog" where
  "try_call m k = check m (\<lambda>e. Return (Some e)) k"

text \<open>\<open>errors.Join\<close>\<close>

definition join_errors :: "orch \<Rightarrow> err list \<Rightarrow> err" where
  "join_errors o' es = NewError (Join (map (or_Error o') es) nl)"

section \<open>Merging the registry into a VTC's configuration\<close>

definition obj_get :: "string \<Rightarrow> json \<Rightarrow> json option" where
  "obj_get k j = (case j of JObj ms \<Rightarrow> map_of (rev ms) k | _ \<Rightarrow> None)"

fun table_put :: "string \<Rightarrow> json \<Rightarrow> (string \<times> json) list \<Rightarrow> (string \<times> json) list" where
  "table_put k v [] = [(k, v)]"
| "table_put k v ((k', v') # ms) =
     (if k' = k then (k, v) # ms else if k < k' then (k, v) # (k', v') # ms else (k', v') # table_put k v ms)"

definition string_member :: "string \<Rightarrow> json \<Rightarrow> string" where
  "string_member k j = (case obj_get k j of Some (JStr t) \<Rightarrow> t | _ \<Rightarrow> [])"

definition tabs_blanks :: re where
  "tabs_blanks = Star (one_of [CHR 0x09, CHR '' ''])"

definition registrySection :: re where
  "registrySection = Cat [Bol, tabs_blanks, lit ''[registry]'', tabs_blanks, Opt (Cat [lit ''#'', Star dot]), Eol]"

definition tomlSection :: re where
  "tomlSection = Cat [Bol, tabs_blanks, lit ''['']"

definition registryDidSetting :: re where
  "registryDidSetting = Cat [Bol, tabs_blanks, lit ''did'', tabs_blanks, lit ''='', Star dot, Eol]"

definition registry_refusal :: "string \<Rightarrow> json \<Rightarrow> err option" where
  "registry_refusal did config =
     (case obj_get ''registry'' config of
        Some (JObj ms) \<Rightarrow>
          (let target = string_member ''did'' (JObj ms) in
           if target \<noteq> [] \<and> target \<noteq> did then Some (NewError ''VTC already points to another registry'')
           else if string_member ''url'' (JObj ms) \<noteq> []
           then Some (NewError ''VTC has an external registry URL; reconcile it before enabling a managed registry'')
           else None)
      | _ \<Rightarrow> None)"

definition edit_registry :: "registry_env \<Rightarrow> string \<Rightarrow> json \<Rightarrow> string \<Rightarrow> err + string" where
  "edit_registry env content config did =
     (let line = ''did = '' @ re_quote env did in
      case FindStringIndex registrySection content of
        None \<Rightarrow>
          if obj_get ''registry'' config \<noteq> None
          then Inl (NewError ''use a [registry] table instead of an inline registry configuration'')
          else Inr (rev (dropWhile (\<lambda>c. c = newline) (rev content)) @ nl @ nl @ ''[registry]'' @ nl @ line @ nl)
      | Some (_, start) \<Rightarrow>
          (let endp = (case FindStringIndex tomlSection (drop start content) of
                         None \<Rightarrow> length content | Some (next, _) \<Rightarrow> start + next);
               body = take (endp - start) (drop start content);
               body' = (if MatchString registryDidSetting body then ReplaceAllString registryDidSetting body line
                        else nl @ line @ body)
           in Inr (take start content @ body' @ drop endp content)))"

definition with_registry_did :: "string \<Rightarrow> json \<Rightarrow> json" where
  "with_registry_did did config =
     (let table = (case obj_get ''registry'' config of Some (JObj ms) \<Rightarrow> ms | _ \<Rightarrow> []);
          members = (case config of JObj ms \<Rightarrow> ms | _ \<Rightarrow> [])
      in JObj (table_put ''registry'' (JObj (table_put ''did'' (JStr did) table)) members))"

definition MergeRegistryConfig :: "registry_env \<Rightarrow> string \<Rightarrow> string \<Rightarrow> err + string" where
  "MergeRegistryConfig env content did =
     (if \<not> HasPrefix did ''did:webvh:'' then Inl (NewError ''registry must have a did:webvh identity'')
      else case re_toml env content of
        None \<Rightarrow> Inl (NewError ''invalid VTC TOML'')
      | Some config \<Rightarrow>
          (case registry_refusal did config of
             Some e \<Rightarrow> Inl e
           | None \<Rightarrow>
               (case edit_registry env content config did of
                  Inl e \<Rightarrow> Inl e
                | Inr content' \<Rightarrow>
                    (case re_toml env content' of
                       None \<Rightarrow> Inl (NewError ''cannot merge registry into VTC TOML'')
                     | Some check' \<Rightarrow>
                         if with_registry_did did config \<noteq> check'
                         then Inl (NewError ''cannot preserve custom VTC TOML while merging registry'')
                         else Inr content'))))"

section \<open>The referral of a VTC's DID document\<close>

definition is_registry_service :: "json \<Rightarrow> bool" where
  "is_registry_service service \<longleftrightarrow>
     (case obj_get ''type'' service of
        Some (JStr t) \<Rightarrow> t = ''TrustRegistry''
      | Some (JArr ts) \<Rightarrow> JStr ''TrustRegistry'' \<in> set ts
      | _ \<Rightarrow> False)"

definition refers_to :: "string \<Rightarrow> json \<Rightarrow> bool" where
  "refers_to registryDid service \<longleftrightarrow>
     obj_get ''type'' service = Some (JStr ''TrustRegistry'') \<and>
     (case obj_get ''serviceEndpoint'' service of
        Some endpoint \<Rightarrow> obj_get ''uri'' endpoint = Some (JStr registryDid)
      | None \<Rightarrow> False)"

fun scan_services :: "string \<Rightarrow> string \<Rightarrow> bool \<Rightarrow> json list \<Rightarrow> err + bool" where
  "scan_services vtcDid registryDid found [] = Inr found"
| "scan_services vtcDid registryDid found (service # services) =
     (case service of
        JObj _ \<Rightarrow>
          (if is_registry_service service \<or> obj_get ''id'' service = Some (JStr (vtcDid @ ''#trust-registry''))
           then (if \<not> found \<and> refers_to registryDid service then scan_services vtcDid registryDid True services
                 else Inl (NewError ''VTC DID already refers to another registry''))
           else scan_services vtcDid registryDid found services)
      | _ \<Rightarrow> Inl (NewError ''invalid VTC DID service''))"

definition referral_service :: "string \<Rightarrow> string \<Rightarrow> json" where
  "referral_service vtcDid registryDid =
     JObj [(''id'', JStr (vtcDid @ ''#trust-registry'')), (''type'', JStr ''TrustRegistry''),
           (''serviceEndpoint'', JObj [(''uri'', JStr registryDid), (''profile'', JStr ''https://trustoverip.org/profiles/trqp/v2'')])]"

text \<open>The document and whether it had to be changed.\<close>

definition RegistryReferral :: "json \<Rightarrow> string \<Rightarrow> string \<Rightarrow> err + json \<times> bool" where
  "RegistryReferral document vtcDid registryDid =
     (if obj_get ''id'' document \<noteq> Some (JStr vtcDid) then Inl (NewError ''VTC DID document identity mismatch'')
      else
        (let services = (case obj_get ''service'' document of
                           None \<Rightarrow> Some [] | Some JNull \<Rightarrow> Some [] | Some (JArr js) \<Rightarrow> Some js | Some _ \<Rightarrow> None)
         in case services of
              None \<Rightarrow> Inl (NewError ''VTC DID services must be an array'')
            | Some js \<Rightarrow>
                (case scan_services vtcDid registryDid False js of
                   Inl e \<Rightarrow> Inl e
                 | Inr True \<Rightarrow> Inr (document, False)
                 | Inr False \<Rightarrow>
                     Inr (JObj ((case document of JObj ms \<Rightarrow> filter (\<lambda>m. fst m \<noteq> ''service'') ms | _ \<Rightarrow> []) @
                                [(''service'', JArr (js @ [referral_service vtcDid registryDid]))]), True))))"

text \<open>\<open>vta.LatestLogEntry\<close>: version and state of the last line that is not blank.\<close>

definition LatestLogEntry :: "orch \<Rightarrow> string \<Rightarrow> err + string \<times> json" where
  "LatestLogEntry o' didLog =
     (case filter (\<lambda>l. TrimSpace l \<noteq> []) (rev (SplitOn newline didLog)) of
        [] \<Rightarrow> Inl (NewError ''the DID log is empty'')
      | last' # _ \<Rightarrow>
          (case or_json o' last' of
             None \<Rightarrow> Inl (NewError ''parse the DID log head'')
           | Some j \<Rightarrow>
               (case um_struct (struct_field um_string ''versionId'' []) [] j of
                  None \<Rightarrow> Inl (NewError ''parse the DID log head'')
                | Some version \<Rightarrow>
                    (case obj_get ''state'' j of
                       Some state \<Rightarrow>
                         if version = [] then Inl (NewError ''the DID log head has no versionId or state'') else Inr (version, state)
                     | None \<Rightarrow> Inl (NewError ''the DID log head has no versionId or state'')))))"

section \<open>The failure of a job\<close>

definition jobPrivateKeyBlock :: re where
  "jobPrivateKeyBlock =
     Cat [lit ''-----BEGIN '', Star (none_of ''-''), lit ''PRIVATE KEY-----'', Lazy anything,
          Alt [Cat [lit ''-----END '', Star (none_of ''-''), lit ''PRIVATE KEY-----''], Eot]]"

definition maybe_one :: "string \<Rightarrow> re" where
  "maybe_one cs = Opt (one_of cs)"

definition secret_word :: re where
  "secret_word =
     Alt [Cat [ilit ''private'', maybe_one '' _-'', ilit ''key'',
            Opt (Alt [ilit ''multibase'', ilit ''hex'', ilit ''jwk'']),
            Opt (Cat [blanks, lit ''('', Star (none_of [CHR 0x0D, CHR 0x0A, CHR '')'']), lit '')''])],
          ilit ''password'', ilit ''passwd'',
          Cat [Opt (Cat [ilit ''client'', maybe_one '' _-'']), ilit ''secret''],
          Cat [ilit ''secret'', maybe_one '' _-'', ilit ''id''],
          Cat [Opt (Cat [Alt [ilit ''access'', ilit ''refresh'', ilit ''vault'', ilit ''api''], maybe_one '' _-'']), ilit ''token''],
          Cat [ilit ''api'', maybe_one '' _-'', ilit ''key''],
          ilit ''authorization'', ilit ''cookie'', ilit ''credential'']"

definition bearer_char :: re where
  "bearer_char =
     Alt [Cls (\<lambda>c. lower_char c \<in> set ''abcdefghijklmnopqrstuvwxyz0123456789._~+/-''),
          lit [CHR 0xC5, CHR 0xBF], lit [CHR 0xE2, CHR 0x84, CHR 0xAA]]"

definition jobSensitiveLine :: re where
  "jobSensitiveLine =
     Alt [Cat [secret_word, maybe_one [CHR 0x22, CHR 0x27], blanks, one_of '':=''],
          Cat [ilit ''bearer'', Plus (one_of [CHR '' '', CHR 0x09]), AtLeast 16 bearer_char, Star (lit ''='')],
          Cat [lit ''://'', Plus (none_of (re_white @ ''/@'')), lit '':'', Plus (none_of (re_white @ ''/@'')), lit ''@'']]"

definition redact_line :: "string \<Rightarrow> string" where
  "redact_line l = (if MatchString jobSensitiveLine l then ''[redacted sensitive log line]'' else l)"

definition RuneStart :: "char \<Rightarrow> bool" where
  "RuneStart c \<longleftrightarrow> (of_char c :: nat) div 64 \<noteq> 2"

definition maxJobBytes :: nat where "maxJobBytes = 16384"

definition bounded_tail :: "string \<Rightarrow> string" where
  "bounded_tail output =
     (if maxJobBytes < length output
      then ''[earlier job output truncated]'' @ nl @
           dropWhile (\<lambda>c. \<not> RuneStart c) (drop (length output - maxJobBytes) output)
      else output)"

definition redacted :: "string \<Rightarrow> string" where
  "redacted output =
     bounded_tail (TrimSpace (Join (map redact_line
       (SplitOn newline (ReplaceAllString jobPrivateKeyBlock (stripANSI output) ''[redacted private key]''))) nl))"

definition registryJobFailure :: "string \<Rightarrow> string \<Rightarrow> string \<Rightarrow> err" where
  "registryJobFailure phase reason output =
     NewError (phase @ '' job failed ('' @ reason @ '')'' @
       (if redacted output \<noteq> [] then nl @ nl @ ''--- Job Logs ---'' @ nl @ redacted output else []))"

section \<open>Jobs and windows\<close>

definition RegistryAvailable :: "orch \<Rightarrow> bool" where
  "RegistryAvailable o' \<longleftrightarrow> or_vault o' \<noteq> None"

definition RegistryPhase :: "nat \<Rightarrow> string \<Rightarrow> (farm, err option) prog" where
  "RegistryPhase sessionID phase =
     at_time (\<lambda>now. call_all
       [exec (update_session sessionID (\<lambda>s. s\<lparr>ss_TrustRegistryPhase := phase, ss_UpdatedAt := now\<rparr>))])"

definition receipts :: "string set" where
  "receipts = {''identity'', ''setup-key'', ''acl-grant'', ''setup''}"

definition registry_spec ::
  "setup_session \<Rightarrow> string \<Rightarrow> string \<Rightarrow> string \<Rightarrow> string list \<Rightarrow> pvc_mount list \<Rightarrow> (string \<times> string) list \<Rightarrow> job_spec" where
  "registry_spec s phase img dir command mounts inputs =
     \<lparr>cj_Name = RegistryJobName (ss_ID s) phase, cj_Image = img, cj_Command = command, cj_WorkingDir = dir,
      cj_ServiceAccount = VtaServiceAccount, cj_PVCMounts = mounts, cj_ConfigMapName = [], cj_ConfigMapKey = [],
      cj_ConfigMapData = [], cj_SecretData = inputs, cj_Env = fsNoColorEnv, cj_RetainForRecovery = True\<rparr>"

text \<open>A failure with the job's output, or with the reason it could not be read.\<close>

definition with_failure :: "orch \<Rightarrow> string \<Rightarrow> string \<Rightarrow> string \<Rightarrow> string \<Rightarrow> (err \<Rightarrow> (farm, 'a) prog) \<Rightarrow> (farm, 'a) prog" where
  "with_failure o' ns name phase reason k =
     check (JobLogs ns name)
       (\<lambda>e. k (join_errors o' [registryJobFailure phase reason [],
              NewError (''could not read job logs: '' @ or_Error o' e)]))
       (\<lambda>output. k (registryJobFailure phase reason output))"

definition registryJob ::
  "orch \<Rightarrow> string \<Rightarrow> setup_session \<Rightarrow> string \<Rightarrow> string \<Rightarrow> string \<Rightarrow> string list \<Rightarrow> pvc_mount list \<Rightarrow>
   (string \<times> string) list \<Rightarrow> (farm, err + string) prog" where
  "registryJob o' ns s phase img dir command mounts inputs =
     (let spec = registry_spec s phase img dir command mounts inputs; name = cj_Name spec in
      pbind (and_then (PrepareRegistryJob ns name (phase \<in> receipts)) (CreateComponentJob ns spec)) (\<lambda>r. case r of
        Some e \<Rightarrow> Return (Inl e)
      | None \<Rightarrow>
          pbind (WaitForJob (or_polls o') ns name) (\<lambda>r. case r of
            Inl e \<Rightarrow>
              with_failure o' ns name phase (or_Error o' e) (\<lambda>failure.
                DeleteComponentJob ns name
                  (pbind (WaitForComponentPodsGone ns (job_selector name) minute) (\<lambda>stop. case stop of
                     None \<Rightarrow> Return (Inl (join_errors o' [failure]))
                   | Some stopErr \<Rightarrow> Return (Inl (join_errors o' [failure, stopErr])))))
          | Inr (succeeded, reason) \<Rightarrow>
              if \<not> succeeded then with_failure o' ns name phase reason (\<lambda>failure. Return (Inl failure))
              else check (JobLogs ns name) (\<lambda>e. Return (Inl e)) (\<lambda>output. Return (Inr output)))))"

definition fs_selector :: "string \<Rightarrow> nat \<Rightarrow> string" where
  "fs_selector component i = ''app=fs-'' @ component @ '',session-id='' @ FormatUint (int i)"

definition restart_component :: "string \<Rightarrow> nat \<Rightarrow> string \<Rightarrow> (farm, err option) prog" where
  "restart_component ns i component =
     and_then (call_all [ScaleComponentDeployment ns (fs_name i component) 1])
       (WaitForComponentDeploymentReadyOrRestarts ns (fs_name i component) (fs_selector component i) (2 * minute) 3)"

definition registryStopped ::
  "orch \<Rightarrow> string \<Rightarrow> nat \<Rightarrow> string \<Rightarrow> (farm, err option) prog \<Rightarrow> (farm, err option) prog" where
  "registryStopped o' ns i component fn =
     try_call (ScaleComponentDeployment ns (fs_name i component) 0) (\<lambda>_.
     pbind (and_then (WaitForComponentPodsGone ns (fs_selector component i) (2 * minute)) fn) (\<lambda>r.
     pbind (restart_component ns i component) (\<lambda>restart. case restart of
       None \<Rightarrow> Return r
     | Some e \<Rightarrow>
         Return (Some (join_errors o' ((case r of None \<Rightarrow> [] | Some e' \<Rightarrow> [e']) @
           [NewError (component @ '' did not restart: '' @ or_Error o' e)]))))))"

text \<open>A job whose output is not needed.\<close>

definition forget_output :: "(farm, err + string) prog \<Rightarrow> (farm, err option) prog" where
  "forget_output p = and_with p (\<lambda>_. Return None)"

section \<open>Provisioning the registry's identity\<close>

definition registryWorkDir :: string where "registryWorkDir = ''/work/trust-registry''"
definition registryCredentialPath :: string where "registryCredentialPath = ''/work/trust-registry/vta-credential.json''"

definition registryContextID :: "nat \<Rightarrow> string" where
  "registryContextID i = ''trust-registry-'' @ FormatUint (int i) @ ''-headless''"

definition renderRegistrySetupTOML :: "registry_env \<Rightarrow> setup_session \<Rightarrow> string" where
  "renderRegistrySetupTOML env s =
     re_toml_marshal env (JObj
       [(''vta_did'', JStr (ss_VtaDid s)), (''context'', JStr (registryContextID (ss_ID s))),
        (''setup_key_file'', JStr ''setup-key.json''), (''credential_out'', JStr registryCredentialPath),
        (''env_out'', JStr ''vta.env''), (''transports'', JArr [JStr ''didcomm'']),
        (''mediator_did'', JStr (ss_MediatorDid s)),
        (''webvh'', JObj [(''server_id'', JStr ''dids''), (''path'', JStr (ss_VtcName s @ ''-trust-registry''))])])"

definition setup_keys :: "string set" where
  "setup_keys = {''registry_did'', ''admin_did'', ''vta_did'', ''context_id'', ''credential_path''}"

fun setup_values :: "string list \<Rightarrow> string_map \<Rightarrow> err + string_map" where
  "setup_values [] values = Inr values"
| "setup_values (line # ls) values =
     (case Cut (TrimSpace line) ''='' of
        (key, v, found) \<Rightarrow>
          if \<not> found \<or> key \<notin> setup_keys then setup_values ls values
          else if values key \<noteq> None then Inl (NewError (''duplicate '' @ key @ '' in registry setup output''))
          else setup_values ls (values(key \<mapsto> v)))"

definition parseRegistrySetupOutput :: "string \<Rightarrow> setup_session \<Rightarrow> err + string" where
  "parseRegistrySetupOutput output s =
     (case setup_values (SplitOn newline (stripANSI output)) (\<lambda>_. None) of
        Inl e \<Rightarrow> Inl e
      | Inr values \<Rightarrow>
          if \<not> HasPrefix (lookup_in values ''registry_did'') ''did:webvh:'' \<or>
             \<not> HasPrefix (lookup_in values ''admin_did'') ''did:key:'' \<or>
             lookup_in values ''vta_did'' \<noteq> ss_VtaDid s \<or>
             lookup_in values ''context_id'' \<noteq> registryContextID (ss_ID s) \<or>
             lookup_in values ''credential_path'' \<noteq> registryCredentialPath
          then Inl (NewError ''registry setup output is incomplete or does not match this session'')
          else Inr (lookup_in values ''registry_did''))"

definition verify_receipt :: "orch \<Rightarrow> string \<Rightarrow> setup_session \<Rightarrow> (farm, err + string) prog" where
  "verify_receipt o' ns s =
     check (JobLogs ns (RegistryJobName (ss_ID s) ''setup''))
       (\<lambda>e. Return (Inl (NewError (''cannot verify the headless setup receipt for this Registry; reconcile its existing credential and context before retrying: '' @ or_Error o' e))))
       (\<lambda>output.
          if parseRegistrySetupOutput output s = Inr (ss_TrustRegistryDid s) then Return (Inr (ss_TrustRegistryDid s))
          else Return (Inl (NewError ''existing Registry does not match its headless setup receipt; migrate legacy credentials and context before retrying'')))"

definition registry_mount :: "nat \<Rightarrow> pvc_mount" where
  "registry_mount i = \<lparr>pm_Name = ''registry-data'', pm_ClaimName = FSTrustRegistryName i, pm_MountPath = registryWorkDir\<rparr>"

definition vta_mount :: "nat \<Rightarrow> pvc_mount" where
  "vta_mount i = \<lparr>pm_Name = ''vta-data'', pm_ClaimName = FSVtaName i, pm_MountPath = ''/work/vta''\<rparr>"

definition vtc_mount :: "nat \<Rightarrow> pvc_mount" where
  "vtc_mount i = \<lparr>pm_Name = ''vtc-data'', pm_ClaimName = FSVtcName i, pm_MountPath = ''/work/vtc''\<rparr>"

text \<open>As \<open>and_with\<close>, for a step that ends in a value.\<close>

definition bind_err :: "(farm, err + 'a) prog \<Rightarrow> ('a \<Rightarrow> (farm, err + 'b) prog) \<Rightarrow> (farm, err + 'b) prog" where
  "bind_err p k = pbind p (\<lambda>r. case r of Inl e \<Rightarrow> Return (Inl e) | Inr a \<Rightarrow> k a)"

definition seq_err :: "(farm, err option) prog \<Rightarrow> (farm, err + 'b) prog \<Rightarrow> (farm, err + 'b) prog" where
  "seq_err p q = pbind p (\<lambda>r. case r of Some e \<Rightarrow> Return (Inl e) | None \<Rightarrow> q)"

definition provision_identity :: "registry_env \<Rightarrow> orch \<Rightarrow> string \<Rightarrow> setup_session \<Rightarrow> (farm, err + string) prog" where
  "provision_identity env o' ns s =
     (let i = ss_ID s in
      seq_err (RegistryPhase i ''provision_identity'')
        (bind_err (registryJob o' ns s ''setup'' (ss_TrustRegistryImage s) registryWorkDir
             [''trust-registry'', ''setup'', ''--from'', ''/config/tr-setup.toml''] [registry_mount i]
             [(''tr-setup.toml'', renderRegistrySetupTOML env s)]) (\<lambda>output.
         case parseRegistrySetupOutput output s of
           Inl e \<Rightarrow> Return (Inl e)
         | Inr did \<Rightarrow>
             check (exec (update_session i (\<lambda>r. r\<lparr>ss_TrustRegistryDid := did\<rparr>))) (\<lambda>e. Return (Inl e))
               (\<lambda>_. Return (Inr did)))))"

definition grant_registry :: "registry_env \<Rightarrow> orch \<Rightarrow> string \<Rightarrow> setup_session \<Rightarrow> string \<Rightarrow> (farm, err + string) prog" where
  "grant_registry env o' ns s setupDID =
     (let i = ss_ID s in
      seq_err (and_then (RegistryPhase i ''grant_access'')
        (registryStopped o' ns i ''vta''
          (forget_output (registryJob o' ns s ''acl-grant'' (ss_VtaImage s) ''/work/vta''
             [''vta'', ''contexts'', ''create'', ''--id'', registryContextID i, ''--name'', ''Trust Registry'',
              ''--admin-did'', setupDID, ''--admin-expires'', ''1h'', ''--admin-handoff''] [vta_mount i] []))))
        (provision_identity env o' ns s))"

definition provisionRegistry :: "registry_env \<Rightarrow> orch \<Rightarrow> string \<Rightarrow> setup_session \<Rightarrow> (farm, err + string) prog" where
  "provisionRegistry env o' ns s =
     (let i = ss_ID s in
      if \<not> RegistryAvailable o' then Return (Inl (NewError ''Trust Registry requires Kubernetes and Vault''))
      else if ss_TrustRegistryDid s \<noteq> [] then verify_receipt o' ns s
      else if ss_VtaDid s = [] \<or> ss_MediatorDid s = []
      then Return (Inl (NewError ''VTA and mediator identities must already exist''))
      else
      seq_err (and_then (FinishRegistryJobs o' ns (registryJobNames i)) (RegistryPhase i ''preflight''))
        (pbind (registryJob o' ns s ''preflight'' (ss_TrustRegistryImage s) ''/tmp''
           [''trust-registry'', ''setup'', ''--help''] [] []) (\<lambda>r. case r of
           Inl e \<Rightarrow> Return (Inl (NewError (''registry image needs headless setup built with the vta feature: '' @ or_Error o' e)))
         | Inr output \<Rightarrow>
             if \<not> Contains output ''--setup-key-out'' \<or> \<not> Contains output ''--from''
             then Return (Inl (NewError ''registry image does not support the two-phase headless setup''))
             else
             seq_err (and_then (call_all [call_service, call_cluster]) (RegistryPhase i ''setup_key''))
               (bind_err (registryJob o' ns s ''setup-key'' (ss_TrustRegistryImage s) registryWorkDir
                  [''trust-registry'', ''setup'', ''--setup-key-out'', ''setup-key.json'', ''--context'', registryContextID i]
                  [registry_mount i] []) (\<lambda>output.
                case ParseVtcSetupKeyDid (stripANSI output) of
                  Inl e \<Rightarrow> Return (Inl e)
                | Inr setupDID \<Rightarrow> grant_registry env o' ns s setupDID)))))"

end
