(* ===== verification/RegistryEnable.thy ===== *)
theory RegistryEnable
  imports Registry
begin

text \<open>
  The rest of \<open>EnableTrustRegistry\<close>: deploying the registry, publishing its referral through the
  running VTA, switching the VTC over, and taking the switch back; and its two callers in the
  pipeline, \<open>prepareRegistryForVtc\<close> and \<open>finishRegistrySetup\<close>.
\<close>

section \<open>Deploying the registry\<close>

text \<open>The code ranges over a Go map here; the order of the variables is not determined.\<close>

definition registry_environment :: "registry_env \<Rightarrow> string \<times> string \<Rightarrow> setup_session \<Rightarrow> (string \<times> string) list" where
  "registry_environment env vault s =
     fsNoColorEnv @
     [(''ENABLE_REST'', ''true''), (''ENABLE_DIDCOMM'', ''true''), (''ENABLE_TSP'', ''false''),
      (''MEDIATOR_DID'', ss_MediatorDid s), (''ADMIN_DIDS'', ss_VtcDid s), (''ACL_MODE'', ''ExplicitDeny''),
      (''TR_VTA_CREDENTIAL'', ''file://'' @ registryCredentialPath), (''TR_VTA_CONTEXT_ID'', registryContextID (ss_ID s)),
      (''TR_STORAGE_BACKEND'', ''fjall''), (''TR_FJALL_PATH'', ''/work/trust-registry/data''),
      (''TR_SECRETS_VAULT_ADDR'', fst vault), (''TR_SECRETS_VAULT_KV_MOUNT'', snd vault),
      (''TR_SECRETS_VAULT_SECRET_PATH'', TrustRegistryPrefix (ss_UserID s) (ss_ID s) @ ''/identity-cache''),
      (''TR_SECRETS_VAULT_SECRET_KEY'', ''bundle''), (''TR_SECRETS_VAULT_AUTH_METHOD'', ''kubernetes''),
      (''TR_SECRETS_VAULT_K8S_MOUNT'', re_authMount env), (''TR_SECRETS_VAULT_K8S_ROLE'', UserName (ss_UserID s)),
      (''TR_SECRETS_VAULT_SKIP_VERIFY'', ''true''), (''LISTEN_ADDRESS'', ''0.0.0.0:3232''), (''RUST_LOG'', ''info'')]"

definition fsLabels :: "string \<Rightarrow> nat \<Rightarrow> string_map" where
  "fsLabels component i = [''app'' \<mapsto> ''fs-'' @ component, ''session-id'' \<mapsto> FormatUint (int i)]"

definition registry_deployment :: "registry_env \<Rightarrow> string \<times> string \<Rightarrow> setup_session \<Rightarrow> deployment_spec" where
  "registry_deployment env vault s =
     \<lparr>cd_Name = FSTrustRegistryName (ss_ID s), cd_Image = ss_TrustRegistryImage s, cd_Command = [''trust-registry''],
      cd_WorkingDir = ''/work/trust-registry'', cd_PVCMounts = [registry_mount (ss_ID s)],
      cd_Env = registry_environment env vault s, cd_Labels = fsLabels ''trust-registry'' (ss_ID s), cd_Recreate = True\<rparr>"

text \<open>\<open>RunningPod\<close> and \<open>ExecCapture\<close>\<close>

definition exec_in_pod :: "registry_env \<Rightarrow> (err \<Rightarrow> err) \<Rightarrow> (string \<Rightarrow> (farm, err option) prog) \<Rightarrow> (farm, err option) prog" where
  "exec_in_pod env wrap k =
     check call_cluster (\<lambda>e. Return (Some e)) (\<lambda>_. check (ask (re_exec env)) (\<lambda>e. Return (Some (wrap e))) k)"

definition healthy :: "orch \<Rightarrow> string \<Rightarrow> bool" where
  "healthy o' body \<longleftrightarrow>
     (case or_json o' body of
        None \<Rightarrow> False
      | Some j \<Rightarrow>
          um_struct (struct_field um_string ''status'' []) [] j = Some ''OK'' \<and>
          um_struct (struct_field um_string ''writes'' []) [] j = Some ''ok'')"

definition deployTrustRegistry :: "registry_env \<Rightarrow> orch \<Rightarrow> string \<Rightarrow> setup_session \<Rightarrow> (farm, err option) prog" where
  "deployTrustRegistry env o' ns s =
     (let i = ss_ID s; name = FSTrustRegistryName i;
          vault = (case or_vault o' of None \<Rightarrow> ([], []) | Some v \<Rightarrow> v)
      in and_then (call_all [call_cluster, call_cluster, load_profiles,
             CreateComponentDeployment ns (registry_deployment env vault s),
             RecoverDeploymentImage ns name (ss_TrustRegistryImage s)])
         (and_then (WaitForComponentDeploymentReadyOrRestarts ns name (fs_selector ''trust-registry'' i) (3 * minute) 3)
            (exec_in_pod env (\<lambda>_. NewError ''registry health request failed'') (\<lambda>body.
               if healthy o' body then Return None
               else Return (Some (NewError ''registry messaging write path is not healthy; inspect registry logs''))))))"

section \<open>Publishing the referral\<close>

definition WaitUntilHostReachable :: "int \<Rightarrow> (farm, err option) prog" where
  "WaitUntilHostReachable timeout =
     at_time (\<lambda>now.
       poll_each (nat (timeout div second)) (now + timeout)
         (check call_service (\<lambda>_. Return None) (\<lambda>_. Return (Some None)))
         (Some ContextDone) (Some (NewError ''the VTA could not reach DID host \"dids\"'')))"

definition UpdateDIDDocument :: "registry_env \<Rightarrow> (farm, unit) tx" where
  "UpdateDIDDocument env w =
     interact (if re_conflict env (tick w) then ErrConflict else LibraryFailure) (\<lambda>w. ((), tabs w)) w"

definition update_at_vta :: "registry_env \<Rightarrow> orch \<Rightarrow> setup_session \<Rightarrow> (farm, err option) prog" where
  "update_at_vta env o' s =
     check (ask (re_didlog env)) (\<lambda>e. Return (Some e)) (\<lambda>didLog.
     case LatestLogEntry o' didLog of
       Inl e \<Rightarrow> Return (Some (NewError (''read the VTA's head of '' @ ss_VtcDid s @ '': '' @ or_Error o' e)))
     | Inr (head, state) \<Rightarrow>
         (case RegistryReferral state (ss_VtcDid s) (ss_TrustRegistryDid s) of
            Inl e \<Rightarrow> Return (Some e)
          | Inr _ \<Rightarrow>
              check (UpdateDIDDocument env)
                (\<lambda>e. Return (Some (if e = ErrConflict
                   then NewError (''the VTC DID advanced past '' @ head @
                          '' while the referral was being published; retry registry enablement: '' @ or_Error o' e)
                   else e)))
                (\<lambda>_. Return None)))"

definition referral_grant :: "string \<Rightarrow> setup_session \<Rightarrow> string list" where
  "referral_grant did s =
     [''vta'', ''acl'', ''create'', ''--did'', did, ''--role'', ''admin'', ''--contexts'', ss_VtcName s, ''--expires'', ''15m'',
      ''--label'', ''trust-registry-referral'']"

definition publishRegistryReferral :: "registry_env \<Rightarrow> orch \<Rightarrow> string \<Rightarrow> setup_session \<Rightarrow> (farm, err option) prog" where
  "publishRegistryReferral env o' ns s =
     check (ask (re_document env))
       (\<lambda>e. Return (Some (NewError (''resolve the VTC DID before publishing the referral: '' @ or_Error o' e)))) (\<lambda>published.
     case RegistryReferral published (ss_VtcDid s) (ss_TrustRegistryDid s) of
       Inl e \<Rightarrow> Return (Some e)
     | Inr (_, changed) \<Rightarrow>
         if \<not> changed then Return None
         else
         try_call (ask (re_clientDID env)) (\<lambda>did.
         and_then (registryStopped o' ns (ss_ID s) ''vta''
           (forget_output (registryJob o' ns s ''referral'' (ss_VtaImage s) ''/work/vta'' (referral_grant did s)
              [vta_mount (ss_ID s)] [])))
         (check call_service
            (\<lambda>e. Return (Some (NewError (''log in to the VTA as the referral grant '' @ did @ '': '' @ or_Error o' e)))) (\<lambda>_.
          pbind (WaitUntilHostReachable (3 * minute)) (\<lambda>r. case r of
            Some e \<Rightarrow> Return (Some (NewError
              (''the restarted VTA has no route to the DID host, so it could not publish: '' @ or_Error o' e)))
          | None \<Rightarrow> update_at_vta env o' s)))))"

section \<open>Switching the VTC over\<close>

definition config_script :: string where
  "config_script =
     ''set -eu; umask 077'' @ nl @
     ''cp -p config.toml config.toml.vtafarm-registry-backup'' @ nl @
     ''cp -p config.toml config.toml.vtafarm-registry-next'' @ nl @
     ''cat /config/vtc.toml > config.toml.vtafarm-registry-next'' @ nl @
     ''mv config.toml.vtafarm-registry-next config.toml''"

definition restore_script :: string where
  "restore_script =
     ''set -eu; test -f config.toml.vtafarm-registry-backup; cp -p config.toml.vtafarm-registry-backup config.toml''"

definition restoreRegistryVtc :: "orch \<Rightarrow> string \<Rightarrow> setup_session \<Rightarrow> (farm, err option) prog" where
  "restoreRegistryVtc o' ns s =
     registryStopped o' ns (ss_ID s) ''vtc''
       (forget_output (registryJob o' ns s ''restore'' (ss_VtcImage s) ''/work/vtc'' [''sh'', ''-ec'', restore_script]
          [vtc_mount (ss_ID s)] []))"

definition registryVtcConfig :: "registry_env \<Rightarrow> (err \<Rightarrow> err) \<Rightarrow> (string \<Rightarrow> (farm, err option) prog) \<Rightarrow> (farm, err option) prog" where
  "registryVtcConfig env wrap k =
     check call_cluster (\<lambda>e. Return (Some (wrap e))) (\<lambda>_. check (ask (re_exec env)) (\<lambda>e. Return (Some (wrap e))) k)"

text \<open>An error after which the VTC's configuration is put back.\<close>

definition or_restore :: "orch \<Rightarrow> string \<Rightarrow> setup_session \<Rightarrow> (farm, err option) prog \<Rightarrow> (farm, err option) prog" where
  "or_restore o' ns s p =
     pbind p (\<lambda>r. case r of
       None \<Rightarrow> Return None
     | Some e \<Rightarrow> pbind (restoreRegistryVtc o' ns s) (\<lambda>r'. Return (Some (join_errors o'
         (e # (case r' of None \<Rightarrow> [] | Some e' \<Rightarrow> [e']))))))"

definition switch_vtc :: "registry_env \<Rightarrow> orch \<Rightarrow> string \<Rightarrow> setup_session \<Rightarrow> (farm, err option) prog" where
  "switch_vtc env o' ns s =
     registryVtcConfig env id (\<lambda>current.
     case MergeRegistryConfig env current (ss_TrustRegistryDid s) of
       Inl e \<Rightarrow> Return (Some e)
     | Inr merged \<Rightarrow>
         if current = merged then Return None
         else or_restore o' ns s
           (registryStopped o' ns (ss_ID s) ''vtc''
              (forget_output (registryJob o' ns s ''config'' (ss_VtcImage s) ''/work/vtc'' [''sh'', ''-ec'', config_script]
                 [vtc_mount (ss_ID s)] [(''vtc.toml'', merged)]))))"

definition verify_registry :: "registry_env \<Rightarrow> orch \<Rightarrow> setup_session \<Rightarrow> (farm, err option) prog" where
  "verify_registry env o' s =
     try_call (ask (re_document env)) (\<lambda>document.
     case RegistryReferral document (ss_VtcDid s) (ss_TrustRegistryDid s) of
       Inr (_, False) \<Rightarrow>
         at_time (\<lambda>now. call_all [exec (update_session (ss_ID s) (\<lambda>r.
           r\<lparr>ss_TrustRegistryState := ''active'', ss_TrustRegistryPhase := ''complete'', ss_TrustRegistryError := [],
             ss_UpdatedAt := now\<rparr>))])
     | _ \<Rightarrow> Return (Some (NewError ''published VTC referral has not converged; retry after DID hosting is updated'')))"

definition after_identity :: "registry_env \<Rightarrow> orch \<Rightarrow> string \<Rightarrow> setup_session \<Rightarrow> (farm, err option) prog" where
  "after_identity env o' ns s =
     (let i = ss_ID s in
      check call_service
        (\<lambda>e. Return (Some (NewError (''registry DID did not resolve: '' @ or_Error o' e)))) (\<lambda>_.
      and_then (RegistryPhase i ''deploy_registry'')
      (and_then (deployTrustRegistry env o' ns s)
      (and_then (RegistryPhase i ''publish_referral'')
      (and_then (publishRegistryReferral env o' ns s)
      (and_then (RegistryPhase i ''configure_vtc'')
      (and_then (switch_vtc env o' ns s)
      (and_then (RegistryPhase i ''verify'') (verify_registry env o' s)))))))))"

definition preflight :: "registry_env \<Rightarrow> orch \<Rightarrow> string \<Rightarrow> setup_session \<Rightarrow> (farm, err option) prog" where
  "preflight env o' ns s =
     (let placeholder = (if ss_TrustRegistryDid s = [] then ''did:webvh:pending:registry:pending'' else ss_TrustRegistryDid s) in
      if ss_VtcDid s = [] \<or> ss_VtaDid s = [] \<or> ss_MediatorDid s = []
      then Return (Some (NewError ''VTA, VTC and mediator identities must already exist''))
      else
      registryVtcConfig env (\<lambda>_. NewError ''cannot read existing VTC configuration'') (\<lambda>current.
      case MergeRegistryConfig env current placeholder of
        Inl e \<Rightarrow> Return (Some e)
      | Inr _ \<Rightarrow>
          check (ask (re_document env))
            (\<lambda>e. Return (Some (NewError (''cannot validate existing VTC DID history: '' @ or_Error o' e)))) (\<lambda>document.
          case RegistryReferral document (ss_VtcDid s) placeholder of
            Inl e \<Rightarrow> Return (Some e)
          | Inr _ \<Rightarrow> Return None)))"

definition recover_component :: "orch \<Rightarrow> string \<Rightarrow> setup_session \<Rightarrow> string \<Rightarrow> (farm, err option) prog" where
  "recover_component o' ns s component =
     (let name = fs_name (ss_ID s) component in
      try_call (ScaleComponentDeployment ns name 1) (\<lambda>_.
      pbind (WaitForComponentDeploymentReady ns name (2 * minute)) (\<lambda>r. case r of
        None \<Rightarrow> Return None
      | Some e \<Rightarrow>
          if component = ''vtc''
          then pbind (restoreRegistryVtc o' ns s) (\<lambda>restore. case restore of
                 None \<Rightarrow> Return (Some (NewError ''interrupted VTC configuration was restored; retry registry enablement''))
               | Some e' \<Rightarrow> Return (Some (join_errors o'
                   [NewError (''recover VTC before registry enablement: '' @ or_Error o' e), e'])))
          else Return (Some (NewError (''recover '' @ component @ '' before registry enablement: '' @ or_Error o' e))))))"

definition EnableTrustRegistry :: "registry_env \<Rightarrow> orch \<Rightarrow> setup_session \<Rightarrow> (farm, err option) prog" where
  "EnableTrustRegistry env o' s =
     (let ns = session_ns o' s in
      if \<not> RegistryAvailable o' then Return (Some (NewError ''Trust Registry requires Kubernetes and Vault''))
      else
      and_then (FinishRegistryJobs o' ns (registryJobNames (ss_ID s)))
      (and_then (until_error (recover_component o' ns s) [''vta'', ''vtc''])
      (and_then (RegistryPhase (ss_ID s) ''preflight'')
      (and_then (preflight env o' ns s)
      (and_with (provisionRegistry env o' ns s) (\<lambda>did. after_identity env o' ns (s\<lparr>ss_TrustRegistryDid := did\<rparr>)))))))"

section \<open>In the pipeline\<close>

definition registry_failed :: "string \<Rightarrow> setup_session \<Rightarrow> setup_session" where
  "registry_failed msg s = s\<lparr>ss_TrustRegistryState := ''failed'', ss_TrustRegistryError := msg\<rparr>"

text \<open>The session the VTC is set up with: with the registry's DID, or with the failure recorded.\<close>

definition prepareRegistryForVtc :: "registry_env \<Rightarrow> orch \<Rightarrow> string \<Rightarrow> setup_session \<Rightarrow> (farm, err + setup_session) prog" where
  "prepareRegistryForVtc env o' ns s =
     (if \<not> ss_TrustRegistryEnabled s \<or> ss_TrustRegistryState s = ''failed'' \<or> ss_VtcDid s \<noteq> [] then Return (Inr s)
      else
      pbind (provisionRegistry env o' ns s) (\<lambda>r. case r of
        Inr did \<Rightarrow> Return (Inr (s\<lparr>ss_TrustRegistryDid := did\<rparr>))
      | Inl e \<Rightarrow>
          unless_done (Return (Inl e))
            (check (exec (update_session (ss_ID s) (registry_failed (or_Error o' e)))) (\<lambda>e'. Return (Inl e')) (\<lambda>_.
             pbind (CleanupFailedRegistryJobs o' ns (registryJobNames (ss_ID s))) (\<lambda>r. case r of
               Some e' \<Rightarrow> Return (Inl e')
             | None \<Rightarrow> Return (Inr (registry_failed (or_Error o' e) s)))))))"

definition finishRegistrySetup ::
  "registry_env \<Rightarrow> orch \<Rightarrow> setup_session \<Rightarrow> (farm, 'a) prog \<Rightarrow> (farm, 'a) prog \<Rightarrow> (farm, 'a) prog" where
  "finishRegistrySetup env o' s stop p =
     (let i = ss_ID s in
      if \<not> ss_TrustRegistryEnabled s \<or> ss_TrustRegistryState s = ''active'' then p
      else if ss_TrustRegistryState s = ''failed''
      then markFailedAt i ''step_trust_registry''
             (if ss_TrustRegistryError s = [] then ''Trust Registry setup failed'' else ss_TrustRegistryError s) stop
      else
      at_time (\<lambda>now. ignore (exec (update_session i (setup_status ''step_trust_registry'' now)))
        (pbind (EnableTrustRegistry env o' s) (\<lambda>r. case r of
           None \<Rightarrow> p
         | Some e \<Rightarrow>
             unless_done stop
               (check (exec (update_session i (registry_failed (or_Error o' e))))
                  (\<lambda>_. markFailedAt i ''step_trust_registry'' ''Trust Registry setup failed and its error could not be saved'' stop)
                  (\<lambda>_. pbind (CleanupFailedRegistryJobs o' (session_ns o' s) (registryJobNames i)) (\<lambda>_.
                     markFailedAt i ''step_trust_registry'' (or_Error o' e) stop)))))))"

end
