(* ===== verification/FullStack.thy ===== *)
theory FullStack
  imports RegistryEnable
begin

text \<open>
  The pipeline of a full stack up to the administrator's DID (\<open>setup/orchestrator_fullstack.go\<close>):
  its steps, each a job or a Deployment, and \<open>runFullStack\<close>, which runs them in order.

  \<^item> \<open>stack_conf\<close> holds what the orchestrator is built with besides \<open>orch\<close>, and what DNS and the
    certificate authority answer at a given tick.
  \<^item> \<open>must\<close> is the local \<open>fail\<close>: an error ends the goroutine, and is recorded unless its context is
    done.
\<close>

record dns_result =
  dr_FQDN :: string
  dr_OK :: bool
  dr_IPs :: "string list"
  dr_Detail :: string

record stack_conf =
  sk_ingressIP :: string
  sk_ClientDid :: string
  sk_dns :: "nat \<Rightarrow> dns_result list"
  sk_cert :: "nat \<Rightarrow> bool \<times> string"
  sk_reg :: registry_env

definition fsSetStatus :: "nat \<Rightarrow> string \<Rightarrow> (farm, 'a) prog \<Rightarrow> (farm, 'a) prog" where
  "fsSetStatus sessionID status p =
     at_time (\<lambda>now. ignore (exec (update_session sessionID (setup_status status now))) p)"

definition must ::
  "orch \<Rightarrow> nat \<Rightarrow> string \<Rightarrow> string \<Rightarrow> (farm, 'b) prog \<Rightarrow> (farm, err + 'a) prog \<Rightarrow> ('a \<Rightarrow> (farm, 'b) prog) \<Rightarrow> (farm, 'b) prog" where
  "must o' sessionID stage what stop p k =
     pbind p (\<lambda>r. case r of
       Inl e \<Rightarrow> unless_done stop (markFailedAt sessionID stage (what @ '': '' @ or_Error o' e) stop)
     | Inr a \<Rightarrow> k a)"

text \<open>As \<open>must\<close>, for a step without a value.\<close>

definition must_do ::
  "orch \<Rightarrow> nat \<Rightarrow> string \<Rightarrow> string \<Rightarrow> (farm, 'b) prog \<Rightarrow> (farm, err option) prog \<Rightarrow> (farm, 'b) prog \<Rightarrow> (farm, 'b) prog" where
  "must_do o' sessionID stage what stop p q =
     pbind p (\<lambda>r. case r of
       Some e \<Rightarrow> unless_done stop (markFailedAt sessionID stage (what @ '': '' @ or_Error o' e) stop)
     | None \<Rightarrow> q)"

definition write_session :: "nat \<Rightarrow> (setup_session \<Rightarrow> setup_session) \<Rightarrow> (farm, 'a) prog \<Rightarrow> (farm, 'a) prog" where
  "write_session sessionID f p = ignore (exec (update_session sessionID f)) p"

section \<open>Waiting for names and certificates\<close>

text \<open>
  \<open>for { body; if time.Now().After(deadline) { return err }; select { ctx.Done, time.After } }\<close>; the
  body answers the error to report, and the loop goes round at most once per interval.
\<close>

primrec settle :: "nat \<Rightarrow> int \<Rightarrow> (farm, err option) prog \<Rightarrow> (farm, err option) prog" where
  "settle 0 deadline body = body"
| "settle (Suc n) deadline body =
     pbind body (\<lambda>r. case r of
       None \<Rightarrow> Return None
     | Some e \<Rightarrow>
         at_time (\<lambda>now. if deadline < now then Return (Some e)
           else check ctx_done (\<lambda>_. Return (Some ContextDone)) (\<lambda>gone.
             if gone then Return (Some ContextDone) else settle n deadline body)))"

definition fsDNSWaitBudget :: int where "fsDNSWaitBudget = 2 * minute"
definition fsDNSWaitInterval :: int where "fsDNSWaitInterval = 5 * second"
definition fsCertWaitBudget :: int where "fsCertWaitBudget = 5 * minute"
definition fsCertWaitInterval :: int where "fsCertWaitInterval = 10 * second"

definition dns_ok :: "string \<Rightarrow> dns_result \<Rightarrow> bool" where
  "dns_ok wantIP r \<longleftrightarrow> (if wantIP = [] then dr_IPs r \<noteq> [] else dr_OK r)"

definition dns_error :: "string \<Rightarrow> dns_result list \<Rightarrow> err option" where
  "dns_error wantIP results =
     (case filter (\<lambda>r. \<not> dns_ok wantIP r) results of
        [] \<Rightarrow> None
      | r # _ \<Rightarrow> Some (NewError (dr_FQDN r @ '': '' @ dr_Detail r)))"

definition fsWaitDNS :: "stack_conf \<Rightarrow> setup_session \<Rightarrow> (farm, err option) prog" where
  "fsWaitDNS c s =
     (let wantIP = (if ss_DomainType s = DomainCustom then sk_ingressIP c else []) in
      at_time (\<lambda>now.
        settle (nat (fsDNSWaitBudget div fsDNSWaitInterval) + 1) (now + fsDNSWaitBudget)
          (Act (\<lambda>w. Return (dns_error wantIP (sk_dns c (tick w)))) (\<lambda>w. w\<lparr>tick := Suc (tick w)\<rparr>))))"

definition cert_detail :: "stack_conf \<Rightarrow> setup_session \<Rightarrow> string \<Rightarrow> err" where
  "cert_detail c s detail =
     NewError (''timed out for '' @ FQDN s @ ''. Check that the record still points at '' @ sk_ingressIP c @
       '' (DNS only, not proxied) and that any CAA record on '' @ ss_Domain s @ '' allows letsencrypt.org. '' @ detail)"

definition fsWaitCert :: "stack_conf \<Rightarrow> orch \<Rightarrow> setup_session \<Rightarrow> (farm, err option) prog" where
  "fsWaitCert c o' s =
     (if \<not> snd (CustomDomainID s) then Return None
      else
      at_time (\<lambda>now.
        settle (nat (fsCertWaitBudget div fsCertWaitInterval) + 1) (now + fsCertWaitBudget)
          (check (ask (sk_cert c)) (\<lambda>e. Return (Some (cert_detail c s (or_Error o' e))))
             (\<lambda>(ready, message). Return (if ready then None else Some (cert_detail c s message))))))"

section \<open>Resources\<close>

text \<open>Four volume claims, the certificate of a custom domain, the middleware, and a Service and an Ingress each.\<close>

definition fsK8sProvision :: "setup_session \<Rightarrow> (farm, err option) prog" where
  "fsK8sProvision s =
     call_all (replicate 4 call_cluster @ (if snd (CustomDomainID s) then [call_cluster] else []) @
       [call_cluster] @ replicate 8 call_cluster)"

section \<open>Jobs\<close>

definition vault_of :: "orch \<Rightarrow> string \<times> string" where
  "vault_of o' = (case or_vault o' of None \<Rightarrow> ([], []) | Some v \<Rightarrow> v)"

definition fs_vault :: "orch \<Rightarrow> setup_session \<Rightarrow> string \<Rightarrow> string \<Rightarrow> vault_secrets" where
  "fs_vault o' s addr path =
     \<lparr>vs_Addr = addr, vs_SecretPath = path, vs_KVMount = snd (vault_of o'), vs_K8sRole = UserName (ss_UserID s),
      vs_SkipVerify = True\<rparr>"

definition mediator_mount :: "nat \<Rightarrow> pvc_mount" where
  "mediator_mount i = \<lparr>pm_Name = ''mediator-data'', pm_ClaimName = FSMediatorName i, pm_MountPath = ''/work/mediator''\<rparr>"

definition dids_mount :: "nat \<Rightarrow> pvc_mount" where
  "dids_mount i = \<lparr>pm_Name = ''dids-data'', pm_ClaimName = FSDidsName i, pm_MountPath = ''/work/dids''\<rparr>"

abbreviation "PodOperatorServiceAccount \<equiv> ''pod-operator''"

text \<open>A job that runs a shell command, its recipe in a ConfigMap of the job's name.\<close>

definition fs_job ::
  "string \<Rightarrow> string \<Rightarrow> string \<Rightarrow> string \<Rightarrow> string \<Rightarrow> pvc_mount list \<Rightarrow> (string \<times> string) option \<Rightarrow> job_spec" where
  "fs_job name img cmd dir account mounts recipe =
     \<lparr>cj_Name = name, cj_Image = img, cj_Command = [''sh'', ''-c'', cmd], cj_WorkingDir = dir, cj_ServiceAccount = account,
      cj_PVCMounts = mounts,
      cj_ConfigMapName = (if recipe = None then [] else name),
      cj_ConfigMapKey = (case recipe of None \<Rightarrow> [] | Some (key, _) \<Rightarrow> key),
      cj_ConfigMapData = (case recipe of None \<Rightarrow> [] | Some (_, data) \<Rightarrow> data),
      cj_SecretData = [], cj_Env = fsNoColorEnv, cj_RetainForRecovery = False\<rparr>"

definition retained :: "job_spec \<Rightarrow> job_spec" where
  "retained spec = spec\<lparr>cj_RetainForRecovery := True\<rparr>"

definition no_output :: "string \<Rightarrow> err + unit" where
  "no_output logs = Inr ()"

definition discard :: "(farm, err + 'a) prog \<Rightarrow> (farm, err option) prog" where
  "discard p = pbind p (\<lambda>r. case r of Inl e \<Rightarrow> Return (Some e) | Inr _ \<Rightarrow> Return None)"

definition just_run :: "orch \<Rightarrow> string \<Rightarrow> job_spec \<Rightarrow> (farm, err option) prog" where
  "just_run o' ns spec = discard (run_job o' ns spec (Return (Inr ())))"

definition pair_err :: "err + 'a \<Rightarrow> err + 'b \<Rightarrow> err + 'a \<times> 'b" where
  "pair_err x y = (case x of Inl e \<Rightarrow> Inl e | Inr a \<Rightarrow> (case y of Inl e \<Rightarrow> Inl e | Inr b \<Rightarrow> Inr (a, b)))"

definition fsStepVtaSetup :: "orch \<Rightarrow> string \<Rightarrow> setup_session \<Rightarrow> (farm, err + string \<times> string) prog" where
  "fsStepVtaSetup o' ns s =
     read_job o' ns
       (fs_job (FSJobVtaSetup (ss_ID s)) (ss_VtaImage s) ''vta setup --from /config/vta-setup.toml'' ''/work/vta''
          VtaServiceAccount [vta_mount (ss_ID s)]
          (Some (''vta-setup.toml'', RenderFullStackVtaSetupTOML s
                   (fs_vault o' s (fst (vault_of o')) (SeedPath (ss_UserID s) (ss_ID s))))))
       (\<lambda>logs. pair_err (ParseVtaDID logs) (ParseMediatorDID logs))"

definition mediator_recipe :: "orch \<Rightarrow> setup_session \<Rightarrow> string" where
  "mediator_recipe o' s =
     RenderMediatorRecipeTOML
       (fs_vault o' s (vaultHostPort o' (fst (vault_of o'))) (MediatorPrefix (ss_UserID s) (ss_ID s)))"

definition fsStepMediatorP1 :: "orch \<Rightarrow> string \<Rightarrow> setup_session \<Rightarrow> (farm, err option) prog" where
  "fsStepMediatorP1 o' ns s =
     just_run o' ns
       (fs_job (FSJobMediatorP1 (ss_ID s)) (ss_MediatorImage s) ''mediator-setup --from /config/mediator-recipe.toml''
          ''/work/mediator'' VtaServiceAccount [mediator_mount (ss_ID s)]
          (Some (''mediator-recipe.toml'', mediator_recipe o' s)))"

definition fsStepMediatorReprov :: "orch \<Rightarrow> string \<Rightarrow> setup_session \<Rightarrow> (farm, err + string \<times> string) prog" where
  "fsStepMediatorReprov o' ns s =
     read_job o' ns
       (fs_job (FSJobMediatorReprov (ss_ID s)) (ss_VtaImage s)
          ''vta contexts reprovision --id mediator --recipient /work/mediator/bootstrap-request.json --out /work/mediator/bundle.armor''
          ''/work/vta'' VtaServiceAccount [vta_mount (ss_ID s), mediator_mount (ss_ID s)] None)
       (\<lambda>logs. pair_err (ParseDigest logs) (ParseMediatorAdminDID logs))"

definition fsStepMediatorP2 :: "orch \<Rightarrow> string \<Rightarrow> setup_session \<Rightarrow> string \<Rightarrow> (farm, err + string) prog" where
  "fsStepMediatorP2 o' ns s digest =
     read_job o' ns
       (fs_job (FSJobMediatorP2 (ss_ID s)) (ss_MediatorImage s)
          (''mediator-setup --from /config/mediator-recipe.toml --bundle bundle.armor --digest '' @ quoteShellArg digest)
          ''/work/mediator'' VtaServiceAccount [mediator_mount (ss_ID s)]
          (Some (''mediator-recipe.toml'', mediator_recipe o' s)))
       ParseMediatorAdminKey"

definition webvh_vault :: "orch \<Rightarrow> setup_session \<Rightarrow> vault_secrets" where
  "webvh_vault o' s = fs_vault o' s (fst (vault_of o')) (DidsPrefix (ss_UserID s) (ss_ID s) @ ''/server-secrets'')"

definition webvh_job :: "setup_session \<Rightarrow> string \<Rightarrow> string \<Rightarrow> string \<Rightarrow> job_spec" where
  "webvh_job s name cmd recipe =
     fs_job name (ss_DidsImage s) cmd ''/work/dids'' VtaServiceAccount [dids_mount (ss_ID s)]
       (Some (''webvh-recipe.toml'', recipe))"

definition render_failed :: "orch \<Rightarrow> err \<Rightarrow> err" where
  "render_failed o' e = NewError (''render webvh-recipe.toml: '' @ or_Error o' e)"

definition fsStepDidsP1 :: "orch \<Rightarrow> string \<Rightarrow> setup_session \<Rightarrow> (farm, err option) prog" where
  "fsStepDidsP1 o' ns s =
     (case RenderWebvhRecipeTOML s WebvhPhasePrepare [] (webvh_vault o' s) of
        Inl e \<Rightarrow> Return (Some (render_failed o' e))
      | Inr recipe \<Rightarrow>
          just_run o' ns
            (webvh_job s (FSJobDidsP1 (ss_ID s)) ''did-hosting-daemon setup --from /config/webvh-recipe.toml'' recipe))"

definition fsStepDidsProvision :: "orch \<Rightarrow> string \<Rightarrow> setup_session \<Rightarrow> (farm, err + string) prog" where
  "fsStepDidsProvision o' ns s =
     read_job o' ns
       (fs_job (FSJobDidsProvision (ss_ID s)) (ss_VtaImage s)
          ''vta bootstrap provision-integration --request /work/dids/bootstrap-request.json --out /work/dids/bundle.armor --create-context''
          ''/work/vta'' VtaServiceAccount [vta_mount (ss_ID s), dids_mount (ss_ID s)] None)
       ParseDigest"

definition dids_artifacts :: "string \<Rightarrow> err + (string \<times> string) \<times> string" where
  "dids_artifacts logs =
     pair_err (pair_err (ParseWebvhAdminDID logs) (ParseWebvhAdminKey logs)) (ParseServerDid (ParseArtifact logs ''server_did''))"

definition fsStepDidsP2 ::
  "orch \<Rightarrow> string \<Rightarrow> setup_session \<Rightarrow> string \<Rightarrow> (farm, err + (string \<times> string) \<times> string) prog" where
  "fsStepDidsP2 o' ns s digest =
     (case RenderWebvhRecipeTOML s WebvhPhaseComplete digest (webvh_vault o' s) of
        Inl e \<Rightarrow> Return (Inl (render_failed o' e))
      | Inr recipe \<Rightarrow>
          read_job o' ns
            (webvh_job s (FSJobDidsP2 (ss_ID s))
               ''did-hosting-daemon setup --from /config/webvh-recipe.toml && echo '---ARTIFACT:server_did---' && grep '^server_did' config.toml''
               recipe)
            dids_artifacts)"

definition dids_job :: "setup_session \<Rightarrow> string \<Rightarrow> string \<Rightarrow> pvc_mount list \<Rightarrow> job_spec" where
  "dids_job s name cmd mounts = fs_job name (ss_DidsImage s) cmd ''/work/dids'' PodOperatorServiceAccount mounts None"

definition fsStepDidsInvite :: "orch \<Rightarrow> string \<Rightarrow> setup_session \<Rightarrow> (farm, err + string \<times> string) prog" where
  "fsStepDidsInvite o' ns s =
     read_job o' ns
       (dids_job s (FSJobDidsInvite (ss_ID s))
          (''did-hosting-daemon invite --role admin --did '' @ quoteShellArg (ss_DIDHostingAdminDid s))
          [dids_mount (ss_ID s)])
       ParseDidsEnrollInvite"

definition load_did_command :: "setup_session \<Rightarrow> string" where
  "load_did_command s =
     ''did-hosting-daemon load-did --path '' @ quoteShellArg (MediatorDidPath (ss_VtaName s)) @
     '' --did-log /work/vta/data/vta/did-logs/mediator-did.jsonl && did-hosting-daemon load-did --path '' @
     quoteShellArg (VtaDidPath (ss_VtaName s)) @ '' --did-log /work/vta/data/vta/did-logs/VTA-did.jsonl''"

definition fsStepDidsLoadDid :: "orch \<Rightarrow> string \<Rightarrow> setup_session \<Rightarrow> (farm, err option) prog" where
  "fsStepDidsLoadDid o' ns s =
     just_run o' ns
       (dids_job s (FSJobDidsLoadDid (ss_ID s)) (load_did_command s) [vta_mount (ss_ID s), dids_mount (ss_ID s)])"

definition grant_farm_command :: "string \<Rightarrow> string" where
  "grant_farm_command farmDid =
     ''did-hosting-daemon list-acl 2>&1 | grep -qF '' @ quoteShellArg farmDid @
     '' || did-hosting-daemon add-acl --did '' @ quoteShellArg farmDid @ '' --role admin --label vtafarm''"

definition fsStepDidsGrantFarm :: "orch \<Rightarrow> string \<Rightarrow> setup_session \<Rightarrow> string \<Rightarrow> (farm, err option) prog" where
  "fsStepDidsGrantFarm o' ns s farmDid =
     just_run o' ns (dids_job s (FSJobDidsGrantFarm (ss_ID s)) (grant_farm_command farmDid) [dids_mount (ss_ID s)])"

definition vta_job :: "setup_session \<Rightarrow> string \<Rightarrow> string \<Rightarrow> job_spec" where
  "vta_job s name cmd = fs_job name (ss_VtaImage s) cmd ''/work/vta'' VtaServiceAccount [vta_mount (ss_ID s)] None"

definition fsStepVtaRegisterDids :: "orch \<Rightarrow> string \<Rightarrow> setup_session \<Rightarrow> (farm, err option) prog" where
  "fsStepVtaRegisterDids o' ns s =
     just_run o' ns
       (vta_job s (FSJobVtaRegisterDids (ss_ID s))
          (''vta did-mgmt servers add --id dids --did '' @ quoteShellArg (ss_DIDHostingDid s) @
           '' --label 'Session DID Hosting Daemon'' @ [CHR 0x27]))"

section \<open>Deployments\<close>

definition fs_deployment ::
  "string \<Rightarrow> string \<Rightarrow> string \<Rightarrow> string \<Rightarrow> pvc_mount \<Rightarrow> (string \<times> string) list \<Rightarrow> string_map \<Rightarrow> deployment_spec" where
  "fs_deployment name img command dir mount tuning labels =
     \<lparr>cd_Name = name, cd_Image = img, cd_Command = [command], cd_WorkingDir = dir, cd_PVCMounts = [mount],
      cd_Env = fsNoColorEnv @ tuning, cd_Labels = labels, cd_Recreate = False\<rparr>"

definition fsMediatorTuningEnv :: "(string \<times> string) list" where
  "fsMediatorTuningEnv =
     [(''LIMIT_WS_SEND_BUFFER'', ''8388608''), (''LIMIT_PUBSUB_BUFFER'', ''4194304''),
      (''STORAGE_FJALL_BLOCK_CACHE'', ''8388608''), (''STORAGE_FJALL_WRITE_BUFFER'', ''16777216''),
      (''STORAGE_FJALL_MAX_JOURNAL'', ''67108864'')]"

definition fsDidsTuningEnv :: "(string \<times> string) list" where
  "fsDidsTuningEnv =
     [(''STORAGE_FJALL_BLOCK_CACHE'', ''8388608''), (''STORAGE_FJALL_WRITE_BUFFER'', ''16777216''),
      (''STORAGE_FJALL_MAX_JOURNAL'', ''67108864'')]"

definition fsVtcTuningEnv :: "(string \<times> string) list" where
  "fsVtcTuningEnv =
     [(''STORAGE_FJALL_BLOCK_CACHE'', ''16777216''), (''STORAGE_FJALL_WRITE_BUFFER'', ''33554432''),
      (''STORAGE_FJALL_MAX_JOURNAL'', ''134217728'')]"

definition deploy_component :: "orch \<Rightarrow> string \<Rightarrow> deployment_spec \<Rightarrow> (farm, err option) prog" where
  "deploy_component o' ns spec =
     check load_profiles (\<lambda>e. Return (Some (NewError (''load resource defaults: '' @ or_Error o' e))))
       (\<lambda>_. deploy_ready ns spec)"

definition fsDeployDids :: "orch \<Rightarrow> string \<Rightarrow> setup_session \<Rightarrow> (farm, err option) prog" where
  "fsDeployDids o' ns s =
     deploy_component o' ns
       (fs_deployment (FSDidsName (ss_ID s)) (ss_DidsImage s) ''did-hosting-daemon'' ''/work/dids'' (dids_mount (ss_ID s))
          fsDidsTuningEnv (fsLabels ''dids'' (ss_ID s)))"

definition fsDeployMediator :: "orch \<Rightarrow> string \<Rightarrow> setup_session \<Rightarrow> (farm, err option) prog" where
  "fsDeployMediator o' ns s =
     deploy_component o' ns
       (fs_deployment (FSMediatorName (ss_ID s)) (ss_MediatorImage s) ''mediator'' ''/work/mediator'' (mediator_mount (ss_ID s))
          fsMediatorTuningEnv (fsLabels ''mediator'' (ss_ID s)))"

definition fsDeployVta :: "orch \<Rightarrow> string \<Rightarrow> setup_session \<Rightarrow> (farm, err option) prog" where
  "fsDeployVta o' ns s =
     deploy_component o' ns
       (fs_deployment (FSVtaName (ss_ID s)) (ss_VtaImage s) ''vta'' ''/work/vta'' (vta_mount (ss_ID s))
          VtaTuningEnv (fsLabels ''vta'' (ss_ID s)))"

definition fsDeployVtc :: "orch \<Rightarrow> string \<Rightarrow> setup_session \<Rightarrow> (farm, err option) prog" where
  "fsDeployVtc o' ns s =
     deploy_component o' ns
       (fs_deployment (FSVtcName (ss_ID s)) (ss_VtcImage s) ''vtc'' ''/work/vtc'' (vtc_mount (ss_ID s))
          fsVtcTuningEnv (fsLabels ''vtc'' (ss_ID s)))"

section \<open>The pipeline\<close>

text \<open>The steps before the administrator's DID, last first.\<close>

definition fs_gate :: "setup_session \<Rightarrow> (farm, nat list) prog" where
  "fs_gate s =
     (if ss_AdminDid s \<noteq> [] then queueProvision (ss_ID s) (ss_AdminDid s)
      else fsSetStatus (ss_ID s) ''awaiting_admin_did'' (Return []))"

definition fs_deploy :: "orch \<Rightarrow> string \<Rightarrow> setup_session \<Rightarrow> (farm, nat list) prog" where
  "fs_deploy o' ns s =
     (let i = ss_ID s; stop = Return [] in
      fsSetStatus i ''deploy_dids''
        (must_do o' i [] ''failed to deploy dids daemon'' stop (fsDeployDids o' ns s)
      (fsSetStatus i ''deploy_mediator''
        (must_do o' i [] ''failed to deploy mediator'' stop (fsDeployMediator o' ns s)
      (fsSetStatus i ''step_vta_register_dids''
        (must_do o' i [] ''vta register-dids failed'' stop (fsStepVtaRegisterDids o' ns s) (fs_gate s)))))))"

definition fs_fill_dids :: "stack_conf \<Rightarrow> orch \<Rightarrow> string \<Rightarrow> setup_session \<Rightarrow> (farm, nat list) prog" where
  "fs_fill_dids c o' ns s =
     (let i = ss_ID s; stop = Return [] in
      fsSetStatus i ''step_dids_load_did''
        (must_do o' i [] ''dids load-did failed'' stop (fsStepDidsLoadDid o' ns s)
      (if sk_ClientDid c = [] then fs_deploy o' ns s
       else fsSetStatus i ''step_dids_grant_farm''
         (must_do o' i [] ''granting vtafarm-api access to the DID host failed'' stop
            (fsStepDidsGrantFarm o' ns s (sk_ClientDid c)) (fs_deploy o' ns s)))))"

definition dids_row :: "(string \<times> string) \<times> string \<Rightarrow> setup_session \<Rightarrow> setup_session" where
  "dids_row = (\<lambda>((adminDid, adminKey), did) s.
     s\<lparr>ss_DIDHostingAdminDid := adminDid, ss_WebvhAdminKey := adminKey, ss_DIDHostingDid := did\<rparr>)"

definition enroll_row :: "string \<times> string \<Rightarrow> setup_session \<Rightarrow> setup_session" where
  "enroll_row = (\<lambda>(url, code) s. s\<lparr>ss_DidsEnrollURL := url, ss_DidsEnrollClaimCode := code\<rparr>)"

definition fs_dids :: "stack_conf \<Rightarrow> orch \<Rightarrow> string \<Rightarrow> setup_session \<Rightarrow> (farm, nat list) prog" where
  "fs_dids c o' ns s =
     (let i = ss_ID s; stop = Return [] in
      fsSetStatus i ''step_dids_p1''
        (must_do o' i [] ''dids setup (offline-prepare) failed'' stop (fsStepDidsP1 o' ns s)
      (fsSetStatus i ''step_dids_provision''
        (must o' i [] ''dids provision-integration failed'' stop (fsStepDidsProvision o' ns s) (\<lambda>digest.
      (fsSetStatus i ''step_dids_p2''
        (must o' i [] ''dids setup (offline-complete) failed'' stop (fsStepDidsP2 o' ns s digest) (\<lambda>ids.
      let s1 = dids_row ids s in
      at_time (\<lambda>now. write_session i (\<lambda>r. (dids_row ids r)\<lparr>ss_UpdatedAt := now\<rparr>)
      (fsSetStatus i ''step_dids_invite''
        (must o' i [] ''dids invite failed'' stop (fsStepDidsInvite o' ns s1) (\<lambda>enroll.
      write_session i (enroll_row enroll)
      (fs_fill_dids c o' ns (enroll_row enroll s1))))))))))))))"

definition fs_mediator :: "stack_conf \<Rightarrow> orch \<Rightarrow> string \<Rightarrow> setup_session \<Rightarrow> (farm, nat list) prog" where
  "fs_mediator c o' ns s =
     (let i = ss_ID s; stop = Return [] in
      fsSetStatus i ''step_mediator_p1''
        (must_do o' i [] ''mediator setup (phase 1) failed'' stop (fsStepMediatorP1 o' ns s)
      (fsSetStatus i ''step_mediator_reprov''
        (must o' i [] ''mediator reprovision failed'' stop (fsStepMediatorReprov o' ns s) (\<lambda>(digest, adminDid).
      write_session i (\<lambda>r. r\<lparr>ss_MediatorAdminDid := adminDid\<rparr>)
      (fsSetStatus i ''step_mediator_p2''
        (must o' i [] ''mediator setup (phase 2) failed'' stop (fsStepMediatorP2 o' ns s digest) (\<lambda>adminKey.
      write_session i (\<lambda>r. r\<lparr>ss_MediatorAdminKey := adminKey\<rparr>)
      (fs_dids c o' ns (s\<lparr>ss_MediatorAdminDid := adminDid, ss_MediatorAdminKey := adminKey\<rparr>))))))))))"

definition vta_row :: "string \<times> string \<Rightarrow> setup_session \<Rightarrow> setup_session" where
  "vta_row = (\<lambda>(vtaDid, mediatorDid) s. s\<lparr>ss_VtaDid := vtaDid, ss_MediatorDid := mediatorDid\<rparr>)"

definition fs_vta :: "stack_conf \<Rightarrow> orch \<Rightarrow> string \<Rightarrow> setup_session \<Rightarrow> (farm, nat list) prog" where
  "fs_vta c o' ns s =
     (let i = ss_ID s in
      fsSetStatus i ''step_vta_setup''
        (must o' i [] ''vta setup failed'' (Return []) (fsStepVtaSetup o' ns s) (\<lambda>ids.
      at_time (\<lambda>now. write_session i (\<lambda>r. (vta_row ids r)\<lparr>ss_UpdatedAt := now\<rparr>)
        (fs_mediator c o' ns (vta_row ids s))))))"

definition fs_environment :: "stack_conf \<Rightarrow> orch \<Rightarrow> string \<Rightarrow> setup_session \<Rightarrow> (farm, nat list) prog" where
  "fs_environment c o' ns s =
     (let i = ss_ID s; stop = Return [] in
      fsSetStatus i ''env_provision''
        (must_do o' i [] ''failed to ensure k8s namespace'' stop EnsureUserEnvironment
        (must_do o' i [] ''failed to provision vault access'' stop (call_all [call_service])
      (fsSetStatus i ''k8s_provision''
        (must_do o' i [] ''failed to provision k8s resources'' stop (fsK8sProvision s)
      (if ss_DomainType s = DomainCustom
       then fsSetStatus i ''tls_provision''
         (must_do o' i [] ''TLS certificate issuance failed'' stop (fsWaitCert c o' s) (fs_vta c o' ns s))
       else fs_vta c o' ns s))))))"

definition runFullStack :: "stack_conf \<Rightarrow> orch \<Rightarrow> nat \<Rightarrow> (farm, nat list) prog" where
  "runFullStack c o' sessionID =
     check (first (session_row sessionID)) (\<lambda>_. Return []) (\<lambda>s.
     let ns = session_ns o' s in
     if or_vault o' = None
     then markFailed sessionID ''vault not configured: set VAULT_ADDR/VAULT_ROLE_ID/VAULT_SECRET_ID'' (Return [])
     else
     fsSetStatus sessionID ''dns_wait''
       (pbind (fsWaitDNS c s) (\<lambda>r. case r of
          None \<Rightarrow> fs_environment c o' ns s
        | Some e \<Rightarrow>
            if ss_DomainType s = DomainCustom
            then unless_done (Return []) (markFailed sessionID (''DNS not resolving: '' @ or_Error o' e) (Return []))
            else check ctx_done (\<lambda>_. fs_environment c o' ns s) (\<lambda>_. fs_environment c o' ns s))))"

end
