(* ===== verification/FullStackFinish.thy ===== *)
theory FullStackFinish
  imports FullStack
begin

text \<open>
  A full stack after the administrator's DID (\<open>setup/orchestrator_vtc.go\<close>), the recovery of a failed
  Deployment (\<open>orchestrator_recovery.go\<close>), and what the orchestrator re-attaches when the process
  starts (\<open>Resume\<close> and the lists of \<open>orchestrator_fullstack.go\<close>).
\<close>

section \<open>Steps\<close>

definition import_did_command :: "string \<Rightarrow> string \<Rightarrow> string" where
  "import_did_command label adminDid =
     ''vta import-did --role admin --label '' @ quoteShellArg label @ '' --did '' @ quoteShellArg adminDid"

definition fsStepImportAdminDid :: "orch \<Rightarrow> string \<Rightarrow> setup_session \<Rightarrow> string \<Rightarrow> (farm, err option) prog" where
  "fsStepImportAdminDid o' ns s adminDid =
     provisionAdminLabel (ss_ID s) adminDid ''pnm-bootstrap'' (\<lambda>label.
       just_run o' ns (retained (vta_job s (FSJobImportAdminDid (ss_ID s)) (import_did_command label adminDid))))"

text \<open>The jobs of the VTC, on its own claim.\<close>

definition vtc_job :: "setup_session \<Rightarrow> string \<Rightarrow> string \<Rightarrow> string \<Rightarrow> (string \<times> string) option \<Rightarrow> job_spec" where
  "vtc_job s name cmd account recipe =
     retained (fs_job name (ss_VtcImage s) cmd ''/work/vtc'' account [vtc_mount (ss_ID s)] recipe)"

definition fsStepVtcSetupKey :: "orch \<Rightarrow> string \<Rightarrow> setup_session \<Rightarrow> (farm, err + string) prog" where
  "fsStepVtcSetupKey o' ns s =
     read_job o' ns
       (vtc_job s (FSJobVtcSetupKey (ss_ID s))
          (''vtc setup --setup-key-out setup-key.json --context '' @ quoteShellArg (ss_VtcName s))
          PodOperatorServiceAccount None)
       ParseVtcSetupKeyDid"

definition acl_grant_command :: "setup_session \<Rightarrow> string \<Rightarrow> string" where
  "acl_grant_command s setupKeyDid =
     ''out=$(vta contexts create --id '' @ quoteShellArg (ss_VtcName s) @ '' --name \"VTC\" --admin-did '' @
     quoteShellArg setupKeyDid @ '' --admin-expires 1h --admin-handoff 2>&1); code=$?; echo \"$out\"; '' @
     ''if [ \"$code\" -ne 0 ]; then case \"$out\" in *\"already exists\"*) vta import-did --did '' @
     quoteShellArg setupKeyDid @ '' --role admin --context '' @ quoteShellArg (ss_VtcName s) @
     '' --label vtc-setup;; *) exit \"$code\";; esac; fi''"

definition fsStepVtcAclGrant :: "orch \<Rightarrow> string \<Rightarrow> setup_session \<Rightarrow> string \<Rightarrow> (farm, err option) prog" where
  "fsStepVtcAclGrant o' ns s setupKeyDid =
     just_run o' ns (retained (vta_job s (FSJobVtcAclGrant (ss_ID s)) (acl_grant_command s setupKeyDid)))"

text \<open>The session as the registry's preparation left it, and what the VTC's setup printed.\<close>

definition fsStepVtcSetup ::
  "stack_conf \<Rightarrow> orch \<Rightarrow> string \<Rightarrow> setup_session \<Rightarrow> (farm, err + setup_session \<times> vtc_outcome) prog" where
  "fsStepVtcSetup c o' ns s =
     bind_err (prepareRegistryForVtc (sk_reg c) o' ns s) (\<lambda>s'.
       read_job o' ns
         (vtc_job s' (FSJobVtcSetup (ss_ID s)) ''vtc setup --from /config/vtc-setup.toml'' VtaServiceAccount
            (Some (''vtc-setup.toml'', RenderVtcSetupTOML s'
                     (fs_vault o' s' (fst (vault_of o')) (VtcPrefix (ss_UserID s) (ss_ID s) @ ''/key-bundle'')))))
         (\<lambda>logs. case ParseVtcSetupOutput logs of Inl e \<Rightarrow> Inl e | Inr outcome \<Rightarrow> Inr (s', outcome)))"

section \<open>The finish\<close>

definition vtc_identity :: "vtc_outcome \<Rightarrow> setup_session \<Rightarrow> setup_session" where
  "vtc_identity outcome s =
     s\<lparr>ss_VtcDid := vo_VtcDid outcome, ss_VtcAdminDid := vo_AdminDid outcome,
       ss_VtcInstallURL := vo_InstallURL outcome, ss_VtcClaimCode := vo_ClaimCode outcome\<rparr>"

definition vtc_row :: "vtc_outcome \<Rightarrow> int \<Rightarrow> setup_session \<Rightarrow> setup_session" where
  "vtc_row outcome now s = (vtc_identity outcome s)\<lparr>ss_VtcInstallUsed := False, ss_UpdatedAt := now\<rparr>"

definition importing_row :: "string \<Rightarrow> int \<Rightarrow> setup_session \<Rightarrow> setup_session" where
  "importing_row adminDid now s =
     s\<lparr>ss_Status := ''step_import_admin_did'', ss_AdminDid := adminDid, ss_UpdatedAt := now\<rparr>"

definition finish_vtc :: "stack_conf \<Rightarrow> orch \<Rightarrow> string \<Rightarrow> setup_session \<Rightarrow> (farm, unit) prog" where
  "finish_vtc c o' ns s =
     (let i = ss_ID s; stop = Return () in
      fsSetStatus i ''deploy_vtc''
        (must_do o' i [] ''failed to deploy vtc'' stop (fsDeployVtc o' ns s)
        (finishRegistrySetup (sk_reg c) o' s stop (fsSetStatus i ''running'' stop))))"

definition finish_setup :: "stack_conf \<Rightarrow> orch \<Rightarrow> string \<Rightarrow> setup_session \<Rightarrow> (farm, unit) prog" where
  "finish_setup c o' ns s =
     (let i = ss_ID s; stop = Return () in
      fsSetStatus i ''deploy_vta''
        (must_do o' i [] ''failed to deploy vta'' stop (fsDeployVta o' ns s)
        (fsSetStatus i ''step_vtc_setup''
          (must o' i [] ''vtc setup failed'' stop (fsStepVtcSetup c o' ns s) (\<lambda>(s', outcome).
           at_time (\<lambda>now. write_session i (vtc_row outcome now)
             (finish_vtc c o' ns (vtc_identity outcome s'))))))))"

definition runFullStackFinish :: "stack_conf \<Rightarrow> orch \<Rightarrow> nat \<Rightarrow> string \<Rightarrow> (farm, unit) prog" where
  "runFullStackFinish c o' sessionID adminDid =
     check (first (session_row sessionID)) (\<lambda>_. Return ()) (\<lambda>s.
     let ns = session_ns o' s; stop = Return () in
     at_time (\<lambda>now. write_session sessionID (importing_row adminDid now)
       (must_do o' sessionID [] ''import-admin-did failed'' stop (fsStepImportAdminDid o' ns s adminDid)
       (fsSetStatus sessionID ''step_vtc_setup_key''
         (must o' sessionID [] ''vtc setup-key generation failed'' stop (fsStepVtcSetupKey o' ns s) (\<lambda>setupKeyDid.
          write_session sessionID (\<lambda>r. r\<lparr>ss_VtcSetupKeyDid := setupKeyDid\<rparr>)
          (fsSetStatus sessionID ''step_vtc_acl_grant''
            (must_do o' sessionID [] ''vtc acl grant failed'' stop (fsStepVtcAclGrant o' ns s setupKeyDid)
              (finish_setup c o' ns s)))))))))"

section \<open>Recovery of a Deployment\<close>

definition recovery_components :: "setup_session \<Rightarrow> (string \<times> string \<times> string) list" where
  "recovery_components s =
     (let i = ss_ID s in
      [(''deploy_dids'', FSDidsName i, ss_DidsImage s), (''deploy_mediator'', FSMediatorName i, ss_MediatorImage s),
       (''deploy_vta'', FSVtaName i, ss_VtaImage s), (''deploy_vtc'', FSVtcName i, ss_VtcImage s)])"

definition reconcile_image :: "orch \<Rightarrow> string \<Rightarrow> string \<Rightarrow> string \<times> string \<times> string \<Rightarrow> (farm, err option) prog" where
  "reconcile_image o' ns failed = (\<lambda>(stage, name, img).
     check (RecoverDeploymentImage ns name img)
       (\<lambda>e. Return (Some (NewError (''reconcile '' @ name @ '': '' @ or_Error o' e)))) (\<lambda>_.
     if stage = failed then Return None
     else pbind (WaitForComponentDeploymentReady ns name (2 * minute)) (\<lambda>r. case r of
       None \<Rightarrow> Return None
     | Some e \<Rightarrow> Return (Some (NewError (''wait for '' @ name @ '': '' @ or_Error o' e))))))"

definition reconcileFullStackRecoveryImages :: "orch \<Rightarrow> string \<Rightarrow> setup_session \<Rightarrow> (farm, err option) prog" where
  "reconcileFullStackRecoveryImages o' ns s =
     (let cs = recovery_components s; failed = ss_Status s in
      if failed \<notin> fst ` set cs then Return (Some (NewError (''unsupported recovery stage '' @ failed)))
      else until_error (reconcile_image o' ns failed)
             (takeWhile (\<lambda>c. fst c \<noteq> failed) cs @ filter (\<lambda>c. fst c = failed) cs))"

definition recovered_row :: "int \<Rightarrow> setup_session \<Rightarrow> setup_session" where
  "recovered_row now s =
     s\<lparr>ss_Status := ''running'', ss_ErrorMsg := [], ss_FailedStage := [], ss_UpdatedAt := now\<rparr>"

text \<open>What a recovery returns is the provision workers it kicks.\<close>

definition finishRecoveredSession :: "stack_conf \<Rightarrow> orch \<Rightarrow> setup_session \<Rightarrow> (farm, nat list) prog" where
  "finishRecoveredSession c o' s =
     finishRegistrySetup (sk_reg c) o' s (Return [])
       (at_time (\<lambda>now. write_session (ss_ID s) (recovered_row now) (Return [])))"

definition continueRecoveredPreGate :: "orch \<Rightarrow> string \<Rightarrow> setup_session \<Rightarrow> (farm, nat list) prog" where
  "continueRecoveredPreGate o' ns s =
     (let i = ss_ID s in
      fsSetStatus i ''step_vta_register_dids''
        (must_do o' i ''step_vta_register_dids'' ''vta register-dids failed'' (Return []) (fsStepVtaRegisterDids o' ns s)
        (if ss_AdminDid s \<noteq> [] then fsSetStatus i ''step_import_admin_did'' (Return [i])
         else fsSetStatus i ''awaiting_admin_did'' (Return []))))"

definition recover_vtc :: "stack_conf \<Rightarrow> orch \<Rightarrow> string \<Rightarrow> setup_session \<Rightarrow> (farm, nat list) prog" where
  "recover_vtc c o' ns s =
     must_do o' (ss_ID s) ''deploy_vtc'' ''failed to deploy vtc'' (Return []) (fsDeployVtc o' ns s)
       (finishRecoveredSession c o' s)"

definition continueRecoveredPostGate :: "stack_conf \<Rightarrow> orch \<Rightarrow> string \<Rightarrow> setup_session \<Rightarrow> (farm, nat list) prog" where
  "continueRecoveredPostGate c o' ns s =
     (let i = ss_ID s; stop = Return [] in
      fsSetStatus i ''step_vtc_setup''
        (must o' i ''step_vtc_setup'' ''vtc setup failed'' stop (fsStepVtcSetup c o' ns s) (\<lambda>(s', outcome).
         at_time (\<lambda>now.
         check (exec (update_session i (vtc_row outcome now)))
           (\<lambda>e. unless_done stop
              (markFailedAt i ''step_vtc_setup'' (''persist vtc setup output failed: '' @ or_Error o' e) stop)) (\<lambda>_.
         fsSetStatus i ''deploy_vtc'' (recover_vtc c o' ns (vtc_identity outcome s')))))))"

definition recover_mediator :: "orch \<Rightarrow> string \<Rightarrow> setup_session \<Rightarrow> (farm, nat list) prog" where
  "recover_mediator o' ns s =
     must_do o' (ss_ID s) ''deploy_mediator'' ''failed to deploy mediator'' (Return []) (fsDeployMediator o' ns s)
       (continueRecoveredPreGate o' ns s)"

definition recover_stage :: "stack_conf \<Rightarrow> orch \<Rightarrow> string \<Rightarrow> setup_session \<Rightarrow> (farm, nat list) prog" where
  "recover_stage c o' ns s =
     (let i = ss_ID s; stop = Return [] in
      if ss_Status s = ''deploy_dids''
      then must_do o' i ''deploy_dids'' ''failed to deploy dids daemon'' stop (fsDeployDids o' ns s)
             (fsSetStatus i ''deploy_mediator'' (recover_mediator o' ns s))
      else if ss_Status s = ''deploy_mediator'' then recover_mediator o' ns s
      else if ss_Status s = ''deploy_vta''
      then must_do o' i ''deploy_vta'' ''failed to deploy vta'' stop (fsDeployVta o' ns s)
             (continueRecoveredPostGate c o' ns s)
      else if ss_Status s = ''deploy_vtc'' then recover_vtc c o' ns s
      else Return [])"

definition recover_vta_only :: "orch \<Rightarrow> string \<Rightarrow> setup_session \<Rightarrow> (farm, nat list) prog" where
  "recover_vta_only o' ns s =
     (let i = ss_ID s; stop = Return [] in
      if ss_Status s \<noteq> ''deploy_vta'' then Return []
      else
      must_do o' i ''deploy_vta'' ''failed to reconcile vta deployment image'' stop
        (call_all [RecoverDeploymentImage ns (VtaDeploymentName i) (ss_VtaImage s)])
        (pbind (deployVtaOnly o' s) (\<lambda>(pooled, r). case r of
           Some msg \<Rightarrow> unless_done stop (markFailedAt i ''deploy_vta'' (''failed to deploy vta: '' @ msg) stop)
         | None \<Rightarrow> finishVtaOnlyDeployment i pooled stop)))"

definition recoverDeployment :: "stack_conf \<Rightarrow> orch \<Rightarrow> nat \<Rightarrow> (farm, nat list) prog" where
  "recoverDeployment c o' sessionID =
     check (first (session_row sessionID)) (\<lambda>_. Return []) (\<lambda>s.
     let ns = session_ns o' s in
     if ss_Mode s = ModeVtaOnly then recover_vta_only o' ns s
     else if ss_Mode s \<noteq> ModeFullStack then Return []
     else if ss_Status s = ''step_trust_registry'' then finishRecoveredSession c o' s
     else must_do o' sessionID (ss_Status s) ''failed to reconcile recovery images'' (Return [])
            (reconcileFullStackRecoveryImages o' ns s) (recover_stage c o' ns s))"

section \<open>Starting and resuming\<close>

text \<open>\<open>Start\<close>: the goroutine of a session's first phase.\<close>

definition StartSetup :: "stack_conf \<Rightarrow> orch \<Rightarrow> nat \<Rightarrow> (farm, nat list) prog" where
  "StartSetup c o' sessionID =
     check (first (session_row sessionID)) (\<lambda>_. runSetup o' sessionID) (\<lambda>s.
       if ss_Mode s = ModeFullStack then runFullStack c o' sessionID else runSetup o' sessionID)"

definition fsResumePreGate :: "string list" where
  "fsResumePreGate =
     [''dns_wait'', ''env_provision'', ''k8s_provision'', ''tls_provision'', ''step_vta_setup'', ''step_mediator_p1'',
      ''step_mediator_reprov'', ''step_mediator_p2'', ''step_dids_p1'', ''step_dids_provision'', ''step_dids_p2'',
      ''step_dids_invite'', ''step_dids_load_did'', ''step_dids_grant_farm'', ''step_vta_register_dids'']"

definition fsResumePostGate :: "string list" where
  "fsResumePostGate = [''step_import_admin_did'', ''step_vtc_setup_key'', ''step_vtc_acl_grant'', ''step_vtc_setup'']"

definition fsResumeDeployment :: "string list" where
  "fsResumeDeployment = [''deploy_dids'', ''deploy_mediator'', ''deploy_vta'', ''deploy_vtc'', ''step_trust_registry'']"

definition fsResumeTerminal :: "string list" where
  "fsResumeTerminal = [''awaiting_admin_did'', ''running'', ''failed'']"

text \<open>What the process does with a session it finds when it starts.\<close>

datatype attach = Starting nat | Provisioning nat | Recovering nat

definition found :: "(setup_session \<Rightarrow> bool) \<Rightarrow> (setup_session \<Rightarrow> attach) \<Rightarrow> (attach list \<Rightarrow> (farm, 'a) prog) \<Rightarrow> (farm, 'a) prog" where
  "found P f k =
     check (select (\<lambda>d. map f (filter P (t_sessions d)))) (\<lambda>_. k []) k"

text \<open>\<open>Provision\<close> of each session found, one after the other.\<close>

fun provision_each :: "setup_session list \<Rightarrow> (farm, attach list) prog" where
  "provision_each [] = Return []"
| "provision_each (s # ss) =
     pbind (queueProvision (ss_ID s) (ss_AdminDid s)) (\<lambda>kicked.
     pbind (provision_each ss) (\<lambda>later. Return (map Provisioning kicked @ later)))"

definition provision_found :: "(setup_session \<Rightarrow> bool) \<Rightarrow> (farm, attach list) prog" where
  "provision_found P = check (select (\<lambda>d. filter P (t_sessions d))) (\<lambda>_. Return []) provision_each"

definition in_statuses :: "string list \<Rightarrow> setup_session \<Rightarrow> bool" where
  "in_statuses sts s \<longleftrightarrow> ss_Mode s = ModeFullStack \<and> ss_Status s \<in> set sts"

definition gated_with_admin :: "setup_session \<Rightarrow> bool" where
  "gated_with_admin s \<longleftrightarrow> ss_Mode s = ModeFullStack \<and> ss_Status s = ''awaiting_admin_did'' \<and> ss_AdminDid s \<noteq> []"

definition resumeFullStack :: "(farm, attach list) prog" where
  "resumeFullStack =
     found (in_statuses fsResumePreGate) (\<lambda>s. Starting (ss_ID s)) (\<lambda>started.
     pbind (provision_found (in_statuses fsResumePostGate)) (\<lambda>finishing.
     found (in_statuses fsResumeDeployment) (\<lambda>s. Recovering (ss_ID s)) (\<lambda>recovering.
     pbind (provision_found gated_with_admin) (\<lambda>gated.
       Return (started @ finishing @ recovering @ gated)))))"

definition resumable_setup :: "farm \<Rightarrow> setup_session list" where
  "resumable_setup d =
     filter (\<lambda>s. ss_Status s = ''vta_setup_running'' \<and> (\<forall>m \<in> set (t_members d). ps_SessionID m \<noteq> ss_ID s)) (t_sessions d)"

definition provisioning_with_admin :: "setup_session \<Rightarrow> bool" where
  "provisioning_with_admin s \<longleftrightarrow> ss_Status s = ''provisioning'' \<and> ss_AdminDid s \<noteq> []"

definition Resume :: "(farm, attach list) prog" where
  "Resume =
     pbind (check (select (\<lambda>d. map (\<lambda>s. Starting (ss_ID s)) (resumable_setup d))) (\<lambda>_. Return []) Return) (\<lambda>started.
     pbind (provision_found provisioning_with_admin) (\<lambda>provisioning.
     pbind resumeFullStack (\<lambda>stacks. Return (started @ provisioning @ stacks))))"

end
