(* ===== verification/StackSteps.thy ===== *)
theory StackSteps
  imports FullStackFinish FlowSteps
begin

text \<open>
  What the goroutines of a full stack do to the tables.

  \<^item> The locale \<open>steady\<close> gives the rules of every guarantee that allows an action to change nothing;
    the waits and the reads of the cluster satisfy each such guarantee.
  \<^item> \<open>climbs S n p\<close>: every action of \<open>p\<close> belongs to a level of \<open>S\<close>, and the levels never fall.
\<close>

section \<open>Guarantees that allow idling\<close>

locale steady =
  fixes G :: "farm \<Rightarrow> farm \<Rightarrow> bool"
  assumes idle: "G d d"
begin

lemma reads: "stepping (\<lambda>a b. b = a) m \<Longrightarrow> stepping G m"
  by (erule stepping_mono) (simp add: idle)

lemma steady_basic:
  "stepping G (select f)" "stepping G (first g)" "stepping G wall" "stepping G ctx_done" "stepping G (throw e)"
  "stepping G (ret x)"
  by (auto simp: stepping_def wp idle wp_ctx_done split: option.splits)

lemma steady_interact: "stepping G (interact e (\<lambda>w. (f w, tabs w)))"
  by (auto simp: stepping_def wp idle)

lemma steady_calls:
  "stepping G call_cluster" "stepping G call_service" "stepping G load_profiles" "stepping G (isPoolSession i)"
  "stepping G (list_pods key)" "stepping G (ask f)" "stepping G (get_job ns name)"
  by (auto simp: call_cluster_def call_service_def load_profiles_def isPoolSession_def list_pods_def ask_def get_job_def
      stepping_def wp idle)

lemma steady_JobLogs: "stepping G (JobLogs ns j)" "stepping G (fsJobLogs ns j)"
  by (auto simp: JobLogs_def fsJobLogs_def stepping_def wp idle split: option.splits)

lemmas steady_steps = steady_basic steady_interact steady_calls steady_JobLogs

lemma steady_at_time: "(\<And>t. always G (k t)) \<Longrightarrow> always G (at_time k)"
  unfolding at_time_def by (intro always_check steady_steps)

lemma steady_unless_done: "always G s \<Longrightarrow> always G p \<Longrightarrow> always G (unless_done s p)"
  unfolding unless_done_def by (intro always_check always_if steady_steps)

lemma steady_call_all: "(\<And>m. m \<in> set ms \<Longrightarrow> stepping G m) \<Longrightarrow> always G (call_all ms)"
  by (induction ms) (auto intro!: always_check)

lemma steady_poll: "always G body \<Longrightarrow> always G (poll_each n dl body st ex)"
  by (rule always_poll_each [OF idle])

lemma steady_settle: "always G body \<Longrightarrow> always G (settle n dl body)"
  by (induction n) (auto intro!: always_pbind steady_at_time always_check always_if steady_steps split: option.split)

lemma steady_until: "(\<And>x. x \<in> set xs \<Longrightarrow> always G (f x)) \<Longrightarrow> always G (until_error f xs)"
  by (induction f xs rule: until_error.induct) (auto intro!: always_pbind split: option.split)

lemma steady_option:
  "always G p \<Longrightarrow> (\<And>x. always G (q x)) \<Longrightarrow> always G (case r of None \<Rightarrow> p | Some x \<Rightarrow> q x)"
  by (auto split: option.split)

lemma steady_sum: "(\<And>x. always G (p x)) \<Longrightarrow> (\<And>x. always G (q x)) \<Longrightarrow> always G (case r of Inl x \<Rightarrow> p x | Inr x \<Rightarrow> q x)"
  by (auto split: sum.split)

lemma steady_prod: "(\<And>x y. always G (p x y)) \<Longrightarrow> always G (case r of (x, y) \<Rightarrow> p x y)"
  by (auto split: prod.split)

lemma steady_Return: "always G (Return a)"
  by simp

lemma steady_and_then: "always G p \<Longrightarrow> always G q \<Longrightarrow> always G (and_then p q)"
  unfolding and_then_def by (intro always_pbind steady_option steady_Return)

lemma steady_and_with: "always G p \<Longrightarrow> (\<And>a. always G (k a)) \<Longrightarrow> always G (and_with p k)"
  unfolding and_with_def by (intro always_pbind steady_sum steady_Return)

lemma steady_bind_err: "always G p \<Longrightarrow> (\<And>a. always G (k a)) \<Longrightarrow> always G (bind_err p k)"
  unfolding bind_err_def by (intro always_pbind steady_sum steady_Return)

lemma steady_seq_err: "always G p \<Longrightarrow> always G q \<Longrightarrow> always G (seq_err p q)"
  unfolding seq_err_def by (intro always_pbind steady_option steady_Return)

lemma steady_try_call: "stepping G m \<Longrightarrow> (\<And>a. always G (k a)) \<Longrightarrow> always G (try_call m k)"
  unfolding try_call_def by (intro always_check steady_Return)

lemma steady_discard: "always G p \<Longrightarrow> always G (discard p)"
  unfolding discard_def by (intro always_pbind steady_sum steady_Return)

lemmas steady_rules = always_check always_ignore always_pbind always_if steady_at_time steady_unless_done
  steady_call_all steady_poll steady_settle steady_until steady_option steady_sum steady_prod steady_Return
  steady_and_then steady_and_with steady_bind_err steady_seq_err steady_try_call steady_discard

text \<open>Functions that only read and wait.\<close>

lemma steady_WaitForJob: "always G (WaitForJob n ns j)"
  by (induction n) (auto intro!: steady_rules steady_steps split: option.split)

lemma steady_waits:
  "always G (WaitForComponentDeploymentReady ns name t)" "always G (WaitForComponentPodsGone ns sel t)"
  "always G (WaitForComponentDeploymentReadyOrRestarts ns name sel t n)" "always G (fsWaitDNS c s)"
  "always G (fsWaitCert c o' s)" "always G EnsureUserEnvironment" "always G (fsK8sProvision s)"
  unfolding WaitForComponentDeploymentReady_def WaitForComponentPodsGone_def WaitForComponentDeploymentReadyOrRestarts_def
    fsWaitDNS_def fsWaitCert_def EnsureUserEnvironment_def fsK8sProvision_def Let_def
  by (auto intro!: steady_rules steady_steps simp: idle)

lemma steady_fail_err: "always G (fsJobFailErr ns j m)"
  unfolding fsJobFailErr_def by (intro steady_rules steady_steps)

lemma steady_label: "(\<And>l. always G (k l)) \<Longrightarrow> always G (provisionAdminLabel i a f k)"
  unfolding provisionAdminLabel_def by (intro steady_rules steady_steps)

lemmas steady_waiting = steady_WaitForJob steady_waits steady_fail_err

end

section \<open>What a goroutine returns\<close>

primrec gives :: "('t, 'a) prog \<Rightarrow> ('a \<Rightarrow> bool) \<Rightarrow> bool" where
  "gives (Return a) P \<longleftrightarrow> P a"
| "gives (Act p e) P \<longleftrightarrow> (\<forall>w. gives (p w) P)"

lemma gives_True [simp]: "gives p (\<lambda>_. True)"
  by (induction p) auto

lemma gives_pbind: "gives p Q \<Longrightarrow> (\<And>a. Q a \<Longrightarrow> gives (k a) P) \<Longrightarrow> gives (pbind p k) P"
  by (induction p) auto

lemma gives_check: "(\<And>e. gives (h e) P) \<Longrightarrow> (\<And>a. gives (k a) P) \<Longrightarrow> gives (check m h k) P"
  by (auto simp: check_def split: sum.splits)

lemma always_gives: "always G p \<Longrightarrow> gives p P \<Longrightarrow> (\<And>a. P a \<Longrightarrow> always G (k a)) \<Longrightarrow> always G (pbind p k)"
  by (induction p) auto

section \<open>Levels\<close>

primrec climbs :: "(nat \<Rightarrow> 't \<Rightarrow> 't \<Rightarrow> bool) \<Rightarrow> nat \<Rightarrow> ('t, 'a) prog \<Rightarrow> bool" where
  "climbs S n (Return a) \<longleftrightarrow> True"
| "climbs S n (Act p e) \<longleftrightarrow> (\<forall>w. \<exists>m \<ge> n. S m (tabs w) (tabs (e w)) \<and> climbs S m (p w))"

lemma climbs_lower: "climbs S n p \<Longrightarrow> n' \<le> n \<Longrightarrow> climbs S n' p"
  by (cases p) (auto, meson order_trans)

lemma climbs_always: "always (S n) p \<Longrightarrow> climbs S n p"
  by (induction p) auto

lemma climbs_pbind: "always (S n) p \<Longrightarrow> (\<And>a. climbs S n (k a)) \<Longrightarrow> climbs S n (pbind p k)"
  by (induction p) auto

lemma climbs_check:
  "stepping (S n) m \<Longrightarrow> (\<And>e. climbs S n (h e)) \<Longrightarrow> (\<And>a. climbs S n (k a)) \<Longrightarrow> climbs S n (check m h k)"
  by (auto simp: check_def stepping_def wp_def case_prod_unfold split: sum.splits)

lemma climbs_ignore: "stepping (S n) m \<Longrightarrow> climbs S n p \<Longrightarrow> climbs S n (ignore m p)"
  by (simp add: ignore_def climbs_check)

lemma climbs_Return: "climbs S n (Return a)"
  by simp

lemma climbs_levels:
  assumes "climbs S n p"
  shows "\<exists>lev. (\<forall>m < length (moves p ws). n \<le> lev m \<and> S (lev m) (fst (moves p ws ! m)) (snd (moves p ws ! m))) \<and>
    (\<forall>m. \<forall>l < m. m < length (moves p ws) \<longrightarrow> lev l \<le> lev m)"
  using assms
proof (induction p arbitrary: n ws)
  case (Act p e)
  show ?case
  proof (cases ws)
    case (Cons w ws')
    from Act.prems obtain k where k: "n \<le> k" "S k (tabs w) (tabs (e w))" and rest: "climbs S k (p w)" by auto
    from Act.IH [OF rangeI rest, of ws'] obtain lev where
      lev: "\<forall>m < length (moves (p w) ws'). k \<le> lev m \<and> S (lev m) (fst (moves (p w) ws' ! m)) (snd (moves (p w) ws' ! m))"
      and up: "\<forall>m. \<forall>l < m. m < length (moves (p w) ws') \<longrightarrow> lev l \<le> lev m" by blast
    let ?lev = "\<lambda>m. case m of 0 \<Rightarrow> k | Suc m \<Rightarrow> lev m"
    have "n \<le> ?lev m \<and> S (?lev m) (fst (moves (Act p e) ws ! m)) (snd (moves (Act p e) ws ! m))"
      if "m < length (moves (Act p e) ws)" for m
      using that k lev Cons by (cases m) (auto intro: order_trans)
    moreover have "?lev l \<le> ?lev m" if "l < m" "m < length (moves (Act p e) ws)" for l m
      using that lev up Cons by (cases m; cases l) auto
    ultimately show ?thesis by (intro exI [of _ ?lev]) blast
  qed simp
qed simp

end
