(* ===== verification/StackOrder.thy ===== *)
theory StackOrder
  imports StackSteps
begin

text \<open>
  The order of a full stack's pipeline. \<open>pre_gate i\<close> is its table: per stage, the statuses it
  writes, the job it creates with the volume claims the job mounts, and the Deployment. A move of
  a goroutine belongs to a stage (\<open>stage_step\<close>) when it does only what the stage lists.
\<close>

section \<open>Statuses\<close>

definition statuses :: "'a db_scheme \<Rightarrow> (nat \<times> string) list" where
  "statuses d = map (\<lambda>s. (ss_ID s, ss_Status s)) (t_sessions d)"

definition with_status :: "nat \<Rightarrow> string \<Rightarrow> (nat \<times> string) list \<Rightarrow> (nat \<times> string) list" where
  "with_status i st = map (\<lambda>(j, x). (j, if j = i then st else x))"

definition writes :: "nat \<Rightarrow> string set \<Rightarrow> 'a db_scheme \<Rightarrow> 'b db_scheme \<Rightarrow> bool" where
  "writes i Sts a b \<longleftrightarrow> statuses b = statuses a \<or> (\<exists>st \<in> Sts. statuses b = with_status i st (statuses a))"

lemma with_status_twice [simp]: "with_status i st (with_status i st' xs) = with_status i st xs"
  by (auto simp: with_status_def)

lemma writes_refl [simp]: "writes i Sts d d"
  by (simp add: writes_def)

lemma writes_trans: "writes i Sts a b \<Longrightarrow> writes i Sts b c \<Longrightarrow> writes i Sts a c"
  unfolding writes_def by auto

lemma writes_mono: "writes i Sts a b \<Longrightarrow> Sts \<subseteq> Sts' \<Longrightarrow> writes i Sts' a b"
  unfolding writes_def by auto

interpretation stat: table_order "writes i Sts" for i Sts
  by unfold_locales (auto intro: writes_trans)

lemma statuses_update:
  "(\<And>s. ss_ID (f s) = ss_ID s) \<Longrightarrow> (\<And>s. P s \<longleftrightarrow> ss_ID s = i) \<Longrightarrow> (\<And>s. ss_Status (f s) = st) \<Longrightarrow>
   map (\<lambda>s. (ss_ID s, ss_Status s)) (update_where P f ss) = with_status i st (map (\<lambda>s. (ss_ID s, ss_Status s)) ss)"
  by (induction ss) (auto simp: with_status_def)

lemma writes_update_session:
  "(\<And>s. ss_ID (f s) = ss_ID s) \<Longrightarrow> (\<And>s. ss_Status (f s) = st) \<Longrightarrow> st \<in> Sts \<Longrightarrow> writes i Sts d (update_session i f d)"
  unfolding writes_def
  by (rule disjI2, rule bexI [of _ st]) (simp_all add: statuses_def update_session_def statuses_update)

lemma writes_update_other:
  "(\<And>s. ss_ID (f s) = ss_ID s) \<Longrightarrow> (\<And>s. ss_Status (f s) = ss_Status s) \<Longrightarrow> writes i Sts d (update_session j f d)"
proof -
  assume f: "\<And>s. ss_ID (f s) = ss_ID s" "\<And>s. ss_Status (f s) = ss_Status s"
  have "map (\<lambda>s. (ss_ID s, ss_Status s)) (update_where (\<lambda>s. ss_ID s = j) f ss) = map (\<lambda>s. (ss_ID s, ss_Status s)) ss" for ss
    by (induction ss) (auto simp: f)
  then show ?thesis by (simp add: writes_def statuses_def update_session_def)
qed

text \<open>Manual acceptance starts provisioning, and nothing else.\<close>

abbreviation provision_start :: "string set" where
  "provision_start \<equiv> {''provisioning'', ''step_import_admin_did''}"

lemma writes_begin:
  "ss_ID s = i \<Longrightarrow> provision_start \<subseteq> Sts \<Longrightarrow> stepping (writes i Sts) (beginProvision s did now)"
  unfolding beginProvision_def Let_def
  by (rule stat.stepping_exec)
     (auto simp: writes_def statuses_def update_sessions_def statuses_update [where i = i and st = "if IsFullStack s then ''step_import_admin_did'' else ''provisioning''"])

lemma writes_lapse: "stepping (writes i Sts) (lapse_open j)"
  unfolding lapse_open_def by (rule stat.stepping_exec) (simp add: writes_def statuses_def update_conns_def)

lemma writes_accept: "provision_start \<subseteq> Sts \<Longrightarrow> stepping (writes i Sts) (AcceptManual i v resume)"
  unfolding AcceptManual_def lockSession_def Current_def
  by (rule steppingI_from)
     (intro stat.from_rules stat.from_then [OF from_stepping [OF writes_begin]] writes_lapse conjI
      | auto simp: find_session_def dest!: find_SomeD)+


lemma statuses_farm [simp]:
  "statuses (db.extend x (db.more y)) = statuses x" "statuses (db_of y) = statuses y"
  by (cases y; simp add: statuses_def db.extend_def db.truncate_def)+

lemma farm_more [simp]: "k_jobs (db.extend x (db.more y)) = k_jobs y"
  by (cases y) (simp add: db.extend_def)

section \<open>Stages\<close>

record stage =
  sg_Status :: "string list"
  sg_Jobs :: "string list"
  sg_Claims :: "string list"
  sg_Deployments :: "string list"

definition new_jobs :: "stage \<Rightarrow> farm \<Rightarrow> farm \<Rightarrow> bool" where
  "new_jobs g a b \<longleftrightarrow>
     (\<forall>key. k_jobs b key = k_jobs a key \<or>
        k_jobs a key = None \<and> snd key \<in> set (sg_Jobs g) \<and>
        (\<exists>j. k_jobs b key = Some j \<and> jb_Claims j = sg_Claims g))"

definition new_deployments :: "stage \<Rightarrow> farm \<Rightarrow> farm \<Rightarrow> bool" where
  "new_deployments g a b \<longleftrightarrow>
     (\<forall>key. k_deployments b key = k_deployments a key \<or>
        k_deployments a key = None \<and> snd key \<in> set (sg_Deployments g) \<and>
        (\<exists>d. k_deployments b key = Some d \<and> dp_Claims d = [snd key]))"

definition stage_step :: "nat \<Rightarrow> stage \<Rightarrow> farm \<Rightarrow> farm \<Rightarrow> bool" where
  "stage_step i g a b \<longleftrightarrow>
     new_jobs g a b \<and> new_deployments g a b \<and> writes i (insert ''failed'' (set (sg_Status g))) a b"

definition waiting :: "string \<Rightarrow> stage" where
  "waiting st = \<lparr>sg_Status = [st], sg_Jobs = [], sg_Claims = [], sg_Deployments = []\<rparr>"

definition running_job :: "string \<Rightarrow> string \<Rightarrow> string list \<Rightarrow> stage" where
  "running_job st name claims = \<lparr>sg_Status = [st], sg_Jobs = [name], sg_Claims = claims, sg_Deployments = []\<rparr>"

definition deploying :: "string \<Rightarrow> string \<Rightarrow> stage" where
  "deploying st name = \<lparr>sg_Status = [st], sg_Jobs = [], sg_Claims = [], sg_Deployments = [name]\<rparr>"

definition at_gate :: stage where
  "at_gate =
     \<lparr>sg_Status = [''awaiting_admin_did'', ''provisioning'', ''step_import_admin_did''], sg_Jobs = [], sg_Claims = [],
      sg_Deployments = []\<rparr>"

definition pre_gate :: "nat \<Rightarrow> stage list" where
  "pre_gate i =
     [waiting ''dns_wait'', waiting ''env_provision'', waiting ''k8s_provision'', waiting ''tls_provision'',
      running_job ''step_vta_setup'' (FSJobVtaSetup i) [FSVtaName i],
      running_job ''step_mediator_p1'' (FSJobMediatorP1 i) [FSMediatorName i],
      running_job ''step_mediator_reprov'' (FSJobMediatorReprov i) [FSVtaName i, FSMediatorName i],
      running_job ''step_mediator_p2'' (FSJobMediatorP2 i) [FSMediatorName i],
      running_job ''step_dids_p1'' (FSJobDidsP1 i) [FSDidsName i],
      running_job ''step_dids_provision'' (FSJobDidsProvision i) [FSVtaName i, FSDidsName i],
      running_job ''step_dids_p2'' (FSJobDidsP2 i) [FSDidsName i],
      running_job ''step_dids_invite'' (FSJobDidsInvite i) [FSDidsName i],
      running_job ''step_dids_load_did'' (FSJobDidsLoadDid i) [FSVtaName i, FSDidsName i],
      running_job ''step_dids_grant_farm'' (FSJobDidsGrantFarm i) [FSDidsName i],
      deploying ''deploy_dids'' (FSDidsName i),
      deploying ''deploy_mediator'' (FSMediatorName i),
      running_job ''step_vta_register_dids'' (FSJobVtaRegisterDids i) [FSVtaName i],
      at_gate]"

definition pre_gate_step :: "nat \<Rightarrow> nat \<Rightarrow> farm \<Rightarrow> farm \<Rightarrow> bool" where
  "pre_gate_step i n a b \<longleftrightarrow> n < length (pre_gate i) \<and> stage_step i (pre_gate i ! n) a b"

section \<open>Single actions\<close>

lemma stage_same:
  "k_jobs b = k_jobs a \<Longrightarrow> k_deployments b = k_deployments a \<Longrightarrow> writes i (insert ''failed'' (set (sg_Status g))) a b \<Longrightarrow>
   stage_step i g a b"
  by (simp add: stage_step_def new_jobs_def new_deployments_def)

interpretation stage: steady "stage_step i g" for i g
  by unfold_locales (rule stage_same, simp_all)

lemma stage_update:
  "(\<And>s. ss_ID (f s) = ss_ID s) \<Longrightarrow> (\<And>s. ss_Status (f s) = st) \<Longrightarrow> st = ''failed'' \<or> st \<in> set (sg_Status g) \<Longrightarrow>
   stepping (stage_step i g) (exec (update_session i f))"
  by (auto simp: stepping_def wp stage.idle intro!: stage_same writes_update_session) (simp_all add: update_session_def)

lemma stage_update_other:
  "(\<And>s. ss_ID (f s) = ss_ID s) \<Longrightarrow> (\<And>s. ss_Status (f s) = ss_Status s) \<Longrightarrow> stepping (stage_step i g) (exec (update_session j f))"
  by (auto simp: stepping_def wp stage.idle intro!: stage_same writes_update_other) (simp_all add: update_session_def)

lemma stage_create_job:
  "name \<in> set (sg_Jobs g) \<Longrightarrow> jb_Claims j = sg_Claims g \<Longrightarrow> stepping (stage_step i g) (create_job (ns, name) j)"
  by (auto simp: create_job_def stepping_def wp stage.idle stage_step_def new_jobs_def new_deployments_def writes_def statuses_def
      split: option.splits)

lemma stage_create_config: "stepping (stage_step i g) (create_config key fs)"
  by (auto simp: create_config_def stepping_def wp stage.idle writes_def statuses_def intro!: stage_same split: option.splits)

lemma stage_create_deployment:
  "cd_Name spec \<in> set (sg_Deployments g) \<Longrightarrow> map pm_ClaimName (cd_PVCMounts spec) = [cd_Name spec] \<Longrightarrow>
   stepping (stage_step i g) (CreateComponentDeployment ns spec)"
  by (auto simp: CreateComponentDeployment_def create_deployment_def component_deployment_def stepping_def wp stage.idle
      stage_step_def new_jobs_def new_deployments_def writes_def statuses_def split: option.splits)

lemma stage_accept:
  assumes "provision_start \<subseteq> set (sg_Status g)"
  shows "stepping (stage_step i g) (on_db (AcceptManual i did True))"
  unfolding stepping_def wp_on_db
proof
  fix w :: "farm world"
  let ?v = "with_tabs (db_of (tabs w)) w"
  have "wp (AcceptManual i did True) (\<lambda>_ w'. writes i (insert ''failed'' (set (sg_Status g))) (tabs ?v) (tabs w')) ?v"
    using writes_accept [of "insert ''failed'' (set (sg_Status g))" i did True] assms unfolding stepping_def by blast
  then show "wp (AcceptManual i did True)
      (\<lambda>r w'. stage_step i g (tabs w) (tabs (with_tabs (db.extend (tabs w') (db.more (tabs w))) w'))) ?v"
    by (rule wp_mono) (auto simp: with_tabs_def writes_def intro!: stage_same)
qed


section \<open>Steps\<close>

lemma stage_call_job:
  "cj_Name spec \<in> set (sg_Jobs g) \<Longrightarrow> map pm_ClaimName (cj_PVCMounts spec) = sg_Claims g \<Longrightarrow>
   always (stage_step i g) (CreateComponentJob ns spec)"
  unfolding CreateComponentJob_def
  by (auto intro!: stage.steady_rules stage.steady_steps stage_create_config stage_create_job
      simp: component_job_def new_job_def)

lemma stage_run_job:
  "cj_Name spec \<in> set (sg_Jobs g) \<Longrightarrow> map pm_ClaimName (cj_PVCMounts spec) = sg_Claims g \<Longrightarrow> always (stage_step i g) p \<Longrightarrow>
   always (stage_step i g) (run_job o' ns spec p)"
  unfolding run_job_def by (intro stage.steady_rules stage.steady_waiting stage_call_job)

lemma stage_read_job:
  "cj_Name spec \<in> set (sg_Jobs g) \<Longrightarrow> map pm_ClaimName (cj_PVCMounts spec) = sg_Claims g \<Longrightarrow>
   always (stage_step i g) (read_job o' ns spec parse)"
  unfolding read_job_def by (intro stage.steady_rules stage.steady_steps stage_run_job)

lemma stage_just_run:
  "cj_Name spec \<in> set (sg_Jobs g) \<Longrightarrow> map pm_ClaimName (cj_PVCMounts spec) = sg_Claims g \<Longrightarrow>
   always (stage_step i g) (just_run o' ns spec)"
  unfolding just_run_def by (intro stage.steady_rules stage_run_job)

lemma stage_deploy:
  "cd_Name spec \<in> set (sg_Deployments g) \<Longrightarrow> map pm_ClaimName (cd_PVCMounts spec) = [cd_Name spec] \<Longrightarrow>
   always (stage_step i g) (deploy_component o' ns spec)"
  unfolding deploy_component_def deploy_ready_def
  by (intro stage.steady_rules stage.steady_steps stage.steady_waiting stage_create_deployment)

lemmas stage_work = stage_just_run stage_read_job stage_deploy stage.steady_rules

lemmas job_shape = fs_job_def webvh_job_def dids_job_def vta_job_def fs_deployment_def
  vta_mount_def mediator_mount_def dids_mount_def

lemma stage_steps:
  "ss_ID s = i \<Longrightarrow> always (stage_step j (running_job st (FSJobVtaSetup i) [FSVtaName i])) (fsStepVtaSetup o' ns s)"
  "ss_ID s = i \<Longrightarrow> always (stage_step j (running_job st (FSJobMediatorP1 i) [FSMediatorName i])) (fsStepMediatorP1 o' ns s)"
  "ss_ID s = i \<Longrightarrow> always (stage_step j (running_job st (FSJobMediatorReprov i) [FSVtaName i, FSMediatorName i])) (fsStepMediatorReprov o' ns s)"
  "ss_ID s = i \<Longrightarrow> always (stage_step j (running_job st (FSJobMediatorP2 i) [FSMediatorName i])) (fsStepMediatorP2 o' ns s digest)"
  "ss_ID s = i \<Longrightarrow> always (stage_step j (running_job st (FSJobDidsP1 i) [FSDidsName i])) (fsStepDidsP1 o' ns s)"
  "ss_ID s = i \<Longrightarrow> always (stage_step j (running_job st (FSJobDidsProvision i) [FSVtaName i, FSDidsName i])) (fsStepDidsProvision o' ns s)"
  "ss_ID s = i \<Longrightarrow> always (stage_step j (running_job st (FSJobDidsP2 i) [FSDidsName i])) (fsStepDidsP2 o' ns s digest)"
  "ss_ID s = i \<Longrightarrow> always (stage_step j (running_job st (FSJobDidsInvite i) [FSDidsName i])) (fsStepDidsInvite o' ns s)"
  "ss_ID s = i \<Longrightarrow> always (stage_step j (running_job st (FSJobDidsLoadDid i) [FSVtaName i, FSDidsName i])) (fsStepDidsLoadDid o' ns s)"
  "ss_ID s = i \<Longrightarrow> always (stage_step j (running_job st (FSJobDidsGrantFarm i) [FSDidsName i])) (fsStepDidsGrantFarm o' ns s farmDid)"
  "ss_ID s = i \<Longrightarrow> always (stage_step j (running_job st (FSJobVtaRegisterDids i) [FSVtaName i])) (fsStepVtaRegisterDids o' ns s)"
  "ss_ID s = i \<Longrightarrow> always (stage_step j (deploying st (FSDidsName i))) (fsDeployDids o' ns s)"
  "ss_ID s = i \<Longrightarrow> always (stage_step j (deploying st (FSMediatorName i))) (fsDeployMediator o' ns s)"
  unfolding fsStepVtaSetup_def fsStepMediatorP1_def fsStepMediatorReprov_def fsStepMediatorP2_def fsStepDidsP1_def
    fsStepDidsProvision_def fsStepDidsP2_def fsStepDidsInvite_def fsStepDidsLoadDid_def fsStepDidsGrantFarm_def
    fsStepVtaRegisterDids_def fsDeployDids_def fsDeployMediator_def
  by (intro stage_work; simp add: job_shape running_job_def deploying_def)+

section \<open>The pipeline\<close>

lemma length_pre_gate [simp]: "length (pre_gate i) = 18"
  by (simp add: pre_gate_def)

lemma at_level:
  "n < 18 \<Longrightarrow> always (stage_step i (pre_gate i ! n)) p \<Longrightarrow> always (pre_gate_step i n) p"
  by (erule always_mono) (simp add: pre_gate_step_def)

lemma step_at_level:
  "n < 18 \<Longrightarrow> stepping (stage_step i (pre_gate i ! n)) m \<Longrightarrow> stepping (pre_gate_step i n) m"
  by (erule stepping_mono) (simp add: pre_gate_step_def)

lemma climbs_at_time:
  assumes "n < 18" and "\<And>t. climbs (pre_gate_step i) n (k t)" shows "climbs (pre_gate_step i) n (at_time k)"
  unfolding at_time_def by (intro climbs_check step_at_level stage.steady_steps assms)

lemma climbs_status:
  assumes "n < 18" "k \<le> n" "st \<in> set (sg_Status (pre_gate i ! n))" and "climbs (pre_gate_step i) n p"
  shows "climbs (pre_gate_step i) k (fsSetStatus i st p)"
proof -
  have "climbs (pre_gate_step i) n (fsSetStatus i st p)"
    unfolding fsSetStatus_def
    by (intro climbs_at_time climbs_ignore step_at_level stage_update [where st = st] assms) (auto simp: setup_status_def assms)
  then show ?thesis by (rule climbs_lower) (rule assms(2))
qed

lemma climbs_write:
  assumes "n < 18" "\<And>s. ss_ID (f s) = ss_ID s" "\<And>s. ss_Status (f s) = ss_Status s" and "climbs (pre_gate_step i) n p"
  shows "climbs (pre_gate_step i) n (write_session i f p)"
  unfolding write_session_def by (intro climbs_ignore step_at_level stage_update_other assms)

lemma stage_failed: "always (stage_step i g) p \<Longrightarrow> always (stage_step i g) (markFailedAt i stg msg p)"
  unfolding markFailedAt_def
  by (intro stage.steady_rules stage_update [where st = "''failed''"]) (simp_all add: failed_row_def)

lemma stage_marked: "always (stage_step i g) p \<Longrightarrow> always (stage_step i g) (markFailed i msg p)"
  unfolding markFailed_def by (rule stage_failed)

lemma climbs_must_do:
  assumes "n < 18" "always (stage_step i (pre_gate i ! n)) p" "always (stage_step i (pre_gate i ! n)) stop"
    and "climbs (pre_gate_step i) n q"
  shows "climbs (pre_gate_step i) n (must_do o' i stg what stop p q)"
  unfolding must_do_def
  by (rule climbs_pbind)
     (auto intro!: at_level climbs_always stage.steady_unless_done stage_failed assms split: option.split)

lemma climbs_must:
  assumes "n < 18" "always (stage_step i (pre_gate i ! n)) p" "always (stage_step i (pre_gate i ! n)) stop"
    and "\<And>a. climbs (pre_gate_step i) n (k a)"
  shows "climbs (pre_gate_step i) n (must o' i stg what stop p k)"
  unfolding must_def
  by (rule climbs_pbind)
     (auto intro!: at_level climbs_always stage.steady_unless_done stage_failed assms split: sum.split)

lemmas climbs_rules = climbs_at_time climbs_must_do climbs_must climbs_write climbs_Return

lemma stage_table:
  "pre_gate i ! 0 = waiting ''dns_wait''" "pre_gate i ! 1 = waiting ''env_provision''"
  "pre_gate i ! 2 = waiting ''k8s_provision''" "pre_gate i ! 3 = waiting ''tls_provision''"
  "pre_gate i ! 4 = running_job ''step_vta_setup'' (FSJobVtaSetup i) [FSVtaName i]"
  "pre_gate i ! 5 = running_job ''step_mediator_p1'' (FSJobMediatorP1 i) [FSMediatorName i]"
  "pre_gate i ! 6 = running_job ''step_mediator_reprov'' (FSJobMediatorReprov i) [FSVtaName i, FSMediatorName i]"
  "pre_gate i ! 7 = running_job ''step_mediator_p2'' (FSJobMediatorP2 i) [FSMediatorName i]"
  "pre_gate i ! 8 = running_job ''step_dids_p1'' (FSJobDidsP1 i) [FSDidsName i]"
  "pre_gate i ! 9 = running_job ''step_dids_provision'' (FSJobDidsProvision i) [FSVtaName i, FSDidsName i]"
  "pre_gate i ! 10 = running_job ''step_dids_p2'' (FSJobDidsP2 i) [FSDidsName i]"
  "pre_gate i ! 11 = running_job ''step_dids_invite'' (FSJobDidsInvite i) [FSDidsName i]"
  "pre_gate i ! 12 = running_job ''step_dids_load_did'' (FSJobDidsLoadDid i) [FSVtaName i, FSDidsName i]"
  "pre_gate i ! 13 = running_job ''step_dids_grant_farm'' (FSJobDidsGrantFarm i) [FSDidsName i]"
  "pre_gate i ! 14 = deploying ''deploy_dids'' (FSDidsName i)"
  "pre_gate i ! 15 = deploying ''deploy_mediator'' (FSMediatorName i)"
  "pre_gate i ! 16 = running_job ''step_vta_register_dids'' (FSJobVtaRegisterDids i) [FSVtaName i]"
  "pre_gate i ! 17 = at_gate"
  by (simp_all add: pre_gate_def)

lemma climbs_phase_do:
  assumes "n < 18" "st \<in> set (sg_Status (pre_gate i ! n))" "k \<le> n" "always (stage_step i (pre_gate i ! n)) p"
    and "climbs (pre_gate_step i) n q"
  shows "climbs (pre_gate_step i) k (fsSetStatus i st (must_do o' i stg what (Return r) p q))"
  by (rule climbs_status [OF assms(1) assms(3) assms(2)], rule climbs_must_do [OF assms(1) assms(4) _ assms(5)]) simp

lemma climbs_phase:
  assumes "n < 18" "st \<in> set (sg_Status (pre_gate i ! n))" "k \<le> n" "always (stage_step i (pre_gate i ! n)) p"
    and "\<And>a. climbs (pre_gate_step i) n (q a)"
  shows "climbs (pre_gate_step i) k (fsSetStatus i st (must o' i stg what (Return r) p q))"
  by (rule climbs_status [OF assms(1) assms(3) assms(2)], rule climbs_must [OF assms(1) assms(4) _ assms(5)]) simp

lemma stage_status:
  "st \<in> set (sg_Status (waiting st))" "st \<in> set (sg_Status (running_job st name claims))" "st \<in> set (sg_Status (deploying st name))"
  by (simp_all add: waiting_def running_job_def deploying_def)

lemmas phases =
  climbs_phase_do [where n = 1 and st = "''env_provision''", unfolded stage_table, simplified stage_status, simplified]
  climbs_phase_do [where n = 2 and st = "''k8s_provision''", unfolded stage_table, simplified stage_status, simplified]
  climbs_phase_do [where n = 3 and st = "''tls_provision''", unfolded stage_table, simplified stage_status, simplified]
  climbs_phase [where n = 4 and st = "''step_vta_setup''", unfolded stage_table, simplified stage_status, simplified]
  climbs_phase_do [where n = 5 and st = "''step_mediator_p1''", unfolded stage_table, simplified stage_status, simplified]
  climbs_phase [where n = 6 and st = "''step_mediator_reprov''", unfolded stage_table, simplified stage_status, simplified]
  climbs_phase [where n = 7 and st = "''step_mediator_p2''", unfolded stage_table, simplified stage_status, simplified]
  climbs_phase_do [where n = 8 and st = "''step_dids_p1''", unfolded stage_table, simplified stage_status, simplified]
  climbs_phase [where n = 9 and st = "''step_dids_provision''", unfolded stage_table, simplified stage_status, simplified]
  climbs_phase [where n = 10 and st = "''step_dids_p2''", unfolded stage_table, simplified stage_status, simplified]
  climbs_phase [where n = 11 and st = "''step_dids_invite''", unfolded stage_table, simplified stage_status, simplified]
  climbs_phase_do [where n = 12 and st = "''step_dids_load_did''", unfolded stage_table, simplified stage_status, simplified]
  climbs_phase_do [where n = 13 and st = "''step_dids_grant_farm''", unfolded stage_table, simplified stage_status, simplified]
  climbs_phase_do [where n = 14 and st = "''deploy_dids''", unfolded stage_table, simplified stage_status, simplified]
  climbs_phase_do [where n = 15 and st = "''deploy_mediator''", unfolded stage_table, simplified stage_status, simplified]
  climbs_phase_do [where n = 16 and st = "''step_vta_register_dids''", unfolded stage_table, simplified stage_status, simplified]

lemma climbs_gate: "ss_ID s = i \<Longrightarrow> climbs (pre_gate_step i) 16 (fs_gate s)"
proof -
  assume i: "ss_ID s = i"
  have "stepping (pre_gate_step i 17) (on_db (AcceptManual i did True))" for did
    by (intro step_at_level stage_accept) (simp_all add: stage_table at_gate_def)
  then have "climbs (pre_gate_step i) 17 (queueProvision i did)" for did
    unfolding queueProvision_def by (intro climbs_check climbs_Return)
  then have "climbs (pre_gate_step i) 16 (queueProvision i did)" for did
    by (rule climbs_lower) simp
  moreover have "climbs (pre_gate_step i) 16 (fsSetStatus i ''awaiting_admin_did'' (Return [] :: (farm, nat list) prog))"
    by (rule climbs_status [where n = 17]) (simp_all add: stage_table at_gate_def)
  ultimately show ?thesis unfolding fs_gate_def i by simp
qed

lemma climbs_deploy: "ss_ID s = i \<Longrightarrow> k \<le> 14 \<Longrightarrow> climbs (pre_gate_step i) k (fs_deploy o' ns s)"
  unfolding fs_deploy_def Let_def
  by (simp only:) (intro phases stage_steps climbs_gate; simp)

lemma climbs_if: "climbs S n p \<Longrightarrow> climbs S n q \<Longrightarrow> climbs S n (if c then p else q)"
  by simp

lemma climbs_fill_dids: "ss_ID s = i \<Longrightarrow> k \<le> 12 \<Longrightarrow> climbs (pre_gate_step i) k (fs_fill_dids c o' ns s)"
  unfolding fs_fill_dids_def Let_def
  by (simp only:) (intro phases stage_steps climbs_deploy climbs_if; simp)

lemma row_ids [simp]:
  "ss_ID (dids_row ids s) = ss_ID s" "ss_Status (dids_row ids s) = ss_Status s"
  "ss_ID (enroll_row e s) = ss_ID s" "ss_Status (enroll_row e s) = ss_Status s"
  "ss_ID (vta_row v s) = ss_ID s" "ss_Status (vta_row v s) = ss_Status s"
  by (simp_all add: dids_row_def enroll_row_def vta_row_def split: prod.splits)

lemma climbs_dids: "ss_ID s = i \<Longrightarrow> k \<le> 8 \<Longrightarrow> climbs (pre_gate_step i) k (fs_dids c o' ns s)"
  unfolding fs_dids_def Let_def
  by (simp only:) (intro phases stage_steps climbs_rules climbs_fill_dids; simp)

lemma climbs_prod: "(\<And>x y. climbs S n (p x y)) \<Longrightarrow> climbs S n (case r of (x, y) \<Rightarrow> p x y)"
  by (simp split: prod.split)

lemma climbs_mediator: "ss_ID s = i \<Longrightarrow> k \<le> 5 \<Longrightarrow> climbs (pre_gate_step i) k (fs_mediator c o' ns s)"
  unfolding fs_mediator_def Let_def
  by (simp only:) (intro phases stage_steps climbs_rules climbs_prod climbs_dids; simp)

lemma climbs_vta: "ss_ID s = i \<Longrightarrow> k \<le> 4 \<Longrightarrow> climbs (pre_gate_step i) k (fs_vta c o' ns s)"
  unfolding fs_vta_def Let_def
  by (simp only:) (intro phases stage_steps climbs_rules climbs_mediator; simp)

lemma climbs_environment: "ss_ID s = i \<Longrightarrow> climbs (pre_gate_step i) 0 (fs_environment c o' ns s)"
  unfolding fs_environment_def Let_def
  by (simp only:)
     (intro phases climbs_rules climbs_if climbs_vta stage.steady_waiting stage.steady_rules stage.steady_steps; simp add: stage.steady_steps)

lemma climbs_option:
  "climbs S n p \<Longrightarrow> (\<And>x. climbs S n (q x)) \<Longrightarrow> climbs S n (case r of None \<Rightarrow> p | Some x \<Rightarrow> q x)"
  by (simp split: option.split)

lemma climbs_session:
  assumes "\<And>a. S n a a" and "\<And>e. climbs S n (h e)" and "\<And>s. ss_ID s = i \<Longrightarrow> climbs S n (k s)"
  shows "climbs S n (check (first (session_row i)) h k)"
  using assms
  by (auto simp: check_def first_def session_row_def bnd_def select_def interact_def throw_def ret_def
      split: sum.splits option.splits dest!: find_SomeD intro!: exI [of _ n])

lemma climbs_unless_done:
  "n < 18 \<Longrightarrow> climbs (pre_gate_step i) n p \<Longrightarrow> climbs (pre_gate_step i) n q \<Longrightarrow> climbs (pre_gate_step i) n (unless_done p q)"
  unfolding unless_done_def by (intro climbs_check climbs_if step_at_level stage.steady_steps)

lemma climbs_marked: "n < 18 \<Longrightarrow> climbs (pre_gate_step i) n (markFailed i msg (Return r))"
  by (intro climbs_always at_level stage_marked) simp_all

lemma climbs_runFullStack: "climbs (pre_gate_step i) 0 (runFullStack c o' i)"
  unfolding runFullStack_def Let_def
  by (rule climbs_session)
     (auto intro!: climbs_if climbs_marked climbs_status [where n = 0] climbs_pbind climbs_option climbs_environment
        climbs_unless_done climbs_check at_level step_at_level stage.steady_waiting stage.steady_steps
      simp: stage_table waiting_def pre_gate_step_def stage.idle)

section \<open>Order\<close>

lemma climbs_list:
  assumes "climbs S n p"
  shows "\<exists>levels. sorted levels \<and> list_all2 (\<lambda>m (a, b). S m a b) levels (moves p ws)"
proof -
  from climbs_levels [OF assms, of ws] obtain lev where
    step: "\<forall>m < length (moves p ws). S (lev m) (fst (moves p ws ! m)) (snd (moves p ws ! m))"
    and up: "\<forall>m. \<forall>l < m. m < length (moves p ws) \<longrightarrow> lev l \<le> lev m" by blast
  let ?levels = "map lev [0..<length (moves p ws)]"
  from up have "sorted ?levels" by (auto simp: sorted_iff_nth_mono le_less)
  moreover from step have "list_all2 (\<lambda>m (a, b). S m a b) ?levels (moves p ws)"
    by (auto simp: list_all2_conv_all_nth case_prod_unfold)
  ultimately show ?thesis by blast
qed

text \<open>
  C31. The pipeline runs in the order of its table: every move of a run belongs to one of its
  stages, does nothing to jobs, Deployments and the statuses of the sessions but what the table
  lists for that stage (or mark the session failed), and never falls back to an earlier stage.
\<close>

theorem pipeline_in_order:
  "\<exists>stages. sorted stages \<and> list_all2 (\<lambda>n (a, b). pre_gate_step i n a b) stages (moves (runFullStack c o' i) ws)"
  by (rule climbs_list) (rule climbs_runFullStack)

lemma names_differ [simp]:
  "FSVtaName i \<noteq> FSDidsName i" "FSVtaName i \<noteq> FSMediatorName i" "FSMediatorName i \<noteq> FSDidsName i"
  "FSDidsName i \<noteq> FSVtaName i" "FSMediatorName i \<noteq> FSVtaName i" "FSDidsName i \<noteq> FSMediatorName i"
  by (simp_all add: FSVtaName_def FSDidsName_def FSMediatorName_def)

lemma claims_before_deployment:
  assumes "n < 18" "k < 18" "name \<in> set (sg_Deployments (pre_gate i ! n))" "name \<in> set (sg_Claims (pre_gate i ! k))"
  shows "k < n"
proof -
  have "list_all (\<lambda>g. sg_Deployments g = []) (take 14 (pre_gate i))" "sg_Deployments (pre_gate i ! 16) = []"
    "sg_Deployments (pre_gate i ! 17) = []"
    by (simp_all add: pre_gate_def stage_table waiting_def running_job_def at_gate_def)
  then have n: "n = 14 \<or> n = 15"
  proof -
    consider "n < 14" | "n = 14" | "n = 15" | "n = 16" | "n = 17" using assms(1) by linarith
    then show ?thesis
    proof cases
      case 1
      then have "pre_gate i ! n \<in> set (take 14 (pre_gate i))" by (auto simp: in_set_conv_nth intro!: exI [of _ n])
      then show ?thesis using assms(3) \<open>list_all _ _\<close> by (auto simp: list_all_iff)
    qed (use assms(3) \<open>sg_Deployments (pre_gate i ! 16) = []\<close> \<open>sg_Deployments (pre_gate i ! 17) = []\<close> in auto)
  qed
  then have name: "name = FSDidsName i \<or> name = FSMediatorName i"
    using assms(3) by (auto simp: stage_table deploying_def)
  have "list_all (\<lambda>g. FSDidsName i \<notin> set (sg_Claims g) \<and> FSMediatorName i \<notin> set (sg_Claims g)) (drop 14 (pre_gate i))"
    by (simp add: pre_gate_def deploying_def running_job_def at_gate_def)
  then have late: "FSDidsName i \<notin> set (sg_Claims (pre_gate i ! (14 + j)))" "FSMediatorName i \<notin> set (sg_Claims (pre_gate i ! (14 + j)))"
    if "j < 4" for j using that by (auto simp: list_all_length)
  have "k < 14"
  proof (rule ccontr)
    assume "\<not> k < 14"
    then obtain j where "k = 14 + j" using le_Suc_ex not_less by blast
    with late [of j] name assms(2,4) show False by auto
  qed
  with n show ?thesis by auto
qed

text \<open>The volume claims of the Deployments and of the jobs a move creates.\<close>

definition daemon_volumes :: "farm \<times> farm \<Rightarrow> string set" where
  "daemon_volumes = (\<lambda>(a, b).
     {v. \<exists>key d. k_deployments a key = None \<and> k_deployments b key = Some d \<and> v \<in> set (dp_Claims d)})"

definition job_volumes :: "farm \<times> farm \<Rightarrow> string set" where
  "job_volumes = (\<lambda>(a, b). {v. \<exists>key j. k_jobs a key = None \<and> k_jobs b key = Some j \<and> v \<in> set (jb_Claims j)})"

lemma step_volumes:
  assumes "pre_gate_step i n a b"
  shows "n < 18" "daemon_volumes (a, b) \<subseteq> set (sg_Deployments (pre_gate i ! n))"
    "job_volumes (a, b) \<subseteq> set (sg_Claims (pre_gate i ! n))"
proof -
  from assms have deps: "new_deployments (pre_gate i ! n) a b" and jobs: "new_jobs (pre_gate i ! n) a b" and "n < 18"
    by (auto simp: pre_gate_step_def stage_step_def)
  then show "n < 18" by simp
  show "daemon_volumes (a, b) \<subseteq> set (sg_Deployments (pre_gate i ! n))"
  proof
    fix v assume "v \<in> daemon_volumes (a, b)"
    then obtain key d where "k_deployments a key = None" "k_deployments b key = Some d" "v \<in> set (dp_Claims d)"
      by (auto simp: daemon_volumes_def)
    with deps [unfolded new_deployments_def, THEN spec, of key] show "v \<in> set (sg_Deployments (pre_gate i ! n))" by auto
  qed
  show "job_volumes (a, b) \<subseteq> set (sg_Claims (pre_gate i ! n))"
  proof
    fix v assume "v \<in> job_volumes (a, b)"
    then obtain key j where "k_jobs a key = None" "k_jobs b key = Some j" "v \<in> set (jb_Claims j)"
      by (auto simp: job_volumes_def)
    with jobs [unfolded new_jobs_def, THEN spec, of key] show "v \<in> set (sg_Claims (pre_gate i ! n))" by auto
  qed
qed

lemma volumes_apart:
  assumes "pre_gate_step i n a b" "pre_gate_step i k a' b'" "n \<le> k"
  shows "daemon_volumes (a, b) \<inter> job_volumes (a', b') = {}"
  using step_volumes [OF assms(1)] step_volumes [OF assms(2)] claims_before_deployment [of n k _ i] assms(3) by fastforce

text \<open>
  C32. Once a run has started a daemon it never again creates a job on the daemon's volume: of two
  moves, the later one creates no job that mounts a claim of a Deployment the earlier one creates.
\<close>

theorem jobs_before_daemons:
  "sorted_wrt (\<lambda>earlier later. daemon_volumes earlier \<inter> job_volumes later = {}) (moves (runFullStack c o' i) ws)"
proof -
  obtain stages where sorted: "sorted stages"
    and steps: "list_all2 (\<lambda>n (a, b). pre_gate_step i n a b) stages (moves (runFullStack c o' i) ws)"
    using climbs_list [OF climbs_runFullStack] by blast
  show ?thesis
    unfolding sorted_wrt_iff_nth_less
  proof (intro allI impI)
    fix l m assume lm: "l < m" "m < length (moves (runFullStack c o' i) ws)"
    let ?ms = "moves (runFullStack c o' i) ws"
    from steps lm have "pre_gate_step i (stages ! l) (fst (?ms ! l)) (snd (?ms ! l))"
      "pre_gate_step i (stages ! m) (fst (?ms ! m)) (snd (?ms ! m))" "length stages = length ?ms"
      by (auto simp: list_all2_conv_all_nth case_prod_unfold)
    moreover from this(3) sorted lm have "stages ! l \<le> stages ! m" by (simp add: sorted_iff_nth_mono)
    ultimately show "daemon_volumes (?ms ! l) \<inter> job_volumes (?ms ! m) = {}"
      using volumes_apart [of i "stages ! l" "fst (?ms ! l)" "snd (?ms ! l)" "stages ! m" "fst (?ms ! m)" "snd (?ms ! m)"] by simp
  qed
qed

end
