(* ===== verification/StackKeeps.thy ===== *)
theory StackKeeps
  imports StackOrder
begin

text \<open>
  The jobs, windows and calls of the Trust Registry and of the steps of a full stack never touch the
  status of a session: they satisfy every guarantee that only speaks of statuses.
\<close>

lemma statuses_simps [simp]:
  "statuses (d\<lparr>k_jobs := js\<rparr>) = statuses d" "statuses (d\<lparr>k_configs := cs\<rparr>) = statuses d"
  "statuses (d\<lparr>k_deployments := ds\<rparr>) = statuses d" "statuses (d\<lparr>k_deployments := ds, k_names := ns\<rparr>) = statuses d"
  "statuses (d\<lparr>t_conns := cns\<rparr>) = statuses d" "statuses (d\<lparr>pg_locks := ls\<rparr>) = statuses d"
  by (simp_all add: statuses_def)

lemma statuses_update_other:
  "(\<And>s. ss_ID (f s) = ss_ID s) \<Longrightarrow> (\<And>s. ss_Status (f s) = ss_Status s) \<Longrightarrow> statuses (update_session j f d) = statuses d"
  using writes_update_other [of f 0 "{}" d j] by (simp add: writes_def)

locale status_only =
  fixes G :: "farm \<Rightarrow> farm \<Rightarrow> bool"
  assumes same_statuses: "statuses b = statuses a \<Longrightarrow> G a b"
begin

lemma steady: "steady G"
  by unfold_locales (rule same_statuses, simp)

lemmas rules = steady.steady_rules [OF steady]
lemmas reading = steady.steady_steps [OF steady] steady.steady_waiting [OF steady]

lemma keeps_interact: "(\<And>w. statuses (snd (f w)) = statuses (tabs w)) \<Longrightarrow> stepping G (interact e f)"
  by (auto simp: stepping_def wp intro: same_statuses)

lemma keeps_revising: "stepping G (revising key f)"
proof -
  have "statuses (snd (revise key f d)) = statuses d" for d
    by (cases rule: revise_cases [of key f d]) simp_all
  then show ?thesis by (auto simp: stepping_def wp_revising intro: same_statuses)
qed

lemma keeps_update:
  "(\<And>s. ss_ID (f s) = ss_ID s) \<Longrightarrow> (\<And>s. ss_Status (f s) = ss_Status s) \<Longrightarrow> stepping G (exec (update_session j f))"
  by (auto simp: stepping_def wp intro!: same_statuses statuses_update_other)

lemma keeps_steps:
  "stepping G (create_job key j)" "stepping G (create_config key fs)" "stepping G (delete_job key)"
  "stepping G (delete_config key)" "stepping G (CreateComponentDeployment ns spec)"
  "stepping G (RecoverDeploymentImage ns name img)" "stepping G (ScaleComponentDeployment ns name n)"
  unfolding create_job_def create_config_def delete_job_def delete_config_def CreateComponentDeployment_def
    create_deployment_def RecoverDeploymentImage_def ScaleComponentDeployment_def
  by (auto intro!: keeps_interact keeps_revising split: option.split)

lemma keeps_update_document: "stepping G (UpdateDIDDocument env)"
  by (auto simp: UpdateDIDDocument_def stepping_def wp_def interact_def intro: same_statuses)

lemmas steps = keeps_steps keeps_update_document reading

section \<open>Jobs\<close>

lemma keeps_delete: "always G p \<Longrightarrow> always G (DeleteComponentJob ns name p)"
  unfolding DeleteComponentJob_def by (intro rules steps)

lemma keeps_create: "always G (CreateComponentJob ns spec)"
  unfolding CreateComponentJob_def by (auto intro!: rules steps)

lemma keeps_job_gone: "always G (job_gone ns name)"
  unfolding job_gone_def by (intro rules steps)

lemma keeps_registry_jobs:
  "always G (PrepareRegistryJob ns name b)" "always G (FinishRegistryJobs o' ns names)" "always G (CleanupFailedRegistryJobs o' ns names)"
  unfolding PrepareRegistryJob_def FinishRegistryJobs_def finish_registry_job_def CleanupFailedRegistryJobs_def cleanup_registry_job_def
  by (auto intro!: rules steps keeps_delete keeps_job_gone)

lemma keeps_run: "always G p \<Longrightarrow> always G (run_job o' ns spec p)"
  unfolding run_job_def by (intro rules steps keeps_create)

lemma keeps_read: "always G (read_job o' ns spec parse)" "always G (just_run o' ns spec)"
  unfolding read_job_def just_run_def by (intro rules steps keeps_run)+

lemma keeps_deploy: "always G (deploy_component o' ns spec)"
  unfolding deploy_component_def deploy_ready_def by (intro rules steps)

lemmas work = keeps_delete keeps_create keeps_registry_jobs keeps_run keeps_read keeps_deploy rules steps

section \<open>The Trust Registry\<close>

lemma keeps_phase: "always G (RegistryPhase i phase)"
  unfolding RegistryPhase_def by (auto intro!: rules keeps_update)

lemma keeps_failure: "(\<And>e. always G (k e)) \<Longrightarrow> always G (with_failure o' ns name phase reason k)"
  unfolding with_failure_def by (intro rules steps)

lemma keeps_job: "always G (registryJob o' ns s phase img dir command mounts inputs)"
  unfolding registryJob_def Let_def by (intro work keeps_failure)

lemma keeps_stopped: "always G fn \<Longrightarrow> always G (registryStopped o' ns i component fn)"
  unfolding registryStopped_def restart_component_def by (auto intro!: work)

lemma keeps_forget: "always G p \<Longrightarrow> always G (forget_output p)"
  unfolding forget_output_def by (intro rules)

lemmas windows = keeps_phase keeps_job keeps_stopped keeps_forget

lemma keeps_provision: "always G (provisionRegistry env o' ns s)"
  unfolding provisionRegistry_def verify_receipt_def grant_registry_def provision_identity_def Let_def
  by (auto intro!: windows work keeps_update)

lemma keeps_publish: "always G (publishRegistryReferral env o' ns s)"
  unfolding publishRegistryReferral_def update_at_vta_def WaitUntilHostReachable_def Let_def
  by (auto intro!: windows work)

lemma keeps_restore: "always G (restoreRegistryVtc o' ns s)"
  unfolding restoreRegistryVtc_def by (intro windows)

lemma keeps_config: "(\<And>x. always G (k x)) \<Longrightarrow> always G (registryVtcConfig env wrap k)"
  unfolding registryVtcConfig_def by (intro rules steps)

lemma keeps_switch: "always G (switch_vtc env o' ns s)"
  unfolding switch_vtc_def or_restore_def by (auto intro!: keeps_config keeps_restore windows work)

lemma keeps_deploy_registry: "always G (deployTrustRegistry env o' ns s)"
  unfolding deployTrustRegistry_def exec_in_pod_def Let_def by (auto intro!: work)

lemma keeps_verify: "always G (verify_registry env o' s)"
  unfolding verify_registry_def by (auto intro!: work keeps_update split: sum.split prod.split bool.split)

lemma keeps_preflight: "always G (preflight env o' ns s)"
  unfolding preflight_def Let_def by (auto intro!: keeps_config work)

lemma keeps_enable: "always G (EnableTrustRegistry env o' s)"
  unfolding EnableTrustRegistry_def after_identity_def recover_component_def Let_def
  by (intro keeps_preflight keeps_verify keeps_restore keeps_switch keeps_publish keeps_provision keeps_deploy_registry windows work)

lemma keeps_prepare: "always G (prepareRegistryForVtc env o' ns s)"
  unfolding prepareRegistryForVtc_def
  by (auto intro!: keeps_provision work keeps_update simp: registry_failed_def)

section \<open>Steps and Deployments\<close>

lemma keeps_fs_steps:
  "always G (fsStepImportAdminDid o' ns s did)" "always G (fsStepVtcSetupKey o' ns s)" "always G (fsStepVtcAclGrant o' ns s key)"
  "always G (fsStepVtcSetup c o' ns s)" "always G (fsStepVtaRegisterDids o' ns s)"
  "always G (fsDeployDids o' ns s)" "always G (fsDeployMediator o' ns s)" "always G (fsDeployVta o' ns s)"
  "always G (fsDeployVtc o' ns s)" "always G (reconcileFullStackRecoveryImages o' ns s)"
  unfolding fsStepImportAdminDid_def fsStepVtcSetupKey_def fsStepVtcAclGrant_def fsStepVtcSetup_def fsStepVtaRegisterDids_def
    fsDeployDids_def fsDeployMediator_def fsDeployVta_def fsDeployVtc_def reconcileFullStackRecoveryImages_def reconcile_image_def Let_def
  by (auto intro!: keeps_prepare work steady.steady_label [OF steady])

lemma keeps_write:
  "(\<And>r. ss_ID (f r) = ss_ID r) \<Longrightarrow> (\<And>r. ss_Status (f r) = ss_Status r) \<Longrightarrow> always G p \<Longrightarrow> always G (write_session i f p)"
  unfolding write_session_def by (intro rules keeps_update)

end

end
