(* ===== verification/StackReturns.thy ===== *)
theory StackReturns
  imports StackSteps SetupProps
begin

text \<open>
  Every goroutine of a full stack returns: a bound on the actions of each of its parts, in the polls
  a process lives to make of one job.
\<close>

section \<open>Composition\<close>

lemma within_and_then: "within p m \<Longrightarrow> within q n \<Longrightarrow> within (and_then p q) (m + n)"
  unfolding and_then_def by (erule within_pbind) (simp split: option.split)

lemma within_and_with: "within p m \<Longrightarrow> (\<And>a. within (k a) n) \<Longrightarrow> within (and_with p k) (m + n)"
  unfolding and_with_def by (erule within_pbind) (simp split: sum.split)

lemma within_bind_err: "within p m \<Longrightarrow> (\<And>a. within (k a) n) \<Longrightarrow> within (bind_err p k) (m + n)"
  unfolding bind_err_def by (erule within_pbind) (simp split: sum.split)

lemma within_seq_err: "within p m \<Longrightarrow> within q n \<Longrightarrow> within (seq_err p q) (m + n)"
  unfolding seq_err_def by (erule within_pbind) (simp split: option.split)

lemma within_try_call: "(\<And>a. within (k a) n) \<Longrightarrow> within (try_call m k) (Suc n)"
  unfolding try_call_def by (intro within_check) simp_all

lemma within_discard: "within p n \<Longrightarrow> within (discard p) n"
  unfolding discard_def by (drule within_pbind [where n = 0]) (auto split: sum.split)

lemma within_until: "(\<And>x. x \<in> set xs \<Longrightarrow> within (f x) n) \<Longrightarrow> within (until_error f xs) (length xs * n)"
proof (induction f xs rule: until_error.induct)
  case (2 f x xs)
  have "within (f x) n" "within (until_error f xs) (length xs * n)" using 2 by auto
  then show ?case by (auto intro!: within_pbind split: option.split)
qed simp

lemma within_settle: "within body n \<Longrightarrow> within (settle m dl body) (Suc m * (n + 2))"
proof (induction m)
  case 0
  then show ?case by (auto elim: within_mono)
next
  case (Suc m)
  define N where "N = Suc m * (n + 2)"
  have rest: "within (settle m dl body) N" using Suc by (simp only: N_def)
  have "within (settle (Suc m) dl body) (n + Suc (Suc N))"
    unfolding settle.simps using Suc.prems
    by (rule within_pbind) (auto split: option.split intro!: within_at_time within_check rest)
  then show ?case by (rule within_mono) (simp add: N_def)
qed

lemma within_DeleteComponentJob: "within p n \<Longrightarrow> within (DeleteComponentJob ns name p) (n + 3)"
  unfolding DeleteComponentJob_def by (rule within_mono, (rule within_rules | assumption)+, simp)

named_theorems within_stack

lemmas within_stack_rules = within_and_then within_and_with within_bind_err within_seq_err within_try_call
  within_discard within_settle within_DeleteComponentJob within_rules

section \<open>Waits and jobs\<close>

lemma within_stack_waits [within_stack]:
  "within (WaitForComponentPodsGone ns sel (2 * minute)) 250" "within (WaitForComponentPodsGone ns sel minute) 150"
  "within (WaitForComponentDeploymentReadyOrRestarts ns name sel (2 * minute) 3) 300"
  "within (WaitForComponentDeploymentReadyOrRestarts ns name sel (3 * minute) 3) 400"
  "within (WaitUntilHostReachable (3 * minute)) 600"
  unfolding WaitForComponentPodsGone_def WaitForComponentDeploymentReadyOrRestarts_def WaitUntilHostReachable_def Let_def
  by (rule within_mono, (rule within_poll_each within_rules)+, simp add: minute_def second_def)+

lemma within_settles [within_stack]: "within (fsWaitDNS c s) 100" "within (fsWaitCert c o' s) 150"
proof -
  have "within (Act (\<lambda>w. Return (dns_error want (sk_dns c (tick w)))) (\<lambda>w. w\<lparr>tick := Suc (tick w)\<rparr>) :: (farm, err option) prog) 1" for want
    by simp
  then show "within (fsWaitDNS c s) 100"
    unfolding fsWaitDNS_def Let_def fsDNSWaitBudget_def fsDNSWaitInterval_def
    by - (rule within_mono, (rule within_at_time within_settle | assumption)+, simp add: minute_def second_def)
  show "within (fsWaitCert c o' s) 150"
    unfolding fsWaitCert_def fsCertWaitBudget_def fsCertWaitInterval_def
    by (rule within_mono, (rule within_stack_rules)+, simp add: minute_def second_def)
qed

lemma within_CreateComponentJob [within_stack]: "within (CreateComponentJob ns spec) 3"
  unfolding CreateComponentJob_def by (rule within_mono, (rule within_stack_rules)+, simp)

lemma within_registry_jobs [within_stack]:
  "within (PrepareRegistryJob ns name b) 260"
  "within (finish_registry_job o' ns name) (160 + 2 * or_polls o')"
  "within (cleanup_registry_job o' ns name) 700"
  unfolding PrepareRegistryJob_def finish_registry_job_def cleanup_registry_job_def job_gone_def
  by (rule within_mono, (rule within_poll_each within_stack within_stack_rules)+, simp)+

lemma within_run_job: "within p n \<Longrightarrow> within (run_job o' ns spec p) (n + 10 + 2 * or_polls o')"
  unfolding run_job_def fsJobFailErr_def
  by (rule within_mono, (rule within_stack within_stack_rules | assumption)+, simp)

lemma within_read_job: "within (read_job o' ns spec parse) (20 + 2 * or_polls o')"
  unfolding read_job_def by (rule within_mono, (rule within_run_job within_stack_rules)+, simp)

lemma within_just_run: "within (just_run o' ns spec) (20 + 2 * or_polls o')"
  unfolding just_run_def by (rule within_mono, (rule within_run_job within_stack_rules)+, simp)

lemma within_deploy [within_stack]: "within (deploy_component o' ns spec) 210"
  unfolding deploy_component_def deploy_ready_def by (rule within_mono, (rule within_flow within_stack within_stack_rules)+, simp)

section \<open>The Trust Registry\<close>

lemma within_one [within_stack]: "within (call_all [m]) 1"
  using within_call_all [of "[m]"] by simp

lemma within_phase [within_stack]: "within (RegistryPhase i phase) 2"
  unfolding RegistryPhase_def by (rule within_mono, (rule within_stack within_stack_rules)+, simp)

lemma within_failure: "(\<And>e. within (k e) n) \<Longrightarrow> within (with_failure o' ns name phase reason k) (Suc n)"
  unfolding with_failure_def by (intro within_check)

lemma within_registryJob [within_stack]: "within (registryJob o' ns s phase img dir command mounts inputs) (500 + 2 * or_polls o')"
  unfolding registryJob_def Let_def by (rule within_mono, (rule within_failure within_stack within_stack_rules)+, simp)

lemma within_stopped: "within fn n \<Longrightarrow> within (registryStopped o' ns i component fn) (n + 600)"
  unfolding registryStopped_def restart_component_def
  by (rule within_mono, (rule within_stack within_stack_rules | assumption)+, simp)

lemma within_forget: "within p n \<Longrightarrow> within (forget_output p) n"
  unfolding forget_output_def by (drule within_and_with [where n = 0]) auto

lemmas within_windows = within_stopped within_forget

lemma within_jobs_of_registry [within_stack]:
  "within (FinishRegistryJobs o' ns (registryJobNames i)) (1300 + 16 * or_polls o')"
  "within (CleanupFailedRegistryJobs o' ns (registryJobNames i)) 6000"
  unfolding FinishRegistryJobs_def CleanupFailedRegistryJobs_def
  by (rule within_mono, (rule within_until within_stack)+, simp add: registryJobNames_def)+

lemma within_provision [within_stack]: "within (provisionRegistry env o' ns s) (5000 + 30 * or_polls o')"
  unfolding provisionRegistry_def verify_receipt_def grant_registry_def provision_identity_def Let_def
  by (rule within_mono, (rule within_windows within_stack within_stack_rules)+, simp)

lemma within_publish_referral [within_stack]: "within (publishRegistryReferral env o' ns s) (2000 + 2 * or_polls o')"
  unfolding publishRegistryReferral_def update_at_vta_def
  by (rule within_mono, (rule within_windows within_stack within_stack_rules)+, simp)

lemma within_restoring [within_stack]: "within (restoreRegistryVtc o' ns s) (1200 + 2 * or_polls o')"
  unfolding restoreRegistryVtc_def by (rule within_mono, (rule within_windows within_stack)+, simp)

lemma within_config: "(\<And>x. within (k x) n) \<Longrightarrow> within (registryVtcConfig env wrap k) (n + 2)"
  unfolding registryVtcConfig_def by (rule within_mono, (rule within_rules | assumption)+, simp)

lemma within_switch [within_stack]: "within (switch_vtc env o' ns s) (2500 + 4 * or_polls o')"
  unfolding switch_vtc_def or_restore_def
  by (rule within_mono, (rule within_config within_windows within_stack within_stack_rules)+, simp)

lemma within_deploy_registry [within_stack]: "within (deployTrustRegistry env o' ns s) 500"
  unfolding deployTrustRegistry_def exec_in_pod_def Let_def
  by (rule within_mono, (rule within_stack within_stack_rules)+, simp)

lemma within_bool: "within p m \<Longrightarrow> within q n \<Longrightarrow> within (case b of True \<Rightarrow> p | False \<Rightarrow> q) (max m n)"
  by (auto intro: within_max split: bool.split)

lemma within_verify [within_stack]: "within (verify_registry env o' s) 5"
  unfolding verify_registry_def by (rule within_mono, (rule within_bool within_stack within_stack_rules)+, simp)

lemma within_preflight [within_stack]: "within (preflight env o' ns s) 5"
  unfolding preflight_def Let_def by (rule within_mono, (rule within_config within_stack_rules)+, simp)

lemma within_recover_component [within_stack]: "within (recover_component o' ns s component) (1500 + 2 * or_polls o')"
  unfolding recover_component_def Let_def by (rule within_mono, (rule within_flow within_stack within_stack_rules)+, simp)

lemma within_after_identity [within_stack]: "within (after_identity env o' ns s) (6000 + 8 * or_polls o')"
  unfolding after_identity_def Let_def by (rule within_mono, (rule within_stack within_stack_rules)+, simp)

lemma within_enable [within_stack]: "within (EnableTrustRegistry env o' s) (20000 + 70 * or_polls o')"
  unfolding EnableTrustRegistry_def Let_def by (rule within_mono, (rule within_until within_stack within_stack_rules)+, simp)

lemma within_prepare [within_stack]: "within (prepareRegistryForVtc env o' ns s) (12000 + 30 * or_polls o')"
  unfolding prepareRegistryForVtc_def by (rule within_mono, (rule within_stack within_stack_rules)+, simp)

lemma within_finishRegistry:
  "within stop m \<Longrightarrow> within p n \<Longrightarrow> within (finishRegistrySetup env o' s stop p) (max m n + 30000 + 70 * or_polls o')"
  unfolding finishRegistrySetup_def Let_def
  by (rule within_mono, (rule within_stack within_stack_rules | assumption)+, simp) linarith

section \<open>Steps\<close>

lemmas within_jobs = within_read_job within_just_run

lemma within_steps [within_stack]:
  "within (fsStepVtaSetup o' ns s) (20 + 2 * or_polls o')" "within (fsStepMediatorP1 o' ns s) (20 + 2 * or_polls o')"
  "within (fsStepMediatorReprov o' ns s) (20 + 2 * or_polls o')" "within (fsStepMediatorP2 o' ns s digest) (20 + 2 * or_polls o')"
  "within (fsStepDidsP1 o' ns s) (20 + 2 * or_polls o')" "within (fsStepDidsProvision o' ns s) (20 + 2 * or_polls o')"
  "within (fsStepDidsP2 o' ns s digest) (20 + 2 * or_polls o')" "within (fsStepDidsInvite o' ns s) (20 + 2 * or_polls o')"
  "within (fsStepDidsLoadDid o' ns s) (20 + 2 * or_polls o')" "within (fsStepDidsGrantFarm o' ns s did) (20 + 2 * or_polls o')"
  "within (fsStepVtaRegisterDids o' ns s) (20 + 2 * or_polls o')"
  "within (fsStepImportAdminDid o' ns s did) (21 + 2 * or_polls o')" "within (fsStepVtcSetupKey o' ns s) (20 + 2 * or_polls o')"
  "within (fsStepVtcAclGrant o' ns s did) (20 + 2 * or_polls o')"
  "within (fsStepVtcSetup c o' ns s) (12020 + 32 * or_polls o')"
  unfolding fsStepVtaSetup_def fsStepMediatorP1_def fsStepMediatorReprov_def fsStepMediatorP2_def fsStepDidsP1_def
    fsStepDidsProvision_def fsStepDidsP2_def fsStepDidsInvite_def fsStepDidsLoadDid_def fsStepDidsGrantFarm_def
    fsStepVtaRegisterDids_def fsStepImportAdminDid_def fsStepVtcSetupKey_def fsStepVtcAclGrant_def fsStepVtcSetup_def
  by (rule within_mono, (rule within_jobs within_stack within_stack_rules)+, simp)+

lemma within_deploys [within_stack]:
  "within (fsDeployDids o' ns s) 210" "within (fsDeployMediator o' ns s) 210" "within (fsDeployVta o' ns s) 210"
  "within (fsDeployVtc o' ns s) 210" "within (fsK8sProvision s) 20"
  unfolding fsDeployDids_def fsDeployMediator_def fsDeployVta_def fsDeployVtc_def fsK8sProvision_def
  by ((rule within_stack) | (rule within_mono [OF within_call_all], simp))+

lemma within_status: "within p n \<Longrightarrow> within (fsSetStatus i st p) (n + 2)"
  unfolding fsSetStatus_def by (rule within_mono, (rule within_rules | assumption)+, simp)

lemma within_must: "within stop 0 \<Longrightarrow> within p m \<Longrightarrow> (\<And>a. within (k a) n) \<Longrightarrow> within (must o' i st what stop p k) (m + n + 3)"
  unfolding must_def by (rule within_mono, (rule within_rules | assumption)+, simp)

lemma within_must_do: "within stop 0 \<Longrightarrow> within p m \<Longrightarrow> within q n \<Longrightarrow> within (must_do o' i st what stop p q) (m + n + 3)"
  unfolding must_do_def by (rule within_mono, (rule within_rules | assumption)+, simp)

lemma within_write: "within p n \<Longrightarrow> within (write_session i f p) (Suc n)"
  unfolding write_session_def by (rule within_ignore)

lemmas within_flow_rules = within_status within_must within_must_do within_write within_stack_rules

section \<open>The goroutines\<close>

lemma within_runFullStack [within_stack]: "within (runFullStack c o' i) (2000 + 30 * or_polls o')"
  unfolding runFullStack_def fs_environment_def fs_vta_def fs_mediator_def fs_dids_def fs_fill_dids_def fs_deploy_def fs_gate_def Let_def
  by (rule within_mono, (rule within_stack within_flow within_flow_rules)+, simp)

lemma within_recoveries [within_stack]:
  "within (reconcileFullStackRecoveryImages o' ns s) 1000"
  "within (finishRecoveredSession c o' s) (31000 + 70 * or_polls o')"
  "within (continueRecoveredPreGate o' ns s) (50 + 2 * or_polls o')"
  unfolding reconcileFullStackRecoveryImages_def recovery_components_def reconcile_image_def finishRecoveredSession_def
    continueRecoveredPreGate_def Let_def
  by (rule within_mono, (rule within_until within_stack within_flow within_finishRegistry within_flow_rules)+, simp)+

lemma within_recoverDeployment [within_stack]: "within (recoverDeployment c o' i) (50000 + 120 * or_polls o')"
  unfolding recoverDeployment_def recover_stage_def recover_vta_only_def recover_mediator_def recover_vtc_def continueRecoveredPostGate_def Let_def
  by (rule within_mono, (rule within_stack within_flow within_finish within_flow_rules)+, simp)

lemma within_runFullStackFinish [within_stack]: "within (runFullStackFinish c o' i did) (50000 + 120 * or_polls o')"
  unfolding runFullStackFinish_def finish_setup_def finish_vtc_def Let_def
  by (rule within_mono, (rule within_stack within_flow within_finishRegistry within_flow_rules)+, simp)

end
