(* ===== verification/StackProps.thy ===== *)
theory StackProps
  imports StackKeeps StackReturns
begin

text \<open>
  Properties of the full stack's goroutines: every status they write is picked up again, a stack
  is running only after its VTC was ready, and every goroutine returns.
\<close>

section \<open>Statuses written after the gate\<close>

interpretation writing: status_only "writes i Sts" for i Sts
  by unfold_locales (simp add: writes_def)

lemma writing_update:
  "(\<And>s. ss_ID (f s) = ss_ID s) \<Longrightarrow> (\<And>s. ss_Status (f s) = st) \<Longrightarrow> st \<in> Sts \<Longrightarrow> stepping (writes i Sts) (exec (update_session i f))"
  by (auto simp: stepping_def wp intro!: writes_update_session)

lemma writing_status: "st \<in> Sts \<Longrightarrow> always (writes i Sts) p \<Longrightarrow> always (writes i Sts) (fsSetStatus i st p)"
  unfolding fsSetStatus_def by (intro writing.rules writing_update [where st = st]) (simp_all add: setup_status_def)

lemma writing_failed: "''failed'' \<in> Sts \<Longrightarrow> always (writes i Sts) p \<Longrightarrow> always (writes i Sts) (markFailedAt i stg msg p)"
  unfolding markFailedAt_def by (intro writing.rules writing_update [where st = "''failed''"]) (simp_all add: failed_row_def)

lemma writing_must_do:
  "''failed'' \<in> Sts \<Longrightarrow> always (writes i Sts) p \<Longrightarrow> always (writes i Sts) stop \<Longrightarrow> always (writes i Sts) q \<Longrightarrow>
   always (writes i Sts) (must_do o' i stg what stop p q)"
  unfolding must_do_def by (intro writing.rules writing_failed)

lemma writing_must:
  "''failed'' \<in> Sts \<Longrightarrow> always (writes i Sts) p \<Longrightarrow> always (writes i Sts) stop \<Longrightarrow> (\<And>a. always (writes i Sts) (k a)) \<Longrightarrow>
   always (writes i Sts) (must o' i stg what stop p k)"
  unfolding must_def by (intro writing.rules writing_failed)

lemma writing_setup_status: "st \<in> Sts \<Longrightarrow> stepping (writes i Sts) (exec (update_session i (setup_status st now)))"
  by (rule writing_update [where st = st]) (simp_all add: setup_status_def)

lemma writing_registry_failed: "stepping (writes i Sts) (exec (update_session j (registry_failed msg)) :: (farm, unit) tx)"
  by (rule writing.keeps_update) (simp_all add: registry_failed_def)

lemma writing_registry:
  assumes "ss_ID s = i" "''step_trust_registry'' \<in> Sts" "''failed'' \<in> Sts" "always (writes i Sts) stop" "always (writes i Sts) p"
  shows "always (writes i Sts) (finishRegistrySetup env o' s stop p)"
  unfolding finishRegistrySetup_def Let_def assms(1)
  by (intro writing_failed writing.keeps_enable writing_setup_status writing_registry_failed writing.work assms)

lemma writing_session:
  "(\<And>s. ss_ID s = i \<Longrightarrow> always (writes i Sts) (k s)) \<Longrightarrow> always (writes i Sts) (check (first (session_row i)) (\<lambda>_. Return a) k)"
  by (auto simp: check_def first_def session_row_def bnd_def select_def interact_def throw_def ret_def
      split: sum.splits option.splits dest!: find_SomeD)

lemma outcome_ids [simp]:
  "ss_ID (vtc_identity v s) = ss_ID s" "ss_Status (vtc_identity v s) = ss_Status s"
  "ss_ID (vtc_row v now s) = ss_ID s" "ss_Status (vtc_row v now s) = ss_Status s"
  by (simp_all add: vtc_identity_def vtc_row_def)

definition finish_statuses :: "string set" where
  "finish_statuses =
     {''step_import_admin_did'', ''step_vtc_setup_key'', ''step_vtc_acl_grant'', ''deploy_vta'', ''step_vtc_setup'', ''deploy_vtc'',
      ''step_trust_registry'', ''running'', ''failed''}"

definition recovery_statuses :: "string set" where
  "recovery_statuses =
     {''deploy_mediator'', ''step_vta_register_dids'', ''awaiting_admin_did'', ''step_import_admin_did'', ''step_vtc_setup'',
      ''deploy_vtc'', ''step_trust_registry'', ''running'', ''failed''}"

text \<open>The session a step hands on is the one it was given.\<close>

lemma gives_prepare: "gives (prepareRegistryForVtc env o' ns s) (\<lambda>r. \<forall>s'. r = Inr s' \<longrightarrow> ss_ID s' = ss_ID s)"
  unfolding prepareRegistryForVtc_def unless_done_def
  by (auto intro!: gives_pbind [where Q = "\<lambda>_. True"] gives_check simp: registry_failed_def split: sum.split option.split)

lemma gives_read_job:
  assumes "\<And>e. P (Inl e)" "\<And>logs. P (parse logs)" shows "gives (read_job o' ns spec parse) P"
proof -
  have logs: "gives (check (fsJobLogs ns name) (\<lambda>e. Return (Inl (f e))) (\<lambda>logs. Return (parse logs))) P" for f name
    by (rule gives_check) (simp_all add: assms)
  have failed: "gives (fsJobFailErr ns name msg) P" for name msg
    unfolding fsJobFailErr_def by (rule gives_check) (simp_all add: assms)
  show ?thesis
    unfolding read_job_def run_job_def
    by (rule gives_pbind [OF gives_True], split option.split, intro conjI allI impI, rule gives_pbind [OF gives_True])
       (simp_all add: logs failed assms split: sum.split prod.split)
qed

lemma gives_setup: "gives (fsStepVtcSetup c o' ns s) (\<lambda>r. \<forall>s' v. r = Inr (s', v) \<longrightarrow> ss_ID s' = ss_ID s)"
  unfolding fsStepVtcSetup_def bind_err_def
proof (rule gives_pbind [OF gives_prepare])
  fix r :: "err + setup_session"
  assume r: "\<forall>s'. r = Inr s' \<longrightarrow> ss_ID s' = ss_ID s"
  show "gives (case r of Inl e \<Rightarrow> Return (Inl e) | Inr s' \<Rightarrow>
      read_job o' ns
         (vtc_job s' (FSJobVtcSetup (ss_ID s)) ''vtc setup --from /config/vtc-setup.toml'' VtaServiceAccount
            (Some (''vtc-setup.toml'', RenderVtcSetupTOML s'
                     (fs_vault o' s' (fst (vault_of o')) (VtcPrefix (ss_UserID s) (ss_ID s) @ ''/key-bundle'')))))
         (\<lambda>logs. case ParseVtcSetupOutput logs of Inl e \<Rightarrow> Inl e | Inr outcome \<Rightarrow> Inr (s', outcome)))
     (\<lambda>r. \<forall>s' v. r = Inr (s', v) \<longrightarrow> ss_ID s' = ss_ID s)"
    using r by (cases r) (auto intro!: gives_read_job split: sum.splits)
qed

lemma writing_setup:
  assumes "''failed'' \<in> Sts" "always (writes i Sts) stop"
    and "\<And>s' v. ss_ID s' = ss_ID s \<Longrightarrow> always (writes i Sts) (k s' v)"
  shows "always (writes i Sts) (must o' i stg what stop (fsStepVtcSetup c o' ns s) (\<lambda>(s', v). k s' v))"
  unfolding must_def
  by (rule always_gives [OF writing.keeps_fs_steps(4) gives_setup])
     (auto intro!: writing.rules(1-6) writing_failed assms split: sum.split prod.split)

lemma writing_import:
  "''step_import_admin_did'' \<in> Sts \<Longrightarrow> always (writes i Sts) p \<Longrightarrow> always (writes i Sts) (write_session i (importing_row did now) p)"
  unfolding write_session_def
  by (intro writing.rules writing_update [where st = "''step_import_admin_did''"]) (simp_all add: importing_row_def)

lemmas writing_rules = writing_import writing_status writing_must_do writing_must writing_registry writing.keeps_fs_steps writing.keeps_write
  writing.rules

lemma writing_finish_vtc: "ss_ID s = i \<Longrightarrow> finish_statuses \<subseteq> Sts \<Longrightarrow> always (writes i Sts) (finish_vtc c o' ns s)"
  unfolding finish_vtc_def Let_def by (simp only:) (intro writing_rules; auto simp: finish_statuses_def)

lemma writing_finish_setup: "ss_ID s = i \<Longrightarrow> finish_statuses \<subseteq> Sts \<Longrightarrow> always (writes i Sts) (finish_setup c o' ns s)"
  unfolding finish_setup_def Let_def
  by (simp only:) (intro writing_setup writing_rules writing_finish_vtc; auto simp: finish_statuses_def)

lemma writing_runFullStackFinish: "always (writes i finish_statuses) (runFullStackFinish c o' i did)"
  unfolding runFullStackFinish_def Let_def
  by (rule writing_session) (intro writing_rules writing_finish_setup; auto simp: finish_statuses_def)


section \<open>Statuses written by a recovery\<close>

lemma writing_recovered: "''running'' \<in> Sts \<Longrightarrow> always (writes i Sts) p \<Longrightarrow> always (writes i Sts) (write_session i (recovered_row now) p)"
  unfolding write_session_def
  by (intro writing.rules writing_update [where st = "''running''"]) (simp_all add: recovered_row_def)

lemma writing_vtc_row: "stepping (writes i Sts) (exec (update_session j (vtc_row v now)) :: (farm, unit) tx)"
  by (rule writing.keeps_update) simp_all

lemma writing_on_db:
  assumes "stepping (writes i Sts) m" shows "stepping (writes i Sts) (on_db m)"
  unfolding stepping_def wp_on_db
proof
  fix w :: "farm world"
  from assms have "wp m (\<lambda>_ w'. writes i Sts (tabs (with_tabs (db_of (tabs w)) w)) (tabs w')) (with_tabs (db_of (tabs w)) w)"
    by (simp add: stepping_def)
  then show "wp m (\<lambda>r w'. writes i Sts (tabs w) (tabs (with_tabs (db.extend (tabs w') (db.more (tabs w))) w')))
      (with_tabs (db_of (tabs w)) w)"
    by (rule wp_mono) (simp add: with_tabs_def writes_def)
qed

lemma writing_released: "stepping (writes i Sts) (MarkReleased j)"
  unfolding MarkReleased_def
  by (rule steppingI_from) (intro stat.from_rules; simp add: writes_def statuses_def update_conns_def)

lemma writing_finishVtaOnly: "''running'' \<in> Sts \<Longrightarrow> always (writes i Sts) p \<Longrightarrow> always (writes i Sts) (finishVtaOnlyDeployment i pooled p)"
proof -
  have "stepping (writes i Sts) (Current j)" for j
    unfolding Current_def by (simp add: stepping_def wp)
  moreover have "stepping (writes i Sts) (exec (update_session i (running_row now)))" if "''running'' \<in> Sts" for now
    by (rule writing_update [where st = "''running''", OF _ _ that]) (simp_all add: running_row_def)
  moreover assume "''running'' \<in> Sts" "always (writes i Sts) p"
  ultimately show ?thesis
    unfolding finishVtaOnlyDeployment_def by (intro writing.rules writing.reading writing_on_db writing_released) auto
qed

lemma writing_deployVtaOnly: "always (writes i Sts) (deployVtaOnly o' s)"
proof -
  have "stepping (writes i Sts) (CreateVtaDeployment ns j img)" for ns j img
    unfolding CreateVtaDeployment_def createVtaDeployment_def Let_def
    by (rule writing.keeps_interact) (simp split: option.split)
  then show ?thesis
    unfolding deployVtaOnly_def Let_def by (intro writing.work) (auto intro: writing.keeps_steps)
qed

lemma recovery_member [simp]:
  "''failed'' \<in> recovery_statuses" "''running'' \<in> recovery_statuses" "''deploy_vtc'' \<in> recovery_statuses"
  "''step_vtc_setup'' \<in> recovery_statuses" "''step_trust_registry'' \<in> recovery_statuses" "''deploy_mediator'' \<in> recovery_statuses"
  "''step_vta_register_dids'' \<in> recovery_statuses" "''step_import_admin_did'' \<in> recovery_statuses"
  "''awaiting_admin_did'' \<in> recovery_statuses"
  by (simp_all add: recovery_statuses_def)

lemma writing_recover_session:
  "ss_ID s = i \<Longrightarrow> always (writes i recovery_statuses) (finishRecoveredSession c o' s)"
  unfolding finishRecoveredSession_def by (simp only:) (intro writing_registry writing_recovered writing.rules; simp)

lemma writing_recover_vtc: "ss_ID s = i \<Longrightarrow> always (writes i recovery_statuses) (recover_vtc c o' ns s)"
  unfolding recover_vtc_def by (simp only:) (intro writing_recover_session writing_rules; simp)

lemma writing_pre_gate: "ss_ID s = i \<Longrightarrow> always (writes i recovery_statuses) (continueRecoveredPreGate o' ns s)"
  unfolding continueRecoveredPreGate_def Let_def by (simp only:) (intro writing_rules; simp)

lemma writing_post_gate: "ss_ID s = i \<Longrightarrow> always (writes i recovery_statuses) (continueRecoveredPostGate c o' ns s)"
  unfolding continueRecoveredPostGate_def Let_def
  by (simp only:) (intro writing_setup writing_vtc_row writing_recover_vtc writing_failed writing_rules; simp)

lemma writing_recover_stage: "ss_ID s = i \<Longrightarrow> always (writes i recovery_statuses) (recover_stage c o' ns s)"
  unfolding recover_stage_def recover_mediator_def Let_def
  by (simp only:) (intro writing_pre_gate writing_post_gate writing_recover_vtc writing_rules; simp)

lemma writing_recover_vta: "ss_ID s = i \<Longrightarrow> always (writes i recovery_statuses) (recover_vta_only o' ns s)"
  unfolding recover_vta_only_def Let_def
  by (simp only:) (intro writing_deployVtaOnly writing_finishVtaOnly writing_failed writing_rules; auto intro: writing.keeps_steps)

lemma writing_recoverDeployment: "always (writes i recovery_statuses) (recoverDeployment c o' i)"
  unfolding recoverDeployment_def Let_def
  by (rule writing_session) (intro writing_recover_vta writing_recover_session writing_recover_stage writing_rules; simp)


section \<open>Resuming\<close>

text \<open>How many queries of \<open>Resume\<close> find a full stack's row.\<close>

definition times_resumed :: "setup_session \<Rightarrow> nat" where
  "times_resumed s =
     count_where id [in_statuses fsResumePreGate s, in_statuses fsResumePostGate s, in_statuses fsResumeDeployment s,
       gated_with_admin s, provisioning_with_admin s]"

definition nothing_owed :: "setup_session \<Rightarrow> bool" where
  "nothing_owed s \<longleftrightarrow>
     ss_Status s \<in> {''running'', ''failed''} \<or>
     ss_Status s \<in> {''awaiting_admin_did'', ''provisioning''} \<and> ss_AdminDid s = []"

abbreviation gate_statuses :: "string list" where
  "gate_statuses \<equiv> [''deploy_dids'', ''deploy_mediator'', ''awaiting_admin_did'', ''provisioning'', ''step_import_admin_did'']"

lemma pre_gate_table:
  "map sg_Status (pre_gate i) =
     map (\<lambda>st. [st]) (take 14 fsResumePreGate @ [''deploy_dids'', ''deploy_mediator'', ''step_vta_register_dids'']) @
     [[''awaiting_admin_did'', ''provisioning'', ''step_import_admin_did'']]"
  by (simp add: pre_gate_def waiting_def running_job_def deploying_def at_gate_def fsResumePreGate_def)

lemma pre_gate_statuses: "n < 18 \<Longrightarrow> set (sg_Status (pre_gate i ! n)) \<subseteq> set (fsResumePreGate @ gate_statuses)"
proof -
  have "list_all (\<lambda>sts. list_all (\<lambda>st. st \<in> set (fsResumePreGate @ gate_statuses)) sts)
    (map (\<lambda>st. [st]) (take 14 fsResumePreGate @ [''deploy_dids'', ''deploy_mediator'', ''step_vta_register_dids'']) @
     [[''awaiting_admin_did'', ''provisioning'', ''step_import_admin_did'']])"
    by code_simp
  then have "list_all (\<lambda>g. set (sg_Status g) \<subseteq> set (fsResumePreGate @ gate_statuses)) (pre_gate i)"
    unfolding pre_gate_table [of i, symmetric] list.pred_map by (simp only: list_all_iff subset_eq o_def)
  then show "n < 18 \<Longrightarrow> ?thesis" unfolding list_all_length by simp
qed

definition stack_statuses :: "string list" where
  "stack_statuses =
     fsResumePreGate @ fsResumePostGate @ fsResumeDeployment @ fsResumeTerminal @ [''provisioning'']"

lemma known_statuses:
  "list_all (\<lambda>st. st \<in> set stack_statuses)
     (fsResumePreGate @ gate_statuses @
      [''step_import_admin_did'', ''step_vtc_setup_key'', ''step_vtc_acl_grant'', ''deploy_vta'', ''step_vtc_setup'', ''deploy_vtc'',
       ''step_trust_registry'', ''running'', ''failed'', ''step_vta_register_dids''])"
  by code_simp

lemma climbs_writes:
  "climbs (pre_gate_step i) n p \<Longrightarrow> always (writes i (set stack_statuses)) p"
proof (induction p arbitrary: n)
  case (Act p e)
  show ?case unfolding always.simps
  proof (intro allI conjI)
    fix w :: "farm world"
    from Act.prems obtain m where m: "pre_gate_step i m (tabs w) (tabs (e w))" "climbs (pre_gate_step i) m (p w)" by auto
    from m(1) have "m < 18" and "writes i (insert ''failed'' (set (sg_Status (pre_gate i ! m)))) (tabs w) (tabs (e w))"
      by (simp_all add: pre_gate_step_def stage_step_def)
    then show "writes i (set stack_statuses) (tabs w) (tabs (e w))"
      using pre_gate_statuses [of m i]
        known_statuses by (elim writes_mono) (auto simp: list_all_iff)
    show "always (writes i (set stack_statuses)) (p w)" by (rule Act.IH [OF rangeI m(2)])
  qed
qed simp

datatype stack_run = Piloting nat | Finishing nat string | Repairing nat

fun stack_code :: "stack_conf \<Rightarrow> orch \<Rightarrow> stack_run \<Rightarrow> (farm, unit) prog" where
  "stack_code c o' (Piloting i) = forget (runFullStack c o' i)"
| "stack_code c o' (Finishing i did) = runFullStackFinish c o' i did"
| "stack_code c o' (Repairing i) = forget (recoverDeployment c o' i)"

fun stack_of :: "stack_run \<Rightarrow> nat" where
  "stack_of (Piloting i) = i" | "stack_of (Finishing i did) = i" | "stack_of (Repairing i) = i"

lemma writing_stack: "always (writes (stack_of r) (set stack_statuses)) (stack_code c o' r)"
proof (cases r)
  case (Piloting i)
  have "always (writes i (set stack_statuses)) (runFullStack c o' i)" by (rule climbs_writes [OF climbs_runFullStack])
  then show ?thesis using Piloting by (simp add: forget_def always_pbind)
next
  case (Finishing i did)
  have "always (writes i (set stack_statuses)) (runFullStackFinish c o' i did)"
    using writing_runFullStackFinish
    by (rule always_mono, elim writes_mono)
       (use known_statuses in \<open>auto simp: finish_statuses_def list_all_iff\<close>)
  then show ?thesis using Finishing by simp
next
  case (Repairing i)
  have "always (writes i (set stack_statuses)) (recoverDeployment c o' i)"
    using writing_recoverDeployment
    by (rule always_mono, elim writes_mono)
       (use known_statuses in \<open>auto simp: recovery_statuses_def list_all_iff\<close>)
  then show ?thesis using Repairing by (simp add: forget_def always_pbind)
qed

lemma lists_apart:
  "list_all (\<lambda>st. count_where (\<lambda>l. st \<in> set l) [fsResumePreGate, fsResumePostGate, fsResumeDeployment] =
      (if st \<in> set [''awaiting_admin_did'', ''running'', ''failed'', ''provisioning''] then 0 else 1)) stack_statuses"
  by code_simp

lemma count_of_three:
  "count_where (\<lambda>l. P l) [x, y, z] = of_bool (P x) + of_bool (P y) + of_bool (P z)"
  "count_where id [b1, b2, b3, b4, b5] = of_bool b1 + of_bool b2 + of_bool b3 + of_bool b4 + of_bool b5"
  by (simp_all add: count_where_def)

lemma resumed_once:
  assumes st: "ss_Status s \<in> set stack_statuses" and full: "IsFullStack s"
  shows "times_resumed s = (if nothing_owed s then 0 else 1)"
proof -
  let ?st = "ss_Status s"
  have apart: "of_bool (?st \<in> set fsResumePreGate) + of_bool (?st \<in> set fsResumePostGate) + of_bool (?st \<in> set fsResumeDeployment) =
    (if ?st \<in> set [''awaiting_admin_did'', ''running'', ''failed'', ''provisioning''] then 0 else 1 :: nat)"
    using lists_apart st by (simp only: list_all_iff count_of_three)
  have mode: "ss_Mode s = ModeFullStack" using full by (simp only: IsFullStack_def)
  have count: "times_resumed s =
     (if ?st \<in> set [''awaiting_admin_did'', ''running'', ''failed'', ''provisioning''] then 0 else 1) +
     of_bool (?st = ''awaiting_admin_did'' \<and> ss_AdminDid s \<noteq> []) + of_bool (?st = ''provisioning'' \<and> ss_AdminDid s \<noteq> [])"
    unfolding times_resumed_def count_of_three in_statuses_def gated_with_admin_def provisioning_with_admin_def
    using apart mode by (simp only: simp_thms)
  show ?thesis unfolding count nothing_owed_def by auto
qed

text \<open>The status a full stack is created with is in none of the lists.\<close>

lemma created_status_is_not_resumed:
  "ss_Status s = ''dns_provision'' \<Longrightarrow> times_resumed s = 0 \<and> \<not> nothing_owed s"
  by (simp add: times_resumed_def count_where_def in_statuses_def gated_with_admin_def provisioning_with_admin_def nothing_owed_def
      fsResumePreGate_def fsResumePostGate_def fsResumeDeployment_def)

text \<open>
  C33. No status strands a full stack: whenever a move of the pipeline, of its finish or of a
  recovery changes the status of a session, it is the run's own session, and a row of a full stack
  with the new status is found by exactly one of the queries of \<open>Resume\<close>, or by none when nothing
  is owed on it: it is running, has failed, or waits for its administrator.
\<close>

theorem every_status_is_resumed:
  assumes "(a, b) \<in> set (moves (stack_code c o' r) ws)" and "(i, st) \<in> set (statuses b) - set (statuses a)"
    and "ss_Status s = st" "IsFullStack s"
  shows "i = stack_of r \<and> times_resumed s = (if nothing_owed s then 0 else 1)"
proof -
  have "writes (stack_of r) (set stack_statuses) a b" by (rule always_moves [OF writing_stack assms(1)])
  with assms(2) obtain st' where "st' \<in> set stack_statuses" "statuses b = with_status (stack_of r) st' (statuses a)"
    by (auto simp: writes_def)
  with assms(2) have "i = stack_of r" "st \<in> set stack_statuses"
    by (auto simp: with_status_def split: if_splits prod.splits)
  with assms(3,4) resumed_once show ?thesis by blast
qed


section \<open>Gates and recoveries\<close>




lemma failing_move:
  assumes "\<not> fails w (tick w)" "\<not> fails w'' (tick w'')"
  shows "snd (moves (unless_done (Return x) (markFailedAt i stg msg (Return x))) [w, w', w''] ! 2) =
      update_session i (failed_row stg msg (clock w' (tick w'))) (tabs w'')"
  using assms by (simp add: unless_done_def markFailedAt_def at_time_def ignore_def wall_def ctx_done_def exec_def interact_def split: prod.split)

text \<open>
  A recovery that starts after its session has moved on, past the deployment stages, marks it failed.
\<close>

lemma stale_recovery_fails_session:
  assumes "session_row i (tabs w0) = Some s" "\<not> fails w0 (tick w0)" "ss_Mode s = ModeFullStack"
    and "ss_Status s \<notin> set fsResumeDeployment" and "\<not> fails w1 (tick w1)" "\<not> fails w3 (tick w3)"
  shows "\<exists>msg now. snd (moves (recoverDeployment c o' i) [w0, w1, w2, w3] ! 3) = update_session i (failed_row (ss_Status s) msg now) (tabs w3)"
proof -
  have read: "fst (first (session_row i) w0) = Inr s" using assms(1,2) by (simp add: first_def bnd_def select_def interact_def ret_def)
  have refuse: "reconcileFullStackRecoveryImages o' ns s = Return (Some (NewError (''unsupported recovery stage '' @ ss_Status s)))" for ns
    using assms(4) by (simp add: reconcileFullStackRecoveryImages_def recovery_components_def fsResumeDeployment_def Let_def)
  have "ss_Status s \<noteq> ''step_trust_registry''" using assms(4) by (auto simp: fsResumeDeployment_def)
  with read refuse assms(3) have "\<exists>msg. snd (moves (recoverDeployment c o' i) [w0, w1, w2, w3] ! 3) =
      snd (moves (unless_done (Return []) (markFailedAt i (ss_Status s) msg (Return [] :: (farm, nat list) prog))) [w1, w2, w3] ! 2)"
    by (simp add: recoverDeployment_def must_do_def Let_def) blast
  then show ?thesis using failing_move [OF assms(5,6)] by metis
qed
end
