(* ===== verification/StackReady.thy ===== *)
theory StackReady
  imports StackProps
begin

text \<open>
  What a goroutine has seen when it goes on: \<open>learns see K H p\<close> says that a result \<open>r\<close> of \<open>p\<close> comes
  with sightings \<open>K r\<close>. Waiting for a Deployment teaches that it was ready, and a full stack is
  written running only after its VTA and its VTC were.
\<close>

section \<open>Sightings\<close>

primrec learns :: "('t \<Rightarrow> 'r set) \<Rightarrow> ('a \<Rightarrow> 'r set) \<Rightarrow> 'r set \<Rightarrow> ('t, 'a) prog \<Rightarrow> bool" where
  "learns see K H (Return a) \<longleftrightarrow> K a \<subseteq> H"
| "learns see K H (Act p e) \<longleftrightarrow> (\<forall>w. learns see K (H \<union> see (tabs w)) (p w))"

lemma learns_more: "learns see K H (p :: ('t, 'a) prog) \<Longrightarrow> H \<subseteq> H' \<Longrightarrow> learns see K H' p"
proof (induction p arbitrary: H H')
  case (Act p e)
  show ?case unfolding learns.simps
  proof
    fix w :: "'t world"
    from Act.prems(1) have "learns see K (H \<union> see (tabs w)) (p w)" by simp
    then show "learns see K (H' \<union> see (tabs w)) (p w)" by (rule Act.IH [OF rangeI]) (use Act.prems(2) in auto)
  qed
qed auto

lemma learns_nothing: "(\<And>a. K a = {}) \<Longrightarrow> learns see K H p"
  by (induction p arbitrary: H) auto

lemma learns_pbind: "learns see K H p \<Longrightarrow> (\<And>a H'. K a \<subseteq> H' \<Longrightarrow> learns see L H' (k a)) \<Longrightarrow> learns see L H (pbind p k)"
  by (induction p arbitrary: H) auto

lemma learns_after: "(\<And>a H'. learns see L H' (k a)) \<Longrightarrow> learns see L H (pbind p k)"
  by (induction p arbitrary: H) auto

lemma learns_check:
  fixes m :: "('t, 'a) tx"
  assumes "\<And>e H'. learns see K H' (h e)" and "\<And>a w w'. m w = (Inr a, w') \<Longrightarrow> learns see K (H \<union> see (tabs w)) (k a)"
  shows "learns see K H (check m h k)"
  unfolding check_def learns.simps
proof
  fix w :: "'t world"
  show "learns see K (H \<union> see (tabs w)) (case fst (m w) of Inl e \<Rightarrow> h e | Inr a \<Rightarrow> k a)"
    using assms(1) assms(2) [of w] by (cases "m w") (auto split: sum.split)
qed

lemma learns_at_time: "(\<And>t H'. learns see K H' (k t)) \<Longrightarrow> learns see K H (at_time k)"
  unfolding at_time_def by (rule learns_check)

text \<open>A polling loop learns what its body learns when it answers.\<close>

lemma learns_poll:
  assumes "\<And>H. learns see (\<lambda>r. case r of None \<Rightarrow> {} | Some a \<Rightarrow> K a) H body" "K stopped = {}" "K expired = {}"
  shows "learns see K H (poll_each n deadline body stopped expired)"
proof (induction n arbitrary: H)
  case 0
  show ?case unfolding poll_each.simps
    by (rule learns_pbind [OF assms(1)]) (auto split: option.split intro!: learns_check simp: assms)
next
  case (Suc n)
  show ?case unfolding poll_each.simps
    by (rule learns_pbind [OF assms(1)]) (auto split: option.split intro!: learns_check learns_at_time Suc simp: assms)
qed

context memory begin

lemma backed_learns:
  assumes "backed see G H p" "learns see K H p" and "\<And>a H'. H \<subseteq> H' \<Longrightarrow> K a \<subseteq> H' \<Longrightarrow> backed see G H' (k a)"
  shows "backed see G H (pbind p k)"
  using assms
proof (induction p arbitrary: H)
  case (Act p e)
  show ?case unfolding pbind.simps backed.simps
  proof (intro allI conjI)
    fix w :: "'t world"
    from Act.prems(1) show "G (H \<union> see (tabs w)) (tabs w) (tabs (e w))" by simp
    show "backed see G (H \<union> see (tabs w)) (pbind (p w) k)"
      by (rule Act.IH) (use Act.prems in auto)
  qed
qed auto

lemma backed_gives:
  "backed see G H p \<Longrightarrow> gives p P \<Longrightarrow> (\<And>a H'. H \<subseteq> H' \<Longrightarrow> P a \<Longrightarrow> backed see G H' (k a)) \<Longrightarrow> backed see G H (pbind p k)"
proof (induction p arbitrary: H)
  case (Act p e)
  show ?case unfolding pbind.simps backed.simps
  proof (intro allI conjI)
    fix w :: "'t world"
    from Act.prems(1) show "G (H \<union> see (tabs w)) (tabs w) (tabs (e w))" by simp
    show "backed see G (H \<union> see (tabs w)) (pbind (p w) k)"
      by (rule Act.IH) (use Act.prems in auto)
  qed
qed auto

lemma backed_ignore: "stepping (G {}) m \<Longrightarrow> (\<And>H'. H \<subseteq> H' \<Longrightarrow> backed see G H' p) \<Longrightarrow> backed see G H (ignore m p)"
  unfolding ignore_def by (rule backed_silent_check)

end

section \<open>Ready Deployments\<close>

definition ready_now :: "farm \<Rightarrow> (string \<times> string) set" where
  "ready_now d = {key. \<exists>x. k_deployments d key = Some x \<and> 0 < dp_ReadyReplicas x}"

definition when_none :: "'r set \<Rightarrow> 'e option \<Rightarrow> 'r set" where
  "when_none K r = (case r of None \<Rightarrow> K | Some _ \<Rightarrow> {})"

lemma when_none_simps [simp]: "when_none K None = K" "when_none K (Some e) = {}"
  by (simp_all add: when_none_def)

lemma learns_wait: "learns ready_now (when_none {(ns, name)}) H (WaitForComponentDeploymentReady ns name t)"
  unfolding WaitForComponentDeploymentReady_def
  by (rule learns_at_time, rule learns_poll)
     (auto intro!: learns_check simp: interact_def ready_now_def split: if_splits option.splits)

lemma learns_deploy: "learns ready_now (when_none {(ns, cd_Name spec)}) H (deploy_component o' ns spec)"
  unfolding deploy_component_def deploy_ready_def by (auto intro!: learns_check learns_wait)

lemma learns_named: "cd_Name spec = name \<Longrightarrow> learns ready_now (when_none {(ns, name)}) H (deploy_component o' ns spec)"
  using learns_deploy by blast

lemma learns_components:
  "learns ready_now (when_none {(ns, FSVtaName (ss_ID s))}) H (fsDeployVta o' ns s)"
  "learns ready_now (when_none {(ns, FSVtcName (ss_ID s))}) H (fsDeployVtc o' ns s)"
  unfolding fsDeployVta_def fsDeployVtc_def
  by (rule learns_named; simp add: fs_deployment_def)+

section \<open>Running\<close>

definition turns_running :: "nat \<Rightarrow> farm \<Rightarrow> farm \<Rightarrow> bool" where
  "turns_running i a b \<longleftrightarrow> (i, ''running'') \<in> set (statuses b) - set (statuses a)"

definition deployed :: "nat \<Rightarrow> (string \<times> string) set \<Rightarrow> bool" where
  "deployed i H \<longleftrightarrow> (\<exists>ns. (ns, FSVtaName i) \<in> H \<and> (ns, FSVtcName i) \<in> H)"

definition earned :: "nat \<Rightarrow> (string \<times> string) set \<Rightarrow> farm \<Rightarrow> farm \<Rightarrow> bool" where
  "earned i H a b \<longleftrightarrow> (turns_running i a b \<longrightarrow> deployed i H)"

interpretation earning: memory ready_now "earned i" for i
  by unfold_locales (auto simp: earned_def deployed_def turns_running_def)

interpretation unearned: status_only "earned i H" for i H
  by unfold_locales (simp add: earned_def turns_running_def)

lemma writes_earned: "writes i Sts a b \<Longrightarrow> ''running'' \<notin> Sts \<Longrightarrow> earned j H a b"
proof -
  assume "writes i Sts a b" and Sts: "''running'' \<notin> Sts"
  then consider "statuses b = statuses a" | st where "st \<in> Sts" "statuses b = with_status i st (statuses a)"
    by (auto simp: writes_def)
  then have "\<not> turns_running j a b"
  proof cases
    case 2
    with Sts have "st \<noteq> ''running''" by blast
    with 2(2) show ?thesis by (auto simp: turns_running_def with_status_def split: if_splits)
  qed (simp add: turns_running_def)
  then show ?thesis by (simp add: earned_def)
qed

lemma stepping_earned: "stepping (writes i Sts) m \<Longrightarrow> ''running'' \<notin> Sts \<Longrightarrow> stepping (earned j H) m"
  by (erule stepping_mono) (rule writes_earned)

lemma always_earned: "always (writes i Sts) p \<Longrightarrow> ''running'' \<notin> Sts \<Longrightarrow> backed ready_now (earned j) H p"
  by (rule earning.backed_always, erule always_mono) (rule writes_earned)

lemma backed_Return [simp]: "backed see G H (Return a)"
  by simp

lemma earned_at_time: "(\<And>t H'. H \<subseteq> H' \<Longrightarrow> backed ready_now (earned i) H' (k t)) \<Longrightarrow> backed ready_now (earned i) H (at_time k)"
  unfolding at_time_def by (intro earning.backed_silent_check unearned.steps)

lemma earned_exec:
  "(\<And>H'. H \<subseteq> H' \<Longrightarrow> backed ready_now (earned i) H' p) \<Longrightarrow> (\<And>r. ss_ID (f r) = ss_ID r) \<Longrightarrow>
   (\<And>r. ss_Status (f r) = ss_Status r) \<Longrightarrow> backed ready_now (earned i) H (write_session j f p)"
  unfolding write_session_def by (intro earning.backed_ignore unearned.keeps_update)

lemma earned_write:
  "(\<And>H'. H \<subseteq> H' \<Longrightarrow> backed ready_now (earned i) H' p) \<Longrightarrow> (\<And>r. ss_ID (f r) = ss_ID r) \<Longrightarrow>
   (\<And>r. ss_Status (f r) = st) \<Longrightarrow> st \<noteq> ''running'' \<Longrightarrow> backed ready_now (earned i) H (write_session j f p)"
  unfolding write_session_def
  by (intro earning.backed_ignore stepping_earned [OF writing_update [where i = j and Sts = "{st}"]]) auto

lemma earned_status:
  "st \<noteq> ''running'' \<Longrightarrow> (\<And>H'. H \<subseteq> H' \<Longrightarrow> backed ready_now (earned i) H' p) \<Longrightarrow> backed ready_now (earned i) H (fsSetStatus j st p)"
  unfolding fsSetStatus_def
  by (intro earned_at_time earning.backed_ignore stepping_earned [OF writing_update [where i = j and Sts = "{st}"]])
     (auto simp: setup_status_def)

lemma earned_running:
  "deployed i H \<Longrightarrow> (\<And>H'. H \<subseteq> H' \<Longrightarrow> backed ready_now (earned i) H' p) \<Longrightarrow> backed ready_now (earned i) H (fsSetStatus j st p)"
proof -
  have any: "earned i H' a b" if "deployed i H" "H \<subseteq> H'" for H' a b using that by (auto simp: earned_def deployed_def)
  assume H: "deployed i H" and p: "\<And>H'. H \<subseteq> H' \<Longrightarrow> backed ready_now (earned i) H' p"
  show ?thesis unfolding fsSetStatus_def ignore_def
    by (rule earned_at_time, rule earning.backed_check) (auto simp: wp intro!: any H p)
qed

lemma earned_failed: "backed ready_now (earned i) H (markFailedAt j stg msg (Return a))"
  by (rule always_earned [where i = j and Sts = "{''failed''}"]) (simp_all add: writing_failed)

lemma earned_stop: "backed ready_now (earned i) H (unless_done (Return a) (markFailedAt j stg msg (Return a)))"
  unfolding unless_done_def
  by (intro earning.backed_silent_check unearned.steps earning.backed_if earned_failed backed_Return)

lemma earned_must:
  assumes "always (earned i H) p" and "\<And>a H'. H \<subseteq> H' \<Longrightarrow> backed ready_now (earned i) H' (k a)"
  shows "backed ready_now (earned i) H (must o' j stg what (Return x) p k)"
  unfolding must_def
  by (rule earning.backed_pbind [OF earning.backed_always [OF assms(1)]]) (auto split: sum.split intro: earned_stop assms(2))

lemma earned_must_do:
  assumes "always (earned i H) p" and "\<And>H'. H \<subseteq> H' \<Longrightarrow> backed ready_now (earned i) H' q"
  shows "backed ready_now (earned i) H (must_do o' j stg what (Return x) p q)"
  unfolding must_do_def
  by (rule earning.backed_pbind [OF earning.backed_always [OF assms(1)]]) (auto split: option.split intro: earned_stop assms(2))

lemma earned_deploy:
  assumes "learns ready_now (when_none K) H p" and "always (earned i H) p"
    and "\<And>H'. H \<subseteq> H' \<Longrightarrow> K \<subseteq> H' \<Longrightarrow> backed ready_now (earned i) H' q"
  shows "backed ready_now (earned i) H (must_do o' j stg what (Return x) p q)"
  unfolding must_do_def
  by (rule earning.backed_learns [OF earning.backed_always [OF assms(2)] assms(1)])
     (auto split: option.split intro: earned_stop assms(3))

lemma earned_registry:
  assumes "\<And>H'. H \<subseteq> H' \<Longrightarrow> backed ready_now (earned i) H' p"
  shows "backed ready_now (earned i) H (finishRegistrySetup env o' s (Return x) p)"
proof -
  have finish: "backed ready_now (earned i) H' (case r of None \<Rightarrow> p | Some e \<Rightarrow>
      unless_done (Return x)
        (check (exec (update_session j (registry_failed (or_Error o' e)))) (\<lambda>_. markFailedAt j stg msg (Return x))
           (\<lambda>_. pbind (CleanupFailedRegistryJobs o' ns names) (\<lambda>_. markFailedAt j stg (or_Error o' e) (Return x)))))"
    if "H \<subseteq> H'" for H' r j stg msg ns names
  proof (cases r)
    case (Some e)
    have update: "stepping (earned i {}) (exec (update_session j (registry_failed m)))" for m
      by (rule unearned.keeps_update) (simp_all add: registry_failed_def)
    show ?thesis unfolding unless_done_def Some option.case
      by (intro earning.backed_silent_check unearned.steps earning.backed_if backed_Return update earned_failed earning.backed_pbind
          earning.backed_always [OF unearned.keeps_registry_jobs(3)])
  qed (use assms that in simp)
  have status: "stepping (earned i {}) (exec (update_session j (setup_status ''step_trust_registry'' now)))" for j now
    by (rule stepping_earned [OF writing_update [where i = j and Sts = "{''step_trust_registry''}"]]) (auto simp: setup_status_def)
  show ?thesis unfolding finishRegistrySetup_def Let_def
    by (intro earning.backed_if assms earned_failed earned_at_time earning.backed_ignore earning.backed_pbind earning.backed_always
        unearned.keeps_enable finish status) auto
qed

section \<open>The finish\<close>

lemma earned_finish_vtc:
  "(ns, FSVtaName (ss_ID s)) \<in> H \<Longrightarrow> backed ready_now (earned (ss_ID s)) H (finish_vtc c o' ns s)"
  unfolding finish_vtc_def Let_def
  by (intro earned_status earned_deploy [OF learns_components(2)] unearned.keeps_fs_steps earned_registry earned_running backed_Return)
     (auto simp: deployed_def)

lemma earned_vtc_setup:
  assumes "\<And>s' outcome H'. H \<subseteq> H' \<Longrightarrow> ss_ID s' = ss_ID s \<Longrightarrow> backed ready_now (earned i) H' (k s' outcome)"
  shows "backed ready_now (earned i) H (must o' j stg what (Return x) (fsStepVtcSetup c o' ns s) (\<lambda>(s', outcome). k s' outcome))"
  unfolding must_def
  by (rule earning.backed_gives [OF earning.backed_always [OF unearned.keeps_fs_steps(4)] gives_setup])
     (auto split: sum.split prod.split intro: earned_stop assms)

lemma earned_finish_setup: "backed ready_now (earned (ss_ID s)) H (finish_setup c o' ns s)"
proof -
  have vtc: "backed ready_now (earned (ss_ID s)) H' (finish_vtc c o' ns (vtc_identity outcome s'))"
    if "ss_ID s' = ss_ID s" "(ns, FSVtaName (ss_ID s)) \<in> H'" for s' outcome H'
    using earned_finish_vtc [of ns "vtc_identity outcome s'" H' c o'] that by (simp add: vtc_identity_def)
  show ?thesis
    unfolding finish_setup_def Let_def
    by (intro earned_status earned_deploy [OF learns_components(1)] unearned.keeps_fs_steps earned_vtc_setup earned_at_time earned_exec vtc)
       (simp_all add: vtc_row_def vtc_identity_def, blast)
qed

lemma earned_runFullStackFinish: "backed ready_now (earned i) H (runFullStackFinish c o' i did)"
proof -
  have import: "always (earned i H') (fsStepImportAdminDid o' ns s did)" "always (earned i H') (fsStepVtcSetupKey o' ns s)"
    "always (earned i H') (fsStepVtcAclGrant o' ns s key)" for H' ns s key
    by (rule unearned.keeps_fs_steps)+
  have row: "backed ready_now (earned i) H'
      (at_time (\<lambda>now. write_session i (importing_row did now)
        (must_do o' i [] ''import-admin-did failed'' (Return ()) (fsStepImportAdminDid o' (session_ns o' s) s did)
        (fsSetStatus i ''step_vtc_setup_key''
          (must o' i [] ''vtc setup-key generation failed'' (Return ()) (fsStepVtcSetupKey o' (session_ns o' s) s) (\<lambda>key.
           write_session i (\<lambda>r. r\<lparr>ss_VtcSetupKeyDid := key\<rparr>)
           (fsSetStatus i ''step_vtc_acl_grant''
             (must_do o' i [] ''vtc acl grant failed'' (Return ()) (fsStepVtcAclGrant o' (session_ns o' s) s key)
               (finish_setup c o' (session_ns o' s) s)))))))))" (is "backed _ _ _ (at_time (\<lambda>now. write_session _ _ ?rest))")
    if "ss_ID s = i" for H' s
  proof (rule earned_at_time)
    fix t H'
    have rest: "backed ready_now (earned i) H'' ?rest" for H''
      using earned_finish_setup [of s _ c o' "session_ns o' s"] that
      by (intro earned_must_do earned_must earned_status earned_exec import) simp_all
    show "backed ready_now (earned i) H' (write_session i (importing_row did t) ?rest)"
      by (rule earned_write [where st = "''step_import_admin_did''"]) (simp_all add: rest importing_row_def)
  qed
  show ?thesis unfolding runFullStackFinish_def Let_def
  proof (rule earning.backed_check)
    fix s and w w' :: "farm world" assume "first (session_row i) w = (Inr s, w')"
    then have "ss_ID s = i" by (rule wp_first_row)
    then show "backed ready_now (earned i) (H \<union> ready_now (tabs w)) (at_time (\<lambda>now. write_session i (importing_row did now)
        (must_do o' i [] ''import-admin-did failed'' (Return ()) (fsStepImportAdminDid o' (session_ns o' s) s did)
        (fsSetStatus i ''step_vtc_setup_key''
          (must o' i [] ''vtc setup-key generation failed'' (Return ()) (fsStepVtcSetupKey o' (session_ns o' s) s) (\<lambda>key.
           write_session i (\<lambda>r. r\<lparr>ss_VtcSetupKeyDid := key\<rparr>)
           (fsSetStatus i ''step_vtc_acl_grant''
             (must_do o' i [] ''vtc acl grant failed'' (Return ()) (fsStepVtcAclGrant o' (session_ns o' s) s key)
               (finish_setup c o' (session_ns o' s) s)))))))))" by (rule row)
  qed (auto simp: wp earned_def turns_running_def split: option.splits)
qed

text \<open>
  C35. A full stack is running only after its VTA and its VTC were ready: whenever a finish turns its
  session to running, this same run has seen each of the two Deployments with a ready replica before.
\<close>

theorem running_after_ready:
  assumes "n < length (moves (runFullStackFinish c o' i did) ws)" and "moves (runFullStackFinish c o' i did) ws ! n = (a, b)"
    and "(i, ''running'') \<in> set (statuses b) - set (statuses a)"
  shows "\<exists>ns. \<forall>name \<in> {FSVtaName i, FSVtcName i}. \<exists>m \<le> n. \<exists>x.
    k_deployments (fst (moves (runFullStackFinish c o' i did) ws ! m)) (ns, name) = Some x \<and> 0 < dp_ReadyReplicas x"
proof -
  from backed_moves [OF earned_runFullStackFinish assms(1,2), of "{}"] assms(3)
  have "deployed i (\<Union>m \<in> {..n}. ready_now (fst (moves (runFullStackFinish c o' i did) ws ! m)))"
    by (simp add: earned_def turns_running_def)
  then show ?thesis unfolding deployed_def ready_now_def by (auto 0 4)
qed

section \<open>Witnesses\<close>

text \<open>
  A world in which every job is complete, with a log that each parser reads, and every Deployment is
  ready: a finish run in it does everything it has to.
\<close>

definition demo_logs :: string where
  "demo_logs = ''Setup DID (ephemeral): did:key:z'' @ nl @ ''vtc_did=v'' @ nl @ ''admin_did=a'' @ nl @ ''install_url=u'' @ nl @ ''claim_code=c''"

definition done_job :: job where
  "done_job = (new_job False [] \<lparr>ct_Name = [], ct_Image = [], ct_Command = [], ct_Args = [], ct_WorkingDir = [], ct_Env = [],
     ct_VolumeMounts = []\<rparr>)\<lparr>jb_Conditions := [(''Complete'', True, [])], jb_Logs := Some demo_logs\<rparr>"

definition finishing_session :: setup_session where
  "finishing_session = activation_session\<lparr>ss_Mode := ModeFullStack, ss_Status := ''step_import_admin_did''\<rparr>"

definition served_farm :: farm where
  "served_farm = (farm_of (empty_db\<lparr>t_sessions := [finishing_session]\<rparr>))
     \<lparr>k_jobs := (\<lambda>_. Some done_job), k_deployments := (\<lambda>_. Some (blank_deployment\<lparr>dp_ReadyReplicas := 1\<rparr>))\<rparr>"

definition served_world :: "farm world" where
  "served_world = with_tabs served_farm (calm_world empty_db (\<lambda>_. 9))"

definition finishing_orch :: orch where
  "finishing_orch = activation_orch\<lparr>or_polls := 1\<rparr>"

definition demo_conf :: stack_conf where
  "demo_conf = \<lparr>sk_ingressIP = [], sk_ClientDid = [], sk_dns = (\<lambda>_. []), sk_cert = (\<lambda>_. (True, [])),
     sk_reg = \<lparr>re_toml = (\<lambda>_. None), re_toml_marshal = (\<lambda>_. []), re_quote = id, re_exec = (\<lambda>_. []), re_document = (\<lambda>_. JNull),
       re_clientDID = (\<lambda>_. []), re_didlog = (\<lambda>_. []), re_conflict = (\<lambda>_. False), re_authMount = []\<rparr>\<rparr>"

abbreviation served :: "nat \<Rightarrow> farm world list" where
  "served n \<equiv> replicate n served_world"

text \<open>\<open>leads w n p q\<close>: in a world that stays \<open>w\<close>, \<open>n\<close> actions of \<open>p\<close> leave \<open>q\<close> to do.\<close>

primrec leads :: "'t world \<Rightarrow> nat \<Rightarrow> ('t, 'a) prog \<Rightarrow> ('t, 'a) prog \<Rightarrow> bool" where
  "leads w 0 p q \<longleftrightarrow> p = q"
| "leads w (Suc n) p q \<longleftrightarrow> (case p of Return _ \<Rightarrow> False | Act k e \<Rightarrow> leads w n (k w) q)"

lemma leads_here: "leads w 0 p p"
  by simp

lemma leads_check: "fst (m w) = Inr a \<Longrightarrow> leads w n (k a) q \<Longrightarrow> leads w (Suc n) (check m h k) q"
  by (simp add: check_def)

lemma leads_ignore: "leads w n p q \<Longrightarrow> leads w (Suc n) (ignore m p) q"
  by (simp add: ignore_def check_def split: sum.split)

lemma leads_at_time: "leads w n (k (clock w (tick w))) q \<Longrightarrow> leads w (Suc n) (at_time k) q"
  unfolding at_time_def by (rule leads_check) (simp_all add: wall_def)

lemma leads_pbind: "leads w n p (Return a) \<Longrightarrow> leads w m (k a) q \<Longrightarrow> leads w (n + m) (pbind p k) q"
  by (induction n arbitrary: p) (auto split: prog.splits)

lemma leads_moves: "leads w n p q \<Longrightarrow> \<exists>ms. length ms = n \<and> moves p (replicate (n + m) w) = ms @ moves q (replicate m w)"
proof (induction n arbitrary: p)
  case (Suc n)
  then obtain k e where p: "p = Act k e" and "leads w n (k w) q" by (auto split: prog.splits)
  then obtain ms where "length ms = n" "moves (k w) (replicate (n + m) w) = ms @ moves q (replicate m w)"
    using Suc.IH by blast
  with p show ?case by (intro exI [of _ "(tabs w, tabs (e w)) # ms"]) simp
qed simp

lemma served_rows [simp]:
  "t_sessions (tabs served_world) = [finishing_session]" "fails served_world n = False"
  "k_jobs (tabs served_world) key = Some done_job"
  "k_deployments (tabs served_world) key = Some (blank_deployment\<lparr>dp_ReadyReplicas := 1\<rparr>)"
  by (simp_all add: served_world_def with_tabs_def calm_world_def served_farm_def farm_of_def db.extend_def)

lemma finishing_session [simp]:
  "ss_ID finishing_session = 7" "ss_Status finishing_session = ''step_import_admin_did''" "ss_TrustRegistryEnabled finishing_session = False"
  by (simp_all add: finishing_session_def activation_session_def sample_session_def blank_session_def)

lemma done_job_read [simp]:
  "job_outcome (jb_Conditions done_job) = Some (True, [])" "jb_Logs done_job = Some demo_logs"
  by (simp_all add: done_job_def)

lemma demo_parses:
  "ParseVtcSetupKeyDid (stripANSI demo_logs) = Inr ''did:key:z''"
  "ParseVtcSetupOutput (stripANSI demo_logs) = Inr \<lparr>vo_VtcDid = ''v'', vo_AdminDid = ''a'', vo_InstallURL = ''u'', vo_ClaimCode = ''c''\<rparr>"
  by code_simp+

lemma served_reads [simp]:
  "fst (first (session_row 7) served_world) = Inr finishing_session"
  "fst (create_job key j served_world) = Inr ()" "fst (create_config key fs served_world) = Inr ()"
  "fst (load_profiles served_world) = Inr ()" "fst (CreateComponentDeployment ns spec served_world) = Inr ()"
  "fst (fsJobLogs ns name served_world) = Inr (stripANSI demo_logs)"
  "fst (interact e f served_world) = Inr (fst (f served_world))"
  "fst (select g served_world) = Inr (g (tabs served_world))"
  "fst (wall served_world) = Inr (clock served_world (tick served_world))"
  "fst (exec g' served_world) = Inr ()"
  by (simp_all add: first_def bnd_def select_def interact_def ret_def session_row_def create_job_def create_config_def exec_def wall_def
     load_profiles_def call_service_def CreateComponentDeployment_def create_deployment_def fsJobLogs_def JobLogs_def throw_def split: option.splits)

abbreviation goes :: "nat \<Rightarrow> (farm, 'a) prog \<Rightarrow> (farm, 'a) prog \<Rightarrow> bool" where
  "goes \<equiv> leads served_world"

lemma goes_statement [simp]:
  "goes (Suc n) (check m h k) q \<longleftrightarrow> goes n (case fst (m served_world) of Inl e \<Rightarrow> h e | Inr a \<Rightarrow> k a) q"
  "goes (Suc n) (ignore m p) q \<longleftrightarrow> goes n p q"
  "goes (Suc n) (at_time k') q \<longleftrightarrow> goes n (k' (clock served_world (tick served_world))) q"
  by (simp_all add: at_time_def ignore_def check_def split: sum.split)

declare leads.simps(2) [simp del]

lemma goes_run:
  "cj_SecretData spec = [] \<Longrightarrow> cj_ConfigMapName spec = [] \<Longrightarrow> goes (Suc (Suc n)) (run_job finishing_orch ns spec p) q \<longleftrightarrow> goes n p q"
  "cj_SecretData spec = [] \<Longrightarrow> cj_ConfigMapName spec \<noteq> [] \<Longrightarrow>
     goes (Suc (Suc (Suc n))) (run_job finishing_orch ns spec p) q \<longleftrightarrow> goes n p q"
  by (simp_all add: run_job_def CreateComponentJob_def finishing_orch_def activation_orch_def)

lemma goes_wait: "goes 2 (WaitForComponentDeploymentReady ns name t) (Return None)"
proof -
  let ?body = "check (interact LibraryFailure (\<lambda>w. (k_deployments (tabs w) (ns, name), tabs w))) (\<lambda>_. Return None)
       (\<lambda>r. case r of Some d \<Rightarrow> if 0 < dp_ReadyReplicas d then Return (Some None) else Return None | None \<Rightarrow> Return None)
     :: (farm, err option option) prog"
  have "goes (Suc 0) (poll_each k dl ?body st ex) (Return None)" for k dl st ex
    by (cases k) simp_all
  then show ?thesis unfolding WaitForComponentDeploymentReady_def numeral_2_eq_2 by simp
qed

lemma goes_deploy: "goes (Suc (Suc 2)) (deploy_component o' ns spec) (Return None)"
  unfolding deploy_component_def deploy_ready_def by (rule leads_check, simp, rule leads_check, simp, rule goes_wait)

lemma goes_read:
  "cj_SecretData spec = [] \<Longrightarrow> cj_ConfigMapName spec = [] \<Longrightarrow> parse (stripANSI demo_logs) = Inr x \<Longrightarrow>
     goes (Suc (Suc (Suc 0))) (read_job finishing_orch ns spec parse) (Return (Inr x))"
  "cj_SecretData spec = [] \<Longrightarrow> cj_ConfigMapName spec \<noteq> [] \<Longrightarrow> parse (stripANSI demo_logs) = Inr x \<Longrightarrow>
     goes (Suc (Suc (Suc (Suc 0)))) (read_job finishing_orch ns spec parse) (Return (Inr x))"
  by (simp_all add: read_job_def goes_run)

lemma goes_discard: "goes n p (Return (Inr ())) \<Longrightarrow> goes n (discard p) (Return None)"
  unfolding discard_def by (drule leads_pbind [where m = 0 and q = "Return None"]) simp_all

lemma goes_just: "cj_SecretData spec = [] \<Longrightarrow> cj_ConfigMapName spec = [] \<Longrightarrow> goes (Suc (Suc 0)) (just_run finishing_orch ns spec) (Return None)"
  unfolding just_run_def by (rule goes_discard) (simp add: goes_run)

lemma goes_must: "goes n p (Return (Inr a)) \<Longrightarrow> goes m (k a) q \<Longrightarrow> goes (n + m) (must o' i stg what stop p k) q"
  unfolding must_def by (erule leads_pbind) simp

lemma goes_must_do: "goes n p (Return None) \<Longrightarrow> goes m p' q \<Longrightarrow> goes (n + m) (must_do o' i stg what stop p p') q"
  unfolding must_do_def by (erule leads_pbind) simp

lemma goes_writes:
  "goes n p q \<Longrightarrow> goes (Suc (Suc n)) (fsSetStatus i st p) q" "goes n p q \<Longrightarrow> goes (Suc n) (write_session i f p) q"
  by (simp_all add: fsSetStatus_def write_session_def)

lemma goes_steps:
  "\<exists>n. goes n (fsStepImportAdminDid finishing_orch ns finishing_session did) (Return None)"
  "\<exists>n. goes n (fsStepVtcSetupKey finishing_orch ns finishing_session) (Return (Inr ''did:key:z''))"
  "\<exists>n. goes n (fsStepVtcAclGrant finishing_orch ns finishing_session key) (Return None)"
  "\<exists>n. goes n (fsStepVtcSetup demo_conf finishing_orch ns finishing_session) (Return (Inr (finishing_session,
     \<lparr>vo_VtcDid = ''v'', vo_AdminDid = ''a'', vo_InstallURL = ''u'', vo_ClaimCode = ''c''\<rparr>)))"
  "\<exists>n. goes n (fsDeployVta finishing_orch ns s) (Return None)" "\<exists>n. goes n (fsDeployVtc finishing_orch ns s) (Return None)"
proof -
  show "\<exists>n. goes n (fsStepImportAdminDid finishing_orch ns finishing_session did) (Return None)"
    unfolding fsStepImportAdminDid_def provisionAdminLabel_def
    by (rule exI, rule leads_check, simp, rule goes_just) (simp_all add: retained_def vta_job_def fs_job_def)
  show "\<exists>n. goes n (fsStepVtcSetupKey finishing_orch ns finishing_session) (Return (Inr ''did:key:z''))"
    unfolding fsStepVtcSetupKey_def
    by (rule exI, rule goes_read(1)) (simp_all add: vtc_job_def retained_def fs_job_def demo_parses)
  show "\<exists>n. goes n (fsStepVtcAclGrant finishing_orch ns finishing_session key) (Return None)"
    unfolding fsStepVtcAclGrant_def by (rule exI, rule goes_just) (simp_all add: retained_def vta_job_def fs_job_def)
  show "\<exists>n. goes n (fsStepVtcSetup demo_conf finishing_orch ns finishing_session) (Return (Inr (finishing_session,
     \<lparr>vo_VtcDid = ''v'', vo_AdminDid = ''a'', vo_InstallURL = ''u'', vo_ClaimCode = ''c''\<rparr>)))"
    unfolding fsStepVtcSetup_def bind_err_def prepareRegistryForVtc_def
    by (simp add: , rule exI, rule goes_read(2)) (simp_all add: vtc_job_def retained_def fs_job_def demo_parses FSJobVtcSetup_def fs_name_def)
  show "\<exists>n. goes n (fsDeployVta finishing_orch ns s) (Return None)" "\<exists>n. goes n (fsDeployVtc finishing_orch ns s) (Return None)"
    unfolding fsDeployVta_def fsDeployVtc_def by (rule exI, rule goes_deploy)+
qed

lemma served_finish:
  "\<exists>n. goes n (runFullStackFinish demo_conf finishing_orch 7 did) (fsSetStatus 7 ''running'' (Return ()))"
proof -
  let ?ns = "session_ns finishing_orch finishing_session"
  let ?out = "\<lparr>vo_VtcDid = ''v'', vo_AdminDid = ''a'', vo_InstallURL = ''u'', vo_ClaimCode = ''c''\<rparr>"
  obtain n1 where n1: "goes n1 (fsStepImportAdminDid finishing_orch ?ns finishing_session did) (Return None)"
    using goes_steps(1) by blast
  obtain n2 where n2: "goes n2 (fsStepVtcSetupKey finishing_orch ?ns finishing_session) (Return (Inr ''did:key:z''))"
    using goes_steps(2) by blast
  obtain n3 where n3: "goes n3 (fsStepVtcAclGrant finishing_orch ?ns finishing_session ''did:key:z'') (Return None)"
    using goes_steps(3) by blast
  obtain n4 where n4: "goes n4 (fsStepVtcSetup demo_conf finishing_orch ?ns finishing_session) (Return (Inr (finishing_session, ?out)))"
    using goes_steps(4) by blast
  obtain n5 where n5: "goes n5 (fsDeployVta finishing_orch ?ns finishing_session) (Return None)"
    using goes_steps(5) by blast
  obtain n6 where n6: "goes n6 (fsDeployVtc finishing_orch ?ns (vtc_identity ?out finishing_session)) (Return None)"
    using goes_steps(6) by blast
  have last': "finishRegistrySetup env o' (vtc_identity ?out finishing_session) stop p = p" for env o' stop and p :: "(farm, unit) prog"
    by (simp add: finishRegistrySetup_def vtc_identity_def)
  have id: "ss_ID (vtc_identity ?out finishing_session) = 7" by (simp add: vtc_identity_def)
  have vtc: "\<exists>n. goes n (finish_vtc demo_conf finishing_orch ?ns (vtc_identity ?out finishing_session)) (fsSetStatus 7 ''running'' (Return ()))"
    unfolding finish_vtc_def Let_def last' id by (rule exI, rule goes_writes, rule goes_must_do [OF n6], rule leads_here)
  then obtain n7 where n7: "goes n7 (finish_vtc demo_conf finishing_orch ?ns (vtc_identity ?out finishing_session)) (fsSetStatus 7 ''running'' (Return ()))"
    by blast
  have "\<exists>n. goes n (finish_setup demo_conf finishing_orch ?ns finishing_session) (fsSetStatus 7 ''running'' (Return ()))"
    unfolding finish_setup_def Let_def
    by (rule exI, rule goes_writes, rule goes_must_do [OF n5], rule goes_writes, rule goes_must [OF n4])
       (simp only: prod.case, rule leads_at_time, rule goes_writes, rule n7)
  then obtain n8 where n8: "goes n8 (finish_setup demo_conf finishing_orch ?ns finishing_session) (fsSetStatus 7 ''running'' (Return ()))"
    by blast
  show ?thesis unfolding runFullStackFinish_def Let_def
    by (rule exI, rule leads_check, rule served_reads(1), rule leads_at_time, rule goes_writes, rule goes_must_do [OF n1],
        rule goes_writes, rule goes_must [OF n2], rule goes_writes, rule goes_writes, rule goes_must_do [OF n3], rule n8)
qed

theorem running_after_ready_witness:
  "\<exists>ws m ns x. k_deployments (fst (moves (runFullStackFinish demo_conf finishing_orch 7 ''did:key:z'') ws ! m)) (ns, FSVtcName 7) = Some x \<and>
     0 < dp_ReadyReplicas x"
proof -
  let ?p = "runFullStackFinish demo_conf finishing_orch 7 ''did:key:z''"
  obtain n where "goes n ?p (fsSetStatus 7 ''running'' (Return ()))" using served_finish by blast
  from leads_moves [OF this, of 2] obtain ms where "length ms = n"
    and ms: "moves ?p (replicate (n + 2) served_world) = ms @ moves (fsSetStatus 7 ''running'' (Return ())) (replicate 2 served_world)"
    by blast
  moreover have "moves (fsSetStatus 7 ''running'' (Return ())) (replicate 2 served_world) =
      [(tabs served_world, tabs served_world),
       (tabs served_world, tabs (snd (exec (update_session 7 (setup_status ''running'' (clock served_world (tick served_world)))) served_world)))]"
    by (simp add: fsSetStatus_def at_time_def ignore_def wall_def numeral_2_eq_2)
  ultimately have at: "moves ?p (replicate (n + 2) served_world) ! (n + 1) =
      (tabs served_world, tabs (snd (exec (update_session 7 (setup_status ''running'' (clock served_world (tick served_world)))) served_world)))"
    and long: "n + 1 < length (moves ?p (replicate (n + 2) served_world))"
    by (simp_all add: nth_append)
  have new: "(7, ''running'') \<in> set (statuses (tabs (snd (exec (update_session 7 (setup_status ''running'' t)) served_world)))) - set (statuses (tabs served_world))" for t
    by (simp add: exec_def interact_def update_session_def setup_status_def statuses_def)
  from running_after_ready [OF long at new] show ?thesis by blast
qed

definition piloting_orch :: orch where
  "piloting_orch = finishing_orch\<lparr>or_vault := Some ([], [])\<rparr>"

theorem every_status_is_resumed_witness:
  "times_resumed (finishing_session\<lparr>ss_Status := ''dns_wait''\<rparr>) = 1"
proof -
  let ?new = "tabs (snd (exec (update_session 7 (setup_status ''dns_wait'' (clock served_world (tick served_world)))) served_world))"
  have "(tabs served_world, ?new) \<in> set (moves (stack_code demo_conf piloting_orch (Piloting 7)) (served 3))"
    by (simp add: runFullStack_def forget_def piloting_orch_def fsSetStatus_def at_time_def ignore_def numeral_3_eq_3 Let_def)
  moreover have "(7, ''dns_wait'') \<in> set (statuses ?new) - set (statuses (tabs served_world))"
    by (simp add: exec_def interact_def update_session_def setup_status_def statuses_def)
  ultimately have "times_resumed (finishing_session\<lparr>ss_Status := ''dns_wait''\<rparr>) =
      (if nothing_owed (finishing_session\<lparr>ss_Status := ''dns_wait''\<rparr>) then 0 else 1)"
    by (rule every_status_is_resumed [THEN conjunct2]) (simp_all add: IsFullStack_def finishing_session_def)
  then show ?thesis by (simp add: nothing_owed_def)
qed




end
