(* ===== verification/AclText.thy ===== *)
theory AclText
  imports Jobs
begin

text \<open>
  The texts around the administrators of a running VTA: the commands of its maintenance job, the
  list they print, and the order in which the portal shows it (\<open>handler/setup_acl.go\<close>,
  \<open>admin_platform_stack_grant.go\<close>, \<open>setup_admins.go\<close>).
\<close>

section \<open>Commands\<close>

definition aclListBeginMarker :: string where "aclListBeginMarker = ''VTAFARM_ACL_LIST_BEGIN''"
definition aclListEndMarker :: string where "aclListEndMarker = ''VTAFARM_ACL_LIST_END''"
definition alreadyPresentMarker :: string where "alreadyPresentMarker = ''VTAFARM_ALREADY_PRESENT''"

definition aclListCmd :: string where
  "aclListCmd =
     ''set -e'' @ nl @ ''echo '' @ aclListBeginMarker @ nl @ ''vta acl list 2>&1'' @ nl @ ''echo '' @ aclListEndMarker @ nl"

definition grantCmd :: "string \<Rightarrow> string \<Rightarrow> string" where
  "grantCmd did label =
     (let importCmd = ''vta import-did --role admin --did '' @ quoteShellArg did @
            (if label \<noteq> [] then '' --label '' @ quoteShellArg label else []) in
      ''set -e'' @ nl @
      ''if vta acl get '' @ quoteShellArg did @ '' >/dev/null 2>&1; then'' @ nl @
      ''  echo '' @ alreadyPresentMarker @ nl @
      ''else'' @ nl @
      ''  '' @ importCmd @ nl @
      ''fi'' @ nl @
      ''echo '' @ aclListBeginMarker @ nl @ ''vta acl list 2>&1'' @ nl @ ''echo '' @ aclListEndMarker @ nl)"

text \<open>\<open>^did:key:z[1-9A-HJ-NP-Za-km-z]{20,}$\<close>\<close>

definition base58_char :: "char \<Rightarrow> bool" where
  "base58_char c \<longleftrightarrow> c \<in> set ''123456789ABCDEFGHJKLMNPQRSTUVWXYZabcdefghijkmnopqrstuvwxyz''"

definition didKeyRe :: "string \<Rightarrow> bool" where
  "didKeyRe s \<longleftrightarrow>
     HasPrefix s ''did:key:z'' \<and> (let key = drop 9 s in 20 \<le> length key \<and> list_all base58_char key)"

definition additionalPnmLabel :: "string \<Rightarrow> string" where
  "additionalPnmLabel did = ''pnm-backup-'' @ (if 10 < length did then drop (length did - 10) did else did)"

section \<open>The printed list\<close>

text \<open>\<open>strconv.Atoi\<close>: an optional sign and decimal digits, within 64 bits.\<close>

definition digits_value :: "string \<Rightarrow> int" where
  "digits_value s = foldl (\<lambda>a c. a * 10 + digit_val c) 0 s"

definition Atoi :: "string \<Rightarrow> int option" where
  "Atoi s =
     (let digits = (case s of c # r \<Rightarrow> if c = CHR ''-'' \<or> c = CHR ''+'' then r else s | [] \<Rightarrow> []);
          n = (if HasPrefix s ''-'' then - digits_value digits else digits_value digits) in
      if digits = [] \<or> \<not> list_all is_digit digits \<or> n < - (2 ^ 63) \<or> 2 ^ 63 \<le> n then None else Some n)"

text \<open>The indices of the last begin marker and of the last end marker that follows one.\<close>

fun marker_scan :: "nat \<Rightarrow> string list \<Rightarrow> nat option \<Rightarrow> nat option \<Rightarrow> nat option \<times> nat option" where
  "marker_scan i [] start finish = (start, finish)"
| "marker_scan i (line # ls) start finish =
     (if TrimSpace line = aclListBeginMarker then marker_scan (Suc i) ls (Some i) finish
      else if TrimSpace line = aclListEndMarker \<and> start \<noteq> None then marker_scan (Suc i) ls start (Some i)
      else marker_scan (Suc i) ls start finish)"

record acl_parse =
  ap_entries :: "acl_entry list"
  ap_current :: "acl_entry option"
  ap_declared :: "int option"
  ap_empty :: bool

definition parse_start :: acl_parse where
  "parse_start = \<lparr>ap_entries = [], ap_current = None, ap_declared = None, ap_empty = False\<rparr>"

definition flush_entry :: "acl_parse \<Rightarrow> err + acl_parse" where
  "flush_entry st =
     (case ap_current st of
        None \<Rightarrow> Inr st
      | Some e \<Rightarrow>
          if ae_Did e = [] \<or> ae_Role e = [] \<or> ae_Contexts e = [] \<or> ae_AclCreatedAt e = []
          then Inl (NewError (''incomplete ACL entry for '' @ QuoteGo (ae_Did e)))
          else if ae_Did e \<in> ae_Did ` set (ap_entries st)
          then Inl (NewError (''duplicate ACL entry for '' @ QuoteGo (ae_Did e)))
          else Inr (st\<lparr>ap_entries := ap_entries st @ [e], ap_current := None\<rparr>))"

definition field_value :: "string \<Rightarrow> string \<Rightarrow> string" where
  "field_value line key = TrimSpace (TrimPrefix line key)"

definition set_current :: "(acl_entry \<Rightarrow> acl_entry) \<Rightarrow> acl_parse \<Rightarrow> acl_parse" where
  "set_current f st = st\<lparr>ap_current := map_option f (ap_current st)\<rparr>"

definition parse_line :: "string \<Rightarrow> acl_parse \<Rightarrow> err + acl_parse" where
  "parse_line raw st =
     (let line = TrimSpace raw; count = '' ACL entries:'' in
      if line = ''No ACL entries found.'' then Inr (st\<lparr>ap_empty := True\<rparr>)
      else if HasSuffix line count
      then (case Atoi (TrimSuffix line count) of
              None \<Rightarrow> Inl (NewError (''invalid ACL entry count '' @ QuoteGo line))
            | Some n \<Rightarrow>
                if n < 0 then Inl (NewError (''invalid ACL entry count '' @ QuoteGo line))
                else Inr (st\<lparr>ap_declared := Some n\<rparr>))
      else if HasPrefix line ''DID:''
      then (case flush_entry st of
              Inl e \<Rightarrow> Inl e
            | Inr st' \<Rightarrow> Inr (st'\<lparr>ap_current := Some \<lparr>ae_SessionID = 0, ae_Did = field_value line ''DID:'', ae_Role = [],
                ae_Label = [], ae_Contexts = [], ae_AclCreatedAt = []\<rparr>\<rparr>))
      else if ap_current st = None then Inr st
      else if HasPrefix line ''Role:'' then Inr (set_current (\<lambda>e. e\<lparr>ae_Role := field_value line ''Role:''\<rparr>) st)
      else if HasPrefix line ''Label:'' then Inr (set_current (\<lambda>e. e\<lparr>ae_Label := field_value line ''Label:''\<rparr>) st)
      else if HasPrefix line ''Contexts:'' then Inr (set_current (\<lambda>e. e\<lparr>ae_Contexts := field_value line ''Contexts:''\<rparr>) st)
      else if HasPrefix line ''Created:'' then Inr (set_current (\<lambda>e. e\<lparr>ae_AclCreatedAt := field_value line ''Created:''\<rparr>) st)
      else Inr st)"

fun acl_lines :: "string list \<Rightarrow> acl_parse \<Rightarrow> err + acl_parse" where
  "acl_lines [] st = flush_entry st"
| "acl_lines (l # ls) st = (case parse_line l st of Inl e \<Rightarrow> Inl e | Inr st' \<Rightarrow> acl_lines ls st')"

text \<open>\<open>strings.ReplaceAll(logs, "\\r\\n", "\\n")\<close>\<close>

fun unix_lines :: "string \<Rightarrow> string" where
  "unix_lines (a # b # s) = (if a = CHR 0x0D \<and> b = CHR 0x0A then b # unix_lines s else a # unix_lines (b # s))"
| "unix_lines s = s"

definition parsed_list :: "acl_parse \<Rightarrow> err + acl_entry list" where
  "parsed_list st =
     (if \<not> ap_empty st \<and> ap_declared st = None then Inl (NewError ''ACL entry count not found'')
      else if ap_empty st \<and> ap_entries st \<noteq> [] then Inl (NewError ''empty ACL marker was followed by entries'')
      else case ap_declared st of
        None \<Rightarrow> Inr (ap_entries st)
      | Some n \<Rightarrow>
          if n \<noteq> int (length (ap_entries st))
          then Inl (NewError (''ACL entry count was '' @ FormatInt n @ '', parsed '' @ FormatInt (int (length (ap_entries st)))))
          else Inr (ap_entries st))"

definition parseVtaAclList :: "string \<Rightarrow> err + acl_entry list" where
  "parseVtaAclList logs =
     (let lines = SplitOn newline (unix_lines logs) in
      case marker_scan 0 lines None None of
        (None, _) \<Rightarrow> Inl (NewError ''start marker not found'')
      | (Some start, None) \<Rightarrow> Inl (NewError ''end marker not found'')
      | (Some start, Some finish) \<Rightarrow>
          if finish \<le> start then Inl (NewError ''ACL list markers are out of order'')
          else case acl_lines (take (finish - Suc start) (drop (Suc start) lines)) parse_start of
            Inl e \<Rightarrow> Inl e
          | Inr st \<Rightarrow> parsed_list st)"

section \<open>What the portal shows\<close>

definition superAdminAclRole :: string where "superAdminAclRole = ''admin (super admin)''"

definition superAdminAclEntries :: "acl_entry list \<Rightarrow> acl_entry list" where
  "superAdminAclEntries entries = filter (\<lambda>e. ae_Role e = superAdminAclRole) entries"

text \<open>\<open>time.Parse("2006-01-02 15:04:05 -07:00", s)\<close>, as the nanoseconds since the epoch\<close>

definition offset_zone :: "string \<Rightarrow> (int \<times> string) option" where
  "offset_zone s = (case s of c # r \<Rightarrow> if c = CHR ''Z'' then None else getzone s | [] \<Rightarrow> None)"

text \<open>A space of the layout matches any run of spaces.\<close>

definition skip_space :: "string \<Rightarrow> string option" where
  "skip_space s =
     (case s of [] \<Rightarrow> Some [] | c # r \<Rightarrow> if c = CHR '' '' then Some (dropWhile (\<lambda>c. c = CHR '' '') r) else None)"

definition parse_created :: "string \<Rightarrow> int option" where
  "parse_created s =
     Option.bind (getyear s) (\<lambda>(y, s).
     Option.bind (skip_char (CHR ''-'') s) (\<lambda>s.
     Option.bind (getnum2 s) (\<lambda>(mo, s).
     Option.bind (skip_char (CHR ''-'') s) (\<lambda>s.
     Option.bind (getnum2 s) (\<lambda>(d, s).
     Option.bind (skip_space s) (\<lambda>s.
     Option.bind (gethour s) (\<lambda>(h, s).
     Option.bind (skip_char (CHR '':'') s) (\<lambda>s.
     Option.bind (getnum2 s) (\<lambda>(mi, s).
     Option.bind (skip_char (CHR '':'') s) (\<lambda>s.
     Option.bind (getnum2 s) (\<lambda>(sec, s).
     case getfraction s of (ns, s) \<Rightarrow>
     Option.bind (skip_space s) (\<lambda>s.
     Option.bind (offset_zone s) (\<lambda>(off, s).
     if s \<noteq> [] \<or> mo < 1 \<or> 12 < mo \<or> d < 1 \<or> days_in y (nat mo) < d \<or> 24 \<le> h \<or> 60 \<le> mi \<or> 60 \<le> sec then None
     else Some (((civil_to_days y (nat mo) d - 719528) * 86400 + h * 3600 + mi * 60 + sec - off) * 1000000000 + ns))))))))))))))"

definition newer_entry :: "acl_entry \<Rightarrow> acl_entry \<Rightarrow> bool" where
  "newer_entry x y =
     (case (parse_created (ae_AclCreatedAt x), parse_created (ae_AclCreatedAt y)) of
        (Some l, Some r) \<Rightarrow> r < l
      | (Some l, None) \<Rightarrow> True
      | (None, Some r) \<Rightarrow> False
      | (None, None) \<Rightarrow> ae_Did x < ae_Did y)"

text \<open>\<open>sort.SliceStable\<close>, which keeps the order of what neither comes before the other\<close>

fun put_stable :: "('a \<Rightarrow> 'a \<Rightarrow> bool) \<Rightarrow> 'a \<Rightarrow> 'a list \<Rightarrow> 'a list" where
  "put_stable before x [] = [x]"
| "put_stable before x (y # ys) = (if before y x then y # put_stable before x ys else x # y # ys)"

definition sort_stable :: "('a \<Rightarrow> 'a \<Rightarrow> bool) \<Rightarrow> 'a list \<Rightarrow> 'a list" where
  "sort_stable before xs = foldr (put_stable before) xs []"

definition sortVtaAclEntriesNewestFirst :: "acl_entry list \<Rightarrow> acl_entry list" where
  "sortVtaAclEntriesNewestFirst = sort_stable newer_entry"

section \<open>What a parsed list is\<close>

definition complete_entry :: "acl_entry \<Rightarrow> bool" where
  "complete_entry e \<longleftrightarrow> ae_Did e \<noteq> [] \<and> ae_Role e \<noteq> [] \<and> ae_Contexts e \<noteq> [] \<and> ae_AclCreatedAt e \<noteq> []"

definition parse_ok :: "acl_parse \<Rightarrow> bool" where
  "parse_ok st \<longleftrightarrow> list_all complete_entry (ap_entries st) \<and> distinct (map ae_Did (ap_entries st))"

lemma flush_ok: "parse_ok st \<Longrightarrow> flush_entry st = Inr st' \<Longrightarrow> parse_ok st' \<and> ap_current st' = None"
  by (auto simp: flush_entry_def parse_ok_def complete_entry_def split: option.splits if_splits)

lemma parse_ok_update [simp]:
  "parse_ok (st\<lparr>ap_current := c\<rparr>) = parse_ok st" "parse_ok (st\<lparr>ap_declared := n\<rparr>) = parse_ok st"
  "parse_ok (st\<lparr>ap_empty := b\<rparr>) = parse_ok st"
  by (simp_all add: parse_ok_def)

lemma line_ok: "parse_ok st \<Longrightarrow> parse_line l st = Inr st' \<Longrightarrow> parse_ok st'"
  unfolding parse_line_def Let_def set_current_def
  by (auto split: if_splits option.splits sum.splits dest: flush_ok)

lemma lines_ok: "parse_ok st \<Longrightarrow> acl_lines ls st = Inr st' \<Longrightarrow> parse_ok st' \<and> ap_current st' = None"
proof (induction ls arbitrary: st)
  case (Cons l ls)
  from Cons.prems(2) obtain st1 where "parse_line l st = Inr st1" "acl_lines ls st1 = Inr st'"
    by (cases "parse_line l st") auto
  with Cons.IH Cons.prems(1) line_ok show ?case by blast
next
  case Nil
  from Nil.prems(2) have "flush_entry st = Inr st'" by simp
  with Nil.prems(1) show ?case by (rule flush_ok)
qed

end
