(* ===== verification/Maintenance.thy ===== *)
theory Maintenance
  imports AclText RegistryEnable UpgradeApi PoolBuild
begin

text \<open>
  Maintenance of a running stack: the lease that serialises it across the replicas of the API, the
  window in which the VTA is stopped for a job on its volume, the snapshot of the VTA's
  administrators, and the grants (\<open>handler/admin_platform_stack_admins.go\<close>, \<open>setup_acl.go\<close>,
  \<open>admin_platform_stack_grant.go\<close>, \<open>setup_admins.go\<close>, \<open>mobile_additional.go\<close>).

  A handler is a \<open>prog\<close> that returns its reply. \<open>me_Replica\<close> numbers the API processes,
  \<open>me_Platform\<close> is the platform domain the database answers at a tick, \<open>me_Fits\<close> whether the capacity
  service then sees room, \<open>me_Before\<close> the database's collation, and \<open>me_MapOrder\<close> the order in which Go
  visits the keys of a map.
\<close>

record maint_env =
  me_Replica :: nat
  me_K8s :: bool
  me_Orch :: bool
  me_Platform :: "nat \<Rightarrow> nat option"
  me_Before :: "string \<Rightarrow> string \<Rightarrow> bool"
  me_Fits :: "nat \<Rightarrow> bool"
  me_MapOrder :: "string list \<Rightarrow> string list"

text \<open>\<open>errors.Is(err, errAclJobBusy)\<close> holds of \<open>AclBusy\<close>.\<close>

datatype acl_error = AclBusy string | AclFailed string

primrec acl_text :: "acl_error \<Rightarrow> string" where
  "acl_text (AclBusy m) = m"
| "acl_text (AclFailed m) = m"

definition errAclJobBusy :: string where
  "errAclJobBusy =
     ''another maintenance operation is running for this stack '' @ em_dash @ '' try again after it finishes''"

section \<open>The lease\<close>

definition aclJobStale :: int where "aclJobStale = 15 * minute"

text \<open>\<open>timestamptz\<close> keeps microseconds.\<close>

definition pg_time :: "int \<Rightarrow> int" where "pg_time t = t - t mod 1000"

definition TryLock :: "nat \<Rightarrow> nat \<Rightarrow> (farm, bool) tx" where
  "TryLock r i w =
     (Inr ((r, i) \<notin> set (acl_held (tabs w))),
      w\<lparr>tabs := (if (r, i) \<in> set (acl_held (tabs w)) then tabs w
                 else (tabs w)\<lparr>acl_held := (r, i) # acl_held (tabs w)\<rparr>),
        tick := Suc (tick w)\<rparr>)"

definition Unlock :: "nat \<Rightarrow> nat \<Rightarrow> (farm, unit) tx" where
  "Unlock r i w =
     (Inr (), w\<lparr>tabs := (tabs w)\<lparr>acl_held := removeAll (r, i) (acl_held (tabs w))\<rparr>, tick := Suc (tick w)\<rparr>)"

definition lease_free :: "nat \<Rightarrow> int \<Rightarrow> farm \<Rightarrow> bool" where
  "lease_free i now d \<longleftrightarrow>
     (case acl_maintenance d i of None \<Rightarrow> True | Some started \<Rightarrow> started \<le> pg_time (now - aclJobStale))"

definition take_lease :: "nat \<Rightarrow> int \<Rightarrow> farm \<Rightarrow> farm" where
  "take_lease i now d =
     d\<lparr>acl_maintenance := (acl_maintenance d)(i \<mapsto> pg_time now),
       acl_snapshots := (acl_snapshots d)(i \<mapsto> (case acl_snapshots d i of None \<Rightarrow> (None, 0) | Some s \<Rightarrow> s))\<rparr>"

definition acquireVtaAclMaintenance :: "nat \<Rightarrow> int \<Rightarrow> (farm, bool) tx" where
  "acquireVtaAclMaintenance i now =
     bnd (exec_count (\<lambda>d. if lease_free i now d then 1 else 0) (\<lambda>d. if lease_free i now d then take_lease i now d else d))
       (\<lambda>rows. ret (rows = 1))"

definition releaseVtaAclMaintenance :: "nat \<Rightarrow> int \<Rightarrow> (farm, unit) tx" where
  "releaseVtaAclMaintenance i started =
     exec (\<lambda>d. if acl_maintenance d i = Some (pg_time started)
               then d\<lparr>acl_maintenance := (acl_maintenance d)(i := None)\<rparr> else d)"

text \<open>The function an acquisition returns.\<close>

definition release :: "nat \<Rightarrow> nat \<Rightarrow> int \<Rightarrow> (farm, 'a) prog \<Rightarrow> (farm, 'a) prog" where
  "release r i started p = ignore (releaseVtaAclMaintenance i started) (ignore (Unlock r i) p)"

definition acquireStackMaintenance :: "orch \<Rightarrow> nat \<Rightarrow> nat \<Rightarrow> (farm, acl_error + int) prog" where
  "acquireStackMaintenance o' r i =
     check (TryLock r i) (\<lambda>e. Return (Inl (AclFailed (or_Error o' e)))) (\<lambda>locked.
     if \<not> locked then Return (Inl (AclBusy errAclJobBusy))
     else at_time (\<lambda>now.
     check (acquireVtaAclMaintenance i now)
       (\<lambda>e. ignore (Unlock r i) (Return (Inl (AclFailed (''failed to lock stack maintenance: '' @ or_Error o' e))))) (\<lambda>ok.
     if \<not> ok then ignore (Unlock r i) (Return (Inl (AclBusy errAclJobBusy)))
     else Return (Inr now))))"

definition enabling_text :: string where "enabling_text = ''Trust Registry enablement is in progress''"

definition registry_is_busy :: acl_error where
  "registry_is_busy = AclBusy (errAclJobBusy @ '': '' @ enabling_text)"

definition acquireSessionMaintenance :: "orch \<Rightarrow> nat \<Rightarrow> nat \<Rightarrow> (farm, acl_error + int) prog" where
  "acquireSessionMaintenance o' r i =
     check (first (session_row i)) (\<lambda>e. Return (Inl (AclFailed (or_Error o' e)))) (\<lambda>session.
     if registryBusy session then Return (Inl registry_is_busy)
     else pbind (acquireStackMaintenance o' r i) (\<lambda>a. case a of
       Inl e \<Rightarrow> Return (Inl e)
     | Inr started \<Rightarrow>
         check (first (session_row i)) (\<lambda>e. release r i started (Return (Inl (AclFailed (or_Error o' e))))) (\<lambda>session.
         if registryBusy session then release r i started (Return (Inl registry_is_busy))
         else Return (Inr started))))"

definition acquireTeardownMaintenance :: "orch \<Rightarrow> nat \<Rightarrow> nat \<Rightarrow> (farm, acl_error + int) prog" where
  "acquireTeardownMaintenance o' r i =
     check (first (session_row i)) (\<lambda>e. Return (Inl (AclFailed (or_Error o' e)))) (\<lambda>session.
     if ss_Status session \<noteq> ''deleting''
     then Return (Inl (AclFailed ''session must be marked deleting before teardown maintenance''))
     else acquireStackMaintenance o' r i)"

section \<open>The window\<close>

record acl_target =
  at_deployment :: string
  at_selector :: string
  at_job :: string
  at_pvc :: string

definition vtaAclTargetFor :: "setup_session \<Rightarrow> acl_target" where
  "vtaAclTargetFor s =
     (if IsFullStack s
      then \<lparr>at_deployment = FSVtaName (ss_ID s), at_selector = ''app=fs-vta,session-id='' @ FormatUint (int (ss_ID s)),
            at_job = FSJobVtaACL (ss_ID s), at_pvc = FSVtaName (ss_ID s)\<rparr>
      else \<lparr>at_deployment = VtaDeploymentName (ss_ID s), at_selector = ''app=vta,session-id='' @ FormatUint (int (ss_ID s)),
            at_job = VtaACLJobName (ss_ID s), at_pvc = VtaPVCName (ss_ID s)\<rparr>)"

definition acl_spec :: "setup_session \<Rightarrow> string \<Rightarrow> job_spec" where
  "acl_spec s cmd =
     \<lparr>cj_Name = at_job (vtaAclTargetFor s), cj_Image = ss_VtaImage s, cj_Command = [''sh'', ''-c'', cmd],
      cj_WorkingDir = ''/work/vta'', cj_ServiceAccount = VtaServiceAccount,
      cj_PVCMounts = [\<lparr>pm_Name = ''vta-data'', pm_ClaimName = at_pvc (vtaAclTargetFor s), pm_MountPath = ''/work/vta''\<rparr>],
      cj_ConfigMapName = [], cj_ConfigMapKey = [], cj_ConfigMapData = [], cj_SecretData = [], cj_Env = fsNoColorEnv,
      cj_RetainForRecovery = False\<rparr>"

text \<open>From the wait for the pods to the logs.\<close>

definition acl_job :: "orch \<Rightarrow> string \<Rightarrow> setup_session \<Rightarrow> string \<Rightarrow> (farm, string + string) prog" where
  "acl_job o' ns s cmd =
     (let target = vtaAclTargetFor s in
      pbind (WaitForComponentPodsGone ns (at_selector target) (2 * minute)) (\<lambda>r. case r of
        Some e \<Rightarrow> Return (Inl (''failed waiting for the VTA to stop: '' @ or_Error o' e))
      | None \<Rightarrow>
      DeleteComponentJob ns (at_job target)
      (pbind (CreateComponentJob ns (acl_spec s cmd)) (\<lambda>r. case r of
        Some e \<Rightarrow> Return (Inl (''failed to create the ACL job: '' @ or_Error o' e))
      | None \<Rightarrow>
      pbind (WaitForJob (or_polls o') ns (at_job target)) (\<lambda>r. case r of
        Inl e \<Rightarrow> Return (Inl (''job watch error: '' @ or_Error o' e))
      | Inr (succeeded, failMsg) \<Rightarrow>
          if \<not> succeeded then Return (Inl (''ACL job failed: '' @ failMsg))
          else check (JobLogs ns (at_job target)) (\<lambda>e. Return (Inl (''failed to read job logs: '' @ or_Error o' e)))
                 (\<lambda>out. Return (Inr out)))))))"

definition restart_vta :: "string \<Rightarrow> setup_session \<Rightarrow> (farm, err option) prog" where
  "restart_vta ns s =
     check (ScaleComponentDeployment ns (at_deployment (vtaAclTargetFor s)) 1) (\<lambda>e. Return (Some e))
       (\<lambda>_. WaitForComponentDeploymentReady ns (at_deployment (vtaAclTargetFor s)) (2 * minute))"

record acl_run =
  ar_Logs :: string
  ar_RestartErr :: "err option"
  ar_Err :: "acl_error option"

definition acl_refusal :: "acl_error \<Rightarrow> acl_run" where
  "acl_refusal e = \<lparr>ar_Logs = [], ar_RestartErr = None, ar_Err = Some e\<rparr>"

definition acl_window :: "orch \<Rightarrow> string \<Rightarrow> setup_session \<Rightarrow> string \<Rightarrow> (farm, acl_run) prog" where
  "acl_window o' ns s cmd =
     check (ScaleComponentDeployment ns (at_deployment (vtaAclTargetFor s)) 0)
       (\<lambda>e. Return (acl_refusal (AclFailed (''failed to stop the VTA: '' @ or_Error o' e)))) (\<lambda>_.
     pbind (acl_job o' ns s cmd) (\<lambda>r.
     pbind (restart_vta ns s) (\<lambda>restart. Return (case r of
       Inl e \<Rightarrow> \<lparr>ar_Logs = [], ar_RestartErr = restart, ar_Err = Some (AclFailed e)\<rparr>
     | Inr logs \<Rightarrow> \<lparr>ar_Logs = logs, ar_RestartErr = restart, ar_Err = None\<rparr>))))"

definition runVtaAclJob :: "maint_env \<Rightarrow> orch \<Rightarrow> setup_session \<Rightarrow> string \<Rightarrow> (farm, acl_run) prog" where
  "runVtaAclJob env o' s cmd =
     (if \<not> me_K8s env then Return (acl_refusal (AclFailed ''k8s not configured''))
      else if ss_VtaImage s = []
      then Return (acl_refusal (AclFailed (''stack has no VTA image recorded '' @ em_dash @ '' it has not been provisioned'')))
      else pbind (acquireSessionMaintenance o' (me_Replica env) (ss_ID s)) (\<lambda>a. case a of
        Inl e \<Rightarrow> Return (acl_refusal e)
      | Inr started \<Rightarrow>
          pbind (acl_window o' (session_ns o' s) s cmd)
            (\<lambda>res. release (me_Replica env) (ss_ID s) started (Return res))))"

section \<open>The snapshot\<close>

definition syncSessionAclSnapshot :: "nat \<Rightarrow> acl_entry list \<Rightarrow> (farm, err option) prog" where
  "syncSessionAclSnapshot i entries =
     at_time (\<lambda>now. call_all [transaction (
       bnd (exec (\<lambda>d. d\<lparr>acl_snapshots := (acl_snapshots d)(i \<mapsto> (Some now, int (length entries)))\<rparr>)) (\<lambda>_.
       bnd (exec (\<lambda>d. d\<lparr>acl_entries := filter (\<lambda>e. ae_SessionID e \<noteq> i) (acl_entries d)\<rparr>)) (\<lambda>_.
       if entries = [] then ret ()
       else exec_checked (\<lambda>d. distinct (map ae_Did entries) \<and>
                              (\<forall>e \<in> set (acl_entries d). ae_SessionID e = i \<longrightarrow> ae_Did e \<notin> ae_Did ` set entries))
              (\<lambda>d. d\<lparr>acl_entries := acl_entries d @ map (\<lambda>e. e\<lparr>ae_SessionID := i\<rparr>) entries\<rparr>))))])"

definition stored_entries :: "maint_env \<Rightarrow> nat \<Rightarrow> farm \<Rightarrow> acl_entry list" where
  "stored_entries env i d =
     sort_stable (\<lambda>x y. me_Before env (ae_Did x) (ae_Did y)) (filter (\<lambda>e. ae_SessionID e = i) (acl_entries d))"

definition sessionAclSnapshot :: "maint_env \<Rightarrow> orch \<Rightarrow> nat \<Rightarrow> (farm, err + acl_entry list \<times> int option) prog" where
  "sessionAclSnapshot env o' i =
     check (select (\<lambda>d. acl_snapshots d i)) (\<lambda>e. Return (Inl e)) (\<lambda>r. case r of
       None \<Rightarrow> Return (Inr ([], None))
     | Some (synced, expected) \<Rightarrow>
         check (select (stored_entries env i)) (\<lambda>e. Return (Inl e)) (\<lambda>entries.
         if int (length entries) \<noteq> expected
         then Return (Inl (NewError (''ACL snapshot expected '' @ FormatInt expected @ '' entries, found '' @
                FormatInt (int (length entries)))))
         else Return (Inr (sortVtaAclEntriesNewestFirst (superAdminAclEntries entries), synced))))"

section \<open>Replies\<close>

datatype maint_reply =
    AclRefused nat string
  | AclSnapshot "acl_entry list" "int option" string
  | AclGranted string bool string
  | RegistryShown nat bool string string string string string
  | RecoveryStarted string "component_image list"

definition restartWarning :: "orch \<Rightarrow> setup_session \<Rightarrow> err \<Rightarrow> string" where
  "restartWarning o' s e =
     ''WARNING: the VTA did not come back up ('' @ or_Error o' e @ ''). Agent '' @ ss_VtaName s @ '' is down '' @ em_dash @
     '' check the deployment before retrying.''"

definition with_warning :: "orch \<Rightarrow> setup_session \<Rightarrow> err option \<Rightarrow> string \<Rightarrow> string" where
  "with_warning o' s restart m =
     (case restart of None \<Rightarrow> m | Some e \<Rightarrow> m @ '' '' @ em_dash @ '' '' @ restartWarning o' s e)"

definition respondAclJobError :: "orch \<Rightarrow> setup_session \<Rightarrow> acl_error \<Rightarrow> err option \<Rightarrow> maint_reply" where
  "respondAclJobError o' s e restart =
     AclRefused (case e of AclBusy _ \<Rightarrow> 409 | AclFailed _ \<Rightarrow> 502) (with_warning o' s restart (acl_text e))"

section \<open>Reading the administrators\<close>

definition refreshVtaAclSnapshot :: "maint_env \<Rightarrow> orch \<Rightarrow> setup_session \<Rightarrow> (farm, maint_reply) prog" where
  "refreshVtaAclSnapshot env o' s =
     pbind (runVtaAclJob env o' s aclListCmd) (\<lambda>run.
     let restart = ar_RestartErr run in
     case ar_Err run of
       Some e \<Rightarrow> Return (respondAclJobError o' s e restart)
     | None \<Rightarrow>
         (case parseVtaAclList (ar_Logs run) of
            Inl e \<Rightarrow> Return (respondAclJobError o' s
                       (AclFailed (''failed to parse vta acl list output: '' @ or_Error o' e)) restart)
          | Inr entries \<Rightarrow>
              pbind (syncSessionAclSnapshot (ss_ID s) entries) (\<lambda>r. case r of
                Some _ \<Rightarrow> Return (AclRefused 500 (with_warning o' s restart ''failed to save the VTA ACL snapshot''))
              | None \<Rightarrow>
                  pbind (sessionAclSnapshot env o' (ss_ID s)) (\<lambda>r. case r of
                    Inl _ \<Rightarrow> Return (AclRefused 500 ''failed to read the VTA ACL snapshot'')
                  | Inr (shown, synced) \<Rightarrow>
                      Return (AclSnapshot shown synced
                        (case restart of None \<Rightarrow> [] | Some e \<Rightarrow> restartWarning o' s e))))))"

definition not_found :: maint_reply where "not_found = AclRefused 404 ''session not found''"

text \<open>\<open>wrap\<close> makes the refusal a result of the handler.\<close>

definition userSession :: "(maint_reply \<Rightarrow> 'a) \<Rightarrow> string \<Rightarrow> nat \<Rightarrow> (setup_session \<Rightarrow> (farm, 'a) prog) \<Rightarrow> (farm, 'a) prog" where
  "userSession wrap name userID k = check (first (ownSession name userID)) (\<lambda>_. Return (wrap not_found)) k"

definition adminSession :: "(maint_reply \<Rightarrow> 'a) \<Rightarrow> string \<Rightarrow> (setup_session \<Rightarrow> (farm, 'a) prog) \<Rightarrow> (farm, 'a) prog" where
  "adminSession wrap name k =
     check (first (\<lambda>d. find (\<lambda>s. ss_VtaName s = name) (t_sessions d))) (\<lambda>_. Return (wrap not_found)) k"

definition platformSession :: "(maint_reply \<Rightarrow> 'a) \<Rightarrow> maint_env \<Rightarrow> (setup_session \<Rightarrow> (farm, 'a) prog) \<Rightarrow> (farm, 'a) prog" where
  "platformSession wrap env k =
     check (ask (me_Platform env)) (\<lambda>_. Return (wrap (AclRefused 500 ''failed to read platform domain''))) (\<lambda>domain. case domain of
       None \<Rightarrow> Return (wrap (AclRefused 404 ''no platform stack exists''))
     | Some domainID \<Rightarrow>
         check (select (\<lambda>d. find (\<lambda>s. ss_DomainID s = Some domainID) (t_sessions d)))
           (\<lambda>_. Return (wrap (AclRefused 500 ''failed to read platform session''))) (\<lambda>r. case r of
             None \<Rightarrow> Return (wrap (AclRefused 404 ''no platform stack exists''))
           | Some s \<Rightarrow> k s))"

definition show_snapshot :: "maint_env \<Rightarrow> orch \<Rightarrow> setup_session \<Rightarrow> (farm, maint_reply) prog" where
  "show_snapshot env o' s =
     pbind (sessionAclSnapshot env o' (ss_ID s)) (\<lambda>r. case r of
       Inl _ \<Rightarrow> Return (AclRefused 500 ''failed to read the VTA ACL snapshot'')
     | Inr (shown, synced) \<Rightarrow> Return (AclSnapshot shown synced []))"

definition ListSessionAdmins :: "maint_env \<Rightarrow> orch \<Rightarrow> string \<Rightarrow> nat \<Rightarrow> (farm, maint_reply) prog" where
  "ListSessionAdmins env o' name userID = userSession id name userID (show_snapshot env o')"

definition ListPlatformStackAdmins :: "maint_env \<Rightarrow> orch \<Rightarrow> (farm, maint_reply) prog" where
  "ListPlatformStackAdmins env o' = platformSession id env (show_snapshot env o')"

definition RefreshSessionAdmins :: "maint_env \<Rightarrow> orch \<Rightarrow> string \<Rightarrow> nat \<Rightarrow> (farm, maint_reply) prog" where
  "RefreshSessionAdmins env o' name userID =
     userSession id name userID (\<lambda>s.
       if ss_Status s \<noteq> ''running'' then Return (AclRefused 409 ''session must be in running status'')
       else refreshVtaAclSnapshot env o' s)"

definition RefreshPlatformStackAdmins :: "maint_env \<Rightarrow> orch \<Rightarrow> (farm, maint_reply) prog" where
  "RefreshPlatformStackAdmins env o' =
     platformSession id env (\<lambda>s.
       if ss_Status s \<noteq> ''running'' then Return (AclRefused 409 ''platform stack must be in running status'')
       else refreshVtaAclSnapshot env o' s)"

section \<open>Granting\<close>

record admin_grant =
  ag_AlreadyPresent :: bool
  ag_Warning :: string
  ag_RestartErr :: "err option"

text \<open>\<open>strings.Join\<close>\<close>

definition join_with :: "string \<Rightarrow> string list \<Rightarrow> string" where
  "join_with sep xs = concat (case xs of [] \<Rightarrow> [] | x # ys \<Rightarrow> x # map (\<lambda>y. sep @ y) ys)"

definition performVtaAdminGrant ::
  "maint_env \<Rightarrow> orch \<Rightarrow> setup_session \<Rightarrow> string \<Rightarrow> string \<Rightarrow> (farm, admin_grant \<times> acl_error option) prog" where
  "performVtaAdminGrant env o' s did label =
     pbind (runVtaAclJob env o' s (grantCmd did label)) (\<lambda>run.
     let restart = ar_RestartErr run;
         result = \<lparr>ag_AlreadyPresent = Contains (ar_Logs run) alreadyPresentMarker, ag_Warning = [], ag_RestartErr = restart\<rparr>;
         warned = (\<lambda>ws. (result\<lparr>ag_Warning := join_with '' '' (ws @ (case restart of None \<Rightarrow> [] | Some e \<Rightarrow> [restartWarning o' s e]))\<rparr>,
                         None)) in
     case ar_Err run of
       Some e \<Rightarrow> Return (result, Some e)
     | None \<Rightarrow>
         (case parseVtaAclList (ar_Logs run) of
            Inl _ \<Rightarrow> Return (warned
              [''The PNM was linked, but the ACL snapshot could not be parsed. Use Refresh ACL to retry.''])
          | Inr entries \<Rightarrow>
              pbind (syncSessionAclSnapshot (ss_ID s) entries) (\<lambda>r. Return (warned (case r of
                None \<Rightarrow> []
              | Some _ \<Rightarrow> [''The PNM was linked, but the ACL snapshot could not be saved. Use Refresh ACL to retry.''])))))"

definition grantVtaAdmin :: "maint_env \<Rightarrow> orch \<Rightarrow> setup_session \<Rightarrow> string \<Rightarrow> string \<Rightarrow> (farm, maint_reply) prog" where
  "grantVtaAdmin env o' s did label =
     pbind (performVtaAdminGrant env o' s did label) (\<lambda>(result, failure). case failure of
       Some e \<Rightarrow> Return (respondAclJobError o' s e (ag_RestartErr result))
     | None \<Rightarrow> Return (AclGranted did (ag_AlreadyPresent result) (ag_Warning result)))"

text \<open>The bound body of the request; a missing field is empty.\<close>

definition GrantPlatformStackAdmin :: "maint_env \<Rightarrow> orch \<Rightarrow> string \<times> string \<Rightarrow> (farm, maint_reply) prog" where
  "GrantPlatformStackAdmin env o' body =
     platformSession id env (\<lambda>s.
       let did = TrimSpace (fst body); label = TrimSpace (snd body) in
       if \<not> didKeyRe did
       then Return (AclRefused 400 (''did must be a did:key (the form `pnm setup` mints, '' @
              ''and the only one the VTA's REST login can verify)''))
       else if 64 < length label then Return (AclRefused 400 ''label must be 64 characters or fewer'')
       else if \<exists>c \<in> set label. c = CHR 0x0D \<or> c = CHR 0x0A \<or> c = CHR 0x09
       then Return (AclRefused 400 ''label must be a single line'')
       else grantVtaAdmin env o' s did label)"

definition GrantSessionAdmin :: "maint_env \<Rightarrow> orch \<Rightarrow> string \<Rightarrow> nat \<Rightarrow> string option \<Rightarrow> (farm, maint_reply) prog" where
  "GrantSessionAdmin env o' name userID body =
     userSession id name userID (\<lambda>s.
       if ss_Status s \<noteq> ''running'' then Return (AclRefused 409 ''session must be in running status'')
       else case body of
         None \<Rightarrow> Return (AclRefused 400 ''admin_did is required'')
       | Some admin_did \<Rightarrow>
           (let did = TrimSpace admin_did in
            if \<not> didKeyRe did then Return (AclRefused 400 ''admin_did must be a did:key generated by PNM'')
            else
            check (on_db (CancelPending (ss_ID s)))
              (\<lambda>_. Return (AclRefused 500 ''failed to cancel the pending mobile connection''))
              (\<lambda>_. grantVtaAdmin env o' s did (additionalPnmLabel did))))"

section \<open>A mobile administrator\<close>

definition additionalMobileFailure :: string where
  "additionalMobileFailure = ''Unable to add this administrator. Generate a new QR code and try again.''"

definition failAdditionalMobile :: "string \<Rightarrow> (farm, unit) prog" where
  "failAdditionalMobile requestID = ignore (on_db (MarkFailed requestID additionalMobileFailure)) (Return ())"

definition runAdditionalMobile :: "maint_env \<Rightarrow> orch \<Rightarrow> string \<Rightarrow> (farm, unit) prog" where
  "runAdditionalMobile env o' requestID =
     check (on_db (StartProvisioning requestID))
       (\<lambda>e. if e \<noteq> ErrConflict then failAdditionalMobile requestID else Return ()) (\<lambda>started.
     check (on_db (first (find_conn requestID))) (\<lambda>_. Return ()) (\<lambda>request.
     if mc_Operation request \<noteq> OperationGrantACL \<or> mc_Status request \<noteq> ''provisioning'' then Return ()
     else
     check (first (session_row (mc_SessionID started))) (\<lambda>_. failAdditionalMobile requestID) (\<lambda>session.
     if ss_Status session \<noteq> ''running'' then failAdditionalMobile requestID
     else
     pbind (performVtaAdminGrant env o' session (mc_AdminDid started) MobileAdminLabel) (\<lambda>(result, failure).
     case failure of
       Some (AclBusy _) \<Rightarrow> Return ()
     | Some (AclFailed _) \<Rightarrow> failAdditionalMobile requestID
     | None \<Rightarrow>
         if ag_RestartErr result \<noteq> None then failAdditionalMobile requestID
         else ignore (on_db (MarkReleased requestID)) (Return ())))))"

text \<open>A pass of the queue: the requests it starts a goroutine for, unless one already works on them.\<close>

definition mobile_queue :: "string set \<Rightarrow> (farm, string list) prog" where
  "mobile_queue working =
     check (select (\<lambda>d. map mc_ID (filter (\<lambda>r. mc_Operation r = OperationGrantACL \<and>
              mc_Status r \<in> {''confirmed'', ''provisioning''}) (t_conns d))))
       (\<lambda>_. Return []) (\<lambda>ids. Return (filter (\<lambda>i. i \<notin> working) ids))"

section \<open>The Trust Registry\<close>

definition registryJSON :: "nat \<Rightarrow> setup_session \<Rightarrow> maint_reply" where
  "registryJSON code s =
     RegistryShown code (ss_TrustRegistryEnabled s)
       (if ss_TrustRegistryState s = [] then ''disabled'' else ss_TrustRegistryState s)
       (ss_TrustRegistryPhase s) (ss_TrustRegistryImage s) (ss_TrustRegistryDid s) (ss_TrustRegistryError s)"

definition GetTrustRegistry :: "string \<Rightarrow> nat \<Rightarrow> (farm, maint_reply) prog" where
  "GetTrustRegistry name userID = userSession id name userID (\<lambda>s. Return (registryJSON 200 s))"

definition AdminGetTrustRegistry :: "maint_env \<Rightarrow> (farm, maint_reply) prog" where
  "AdminGetTrustRegistry env = platformSession id env (\<lambda>s. Return (registryJSON 200 s))"

definition validRegistryImage :: "tag_lists \<Rightarrow> string \<Rightarrow> maint_reply option" where
  "validRegistryImage tags img =
     (case tags ''trust-registry'' of
        None \<Rightarrow> Some (AclRefused 503 ''Trust Registry image source is not configured'')
      | Some (Inl _) \<Rightarrow> Some (AclRefused 502 ''Could not load Trust Registry images'')
      | Some (Inr served) \<Rightarrow>
          if img \<in> set served then None
          else Some (AclRefused 422 ''Select an immutable image from the Trust Registry image list''))"

definition enable_row :: "string \<Rightarrow> setup_session \<Rightarrow> setup_session" where
  "enable_row img s =
     s\<lparr>ss_TrustRegistryEnabled := True, ss_TrustRegistryState := ''enabling'', ss_TrustRegistryImage := img,
       ss_TrustRegistryPhase := ''queued'', ss_TrustRegistryError := []\<rparr>"

definition may_enable :: "nat \<Rightarrow> setup_session \<Rightarrow> bool" where
  "may_enable i s \<longleftrightarrow> ss_ID s = i \<and> ss_Status s = ''running'' \<and> ss_TrustRegistryState s \<in> {''disabled'', ''failed''}"

definition queue_enablement :: "nat \<Rightarrow> string \<Rightarrow> int \<Rightarrow> (farm, nat) tx" where
  "queue_enablement i img now =
     exec_count (\<lambda>d. count_where (may_enable i) (t_sessions d))
       (\<lambda>d. d\<lparr>t_sessions := update_where (may_enable i) (\<lambda>s. (enable_row img s)\<lparr>ss_UpdatedAt := now\<rparr>) (t_sessions d)\<rparr>)"

text \<open>A placement that cannot be determined does not refuse.\<close>

definition capacityAllows :: "maint_env \<Rightarrow> (string \<Rightarrow> (farm, 'a) prog) \<Rightarrow> (farm, 'a) prog \<Rightarrow> (farm, 'a) prog" where
  "capacityAllows env refuse p =
     check (ask (me_Fits env)) (\<lambda>_. p) (\<lambda>fits.
       if fits then p
       else refuse (''the cluster is at capacity '' @ em_dash @ '' no resources are available to create a new agent right now. '' @
              ''Please try again later or contact an admin.''))"

text \<open>The reply, and the sessions a worker is kicked for.\<close>

definition reserve_enablement ::
  "maint_env \<Rightarrow> orch \<Rightarrow> setup_session \<Rightarrow> string \<Rightarrow> (farm, maint_reply \<times> nat list) prog" where
  "reserve_enablement env o' s img =
     (let i = ss_ID s; r = me_Replica env; reply = (\<lambda>code m. Return (AclRefused code m, [])) in
      pbind (acquireStackMaintenance o' r i) (\<lambda>a. case a of
        Inl _ \<Rightarrow> reply 409 ''Another stack maintenance operation is in progress''
      | Inr started \<Rightarrow>
      check (select (active_tasks i))
        (\<lambda>_. release r i started (reply 409 ''Wait for the image upgrade or rollback to finish'')) (\<lambda>upgrading.
      if 0 < upgrading then release r i started (reply 409 ''Wait for the image upgrade or rollback to finish'')
      else at_time (\<lambda>now.
      check (queue_enablement i img now)
        (\<lambda>_. release r i started (reply 500 ''Could not save registry operation'')) (\<lambda>rows.
      if rows \<noteq> 1 then release r i started (reply 409 ''Stack state changed; reload and try again'')
      else release r i started (Return (registryJSON 202 (enable_row img s), [i])))))))"

definition enableTrustRegistry ::
  "maint_env \<Rightarrow> orch \<Rightarrow> tag_lists \<Rightarrow> setup_session \<Rightarrow> string option \<Rightarrow> (farm, maint_reply \<times> nat list) prog" where
  "enableTrustRegistry env o' tags s request =
     (let reply = (\<lambda>code m. Return (AclRefused code m, [])) in
      if \<not> IsFullStack s then reply 400 ''Trust Registry requires a Full Stack''
      else if ss_Status s \<noteq> ''running''
      then reply 409 ''The Full Stack must be running before enabling Trust Registry''
      else case request of
        None \<Rightarrow> reply 400 ''An image is required''
      | Some img \<Rightarrow>
          if \<not> RegistryAvailable o'
          then reply 503 ''Trust Registry is unavailable because Kubernetes or Vault is not configured''
          else if ss_TrustRegistryState s = ''active''
          then (if ss_TrustRegistryImage s \<noteq> img
                then reply 409 ''Use image upgrades to change the active Registry image''
                else Return (registryJSON 200 s, []))
          else if ss_TrustRegistryState s = ''enabling''
          then (if ss_TrustRegistryImage s \<noteq> img then reply 409 ''Registry enablement is already in progress''
                else Return (registryJSON 202 s, [ss_ID s]))
          else case validRegistryImage tags img of
            Some refusal \<Rightarrow> Return (refusal, [])
          | None \<Rightarrow>
              capacityAllows env (reply 503) (reserve_enablement env o' s img))"

definition no_kick :: "maint_reply \<Rightarrow> maint_reply \<times> nat list" where "no_kick r = (r, [])"

text \<open>The handlers \<open>EnableTrustRegistry\<close> and \<open>AdminEnableTrustRegistry\<close>\<close>

definition RequestTrustRegistry ::
  "maint_env \<Rightarrow> orch \<Rightarrow> tag_lists \<Rightarrow> string \<Rightarrow> nat \<Rightarrow> string option \<Rightarrow> (farm, maint_reply \<times> nat list) prog" where
  "RequestTrustRegistry env o' tags name userID request =
     userSession no_kick name userID (\<lambda>s. enableTrustRegistry env o' tags s request)"

definition AdminEnableTrustRegistry ::
  "maint_env \<Rightarrow> orch \<Rightarrow> tag_lists \<Rightarrow> string option \<Rightarrow> (farm, maint_reply \<times> nat list) prog" where
  "AdminEnableTrustRegistry env o' tags request =
     platformSession no_kick env (\<lambda>s. enableTrustRegistry env o' tags s request)"

definition record_registry_failure :: "nat \<Rightarrow> string \<Rightarrow> int \<Rightarrow> (farm, unit) tx" where
  "record_registry_failure i msg now =
     exec (update_session i (\<lambda>s. s\<lparr>ss_TrustRegistryState := ''failed'', ss_TrustRegistryError := msg, ss_UpdatedAt := now\<rparr>))"

definition registry_work :: "maint_env \<Rightarrow> registry_env \<Rightarrow> orch \<Rightarrow> nat \<Rightarrow> (farm, unit) prog" where
  "registry_work env re o' i =
     check (first (session_row i)) (\<lambda>_. Return ()) (\<lambda>s.
     if ss_Status s \<noteq> ''running'' \<or> ss_TrustRegistryState s \<noteq> ''enabling'' then Return ()
     else
     check (exec (\<lambda>d. d\<lparr>acl_maintenance := (acl_maintenance d)(i := None)\<rparr>)) (\<lambda>_. Return ()) (\<lambda>_.
     pbind (acquireStackMaintenance o' (me_Replica env) i) (\<lambda>a. case a of
       Inl _ \<Rightarrow> Return ()
     | Inr started \<Rightarrow>
         pbind (EnableTrustRegistry re o' s) (\<lambda>r.
         unless_done (release (me_Replica env) i started (Return ())) (case r of
           None \<Rightarrow> release (me_Replica env) i started (Return ())
         | Some e \<Rightarrow> at_time (\<lambda>now.
             check (record_registry_failure i (or_Error o' e) now)
               (\<lambda>_. release (me_Replica env) i started (Return ())) (\<lambda>_.
             pbind (CleanupFailedRegistryJobs o' (session_ns o' s) (registryJobNames i))
               (\<lambda>_. release (me_Replica env) i started (Return ())))))))))"

definition runTrustRegistry :: "maint_env \<Rightarrow> registry_env \<Rightarrow> orch \<Rightarrow> nat \<Rightarrow> (farm, unit) prog" where
  "runTrustRegistry env re o' i =
     (if \<not> me_Orch env then Return () else with_lock 565441 i (registry_work env re o' i))"

definition registry_queue :: "(farm, nat list) prog" where
  "registry_queue =
     check (select (\<lambda>d. map ss_ID (filter (\<lambda>s. ss_Status s = ''running'' \<and> ss_TrustRegistryState s = ''enabling'') (t_sessions d))))
       (\<lambda>_. Return []) Return"

section \<open>Recovery\<close>

definition recoveryForStage :: "string \<Rightarrow> string \<Rightarrow> string option" where
  "recoveryForStage mode stage =
     (if mode = ModeVtaOnly then (if stage = ''deploy_vta'' then Some stage else None)
      else if mode = ModeFullStack \<and>
        stage \<in> {''deploy_dids'', ''deploy_mediator'', ''deploy_vta'', ''deploy_vtc'', ''step_trust_registry''}
      then Some stage else None)"

definition recoveryComponentsForSession :: "string \<Rightarrow> bool \<Rightarrow> string list" where
  "recoveryComponentsForSession mode registry =
     (if mode = ModeVtaOnly then [''vta'']
      else if mode = ModeFullStack
      then [''vta'', ''mediator'', ''dids'', ''vtc''] @ (if registry then [''trust-registry''] else [])
      else [])"

definition validateRecoveryComponents :: "maint_env \<Rightarrow> string \<Rightarrow> bool \<Rightarrow> component_image list \<Rightarrow> string option" where
  "validateRecoveryComponents env mode registry cis =
     (let required = recoveryComponentsForSession mode registry; seen = map ci_Component cis in
      if required = [] then Some (''mode '' @ mode @ '' cannot be recovered'')
      else case duplicate_component [] cis of
        Some c \<Rightarrow> Some (''duplicate component '' @ c)
      | None \<Rightarrow>
          (let missing = filter (\<lambda>c. c \<notin> set seen) required;
               extra = filter (\<lambda>c. c \<notin> set required) (me_MapOrder env seen) in
           if missing \<noteq> [] \<or> extra \<noteq> []
           then Some (''mode '' @ mode @ '' requires exactly its component images: '' @ join_with ''; ''
                  ((if missing = [] then [] else [''missing '' @ join_with '', '' missing]) @
                   (if extra = [] then [] else [''unsupported '' @ join_with '', '' extra])))
           else None))"

definition current_image :: "setup_session \<Rightarrow> string \<Rightarrow> string" where
  "current_image s c = (if c = ''trust-registry'' then ss_TrustRegistryImage s else ComponentImage s c)"

fun recovery_images :: "orch \<Rightarrow> tag_lists \<Rightarrow> setup_session \<Rightarrow> component_image list \<Rightarrow> maint_reply option" where
  "recovery_images o' tags s [] = None"
| "recovery_images o' tags s (ci # cis) =
     (if current_image s (ci_Component ci) = ci_Image ci then recovery_images o' tags s cis
      else case tags (ci_Component ci) of
        None \<Rightarrow> Some (AclRefused 503 (''image source not configured for '' @ ci_Component ci))
      | Some (Inl e) \<Rightarrow> Some (AclRefused 502 (''failed to fetch '' @ ci_Component ci @ '' images: '' @ or_Error o' e))
      | Some (Inr served) \<Rightarrow>
          if ci_Image ci \<notin> set served then Some (AclRefused 400 (''image is not available for '' @ ci_Component ci))
          else recovery_images o' tags s cis)"

definition recovery_row :: "string \<Rightarrow> component_image list \<Rightarrow> int \<Rightarrow> setup_session \<Rightarrow> setup_session" where
  "recovery_row stage cis now s =
     fold (\<lambda>ci. set_image_column (UpgradeImageColumn (ci_Component ci)) (ci_Image ci)) cis
       ((if stage = ''step_trust_registry''
         then s\<lparr>ss_TrustRegistryState := ''enabling'', ss_TrustRegistryError := []\<rparr> else s)
        \<lparr>ss_Status := stage, ss_ErrorMsg := [], ss_FailedStage := [], ss_UpdatedAt := now\<rparr>)"

definition conflict :: "string \<Rightarrow> (farm, 'a) tx" where
  "conflict m = throw (WalletStateError m)"

text \<open>The transaction: \<open>WalletStateError\<close> carries the message of a conflict.\<close>

definition start_recovery ::
  "maint_env \<Rightarrow> setup_session \<Rightarrow> string \<Rightarrow> component_image list \<Rightarrow> int \<Rightarrow> (farm, string) tx" where
  "start_recovery env s stage cis now =
     transaction (
       bnd (first (session_row (ss_ID s))) (\<lambda>locked.
       case recoveryForStage (ss_Mode locked) (FailureStage locked) of
         None \<Rightarrow> conflict ''session is no longer recoverable''
       | Some lockedStage \<Rightarrow>
           if ss_Mode locked \<noteq> ss_Mode s \<or> lockedStage \<noteq> stage
           then conflict ''session failure stage changed; reload before recovering''
           else if validateRecoveryComponents env (ss_Mode locked) (ss_TrustRegistryEnabled locked) cis \<noteq> None
           then conflict ''session component set changed; reload before recovering''
           else
           bnd (select (active_tasks (ss_ID locked))) (\<lambda>active.
           if 0 < active then conflict ''an upgrade or rollback for this session is already in progress''
           else
           bnd (exec_count (\<lambda>d. count_where (\<lambda>r. ss_ID r = ss_ID locked \<and> ss_Status r = ''failed'') (t_sessions d))
                  (\<lambda>d. d\<lparr>t_sessions := update_where (\<lambda>r. ss_ID r = ss_ID locked \<and> ss_Status r = ''failed'')
                     (recovery_row lockedStage cis now) (t_sessions d)\<rparr>)) (\<lambda>rows.
           if rows \<noteq> 1 then conflict ''session is no longer recoverable'' else ret lockedStage))))"

definition recovery_call :: "maint_env \<Rightarrow> setup_session \<Rightarrow> string \<Rightarrow> component_image list \<Rightarrow> (farm, maint_reply \<times> nat list) prog" where
  "recovery_call env s stage cis =
     at_time (\<lambda>now. check (start_recovery env s stage cis now)
       (\<lambda>e. case e of WalletStateError m \<Rightarrow> Return (AclRefused 409 m, [])
               | _ \<Rightarrow> Return (AclRefused 500 ''could not start recovery'', []))
       (\<lambda>stage. Return (RecoveryStarted stage cis, [ss_ID s])))"

definition recoverSession ::
  "maint_env \<Rightarrow> orch \<Rightarrow> tag_lists \<Rightarrow> setup_session \<Rightarrow> (string + component_image list) \<Rightarrow> (farm, maint_reply \<times> nat list) prog" where
  "recoverSession env o' tags s request =
     (let reply = (\<lambda>code m. Return (AclRefused code m, [])) in
      if \<not> me_K8s env \<or> \<not> me_Orch env then reply 503 (''K8s not configured '' @ em_dash @ '' recovery unavailable'')
      else case request of
        Inl invalid \<Rightarrow> reply 400 invalid
      | Inr cis \<Rightarrow>
          case recoveryForStage (ss_Mode s) (FailureStage s) of
            None \<Rightarrow> reply 409 ''session did not fail at a recoverable setup stage''
          | Some stage \<Rightarrow>
              case validateRecoveryComponents env (ss_Mode s) (ss_TrustRegistryEnabled s) cis of
                Some m \<Rightarrow> reply 400 m
              | None \<Rightarrow>
                  case recovery_images o' tags s cis of
                    Some refusal \<Rightarrow> Return (refusal, [])
                  | None \<Rightarrow> recovery_call env s stage cis)"

definition RecoverSession ::
  "maint_env \<Rightarrow> orch \<Rightarrow> tag_lists \<Rightarrow> string \<Rightarrow> nat \<Rightarrow> (string + component_image list) \<Rightarrow> (farm, maint_reply \<times> nat list) prog" where
  "RecoverSession env o' tags name userID request =
     userSession no_kick name userID (\<lambda>s. recoverSession env o' tags s request)"

definition AdminRecoverSession ::
  "maint_env \<Rightarrow> orch \<Rightarrow> tag_lists \<Rightarrow> string \<Rightarrow> (string + component_image list) \<Rightarrow> (farm, maint_reply \<times> nat list) prog" where
  "AdminRecoverSession env o' tags name request =
     adminSession no_kick name (\<lambda>s. recoverSession env o' tags s request)"

end
