(* ===== verification/Windows.thy ===== *)
theory Windows
  imports Maintenance StackKeeps
begin

text \<open>
  Windows in which a component is stopped. \<open>phased nx ok n p Q\<close> runs a program along an automaton of
  phases: the program is in phase \<open>n\<close>, each of its actions satisfies \<open>ok\<close> of the phase and leads to
  the next one by \<open>nx\<close>, and what it returns satisfies \<open>Q\<close> with the last phase. What others do
  between two actions is arbitrary, as in \<open>Runs\<close>.
\<close>

section \<open>Phases\<close>

type_synonym 't phases = "nat \<Rightarrow> 't \<Rightarrow> 't \<Rightarrow> nat"

primrec phased :: "'t phases \<Rightarrow> (nat \<Rightarrow> 't \<Rightarrow> 't \<Rightarrow> bool) \<Rightarrow> nat \<Rightarrow> ('t, 'a) prog \<Rightarrow> ('a \<Rightarrow> nat \<Rightarrow> bool) \<Rightarrow> bool" where
  "phased nx ok n (Return a) Q \<longleftrightarrow> Q a n"
| "phased nx ok n (Act p e) Q \<longleftrightarrow>
     (\<forall>w. ok n (tabs w) (tabs (e w)) \<and> phased nx ok (nx n (tabs w) (tabs (e w))) (p w) Q)"

lemma phased_mono: "phased nx ok n p P \<Longrightarrow> (\<And>a m. P a m \<Longrightarrow> Q a m) \<Longrightarrow> phased nx ok n p Q"
  by (induction p arbitrary: n) auto

lemma phased_pbind: "phased nx ok n (pbind p k) Q \<longleftrightarrow> phased nx ok n p (\<lambda>a m. phased nx ok m (k a) Q)"
  by (induction p arbitrary: n) auto

lemma phased_check:
  "phased nx ok n (check m h k) Q \<longleftrightarrow>
     (\<forall>w. wp m (\<lambda>r w'. ok n (tabs w) (tabs w') \<and>
        (case r of Inl e \<Rightarrow> phased nx ok (nx n (tabs w) (tabs w')) (h e) Q
                 | Inr a \<Rightarrow> phased nx ok (nx n (tabs w) (tabs w')) (k a) Q)) w)"
  by (auto simp: check_def wp_def case_prod_unfold split: sum.splits)

text \<open>The phase reached after the first \<open>m\<close> moves.\<close>

fun phase_after :: "'t phases \<Rightarrow> nat \<Rightarrow> ('t \<times> 't) list \<Rightarrow> nat" where
  "phase_after nx n [] = n"
| "phase_after nx n (m # ms) = phase_after nx (nx n (fst m) (snd m)) ms"

lemma phase_after_snoc: "phase_after nx n (ms @ [m]) = nx (phase_after nx n ms) (fst m) (snd m)"
  by (induction ms arbitrary: n) auto

lemma phased_moves:
  "phased nx ok n p Q \<Longrightarrow> m < length (moves p ws) \<Longrightarrow>
   ok (phase_after nx n (take m (moves p ws))) (fst (moves p ws ! m)) (snd (moves p ws ! m))"
proof (induction p arbitrary: n m ws)
  case (Act p e)
  from Act.prems(2) obtain w ws' where ws: "ws = w # ws'" by (cases ws) auto
  show ?case
  proof (cases m)
    case 0
    with Act.prems ws show ?thesis by simp
  next
    case (Suc l)
    from Act.prems(1) have "phased nx ok (nx n (tabs w) (tabs (e w))) (p w) Q" by simp
    moreover from Act.prems(2) ws Suc have "l < length (moves (p w) ws')" by simp
    ultimately show ?thesis using Act.IH [OF rangeI] ws Suc by simp
  qed
qed simp

lemma phased_result:
  "phased nx ok n p Q \<Longrightarrow> result p ws = Some a \<Longrightarrow> Q a (phase_after nx n (moves p ws))"
proof (induction p arbitrary: n ws)
  case (Act p e)
  from Act.prems(2) obtain w ws' where ws: "ws = w # ws'" by (cases ws) auto
  with Act show ?case by auto
qed simp

text \<open>An action that may happen in every phase and leaves it, or moves it up.\<close>

locale phases =
  fixes nx :: "'t phases" and ok :: "nat \<Rightarrow> 't \<Rightarrow> 't \<Rightarrow> bool" and calm :: "'t \<Rightarrow> 't \<Rightarrow> bool"
  assumes nx_mono: "n \<le> m \<Longrightarrow> nx n a b \<le> nx m a b"
    and ok_mono: "ok n a b \<Longrightarrow> n \<le> m \<Longrightarrow> ok m a b"
    and calm_up: "calm a b \<Longrightarrow> n \<le> nx n a b"
    and calm_ok: "calm a b \<Longrightarrow> ok n a b"
begin

lemma phased_higher:
  assumes "phased nx ok n p Q" "n \<le> m" "\<And>a i j. Q a i \<Longrightarrow> i \<le> j \<Longrightarrow> Q a j"
  shows "phased nx ok m p Q"
  using assms(1,2)
proof (induction p arbitrary: n m)
  case (Act p e)
  show ?case unfolding phased.simps
  proof (intro allI conjI)
    fix w
    from Act.prems(1) have now: "ok n (tabs w) (tabs (e w))"
      and rest: "phased nx ok (nx n (tabs w) (tabs (e w))) (p w) Q" by auto
    from now Act.prems(2) show "ok m (tabs w) (tabs (e w))" by (rule ok_mono)
    from Act.IH [OF rangeI rest nx_mono] Act.prems(2)
    show "phased nx ok (nx m (tabs w) (tabs (e w))) (p w) Q" by blast
  qed
next
  case (Return a)
  then show ?case using assms(3) by simp
qed

lemma phased_calm: "always calm p \<Longrightarrow> phased nx ok n p (\<lambda>_ m. n \<le> m)"
proof (induction p arbitrary: n)
  case (Act p e)
  show ?case unfolding phased.simps
  proof (intro allI conjI)
    fix w
    from Act.prems have calm: "calm (tabs w) (tabs (e w))" and rest: "always calm (p w)" by auto
    from calm show "ok n (tabs w) (tabs (e w))" by (rule calm_ok)
    from Act.IH [OF rangeI rest, of "nx n (tabs w) (tabs (e w))"]
    show "phased nx ok (nx n (tabs w) (tabs (e w))) (p w) (\<lambda>_ m. n \<le> m)"
      by (rule phased_mono) (use calm_up [OF calm, of n] in simp)
  qed
qed simp

text \<open>Rules for what is known of the phase by a lower bound.\<close>

definition during :: "nat \<Rightarrow> ('t, 'a) prog \<Rightarrow> ('a \<Rightarrow> nat) \<Rightarrow> bool" where
  "during n p f \<longleftrightarrow> phased nx ok n p (\<lambda>a m. f a \<le> m)"

lemma during_calm: "always calm p \<Longrightarrow> (\<And>a. f a \<le> n) \<Longrightarrow> during n p f"
  unfolding during_def by (rule phased_mono [OF phased_calm]) (auto intro: order_trans)

lemma during_higher: "during n p f \<Longrightarrow> n \<le> m \<Longrightarrow> during m p f"
  unfolding during_def by (rule phased_higher) auto

lemma during_Return: "f a \<le> n \<Longrightarrow> during n (Return a) f"
  by (simp add: during_def)

lemma during_pbind:
  assumes "during n p g" "\<And>a. during (g a) (k a) f" shows "during n (pbind p k) f"
  unfolding during_def phased_pbind
  by (rule phased_mono [OF assms(1) [unfolded during_def]])
     (rule during_higher [OF assms(2), unfolded during_def])

lemma during_check:
  assumes "stepping calm m" "\<And>e. during n (h e) f" "\<And>a. during n (k a) f"
  shows "during n (check m h k) f"
proof -
  have up: "phased nx ok (nx n a b) q (\<lambda>x m. f x \<le> m)" if "during n q f" "calm a b" for q a b
    using during_higher [OF that(1) calm_up [OF that(2)]] by (simp add: during_def)
  show ?thesis unfolding during_def phased_check
  proof
    fix w
    from assms(1) have "wp m (\<lambda>_ w'. calm (tabs w) (tabs w')) w" by (simp add: stepping_def)
    then show "wp m (\<lambda>r w'. ok n (tabs w) (tabs w') \<and>
        (case r of Inl e \<Rightarrow> phased nx ok (nx n (tabs w) (tabs w')) (h e) (\<lambda>x m. f x \<le> m)
                 | Inr a \<Rightarrow> phased nx ok (nx n (tabs w) (tabs w')) (k a) (\<lambda>x m. f x \<le> m))) w"
      by (rule wp_mono) (auto intro: calm_ok up assms(2,3) split: sum.split)
  qed
qed

lemma during_ignore: "stepping calm m \<Longrightarrow> during n p f \<Longrightarrow> during n (ignore m p) f"
  unfolding ignore_def by (intro during_check)

lemma during_option:
  "(r = None \<Longrightarrow> during n p f) \<Longrightarrow> (\<And>x. r = Some x \<Longrightarrow> during n (q x) f) \<Longrightarrow>
   during n (case r of None \<Rightarrow> p | Some x \<Rightarrow> q x) f"
  by (cases r) auto

lemma during_sum:
  "(\<And>x. r = Inl x \<Longrightarrow> during n (p x) f) \<Longrightarrow> (\<And>x. r = Inr x \<Longrightarrow> during n (q x) f) \<Longrightarrow>
   during n (case r of Inl x \<Rightarrow> p x | Inr x \<Rightarrow> q x) f"
  by (cases r) auto

lemma during_if: "(b \<Longrightarrow> during n p f) \<Longrightarrow> (\<not> b \<Longrightarrow> during n q f) \<Longrightarrow> during n (if b then p else q) f"
  by simp

lemma during_prod: "(\<And>x y. during n (p x y) f) \<Longrightarrow> during n (case r of (x, y) \<Rightarrow> p x y) f"
  by (cases r) simp

lemmas during_rules = during_Return during_ignore during_option during_sum during_if during_prod

lemma during_moves:
  "during n p f \<Longrightarrow> m < length (moves p ws) \<Longrightarrow>
   ok (phase_after nx n (take m (moves p ws))) (fst (moves p ws ! m)) (snd (moves p ws ! m))"
  unfolding during_def by (rule phased_moves)

end

section \<open>Two steps that must follow each other\<close>

text \<open>
  \<open>two_step undo reach seen\<close>: phase 1 begins with a move that leaves the tables as \<open>reach\<close> says, phase 2
  with a later one that comes upon \<open>seen\<close>, and a move that does \<open>undo\<close> ends both. \<open>standing\<close> tells what
  the phases say of the moves so far.
\<close>

definition two_step :: "('t \<Rightarrow> 't \<Rightarrow> bool) \<Rightarrow> ('t \<Rightarrow> bool) \<Rightarrow> ('t \<Rightarrow> bool) \<Rightarrow> 't phases" where
  "two_step undo reach seen n a b =
     (if undo a b then 0
      else if n = 0 then (if reach b then 1 else 0)
      else if seen a then max 2 n else n)"

lemma two_step_mono: "n \<le> m \<Longrightarrow> two_step undo reach seen n a b \<le> two_step undo reach seen m a b"
  by (cases "m \<le> 2") (auto simp: two_step_def)

lemma two_step_up: "\<not> undo a b \<Longrightarrow> n \<le> two_step undo reach seen n a b"
  by (simp add: two_step_def)

definition standing :: "('t \<Rightarrow> 't \<Rightarrow> bool) \<Rightarrow> ('t \<Rightarrow> bool) \<Rightarrow> ('t \<times> 't) list \<Rightarrow> nat \<Rightarrow> bool" where
  "standing undo reach ms l \<longleftrightarrow>
     l < length ms \<and> reach (snd (ms ! l)) \<and> (\<forall>x. l \<le> x \<and> x < length ms \<longrightarrow> \<not> undo (fst (ms ! x)) (snd (ms ! x)))"

lemma standing_snoc: "standing undo reach ms l \<Longrightarrow> \<not> undo (fst m) (snd m) \<Longrightarrow> standing undo reach (ms @ [m]) l"
  by (auto simp: standing_def nth_append less_Suc_eq)

lemma phase_history:
  fixes undo :: "'t \<Rightarrow> 't \<Rightarrow> bool" and reach seen :: "'t \<Rightarrow> bool" and ms :: "('t \<times> 't) list"
  defines "phase \<equiv> phase_after (two_step undo reach seen) 0"
  shows "(1 \<le> phase ms \<longrightarrow> (\<exists>l. standing undo reach ms l)) \<and>
    (2 \<le> phase ms \<longrightarrow> (\<exists>l k. standing undo reach ms l \<and> l < k \<and> k < length ms \<and> seen (fst (ms ! k))))"
proof (induction ms rule: rev_induct)
  case (snoc m ms)
  have step: "phase (ms @ [m]) = two_step undo reach seen (phase ms) (fst m) (snd m)"
    unfolding phase_def by (rule phase_after_snoc)
  show ?case
  proof (intro conjI impI)
    assume "1 \<le> phase (ms @ [m])"
    with step have kept: "\<not> undo (fst m) (snd m)" and "1 \<le> phase ms \<or> reach (snd m)"
      by (auto simp: two_step_def split: if_splits)
    then consider "reach (snd m)" | l where "standing undo reach ms l" using snoc by blast
    then show "\<exists>l. standing undo reach (ms @ [m]) l"
    proof cases
      case 1
      with kept have "standing undo reach (ms @ [m]) (length ms)" by (auto simp: standing_def nth_append)
      then show ?thesis ..
    next
      case 2
      from standing_snoc [OF this kept] show ?thesis ..
    qed
  next
    assume two: "2 \<le> phase (ms @ [m])"
    with step have kept: "\<not> undo (fst m) (snd m)" and one: "1 \<le> phase ms" and "2 \<le> phase ms \<or> seen (fst m)"
      by (auto simp: two_step_def split: if_splits)
    then consider l k where "standing undo reach ms l" "l < k" "k < length ms" "seen (fst (ms ! k))" | "seen (fst m)"
      using snoc by blast
    then show "\<exists>l k. standing undo reach (ms @ [m]) l \<and> l < k \<and> k < length (ms @ [m]) \<and> seen (fst ((ms @ [m]) ! k))"
    proof cases
      case 1
      from standing_snoc [OF 1(1) kept] 1 show ?thesis
        by (intro exI [of _ l] exI [of _ k]) (simp add: nth_append)
    next
      case 2
      from one snoc obtain l where l: "standing undo reach ms l" by blast
      then have "l < length ms" by (simp add: standing_def)
      with standing_snoc [OF l kept] 2 show ?thesis
        by (intro exI [of _ l] exI [of _ "length ms"]) simp
    qed
  qed
qed (simp add: phase_def)

text \<open>A move that undid the first step was followed by both steps again.\<close>

lemma phase_recovered:
  assumes "2 \<le> phase_after (two_step undo reach seen) n ms" "l < length ms" "undo (fst (ms ! l)) (snd (ms ! l))"
  shows "\<exists>u k. l < u \<and> u < k \<and> k < length ms \<and> reach (snd (ms ! u)) \<and> seen (fst (ms ! k))"
proof -
  have split: "phase_after nx n (xs @ ys) = phase_after nx (phase_after nx n xs) ys" for nx :: "'a phases" and n xs ys
    by (induction xs arbitrary: n) auto
  let ?rest = "drop (Suc l) ms"
  from assms(2) have "ms = take l ms @ ms ! l # ?rest" by (rule id_take_nth_drop)
  then have "phase_after (two_step undo reach seen) n ms = phase_after (two_step undo reach seen) 0 ?rest"
    using split [of "two_step undo reach seen" n "take l ms" "ms ! l # ?rest"] assms(3) by (simp add: two_step_def)
  with assms(1) obtain u k where u: "standing undo reach ?rest u" "u < k" "k < length ?rest" "seen (fst (?rest ! k))"
    using phase_history [of undo reach seen ?rest] by auto
  then have "reach (snd (?rest ! u))" by (simp add: standing_def)
  with u have "l < Suc l + u \<and> Suc l + u < Suc l + k \<and> Suc l + k < length ms \<and> reach (snd (ms ! (Suc l + u))) \<and>
      seen (fst (ms ! (Suc l + k)))"
    using assms(2) by simp
  then show ?thesis by blast
qed

section \<open>A stopped component\<close>

definition replicas_are :: "int \<Rightarrow> string \<times> string \<Rightarrow> farm \<Rightarrow> bool" where
  "replicas_are n dep d \<longleftrightarrow> (\<exists>x. k_deployments d dep = Some x \<and> dp_Replicas x = Some n)"

abbreviation stopped :: "string \<times> string \<Rightarrow> farm \<Rightarrow> bool" where
  "stopped \<equiv> replicas_are 0"

definition changes :: "string \<times> string \<Rightarrow> farm \<Rightarrow> farm \<Rightarrow> bool" where
  "changes dep a b \<longleftrightarrow> k_deployments b dep \<noteq> k_deployments a dep"

text \<open>
  Phase 1: the goroutine left the Deployment at no replicas. Phase 2: since then it saw that no
  pod was left. Its own scaling up ends both.
\<close>

definition restarts :: "string \<times> string \<Rightarrow> farm \<Rightarrow> farm \<Rightarrow> bool" where
  "restarts dep a b \<longleftrightarrow> changes dep a b \<and> \<not> stopped dep b"

definition stop_phase :: "string \<times> string \<Rightarrow> string \<times> string \<Rightarrow> farm phases" where
  "stop_phase dep sel = two_step (restarts dep) (stopped dep) (\<lambda>d. k_pods d sel = [])"

lemma stop_phase_step:
  "stop_phase dep sel n a b =
     (if k_deployments b dep \<noteq> k_deployments a dep \<and> \<not> stopped dep b then 0
      else if n = 0 then (if stopped dep b then 1 else 0)
      else if k_pods a sel = [] then max 2 n else n)"
  by (simp add: stop_phase_def two_step_def restarts_def changes_def)

definition mounts :: "string \<Rightarrow> string \<Rightarrow> farm \<Rightarrow> farm \<Rightarrow> bool" where
  "mounts ns vol a b \<longleftrightarrow>
     (\<exists>name j. k_jobs b (ns, name) = Some j \<and> k_jobs a (ns, name) \<noteq> Some j \<and> vol \<in> set (jb_Claims j))"

definition only_stopped :: "string \<Rightarrow> string \<Rightarrow> nat \<Rightarrow> farm \<Rightarrow> farm \<Rightarrow> bool" where
  "only_stopped ns vol n a b \<longleftrightarrow> (mounts ns vol a b \<longrightarrow> 2 \<le> n)"

definition leaves_be :: "string \<Rightarrow> string \<times> string \<Rightarrow> string \<Rightarrow> farm \<Rightarrow> farm \<Rightarrow> bool" where
  "leaves_be ns dep vol a b \<longleftrightarrow> k_deployments b dep = k_deployments a dep \<and> \<not> mounts ns vol a b"

interpretation stop: phases "stop_phase dep sel" "only_stopped ns vol" "leaves_be ns dep vol" for dep sel ns vol
  by unfold_locales
    (auto simp: stop_phase_def only_stopped_def leaves_be_def restarts_def changes_def intro!: two_step_mono two_step_up)

interpretation let_be: steady "leaves_be ns dep vol" for ns dep vol
  by unfold_locales (auto simp: leaves_be_def mounts_def)

section \<open>Actions\<close>

lemma be_same: "k_deployments b dep = k_deployments a dep \<Longrightarrow> k_jobs b = k_jobs a \<Longrightarrow> leaves_be ns dep vol a b"
  by (auto simp: leaves_be_def mounts_def)

lemma be_basic:
  "stepping (leaves_be ns dep vol) (delete_job key)" "stepping (leaves_be ns dep vol) (delete_config key)"
  "stepping (leaves_be ns dep vol) (create_config key fs)" "stepping (leaves_be ns dep vol) (exec (update_session j f))"
  by (auto simp: delete_job_def delete_config_def create_config_def stepping_def wp
      leaves_be_def mounts_def update_session_def split: option.splits)

lemma be_document: "stepping (leaves_be ns dep vol) (UpdateDIDDocument env)"
  by (auto simp: UpdateDIDDocument_def stepping_def wp_def interact_def let_be.idle intro!: be_same)

lemma be_revising: "key \<noteq> dep \<Longrightarrow> stepping (leaves_be ns dep vol) (revising key f)"
  unfolding stepping_def wp_revising
  by (cases key; cases dep)
     (auto simp: let_be.idle revise_def split: option.splits sum.splits intro!: be_same)

lemma be_create:
  "vol \<notin> set (jb_Claims j) \<Longrightarrow> stepping (leaves_be ns dep vol) (create_job key j)"
  by (auto simp: create_job_def stepping_def wp leaves_be_def mounts_def split: option.splits)

text \<open>The three actions that move the phase.\<close>

lemma stop_scale:
  assumes down: "\<And>e. stop.during (ns, name) sel ns vol 0 (h e) f" "\<And>x. stop.during (ns, name) sel ns vol 1 (k x) f"
  shows "stop.during (ns, name) sel ns vol 0 (check (ScaleComponentDeployment ns name 0) h k) f"
proof -
  have up: "stop.during (ns, name) sel ns vol n p f \<Longrightarrow> n \<le> m \<Longrightarrow>
      phased (stop_phase (ns, name) sel) (only_stopped ns vol) m p (\<lambda>a m. f a \<le> m)" for n m p
    using stop.during_higher [of "(ns, name)" sel ns vol n p f m] by (simp add: stop.during_def)
  show ?thesis unfolding stop.during_def phased_check ScaleComponentDeployment_def wp_revising
    by (auto simp: revise_def stop_phase_step replicas_are_def only_stopped_def mounts_def intro!: up [OF down(1)] up [OF down(2)]
        split: option.splits)
qed

lemma stop_touch:
  assumes "stepping (\<lambda>a b. \<not> mounts ns vol a b) m" "\<And>e. stop.during dep sel ns vol 0 (h e) f" "\<And>x. stop.during dep sel ns vol 0 (k x) f"
  shows "stop.during dep sel ns vol 0 (check m h k) f"
  unfolding stop.during_def phased_check
proof
  fix w
  have any: "phased (stop_phase dep sel) (only_stopped ns vol) n p (\<lambda>a m. f a \<le> m)" if "stop.during dep sel ns vol 0 p f" for n p
    using stop.during_higher [OF that, of n] by (simp add: stop.during_def)
  from assms(1) have "wp m (\<lambda>_ w'. \<not> mounts ns vol (tabs w) (tabs w')) w" by (simp add: stepping_def)
  then show "wp m (\<lambda>r w'. only_stopped ns vol 0 (tabs w) (tabs w') \<and>
      (case r of Inl e \<Rightarrow> phased (stop_phase dep sel) (only_stopped ns vol) (stop_phase dep sel 0 (tabs w) (tabs w')) (h e) (\<lambda>a m. f a \<le> m)
       | Inr x \<Rightarrow> phased (stop_phase dep sel) (only_stopped ns vol) (stop_phase dep sel 0 (tabs w) (tabs w')) (k x) (\<lambda>a m. f a \<le> m))) w"
    by (rule wp_mono) (auto simp: only_stopped_def intro: any assms(2,3) split: sum.split)
qed

lemma stop_create_job:
  assumes "\<And>e. stop.during dep sel ns vol 2 (h e) f" "\<And>x. stop.during dep sel ns vol 2 (k x) f"
  shows "stop.during dep sel ns vol 2 (check (create_job key j) h k) f"
proof -
  have step: "stop_phase dep sel 2 a (a\<lparr>k_jobs := js\<rparr>) = 2" "stop_phase dep sel 2 a a = 2" for a js
    by (simp_all add: stop_phase_step)
  show ?thesis using assms unfolding stop.during_def phased_check
    by (auto simp: create_job_def wp step only_stopped_def split: option.splits)
qed

lemma be_read: "stepping (\<lambda>a b. b = a) m \<Longrightarrow> stepping (leaves_be ns dep vol) m"
  by (rule let_be.reads)

text \<open>The wait for the pods ends well only when there were none.\<close>

lemma stop_gone:
  "stop.during dep (ns, sel) ns' vol 1 (WaitForComponentPodsGone ns sel t) (\<lambda>r. if r = None then 2 else 1)"
proof -
  let ?seen = "\<lambda>r. if r = Some None then 2 else 1 :: nat"
  let ?body = "check (list_pods (ns, sel)) (\<lambda>_. Return None) (\<lambda>pods. Return (if pods = [] then Some None else None))
    :: (farm, err option option) prog"
  have body: "stop.during dep (ns, sel) ns' vol 1 ?body ?seen"
    unfolding stop.during_def phased_check
    by (auto simp: list_pods_def wp stop_phase_step only_stopped_def mounts_def)
  have poll: "stop.during dep (ns, sel) ns' vol 1 (poll_each n dl ?body (Some e) (Some e')) (\<lambda>r. if r = None then 2 else 1)" for n dl e e'
  proof (induction n)
    case 0
    show ?case unfolding poll_each.simps
      by (rule stop.during_pbind [OF body])
         (auto intro!: stop.during_Return stop.during_check let_be.steady_steps split: option.split)
  next
    case (Suc n)
    show ?case unfolding poll_each.simps at_time_def
      by (rule stop.during_pbind [OF body])
         (auto intro!: stop.during_Return stop.during_check let_be.steady_steps Suc simp del: One_nat_def split: option.split)
  qed
  show ?thesis unfolding WaitForComponentPodsGone_def at_time_def
    by (intro stop.during_check let_be.steady_steps poll)
qed

section \<open>The maintenance job\<close>

lemma be_DeleteComponentJob:
  "stop.during dep sel ns vol n p f \<Longrightarrow> stop.during dep sel ns vol n (DeleteComponentJob ns' name p) f"
  unfolding DeleteComponentJob_def by (intro stop.during_ignore be_basic let_be.steady_steps)

lemma stop_CreateComponentJob: "stop.during dep sel ns vol 2 (CreateComponentJob ns' spec) (\<lambda>_. 0)"
  unfolding CreateComponentJob_def
  by (auto intro!: stop.during_Return stop_create_job stop.during_check be_basic let_be.steady_steps)

lemma be_wait_ready: "always (leaves_be ns dep vol) (WaitForComponentDeploymentReady ns' name t)"
  by (rule let_be.steady_waits)

lemma stop_acl_job:
  "stop.during dep (ns, at_selector (vtaAclTargetFor s)) ns vol 1 (acl_job o' ns s cmd) (\<lambda>_. 0)"
  unfolding acl_job_def Let_def
  by (rule stop.during_pbind [OF stop_gone])
     (auto intro!: stop.during_Return be_DeleteComponentJob stop.during_pbind [OF stop_CreateComponentJob]
        stop.during_pbind [OF stop.during_calm [OF let_be.steady_WaitForJob, where f = "\<lambda>_. 0"]]
        stop.during_check let_be.steady_steps split: option.split sum.split)

text \<open>What the lease does leaves the window alone.\<close>

lemma be_lease:
  "stepping (leaves_be ns dep vol) (TryLock r i)" "stepping (leaves_be ns dep vol) (Unlock r i)"
  "stepping (leaves_be ns dep vol) (releaseVtaAclMaintenance i t)" "stepping (leaves_be ns dep vol) (acquireVtaAclMaintenance i t)"
  by (auto simp: TryLock_def Unlock_def releaseVtaAclMaintenance_def acquireVtaAclMaintenance_def take_lease_def
      stepping_def wp_def ret_def bnd_def exec_def exec_count_def interact_def let_be.idle intro!: be_same)

lemma be_release: "always (leaves_be ns dep vol) p \<Longrightarrow> always (leaves_be ns dep vol) (release r i t p)"
  unfolding release_def by (intro always_ignore be_lease)

lemma be_acquire:
  "always (leaves_be ns dep vol) (acquireStackMaintenance o' r i)" "always (leaves_be ns dep vol) (acquireSessionMaintenance o' r i)"
  unfolding acquireSessionMaintenance_def acquireStackMaintenance_def
  by (auto intro!: let_be.steady_rules let_be.steady_steps be_lease be_release split: sum.split)

lemma be_replicas: "stepping (\<lambda>a b. \<not> mounts ns vol a b) (ScaleComponentDeployment ns' name n)"
  unfolding ScaleComponentDeployment_def stepping_def wp_revising
  by (auto simp: revise_def mounts_def split: option.splits)

abbreviation vta_dep :: "string \<Rightarrow> setup_session \<Rightarrow> string \<times> string" where
  "vta_dep ns s \<equiv> (ns, at_deployment (vtaAclTargetFor s))"

abbreviation vta_sel :: "string \<Rightarrow> setup_session \<Rightarrow> string \<times> string" where
  "vta_sel ns s \<equiv> (ns, at_selector (vtaAclTargetFor s))"

lemma stop_restart: "stop.during (vta_dep ns s) sel ns vol 0 (restart_vta ns s) (\<lambda>_. 0)"
  unfolding restart_vta_def
  by (intro stop_touch be_replicas stop.during_Return stop.during_calm [OF be_wait_ready]) simp_all

lemma stop_window: "stop.during (vta_dep ns s) (vta_sel ns s) ns vol 0 (acl_window o' ns s cmd) (\<lambda>_. 0)"
  unfolding acl_window_def
  by (intro stop_scale stop.during_pbind [OF stop_acl_job] stop.during_pbind [OF stop_restart] stop.during_Return) simp_all

lemma stop_release:
  "stop.during dep sel ns vol n p f \<Longrightarrow> stop.during dep sel ns vol n (release r i t p) f"
  unfolding release_def by (intro stop.during_ignore be_lease)

lemma stop_run:
  "stop.during (vta_dep (session_ns o' s) s) (vta_sel (session_ns o' s) s) (session_ns o' s) vol 0 (runVtaAclJob env o' s cmd) (\<lambda>_. 0)"
proof -
  note acquire = stop.during_pbind [OF stop.during_calm [OF be_acquire(2), where f = "\<lambda>_. 0"]]
  show ?thesis unfolding runVtaAclJob_def
    by (intro stop.during_if stop.during_Return acquire stop.during_sum stop_release stop.during_pbind [OF stop_window]) simp_all
qed

lemma window_history:
  assumes "stop.during dep sel ns vol 0 p f" and m: "m < length (moves p ws)"
    and "mounts ns vol (fst (moves p ws ! m)) (snd (moves p ws ! m))"
  shows "\<exists>l k. standing (restarts dep) (stopped dep) (take m (moves p ws)) l \<and> l < k \<and> k < m \<and> k_pods (fst (moves p ws ! k)) sel = []"
proof -
  have "2 \<le> phase_after (stop_phase dep sel) 0 (take m (moves p ws))"
    using stop.during_moves [OF assms(1,2)] assms(3) by (simp add: only_stopped_def)
  then obtain l k where "standing (restarts dep) (stopped dep) (take m (moves p ws)) l" "l < k" "k < length (take m (moves p ws))"
      "k_pods (fst (take m (moves p ws) ! k)) sel = []"
    using phase_history [of "restarts dep" "stopped dep" "\<lambda>d. k_pods d sel = []" "take m (moves p ws)"]
    unfolding stop_phase_def by blast
  with m have "standing (restarts dep) (stopped dep) (take m (moves p ws)) l \<and> l < k \<and> k < m \<and>
      k_pods (fst (moves p ws ! k)) sel = []" by simp
  then show ?thesis by blast
qed

section \<open>The Trust Registry's windows\<close>

lemma fs_names [simp]:
  "fs_name i a = fs_name i b \<longleftrightarrow> a = b" "FSVtaName i = fs_name i ''vta''" "FSVtcName i = fs_name i ''vtc''"
  "FSTrustRegistryName i = fs_name i ''trust-registry''"
  by (simp_all add: fs_name_def FSVtaName_def FSVtcName_def FSTrustRegistryName_def)

lemma be_CreateComponentJob:
  "vol \<notin> pm_ClaimName ` set (cj_PVCMounts spec) \<Longrightarrow> always (leaves_be ns dep vol) (CreateComponentJob ns' spec)"
  unfolding CreateComponentJob_def
  by (auto intro!: let_be.steady_rules be_create be_basic let_be.steady_steps simp: component_job_def new_job_def)

lemma be_delete: "always (leaves_be ns dep vol) p \<Longrightarrow> always (leaves_be ns dep vol) (DeleteComponentJob ns' name p)"
  unfolding DeleteComponentJob_def by (intro let_be.steady_rules be_basic let_be.steady_steps)

lemmas be_work = be_delete be_basic let_be.steady_rules let_be.steady_steps let_be.steady_waiting

lemma be_registry_jobs:
  "always (leaves_be ns dep vol) (PrepareRegistryJob ns' name b)" "always (leaves_be ns dep vol) (FinishRegistryJobs o' ns' names)"
  "always (leaves_be ns dep vol) (CleanupFailedRegistryJobs o' ns' names)"
  unfolding PrepareRegistryJob_def FinishRegistryJobs_def finish_registry_job_def CleanupFailedRegistryJobs_def
    cleanup_registry_job_def job_gone_def
  by (auto intro!: be_work)

lemma be_failure: "(\<And>e. always (leaves_be ns dep vol) (k e)) \<Longrightarrow> always (leaves_be ns dep vol) (with_failure o' ns' name ph reason k)"
  unfolding with_failure_def by (intro be_work)

lemma be_job:
  "vol \<notin> pm_ClaimName ` set mts \<Longrightarrow> always (leaves_be ns dep vol) (registryJob o' ns' s ph img dir command mts inputs)"
  unfolding registryJob_def Let_def
  by (intro be_work be_failure be_registry_jobs be_CreateComponentJob) (simp add: registry_spec_def)

lemma be_phase: "always (leaves_be ns dep vol) (RegistryPhase i ph)"
  unfolding RegistryPhase_def by (intro be_work) (auto intro: be_basic)

lemma be_forget: "always (leaves_be ns dep vol) p \<Longrightarrow> always (leaves_be ns dep vol) (forget_output p)"
  unfolding forget_output_def by (intro be_work)

lemma be_scale: "(ns', name) \<noteq> dep \<Longrightarrow> stepping (leaves_be ns dep vol) (ScaleComponentDeployment ns' name n)"
  unfolding ScaleComponentDeployment_def by (rule be_revising)

lemma be_stopped:
  "fs_name i component \<noteq> snd dep \<Longrightarrow> always (leaves_be ns dep vol) fn \<Longrightarrow>
   always (leaves_be ns dep vol) (registryStopped o' ns' i component fn)"
  unfolding registryStopped_def restart_component_def
  by (auto intro!: be_work be_scale)

text \<open>Jobs in the window of their own component\<close>

lemma stop_job:
  "stop.during dep sel ns vol 2 (registryJob o' ns' s ph img dir command mts inputs) (\<lambda>_. 0)"
proof -
  have create: "stop.during dep sel ns vol 2 (and_then (PrepareRegistryJob ns' name b) (CreateComponentJob ns' spec)) (\<lambda>_. 0)" for name b spec
    unfolding and_then_def
    by (rule stop.during_pbind [OF stop.during_calm [OF be_registry_jobs(1), where f = "\<lambda>_. 2"]])
       (auto intro!: stop.during_Return stop_CreateComponentJob split: option.split)
  show ?thesis unfolding registryJob_def Let_def
    by (rule stop.during_pbind [OF create]) (auto intro!: stop.during_calm be_work be_failure split: option.split)
qed

lemma stop_pbind:
  "stop.during dep sel ns vol n p (\<lambda>_. 0) \<Longrightarrow> (\<And>a. stop.during dep sel ns vol 0 (k a) f) \<Longrightarrow> stop.during dep sel ns vol n (pbind p k) f"
  by (rule stop.during_pbind)

lemma stop_restart_component:
  "stop.during (ns, fs_name i component) sel ns vol 0 (restart_component ns i component) (\<lambda>_. 0)"
  unfolding restart_component_def and_then_def call_all.simps pbind_check pbind.simps option.case
  by (rule stop_touch [OF be_replicas]) (intro stop.during_calm let_be.steady_Return let_be.steady_waits order_refl)+

lemma stop_stopped:
  assumes "stop.during (ns, fs_name i component) (ns, fs_selector component i) ns vol 2 fn (\<lambda>_. 0)"
  shows "stop.during (ns, fs_name i component) (ns, fs_selector component i) ns vol 0 (registryStopped o' ns i component fn) (\<lambda>_. 0)"
proof -
  have inside: "stop.during (ns, fs_name i component) (ns, fs_selector component i) ns vol 1
      (and_then (WaitForComponentPodsGone ns (fs_selector component i) (2 * minute)) fn) (\<lambda>_. 0)"
    unfolding and_then_def by (rule stop.during_pbind [OF stop_gone]) (auto intro!: stop.during_Return assms split: option.split)
  show ?thesis unfolding registryStopped_def try_call_def
    by (intro stop_scale stop_pbind inside stop_restart_component stop.during_option stop.during_Return) simp_all
qed

abbreviation safe :: "string \<Rightarrow> nat \<Rightarrow> string \<Rightarrow> (farm, 'a) prog \<Rightarrow> bool" where
  "safe ns i c p \<equiv> stop.during (ns, fs_name i c) (ns, fs_selector c i) ns (fs_name i c) 0 p (\<lambda>_. 0)"

abbreviation quiet_for :: "string \<Rightarrow> nat \<Rightarrow> string \<Rightarrow> (farm, 'a) prog \<Rightarrow> bool" where
  "quiet_for ns i c \<equiv> always (leaves_be ns (ns, fs_name i c) (fs_name i c))"

lemma safe_calm: "quiet_for ns i c p \<Longrightarrow> safe ns i c p"
  by (rule stop.during_calm) simp_all

lemma safe_pbind: "safe ns i c p \<Longrightarrow> (\<And>a. safe ns i c (k a)) \<Longrightarrow> safe ns i c (pbind p k)"
  by (rule stop_pbind)

lemma safe_check:
  "stepping (leaves_be ns (ns, fs_name i c) (fs_name i c)) m \<Longrightarrow> (\<And>e. safe ns i c (h e)) \<Longrightarrow> (\<And>a. safe ns i c (k a)) \<Longrightarrow>
   safe ns i c (check m h k)"
  by (rule stop.during_check)

lemma safe_Return: "safe ns i c (Return a)"
  by (rule stop.during_Return) simp

lemma safe_option: "safe ns i c p \<Longrightarrow> (\<And>x. safe ns i c (q x)) \<Longrightarrow> safe ns i c (case r of None \<Rightarrow> p | Some x \<Rightarrow> q x)"
  by (simp split: option.split)

lemma safe_sum: "(\<And>x. safe ns i c (p x)) \<Longrightarrow> (\<And>x. safe ns i c (q x)) \<Longrightarrow> safe ns i c (case r of Inl x \<Rightarrow> p x | Inr x \<Rightarrow> q x)"
  by (simp split: sum.split)

lemma safe_prod: "(\<And>x y. safe ns i c (p x y)) \<Longrightarrow> safe ns i c (case r of (x, y) \<Rightarrow> p x y)"
  by (simp split: prod.split)

lemma safe_if: "safe ns i c p \<Longrightarrow> safe ns i c q \<Longrightarrow> safe ns i c (if b then p else q)"
  by simp

lemmas safe_base = safe_pbind safe_Return safe_option safe_sum safe_prod safe_if

lemma safe_seq:
  "safe ns i c p \<Longrightarrow> safe ns i c q \<Longrightarrow> safe ns i c (and_then p q)"
  "safe ns i c p' \<Longrightarrow> (\<And>a. safe ns i c (k a)) \<Longrightarrow> safe ns i c (and_with p' k)"
  "safe ns i c p' \<Longrightarrow> (\<And>a. safe ns i c (k' a)) \<Longrightarrow> safe ns i c (bind_err p' k')"
  "safe ns i c p \<Longrightarrow> safe ns i c q' \<Longrightarrow> safe ns i c (seq_err p q')"
  unfolding and_then_def and_with_def bind_err_def seq_err_def by (intro safe_base; assumption)+

lemma safe_try:
  "stepping (leaves_be ns (ns, fs_name i c) (fs_name i c)) m \<Longrightarrow> (\<And>a. safe ns i c (k a)) \<Longrightarrow> safe ns i c (try_call m k)"
  unfolding try_call_def by (intro safe_check safe_Return)

lemmas safe_rules = safe_seq safe_try safe_check safe_base

text \<open>The windows themselves, whichever component they stop\<close>

lemma safe_window:
  assumes "pm_ClaimName ` set mts = {fs_name i component}"
  shows "safe ns i c (registryStopped o' ns i component (forget_output (registryJob o' ns s ph img dir command mts inputs)))"
proof (cases "component = c")
  case True
  have "stop.during (ns, fs_name i c) (ns, fs_selector c i) ns (fs_name i c) 2
      (forget_output (registryJob o' ns s ph img dir command mts inputs)) (\<lambda>_. 0)"
    unfolding forget_output_def and_with_def
    by (intro stop_pbind stop_job safe_sum safe_Return)
  with True show ?thesis by (simp add: stop_stopped)
next
  case False
  with assms show ?thesis by (intro safe_calm be_stopped be_forget be_job) auto
qed

lemma safe_mount_window:
  "ss_ID s = i \<Longrightarrow> safe ns i c (registryStopped o' ns i ''vta'' (forget_output (registryJob o' ns s ph img dir command [vta_mount i] inputs)))"
  "ss_ID s = i \<Longrightarrow> safe ns i c (registryStopped o' ns i ''vtc'' (forget_output (registryJob o' ns s ph img dir command [vtc_mount i] inputs)))"
  by (intro safe_window; simp add: vta_mount_def vtc_mount_def)+

lemma safe_phase: "safe ns i c (RegistryPhase j ph)"
  by (rule safe_calm [OF be_phase])

lemma safe_finish: "safe ns i c (FinishRegistryJobs o' ns names)"
  by (rule safe_calm [OF be_registry_jobs(2)])

lemma safe_registry_job:
  "c \<in> {''vta'', ''vtc''} \<Longrightarrow> safe ns i c (registryJob o' ns s ph img dir command [] inputs)"
  "c \<in> {''vta'', ''vtc''} \<Longrightarrow> safe ns i c (registryJob o' ns s ph img dir command [registry_mount i] inputs)"
  by (intro safe_calm be_job; auto simp: registry_mount_def)+

lemma safe_calls: "safe ns i c (call_all [call_service, call_cluster])"
  by (intro safe_calm let_be.steady_call_all) (auto intro: let_be.steady_steps)

lemma safe_provision:
  assumes "c \<in> {''vta'', ''vtc''}" "ss_ID s = i" shows "safe ns i c (provisionRegistry env o' ns s)"
  unfolding provisionRegistry_def verify_receipt_def grant_registry_def provision_identity_def Let_def assms(2)
  by (intro safe_rules safe_phase safe_finish safe_calls safe_mount_window safe_registry_job let_be.steady_steps be_basic assms)

lemma be_other_deployment:
  "c \<in> {''vta'', ''vtc''} \<Longrightarrow> cd_Name spec = fs_name i ''trust-registry'' \<Longrightarrow>
   stepping (leaves_be ns (ns, fs_name i c) vol) (CreateComponentDeployment ns spec)"
  "c \<in> {''vta'', ''vtc''} \<Longrightarrow> stepping (leaves_be ns (ns, fs_name i c) vol) (RecoverDeploymentImage ns (fs_name i ''trust-registry'') img)"
  unfolding CreateComponentDeployment_def create_deployment_def RecoverDeploymentImage_def
  by (auto simp: stepping_def wp let_be.idle intro!: be_same split: option.splits)

lemma safe_deploy:
  assumes "c \<in> {''vta'', ''vtc''}" "ss_ID s = i" shows "safe ns i c (deployTrustRegistry env o' ns s)"
  unfolding deployTrustRegistry_def exec_in_pod_def Let_def
  by (rule safe_calm)
     (auto intro!: be_work be_other_deployment simp: assms(2) registry_deployment_def; use assms(1) in auto)

lemma safe_config: "(\<And>x. safe ns i c (k x)) \<Longrightarrow> safe ns i c (registryVtcConfig env wrap k)"
  unfolding registryVtcConfig_def by (intro safe_rules let_be.steady_steps)

lemma safe_restore: "ss_ID s = i \<Longrightarrow> safe ns i c (restoreRegistryVtc o' ns s)"
  unfolding restoreRegistryVtc_def by (simp add: safe_mount_window)

lemma safe_switch: "ss_ID s = i \<Longrightarrow> safe ns i c (switch_vtc env o' ns s)"
  unfolding switch_vtc_def or_restore_def
  by (auto intro!: safe_config safe_rules safe_restore safe_mount_window split: sum.split)

lemma safe_publish:
  assumes "ss_ID s = i" shows "safe ns i c (publishRegistryReferral env o' ns s)"
proof -
  have update: "safe ns i c (update_at_vta env o' s)"
    unfolding update_at_vta_def
    by (auto intro!: safe_rules let_be.steady_steps be_document split: sum.split)
  have wait: "safe ns i c (WaitUntilHostReachable t)" for t
    unfolding WaitUntilHostReachable_def by (intro safe_calm be_work)
  show ?thesis unfolding publishRegistryReferral_def assms
    by (auto intro!: safe_rules let_be.steady_steps update wait safe_mount_window assms split: sum.split prod.split)
qed

lemma safe_recover: 
  assumes "ss_ID s = i" "component \<in> {''vta'', ''vtc''}" shows "safe ns i c (recover_component o' ns s component)"
proof -
  have scale: "safe ns i c (check (ScaleComponentDeployment ns (fs_name i component) 1) h k)"
    if "\<And>e. safe ns i c (h e)" "\<And>a. safe ns i c (k a)" for h :: "err \<Rightarrow> (farm, err option) prog" and k
    by (intro stop_touch be_replicas that)
  show ?thesis unfolding recover_component_def Let_def try_call_def assms(1)
    by (intro scale safe_rules safe_restore safe_calm [OF let_be.steady_waits(1)] assms(1))
qed

lemma safe_until: "(\<And>x. x \<in> set xs \<Longrightarrow> safe ns i c (f x)) \<Longrightarrow> safe ns i c (until_error f xs)"
  by (induction f xs rule: until_error.induct) (auto intro!: safe_rules)

lemma safe_verify: "safe ns i c (verify_registry env o' s)"
  unfolding verify_registry_def
  by (rule safe_calm) (auto intro!: be_work split: sum.split prod.split bool.split)

lemma safe_preflight: "safe ns i c (preflight env o' ns s)"
  unfolding preflight_def Let_def by (auto intro!: safe_config safe_rules let_be.steady_steps split: sum.split)

lemma safe_enable:
  assumes c: "c \<in> {''vta'', ''vtc''}" and "ss_ID s = i" and ns: "ns = session_ns o' s"
  shows "safe ns i c (EnableTrustRegistry env o' s)"
  unfolding EnableTrustRegistry_def after_identity_def Let_def assms(2) ns [symmetric]
  by (auto intro!: safe_rules safe_finish safe_phase safe_preflight safe_provision safe_until safe_recover safe_deploy safe_publish
      safe_switch safe_verify let_be.steady_steps c simp: assms(2))

end
