(* ===== verification/MaintenanceProps.thy ===== *)
theory MaintenanceProps
  imports Windows StackReady
begin

text \<open>
  What holds of the maintenance of a running stack: jobs find their component stopped, a stopped VTA
  comes back or the caller is told, and a recovery starts exactly from a failed deployment.
\<close>

section \<open>Coming back\<close>

definition stops :: "string \<times> string \<Rightarrow> farm \<Rightarrow> farm \<Rightarrow> bool" where
  "stops dep a b \<longleftrightarrow> changes dep a b \<and> stopped dep b"

definition is_ready :: "string \<times> string \<Rightarrow> farm \<Rightarrow> bool" where
  "is_ready dep d \<longleftrightarrow> (\<exists>x. k_deployments d dep = Some x \<and> 0 < dp_ReadyReplicas x)"

text \<open>Phase 0: stopped by this goroutine; 1: back at one replica; 2: and seen ready since.\<close>

definition up_phase :: "string \<times> string \<Rightarrow> farm phases" where
  "up_phase dep = two_step (stops dep) (replicas_are 1 dep) (is_ready dep)"

lemma up_phase_step:
  "up_phase dep n a b =
     (if k_deployments b dep \<noteq> k_deployments a dep \<and> stopped dep b then 0
      else if n = 0 then (if replicas_are 1 dep b then 1 else 0)
      else if is_ready dep a then max 2 n else n)"
  by (simp add: up_phase_def two_step_def stops_def changes_def)

interpretation up: phases "up_phase dep" "\<lambda>_ _ _. True" "leaves_be ns dep []" for dep ns
  by unfold_locales (auto simp: up_phase_def leaves_be_def stops_def changes_def intro!: two_step_mono two_step_up)

lemma up_scale_down:
  assumes "\<And>e. up.during (ns, name) 2 (h e) f" "\<And>x. up.during (ns, name) 0 (k x) f"
  shows "up.during (ns, name) 2 (check (ScaleComponentDeployment ns name 0) h k) f"
proof -
  have higher: "up.during (ns, name) n p f \<Longrightarrow> n \<le> m \<Longrightarrow>
      phased (up_phase (ns, name)) (\<lambda>_ _ _. True) m p (\<lambda>a m. f a \<le> m)" for n m p
    using up.during_higher [of "(ns, name)" n p f m] by (simp add: up.during_def)
  show ?thesis unfolding up.during_def phased_check ScaleComponentDeployment_def wp_revising
    by (auto simp: revise_def up_phase_step replicas_are_def intro!: higher [OF assms(1)] higher [OF assms(2)] split: option.splits)
qed

lemma up_scale_up:
  assumes "\<And>e. up.during (ns, name) 0 (h e) f" "\<And>x. up.during (ns, name) 1 (k x) f"
  shows "up.during (ns, name) 0 (check (ScaleComponentDeployment ns name 1) h k) f"
proof -
  have higher: "up.during (ns, name) n p f \<Longrightarrow> n \<le> m \<Longrightarrow>
      phased (up_phase (ns, name)) (\<lambda>_ _ _. True) m p (\<lambda>a m. f a \<le> m)" for n m p
    using up.during_higher [of "(ns, name)" n p f m] by (simp add: up.during_def)
  show ?thesis unfolding up.during_def phased_check ScaleComponentDeployment_def wp_revising
    by (auto simp: revise_def up_phase_step replicas_are_def intro!: higher [OF assms(1)] higher [OF assms(2)] split: option.splits)
qed

lemma up_wait:
  "up.during (ns, name) 1 (WaitForComponentDeploymentReady ns name t) (\<lambda>r. if r = None then 2 else 0)"
proof -
  let ?body = "check (interact LibraryFailure (\<lambda>w. (k_deployments (tabs w) (ns, name), tabs w))) (\<lambda>_. Return None)
      (\<lambda>r. case r of Some d \<Rightarrow> if 0 < dp_ReadyReplicas d then Return (Some None) else Return None | None \<Rightarrow> Return None)
    :: (farm, err option option) prog"
  have body: "up.during (ns, name) 1 ?body (\<lambda>r. if r = Some None then 2 else 1 :: nat)"
    unfolding up.during_def phased_check
    by (auto simp: wp up_phase_step is_ready_def split: option.splits)
  have poll: "up.during (ns, name) 1 (poll_each n dl ?body (Some e) (Some e')) (\<lambda>r. if r = None then 2 else 0)" for n dl e e'
  proof (induction n)
    case 0
    show ?case unfolding poll_each.simps
      by (rule up.during_pbind [OF body])
         (auto intro!: up.during_Return up.during_check let_be.steady_steps split: option.split)
  next
    case (Suc n)
    show ?case unfolding poll_each.simps at_time_def
      by (rule up.during_pbind [OF body])
         (auto intro!: up.during_Return up.during_check let_be.steady_steps Suc simp del: One_nat_def split: option.split)
  qed
  show ?thesis unfolding WaitForComponentDeploymentReady_def at_time_def
    by (intro up.during_check let_be.steady_steps poll)
qed

lemma up_restart: "up.during (vta_dep ns s) 0 (restart_vta ns s) (\<lambda>r. if r = None then 2 else 0)"
  unfolding restart_vta_def by (intro up_scale_up up.during_Return up_wait) simp

lemma acl_volume_named: "at_pvc (vtaAclTargetFor s) \<noteq> []"
  by (simp add: vtaAclTargetFor_def fs_name_def VtaPVCName_def)

lemma calm_acl_job: "always (leaves_be ns dep []) (acl_job o' ns s cmd)"
  using acl_volume_named [of s] unfolding acl_job_def Let_def
  by (auto intro!: be_work be_CreateComponentJob simp: acl_spec_def)

lemma up_window: "up.during (vta_dep ns s) 2 (acl_window o' ns s cmd) (\<lambda>r. if ar_RestartErr r = None then 2 else 0)"
proof -
  have job: "up.during (vta_dep ns s) 0 (acl_job o' ns s cmd) (\<lambda>_. 0)"
    by (rule up.during_calm [OF calm_acl_job [of ns "vta_dep ns s"]]) simp
  show ?thesis unfolding acl_window_def
    by (intro up_scale_down up.during_pbind [OF job] up.during_pbind [OF up_restart] up.during_Return)
       (auto simp: acl_refusal_def split: sum.split)
qed

lemma up_run:
  "up.during (vta_dep (session_ns o' s) s) 2 (runVtaAclJob env o' s cmd) (\<lambda>r. if ar_RestartErr r = None then 2 else 0)"
proof -
  note acquire = up.during_pbind [OF up.during_calm [OF be_acquire(2), where f = "\<lambda>_. 2"]]
  show ?thesis unfolding runVtaAclJob_def release_def
    by (intro up.during_if up.during_Return acquire up.during_sum up.during_pbind [OF up_window] up.during_ignore be_lease)
       (simp_all add: acl_refusal_def)
qed

section \<open>Recovery\<close>

lemma duplicate_none: "duplicate_component seen cis = None \<Longrightarrow> distinct (map ci_Component cis) \<and> set (map ci_Component cis) \<inter> set seen = {}"
  by (induction seen cis rule: duplicate_component.induct) (auto split: if_splits)

lemma required_distinct: "distinct (recoveryComponentsForSession mode registry)"
  by (simp add: recoveryComponentsForSession_def)

text \<open>Go visits every key of a map, in some order.\<close>

definition visits_all :: "maint_env \<Rightarrow> bool" where
  "visits_all env \<longleftrightarrow> (\<forall>xs. set (me_MapOrder env xs) = set xs)"

lemma components_valid:
  assumes "visits_all env" "validateRecoveryComponents env mode registry cis = None"
  shows "distinct (map ci_Component cis) \<and> set (map ci_Component cis) = set (recoveryComponentsForSession mode registry)"
proof -
  from assms(2) have "duplicate_component [] cis = None"
    and missing: "filter (\<lambda>c. c \<notin> set (map ci_Component cis)) (recoveryComponentsForSession mode registry) = []"
    and extra: "filter (\<lambda>c. c \<notin> set (recoveryComponentsForSession mode registry)) (me_MapOrder env (map ci_Component cis)) = []"
    by (auto simp: validateRecoveryComponents_def Let_def split: if_splits option.splits)
  then have "distinct (map ci_Component cis)" using duplicate_none by blast
  moreover from missing have "set (recoveryComponentsForSession mode registry) \<subseteq> set (map ci_Component cis)"
    by (auto simp: filter_empty_conv)
  moreover from extra assms(1) have "set (map ci_Component cis) \<subseteq> set (recoveryComponentsForSession mode registry)"
    by (auto simp: filter_empty_conv visits_all_def)
  ultimately show ?thesis by blast
qed

lemma recovery_stage:
  "recoveryForStage mode stage = Some st \<Longrightarrow> stage = st"
  "recoveryForStage mode stage = Some st \<Longrightarrow> st \<in> set fsResumeDeployment"
  by (auto simp: recoveryForStage_def fsResumeDeployment_def split: if_splits)

text \<open>What a recovery that was accepted found, and what it wrote.\<close>

definition recovers :: "setup_session \<Rightarrow> string \<Rightarrow> component_image list \<Rightarrow> int \<Rightarrow> farm \<Rightarrow> farm \<Rightarrow> bool" where
  "recovers s stage cis now a b \<longleftrightarrow>
     (\<exists>locked. session_row (ss_ID s) a = Some locked \<and> ss_Mode locked = ss_Mode s \<and> FailureStage locked = stage \<and>
        distinct (map ci_Component cis) \<and>
        set (map ci_Component cis) = set (recoveryComponentsForSession (ss_Mode s) (ss_TrustRegistryEnabled locked)) \<and>
        active_tasks (ss_ID s) a = 0) \<and>
     stage \<in> set fsResumeDeployment \<and>
     b = a\<lparr>t_sessions := update_where (\<lambda>r. ss_ID r = ss_ID s \<and> ss_Status r = ''failed'') (recovery_row stage cis now) (t_sessions a)\<rparr>"

lemma session_row_ID: "session_row i d = Some s \<Longrightarrow> ss_ID s = i"
  unfolding session_row_def by (auto dest: find_SomeD)

lemma start_recovers:
  assumes "visits_all env"
  shows "yields d (start_recovery env s stage cis now) (\<lambda>st d'. st = stage \<and> recovers s stage cis now d d')"
  unfolding start_recovery_def conflict_def
  by (intro y_rules)
     (use components_valid [OF assms] in \<open>auto simp: recovers_def dest: recovery_stage session_row_ID\<close>)

lemma recovery_moves:
  assumes "visits_all env"
  shows "start_recovery env s stage cis now w = (r, w') \<Longrightarrow>
    (case r of Inl _ \<Rightarrow> tabs w' = tabs w | Inr st \<Rightarrow> st = stage \<and> recovers s stage cis now (tabs w) (tabs w'))"
proof (cases r)
  case (Inl e)
  assume "start_recovery env s stage cis now w = (r, w')"
  with Inl show ?thesis
    unfolding start_recovery_def by (auto simp: transaction_def split: prod.splits sum.splits)
next
  case (Inr st)
  assume "start_recovery env s stage cis now w = (r, w')"
  with Inr have "start_recovery env s stage cis now w = (Inr st, w')" by simp
  from yieldsD [OF start_recovers [OF assms] this] Inr show ?thesis by simp
qed

lemma images_refused: "recovery_images o' tags s cis = Some x \<Longrightarrow> x \<noteq> RecoveryStarted st cis'"
  by (induction o' tags s cis rule: recovery_images.induct) (auto split: if_splits option.splits sum.splits)

lemma recoverSession_cases:
  "(\<exists>r. recoverSession env o' tags s request = Return (r, []) \<and> (\<forall>st cis. r \<noteq> RecoveryStarted st cis)) \<or>
   (\<exists>stage cis. request = Inr cis \<and> recoverSession env o' tags s request = recovery_call env s stage cis)"
proof (cases request)
  case (Inl m)
  then show ?thesis by (auto simp: recoverSession_def)
next
  case (Inr cis)
  show ?thesis
  proof (cases "\<not> me_K8s env \<or> \<not> me_Orch env")
    case False
    then have rest: "recoverSession env o' tags s request = (case recoveryForStage (ss_Mode s) (FailureStage s) of
        None \<Rightarrow> Return (AclRefused 409 ''session did not fail at a recoverable setup stage'', [])
      | Some stage \<Rightarrow>
          (case validateRecoveryComponents env (ss_Mode s) (ss_TrustRegistryEnabled s) cis of
             Some m \<Rightarrow> Return (AclRefused 400 m, [])
           | None \<Rightarrow> (case recovery_images o' tags s cis of
                Some refusal \<Rightarrow> Return (refusal, [])
              | None \<Rightarrow> recovery_call env s stage cis)))"
      using Inr False by (simp add: recoverSession_def Let_def)
    show ?thesis unfolding rest using Inr images_refused [of o' tags s cis] by (auto split: option.split)
  qed (simp add: recoverSession_def Let_def)
qed

lemma recovery_call_run:
  assumes "visits_all env"
  shows "(\<forall>(a, b) \<in> set (moves (recovery_call env s stage cis) ws). b = a \<or> (\<exists>now. recovers s stage cis now a b)) \<and>
    (\<forall>st cis' ids. result (recovery_call env s stage cis) ws = Some (RecoveryStarted st cis', ids) \<longrightarrow>
       st = stage \<and> cis' = cis \<and> ids = [ss_ID s] \<and>
       (\<exists>now. \<exists>(a, b) \<in> set (moves (recovery_call env s stage cis) ws). recovers s stage cis now a b))"
proof (cases ws)
  case Nil
  then show ?thesis by (simp add: recovery_call_def at_time_def check_def)
next
  case (Cons w ws')
  show ?thesis
  proof (cases ws')
    case Nil
    with Cons show ?thesis
      by (auto simp: recovery_call_def at_time_def check_def wall_def)
  next
    case inner: (Cons w' ws'')
    obtain r v where run: "start_recovery env s stage cis (clock w (tick w)) w' = (r, v)" by force
    from recovery_moves [OF assms run] Cons inner run show ?thesis
      by (cases r) (auto simp: recovery_call_def at_time_def check_def wall_def split: err.split)
  qed
qed

section \<open>Properties\<close>

text \<open>
  C37. A maintenance job that mounts a volume is created only in the window of its own run: the run left the
  VTA's Deployment at no replicas, did not scale it up again, and after that came upon no pod of the
  VTA. This holds whatever other goroutines and replicas do in between, and whatever calls fail.
\<close>

theorem acl_job_finds_vta_stopped:
  assumes "ns = session_ns o' s" and "ms = moves (runVtaAclJob env o' s cmd) ws"
    and "m < length ms" and "mounts ns vol (fst (ms ! m)) (snd (ms ! m))"
  shows "\<exists>l k. standing (restarts (vta_dep ns s)) (stopped (vta_dep ns s)) (take m ms) l \<and>
    l < k \<and> k < m \<and> k_pods (fst (ms ! k)) (vta_sel ns s) = []"
  using window_history [OF stop_run [of o' s vol env cmd]] assms by simp

text \<open>
  C38. Enabling the Trust Registry creates a job on the volume of the VTA or of the VTC only in a window of
  that component: its Deployment was left at no replicas by this run and not scaled up since, and the
  run then came upon none of its pods.
\<close>

theorem registry_job_finds_component_stopped:
  assumes "c \<in> {''vta'', ''vtc''}" and "ns = session_ns o' s" and "i = ss_ID s"
    and "ms = moves (EnableTrustRegistry env o' s) ws"
    and "m < length ms" and "mounts ns (fs_name i c) (fst (ms ! m)) (snd (ms ! m))"
  shows "\<exists>l k. standing (restarts (ns, fs_name i c)) (stopped (ns, fs_name i c)) (take m ms) l \<and>
    l < k \<and> k < m \<and> k_pods (fst (ms ! k)) (ns, fs_selector c i) = []"
  using window_history [OF safe_enable [of c s i ns o' env]] assms by simp

text \<open>
  C39. A maintenance run that reports no restart error has undone every stop it made: after each of its
  moves that put the VTA at no replicas there is one after which the VTA is back at one replica, and
  a later one that came upon a ready replica.
\<close>

theorem vta_comes_back_or_is_reported:
  assumes "dep = vta_dep (session_ns o' s) s" and "ms = moves (runVtaAclJob env o' s cmd) ws"
    and "result (runVtaAclJob env o' s cmd) ws = Some run" and "ar_RestartErr run = None"
    and "l < length ms" and "stops dep (fst (ms ! l)) (snd (ms ! l))"
  shows "\<exists>u k. l < u \<and> u < k \<and> k < length ms \<and> replicas_are 1 dep (snd (ms ! u)) \<and> is_ready dep (fst (ms ! k))"
proof -
  have "2 \<le> phase_after (up_phase dep) 2 ms"
    using phased_result [OF up_run [unfolded up.during_def] assms(3)] assms(1,2,4) by simp
  then show ?thesis using assms(5,6) unfolding up_phase_def by (rule phase_recovered)
qed

text \<open>
  C40. A recovery request changes nothing unless it starts a recovery: the session had failed at a
  deployment stage, no upgrade was active, and the request has exactly one image for each component of
  the session; then it writes these images and, as the status, the stage that failed, one that start-up
  resumes, and nothing else. When the reply says a recovery started it did, and the recovery of this
  session is launched.
\<close>

theorem recovery_starts_exactly:
  assumes "visits_all env" and "ms = moves (recoverSession env o' tags s request) ws"
  shows "(\<forall>(a, b) \<in> set ms. b = a \<or> (\<exists>stage cis now. request = Inr cis \<and> recovers s stage cis now a b)) \<and>
    (\<forall>stage cis ids. result (recoverSession env o' tags s request) ws = Some (RecoveryStarted stage cis, ids) \<longrightarrow>
       ids = [ss_ID s] \<and> request = Inr cis \<and> (\<exists>now. \<exists>(a, b) \<in> set ms. recovers s stage cis now a b))"
proof -
  consider r where "recoverSession env o' tags s request = Return (r, [])" "\<And>st cis. r \<noteq> RecoveryStarted st cis"
    | stage cis where "request = Inr cis" "recoverSession env o' tags s request = recovery_call env s stage cis"
    using recoverSession_cases [of env o' tags s request] by blast
  then show ?thesis
  proof cases
    case 1
    with assms(2) show ?thesis by simp
  next
    case 2
    from recovery_call_run [OF assms(1), of s stage cis ws] 2 assms(2) show ?thesis by fastforce
  qed
qed

section \<open>Witnesses\<close>

text \<open>A running full stack, whose Deployments have \<open>ready\<close> ready replicas and whose calls fail or not.\<close>

definition maint_session :: setup_session where
  "maint_session = activation_session\<lparr>ss_Status := ''running'', ss_Mode := ModeFullStack\<rparr>"

definition maint_world :: "int \<Rightarrow> bool \<Rightarrow> farm world" where
  "maint_world ready failing =
     (with_tabs ((farm_of (empty_db\<lparr>t_sessions := [maint_session]\<rparr>))
        \<lparr>k_deployments := (\<lambda>_. Some (blank_deployment\<lparr>dp_Replicas := Some 1, dp_ReadyReplicas := ready\<rparr>))\<rparr>)
      (calm_world empty_db (\<lambda>_. 9)))\<lparr>fails := (\<lambda>_. failing)\<rparr>"

definition maint_orch :: orch where
  "maint_orch = activation_orch\<lparr>or_vault := Some ([], []), or_polls := 1\<rparr>"

definition demo_maint :: maint_env where
  "demo_maint = \<lparr>me_Replica = 0, me_K8s = True, me_Orch = True, me_Platform = (\<lambda>_. None), me_Before = (\<lambda>_ _. False),
     me_Fits = (\<lambda>_. True), me_MapOrder = id\<rparr>"

abbreviation "maint_ns \<equiv> session_ns maint_orch maint_session"

definition acl_moves :: "nat \<Rightarrow> (farm \<times> farm) list" where
  "acl_moves n = moves (runVtaAclJob demo_maint maint_orch maint_session aclListCmd) (replicate n (maint_world 1 False))"

lemma acl_moves_job:
  "length (acl_moves 12) = 12 \<and>
   map_option jb_Claims (k_jobs (snd (acl_moves 12 ! 11)) (maint_ns, FSJobVtaACL 7)) = Some [FSVtaName 7] \<and>
   k_jobs (fst (acl_moves 12 ! 11)) (maint_ns, FSJobVtaACL 7) = None"
  by code_simp

lemma mountsI:
  "map_option jb_Claims (k_jobs b (ns, name)) = Some claims \<Longrightarrow> vol \<in> set claims \<Longrightarrow> k_jobs a (ns, name) = None \<Longrightarrow> mounts ns vol a b"
  unfolding mounts_def by (rule exI [of _ name]) auto

theorem acl_job_finds_vta_stopped_witness:
  "\<exists>l k. standing (restarts (vta_dep maint_ns maint_session)) (stopped (vta_dep maint_ns maint_session)) (take 11 (acl_moves 12)) l \<and>
     l < k \<and> k < 11 \<and> k_pods (fst (acl_moves 12 ! k)) (vta_sel maint_ns maint_session) = []"
proof (rule acl_job_finds_vta_stopped [OF refl])
  show "acl_moves 12 = moves (runVtaAclJob demo_maint maint_orch maint_session aclListCmd) (replicate 12 (maint_world 1 False))"
    by (simp add: acl_moves_def)
  show "11 < length (acl_moves 12)" using acl_moves_job by simp
  show "mounts maint_ns (FSVtaName 7) (fst (acl_moves 12 ! 11)) (snd (acl_moves 12 ! 11))"
    using acl_moves_job by (intro mountsI [where name = "FSJobVtaACL 7" and claims = "[FSVtaName 7]"]) simp_all
qed

text \<open>The VTC does not become ready again, so its configuration is put back.\<close>

definition registry_worlds :: "farm world list" where
  "registry_worlds =
     replicate 11 (maint_world 1 False) @ replicate 3 (maint_world 0 False) @ maint_world 0 True # replicate 5 (maint_world 0 False)"

definition registry_moves :: "(farm \<times> farm) list" where
  "registry_moves = moves (EnableTrustRegistry (sk_reg demo_conf) maint_orch maint_session) registry_worlds"

lemma registry_moves_job:
  "length registry_moves = 20 \<and>
   map_option jb_Claims (k_jobs (snd (registry_moves ! 19)) (maint_ns, RegistryJobName 7 ''restore'')) = Some [fs_name 7 ''vtc''] \<and>
   k_jobs (fst (registry_moves ! 19)) (maint_ns, RegistryJobName 7 ''restore'') = None"
  by code_simp

theorem registry_job_finds_component_stopped_witness:
  "\<exists>l k. standing (restarts (maint_ns, fs_name 7 ''vtc'')) (stopped (maint_ns, fs_name 7 ''vtc'')) (take 19 registry_moves) l \<and>
     l < k \<and> k < 19 \<and> k_pods (fst (registry_moves ! k)) (maint_ns, fs_selector ''vtc'' 7) = []"
proof (rule registry_job_finds_component_stopped [OF _ refl])
  show "''vtc'' \<in> {''vta'', ''vtc''}" by simp
  show "7 = ss_ID maint_session" by (simp add: maint_session_def activation_session_def sample_session_def blank_session_def)
  show "registry_moves = moves (EnableTrustRegistry (sk_reg demo_conf) maint_orch maint_session) registry_worlds"
    by (simp add: registry_moves_def)
  show "19 < length registry_moves" using registry_moves_job by simp
  show "mounts maint_ns (fs_name 7 ''vtc'') (fst (registry_moves ! 19)) (snd (registry_moves ! 19))"
    using registry_moves_job
    by (intro mountsI [where name = "RegistryJobName 7 ''restore''" and claims = "[fs_name 7 ''vtc'']"]) simp_all
qed

definition acl_result :: "acl_run option" where
  "acl_result = result (runVtaAclJob demo_maint maint_orch maint_session aclListCmd) (replicate 40 (maint_world 1 False))"

lemma acl_result_ok:
  "map_option ar_RestartErr acl_result = Some None \<and> 5 < length (acl_moves 40) \<and>
   map_option dp_Replicas (k_deployments (snd (acl_moves 40 ! 5)) (vta_dep maint_ns maint_session)) = Some (Some 0) \<and>
   map_option dp_Replicas (k_deployments (fst (acl_moves 40 ! 5)) (vta_dep maint_ns maint_session)) = Some (Some 1)"
  by code_simp

theorem vta_comes_back_or_is_reported_witness:
  "\<exists>u k. 5 < u \<and> u < k \<and> k < length (acl_moves 40) \<and>
     replicas_are 1 (vta_dep maint_ns maint_session) (snd (acl_moves 40 ! u)) \<and> is_ready (vta_dep maint_ns maint_session) (fst (acl_moves 40 ! k))"
proof -
  from acl_result_ok obtain run where run: "acl_result = Some run" "ar_RestartErr run = None" by auto
  have "stops (vta_dep maint_ns maint_session) (fst (acl_moves 40 ! 5)) (snd (acl_moves 40 ! 5))"
    using acl_result_ok by (auto simp: stops_def changes_def replicas_are_def)
  then show ?thesis
    using vta_comes_back_or_is_reported [OF refl acl_moves_def, where run = run and l = 5] run acl_result_ok by (simp add: acl_result_def)
qed

definition failed_session :: setup_session where
  "failed_session = maint_session\<lparr>ss_Status := ''failed'', ss_FailedStage := ''deploy_vta''\<rparr>"

definition failed_world :: "farm world" where
  "failed_world = with_tabs (farm_of (empty_db\<lparr>t_sessions := [failed_session]\<rparr>)) (calm_world empty_db (\<lambda>_. 9))"

definition four_images :: "component_image list" where
  "four_images = map (\<lambda>c. \<lparr>ci_Component = c, ci_Image = ''new''\<rparr>) [''vta'', ''mediator'', ''dids'', ''vtc'']"

abbreviation served_images :: tag_lists where
  "served_images \<equiv> (\<lambda>_. Some (Inr [''new'']))"

lemma recovery_accepted:
  "(case result (recoverSession demo_maint maint_orch served_images failed_session (Inr four_images)) [failed_world, failed_world] of
      Some (RecoveryStarted stage _, ids) \<Rightarrow> stage = ''deploy_vta'' \<and> ids = [7] | _ \<Rightarrow> False)"
  by code_simp

theorem recovery_starts_exactly_witness:
  "\<exists>now. \<exists>(a, b) \<in> set (moves (recoverSession demo_maint maint_orch served_images failed_session (Inr four_images)) [failed_world, failed_world]).
     recovers failed_session ''deploy_vta'' four_images now a b"
proof -
  let ?p = "recoverSession demo_maint maint_orch served_images failed_session (Inr four_images)"
  have "visits_all demo_maint" by (simp add: visits_all_def demo_maint_def)
  note all = recovery_starts_exactly [OF this refl, of maint_orch served_images failed_session "Inr four_images" "[failed_world, failed_world]"]
  obtain r ids where run: "result ?p [failed_world, failed_world] = Some (r, ids)"
    using recovery_accepted by (cases "result ?p [failed_world, failed_world]") auto
  then obtain stage cis where "result ?p [failed_world, failed_world] = Some (RecoveryStarted stage cis, ids)" "stage = ''deploy_vta''"
    using recovery_accepted by (cases r) auto
  with conjunct2 [OF all] show ?thesis by blast
qed

end
