(* ===== verification/Spec2Isabelle.thy ===== *)
theory Spec2Isabelle
  imports ConnectionProps PoolProps WalletProps Capacity WebVHProps UpgradeProps SetupProps StackReady MaintenanceProps
begin

text \<open>
  The VTA farm's API server (\<open>src/internal\<close>, Go). The farm runs agents for its users: a VTA alone, or a
  full stack of a VTA, a mediator, a DID host and a VTC, with a Trust Registry beside it. It keeps its
  rows in PostgreSQL, runs its agents as Deployments and Jobs of a Kubernetes cluster, and signs its
  users in with their wallets. The theories below model the code that decides; each definition has the
  name of the function it translates where that is possible.

  \<^bold>\<open>How the code is modelled\<close>

  \<^item> \<open>Prelude\<close>: Go's \<open>strings\<close> on byte strings (\<open>string\<close>), counting and updating of rows.
    \<open>Json\<close>, \<open>GoTime\<close>, \<open>Base58\<close>, \<open>Sha256\<close>, \<open>Regex\<close>: what the code uses of Go's library, executable.
    The JSON lexer is a parameter; unmarshalling into a struct is modelled.
  \<^item> \<open>Model\<close>: the tables (\<open>internal/model\<close>), one record per table in \<open>db\<close>, and the methods of a session.
    \<open>Cluster\<close>: \<open>farm\<close> is the database with the cluster's objects, the advisory locks and what the
    processes hold in memory.
  \<^item> \<open>Tx\<close>: a function that talks to the database is a state and exception monad over a \<open>world\<close>: the
    tables and, per interaction (\<open>tick\<close>), whether it fails, the clock, randomness and fresh ids. A
    theorem quantifies over all of it, so each statement may fail on its own. A transaction is atomic
    and rolls back on an error. \<open>Steps\<close>: what an operation may change (\<open>stepping\<close>, locale
    \<open>table_order\<close>) and what it returns (\<open>yields\<close>).
  \<^item> \<open>Goroutines\<close>: code that interleaves is a \<open>prog\<close>, an inductive tree of actions; between two actions
    anything else may happen to the world. \<open>within\<close> bounds its length, \<open>rg\<close> (locale \<open>rely\<close>) is
    rely-guarantee. \<open>Runs\<close>: its \<open>moves\<close> and \<open>result\<close> over the worlds it finds, and guarantees with a memory
    (locale \<open>memory\<close>). \<open>Windows\<close>: guarantees by phases (locale \<open>phases\<close>).
  \<^item> \<open>Leases\<close>: locale \<open>row_lease\<close>, the contract of the redeem polls.

  \<^bold>\<open>Parts and their theories\<close>

  \<^item> DIDs: \<open>DidResolver\<close> (\<open>didkey\<close>, \<open>didresolver\<close>), \<open>WebVH\<close> and \<open>WebVHProps\<close> (\<open>webvh/log.go\<close>). A
    \<open>did:key\<close> and its key determine each other; a selected key is listed and controlled by the DID; a
    validated history is chained and signed by keys it authorised before.
  \<^item> Wallet requests on a session: \<open>Connection\<close>, \<open>ConnectionSteps\<close>, \<open>ConnectionProps\<close>
    (\<open>connection/store.go\<close>). \<open>ConnectionSteps\<close> is the abstract machine of one request; the operations
    refine it. The pool and the sign-in read the same rows.
  \<^item> Pools of prebuilt VTAs: \<open>Pool\<close>, \<open>PoolClaims\<close>, \<open>PoolBuild\<close> (\<open>pool/store.go\<close>, \<open>pool/runner.go\<close>,
    \<open>publicid\<close>), with \<open>PoolSteps\<close>, \<open>PoolAdmission\<close>, \<open>PoolProps\<close>. Insert loops give up after the code's
    five attempts, which are the fuel of \<open>user_attempts\<close> and its siblings.
  \<^item> Sign-in with a wallet: \<open>Replay\<close> (\<open>trusttask/replay.go\<close>, refines a map of executions),
    \<open>WalletAuth\<close> (\<open>walletauth/store.go\<close>, \<open>middleware/auth.go\<close>), \<open>WalletLogin\<close>
    (\<open>handler/trust_task_oob.go\<close>), with \<open>WalletLoginProps\<close> (the state machine of a request) and
    \<open>WalletProps\<close>.
  \<^item> Capacity: \<open>Capacity\<close> (\<open>capacity/capacity.go\<close>); at most \<open>maxSessions\<close> = 100000 sessions are placed,
    the loop bound of the code. The estimate and the reservation agree.
  \<^item> Image upgrades: \<open>Upgrade\<close>, \<open>UpgradeApi\<close> (\<open>upgrade/runner.go\<close>, \<open>k8s/upgrade.go\<close>, the handlers), with
    \<open>machine\<close>, a step relation of schedulers, task goroutines, calls, the rest of the farm, crashes and
    restarts. \<open>UpgradeSteps\<close> (rely-guarantee of a task), \<open>UpgradeCalls\<close>, \<open>UpgradeMachine\<close> (invariant),
    \<open>UpgradeProps\<close>. A task ends within \<open>task_steps\<close> = 377 actions: two rollouts of at most 61 polls
    of three actions, and the writes around them.
  \<^item> VTA-only sessions: \<open>SetupText\<close> (templates, parsers, names), \<open>SetupFlow\<close>, \<open>ParkedVta\<close>, \<open>Activation\<close>
    (\<open>setup/orchestrator.go\<close>, \<open>initial_provision.go\<close>, \<open>pool_prewarm.go\<close>, \<open>pool_activation.go\<close>,
    \<open>k8s/vta_resources.go\<close>, the gate's handler), with \<open>SetupTextProps\<close>, \<open>FlowSteps\<close>, \<open>ActivationProps\<close>,
    \<open>SetupProps\<close>. A pooled VTA is prewarmed for a request and activated only for its confirmed
    administrator.
  \<^item> Full stacks: \<open>StackText\<close>, \<open>Jobs\<close>, \<open>FullStack\<close>, \<open>FullStackFinish\<close> (\<open>setup/orchestrator_fullstack.go\<close>,
    \<open>orchestrator_vtc.go\<close>, \<open>orchestrator_recovery.go\<close>), \<open>Registry\<close> and \<open>RegistryEnable\<close>
    (\<open>setup/trust_registry*.go\<close>). \<open>StackSteps\<close> gives the rules, \<open>StackOrder\<close> the table of stages the
    pipeline refines, \<open>StackKeeps\<close> what leaves a status alone, \<open>StackReturns\<close> the bounds, \<open>StackReady\<close>
    what a goroutine has seen, \<open>StackProps\<close> the resumption after a restart.
  \<^item> Maintenance of a running stack: \<open>AclText\<close>, \<open>Maintenance\<close> (\<open>handler/admin_platform_stack_admins.go\<close>,
    \<open>admin_platform_stack_grant.go\<close>, \<open>setup_acl.go\<close>, \<open>setup_admins.go\<close>, \<open>mobile_additional.go\<close>,
    \<open>setup_trust_registry.go\<close>, \<open>setup_recovery.go\<close>), with \<open>Windows\<close> and \<open>MaintenanceProps\<close>: a job finds
    the component whose volume it mounts stopped, a stopped VTA comes back or the caller is told, and
    a recovery starts exactly from a failed deployment.

  The parts meet in the rows and objects of \<open>farm\<close>: the pool and the handlers reserve a session and a
  request of \<open>Connection\<close>; its confirmation lets the orchestrator provision; upgrades, maintenance and
  recovery act on the Deployments the orchestrator created, and exclude each other by the task rows,
  the registry's state and the maintenance lease.

  \<^bold>\<open>Bounds\<close>

  Waits are loops with the number of polls their deadline allows, after which the clock is past it:
  61 or 60 polls for two minutes, 120 for one minute of a job's deletion. \<open>WaitForJob\<close> has no deadline in
  the code; \<open>or_polls\<close> is the number of polls the process lives to make, an arbitrary number, and
  running out of them is the end of its context. \<open>1000 + 2 * or_polls\<close> actions suffice for a goroutine
  of a VTA-only session, \<open>50000 + 120 * or_polls\<close> for one of a full stack.

  \<^bold>\<open>Parameters\<close>

  Code outside \<open>src/\<close> is an argument of what uses it: the JSON and TOML libraries, JSON
  canonicalization, Ed25519, the JWT and trust-tasks libraries, the answers of DNS, certificates,
  Vault, the DID hosts and the registries' tag lists, the commands run in a pod. In the cluster
  everything the code does not write belongs to the environment.
  GORM's automatic \<open>updated_at\<close> is not kept where the code does not set the column, and the checks
  whether a table exists are taken to succeed.

  \<^bold>\<open>Not modelled\<close>

  The HTTP transport, routing, configuration and request binding (\<open>router\<close>, \<open>config\<close>, \<open>main.go\<close>,
  \<open>cmd\<close>): the handlers take the bound request. The clients of Vault, Cloudflare, the container registry
  and the cluster, beyond names and decisions: they translate calls. The WebAuthn ceremonies and the
  dispatch of generic trust tasks (\<open>handler/passkey.go\<close>, \<open>handler/trust_task.go\<close>), which libraries
  decide. Views that render rows or metrics (\<open>status.go\<close>, \<open>monitor.go\<close>, \<open>dashboard.go\<close>, \<open>setup_export.go\<close>,
  \<open>setup_resources.go\<close>), load tests, and row CRUD without a state machine (\<open>domain.go\<close>, \<open>invitation.go\<close>,
  \<open>signup.go\<close>, \<open>user.go\<close>). The creation of sessions in \<open>setup.go\<close> and \<open>setup_fullstack.go\<close>, the re-issue
  of enrolment links and the configuration editor (\<open>setup_vtc.go\<close>, \<open>setup_config.go\<close>), which use the
  window of \<open>Maintenance\<close> around texts of their own. Log lines and log streaming, and the teardown of
  Vault secrets.
\<close>

end
